(* ===== verification/Prelude.thy ===== *)
theory Prelude
  imports Main
begin

text \<open>
  What every component theory shares.
  \<^item> The string and null conventions of the TypeScript sources: truthiness of optional
    strings, the operators \<^verbatim>\<open>||\<close> and \<^verbatim>\<open>??\<close>, \<^verbatim>\<open>toLowerCase\<close>, \<^verbatim>\<open>trim\<close>,
    \<^verbatim>\<open>includes\<close>, \<^verbatim>\<open>startsWith\<close>, \<^verbatim>\<open>split\<close> and \<^verbatim>\<open>join\<close>.
  \<^item> The effect of an \<^verbatim>\<open>async\<close> method: a function from the state to a result
    and the next state, where the result is an exception or a value. An exception keeps the
    writes made before it, as in the source: nothing is rolled back.
  \<^item> Row updates on a table held as a list.
  \<^item> The locale \<open>step_order\<close>: a reflexive and transitive relation between the state
    before and the state after, with one lemma per effect combinator. Every invariant and
    every frame property of a handler is an instance of it.
\<close>

named_theorems io_simps \<open>unfolding rules of the effect combinators\<close>

section \<open>Exceptions\<close>

text \<open>
  The exceptions the modelled code throws or lets through: the NestJS HTTP exceptions with
  their message, a plain \<^verbatim>\<open>Error\<close>, the two Prisma error codes the code distinguishes (\<open>P2002\<close>, a unique
  constraint; \<open>P2025\<close>, an update of a row that does not exist), Prisma's rejection of a missing
  required column, the language's own \<^verbatim>\<open>TypeError\<close> for a property of
  \<^verbatim>\<open>undefined\<close>, and an error of a provider's SDK that reaches the caller as it is.
\<close>

record sdk_error =
  se_isError :: bool
  se_error_description :: "string option"
  se_description :: "string option"
  se_message :: "string option"
  se_statusCode :: "int option"
  se_status :: "int option"
  se_code :: "string option"

datatype exn =
    BadRequestException string
  | NotFoundException string
  | ForbiddenException string
  | UnauthorizedException string
  | InternalServerErrorException string
  | ConflictException string
  | PlainError string
  | PrismaP2002
  | PrismaP2025
  | PrismaValidation
  | TypeErrorException string
  | SdkException sdk_error

section \<open>Optional strings and string functions\<close>

definition js_truthy :: "string option \<Rightarrow> bool" where
  "js_truthy v = (case v of None \<Rightarrow> False | Some s \<Rightarrow> s \<noteq> [])"

text \<open>\<^verbatim>\<open>a || b\<close> on optional strings: the empty string and null fall through.\<close>

definition js_or :: "string option \<Rightarrow> string option \<Rightarrow> string option" where
  "js_or a b = (if js_truthy a then a else b)"

text \<open>\<^verbatim>\<open>a || 'literal'\<close>: the value with a default.\<close>

definition js_or_str :: "string option \<Rightarrow> string \<Rightarrow> string" where
  "js_or_str a d = (if js_truthy a then the a else d)"

text \<open>\<^verbatim>\<open>a ?? b\<close>: only null and undefined fall through.\<close>

definition js_nullish :: "'a option \<Rightarrow> 'a option \<Rightarrow> 'a option" where
  "js_nullish a b = (case a of None \<Rightarrow> b | Some x \<Rightarrow> Some x)"

definition js_default :: "'a option \<Rightarrow> 'a \<Rightarrow> 'a" where
  "js_default a d = (case a of None \<Rightarrow> d | Some x \<Rightarrow> x)"

text \<open>\<^verbatim>\<open>a || 0\<close> on an optional number.\<close>

definition js_num_or :: "int option \<Rightarrow> int \<Rightarrow> int" where
  "js_num_or a d = (case a of None \<Rightarrow> d | Some n \<Rightarrow> if n = 0 then d else n)"

lemma js_truthy_simps [simp]:
  "\<not> js_truthy None"
  "js_truthy (Some s) \<longleftrightarrow> s \<noteq> []"
  by (simp_all add: js_truthy_def)

lemma js_truthyE:
  assumes "js_truthy v"
  obtains s where "v = Some s" and "s \<noteq> []"
  using assms by (cases v) auto

lemma js_or_simps [simp]:
  "js_or None b = b"
  "js_or (Some []) b = b"
  "s \<noteq> [] \<Longrightarrow> js_or (Some s) b = Some s"
  by (simp_all add: js_or_def)

lemma js_or_str_simps [simp]:
  "js_or_str None d = d"
  "js_or_str (Some []) d = d"
  "s \<noteq> [] \<Longrightarrow> js_or_str (Some s) d = s"
  by (simp_all add: js_or_str_def)

lemma js_nullish_simps [simp]:
  "js_nullish None b = b"
  "js_nullish (Some x) b = Some x"
  by (simp_all add: js_nullish_def)

lemma js_default_simps [simp]:
  "js_default None d = d"
  "js_default (Some x) d = x"
  by (simp_all add: js_default_def)

lemma js_num_or_simps [simp]:
  "js_num_or None d = d"
  "js_num_or (Some 0) d = d"
  "n \<noteq> 0 \<Longrightarrow> js_num_or (Some n) d = n"
  by (simp_all add: js_num_or_def)

text \<open>
  Characters are code units below 256. Case mapping is that of ASCII letters; the white
  space is that of \<^verbatim>\<open>String.prototype.trim\<close> in this range.
\<close>

definition js_lower_char :: "char \<Rightarrow> char" where
  "js_lower_char c =
     (let n = (of_char c :: nat) in if 65 \<le> n \<and> n \<le> 90 then char_of (n + 32) else c)"

definition js_upper_char :: "char \<Rightarrow> char" where
  "js_upper_char c =
     (let n = (of_char c :: nat) in if 97 \<le> n \<and> n \<le> 122 then char_of (n - 32) else c)"

definition js_lower :: "string \<Rightarrow> string" where
  "js_lower = map js_lower_char"

definition js_upper :: "string \<Rightarrow> string" where
  "js_upper = map js_upper_char"

definition js_space :: "char \<Rightarrow> bool" where
  "js_space c = (let n = (of_char c :: nat) in (9 \<le> n \<and> n \<le> 13) \<or> n = 32 \<or> n = 160)"

definition js_trim :: "string \<Rightarrow> string" where
  "js_trim s = rev (dropWhile js_space (rev (dropWhile js_space s)))"

definition js_starts_with :: "string \<Rightarrow> string \<Rightarrow> bool" where
  "js_starts_with s p = (take (length p) s = p)"

fun js_includes :: "string \<Rightarrow> string \<Rightarrow> bool" where
  "js_includes [] p = (p = [])"
| "js_includes (c # cs) p = (js_starts_with (c # cs) p \<or> js_includes cs p)"

text \<open>\<^verbatim>\<open>split\<close> at a one-character separator; the result is never empty.\<close>

fun js_split :: "char \<Rightarrow> string \<Rightarrow> string list" where
  "js_split d [] = [[]]"
| "js_split d (c # cs) =
     (if c = d then [] # js_split d cs
      else (case js_split d cs of [] \<Rightarrow> [[c]] | w # ws \<Rightarrow> (c # w) # ws))"

fun js_join :: "string \<Rightarrow> string list \<Rightarrow> string" where
  "js_join sep [] = []"
| "js_join sep [w] = w"
| "js_join sep (w # ws) = w @ sep @ js_join sep ws"

text \<open>\<^verbatim>\<open>String(n)\<close> of a natural number and \<^verbatim>\<open>padStart(w, '0')\<close>.\<close>

fun js_nat_str :: "nat \<Rightarrow> string" where
  "js_nat_str n =
     (if n < 10 then [char_of (n + 48)] else js_nat_str (n div 10) @ [char_of (n mod 10 + 48)])"

declare js_nat_str.simps [simp del]

definition js_int_str :: "int \<Rightarrow> string" where
  "js_int_str n = (if n < 0 then ''-'' @ js_nat_str (nat (- n)) else js_nat_str (nat n))"

definition js_pad_start :: "nat \<Rightarrow> char \<Rightarrow> string \<Rightarrow> string" where
  "js_pad_start w c s = replicate (w - length s) c @ s"

lemma js_split_not_Nil [simp]: "js_split d s \<noteq> []"
  by (induction s) (auto split: list.splits)

lemma js_join_split: "js_join [d] (js_split d s) = s"
proof (induction s)
  case Nil
  then show ?case by simp
next
  case (Cons c cs)
  obtain w ws where "js_split d cs = w # ws"
    by (cases "js_split d cs") auto
  with Cons show ?case
    by (cases ws) auto
qed

lemma js_split_free: "d \<notin> set w \<Longrightarrow> js_split d w = [w]"
  by (induction w) auto

lemma js_split_append:
  "d \<notin> set w \<Longrightarrow> js_split d (w @ d # s) = w # js_split d s"
  by (induction w) auto

lemma js_split_join:
  assumes "ws \<noteq> []" and "\<forall>w \<in> set ws. d \<notin> set w"
  shows "js_split d (js_join [d] ws) = ws"
  using assms
proof (induction ws)
  case Nil
  then show ?case by simp
next
  case (Cons w ws)
  show ?case
  proof (cases ws)
    case Nil
    with Cons.prems show ?thesis by (simp add: js_split_free)
  next
    case (Cons v vs)
    with Cons.IH Cons.prems show ?thesis by (simp add: js_split_append)
  qed
qed

lemma js_join_inject:
  assumes "js_join [d] vs = js_join [d] ws" and "vs \<noteq> []" and "ws \<noteq> []"
    and "\<forall>w \<in> set vs. d \<notin> set w" and "\<forall>w \<in> set ws. d \<notin> set w"
  shows "vs = ws"
  using assms by (metis js_split_join)

lemma js_trim_Nil [simp]: "js_trim [] = []"
  by (simp add: js_trim_def)

lemma js_lower_Nil [simp]: "js_lower [] = []" "js_lower s = [] \<longleftrightarrow> s = []"
  by (simp_all add: js_lower_def)

lemma js_lower_char_idem [simp]: "js_lower_char (js_lower_char c) = js_lower_char c"
proof (cases "65 \<le> (of_char c :: nat) \<and> (of_char c :: nat) \<le> 90")
  case True
  then have "(of_char (js_lower_char c) :: nat) = of_char c + 32"
    by (simp add: js_lower_char_def Let_def)
  with True show ?thesis
    by (simp add: js_lower_char_def [of "js_lower_char c"] Let_def)
next
  case False
  then have "js_lower_char c = c"
    unfolding js_lower_char_def Let_def by (rule if_not_P)
  then show ?thesis by simp
qed

lemma js_lower_idem [simp]: "js_lower (js_lower s) = js_lower s"
  by (simp add: js_lower_def)

section \<open>Effects\<close>

type_synonym ('s, 'a) io = "'s \<Rightarrow> (exn + 'a) \<times> 's"

definition ret :: "'a \<Rightarrow> ('s, 'a) io" where
  "ret x s = (Inr x, s)"

definition throw :: "exn \<Rightarrow> ('s, 'a) io" where
  "throw e s = (Inl e, s)"

definition gets :: "('s \<Rightarrow> 'a) \<Rightarrow> ('s, 'a) io" where
  "gets f s = (Inr (f s), s)"

definition modify :: "('s \<Rightarrow> 's) \<Rightarrow> ('s, unit) io" where
  "modify f s = (Inr (), f s)"

definition bind_io :: "('s, 'a) io \<Rightarrow> ('a \<Rightarrow> ('s, 'b) io) \<Rightarrow> ('s, 'b) io" where
  "bind_io m f s = (case m s of (Inl e, t) \<Rightarrow> (Inl e, t) | (Inr x, t) \<Rightarrow> f x t)"

definition seq_io :: "('s, 'a) io \<Rightarrow> ('s, 'b) io \<Rightarrow> ('s, 'b) io" where
  "seq_io m n = bind_io m (\<lambda>_. n)"

text \<open>\<^verbatim>\<open>try m catch (e) h\<close>\<close>

definition catch_io :: "('s, 'a) io \<Rightarrow> (exn \<Rightarrow> ('s, 'a) io) \<Rightarrow> ('s, 'a) io" where
  "catch_io m h s = (case m s of (Inl e, t) \<Rightarrow> h e t | (Inr x, t) \<Rightarrow> (Inr x, t))"

text \<open>\<^verbatim>\<open>try m finally f\<close>: an exception of \<open>f\<close> replaces the outcome of \<open>m\<close>.\<close>

definition finally_io :: "('s, 'a) io \<Rightarrow> ('s, 'b) io \<Rightarrow> ('s, 'a) io" where
  "finally_io m f s =
     (case m s of (r, t) \<Rightarrow> (case f t of (Inl e, u) \<Rightarrow> (Inl e, u) | (Inr _, u) \<Rightarrow> (r, u)))"

text \<open>\<^verbatim>\<open>for (const x of xs) await f(x)\<close>\<close>

fun for_io :: "('a \<Rightarrow> ('s, unit) io) \<Rightarrow> 'a list \<Rightarrow> ('s, unit) io" where
  "for_io f [] = ret ()"
| "for_io f (x # xs) = seq_io (f x) (for_io f xs)"

lemma io_combinators [io_simps]:
  "ret x s = (Inr x, s)"
  "throw e s = (Inl e, s)"
  "gets g s = (Inr (g s), s)"
  "modify h s = (Inr (), h s)"
  "bind_io m f s = (case m s of (Inl e, t) \<Rightarrow> (Inl e, t) | (Inr y, t) \<Rightarrow> f y t)"
  "seq_io m n s = (case m s of (Inl e, t) \<Rightarrow> (Inl e, t) | (Inr _, t) \<Rightarrow> n t)"
  by (simp_all add: ret_def throw_def gets_def modify_def bind_io_def seq_io_def)

lemma io_handlers [io_simps]:
  "catch_io m h s = (case m s of (Inl e, t) \<Rightarrow> h e t | (Inr y, t) \<Rightarrow> (Inr y, t))"
  "finally_io m f s =
     (case m s of (r, t) \<Rightarrow> (case f t of (Inl e, u) \<Rightarrow> (Inl e, u) | (Inr _, u) \<Rightarrow> (r, u)))"
  by (simp_all add: catch_io_def finally_io_def)

lemma snd_bind_ret: "snd (bind_io m (\<lambda>x. ret (f x)) s) = snd (m s)"
  by (simp add: bind_io_def ret_def split: prod.split sum.split)

lemma bind_gets: "bind_io (gets g) f s = f (g s) s"
  by (simp add: bind_io_def gets_def)

section \<open>Rows of a table\<close>

definition upd_where :: "('r \<Rightarrow> bool) \<Rightarrow> ('r \<Rightarrow> 'r) \<Rightarrow> 'r list \<Rightarrow> 'r list" where
  "upd_where P f rows = map (\<lambda>r. if P r then f r else r) rows"

lemma upd_where_simps [simp]:
  "upd_where P f [] = []"
  "upd_where P f (r # rs) = (if P r then f r else r) # upd_where P f rs"
  by (simp_all add: upd_where_def)

lemma length_upd_where [simp]: "length (upd_where P f rows) = length rows"
  by (simp add: upd_where_def)

lemma map_upd_where: "(\<And>r. k (f r) = k r) \<Longrightarrow> map k (upd_where P f rows) = map k rows"
  by (simp add: upd_where_def)

lemma upd_where_none: "(\<And>r. r \<in> set rows \<Longrightarrow> \<not> P r) \<Longrightarrow> upd_where P f rows = rows"
  by (induction rows) auto

lemma set_upd_where: "set (upd_where P f rows) = (\<lambda>r. if P r then f r else r) ` set rows"
  by (simp add: upd_where_def)

lemma ball_upd_where:
  "(\<forall>r \<in> set (upd_where P f rows). Q r) \<longleftrightarrow> (\<forall>r \<in> set rows. Q (if P r then f r else r))"
  unfolding set_upd_where by (rule ball_simps(9))

lemma find_Some_in: "find P rows = Some r \<Longrightarrow> r \<in> set rows \<and> P r"
  by (auto simp: find_Some_iff)

lemma find_upd_where_same:
  assumes "find P rows = Some r" and "\<And>x. P x \<Longrightarrow> P (f x)"
  shows "find P (upd_where P f rows) = Some (f r)"
  using assms(1)
proof (induction rows)
  case Nil
  then show ?case by simp
next
  case (Cons x xs)
  then show ?case using assms(2) by (cases "P x") auto
qed

lemma find_upd_where:
  assumes "\<And>x. P (f x) = P x"
  shows "find P (upd_where Q f rows) = map_option (\<lambda>x. if Q x then f x else x) (find P rows)"
  by (induction rows) (auto simp: assms)

lemma filter_unique_key:
  assumes "distinct (map k rows)" and "r \<in> set rows"
  shows "filter (\<lambda>x. k x = k r) rows = [r]"
  using assms
proof (induction rows)
  case Nil
  then show ?case by simp
next
  case (Cons x xs)
  show ?case
  proof (cases "x = r")
    case True
    have "k y \<noteq> k r" if "y \<in> set xs" for y
      using that True Cons.prems(1) by (auto simp: rev_image_eqI)
    then have "filter (\<lambda>y. k y = k r) xs = []" by (simp add: filter_empty_conv)
    with True show ?thesis by simp
  next
    case False
    with Cons.prems have "r \<in> set xs" and "k x \<noteq> k r" by (auto simp: rev_image_eqI)
    with Cons.IH Cons.prems(1) show ?thesis by simp
  qed
qed

lemma find_filter: "find P rows = (case filter P rows of [] \<Rightarrow> None | x # _ \<Rightarrow> Some x)"
  by (induction rows) auto

lemma find_unique_key:
  "distinct (map k rows) \<Longrightarrow> r \<in> set rows \<Longrightarrow> find (\<lambda>x. k x = k r) rows = Some r"
  by (simp add: find_filter filter_unique_key)

lemma upd_where_cong:
  "(\<And>r. r \<in> set rows \<Longrightarrow> P r = Q r) \<Longrightarrow> upd_where P f rows = upd_where Q f rows"
  by (auto simp: upd_where_def)

lemma filter_upd_where:
  assumes "\<And>r. P (f r) = P r"
  shows "filter P (upd_where P f rows) = map f (filter P rows)"
    and "filter (\<lambda>r. \<not> P r) (upd_where P f rows) = filter (\<lambda>r. \<not> P r) rows"
  using assms by (induction rows) auto

text \<open>
  A nullable unique column: the values that are not null are distinct. An update of one row
  keeps this when no other row holds the new value.
\<close>

definition unique_nonnull :: "('r \<Rightarrow> 'k option) \<Rightarrow> 'r list \<Rightarrow> bool" where
  "unique_nonnull k rows \<longleftrightarrow> distinct (filter (\<lambda>v. v \<noteq> None) (map k rows))"

lemma unique_nonnull_simps [simp]:
  "unique_nonnull k []"
  "unique_nonnull k (x # xs) \<longleftrightarrow> unique_nonnull k xs \<and> (k x = None \<or> k x \<notin> k ` set xs)"
  by (auto simp: unique_nonnull_def)

lemma unique_nonnull_append:
  assumes "unique_nonnull k rows" and "k r = None \<or> k r \<notin> k ` set rows"
  shows "unique_nonnull k (rows @ [r])"
  using assms by (auto simp: unique_nonnull_def)

lemma unique_nonnull_inj:
  "unique_nonnull k rows \<Longrightarrow> x \<in> set rows \<Longrightarrow> y \<in> set rows \<Longrightarrow> k x = k y \<Longrightarrow> k y \<noteq> None \<Longrightarrow> x = y"
  by (induction rows) (auto simp: rev_image_eqI)

lemma unique_nonnull_upd:
  assumes "distinct (map i rows)" and "unique_nonnull k rows" and "i r' = j"
    and "k r' = None \<or> (\<forall>x \<in> set rows. i x \<noteq> j \<longrightarrow> k x \<noteq> k r')"
  shows "unique_nonnull k (upd_where (\<lambda>x. i x = j) (\<lambda>_. r') rows)"
  using assms
proof (induction rows)
  case Nil
  then show ?case by simp
next
  case (Cons x xs)
  have rest: "unique_nonnull k (upd_where (\<lambda>x. i x = j) (\<lambda>_. r') xs)"
    using Cons by auto
  show ?case
  proof (cases "i x = j")
    case True
    have other: "i y \<noteq> j" if "y \<in> set xs" for y
      using that True Cons.prems(1) by (auto simp: rev_image_eqI)
    then have "upd_where (\<lambda>x. i x = j) (\<lambda>_. r') xs = xs"
      by (intro upd_where_none) simp
    with True rest other Cons.prems(4) show ?thesis by auto
  next
    case False
    with rest Cons.prems(2,4) show ?thesis by (auto simp: set_upd_where split: if_splits)
  qed
qed

text \<open>Programs that succeed.\<close>

lemma bind_Inr:
  assumes "bind_io m f s = (Inr x, t)"
  obtains y u where "m s = (Inr y, u)" and "f y u = (Inr x, t)"
  using assms by (auto simp: bind_io_def split: prod.splits sum.splits)

lemma seq_Inr:
  assumes "seq_io m n s = (Inr x, t)"
  obtains y u where "m s = (Inr y, u)" and "n u = (Inr x, t)"
  using assms unfolding seq_io_def by (rule bind_Inr)

lemma seq_run: "m s = (Inr x, t) \<Longrightarrow> seq_io m n s = n t" "m s = (Inr x, t) \<Longrightarrow> bind_io m f s = f x t"
  by (simp_all add: seq_io_def bind_io_def)

lemma throw_Inr [simp]: "throw e s \<noteq> (Inr x, t)"
  by (simp add: throw_def)

lemma seq_throw [simp]: "seq_io m (throw e) s \<noteq> (Inr x, t)"
  by (auto simp: io_simps split: prod.splits sum.splits)

section \<open>Preorders on states\<close>

text \<open>
  \<open>keeps R m\<close>: whatever \<open>m\<close> returns or throws, the states before and after are
  related by \<open>R\<close>. An invariant \<open>I\<close> is the instance \<open>\<lambda>s t. I s \<longrightarrow> I t\<close>; a frame
  property is an equality of the components that do not change.
\<close>

definition keeps :: "('s \<Rightarrow> 's \<Rightarrow> bool) \<Rightarrow> ('s, 'a) io \<Rightarrow> bool" where
  "keeps R m \<longleftrightarrow> (\<forall>s. R s (snd (m s)))"

lemma keepsI: "(\<And>s. R s (snd (m s))) \<Longrightarrow> keeps R m"
  by (simp add: keeps_def)

lemma keepsD: "keeps R m \<Longrightarrow> R s (snd (m s))"
  by (simp add: keeps_def)

lemma keeps_result: "keeps R m \<Longrightarrow> m s = (r, t) \<Longrightarrow> R s t"
  using keepsD [of R m s] by simp

locale step_order =
  fixes R :: "'s \<Rightarrow> 's \<Rightarrow> bool"
  assumes R_refl: "R s s"
    and R_trans: "R s t \<Longrightarrow> R t u \<Longrightarrow> R s u"
begin

lemma r_ret: "keeps R (ret x)"
  by (simp add: keeps_def ret_def R_refl)

lemma r_throw: "keeps R (throw e)"
  by (simp add: keeps_def throw_def R_refl)

lemma r_gets: "keeps R (gets f)"
  by (simp add: keeps_def gets_def R_refl)

lemma r_modify: "(\<And>s. R s (f s)) \<Longrightarrow> keeps R (modify f)"
  by (simp add: keeps_def modify_def)

lemma r_bind:
  assumes m: "keeps R m" and f: "\<And>x. keeps R (f x)"
  shows "keeps R (bind_io m f)"
proof (rule keepsI)
  fix s
  obtain r t where mt: "m s = (r, t)" by (cases "m s")
  have st: "R s t" using keeps_result [OF m mt] .
  show "R s (snd (bind_io m f s))"
  proof (cases r)
    case (Inl e)
    with mt st show ?thesis by (simp add: io_simps)
  next
    case (Inr x)
    have "R t (snd (f x t))" using keepsD [OF f] .
    with mt st Inr show ?thesis by (auto simp: io_simps intro: R_trans)
  qed
qed

lemma r_seq: "keeps R m \<Longrightarrow> keeps R n \<Longrightarrow> keeps R (seq_io m n)"
  unfolding seq_io_def by (rule r_bind)

lemma r_catch:
  assumes m: "keeps R m" and h: "\<And>e. keeps R (h e)"
  shows "keeps R (catch_io m h)"
proof (rule keepsI)
  fix s
  obtain r t where mt: "m s = (r, t)" by (cases "m s")
  have st: "R s t" using keeps_result [OF m mt] .
  show "R s (snd (catch_io m h s))"
  proof (cases r)
    case (Inl e)
    have "R t (snd (h e t))" using keepsD [OF h] .
    with mt st Inl show ?thesis by (auto simp: io_simps intro: R_trans)
  next
    case (Inr x)
    with mt st show ?thesis by (simp add: io_simps)
  qed
qed

lemma r_finally:
  assumes m: "keeps R m" and f: "keeps R f"
  shows "keeps R (finally_io m f)"
proof (rule keepsI)
  fix s
  obtain r t where mt: "m s = (r, t)" by (cases "m s")
  obtain q u where fu: "f t = (q, u)" by (cases "f t")
  have "R s t" and "R t u"
    using keeps_result [OF m mt] keeps_result [OF f fu] .
  then have "R s u" by (rule R_trans)
  with mt fu show "R s (snd (finally_io m f s))"
    by (cases q) (simp_all add: io_simps)
qed

lemma r_for: "(\<And>x. keeps R (f x)) \<Longrightarrow> keeps R (for_io f xs)"
  by (induction xs) (simp_all add: r_ret r_seq)

lemma r_if: "keeps R m \<Longrightarrow> keeps R n \<Longrightarrow> keeps R (if b then m else n)"
  by simp

lemma r_prod: "(\<And>x y. keeps R (f x y)) \<Longrightarrow> keeps R (case p of (x, y) \<Rightarrow> f x y)"
  by (cases p) simp

lemma r_option:
  "keeps R m \<Longrightarrow> (\<And>x. keeps R (f x)) \<Longrightarrow> keeps R (case v of None \<Rightarrow> m | Some x \<Rightarrow> f x)"
  by (cases v) simp_all

lemmas r_intros = r_ret r_throw r_gets r_bind r_seq r_catch r_finally r_for r_if r_prod r_option

end

end
