(* ===== verification/Billing_Model.thy ===== *)
theory Billing_Model
  imports Prelude
begin

text \<open>
  The state of the billing module (\<^verbatim>\<open>src/src/modules/billing\<close>): the five tables of
  \<^verbatim>\<open>prisma/schema.prisma\<close> it writes, the in-memory checkout locks, the clean-up tasks
  that were started without being awaited, and the log of the calls made to the payment
  providers. The environment record holds what is not under \<^verbatim>\<open>src/\<close>: the clock and
  its calendar functions, the process environment, the locale's number format, the generator of
  row ids and the replies of the provider SDKs. A reply is a function of the whole
  state, the call log included, so two calls with the same arguments may be answered
  differently.

  A table is the list of its rows. A query that names no order reads the rows in table order;
  the statements hold for every table, hence for every order the database may choose.
\<close>

section \<open>Enumerations\<close>

datatype billing_provider = Razorpay | Stripe

datatype subscription_status =
  Trialing | Active | PastDue | Cancelled | Expired | Paused | Unpaid

datatype operation_type = ReplaceSubscription | CancelSubscription

text \<open>
  The operation states, with the state \<open>Retrying\<close> that rows written by an earlier release
  may still hold.
\<close>

datatype operation_status =
  Pending | CleanupPending | CancelRequested | Completed | Abandoned | Failed | Retrying

datatype payment_status = PayPaid | PayFailed | PayRefunded | PayPending

datatype invoice_status = InvDraft | InvOpen | InvPaid | InvVoid | InvUncollectible

datatype payment_type = TypeSubscription | TypeAddon

section \<open>Entities of the providers\<close>

record rp_subscription =
  rs_id :: "string option"
  rs_status :: "string option"
  rs_customer_id :: "string option"
  rs_notes_workspaceId :: "string option"
  rs_notes_plan :: "string option"
  rs_current_start :: "int option"
  rs_current_end :: "int option"
  rs_charge_at :: "int option"
  rs_plan_id :: "string option"
  rs_short_url :: "string option"
  rs_created_at :: "int option"

text \<open>The keys of the \<^verbatim>\<open>notes\<close> object that the code reads from orders and payments.\<close>

record rp_notes =
  n_paymentRecordId :: "string option"
  n_invoiceDbId :: "string option"
  n_providerInvoiceId :: "string option"
  n_workspaceId :: "string option"
  n_plan :: "string option"

record rp_payment =
  pe_id :: "string option"
  pe_subscription_id :: "string option"
  pe_amount :: "int option"
  pe_currency :: "string option"
  pe_notes :: "rp_notes option"
  pe_invoice_id :: "string option"
  pe_order_id :: "string option"
  pe_created_at :: "int option"
  pe_description :: "string option"
  pe_error_description :: "string option"
  pe_status :: "string option"

record rp_order =
  oe_id :: "string option"
  oe_amount :: "int option"
  oe_amount_paid :: "int option"
  oe_currency :: "string option"
  oe_notes :: "rp_notes option"

record rp_invoice =
  ie_id :: string
  ie_subscription_id :: "string option"
  ie_status :: string
  ie_type :: "string option"
  ie_amount :: "int option"
  ie_line_amount :: "int option"
  ie_amount_paid :: "int option"
  ie_amount_due :: "int option"
  ie_payment_id :: "string option"
  ie_description :: "string option"
  ie_currency :: "string option"
  ie_short_url :: "string option"
  ie_date :: "int option"
  ie_due :: "int option"
  ie_paid_at :: "int option"
  ie_billing_start :: "int option"
  ie_billing_end :: "int option"

text \<open>The \<^verbatim>\<open>notes\<close> and \<^verbatim>\<open>metadata\<close> objects sent with a request.\<close>

type_synonym note_list = "(string \<times> string) list"

record subscription_payload =
  sp_plan_id :: string
  sp_customer_notify :: nat
  sp_total_count :: int
  sp_customer_id :: "string option"
  sp_start_at :: "int option"
  sp_expire_by :: "int option"
  sp_notes :: "note_list option"

record update_payload =
  up_plan_id :: "string option"
  up_quantity :: "int option"
  up_schedule_change_at :: "string option"
  up_remaining_count :: "int option"
  up_customer_notify :: "nat option"

record checkout_payload =
  co_customer :: string
  co_price :: string
  co_success_url :: string
  co_cancel_url :: string
  co_trial_period_days :: "int option"
  co_metadata :: note_list

record checkout_session =
  cs_id :: string
  cs_url :: "string option"

record rp_refund =
  re_status :: "string option"

record rp_customer =
  cu_id :: string
  cu_email :: "string option"
  cu_contact :: "string option"

record stripe_invoice =
  si_id :: string
  si_subscription :: "string option"
  si_status :: string
  si_total :: "int option"
  si_amount_paid :: "int option"
  si_amount_due :: "int option"
  si_currency :: "string option"
  si_payment_intent :: "string option"
  si_metadata_type :: "string option"
  si_description :: "string option"
  si_line_description :: "string option"
  si_hosted_invoice_url :: "string option"
  si_invoice_pdf :: "string option"
  si_created :: "int option"
  si_due_date :: "int option"
  si_paid_at :: "int option"
  si_period_start :: "int option"
  si_period_end :: "int option"

record stripe_subscription =
  st_id :: string
  st_customer :: string
  st_status :: string
  st_metadata_workspaceId :: "string option"
  st_metadata_plan :: "string option"
  st_current_period_start :: int
  st_current_period_end :: int
  st_cancel_at_period_end :: bool

text \<open>
  A \<^verbatim>\<open>metadata\<close> column holds one of these objects. The only key the code reads back
  from a payment is \<^verbatim>\<open>subscription_id\<close>.
\<close>

datatype metadata =
    MetaRefundAmount int
  | MetaCancelAtCycleEnd bool
  | MetaPayment rp_payment
  | MetaOrderPayment "rp_order option" "rp_payment option"
  | MetaAddonOrder rp_order string int int string
  | MetaRpInvoice rp_invoice
  | MetaStripeInvoice stripe_invoice

fun meta_subscription_id :: "metadata \<Rightarrow> string option" where
  "meta_subscription_id (MetaPayment p) = pe_subscription_id p"
| "meta_subscription_id (MetaRpInvoice i) = ie_subscription_id i"
| "meta_subscription_id _ = None"

section \<open>Rows\<close>

record subscription =
  sub_id :: string
  sub_workspaceId :: string
  sub_plan :: string
  sub_status :: subscription_status
  sub_provider :: "billing_provider option"
  sub_providerCustomerId :: "string option"
  sub_providerSubId :: "string option"
  sub_trialStartAt :: "int option"
  sub_trialEndAt :: "int option"
  sub_currentPeriodStart :: "int option"
  sub_currentPeriodEnd :: "int option"
  sub_pendingPlan :: "string option"
  sub_pendingEffectiveAt :: "string option"
  sub_pendingProviderSubId :: "string option"
  sub_quantity :: int
  sub_lastRefundAmount :: "int option"
  sub_lastRefundStatus :: "string option"
  sub_lastRefundAt :: "int option"
  sub_cancelAtPeriodEnd :: bool
  sub_createdAt :: int

record operation =
  op_id :: string
  op_operationKey :: string
  op_workspaceId :: string
  op_provider :: billing_provider
  op_type :: operation_type
  op_status :: operation_status
  op_oldProviderSubId :: "string option"
  op_newProviderSubId :: "string option"
  op_plan :: "string option"
  op_retryCount :: nat
  op_nextRetryAt :: int
  op_lockedAt :: "int option"
  op_lockExpiresAt :: "int option"
  op_lastError :: "string option"
  op_metadata :: "metadata option"
  op_updatedAt :: int

record payment =
  pay_id :: string
  pay_workspaceId :: string
  pay_subscriptionId :: "string option"
  pay_amount :: int
  pay_currency :: string
  pay_status :: payment_status
  pay_provider :: billing_provider
  pay_providerPaymentId :: "string option"
  pay_providerInvoiceId :: "string option"
  pay_metadata :: "metadata option"
  pay_paidAt :: "int option"
  pay_type :: payment_type
  pay_description :: "string option"
  pay_createdAt :: int

record invoice =
  inv_id :: string
  inv_workspaceId :: string
  inv_subscriptionId :: "string option"
  inv_provider :: billing_provider
  inv_providerInvoiceId :: string
  inv_providerPaymentId :: "string option"
  inv_type :: payment_type
  inv_description :: "string option"
  inv_amount :: int
  inv_amountDue :: "int option"
  inv_amountPaid :: "int option"
  inv_currency :: string
  inv_status :: invoice_status
  inv_invoiceDate :: "int option"
  inv_dueDate :: "int option"
  inv_paidAt :: "int option"
  inv_periodStart :: "int option"
  inv_periodEnd :: "int option"
  inv_invoiceUrl :: "string option"
  inv_invoicePdf :: "string option"
  inv_metadata :: "metadata option"
  inv_createdAt :: int

record usage_row =
  us_workspaceId :: string
  us_metric :: string
  us_period :: string
  us_value :: int

section \<open>The world\<close>

text \<open>The calls that reach a provider, in the order they are made.\<close>

datatype call =
    CallFetchSubscription string
  | CallCancelSubscription string bool
  | CallListSubscriptions int int
  | CallCreateSubscription subscription_payload
  | CallUpdateSubscription string update_payload
  | CallCreateCustomer string string "string option"
  | CallListCustomers nat nat
  | CallListPayments string int
  | CallFetchPayment string
  | CallRefundPayment string int note_list
  | CallFetchOrder string
  | CallGetInvoice string
  | CallListInvoices string int
  | CallCreateInvoice "string option" int string note_list
  | CallCreateOrder int string note_list
  | CallStripeCreateCustomer string string note_list
  | CallStripeCheckout checkout_payload
  | CallStripeInvoiceItem "string option" int string string
  | CallStripeCreateInvoice "string option"
  | CallStripeFinalizeInvoice string
  | CallStripeRetrieveInvoice string
  | CallStripeListInvoices "string option" int

text \<open>Arguments of a clean-up that was started with \<^verbatim>\<open>void ...\<close>.\<close>

record cleanup_task =
  ct_workspaceId :: string
  ct_replacedProviderSubId :: string
  ct_replacementProviderSubId :: string
  ct_attempt :: "nat option"
  ct_lastError :: "string option"

record world =
  w_subs :: "subscription list"
  w_ops :: "operation list"
  w_pays :: "payment list"
  w_invs :: "invoice list"
  w_usage :: "usage_row list"
  w_locks :: "string option list"
  w_queued :: "cleanup_task list"
  w_calls :: "call list"

type_synonym 'a bill = "(world, 'a) io"

text \<open>
  The outcome of an SDK call: a promise that resolves, a promise that rejects, or an exception
  thrown before any promise exists.
\<close>

datatype 'a sdk = Resolved 'a | Rejected sdk_error | Threw sdk_error

record env =
  env_now :: "world \<Rightarrow> int"
  env_minutes :: "int \<Rightarrow> nat"
  env_yearMonth :: "int \<Rightarrow> nat \<times> nat"
  env_newid :: "world \<Rightarrow> string"
  env_addDays :: "int \<Rightarrow> int \<Rightarrow> int"
  env_locale :: "int \<Rightarrow> string"
  env_var :: "string \<Rightarrow> string option"
  sdk_fetch_subscription :: "world \<Rightarrow> string \<Rightarrow> rp_subscription sdk"
  sdk_cancel_subscription :: "world \<Rightarrow> string \<Rightarrow> bool \<Rightarrow> rp_subscription sdk"
  sdk_list_subscriptions :: "world \<Rightarrow> int \<Rightarrow> int \<Rightarrow> rp_subscription list sdk"
  sdk_create_subscription :: "world \<Rightarrow> subscription_payload \<Rightarrow> rp_subscription sdk"
  sdk_update_subscription :: "world \<Rightarrow> string \<Rightarrow> update_payload \<Rightarrow> rp_subscription sdk"
  sdk_create_customer :: "world \<Rightarrow> string \<Rightarrow> string \<Rightarrow> string option \<Rightarrow> rp_customer sdk"
  sdk_list_customers :: "world \<Rightarrow> nat \<Rightarrow> nat \<Rightarrow> rp_customer list sdk"
  sdk_list_payment_methods :: "world \<Rightarrow> string \<Rightarrow> string option list sdk"
  sdk_fetch_payment :: "world \<Rightarrow> string \<Rightarrow> rp_payment sdk"
  sdk_refund :: "world \<Rightarrow> string \<Rightarrow> int \<Rightarrow> rp_refund sdk"
  sdk_fetch_order :: "world \<Rightarrow> string \<Rightarrow> rp_order sdk"
  sdk_get_invoice :: "world \<Rightarrow> string \<Rightarrow> rp_invoice sdk"
  sdk_list_invoices :: "world \<Rightarrow> string \<Rightarrow> rp_invoice list sdk"
  sdk_create_invoice :: "world \<Rightarrow> string option \<Rightarrow> int \<Rightarrow> string \<Rightarrow> rp_invoice sdk"
  sdk_create_order :: "world \<Rightarrow> int \<Rightarrow> string \<Rightarrow> note_list \<Rightarrow> rp_order sdk"
  sdk_stripe_customer :: "world \<Rightarrow> string \<Rightarrow> string sdk"
  sdk_stripe_checkout :: "world \<Rightarrow> checkout_payload \<Rightarrow> checkout_session sdk"
  sdk_stripe_item :: "world \<Rightarrow> string option \<Rightarrow> int \<Rightarrow> unit sdk"
  sdk_stripe_invoice :: "world \<Rightarrow> string option \<Rightarrow> string sdk"
  sdk_stripe_finalize :: "world \<Rightarrow> string \<Rightarrow> stripe_invoice sdk"
  sdk_stripe_retrieve :: "world \<Rightarrow> string \<Rightarrow> stripe_invoice sdk"
  sdk_stripe_list :: "world \<Rightarrow> string option \<Rightarrow> int \<Rightarrow> stripe_invoice list sdk"

section \<open>Queries and updates\<close>

text \<open>
  \<^verbatim>\<open>update\<close> throws \<open>P2025\<close> when no row matches, \<^verbatim>\<open>updateMany\<close> changes every
  matching row and returns the count, \<^verbatim>\<open>create\<close> and \<^verbatim>\<open>update\<close> throw \<open>P2002\<close>
  when a unique column would hold a value twice. A field that is \<^verbatim>\<open>undefined\<close> in the
  data of an update is left as it is.
\<close>

definition clock :: "env \<Rightarrow> int bill" where
  "clock E = gets (env_now E)"

definition op_find :: "(operation \<Rightarrow> bool) \<Rightarrow> operation option bill" where
  "op_find P = gets (\<lambda>s. find P (w_ops s))"

definition op_touch :: "env \<Rightarrow> world \<Rightarrow> operation \<Rightarrow> operation" where
  "op_touch E s r = r\<lparr>op_updatedAt := env_now E s\<rparr>"

definition op_update :: "env \<Rightarrow> string \<Rightarrow> (operation \<Rightarrow> operation) \<Rightarrow> operation bill" where
  "op_update E i f s =
     (case find (\<lambda>r. op_id r = i) (w_ops s) of
        None \<Rightarrow> (Inl PrismaP2025, s)
      | Some r \<Rightarrow>
          (Inr (op_touch E s (f r)),
           s\<lparr>w_ops := upd_where (\<lambda>x. op_id x = i) (\<lambda>x. op_touch E s (f x)) (w_ops s)\<rparr>))"

definition op_updateMany ::
    "env \<Rightarrow> (operation \<Rightarrow> bool) \<Rightarrow> (operation \<Rightarrow> operation) \<Rightarrow> nat bill" where
  "op_updateMany E P f s =
     (Inr (length (filter P (w_ops s))),
      s\<lparr>w_ops := upd_where P (\<lambda>x. op_touch E s (f x)) (w_ops s)\<rparr>)"

definition op_create :: "env \<Rightarrow> operation \<Rightarrow> operation bill" where
  "op_create E r s =
     (if op_operationKey r \<in> op_operationKey ` set (w_ops s) then (Inl PrismaP2002, s)
      else let r' = op_touch E s (r\<lparr>op_id := env_newid E s\<rparr>)
           in (Inr r', s\<lparr>w_ops := w_ops s @ [r']\<rparr>))"

definition sub_find :: "(subscription \<Rightarrow> bool) \<Rightarrow> subscription option bill" where
  "sub_find P = gets (\<lambda>s. find P (w_subs s))"

text \<open>Another row already holds the same provider subscription id.\<close>

definition sub_clash :: "subscription \<Rightarrow> subscription list \<Rightarrow> bool" where
  "sub_clash r rows =
     (sub_providerSubId r \<noteq> None \<and>
      (\<exists>x \<in> set rows. sub_id x \<noteq> sub_id r \<and> sub_providerSubId x = sub_providerSubId r))"

definition sub_update ::
    "(subscription \<Rightarrow> bool) \<Rightarrow> (subscription \<Rightarrow> subscription) \<Rightarrow> subscription bill" where
  "sub_update P f s =
     (case find P (w_subs s) of
        None \<Rightarrow> (Inl PrismaP2025, s)
      | Some r \<Rightarrow>
          if sub_clash (f r) (w_subs s) then (Inl PrismaP2002, s)
          else (Inr (f r), s\<lparr>w_subs := upd_where (\<lambda>x. sub_id x = sub_id r) (\<lambda>_. f r) (w_subs s)\<rparr>))"

definition sub_updateMany ::
    "(subscription \<Rightarrow> bool) \<Rightarrow> (subscription \<Rightarrow> subscription) \<Rightarrow> nat bill" where
  "sub_updateMany P f s =
     (Inr (length (filter P (w_subs s))), s\<lparr>w_subs := upd_where P f (w_subs s)\<rparr>)"

definition sub_create :: "env \<Rightarrow> subscription \<Rightarrow> subscription bill" where
  "sub_create E r s =
     (let r' = r\<lparr>sub_id := env_newid E s, sub_createdAt := env_now E s\<rparr>
      in if sub_workspaceId r \<in> sub_workspaceId ` set (w_subs s) \<or> sub_clash r' (w_subs s)
         then (Inl PrismaP2002, s)
         else (Inr r', s\<lparr>w_subs := w_subs s @ [r']\<rparr>))"

definition by_sub_id :: "string \<Rightarrow> subscription \<Rightarrow> bool" where
  "by_sub_id i r = (sub_id r = i)"

definition by_workspace :: "string \<Rightarrow> subscription \<Rightarrow> bool" where
  "by_workspace i r = (sub_workspaceId r = i)"

text \<open>\<^verbatim>\<open>upsert\<close> on the unique workspace id.\<close>

definition sub_upsert ::
    "env \<Rightarrow> string \<Rightarrow> (subscription \<Rightarrow> subscription) \<Rightarrow> subscription \<Rightarrow> subscription bill" where
  "sub_upsert E ws f r =
     bind_io (sub_find (by_workspace ws))
       (\<lambda>found. case found of
          None \<Rightarrow> sub_create E r
        | Some _ \<Rightarrow> sub_update (by_workspace ws) f)"

definition pay_find :: "(payment \<Rightarrow> bool) \<Rightarrow> payment option bill" where
  "pay_find P = gets (\<lambda>s. find P (w_pays s))"

text \<open>The unique pair of provider and provider payment id; null ids do not clash.\<close>

definition pay_clash :: "payment \<Rightarrow> payment list \<Rightarrow> bool" where
  "pay_clash r rows =
     (pay_providerPaymentId r \<noteq> None \<and>
      (\<exists>x \<in> set rows. pay_id x \<noteq> pay_id r \<and> pay_provider x = pay_provider r
         \<and> pay_providerPaymentId x = pay_providerPaymentId r))"

definition pay_update :: "string \<Rightarrow> (payment \<Rightarrow> payment) \<Rightarrow> payment bill" where
  "pay_update i f s =
     (case find (\<lambda>r. pay_id r = i) (w_pays s) of
        None \<Rightarrow> (Inl PrismaP2025, s)
      | Some r \<Rightarrow>
          if pay_clash (f r) (w_pays s) then (Inl PrismaP2002, s)
          else (Inr (f r), s\<lparr>w_pays := upd_where (\<lambda>x. pay_id x = i) (\<lambda>_. f r) (w_pays s)\<rparr>))"

definition pay_create :: "env \<Rightarrow> payment \<Rightarrow> payment bill" where
  "pay_create E r s =
     (let r' = r\<lparr>pay_id := env_newid E s, pay_createdAt := env_now E s\<rparr>
      in if pay_clash r' (w_pays s) then (Inl PrismaP2002, s)
         else (Inr r', s\<lparr>w_pays := w_pays s @ [r']\<rparr>))"

definition inv_find :: "(invoice \<Rightarrow> bool) \<Rightarrow> invoice option bill" where
  "inv_find P = gets (\<lambda>s. find P (w_invs s))"

definition inv_updateMany :: "(invoice \<Rightarrow> bool) \<Rightarrow> (invoice \<Rightarrow> invoice) \<Rightarrow> nat bill" where
  "inv_updateMany P f s =
     (Inr (length (filter P (w_invs s))), s\<lparr>w_invs := upd_where P f (w_invs s)\<rparr>)"

definition inv_create :: "env \<Rightarrow> invoice \<Rightarrow> invoice bill" where
  "inv_create E r s =
     (if inv_providerInvoiceId r \<in> inv_providerInvoiceId ` set (w_invs s)
      then (Inl PrismaP2002, s)
      else let r' = r\<lparr>inv_id := env_newid E s, inv_createdAt := env_now E s\<rparr>
           in (Inr r', s\<lparr>w_invs := w_invs s @ [r']\<rparr>))"

text \<open>\<^verbatim>\<open>upsert\<close> on the unique provider invoice id.\<close>

definition inv_upsert :: "env \<Rightarrow> string \<Rightarrow> (invoice \<Rightarrow> invoice) \<Rightarrow> invoice \<Rightarrow> unit bill" where
  "inv_upsert E i f r =
     bind_io (inv_find (\<lambda>x. inv_providerInvoiceId x = i))
       (\<lambda>found. case found of
          None \<Rightarrow> bind_io (inv_create E r) (\<lambda>_. ret ())
        | Some _ \<Rightarrow> bind_io (inv_updateMany (\<lambda>x. inv_providerInvoiceId x = i) f) (\<lambda>_. ret ()))"

text \<open>A call to a provider: it is logged, then the environment answers.\<close>

definition sdk_call :: "call \<Rightarrow> (world \<Rightarrow> 'a sdk) \<Rightarrow> world \<Rightarrow> 'a sdk \<times> world" where
  "sdk_call c f s = (let t = s\<lparr>w_calls := w_calls s @ [c]\<rparr> in (f t, t))"

section \<open>Facts on the tables\<close>

lemma op_touch_simps [simp]:
  "op_id (op_touch E s r) = op_id r"
  "op_operationKey (op_touch E s r) = op_operationKey r"
  "op_workspaceId (op_touch E s r) = op_workspaceId r"
  "op_provider (op_touch E s r) = op_provider r"
  "op_type (op_touch E s r) = op_type r"
  "op_status (op_touch E s r) = op_status r"
  "op_oldProviderSubId (op_touch E s r) = op_oldProviderSubId r"
  "op_newProviderSubId (op_touch E s r) = op_newProviderSubId r"
  "op_plan (op_touch E s r) = op_plan r"
  "op_retryCount (op_touch E s r) = op_retryCount r"
  "op_nextRetryAt (op_touch E s r) = op_nextRetryAt r"
  "op_lockedAt (op_touch E s r) = op_lockedAt r"
  "op_lockExpiresAt (op_touch E s r) = op_lockExpiresAt r"
  "op_lastError (op_touch E s r) = op_lastError r"
  "op_metadata (op_touch E s r) = op_metadata r"
  by (simp_all add: op_touch_def)

lemmas table_defs =
  clock_def op_find_def op_update_def op_updateMany_def op_create_def
  sub_find_def sub_update_def sub_updateMany_def sub_create_def sub_upsert_def
  pay_find_def pay_update_def pay_create_def
  inv_find_def inv_updateMany_def inv_create_def inv_upsert_def
  by_sub_id_def by_workspace_def

section \<open>A sample environment\<close>

text \<open>
  An environment on which statements are evaluated: every provider call is rejected,
  and a new id is longer than all the ids in use.
\<close>

definition sample_error :: sdk_error where
  "sample_error = \<lparr>se_isError = True, se_error_description = None, se_description = None,
     se_message = Some ''unavailable'', se_statusCode = None, se_status = None, se_code = None\<rparr>"

definition used_ids :: "world \<Rightarrow> string list" where
  "used_ids s = map op_id (w_ops s) @ map sub_id (w_subs s) @ map pay_id (w_pays s) @ map inv_id (w_invs s)"

definition sample_env :: env where
  "sample_env = \<lparr>
     env_now = (\<lambda>s. 1000), env_minutes = (\<lambda>n. 0), env_yearMonth = (\<lambda>n. (2026, 0)),
     env_newid = (\<lambda>s. replicate (Suc (sum_list (map length (used_ids s)))) (CHR ''i'')),
     env_addDays = (\<lambda>t d. t + d * 86400000), env_locale = js_int_str, env_var = (\<lambda>k. Some k),
     sdk_fetch_subscription = (\<lambda>s i. Rejected sample_error),
     sdk_cancel_subscription = (\<lambda>s i b. Rejected sample_error),
     sdk_list_subscriptions = (\<lambda>s n k. Rejected sample_error),
     sdk_create_subscription = (\<lambda>s p. Rejected sample_error),
     sdk_update_subscription = (\<lambda>s i p. Rejected sample_error),
     sdk_create_customer = (\<lambda>s n e c. Rejected sample_error),
     sdk_list_customers = (\<lambda>s n k. Rejected sample_error),
     sdk_list_payment_methods = (\<lambda>s i. Rejected sample_error),
     sdk_fetch_payment = (\<lambda>s i. Rejected sample_error),
     sdk_refund = (\<lambda>s i a. Rejected sample_error),
     sdk_fetch_order = (\<lambda>s i. Rejected sample_error),
     sdk_get_invoice = (\<lambda>s i. Rejected sample_error),
     sdk_list_invoices = (\<lambda>s i. Rejected sample_error),
     sdk_create_invoice = (\<lambda>s c a d. Rejected sample_error),
     sdk_create_order = (\<lambda>s a c n. Rejected sample_error),
     sdk_stripe_customer = (\<lambda>s e. Rejected sample_error),
     sdk_stripe_checkout = (\<lambda>s p. Rejected sample_error),
     sdk_stripe_item = (\<lambda>s c a. Rejected sample_error),
     sdk_stripe_invoice = (\<lambda>s c. Rejected sample_error),
     sdk_stripe_finalize = (\<lambda>s i. Rejected sample_error),
     sdk_stripe_retrieve = (\<lambda>s i. Rejected sample_error),
     sdk_stripe_list = (\<lambda>s c n. Rejected sample_error)\<rparr>"

definition empty_world :: world where
  "empty_world = \<lparr>w_subs = [], w_ops = [], w_pays = [], w_invs = [], w_usage = [],
     w_locks = [], w_queued = [], w_calls = []\<rparr>"


end
