(* ===== verification/Billing_Plans.thy ===== *)
theory Billing_Plans
  imports Billing_Model
begin

text \<open>
  The price list (\<^verbatim>\<open>plans.config.ts\<close>, \<^verbatim>\<open>types/billing.types.ts\<close>), the usage counters
  (\<^verbatim>\<open>usage/usage.service.ts\<close>), the feature and limit checks
  (\<^verbatim>\<open>billing-access.service.ts\<close>), and the two computations on plans of
  \<^verbatim>\<open>billing.service.ts\<close>: the prorated refund and the upgrade test.
\<close>

section \<open>Plans\<close>

datatype billing_metric = MetricContacts | MetricAgents

datatype billing_feature =
  Analytics | Workflows | Broadcasts | Sla | ApiAccess | CustomRoles

record extra_agent =
  ea_pricePerUnit :: int
  ea_label :: string

record extra_contacts =
  ec_pricePerSlab :: int
  ec_slabSize :: int
  ec_label :: string

record plan_addons =
  ad_extraAgent :: "extra_agent option"
  ad_extraContacts :: "extra_contacts option"

record plan_definition =
  plan_name :: string
  plan_isTrial :: bool
  plan_trialDays :: "int option"
  plan_priceMonthly :: int
  plan_monthlyAmount :: int
  plan_stripePriceId :: "string option"
  plan_razorpayPlanId :: "string option"
  plan_limits :: "billing_metric \<Rightarrow> int"
  plan_features :: "billing_feature \<Rightarrow> bool"
  plan_addons :: "plan_addons option"

text \<open>The rupee sign as its three UTF-8 bytes.\<close>

definition rupee :: string where
  "rupee = [CHR 0xE2, CHR 0x82, CHR 0xB9]"

definition plan_trial :: plan_definition where
  "plan_trial = \<lparr>
     plan_name = ''Trial'', plan_isTrial = True, plan_trialDays = Some 14,
     plan_priceMonthly = 0, plan_monthlyAmount = 0,
     plan_stripePriceId = None, plan_razorpayPlanId = None,
     plan_limits = (\<lambda>m. case m of MetricAgents \<Rightarrow> 100 | MetricContacts \<Rightarrow> 1000),
     plan_features = (\<lambda>f. f = Analytics),
     plan_addons = None\<rparr>"

definition plan_starter :: "env \<Rightarrow> plan_definition" where
  "plan_starter E = \<lparr>
     plan_name = ''Starter'', plan_isTrial = False, plan_trialDays = None,
     plan_priceMonthly = 999, plan_monthlyAmount = 999,
     plan_stripePriceId = env_var E ''STRIPE_PRICE_STARTER'',
     plan_razorpayPlanId = env_var E ''STRIPE_PRICE_STARTER'',
     plan_limits = (\<lambda>m. case m of MetricAgents \<Rightarrow> 2 | MetricContacts \<Rightarrow> 1000),
     plan_features = (\<lambda>f. f = Analytics),
     plan_addons = Some \<lparr>
       ad_extraAgent = Some \<lparr>ea_pricePerUnit = 29900, ea_label = rupee @ ''299/extra agent/mo''\<rparr>,
       ad_extraContacts = Some \<lparr>ec_pricePerSlab = 14900, ec_slabSize = 1000,
                                ec_label = rupee @ ''149 per 1,000 contacts/mo''\<rparr>\<rparr>\<rparr>"

definition plan_growth :: "env \<Rightarrow> plan_definition" where
  "plan_growth E = \<lparr>
     plan_name = ''Growth'', plan_isTrial = False, plan_trialDays = None,
     plan_priceMonthly = 2999, plan_monthlyAmount = 2999,
     plan_stripePriceId = env_var E ''STRIPE_PRICE_GROWTH'',
     plan_razorpayPlanId = env_var E ''STRIPE_PRICE_GROWTH'',
     plan_limits = (\<lambda>m. case m of MetricAgents \<Rightarrow> 5 | MetricContacts \<Rightarrow> 10000),
     plan_features = (\<lambda>_. True),
     plan_addons = Some \<lparr>
       ad_extraAgent = Some \<lparr>ea_pricePerUnit = 24900, ea_label = rupee @ ''249/extra agent/mo''\<rparr>,
       ad_extraContacts = Some \<lparr>ec_pricePerSlab = 9900, ec_slabSize = 1000,
                                ec_label = rupee @ ''99 per 1,000 contacts/mo''\<rparr>\<rparr>\<rparr>"

definition plan_pro :: "env \<Rightarrow> plan_definition" where
  "plan_pro E = \<lparr>
     plan_name = ''Pro'', plan_isTrial = False, plan_trialDays = None,
     plan_priceMonthly = 9999, plan_monthlyAmount = 9999,
     plan_stripePriceId = env_var E ''STRIPE_PRICE_PRO'',
     plan_razorpayPlanId = env_var E ''STRIPE_PRICE_PRO'',
     plan_limits = (\<lambda>m. case m of MetricAgents \<Rightarrow> 999999 | MetricContacts \<Rightarrow> 100000),
     plan_features = (\<lambda>_. True),
     plan_addons = Some \<lparr>
       ad_extraAgent = None,
       ad_extraContacts = Some \<lparr>ec_pricePerSlab = 4900, ec_slabSize = 1000,
                                ec_label = rupee @ ''49 per 1,000 contacts/mo''\<rparr>\<rparr>\<rparr>"

definition PLANS :: "env \<Rightarrow> string \<Rightarrow> plan_definition option" where
  "PLANS E k =
     (if k = ''trial'' then Some plan_trial
      else if k = ''starter'' then Some (plan_starter E)
      else if k = ''growth'' then Some (plan_growth E)
      else if k = ''pro'' then Some (plan_pro E)
      else None)"

section \<open>Upgrade test and prorated refund\<close>

text \<open>\<^verbatim>\<open>Array.prototype.indexOf\<close>: \<open>-1\<close> for a missing element.\<close>

fun js_index_of :: "'a list \<Rightarrow> 'a \<Rightarrow> int" where
  "js_index_of [] y = -1"
| "js_index_of (x # xs) y =
     (if x = y then 0 else let i = js_index_of xs y in if i = -1 then -1 else i + 1)"

definition isUpgrade :: "string \<Rightarrow> string \<Rightarrow> bool" where
  "isUpgrade currentPlan targetPlan =
     (let order = [''trial'', ''starter'', ''growth'', ''enterprise'']
      in js_index_of order targetPlan > js_index_of order currentPlan)"

text \<open>\<^verbatim>\<open>Math.round(a / b)\<close> for a positive divisor, over the rationals: halves go up.\<close>

definition js_round_div :: "int \<Rightarrow> int \<Rightarrow> int" where
  "js_round_div a b = (2 * a + b) div (2 * b)"

definition calculateProratedPlanRefund :: "env \<Rightarrow> int \<Rightarrow> subscription \<Rightarrow> int" where
  "calculateProratedPlanRefund E now sub =
     (case (sub_currentPeriodStart sub, sub_currentPeriodEnd sub) of
        (Some start, Some end') \<Rightarrow>
          let totalMs = end' - start
          in if totalMs \<le> 0 \<or> now \<ge> end' then 0
             else let currentMonthlyAmount =
                        (case PLANS E (sub_plan sub) of None \<Rightarrow> 0 | Some p \<Rightarrow> plan_monthlyAmount p)
                  in max 0 (js_round_div (currentMonthlyAmount * max 0 (end' - now)) totalMs)
      | _ \<Rightarrow> 0)"

section \<open>Usage counters\<close>

definition getPeriod :: "env \<Rightarrow> int \<Rightarrow> string" where
  "getPeriod E now =
     (case env_yearMonth E now of
        (year, month) \<Rightarrow> js_nat_str year @ ''-'' @ js_pad_start 2 (CHR ''0'') (js_nat_str (month + 1)))"

definition usage_key :: "string \<Rightarrow> string \<Rightarrow> string \<Rightarrow> usage_row \<Rightarrow> bool" where
  "usage_key ws metric period r =
     (us_workspaceId r = ws \<and> us_metric r = metric \<and> us_period r = period)"

definition usage_upsert ::
    "string \<Rightarrow> string \<Rightarrow> string \<Rightarrow> (int \<Rightarrow> int) \<Rightarrow> int \<Rightarrow> usage_row list \<Rightarrow> usage_row list" where
  "usage_upsert ws metric period f v rows =
     (if find (usage_key ws metric period) rows = None
      then rows @ [\<lparr>us_workspaceId = ws, us_metric = metric, us_period = period, us_value = v\<rparr>]
      else upd_where (usage_key ws metric period) (\<lambda>r. r\<lparr>us_value := f (us_value r)\<rparr>) rows)"

definition usage_increment :: "env \<Rightarrow> string \<Rightarrow> string \<Rightarrow> int \<Rightarrow> unit bill" where
  "usage_increment E ws metric amount =
     modify (\<lambda>s. s\<lparr>w_usage :=
       usage_upsert ws metric (getPeriod E (env_now E s)) (\<lambda>v. v + amount) amount (w_usage s)\<rparr>)"

definition usage_set :: "env \<Rightarrow> string \<Rightarrow> string \<Rightarrow> int \<Rightarrow> unit bill" where
  "usage_set E ws metric value =
     modify (\<lambda>s. s\<lparr>w_usage :=
       usage_upsert ws metric (getPeriod E (env_now E s)) (\<lambda>_. value) value (w_usage s)\<rparr>)"

definition getUsage :: "env \<Rightarrow> string \<Rightarrow> string \<Rightarrow> int bill" where
  "getUsage E ws metric =
     gets (\<lambda>s. case find (usage_key ws metric (getPeriod E (env_now E s))) (w_usage s) of
                 None \<Rightarrow> 0 | Some r \<Rightarrow> us_value r)"

definition getUsageMap :: "env \<Rightarrow> string \<Rightarrow> (string \<Rightarrow> int option) bill" where
  "getUsageMap E ws =
     gets (\<lambda>s. foldl (\<lambda>acc r. acc(us_metric r \<mapsto> us_value r)) Map.empty
                 (filter (\<lambda>r. us_workspaceId r = ws \<and> us_period r = getPeriod E (env_now E s))
                    (w_usage s)))"

section \<open>Feature and limit checks\<close>

definition metric_name :: "billing_metric \<Rightarrow> string" where
  "metric_name m = (case m of MetricContacts \<Rightarrow> ''contacts'' | MetricAgents \<Rightarrow> ''agents'')"

definition feature_name :: "billing_feature \<Rightarrow> string" where
  "feature_name f =
     (case f of Analytics \<Rightarrow> ''analytics'' | Workflows \<Rightarrow> ''workflows'' | Broadcasts \<Rightarrow> ''broadcasts''
      | Sla \<Rightarrow> ''sla'' | ApiAccess \<Rightarrow> ''apiAccess'' | CustomRoles \<Rightarrow> ''customRoles'')"

definition plan_of_key :: "env \<Rightarrow> string \<Rightarrow> plan_definition" where
  "plan_of_key E k = js_default (PLANS E k) plan_trial"

definition getWorkspacePlan ::
    "env \<Rightarrow> string \<Rightarrow> (subscription option \<times> plan_definition \<times> string) bill" where
  "getWorkspacePlan E ws =
     bind_io (sub_find (by_workspace ws))
       (\<lambda>sub. let planKey = js_or_str (map_option sub_plan sub) ''trial''
              in ret (sub, plan_of_key E planKey, planKey))"

definition inactive_statuses :: "subscription_status list" where
  "inactive_statuses = [Expired, Cancelled, Paused, Unpaid]"

definition requireFeature :: "env \<Rightarrow> string \<Rightarrow> billing_feature \<Rightarrow> bool bill" where
  "requireFeature E ws feature =
     bind_io (getWorkspacePlan E ws)
       (\<lambda>(sub, plan, planKey). case sub of
          None \<Rightarrow> throw (ForbiddenException ''No active subscription'')
        | Some r \<Rightarrow>
            if sub_status r \<in> set inactive_statuses then
              throw (ForbiddenException ''Subscription inactive'')
            else if \<not> plan_features plan feature then
              throw (ForbiddenException (''Upgrade plan to use '' @ feature_name feature))
            else ret True)"

definition requireLimit :: "env \<Rightarrow> string \<Rightarrow> billing_metric \<Rightarrow> bool bill" where
  "requireLimit E ws metric =
     bind_io (getWorkspacePlan E ws)
       (\<lambda>(sub, plan, planKey). case sub of
          None \<Rightarrow> throw (ForbiddenException ''No active subscription'')
        | Some r \<Rightarrow>
            if sub_status r \<in> set inactive_statuses then
              throw (ForbiddenException ''Subscription inactive'')
            else bind_io (getUsage E ws (metric_name metric))
              (\<lambda>current. if current \<ge> plan_limits plan metric
                 then throw (ForbiddenException (metric_name metric @ '' limit reached''))
                 else ret True))"

section \<open>Lemmas\<close>

lemma PLANS_simps [simp]:
  "PLANS E ''trial'' = Some plan_trial"
  "PLANS E ''starter'' = Some (plan_starter E)"
  "PLANS E ''growth'' = Some (plan_growth E)"
  "PLANS E ''pro'' = Some (plan_pro E)"
  by (simp_all add: PLANS_def)

lemma PLANS_keys: "PLANS E k \<noteq> None \<longleftrightarrow> k \<in> {''trial'', ''starter'', ''growth'', ''pro''}"
  by (auto simp: PLANS_def)

lemma plan_monthlyAmount_nonneg: "PLANS E k = Some p \<Longrightarrow> 0 \<le> plan_monthlyAmount p"
  by (auto simp: PLANS_def plan_trial_def plan_starter_def plan_growth_def plan_pro_def
      split: if_splits)

lemma js_round_div_bounds:
  assumes "0 < b" and "0 \<le> a" and "a \<le> m * b"
  shows "0 \<le> js_round_div a b" and "js_round_div a b \<le> m"
proof -
  show "0 \<le> js_round_div a b"
    using assms by (simp add: js_round_div_def div_int_pos_iff)
  have "(2 * a + b) div (2 * b) \<le> (b + m * (2 * b)) div (2 * b)"
    using assms by (intro zdiv_mono1) (simp_all add: algebra_simps)
  also have "\<dots> = m"
    using assms(1) by (simp add: div_mult_self1)
  finally show "js_round_div a b \<le> m"
    by (simp add: js_round_div_def)
qed

lemma js_round_div_mono: "0 < b \<Longrightarrow> a \<le> a' \<Longrightarrow> js_round_div a b \<le> js_round_div a' b"
  by (simp add: js_round_div_def zdiv_mono1)

text \<open>The contract of a counter table, as its clients use it.\<close>

locale counter_store =
  fixes upd :: "'k \<Rightarrow> (int \<Rightarrow> int) \<Rightarrow> int \<Rightarrow> 't \<Rightarrow> 't"
    and val :: "'k \<Rightarrow> 't \<Rightarrow> int option"
  assumes val_upd_same: "val k (upd k f v t) = Some (case val k t of None \<Rightarrow> v | Some n \<Rightarrow> f n)"
    and val_upd_other: "k \<noteq> k' \<Longrightarrow> val k' (upd k f v t) = val k' t"
begin

definition count :: "'k \<Rightarrow> 't \<Rightarrow> int" where
  "count k t = js_default (val k t) 0"

lemma count_add: "count k (upd k (\<lambda>n. n + a) a t) = count k t + a"
  by (simp add: count_def val_upd_same split: option.splits)

lemma count_set: "count k (upd k (\<lambda>_. v) v t) = v"
  by (simp add: count_def val_upd_same split: option.splits)

lemma count_other: "k \<noteq> k' \<Longrightarrow> count k' (upd k f v t) = count k' t"
  by (simp add: count_def val_upd_other)

end

definition usage_value :: "string \<times> string \<times> string \<Rightarrow> usage_row list \<Rightarrow> int option" where
  "usage_value k rows = (case k of (ws, m, p) \<Rightarrow> map_option us_value (find (usage_key ws m p) rows))"

definition usage_upd ::
    "string \<times> string \<times> string \<Rightarrow> (int \<Rightarrow> int) \<Rightarrow> int \<Rightarrow> usage_row list \<Rightarrow> usage_row list" where
  "usage_upd k f v rows = (case k of (ws, m, p) \<Rightarrow> usage_upsert ws m p f v rows)"

lemma usage_key_value [simp]: "usage_key ws m p (r\<lparr>us_value := v\<rparr>) = usage_key ws m p r"
  by (simp add: usage_key_def)

lemma find_usage_append:
  "find P (rows @ [r]) = (case find P rows of None \<Rightarrow> if P r then Some r else None | Some x \<Rightarrow> Some x)"
  by (induction rows) auto

lemma find_usage_other:
  assumes "\<And>r. P r \<Longrightarrow> \<not> Q r" and "\<And>r. Q (f r) = Q r"
  shows "find Q (upd_where P f rows) = find Q rows"
  using assms by (induction rows) auto

interpretation usage: counter_store usage_upd usage_value
proof
  fix k :: "string \<times> string \<times> string" and f v t
  obtain ws m p where k: "k = (ws, m, p)" by (cases k)
  show "usage_value k (usage_upd k f v t) = Some (case usage_value k t of None \<Rightarrow> v | Some n \<Rightarrow> f n)"
  proof (cases "find (usage_key ws m p) t")
    case None
    then show ?thesis
      by (simp add: k usage_value_def usage_upd_def usage_upsert_def find_usage_append)
         (simp add: usage_key_def)
  next
    case (Some r)
    with find_upd_where_same [of "usage_key ws m p" t r "\<lambda>r. r\<lparr>us_value := f (us_value r)\<rparr>"]
    show ?thesis
      by (simp add: k usage_value_def usage_upd_def usage_upsert_def)
  qed
next
  fix k k' :: "string \<times> string \<times> string" and f v t
  assume ne: "k \<noteq> k'"
  obtain ws m p where k: "k = (ws, m, p)" by (cases k)
  obtain ws' m' p' where k': "k' = (ws', m', p')" by (cases k')
  have disj: "usage_key ws m p r \<Longrightarrow> \<not> usage_key ws' m' p' r" for r
    using ne by (auto simp: k k' usage_key_def)
  have new: "\<not> usage_key ws' m' p' \<lparr>us_workspaceId = ws, us_metric = m, us_period = p, us_value = v\<rparr>"
    using ne by (auto simp: k k' usage_key_def)
  have "find (usage_key ws' m' p') (usage_upsert ws m p f v t) = find (usage_key ws' m' p') t"
    using new find_usage_other [of "usage_key ws m p" "usage_key ws' m' p'"
        "\<lambda>r. r\<lparr>us_value := f (us_value r)\<rparr>" t] disj
    by (auto simp: usage_upsert_def find_usage_append split: option.splits)
  then show "usage_value k' (usage_upd k f v t) = usage_value k' t"
    by (simp add: k k' usage_value_def usage_upd_def)
qed

lemma getUsage_count:
  "getUsage E ws m s = (Inr (usage.count (ws, m, getPeriod E (env_now E s)) (w_usage s)), s)"
  by (simp add: getUsage_def gets_def usage.count_def usage_value_def split: option.splits)

lemma usage_run:
  "usage_increment E ws m a s =
     (Inr (), s\<lparr>w_usage := usage_upd (ws, m, getPeriod E (env_now E s)) (\<lambda>v. v + a) a (w_usage s)\<rparr>)"
  "usage_set E ws m a s =
     (Inr (), s\<lparr>w_usage := usage_upd (ws, m, getPeriod E (env_now E s)) (\<lambda>_. a) a (w_usage s)\<rparr>)"
  by (simp_all add: usage_increment_def usage_set_def usage_upd_def io_simps)

lemma workspace_plan_run:
  "getWorkspacePlan E ws s =
     (let sub = find (by_workspace ws) (w_subs s); key = js_or_str (map_option sub_plan sub) ''trial''
      in (Inr (sub, plan_of_key E key, key), s))"
  by (simp add: getWorkspacePlan_def sub_find_def bind_gets ret_def Let_def)

definition monthly :: "env \<Rightarrow> string \<Rightarrow> int" where
  "monthly E k = (case PLANS E k of None \<Rightarrow> 0 | Some p \<Rightarrow> plan_monthlyAmount p)"

lemma monthly_nonneg [simp]: "0 \<le> monthly E k"
  by (auto simp: monthly_def plan_monthlyAmount_nonneg split: option.split)

lemma refund_eq:
  "calculateProratedPlanRefund E now sub =
     (case (sub_currentPeriodStart sub, sub_currentPeriodEnd sub) of
        (Some b, Some e) \<Rightarrow> if e \<le> b \<or> e \<le> now then 0
          else max 0 (js_round_div (monthly E (sub_plan sub) * (e - now)) (e - b))
      | _ \<Rightarrow> 0)"
  by (auto simp: calculateProratedPlanRefund_def monthly_def Let_def split: option.split)

section \<open>Properties\<close>

text \<open>
  C37: The prorated refund is never negative, never more than the plan's monthly price while the
  period has begun, zero once the period is over, and never grows as time passes.
\<close>

theorem refund_bounds:
  assumes "sub_currentPeriodStart sub = Some b" and "sub_currentPeriodEnd sub = Some e"
    and "b \<le> now" and "now \<le> later"
  shows "0 \<le> calculateProratedPlanRefund E now sub
         \<and> calculateProratedPlanRefund E now sub \<le> monthly E (sub_plan sub)
         \<and> calculateProratedPlanRefund E later sub \<le> calculateProratedPlanRefund E now sub
         \<and> (e \<le> now \<longrightarrow> calculateProratedPlanRefund E now sub = 0)"
proof (cases "e \<le> now")
  case True
  with assms show ?thesis by (simp add: refund_eq)
next
  case False
  let ?m = "monthly E (sub_plan sub)"
  have le: "?m * (e - now) \<le> ?m * (e - b)" and later: "?m * (e - later) \<le> ?m * (e - now)"
    using assms(3,4) by (simp_all add: mult_left_mono)
  have bounds: "0 \<le> js_round_div (?m * (e - now)) (e - b)" "js_round_div (?m * (e - now)) (e - b) \<le> ?m"
    using js_round_div_bounds [of "e - b" "?m * (e - now)" ?m] False assms(3) le by simp_all
  moreover have "js_round_div (?m * (e - later)) (e - b) \<le> js_round_div (?m * (e - now)) (e - b)"
    using False assms(3) later by (intro js_round_div_mono) simp_all
  ultimately show ?thesis
    using assms False by (simp add: refund_eq)
qed

definition plan_sub :: subscription where
  "plan_sub = \<lparr>sub_id = ''s1'', sub_workspaceId = ''w'', sub_plan = ''growth'', sub_status = Active,
     sub_provider = Some Razorpay, sub_providerCustomerId = Some ''c'', sub_providerSubId = Some ''b'',
     sub_trialStartAt = None, sub_trialEndAt = None, sub_currentPeriodStart = Some 0,
     sub_currentPeriodEnd = Some 30, sub_pendingPlan = None, sub_pendingEffectiveAt = None,
     sub_pendingProviderSubId = None, sub_quantity = 1, sub_lastRefundAmount = None,
     sub_lastRefundStatus = None, sub_lastRefundAt = None, sub_cancelAtPeriodEnd = False,
     sub_createdAt = 0\<rparr>"

theorem refund_bounds_witness:
  "calculateProratedPlanRefund sample_env 10 plan_sub = 1999
   \<and> calculateProratedPlanRefund sample_env 10 plan_sub \<le> 2999"
proof -
  have "calculateProratedPlanRefund sample_env 10 plan_sub \<le> monthly sample_env (sub_plan plan_sub)"
    using refund_bounds [of plan_sub 0 30 10 20 sample_env] by (simp add: plan_sub_def)
  then show ?thesis
    by (simp add: refund_eq monthly_def plan_sub_def plan_growth_def js_round_div_def)
qed

text \<open>
  A feature is granted exactly when the workspace has a subscription that is not expired,
  cancelled, paused or unpaid, and its plan (the trial plan for an unknown key) has the feature;
  otherwise the check throws, and the state is never changed.
\<close>

theorem requireFeature_exact:
  "(fst (requireFeature E ws f s) = Inr True \<longleftrightarrow>
     (\<exists>sub. find (by_workspace ws) (w_subs s) = Some sub
        \<and> sub_status sub \<in> {Trialing, Active, PastDue}
        \<and> plan_features (plan_of_key E (js_or_str (Some (sub_plan sub)) ''trial'')) f))
   \<and> fst (requireFeature E ws f s) \<noteq> Inr False \<and> snd (requireFeature E ws f s) = s"
proof -
  have active: "st \<in> set inactive_statuses \<longleftrightarrow> st \<notin> {Trialing, Active, PastDue}" for st
    by (cases st) (simp_all add: inactive_statuses_def)
  show ?thesis
    by (cases "find (by_workspace ws) (w_subs s)")
       (auto simp: requireFeature_def bind_io_def workspace_plan_run Let_def io_simps active)
qed

text \<open>
  A limit check lets a request through exactly when the subscription is in force and the
  counter of the current month is below the plan's limit, so that one more unit counted after
  the check never goes beyond the limit.
\<close>

theorem requireLimit_guards:
  assumes "requireLimit E ws metric s = (Inr True, t)"
    and "usage_increment E ws (metric_name metric) 1 t = (Inr (), u)"
    and "getPeriod E (env_now E u) = getPeriod E (env_now E s)"
  shows "\<exists>sub n. find (by_workspace ws) (w_subs s) = Some sub \<and> t = s
     \<and> getUsage E ws (metric_name metric) u = (Inr n, u)
     \<and> n \<le> plan_limits (plan_of_key E (js_or_str (Some (sub_plan sub)) ''trial'')) metric"
proof -
  let ?k = "(ws, metric_name metric, getPeriod E (env_now E s))"
  obtain sub where sub: "find (by_workspace ws) (w_subs s) = Some sub" and t: "t = s"
    and less: "usage.count ?k (w_usage s) < plan_limits (plan_of_key E (js_or_str (Some (sub_plan sub)) ''trial'')) metric"
    using assms(1)
    by (cases "find (by_workspace ws) (w_subs s)")
       (auto simp: requireLimit_def bind_io_def workspace_plan_run Let_def io_simps getUsage_count
          split: if_splits)
  have "usage.count ?k (w_usage u) = usage.count ?k (w_usage s) + 1"
    using assms(2) usage.count_add [of ?k 1 "w_usage s"] by (auto simp: usage_run t)
  then show ?thesis
    using sub t less assms(3) by (auto simp: getUsage_count)
qed

definition plan_world :: world where
  "plan_world = empty_world\<lparr>w_subs := [plan_sub]\<rparr>"

theorem requireLimit_witness:
  "\<exists>u n. usage_increment sample_env ''w'' ''contacts'' 1 plan_world = (Inr (), u)
     \<and> getUsage sample_env ''w'' ''contacts'' u = (Inr n, u) \<and> n \<le> 10000"
proof -
  have "requireLimit sample_env ''w'' MetricContacts plan_world = (Inr True, plan_world)"
    by (simp add: requireLimit_def bind_io_def workspace_plan_run io_simps getUsage_def plan_world_def
        plan_sub_def empty_world_def by_workspace_def inactive_statuses_def plan_of_key_def
        plan_growth_def Let_def)
  moreover obtain u where u: "usage_increment sample_env ''w'' (metric_name MetricContacts) 1 plan_world = (Inr (), u)"
    by (simp add: usage_run)
  moreover have "getPeriod sample_env (env_now sample_env u) = getPeriod sample_env (env_now sample_env plan_world)"
    by (simp add: sample_env_def getPeriod_def)
  ultimately show ?thesis
    using requireLimit_guards [of sample_env "''w''" MetricContacts plan_world plan_world u]
    by (auto simp: metric_name_def plan_world_def plan_sub_def empty_world_def by_workspace_def
        plan_of_key_def plan_growth_def)
qed

text \<open>
  The usage counters of the current period: an increment adds to the counter of its
  workspace and metric, a set replaces it, and every other counter reads as before.
\<close>

theorem usage_counters:
  assumes "getPeriod E (env_now E t) = getPeriod E (env_now E s)" and "ws' \<noteq> ws \<or> m' \<noteq> m"
    and "getUsage E ws m s = (Inr n, s)" and "getUsage E ws' m' s = (Inr n', s)"
    and "usage_increment E ws m a s = (Inr (), t) \<or> usage_set E ws m (n + a) s = (Inr (), t)"
  shows "getUsage E ws m t = (Inr (n + a), t) \<and> getUsage E ws' m' t = (Inr n', t)"
  using assms usage.count_add [of "(ws, m, getPeriod E (env_now E s))" a "w_usage s"]
    usage.count_set [of "(ws, m, getPeriod E (env_now E s))" "n + a" "w_usage s"]
    usage.count_other [of "(ws, m, getPeriod E (env_now E s))" "(ws', m', getPeriod E (env_now E s))"
      _ _ "w_usage s"]
  by (auto simp: getUsage_count usage_run)

theorem usage_counters_witness:
  "\<exists>t. usage_increment sample_env ''w'' ''contacts'' 3 plan_world = (Inr (), t)
     \<and> getUsage sample_env ''w'' ''contacts'' t = (Inr 3, t)
     \<and> getUsage sample_env ''w'' ''agents'' t = (Inr 0, t)"
proof -
  obtain t where t: "usage_increment sample_env ''w'' ''contacts'' 3 plan_world = (Inr (), t)"
    by (simp add: usage_run)
  have "getUsage sample_env ''w'' m plan_world = (Inr 0, plan_world)" for m
    by (simp add: getUsage_def io_simps plan_world_def empty_world_def)
  moreover have "getPeriod sample_env (env_now sample_env t) = getPeriod sample_env (env_now sample_env plan_world)"
    by (simp add: sample_env_def getPeriod_def)
  ultimately show ?thesis
    using t usage_counters [of sample_env t plan_world "''w''" "''w''" "''agents''" "''contacts''" 0 0 3] by simp
qed

text \<open>
  The upgrade test is the strict order trial, starter, growth on these three plans; the
  plan \<^verbatim>\<open>pro\<close> is not in its list, so a change to it never counts as an upgrade and a
  change away from it always does.
\<close>

theorem isUpgrade_order:
  "(isUpgrade a b \<and> {a, b} \<subseteq> {''trial'', ''starter'', ''growth''} \<longleftrightarrow>
      (a, b) \<in> {(''trial'', ''starter''), (''trial'', ''growth''), (''starter'', ''growth'')})
   \<and> \<not> isUpgrade a ''pro''
   \<and> (a \<in> {''trial'', ''starter'', ''growth''} \<longrightarrow> isUpgrade ''pro'' a)
   \<and> (PLANS E ''pro'' \<noteq> None) \<and> PLANS E ''enterprise'' = None"
proof -
  have "js_index_of xs y \<ge> -1" for xs and y :: string
    by (induction xs) (auto simp: Let_def)
  then have "\<not> isUpgrade a ''pro''" by (simp add: isUpgrade_def not_less)
  moreover have "PLANS E ''enterprise'' = None" by (simp add: PLANS_def)
  ultimately show ?thesis
    by (auto simp: isUpgrade_def)
qed

theorem isUpgrade_witness: "isUpgrade ''pro'' ''starter'' \<and> \<not> isUpgrade ''growth'' ''pro''"
  using isUpgrade_order [of "''starter''" "''pro''" sample_env] isUpgrade_order [of "''growth''" "''pro''" sample_env]
  by simp

end
