(* ===== verification/Razorpay_Service.thy ===== *)
theory Razorpay_Service
  imports Billing_Model
begin

text \<open>
  \<^verbatim>\<open>src/src/modules/billing/providers/razorpay.service.ts\<close>: the wrapper around the Razorpay
  SDK. Most methods are written \<^verbatim>\<open>try { return this.razorpay.x(...) } catch { throw ... }\<close>
  without \<^verbatim>\<open>await\<close>: the handler sees an exception thrown by the call itself, and never the
  rejection of the promise it returns. \<open>returned_promise\<close> is that shape, \<open>awaited\<close> the shape
  with \<^verbatim>\<open>await\<close>.
\<close>

definition returned_promise :: "string \<Rightarrow> call \<Rightarrow> (world \<Rightarrow> 'a sdk) \<Rightarrow> 'a bill" where
  "returned_promise msg c f s =
     (case sdk_call c f s of
        (Resolved x, t) \<Rightarrow> (Inr x, t)
      | (Rejected e, t) \<Rightarrow> (Inl (SdkException e), t)
      | (Threw e, t) \<Rightarrow> (Inl (InternalServerErrorException msg), t))"

text \<open>\<^verbatim>\<open>await\<close>: a rejection and a thrown exception look the same to the handler.\<close>

definition awaited :: "call \<Rightarrow> (world \<Rightarrow> 'a sdk) \<Rightarrow> 'a bill" where
  "awaited c f s =
     (case sdk_call c f s of
        (Resolved x, t) \<Rightarrow> (Inr x, t)
      | (Rejected e, t) \<Rightarrow> (Inl (SdkException e), t)
      | (Threw e, t) \<Rightarrow> (Inl (SdkException e), t))"

definition getProviderErrorDescription :: "exn \<Rightarrow> string" where
  "getProviderErrorDescription ex =
     (case ex of
        SdkException e \<Rightarrow>
          js_or_str (js_or (se_error_description e) (js_or (se_description e) (se_message e))) []
      | _ \<Rightarrow> [])"

definition isCustomerAlreadyExistsError :: "exn \<Rightarrow> bool" where
  "isCustomerAlreadyExistsError ex =
     js_includes (js_lower (getProviderErrorDescription ex)) ''customer already exists''"

definition normaliseEmail :: "string option \<Rightarrow> string" where
  "normaliseEmail email = js_lower (js_trim (js_or_str email []))"

definition normaliseContact :: "string option \<Rightarrow> string" where
  "normaliseContact contact = js_trim (js_or_str contact [])"

definition customer_matches :: "string \<Rightarrow> string \<Rightarrow> rp_customer \<Rightarrow> bool" where
  "customer_matches expectedEmail expectedContact c =
     (let emailMatches = expectedEmail \<noteq> [] \<and> normaliseEmail (cu_email c) = expectedEmail;
          contactMatches = expectedContact \<noteq> [] \<and> normaliseContact (cu_contact c) = expectedContact
      in if expectedEmail \<noteq> [] \<and> expectedContact \<noteq> [] then emailMatches \<and> contactMatches
         else emailMatches \<or> contactMatches)"

text \<open>The page loop: \<open>pages\<close> is the number of pages left, \<open>page\<close> the next page.\<close>

fun customer_pages :: "env \<Rightarrow> string \<Rightarrow> string \<Rightarrow> nat \<Rightarrow> nat \<Rightarrow> rp_customer option bill" where
  "customer_pages E em ct 0 page = ret None"
| "customer_pages E em ct (Suc pages) page =
     bind_io (awaited (CallListCustomers 100 (page * 100)) (\<lambda>s. sdk_list_customers E s 100 (page * 100)))
       (\<lambda>items. case find (customer_matches em ct) items of
          Some c \<Rightarrow> ret (Some c)
        | None \<Rightarrow> if length items < 100 then ret None else customer_pages E em ct pages (Suc page))"

definition findExistingCustomer :: "env \<Rightarrow> string \<Rightarrow> string option \<Rightarrow> rp_customer option bill" where
  "findExistingCustomer E email contact =
     customer_pages E (normaliseEmail (Some email)) (normaliseContact contact) 10 0"

definition createCustomer ::
    "env \<Rightarrow> string \<Rightarrow> string \<Rightarrow> string option \<Rightarrow> rp_customer bill" where
  "createCustomer E name email contact =
     (let payload_contact = (if js_truthy contact then contact else None)
      in catch_io
           (awaited (CallCreateCustomer name email payload_contact)
              (\<lambda>s. sdk_create_customer E s name email payload_contact))
           (\<lambda>ex.
              if isCustomerAlreadyExistsError ex then
                bind_io (findExistingCustomer E email contact)
                  (\<lambda>found. case found of
                     Some c \<Rightarrow> ret c
                   | None \<Rightarrow> throw (BadRequestException
                       ''Razorpay customer already exists but could not be resolved.''))
              else throw (InternalServerErrorException ''Failed to create Razorpay customer'')))"

text \<open>No handler at all: every error of the SDK reaches the caller.\<close>

definition createSubscription ::
    "env \<Rightarrow> string \<Rightarrow> string option \<Rightarrow> bool \<Rightarrow> int option \<Rightarrow> int option \<Rightarrow> int option \<Rightarrow> note_list
     \<Rightarrow> rp_subscription bill" where
  "createSubscription E planId customerId customerNotify totalCount startAt expireBy notes =
     (let payload = \<lparr>sp_plan_id = planId,
                     sp_customer_notify = (if customerNotify then 1 else 0),
                     sp_total_count = js_num_or totalCount 12,
                     sp_customer_id = (if js_truthy customerId then customerId else None),
                     sp_start_at = (if js_num_or startAt 0 \<noteq> 0 then startAt else None),
                     sp_expire_by = (if js_num_or expireBy 0 \<noteq> 0 then expireBy else None),
                     sp_notes = (if notes \<noteq> [] then Some notes else None)\<rparr>
      in awaited (CallCreateSubscription payload) (\<lambda>s. sdk_create_subscription E s payload))"

text \<open>The comparison of the hex digest; \<open>hmac\<close> is HMAC-SHA256 under the configured secret.\<close>

definition rp_verifyWebhookSignature :: "(string \<Rightarrow> string) \<Rightarrow> string \<Rightarrow> string \<Rightarrow> bool" where
  "rp_verifyWebhookSignature hmac rawBody signature = (hmac rawBody = signature)"

definition fetchSubscription :: "env \<Rightarrow> string \<Rightarrow> rp_subscription bill" where
  "fetchSubscription E i =
     returned_promise ''Failed to fetch Razorpay subscription''
       (CallFetchSubscription i) (\<lambda>s. sdk_fetch_subscription E s i)"

text \<open>The customer id of the parameters is not part of the request.\<close>

definition listSubscriptions ::
    "env \<Rightarrow> string option \<Rightarrow> int option \<Rightarrow> int option \<Rightarrow> rp_subscription list bill" where
  "listSubscriptions E customerId count skip =
     returned_promise ''Failed to list Razorpay subscriptions''
       (CallListSubscriptions (js_default count 100) (js_default skip 0))
       (\<lambda>s. sdk_list_subscriptions E s (js_default count 100) (js_default skip 0))"

datatype payment_method = Card | Upi | Emandate | UnknownMethod

definition method_of_string :: "string option \<Rightarrow> payment_method" where
  "method_of_string m =
     (if m = Some ''card'' then Card
      else if m = Some ''upi'' then Upi
      else if m = Some ''emandate'' then Emandate
      else UnknownMethod)"

definition getSubscriptionPaymentMethod :: "env \<Rightarrow> string \<Rightarrow> payment_method bill" where
  "getSubscriptionPaymentMethod E i =
     catch_io
       (bind_io (awaited (CallListPayments i 1) (\<lambda>s. sdk_list_payment_methods E s i))
          (\<lambda>items. ret (case items of [] \<Rightarrow> UnknownMethod | m # _ \<Rightarrow> method_of_string m)))
       (\<lambda>_. ret UnknownMethod)"

text \<open>
  The handler of \<^verbatim>\<open>updateSubscription\<close> reads the description of an error; without
  \<^verbatim>\<open>await\<close> it only sees an exception thrown by the call itself.
\<close>

definition update_error :: "sdk_error \<Rightarrow> exn" where
  "update_error e =
     (let description = js_lower (getProviderErrorDescription (SdkException e))
      in if js_includes description ''another subscription operation is in progress'' then
           BadRequestException
             ''Razorpay is already processing a subscription change. Please wait and try again.''
         else if js_includes description
                (''can'' @ [CHR 39] @ ''t update subscription immediately when card mandate is applicable'') then
           BadRequestException
             ''Razorpay card mandates only allow subscription plan changes at cycle end.''
         else InternalServerErrorException ''Failed to update Razorpay subscription'')"

definition updateSubscription ::
    "env \<Rightarrow> string \<Rightarrow> string option \<Rightarrow> int option \<Rightarrow> string option \<Rightarrow> int option \<Rightarrow> bool option
     \<Rightarrow> rp_subscription bill" where
  "updateSubscription E i planId quantity scheduleChangeAt remainingCount customerNotify s =
     (let payload = \<lparr>up_plan_id = (if js_truthy planId then planId else None),
                     up_quantity = quantity,
                     up_schedule_change_at = (if js_truthy scheduleChangeAt then scheduleChangeAt else None),
                     up_remaining_count = remainingCount,
                     up_customer_notify = map_option (\<lambda>b. if b then 1 else 0) customerNotify\<rparr>
      in case sdk_call (CallUpdateSubscription i payload) (\<lambda>s. sdk_update_subscription E s i payload) s of
           (Resolved x, t) \<Rightarrow> (Inr x, t)
         | (Rejected e, t) \<Rightarrow> (Inl (SdkException e), t)
         | (Threw e, t) \<Rightarrow> (Inl (update_error e), t))"

definition rp_cancelSubscription :: "env \<Rightarrow> string \<Rightarrow> bool \<Rightarrow> rp_subscription bill" where
  "rp_cancelSubscription E i cancelAtCycleEnd =
     returned_promise ''Failed to cancel Razorpay subscription''
       (CallCancelSubscription i cancelAtCycleEnd) (\<lambda>s. sdk_cancel_subscription E s i cancelAtCycleEnd)"

datatype cancel_status = CancelCancelled | CancelDeferred | CancelNotStarted | CancelAlreadyCancelled

record cancel_result =
  cr_status :: cancel_status
  cr_subscription :: "rp_subscription option"
  cr_reason :: "string option"

definition cancel_reason :: "sdk_error \<Rightarrow> string \<Rightarrow> string option" where
  "cancel_reason e d = Some (js_or_str (js_or (se_error_description e) (se_message e)) d)"

text \<open>How a failed cancellation is classified; \<open>None\<close> is an error that is thrown.\<close>

definition classify_cancel_error :: "sdk_error \<Rightarrow> cancel_result option" where
  "classify_cancel_error e =
     (let description = js_lower (getProviderErrorDescription (SdkException e));
          statusCode = js_num_or (se_statusCode e) (js_num_or (se_status e) 0)
      in if statusCode = 429 \<or> js_includes description ''too many requests'' then
           Some \<lparr>cr_status = CancelDeferred, cr_subscription = None,
                 cr_reason = cancel_reason e ''Razorpay rate limit reached''\<rparr>
         else if js_includes description ''cannot be cancelled since no billing cycle is going on'' then
           Some \<lparr>cr_status = CancelNotStarted, cr_subscription = None,
                 cr_reason = cancel_reason e ''Subscription has no active billing cycle''\<rparr>
         else if js_includes description ''another subscription operation is in progress''
               \<or> js_includes description ''not cancellable in cancelled status''
               \<or> js_includes description ''already cancelled'' then
           Some \<lparr>cr_status = (if js_includes description ''operation is in progress''
                               then CancelDeferred else CancelAlreadyCancelled),
                 cr_subscription = None,
                 cr_reason = cancel_reason e ''Cancellation skipped''\<rparr>
         else None)"

definition cancelSubscriptionIfPossible :: "env \<Rightarrow> string \<Rightarrow> bool \<Rightarrow> cancel_result bill" where
  "cancelSubscriptionIfPossible E i cancelAtCycleEnd =
     catch_io
       (bind_io (awaited (CallCancelSubscription i cancelAtCycleEnd)
                   (\<lambda>s. sdk_cancel_subscription E s i cancelAtCycleEnd))
          (\<lambda>sub. ret \<lparr>cr_status = CancelCancelled, cr_subscription = Some sub, cr_reason = None\<rparr>))
       (\<lambda>ex. case ex of
          SdkException e \<Rightarrow>
            (case classify_cancel_error e of
               Some r \<Rightarrow> ret r
             | None \<Rightarrow> throw (InternalServerErrorException ''Failed to cancel Razorpay subscription''))
        | _ \<Rightarrow> throw (InternalServerErrorException ''Failed to cancel Razorpay subscription''))"

definition getInvoice :: "env \<Rightarrow> string \<Rightarrow> rp_invoice bill" where
  "getInvoice E i =
     returned_promise ''Failed to fetch Razorpay invoice'' (CallGetInvoice i) (\<lambda>s. sdk_get_invoice E s i)"

definition fetchPayment :: "env \<Rightarrow> string \<Rightarrow> rp_payment bill" where
  "fetchPayment E i =
     returned_promise ''Failed to fetch Razorpay payment'' (CallFetchPayment i) (\<lambda>s. sdk_fetch_payment E s i)"

definition refundPayment :: "env \<Rightarrow> string \<Rightarrow> int \<Rightarrow> note_list \<Rightarrow> rp_refund bill" where
  "refundPayment E paymentId amount notes =
     returned_promise ''Failed to refund Razorpay payment''
       (CallRefundPayment paymentId amount notes) (\<lambda>s. sdk_refund E s paymentId amount)"

definition fetchOrder :: "env \<Rightarrow> string \<Rightarrow> rp_order bill" where
  "fetchOrder E i =
     returned_promise ''Failed to fetch Razorpay order'' (CallFetchOrder i) (\<lambda>s. sdk_fetch_order E s i)"

definition createOrder :: "env \<Rightarrow> int \<Rightarrow> string \<Rightarrow> note_list \<Rightarrow> rp_order bill" where
  "createOrder E amount currency notes =
     returned_promise ''Failed to create Razorpay order''
       (CallCreateOrder amount currency notes) (\<lambda>s. sdk_create_order E s amount currency notes)"

text \<open>The amount is that of the single line item; the currency is INR.\<close>

definition createInvoice ::
    "env \<Rightarrow> string option \<Rightarrow> int \<Rightarrow> string \<Rightarrow> note_list \<Rightarrow> rp_invoice bill" where
  "createInvoice E customerId amount description notes =
     returned_promise ''Failed to create Razorpay invoice''
       (CallCreateInvoice customerId amount description notes)
       (\<lambda>s. sdk_create_invoice E s customerId amount description)"

text \<open>An error of the SDK gives an empty list.\<close>

definition fetchSubscriptionInvoices :: "env \<Rightarrow> string \<Rightarrow> rp_invoice list bill" where
  "fetchSubscriptionInvoices E i =
     catch_io (awaited (CallListInvoices i 20) (\<lambda>s. sdk_list_invoices E s i)) (\<lambda>_. ret [])"

section \<open>Facts on the service\<close>

text \<open>Every method only appends to the call log.\<close>

definition only_calls :: "world \<Rightarrow> world \<Rightarrow> bool" where
  "only_calls s t \<longleftrightarrow> (\<exists>cs. t = s\<lparr>w_calls := w_calls s @ cs\<rparr>)"

interpretation calls_only: step_order only_calls
proof
  show "only_calls s s" for s
    unfolding only_calls_def by (rule exI [of _ "[]"]) simp
next
  show "only_calls s t \<Longrightarrow> only_calls t u \<Longrightarrow> only_calls s u" for s t u
    by (auto simp: only_calls_def)
qed

lemma sdk_call_simps [simp]:
  "fst (sdk_call c f s) = f (snd (sdk_call c f s))"
  "snd (sdk_call c f s) = s\<lparr>w_calls := w_calls s @ [c]\<rparr>"
  by (simp_all add: sdk_call_def Let_def)

lemma returned_promise_state: "snd (returned_promise msg c f s) = s\<lparr>w_calls := w_calls s @ [c]\<rparr>"
  by (auto simp: returned_promise_def sdk_call_def Let_def split: sdk.splits)

lemma awaited_state: "snd (awaited c f s) = s\<lparr>w_calls := w_calls s @ [c]\<rparr>"
  by (auto simp: awaited_def sdk_call_def Let_def split: sdk.splits)

lemma only_calls_sdk: "keeps only_calls (returned_promise msg c f)" "keeps only_calls (awaited c f)"
  by (auto intro!: keepsI simp: returned_promise_state awaited_state only_calls_def)

lemma only_calls_customer_pages: "keeps only_calls (customer_pages E em ct n p)"
  by (induction n arbitrary: p)
     (auto intro!: calls_only.r_intros only_calls_sdk)

lemma only_calls_createCustomer: "keeps only_calls (createCustomer E name email contact)"
  unfolding createCustomer_def findExistingCustomer_def Let_def
  by (intro calls_only.r_intros only_calls_sdk only_calls_customer_pages)

lemma only_calls_cancel: "keeps only_calls (cancelSubscriptionIfPossible E i b)"
  unfolding cancelSubscriptionIfPossible_def
  by (intro calls_only.r_intros only_calls_sdk)
     (auto split: exn.splits intro!: calls_only.r_intros)

lemma only_calls_service:
  "keeps only_calls (createSubscription E pl cu cn tc sa eb nt)"
  "keeps only_calls (fetchSubscription E i)"
  "keeps only_calls (listSubscriptions E cu n k)"
  "keeps only_calls (getInvoice E i)"
  "keeps only_calls (fetchPayment E i)"
  "keeps only_calls (refundPayment E i a nt)"
  "keeps only_calls (fetchOrder E i)"
  "keeps only_calls (createOrder E a cur nt)"
  "keeps only_calls (createInvoice E cu a d nt)"
  "keeps only_calls (fetchSubscriptionInvoices E i)"
  "keeps only_calls (rp_cancelSubscription E i b)"
  unfolding createSubscription_def fetchSubscription_def listSubscriptions_def getInvoice_def
    fetchPayment_def refundPayment_def fetchOrder_def createOrder_def createInvoice_def
    fetchSubscriptionInvoices_def rp_cancelSubscription_def Let_def
  by (rule only_calls_sdk calls_only.r_catch calls_only.r_ret)+

lemmas service_calls =
  only_calls_sdk only_calls_customer_pages only_calls_createCustomer only_calls_cancel
  only_calls_service

end
