(* ===== verification/Billing_Ops.thy ===== *)
theory Billing_Ops
  imports Razorpay_Service
begin

text \<open>
  The table of subscription operations, the work list of the Razorpay reconciler
  (\<^verbatim>\<open>billing.service.ts\<close>): its status machine, its keys, its two upserts, the completion
  of a replacement, and the claim and release of a row by a worker. The upserts read the row
  first and write afterwards; the writing half is a definition of its own, so that the writes
  of another process between the two can be placed there.
\<close>

section \<open>Status machine, delays and keys\<close>

definition RAZORPAY_OPERATION_TERMINAL_STATUSES :: "operation_status list" where
  "RAZORPAY_OPERATION_TERMINAL_STATUSES = [Completed, Abandoned]"

definition RAZORPAY_OPERATION_WORKER_STATUSES :: "operation_status list" where
  "RAZORPAY_OPERATION_WORKER_STATUSES = [Pending, CleanupPending, CancelRequested, Failed, Retrying]"

definition isTerminalRazorpayOperationStatus :: "operation_status \<Rightarrow> bool" where
  "isTerminalRazorpayOperationStatus st = (st \<in> set RAZORPAY_OPERATION_TERMINAL_STATUSES)"

definition nextRazorpayOperationStatus ::
    "operation_status option \<Rightarrow> operation_status \<Rightarrow> operation_status" where
  "nextRazorpayOperationStatus existing requested =
     (case existing of
        None \<Rightarrow> requested
      | Some e \<Rightarrow>
          if isTerminalRazorpayOperationStatus e then e
          else if e = CancelRequested \<and> requested \<noteq> Completed \<and> requested \<noteq> Abandoned
                  \<and> requested \<noteq> Failed then CancelRequested
          else if e = CleanupPending \<and> requested = Pending then CleanupPending
          else requested)"

definition cleanup_delays :: "int list" where
  "cleanup_delays = [60000, 300000, 900000, 1800000]"

definition verification_delays :: "int list" where
  "verification_delays = [300000, 900000, 1800000, 3600000]"

definition getRazorpayCleanupDelayMs :: "nat \<Rightarrow> int" where
  "getRazorpayCleanupDelayMs attempt = cleanup_delays ! min attempt (length cleanup_delays - 1)"

definition getRazorpayCancellationVerificationDelayMs :: "nat \<Rightarrow> int" where
  "getRazorpayCancellationVerificationDelayMs attempt =
     verification_delays ! min attempt (length verification_delays - 1)"

definition buildRazorpayReplacementOperationKey :: "string \<Rightarrow> string \<Rightarrow> string \<Rightarrow> string" where
  "buildRazorpayReplacementOperationKey workspaceId oldProviderSubId newProviderSubId =
     js_join '':'' [''razorpay'', ''replace_subscription'', workspaceId, oldProviderSubId, newProviderSubId]"

definition buildRazorpayCancelOperationKey :: "string \<Rightarrow> string \<Rightarrow> string" where
  "buildRazorpayCancelOperationKey workspaceId providerSubId =
     js_join '':'' [''razorpay'', ''cancel_subscription'', workspaceId, providerSubId]"

section \<open>Upserts\<close>

record replacement_params =
  rp_workspaceId :: string
  rp_oldProviderSubId :: "string option"
  rp_newProviderSubId :: "string option"
  rp_plan :: "string option"
  rp_status :: operation_status
  rp_retryCount :: "nat option"
  rp_nextRetryAt :: "int option"
  rp_lastError :: "string option"
  rp_refundAmount :: "int option"

text \<open>
  The writing half: \<open>existing\<close> is what the read returned. Without a row it creates one; when
  the key was taken in the meantime it reads again and updates that row.
\<close>

definition replacement_write ::
    "env \<Rightarrow> replacement_params \<Rightarrow> string \<Rightarrow> operation option \<Rightarrow> operation option bill" where
  "replacement_write E p key existing =
     bind_io (clock E) (\<lambda>now.
      let status = nextRazorpayOperationStatus (map_option op_status existing) (rp_status p);
          retryCount = js_default (js_nullish (rp_retryCount p) (map_option op_retryCount existing)) 0;
          nextRetryAt = js_default (rp_nextRetryAt p) (now + getRazorpayCleanupDelayMs retryCount);
          metadata = map_option MetaRefundAmount (rp_refundAmount p)
      in (case existing of
            Some old \<Rightarrow>
              bind_io (op_update E (op_id old)
                 (\<lambda>r. r\<lparr>op_status := status, op_plan := js_nullish (rp_plan p) (op_plan old),
                       op_retryCount := retryCount, op_nextRetryAt := nextRetryAt,
                       op_lastError := js_nullish (rp_lastError p) (op_lastError old),
                       op_metadata := js_nullish metadata (op_metadata r)\<rparr>))
                (\<lambda>r. ret (Some r))
          | None \<Rightarrow>
              catch_io
                (bind_io (op_create E
                   \<lparr>op_id = [], op_operationKey = key, op_workspaceId = rp_workspaceId p,
                    op_provider = Razorpay, op_type = ReplaceSubscription, op_status = status,
                    op_oldProviderSubId = rp_oldProviderSubId p,
                    op_newProviderSubId = rp_newProviderSubId p, op_plan = rp_plan p,
                    op_retryCount = retryCount, op_nextRetryAt = nextRetryAt,
                    op_lockedAt = None, op_lockExpiresAt = None,
                    op_lastError = rp_lastError p, op_metadata = metadata, op_updatedAt = 0\<rparr>)
                  (\<lambda>r. ret (Some r)))
                (\<lambda>ex. if ex \<noteq> PrismaP2002 then throw ex
                   else bind_io (op_find (\<lambda>r. op_operationKey r = key))
                     (\<lambda>found. case found of
                        None \<Rightarrow> throw ex
                      | Some cur \<Rightarrow>
                          bind_io (op_update E (op_id cur)
                             (\<lambda>r. r\<lparr>op_status := nextRazorpayOperationStatus (Some (op_status cur)) (rp_status p),
                                   op_plan := js_nullish (rp_plan p) (op_plan cur),
                                   op_retryCount := js_default (rp_retryCount p) (op_retryCount cur),
                                   op_nextRetryAt := js_default (rp_nextRetryAt p) (op_nextRetryAt cur),
                                   op_lastError := js_nullish (rp_lastError p) (op_lastError cur),
                                   op_metadata := js_nullish metadata (op_metadata r)\<rparr>))
                            (\<lambda>r. ret (Some r))))))"

definition upsertRazorpayReplacementOperation ::
    "env \<Rightarrow> replacement_params \<Rightarrow> operation option bill" where
  "upsertRazorpayReplacementOperation E p =
     (if \<not> js_truthy (rp_oldProviderSubId p) \<or> \<not> js_truthy (rp_newProviderSubId p)
         \<or> rp_oldProviderSubId p = rp_newProviderSubId p
      then ret None
      else let key = buildRazorpayReplacementOperationKey (rp_workspaceId p)
                       (the (rp_oldProviderSubId p)) (the (rp_newProviderSubId p))
           in bind_io (op_find (\<lambda>r. op_operationKey r = key)) (replacement_write E p key))"

record cancel_params =
  cp_workspaceId :: string
  cp_providerSubId :: "string option"
  cp_cancelAtCycleEnd :: bool
  cp_status :: "operation_status option"
  cp_retryCount :: "nat option"
  cp_nextRetryAt :: "int option"
  cp_lastError :: "string option"

text \<open>The writing half; \<open>again\<close> is what runs when the key was taken in the meantime.\<close>

definition cancel_write ::
    "env \<Rightarrow> cancel_params \<Rightarrow> string \<Rightarrow> operation option bill \<Rightarrow> operation option \<Rightarrow> operation option bill" where
  "cancel_write E p key again existing =
     bind_io (clock E) (\<lambda>now.
      let requested = js_default (cp_status p) CleanupPending;
          status = nextRazorpayOperationStatus (map_option op_status existing) requested;
          retryCount = js_default (js_nullish (cp_retryCount p) (map_option op_retryCount existing)) 0;
          nextRetryAt = js_default (cp_nextRetryAt p) now;
          metadata = MetaCancelAtCycleEnd (cp_cancelAtCycleEnd p)
      in (case existing of
            Some old \<Rightarrow>
              bind_io (op_update E (op_id old)
                 (\<lambda>r. r\<lparr>op_status := status, op_retryCount := retryCount, op_nextRetryAt := nextRetryAt,
                       op_lastError := js_nullish (cp_lastError p) (op_lastError old),
                       op_metadata := Some metadata\<rparr>))
                (\<lambda>r. ret (Some r))
          | None \<Rightarrow>
              catch_io
                (bind_io (op_create E
                   \<lparr>op_id = [], op_operationKey = key, op_workspaceId = cp_workspaceId p,
                    op_provider = Razorpay, op_type = CancelSubscription, op_status = status,
                    op_oldProviderSubId = cp_providerSubId p, op_newProviderSubId = None,
                    op_plan = None, op_retryCount = retryCount, op_nextRetryAt = nextRetryAt,
                    op_lockedAt = None, op_lockExpiresAt = None,
                    op_lastError = cp_lastError p, op_metadata = Some metadata, op_updatedAt = 0\<rparr>)
                  (\<lambda>r. ret (Some r)))
                (\<lambda>ex. if ex \<noteq> PrismaP2002 then throw ex else again)))"

text \<open>
  The method calls itself after a lost race. \<open>rounds\<close> bounds the calls; the lemma
  \<open>cancel_rounds_enough\<close> shows that the second round always finds the row.
\<close>

fun cancel_rounds :: "env \<Rightarrow> cancel_params \<Rightarrow> string \<Rightarrow> nat \<Rightarrow> operation option bill" where
  "cancel_rounds E p key 0 = throw PrismaP2002"
| "cancel_rounds E p key (Suc n) =
     bind_io (op_find (\<lambda>r. op_operationKey r = key)) (cancel_write E p key (cancel_rounds E p key n))"

definition upsertRazorpayCancelOperation :: "env \<Rightarrow> cancel_params \<Rightarrow> operation option bill" where
  "upsertRazorpayCancelOperation E p =
     (if \<not> js_truthy (cp_providerSubId p) then ret None
      else cancel_rounds E p
             (buildRazorpayCancelOperationKey (cp_workspaceId p) (the (cp_providerSubId p))) 2)"

section \<open>Completion, clean-up tasks, claims\<close>

definition replacement_of :: "string \<Rightarrow> string \<Rightarrow> string \<Rightarrow> operation \<Rightarrow> bool" where
  "replacement_of ws replaced replacement r =
     (op_workspaceId r = ws \<and> op_provider r = Razorpay \<and> op_type r = ReplaceSubscription
      \<and> op_oldProviderSubId r = Some replaced \<and> op_newProviderSubId r = Some replacement)"

definition markRazorpayReplacementOperationCompleted ::
    "env \<Rightarrow> string \<Rightarrow> string \<Rightarrow> string \<Rightarrow> unit bill" where
  "markRazorpayReplacementOperationCompleted E ws replaced replacement =
     bind_io (clock E) (\<lambda>now. bind_io (op_updateMany E
        (\<lambda>r. replacement_of ws replaced replacement r \<and> \<not> isTerminalRazorpayOperationStatus (op_status r))
        (\<lambda>r. r\<lparr>op_status := Completed, op_lastError := None, op_nextRetryAt := now\<rparr>))
       (\<lambda>_. ret ()))"

text \<open>
  Every replacement of a workspace that leads to \<open>newSub\<close> and is not finished is given up;
  three places of the source run this update.
\<close>

definition abandonReplacements :: "env \<Rightarrow> string \<Rightarrow> string \<Rightarrow> string \<Rightarrow> unit bill" where
  "abandonReplacements E ws newSub err =
     bind_io (op_updateMany E
        (\<lambda>r. op_workspaceId r = ws \<and> op_provider r = Razorpay \<and> op_type r = ReplaceSubscription
           \<and> op_newProviderSubId r = Some newSub \<and> \<not> isTerminalRazorpayOperationStatus (op_status r))
        (\<lambda>r. r\<lparr>op_status := Abandoned, op_lastError := Some err\<rparr>))
       (\<lambda>_. ret ())"

definition scheduleRazorpayReplacementCleanup :: "env \<Rightarrow> cleanup_task \<Rightarrow> unit bill" where
  "scheduleRazorpayReplacementCleanup E t =
     (let attempt = js_default (ct_attempt t) 0
      in bind_io (clock E) (\<lambda>now. bind_io (upsertRazorpayReplacementOperation E
           \<lparr>rp_workspaceId = ct_workspaceId t,
            rp_oldProviderSubId = Some (ct_replacedProviderSubId t),
            rp_newProviderSubId = Some (ct_replacementProviderSubId t),
            rp_plan = None, rp_status = CleanupPending, rp_retryCount = Some attempt,
            rp_nextRetryAt = Some (now + getRazorpayCleanupDelayMs attempt),
            rp_lastError = ct_lastError t, rp_refundAmount = None\<rparr>)
          (\<lambda>_. ret ())))"

text \<open>
  The promise is not awaited: the task is put aside and runs at a later step
  (\<open>run_queued\<close>), where its failure is only logged.
\<close>

definition queueRazorpayReplacementCleanup :: "string \<Rightarrow> string \<Rightarrow> string \<Rightarrow> unit bill" where
  "queueRazorpayReplacementCleanup ws replaced replacement =
     modify (\<lambda>s. s\<lparr>w_queued := w_queued s @
       [\<lparr>ct_workspaceId = ws, ct_replacedProviderSubId = replaced,
         ct_replacementProviderSubId = replacement, ct_attempt = None, ct_lastError = None\<rparr>]\<rparr>)"

definition run_queued :: "env \<Rightarrow> unit bill" where
  "run_queued E s =
     (case w_queued s of
        [] \<Rightarrow> (Inr (), s)
      | t # ts \<Rightarrow> catch_io (scheduleRazorpayReplacementCleanup E t) (\<lambda>_. ret ()) (s\<lparr>w_queued := ts\<rparr>))"

definition deferRazorpayOperation :: "env \<Rightarrow> operation \<Rightarrow> string \<Rightarrow> unit bill" where
  "deferRazorpayOperation E oper lastError =
     bind_io (clock E) (\<lambda>now.
      let retryCount = op_retryCount oper + 1;
          status = (if op_status oper = CleanupPending then CleanupPending else Pending)
      in bind_io (op_update E (op_id oper)
           (\<lambda>r. r\<lparr>op_status := status, op_retryCount := retryCount,
                 op_nextRetryAt := now + getRazorpayCleanupDelayMs retryCount,
                 op_lastError := Some lastError\<rparr>))
          (\<lambda>_. ret ()))"

definition razorpayOperationLockMs :: int where
  "razorpayOperationLockMs = 5 * 60000"

definition lock_free :: "int \<Rightarrow> operation \<Rightarrow> bool" where
  "lock_free now r = (case op_lockExpiresAt r of None \<Rightarrow> True | Some t \<Rightarrow> t < now)"

definition claimRazorpaySubscriptionOperation :: "env \<Rightarrow> operation \<Rightarrow> operation option bill" where
  "claimRazorpaySubscriptionOperation E oper =
     bind_io (clock E) (\<lambda>now.
      let lockExpiresAt = now + razorpayOperationLockMs
      in bind_io (op_updateMany E
           (\<lambda>r. op_id r = op_id oper \<and> op_status r = op_status oper \<and> op_nextRetryAt r \<le> now
              \<and> lock_free now r)
           (\<lambda>r. r\<lparr>op_lockedAt := Some now, op_lockExpiresAt := Some lockExpiresAt\<rparr>))
          (\<lambda>count. if count = 0 then ret None else op_find (\<lambda>r. op_id r = op_id oper)))"

definition releaseRazorpaySubscriptionOperationLock :: "env \<Rightarrow> string \<Rightarrow> unit bill" where
  "releaseRazorpaySubscriptionOperationLock E i =
     bind_io (op_updateMany E (\<lambda>r. op_id r = i)
        (\<lambda>r. r\<lparr>op_lockedAt := None, op_lockExpiresAt := None\<rparr>))
       (\<lambda>_. ret ())"


section \<open>Status and schedule laws\<close>

named_theorems status_defs \<open>definitions of the status tests\<close>

declare isTerminalRazorpayOperationStatus_def [status_defs]
  RAZORPAY_OPERATION_TERMINAL_STATUSES_def [status_defs]

lemma terminal_status_iff:
  "isTerminalRazorpayOperationStatus st \<longleftrightarrow> st = Completed \<or> st = Abandoned"
  by (auto simp: status_defs)

lemma next_status_terminal:
  "isTerminalRazorpayOperationStatus st \<Longrightarrow> nextRazorpayOperationStatus (Some st) q = st"
  by (simp add: nextRazorpayOperationStatus_def)

lemma next_status_requested:
  "nextRazorpayOperationStatus (Some CancelRequested) q \<in> {CancelRequested, Completed, Abandoned, Failed}"
  by (cases q) (simp_all add: nextRazorpayOperationStatus_def status_defs)

text \<open>The contract of a back-off table: what the callers may rely on when they add a delay.\<close>

locale delay_schedule =
  fixes delays :: "int list" and delay :: "nat \<Rightarrow> int"
  assumes delays_not_Nil: "delays \<noteq> []"
    and delays_sorted: "sorted delays"
    and delays_pos: "d \<in> set delays \<Longrightarrow> 0 < d"
    and delay_lookup: "delay n = delays ! min n (length delays - 1)"
begin

lemma delay_index: "min n (length delays - 1) < length delays"
  using delays_not_Nil by (cases delays) auto

lemma delay_mono: "m \<le> n \<Longrightarrow> delay m \<le> delay n"
  unfolding delay_lookup using delays_sorted delay_index
  by (intro sorted_nth_mono) auto

lemma delay_in: "delay n \<in> set delays"
  unfolding delay_lookup using delay_index by (rule nth_mem)

lemma delay_pos: "0 < delay n"
  using delay_in by (rule delays_pos)

lemma delay_first: "hd delays \<le> delay n"
  using delay_mono [of 0 n] delays_not_Nil by (simp add: delay_lookup hd_conv_nth)

lemma delay_cap: "length delays \<le> Suc n \<Longrightarrow> delay n = last delays"
  using delays_not_Nil by (simp add: delay_lookup last_conv_nth min.absorb2)

lemma delay_last: "delay n \<le> last delays"
  using delay_mono [of n "max n (length delays)"] delay_cap [of "max n (length delays)"]
  by simp

end

interpretation cleanup_delay: delay_schedule cleanup_delays getRazorpayCleanupDelayMs
  by unfold_locales (auto simp: cleanup_delays_def getRazorpayCleanupDelayMs_def)

interpretation verification_delay:
  delay_schedule verification_delays getRazorpayCancellationVerificationDelayMs
  by unfold_locales
     (auto simp: verification_delays_def getRazorpayCancellationVerificationDelayMs_def)

section \<open>Well-formed tables\<close>

text \<open>
  The columns of an operation that no statement of the code changes after the row is created.
\<close>

definition op_ident ::
    "operation \<Rightarrow> string \<times> string \<times> string \<times> billing_provider \<times> operation_type \<times> string option \<times> string option" where
  "op_ident r =
     (op_id r, op_operationKey r, op_workspaceId r, op_provider r, op_type r,
      op_oldProviderSubId r, op_newProviderSubId r)"

definition wf_op :: "operation \<Rightarrow> bool" where
  "wf_op r =
     (op_provider r = Razorpay \<and> js_truthy (op_oldProviderSubId r) \<and>
      (case op_type r of
         ReplaceSubscription \<Rightarrow>
           js_truthy (op_newProviderSubId r) \<and> op_oldProviderSubId r \<noteq> op_newProviderSubId r
           \<and> op_operationKey r = buildRazorpayReplacementOperationKey (op_workspaceId r)
               (the (op_oldProviderSubId r)) (the (op_newProviderSubId r))
       | CancelSubscription \<Rightarrow>
           op_newProviderSubId r = None
           \<and> op_operationKey r = buildRazorpayCancelOperationKey (op_workspaceId r)
               (the (op_oldProviderSubId r))))"

definition ops_ok :: "world \<Rightarrow> bool" where
  "ops_ok s =
     (distinct (map op_id (w_ops s)) \<and> distinct (map op_operationKey (w_ops s))
      \<and> list_all wf_op (w_ops s))"

definition subs_ok :: "world \<Rightarrow> bool" where
  "subs_ok s =
     (distinct (map sub_id (w_subs s)) \<and> distinct (map sub_workspaceId (w_subs s))
      \<and> unique_nonnull sub_providerSubId (w_subs s))"

text \<open>The generator of row ids never returns an id in use (\<^verbatim>\<open>@default(uuid())\<close>).\<close>

definition fresh_ids :: "env \<Rightarrow> bool" where
  "fresh_ids E \<longleftrightarrow>
     (\<forall>s. env_newid E s \<notin> op_id ` set (w_ops s) \<union> sub_id ` set (w_subs s)
            \<union> pay_id ` set (w_pays s) \<union> inv_id ` set (w_invs s))"

lemma wf_op_ident: "op_ident x = op_ident y \<Longrightarrow> wf_op x = wf_op y"
  by (auto simp: op_ident_def wf_op_def split: operation_type.split)

lemma wf_op_touch [simp]: "wf_op (op_touch E s r) = wf_op r" "wf_op (r\<lparr>op_id := i\<rparr>) = wf_op r"
  by (auto simp: wf_op_def split: operation_type.split)

lemma op_ident_touch [simp]: "op_ident (op_touch E s r) = op_ident r"
  by (simp add: op_ident_def)

text \<open>Rows of operations are only appended; the identifying columns stay.\<close>

definition ops_grow :: "world \<Rightarrow> world \<Rightarrow> bool" where
  "ops_grow s t \<longleftrightarrow> (\<exists>rest. map op_ident (w_ops t) = map op_ident (w_ops s) @ rest)"

definition evolves :: "env \<Rightarrow> world \<Rightarrow> world \<Rightarrow> bool" where
  "evolves E s t \<longleftrightarrow>
     (fresh_ids E \<and> ops_ok s \<longrightarrow> ops_ok t) \<and> (subs_ok s \<longrightarrow> subs_ok t) \<and> ops_grow s t"

text \<open>What the reconciler never touches: payments, invoices, usage and the checkout locks.\<close>

definition books_same :: "world \<Rightarrow> world \<Rightarrow> bool" where
  "books_same s t \<longleftrightarrow>
     w_pays t = w_pays s \<and> w_invs t = w_invs s \<and> w_usage t = w_usage s \<and> w_locks t = w_locks s"

text \<open>
  The interface between the handlers and what is proved of them: a preorder on states that
  every elementary write of the operation and subscription tables satisfies. A handler's lemma
  is proved once, in this locale, and holds for each of the relations above.
\<close>

locale table_writes = step_order R
  for R :: "world \<Rightarrow> world \<Rightarrow> bool" +
  fixes E :: env
  assumes R_op_update: "(\<And>r. op_ident (f r) = op_ident r) \<Longrightarrow> keeps R (op_update E i f)"
    and R_op_updateMany: "(\<And>r. op_ident (f r) = op_ident r) \<Longrightarrow> keeps R (op_updateMany E P f)"
    and R_op_create: "wf_op r \<Longrightarrow> keeps R (op_create E r)"
    and R_sub_update:
      "(\<And>r. sub_id (g r) = sub_id r \<and> sub_workspaceId (g r) = sub_workspaceId r) \<Longrightarrow>
       keeps R (sub_update Q g)"
    and R_queue: "R s (s\<lparr>w_queued := q\<rparr>)"
begin

lemma t_find: "keeps R (op_find P)" "keeps R (sub_find Q)" "keeps R (clock E)"
  unfolding op_find_def sub_find_def clock_def by (rule r_gets)+

lemma t_op_update:
  "(\<And>r. op_ident (f r) = op_ident r) \<Longrightarrow> keeps R (bind_io (op_update E i f) (\<lambda>r. ret (h r)))"
  by (intro r_bind R_op_update r_ret)

lemma t_op_updateMany:
  "(\<And>r. op_ident (f r) = op_ident r) \<Longrightarrow> keeps R (bind_io (op_updateMany E P f) (\<lambda>r. ret (h r)))"
  by (intro r_bind R_op_updateMany r_ret)

lemmas t_intros = r_intros t_find t_op_update t_op_updateMany

lemma t_replacement_write:
  assumes "js_truthy (rp_oldProviderSubId p)" and "js_truthy (rp_newProviderSubId p)"
    and "rp_oldProviderSubId p \<noteq> rp_newProviderSubId p"
    and "key = buildRazorpayReplacementOperationKey (rp_workspaceId p)
           (the (rp_oldProviderSubId p)) (the (rp_newProviderSubId p))"
  shows "keeps R (replacement_write E p key existing)"
  unfolding replacement_write_def Let_def
  by (intro t_intros R_op_create) (use assms in \<open>simp_all add: op_ident_def wf_op_def\<close>)

lemma t_upsertReplacement: "keeps R (upsertRazorpayReplacementOperation E p)"
  unfolding upsertRazorpayReplacementOperation_def Let_def
  by (auto intro!: t_intros t_replacement_write)

lemma t_cancel_write:
  assumes "js_truthy (cp_providerSubId p)" and "keeps R again"
    and "key = buildRazorpayCancelOperationKey (cp_workspaceId p) (the (cp_providerSubId p))"
  shows "keeps R (cancel_write E p key again existing)"
  unfolding cancel_write_def Let_def
  by (intro t_intros R_op_create assms(2))
     (use assms in \<open>simp_all add: op_ident_def wf_op_def\<close>)

lemma t_cancel_rounds:
  assumes "js_truthy (cp_providerSubId p)"
    and "key = buildRazorpayCancelOperationKey (cp_workspaceId p) (the (cp_providerSubId p))"
  shows "keeps R (cancel_rounds E p key n)"
  by (induction n) (auto intro!: t_intros t_cancel_write assms)

lemma t_upsertCancel: "keeps R (upsertRazorpayCancelOperation E p)"
  unfolding upsertRazorpayCancelOperation_def
  by (auto intro!: t_intros t_cancel_rounds)

lemma t_markCompleted: "keeps R (markRazorpayReplacementOperationCompleted E ws x y)"
  unfolding markRazorpayReplacementOperationCompleted_def
  by (intro t_intros) (simp add: op_ident_def)

lemma t_abandonReplacements: "keeps R (abandonReplacements E ws x err)"
  unfolding abandonReplacements_def by (intro t_intros) (simp add: op_ident_def)

lemma t_schedule: "keeps R (scheduleRazorpayReplacementCleanup E t)"
  unfolding scheduleRazorpayReplacementCleanup_def Let_def
  by (intro t_intros t_upsertReplacement)

lemma t_queue: "keeps R (queueRazorpayReplacementCleanup ws x y)"
  unfolding queueRazorpayReplacementCleanup_def by (rule r_modify) (rule R_queue)

lemma t_defer: "keeps R (deferRazorpayOperation E oper err)"
  unfolding deferRazorpayOperation_def Let_def
  by (intro t_intros) (simp add: op_ident_def)

lemma t_claim: "keeps R (claimRazorpaySubscriptionOperation E oper)"
  unfolding claimRazorpaySubscriptionOperation_def Let_def
  by (intro r_bind r_if r_ret t_find R_op_updateMany) (simp add: op_ident_def)

lemma t_release: "keeps R (releaseRazorpaySubscriptionOperationLock E i)"
  unfolding releaseRazorpaySubscriptionOperationLock_def
  by (intro t_intros) (simp add: op_ident_def)

lemma t_run_queued: "keeps R (run_queued E)"
proof (rule keepsI)
  fix s
  have run: "keeps R (catch_io (scheduleRazorpayReplacementCleanup E t) (\<lambda>_. ret ()))" for t
    by (intro t_intros t_schedule)
  show "R s (snd (run_queued E s))"
    by (auto simp: run_queued_def R_refl split: list.split
        intro: R_trans [OF R_queue keepsD [OF run]])
qed

lemmas t_operations =
  t_upsertReplacement t_upsertCancel t_markCompleted t_abandonReplacements t_schedule t_queue
  t_defer t_claim t_release

end

text \<open>A relation that no provider call can break.\<close>

locale call_order = table_writes R E
  for R :: "world \<Rightarrow> world \<Rightarrow> bool" and E :: env +
  assumes R_calls: "only_calls s t \<Longrightarrow> R s t"
begin

lemma t_service: "keeps only_calls m \<Longrightarrow> keeps R m"
  by (auto simp: keeps_def intro: R_calls)

end


section \<open>The relations are instances\<close>

lemma ops_ok_ident:
  assumes "map op_ident (w_ops t) = map op_ident (w_ops s)"
  shows "ops_ok t = ops_ok s"
proof -
  have ids: "map op_id (w_ops u) = map fst (map op_ident (w_ops u))"
    and keys: "map op_operationKey (w_ops u) = map (fst \<circ> snd) (map op_ident (w_ops u))" for u
    by (simp_all add: op_ident_def)
  have "list_all wf_op xs = list_all wf_op ys" if "map op_ident xs = map op_ident ys" for xs ys
    using map_eq_imp_length_eq [OF that] that
  proof (induction xs ys rule: list_induct2)
    case (Cons x xs y ys)
    then have "op_ident x = op_ident y" and "list_all wf_op xs = list_all wf_op ys" by simp_all
    then show ?case using wf_op_ident [of x y] by simp
  qed simp
  with assms show ?thesis
    by (metis ops_ok_def ids keys)
qed

lemma ops_grow_same: "map op_ident (w_ops t) = map op_ident (w_ops s) \<Longrightarrow> ops_grow s t"
  by (simp add: ops_grow_def)

lemma ops_ok_append:
  assumes "ops_ok s" and "wf_op r" and "op_id r \<notin> op_id ` set (w_ops s)"
    and "op_operationKey r \<notin> op_operationKey ` set (w_ops s)" and "w_ops t = w_ops s @ [r]"
  shows "ops_ok t"
  using assms by (simp add: ops_ok_def)

lemma subs_ok_update:
  assumes "subs_ok s" and "find P (w_subs s) = Some r"
    and "sub_id r' = sub_id r" and "sub_workspaceId r' = sub_workspaceId r"
    and "\<not> sub_clash r' (w_subs s)"
    and "w_subs t = upd_where (\<lambda>x. sub_id x = sub_id r) (\<lambda>_. r') (w_subs s)"
  shows "subs_ok t"
proof -
  have r: "r \<in> set (w_subs s)" using find_Some_in [OF assms(2)] by simp
  have ids: "distinct (map sub_id (w_subs s))" using assms(1) by (simp add: subs_ok_def)
  have "x = r" if "x \<in> set (w_subs s)" and "sub_id x = sub_id r" for x
    using ids that r by (auto simp: distinct_map dest: inj_onD)
  then have "map sub_id (w_subs t) = map sub_id (w_subs s)"
    and "map sub_workspaceId (w_subs t) = map sub_workspaceId (w_subs s)"
    using assms(3,4,6) by (auto simp: upd_where_def)
  moreover have "unique_nonnull sub_providerSubId (w_subs t)"
    unfolding assms(6) using assms(1,3,5)
    by (intro unique_nonnull_upd ids) (auto simp: subs_ok_def sub_clash_def)
  ultimately show ?thesis
    using assms(1) by (simp add: subs_ok_def)
qed

lemma evolves_ops:
  assumes "map op_ident (w_ops t) = map op_ident (w_ops s)" and "w_subs t = w_subs s"
  shows "evolves E s t"
  using ops_ok_ident [OF assms(1)] ops_grow_same [OF assms(1)] assms(2)
  by (simp add: evolves_def subs_ok_def)

lemma map_ident_upd:
  "(\<And>r. op_ident (f r) = op_ident r) \<Longrightarrow>
   map op_ident (upd_where P (\<lambda>x. op_touch E s (f x)) rows) = map op_ident rows"
  by (rule map_upd_where) simp

lemma evolves_op_create:
  assumes "wf_op r"
  shows "evolves E s (snd (op_create E r s))"
proof (cases "op_operationKey r \<in> op_operationKey ` set (w_ops s)")
  case True
  then show ?thesis by (simp add: op_create_def evolves_def ops_grow_def)
next
  case False
  let ?r = "op_touch E s (r\<lparr>op_id := env_newid E s\<rparr>)"
  have t: "snd (op_create E r s) = s\<lparr>w_ops := w_ops s @ [?r]\<rparr>"
    using False by (simp add: op_create_def Let_def)
  have "ops_ok (s\<lparr>w_ops := w_ops s @ [?r]\<rparr>)" if "ops_ok s" "fresh_ids E"
  proof (rule ops_ok_append [of s ?r])
    have "env_newid E s \<notin> op_id ` set (w_ops s)"
      using that(2) unfolding fresh_ids_def by blast
    then show "op_id ?r \<notin> op_id ` set (w_ops s)" by simp
  qed (use that False assms in simp_all)
  then show ?thesis
    by (simp add: t evolves_def ops_grow_def subs_ok_def)
qed

lemma evolves_sub_update:
  assumes "\<And>r. sub_id (g r) = sub_id r \<and> sub_workspaceId (g r) = sub_workspaceId r"
  shows "evolves E s (snd (sub_update Q g s))"
proof (cases "find Q (w_subs s)")
  case None
  then show ?thesis by (simp add: sub_update_def evolves_def ops_grow_def)
next
  case (Some r)
  show ?thesis
  proof (cases "sub_clash (g r) (w_subs s)")
    case True
    with Some show ?thesis by (simp add: sub_update_def evolves_def ops_grow_def)
  next
    case False
    let ?t = "s\<lparr>w_subs := upd_where (\<lambda>x. sub_id x = sub_id r) (\<lambda>_. g r) (w_subs s)\<rparr>"
    have "subs_ok s \<Longrightarrow> subs_ok ?t"
      by (rule subs_ok_update [of s Q r "g r"]) (use assms Some False in simp_all)
    with Some False show ?thesis
      by (simp add: sub_update_def evolves_def ops_grow_def ops_ok_def)
  qed
qed

interpretation evolve: call_order "evolves E" E for E
proof
  show "evolves E s s" for s
    by (simp add: evolves_def ops_grow_def)
  show "evolves E s t \<Longrightarrow> evolves E t u \<Longrightarrow> evolves E s u" for s t u
    by (auto simp: evolves_def ops_grow_def)
  show "keeps (evolves E) (op_update E i f)" if "\<And>r. op_ident (f r) = op_ident r" for i f
    by (rule keepsI) (auto intro!: evolves_ops simp: op_update_def map_ident_upd that split: option.split)
  show "keeps (evolves E) (op_updateMany E P f)" if "\<And>r. op_ident (f r) = op_ident r" for P f
    by (rule keepsI) (auto intro!: evolves_ops simp: op_updateMany_def map_ident_upd that)
  show "keeps (evolves E) (op_create E r)" if "wf_op r" for r
    using that by (intro keepsI evolves_op_create)
  show "keeps (evolves E) (sub_update Q g)"
    if "\<And>r. sub_id (g r) = sub_id r \<and> sub_workspaceId (g r) = sub_workspaceId r" for Q g
    using that by (intro keepsI evolves_sub_update)
  show "only_calls s t \<Longrightarrow> evolves E s t" for s t
    by (auto simp: only_calls_def intro: evolves_ops)
  show "evolves E s (s\<lparr>w_queued := q\<rparr>)" for s q
    by (rule evolves_ops) simp_all
qed

interpretation books: call_order books_same E for E
  by unfold_locales
     (auto simp: books_same_def keeps_def op_update_def op_updateMany_def op_create_def
        sub_update_def only_calls_def Let_def split: option.split)


section \<open>Behaviour of the upserts\<close>

definition with_key :: "string \<Rightarrow> operation \<Rightarrow> bool" where
  "with_key k r = (op_operationKey r = k)"

text \<open>
  The outcome of an upsert: the row it returns is the only row of its key, every other row is
  as before.
\<close>

definition wrote :: "string \<Rightarrow> world \<Rightarrow> (exn + operation option) \<times> world \<Rightarrow> (operation \<Rightarrow> bool) \<Rightarrow> bool" where
  "wrote k s out Q =
     (case out of
        (Inr (Some r), t) \<Rightarrow>
          filter (with_key k) (w_ops t) = [r]
          \<and> filter (\<lambda>x. \<not> with_key k x) (w_ops t) = filter (\<lambda>x. \<not> with_key k x) (w_ops s) \<and> Q r
      | _ \<Rightarrow> False)"

lemma same_row:
  assumes "ops_ok s" and "old \<in> set (w_ops s)" and "x \<in> set (w_ops s)"
  shows "op_id x = op_id old \<longleftrightarrow> x = old" and "op_operationKey x = op_operationKey old \<longleftrightarrow> x = old"
  using assms by (auto simp: ops_ok_def distinct_map dest: inj_onD)

lemma op_update_row:
  assumes "ops_ok s" and "old \<in> set (w_ops s)"
  shows "op_update E (op_id old) f s =
     (Inr (op_touch E s (f old)),
      s\<lparr>w_ops := upd_where (with_key (op_operationKey old)) (\<lambda>x. op_touch E s (f x)) (w_ops s)\<rparr>)"
proof -
  have "find (\<lambda>r. op_id r = op_id old) (w_ops s) = Some old"
    using assms by (intro find_unique_key) (simp_all add: ops_ok_def)
  moreover have "upd_where (\<lambda>x. op_id x = op_id old) g (w_ops s) =
      upd_where (with_key (op_operationKey old)) g (w_ops s)" for g
    using same_row [OF assms] by (intro upd_where_cong) (simp add: with_key_def)
  ultimately show ?thesis by (simp add: op_update_def)
qed

lemma wrote_update:
  assumes "ops_ok s" and "old \<in> set (w_ops s)" and "op_operationKey old = k"
    and "\<And>r. op_operationKey (f r) = op_operationKey r" and "Q (op_touch E s (f old))"
  shows "wrote k s (bind_io (op_update E (op_id old) f) (\<lambda>r. ret (Some r)) s) Q"
proof -
  have "filter (with_key k) (w_ops s) = [old]"
    using assms(1-3) filter_unique_key [of op_operationKey "w_ops s" old]
    unfolding with_key_def ops_ok_def by auto
  moreover have "with_key k (op_touch E s (f x)) = with_key k x" for x
    by (simp add: with_key_def assms(4))
  ultimately show ?thesis
    using assms(5) op_update_row [OF assms(1,2), of E f]
    by (simp add: wrote_def io_simps assms(3) filter_upd_where)
qed

lemma wrote_create:
  assumes "k \<notin> op_operationKey ` set (w_ops s)" and "op_operationKey r = k"
    and "\<And>i u. Q (r\<lparr>op_id := i, op_updatedAt := u\<rparr>)"
  shows "wrote k s (bind_io (op_create E r) (\<lambda>r. ret (Some r)) s) Q"
proof -
  have "filter (with_key k) (w_ops s) = []"
    using assms(1) by (auto simp: filter_empty_conv with_key_def)
  with assms show ?thesis
    by (simp add: wrote_def io_simps op_create_def Let_def op_touch_def with_key_def)
qed

lemma op_create_taken:
  "k \<in> op_operationKey ` set (w_ops s) \<Longrightarrow> op_operationKey r = k \<Longrightarrow> op_create E r s = (Inl PrismaP2002, s)"
  by (simp add: op_create_def)

lemma find_key_cases:
  assumes "ops_ok s"
  obtains (none) "find (\<lambda>r. op_operationKey r = k) (w_ops s) = None" "k \<notin> op_operationKey ` set (w_ops s)"
  | (some) old where "find (\<lambda>r. op_operationKey r = k) (w_ops s) = Some old" "old \<in> set (w_ops s)"
      "op_operationKey old = k"
  by (cases "find (\<lambda>r. op_operationKey r = k) (w_ops s)")
     (auto simp: find_None_iff dest: find_Some_in)

lemma wrote_catch: "wrote k s (m s) Q \<Longrightarrow> wrote k s (catch_io m h s) Q"
  by (auto simp: wrote_def catch_io_def split: prod.splits sum.splits)

lemma wrote_clock: "wrote k s (f (env_now E s) s) Q \<Longrightarrow> wrote k s (bind_io (clock E) f s) Q"
  by (simp add: io_simps clock_def)

text \<open>The writing half of the replacement upsert, on a read that is still current.\<close>

lemma replacement_write_wrote:
  assumes "ops_ok s" and "existing = find (\<lambda>r. op_operationKey r = k) (w_ops s)"
  shows "wrote k s (replacement_write E p k existing s)
     (\<lambda>r. op_status r = nextRazorpayOperationStatus (map_option op_status existing) (rp_status p))"
  using assms(1)
proof (cases rule: find_key_cases [where k = k])
  case none
  then show ?thesis
    unfolding replacement_write_def Let_def assms(2) none(1)
    by (simp, intro wrote_clock wrote_catch wrote_create) simp_all
next
  case (some old)
  then show ?thesis
    unfolding replacement_write_def Let_def assms(2) some(1)
    by (simp, intro wrote_clock wrote_update [OF assms(1)]) simp_all
qed

text \<open>
  The writing half when the read found nothing and another process created the row before the
  write: the second read finds that row and the status machine is applied to it.
\<close>

lemma replacement_write_race:
  assumes "ops_ok s" and "cur \<in> set (w_ops s)" and "op_operationKey cur = k"
  shows "wrote k s (replacement_write E p k None s)
     (\<lambda>r. op_status r = nextRazorpayOperationStatus (Some (op_status cur)) (rp_status p))"
proof -
  have found: "op_find (\<lambda>r. op_operationKey r = k) s = (Inr (Some cur), s)"
    using assms find_unique_key [of op_operationKey "w_ops s" cur]
    by (simp add: op_find_def gets_def ops_ok_def)
  have taken: "op_create E r s = (Inl PrismaP2002, s)" if "op_operationKey r = k" for r
    using that assms(2,3) by (intro op_create_taken) (auto simp: rev_image_eqI)
  show ?thesis
    unfolding replacement_write_def Let_def
    by (simp add: clock_def catch_io_def bind_io_def [of "gets _"] bind_io_def [of "op_create _ _"]
        bind_io_def [of "op_find _"] gets_def taken found)
       (rule wrote_update [OF assms]; simp)
qed

lemma cancel_write_wrote:
  assumes "ops_ok s" and "existing = find (\<lambda>r. op_operationKey r = k) (w_ops s)"
  shows "wrote k s (cancel_write E p k again existing s)
     (\<lambda>r. op_status r = nextRazorpayOperationStatus (map_option op_status existing)
                         (js_default (cp_status p) CleanupPending))"
  using assms(1)
proof (cases rule: find_key_cases [where k = k])
  case none
  then show ?thesis
    unfolding cancel_write_def Let_def assms(2) none(1)
    by (simp, intro wrote_clock wrote_catch wrote_create) simp_all
next
  case (some old)
  then show ?thesis
    unfolding cancel_write_def Let_def assms(2) some(1)
    by (simp, intro wrote_clock wrote_update [OF assms(1)]) simp_all
qed

lemma cancel_rounds_wrote:
  assumes "ops_ok s"
  shows "wrote k s (cancel_rounds E p k (Suc n) s)
     (\<lambda>r. op_status r = nextRazorpayOperationStatus
        (map_option op_status (find (\<lambda>r. op_operationKey r = k) (w_ops s)))
        (js_default (cp_status p) CleanupPending))"
  using cancel_write_wrote [OF assms refl]
  by (simp add: bind_io_def op_find_def gets_def)

text \<open>
  Two rounds are enough: after a lost race the next round finds the row, so every larger bound
  gives the same outcome.
\<close>

lemma cancel_rounds_enough:
  assumes "k \<in> op_operationKey ` set (w_ops s)"
  shows "cancel_write E p k (cancel_rounds E p k (Suc n)) None s =
         cancel_write E p k (cancel_rounds E p k 1) None s"
proof -
  have "find (\<lambda>r. op_operationKey r = k) (w_ops s) \<noteq> None"
    using assms by (auto simp: find_None_iff)
  then obtain cur where "find (\<lambda>r. op_operationKey r = k) (w_ops s) = Some cur" by blast
  then have "cancel_rounds E p k (Suc n) s = cancel_rounds E p k 1 s"
    by (simp add: bind_io_def op_find_def gets_def cancel_write_def)
  then show ?thesis
    by (simp add: cancel_write_def io_simps clock_def op_create_taken [OF assms])
qed

lemma cancel_write_race:
  assumes "ops_ok s" and "cur \<in> set (w_ops s)" and "op_operationKey cur = k"
  shows "wrote k s (cancel_write E p k (cancel_rounds E p k (Suc n)) None s)
     (\<lambda>r. op_status r = nextRazorpayOperationStatus (Some (op_status cur))
                         (js_default (cp_status p) CleanupPending))"
proof -
  have "op_create E r s = (Inl PrismaP2002, s)" if "op_operationKey r = k" for r
    using that assms(2,3) by (intro op_create_taken) (auto simp: rev_image_eqI)
  then have "cancel_write E p k (cancel_rounds E p k (Suc n)) None s = cancel_rounds E p k (Suc n) s"
    by (simp add: cancel_write_def clock_def io_simps del: cancel_rounds.simps)
  moreover have "find (\<lambda>r. op_operationKey r = k) (w_ops s) = Some cur"
    using assms find_unique_key [of op_operationKey "w_ops s" cur] by (simp add: ops_ok_def)
  ultimately show ?thesis
    using cancel_rounds_wrote [OF assms(1), of k E p n] by (simp del: cancel_rounds.simps)
qed


section \<open>A sample table\<close>

definition sample_op :: operation where
  "sample_op = \<lparr>op_id = ''o1'', op_operationKey = ''razorpay:replace_subscription:w:a:b'',
     op_workspaceId = ''w'', op_provider = Razorpay, op_type = ReplaceSubscription,
     op_status = CancelRequested, op_oldProviderSubId = Some ''a'', op_newProviderSubId = Some ''b'',
     op_plan = None, op_retryCount = 0, op_nextRetryAt = 0, op_lockedAt = None,
     op_lockExpiresAt = None, op_lastError = None, op_metadata = None, op_updatedAt = 0\<rparr>"

definition sample_params :: replacement_params where
  "sample_params = \<lparr>rp_workspaceId = ''w'', rp_oldProviderSubId = Some ''a'',
     rp_newProviderSubId = Some ''b'', rp_plan = Some ''growth'', rp_status = Pending,
     rp_retryCount = None, rp_nextRetryAt = None, rp_lastError = None, rp_refundAmount = None\<rparr>"

definition sample_world :: world where
  "sample_world = empty_world\<lparr>w_ops := [sample_op]\<rparr>"

lemmas sample_defs = sample_world_def sample_params_def sample_op_def empty_world_def

lemma fresh_sample: "fresh_ids E" if "env_newid E = env_newid sample_env"
proof -
  have "env_newid E s \<notin> set (used_ids s)" for s
  proof
    assume "env_newid E s \<in> set (used_ids s)"
    then have "length (env_newid E s) \<le> sum_list (map length (used_ids s))"
      by (intro member_le_sum_list) auto
    then show False by (simp add: that sample_env_def)
  qed
  then show ?thesis
    by (auto simp: fresh_ids_def used_ids_def)
qed

lemma ops_ok_sample [simp]: "ops_ok sample_world"
  by (simp add: ops_ok_def sample_defs wf_op_def buildRazorpayReplacementOperationKey_def)

section \<open>Properties\<close>

lemma upsert_replacement_reads:
  assumes "js_truthy (rp_oldProviderSubId p)" and "js_truthy (rp_newProviderSubId p)"
    and "rp_oldProviderSubId p \<noteq> rp_newProviderSubId p"
    and "k = buildRazorpayReplacementOperationKey (rp_workspaceId p)
           (the (rp_oldProviderSubId p)) (the (rp_newProviderSubId p))"
  shows "upsertRazorpayReplacementOperation E p s =
      replacement_write E p k (find (with_key k) (w_ops s)) s"
  using assms
  by (simp add: upsertRazorpayReplacementOperation_def bind_io_def op_find_def gets_def Let_def
      with_key_def [abs_def])



text \<open>
  A lost race of the replacement upsert: the read found no row, another process created it
  before the write. The write does not fail and does not duplicate the row; it applies the state
  machine to the row it now finds, so a finished operation stays finished.
\<close>

theorem replacement_race_safe:
  assumes "ops_ok s" and "cur \<in> set (w_ops s)" and "op_operationKey cur = k"
  shows "wrote k s (replacement_write E p k None s)
     (\<lambda>r. op_status r = nextRazorpayOperationStatus (Some (op_status cur)) (rp_status p)
          \<and> (isTerminalRazorpayOperationStatus (op_status cur) \<longrightarrow> op_status r = op_status cur))"
proof -
  have "wrote k s out Q \<Longrightarrow> (\<And>r. Q r \<Longrightarrow> Q' r) \<Longrightarrow> wrote k s out Q'" for out Q Q'
    by (auto simp: wrote_def split: prod.splits sum.splits option.splits)
  from this [OF replacement_write_race [OF assms]] show ?thesis
    by (simp add: next_status_terminal)
qed

theorem replacement_race_witness:
  "wrote ''razorpay:replace_subscription:w:a:b'' sample_world
     (replacement_write sample_env sample_params ''razorpay:replace_subscription:w:a:b'' None sample_world)
     (\<lambda>r. op_status r = CancelRequested)"
proof -
  have "sample_op \<in> set (w_ops sample_world)"
    and "op_operationKey sample_op = ''razorpay:replace_subscription:w:a:b''"
    by (simp_all add: sample_defs)
  from replacement_race_safe [OF ops_ok_sample this, of sample_env sample_params]
  show ?thesis
    by (simp add: sample_params_def sample_op_def nextRazorpayOperationStatus_def status_defs)
qed

text \<open>
  The cancel upsert, with and without a lost race: two rounds of its self-call always
  suffice (no larger bound changes the outcome), the row returned is the only row of its key,
  its status is the state machine's answer, and every other row is as before.
\<close>

theorem upsert_cancel_correct:
  assumes "ops_ok s" and "js_truthy (cp_providerSubId p)"
    and "k = buildRazorpayCancelOperationKey (cp_workspaceId p) (the (cp_providerSubId p))"
  shows "wrote k s (upsertRazorpayCancelOperation E p s)
           (\<lambda>r. op_status r = nextRazorpayOperationStatus
              (map_option op_status (find (with_key k) (w_ops s)))
              (js_default (cp_status p) CleanupPending))
         \<and> (k \<in> op_operationKey ` set (w_ops s) \<longrightarrow>
              cancel_write E p k (cancel_rounds E p k (Suc n)) None s =
              cancel_write E p k (cancel_rounds E p k 1) None s)
         \<and> (\<forall>cur \<in> set (w_ops s). op_operationKey cur = k \<longrightarrow>
              wrote k s (cancel_write E p k (cancel_rounds E p k (Suc n)) None s)
                (\<lambda>r. op_status r = nextRazorpayOperationStatus (Some (op_status cur))
                   (js_default (cp_status p) CleanupPending)))"
proof -
  have "upsertRazorpayCancelOperation E p s = cancel_rounds E p k (Suc 1) s"
    using assms(2,3) by (simp add: upsertRazorpayCancelOperation_def numeral_2_eq_2)
  then show ?thesis
    using cancel_rounds_wrote [OF assms(1), of k E p 1] cancel_rounds_enough [of k s E p n]
      cancel_write_race [OF assms(1), of _ k E p n]
    by (simp add: with_key_def [abs_def] del: cancel_rounds.simps)
qed

definition sample_cancel :: cancel_params where
  "sample_cancel = \<lparr>cp_workspaceId = ''w'', cp_providerSubId = Some ''a'',
     cp_cancelAtCycleEnd = True, cp_status = None, cp_retryCount = None, cp_nextRetryAt = None,
     cp_lastError = None\<rparr>"

theorem upsert_cancel_witness:
  "wrote ''razorpay:cancel_subscription:w:a'' sample_world
     (upsertRazorpayCancelOperation sample_env sample_cancel sample_world)
     (\<lambda>r. op_status r = CleanupPending)"
proof -
  have "''razorpay:cancel_subscription:w:a'' = buildRazorpayCancelOperationKey
      (cp_workspaceId sample_cancel) (the (cp_providerSubId sample_cancel))"
    by (simp add: sample_cancel_def buildRazorpayCancelOperationKey_def)
  from upsert_cancel_correct [OF ops_ok_sample _ this, of sample_env 0]
  show ?thesis
    by (simp add: sample_cancel_def sample_defs with_key_def nextRazorpayOperationStatus_def
        del: cancel_rounds.simps)
qed

text \<open>
  C36: Under a sequence of requested states, an operation that has been completed or abandoned
  keeps its state, and one whose cancellation was requested only ever leaves that state by being
  completed, abandoned or failed.
\<close>

theorem operation_status_monotone:
  "(isTerminalRazorpayOperationStatus st \<longrightarrow>
      foldl (\<lambda>q r. nextRazorpayOperationStatus (Some q) r) st requests = st)
   \<and> nextRazorpayOperationStatus (Some CancelRequested) q
       \<in> {CancelRequested, Completed, Abandoned, Failed}
   \<and> nextRazorpayOperationStatus (Some CleanupPending) q \<noteq> Pending"
proof (intro conjI impI)
  show "foldl (\<lambda>q r. nextRazorpayOperationStatus (Some q) r) st requests = st"
    if "isTerminalRazorpayOperationStatus st"
    using that by (induction requests) (simp_all add: next_status_terminal)
  show "nextRazorpayOperationStatus (Some CancelRequested) q
       \<in> {CancelRequested, Completed, Abandoned, Failed}"
    by (rule next_status_requested)
  show "nextRazorpayOperationStatus (Some CleanupPending) q \<noteq> Pending"
    by (simp add: nextRazorpayOperationStatus_def status_defs)
qed

theorem operation_status_witness:
  "foldl (\<lambda>q r. nextRazorpayOperationStatus (Some q) r) Completed [Pending, Failed] = Completed"
  using operation_status_monotone [of Completed "[Pending, Failed]" Pending]
  by (simp add: status_defs)

text \<open>
  Operation keys identify what they were built from: over ids without a colon, equal
  replacement keys come from equal workspace, old and new subscription, equal cancel keys from
  equal workspace and subscription, and a replacement key is never a cancel key.
\<close>

theorem operation_keys_injective:
  assumes "\<forall>x \<in> {w, a, b, w', a', b'}. CHR '':'' \<notin> set x"
  shows "(buildRazorpayReplacementOperationKey w a b = buildRazorpayReplacementOperationKey w' a' b'
           \<longleftrightarrow> w = w' \<and> a = a' \<and> b = b')
         \<and> (buildRazorpayCancelOperationKey w a = buildRazorpayCancelOperationKey w' a'
           \<longleftrightarrow> w = w' \<and> a = a')
         \<and> buildRazorpayReplacementOperationKey w a b \<noteq> buildRazorpayCancelOperationKey w' a'"
proof (intro conjI)
  let ?r = "\<lambda>w a b. [''razorpay'', ''replace_subscription'', w, a, b]"
  let ?c = "\<lambda>w a. [''razorpay'', ''cancel_subscription'', w, a]"
  show "buildRazorpayReplacementOperationKey w a b = buildRazorpayReplacementOperationKey w' a' b'
      \<longleftrightarrow> w = w' \<and> a = a' \<and> b = b'"
    using js_join_inject [of "CHR '':''" "?r w a b" "?r w' a' b'"] assms
    unfolding buildRazorpayReplacementOperationKey_def by fastforce
  show "buildRazorpayCancelOperationKey w a = buildRazorpayCancelOperationKey w' a' \<longleftrightarrow> w = w' \<and> a = a'"
    using js_join_inject [of "CHR '':''" "?c w a" "?c w' a'"] assms
    unfolding buildRazorpayCancelOperationKey_def by fastforce
  show "buildRazorpayReplacementOperationKey w a b \<noteq> buildRazorpayCancelOperationKey w' a'"
    by (simp add: buildRazorpayReplacementOperationKey_def buildRazorpayCancelOperationKey_def)
qed

theorem operation_keys_witness:
  "buildRazorpayReplacementOperationKey ''w'' ''a'' ''b''
     \<noteq> buildRazorpayReplacementOperationKey ''w'' ''b'' ''a''"
  using operation_keys_injective [of "''w''" "''a''" "''b''" "''w''" "''b''" "''a''"] by simp

text \<open>
  The waiting time before a retry never shrinks as the attempts go up, lies between one and
  thirty minutes for a clean-up and between five minutes and an hour for a verification, and is
  the longest one from the fourth attempt on.
\<close>

theorem retry_delays_bounded:
  "(m \<le> n \<longrightarrow> getRazorpayCleanupDelayMs m \<le> getRazorpayCleanupDelayMs n
      \<and> getRazorpayCancellationVerificationDelayMs m \<le> getRazorpayCancellationVerificationDelayMs n)
   \<and> 60000 \<le> getRazorpayCleanupDelayMs n \<and> getRazorpayCleanupDelayMs n \<le> 1800000
   \<and> 300000 \<le> getRazorpayCancellationVerificationDelayMs n
   \<and> getRazorpayCancellationVerificationDelayMs n \<le> 3600000
   \<and> getRazorpayCleanupDelayMs (n + 3) = 1800000
   \<and> getRazorpayCancellationVerificationDelayMs (n + 3) = 3600000"
  using cleanup_delay.delay_mono [of m n] verification_delay.delay_mono [of m n]
    cleanup_delay.delay_first [of n] cleanup_delay.delay_last [of n]
    verification_delay.delay_first [of n] verification_delay.delay_last [of n]
    cleanup_delay.delay_cap [of "n + 3"] verification_delay.delay_cap [of "n + 3"]
  by (simp add: cleanup_delays_def verification_delays_def)

theorem retry_delays_witness: "getRazorpayCleanupDelayMs 1 \<le> getRazorpayCleanupDelayMs 7"
  using retry_delays_bounded [of 1 7] by simp

lemma claim_result:
  assumes "ops_ok s" and "claimRazorpaySubscriptionOperation E oper s = (Inr (Some c), t)"
  shows "c \<in> set (w_ops t)" and "op_id c = op_id oper"
    and "\<forall>r \<in> set (w_ops t). op_id r = op_id oper \<longrightarrow>
           op_lockExpiresAt r = Some (env_now E s + razorpayOperationLockMs)"
proof -
  let ?P = "\<lambda>r. op_id r = op_id oper \<and> op_status r = op_status oper \<and> op_nextRetryAt r \<le> env_now E s
              \<and> lock_free (env_now E s) r"
  let ?f = "\<lambda>r. op_touch E s (r\<lparr>op_lockedAt := Some (env_now E s),
              op_lockExpiresAt := Some (env_now E s + razorpayOperationLockMs)\<rparr>)"
  have some: "filter ?P (w_ops s) \<noteq> []" and t: "w_ops t = upd_where ?P ?f (w_ops s)"
    and c: "find (\<lambda>r. op_id r = op_id oper) (w_ops t) = Some c"
    using assms(2)
    by (auto simp: claimRazorpaySubscriptionOperation_def io_simps clock_def op_updateMany_def
        op_find_def Let_def split: if_splits)
  from find_Some_in [OF c] show "c \<in> set (w_ops t)" and "op_id c = op_id oper" by simp_all
  from some obtain x where x: "x \<in> set (w_ops s)" "?P x"
    by (auto simp: filter_empty_conv)
  have "y = x" if "y \<in> set (w_ops s)" and "op_id y = op_id oper" for y
    using same_row(1) [OF assms(1) x(1) that(1)] that(2) x(2) by simp
  then show "\<forall>r \<in> set (w_ops t). op_id r = op_id oper \<longrightarrow>
           op_lockExpiresAt r = Some (env_now E s + razorpayOperationLockMs)"
    using x(2) by (auto simp: t set_upd_where)
qed

lemma claim_locked:
  assumes "\<forall>r \<in> set (w_ops t). op_id r = op_id oper \<longrightarrow> op_lockExpiresAt r = Some e"
    and "env_now E t \<le> e"
  shows "claimRazorpaySubscriptionOperation E oper t = (Inr None, t)"
proof -
  let ?P = "\<lambda>r. op_id r = op_id oper \<and> op_status r = op_status oper \<and> op_nextRetryAt r \<le> env_now E t
              \<and> lock_free (env_now E t) r"
  have no: "\<not> ?P r" if "r \<in> set (w_ops t)" for r
    using assms that by (auto simp: lock_free_def)
  have "filter ?P (w_ops t) = []" using no by (simp add: filter_empty_conv)
  moreover have "upd_where ?P f (w_ops t) = w_ops t" for f
    using no by (rule upd_where_none)
  ultimately have "op_updateMany E ?P f t = (Inr 0, t)" for f
    by (simp add: op_updateMany_def)
  then show ?thesis
    by (simp add: claimRazorpaySubscriptionOperation_def bind_io_def clock_def gets_def ret_def Let_def)
qed

lemma release_state:
  "releaseRazorpaySubscriptionOperationLock E i s =
     (Inr (), s\<lparr>w_ops := upd_where (\<lambda>r. op_id r = i)
        (\<lambda>r. op_touch E s (r\<lparr>op_lockedAt := None, op_lockExpiresAt := None\<rparr>)) (w_ops s)\<rparr>)"
  by (simp add: releaseRazorpaySubscriptionOperationLock_def io_simps op_updateMany_def)

lemma release_unlocks:
  "\<forall>r \<in> set (w_ops (snd (releaseRazorpaySubscriptionOperationLock E i s))).
     op_id r = i \<longrightarrow> op_lockedAt r = None \<and> op_lockExpiresAt r = None"
  by (simp add: release_state ball_upd_where)

text \<open>
  C28: Two workers that read the same due operation cannot both process it: after one of them has
  claimed it, a second claim that happens no later than the end of the five-minute lock returns
  nothing and changes no row; and a released operation has no lock.
\<close>

theorem claim_excludes:
  assumes "ops_ok s" and "claimRazorpaySubscriptionOperation E oper s = (Inr (Some c), t)"
    and "env_now E t \<le> env_now E s + razorpayOperationLockMs"
  shows "op_id c = op_id oper
         \<and> op_lockExpiresAt c = Some (env_now E s + razorpayOperationLockMs)
         \<and> claimRazorpaySubscriptionOperation E oper t = (Inr None, t)
         \<and> (\<forall>r \<in> set (w_ops (snd (releaseRazorpaySubscriptionOperationLock E (op_id c) t))).
               op_id r = op_id c \<longrightarrow> op_lockExpiresAt r = None)"
  using claim_result [OF assms(1,2)] claim_locked [OF _ assms(3), of oper]
    release_unlocks [of E "op_id c" t] by simp

theorem claim_excludes_witness:
  "\<exists>c t. claimRazorpaySubscriptionOperation sample_env sample_op sample_world = (Inr (Some c), t)
     \<and> claimRazorpaySubscriptionOperation sample_env sample_op t = (Inr None, t)"
proof -
  obtain c t where "claimRazorpaySubscriptionOperation sample_env sample_op sample_world = (Inr (Some c), t)"
    by (simp add: claimRazorpaySubscriptionOperation_def io_simps clock_def op_updateMany_def
        op_find_def sample_defs sample_env_def lock_free_def Let_def)
  with claim_excludes [OF ops_ok_sample this] show ?thesis
    by (simp add: sample_env_def razorpayOperationLockMs_def)
qed

end
