(* ===== verification/Billing_Reconcile.thy ===== *)
theory Billing_Reconcile
  imports Billing_Ops "HOL-Library.Product_Lexorder"
begin

text \<open>
  The Razorpay reconciler of \<^verbatim>\<open>billing.service.ts\<close>: provider status tests, refund of a
  replaced subscription, activation of a replacement, cancellation of the old subscription and
  its verification, the processing of one operation, the reconciliation of one subscription,
  and the ten-minute job that drives them. Calls to \<^verbatim>\<open>console\<close> are left out.
\<close>

section \<open>Provider statuses\<close>

definition getErrorMessage :: "exn \<Rightarrow> string" where
  "getErrorMessage ex =
     (case ex of
        BadRequestException m \<Rightarrow> m
      | NotFoundException m \<Rightarrow> m
      | ForbiddenException m \<Rightarrow> m
      | UnauthorizedException m \<Rightarrow> m
      | InternalServerErrorException m \<Rightarrow> m
      | ConflictException m \<Rightarrow> m
      | PlainError m \<Rightarrow> m
      | PrismaP2002 \<Rightarrow> ''Unique constraint failed''
      | PrismaP2025 \<Rightarrow> ''Record to update not found''
      | PrismaValidation \<Rightarrow> ''Argument is missing''
      | TypeErrorException m \<Rightarrow> m
      | SdkException e \<Rightarrow>
          if se_isError e then js_default (se_message e) [] else ''Unknown error'')"

definition getRazorpayDate :: "int option \<Rightarrow> int option" where
  "getRazorpayDate seconds =
     (case seconds of None \<Rightarrow> None | Some n \<Rightarrow> if n > 0 then Some (n * 1000) else None)"

definition isPendingRazorpaySubscriptionStatus :: "string \<Rightarrow> bool" where
  "isPendingRazorpaySubscriptionStatus st =
     (st \<in> set [''created'', ''authenticated'', ''pending'', ''halted''])"

definition isActiveLikeRazorpaySubscriptionStatus :: "string \<Rightarrow> bool" where
  "isActiveLikeRazorpaySubscriptionStatus st =
     (st \<in> set [''active'', ''authenticated'', ''resumed''])"

definition isTerminalRazorpaySubscriptionStatus :: "string \<Rightarrow> bool" where
  "isTerminalRazorpaySubscriptionStatus st =
     (st \<in> set [''cancelled'', ''completed'', ''expired''])"

definition razorpay_status_map :: "(string \<times> subscription_status) list" where
  "razorpay_status_map =
     [(''active'', Active), (''authenticated'', Active), (''resumed'', Active),
      (''pending'', PastDue), (''halted'', PastDue), (''paused'', Paused),
      (''cancelled'', Cancelled), (''completed'', Cancelled), (''expired'', Expired)]"

definition mapRazorpaySubscriptionStatus :: "string \<Rightarrow> subscription_status" where
  "mapRazorpaySubscriptionStatus st = js_default (map_of razorpay_status_map (js_lower st)) PastDue"

text \<open>\<^verbatim>\<open>String(x?.status || d).toLowerCase()\<close>\<close>

definition lower_status :: "string option \<Rightarrow> string \<Rightarrow> string" where
  "lower_status st d = js_lower (js_or_str st d)"

definition fetchRazorpaySubscriptionStatus :: "env \<Rightarrow> string \<Rightarrow> (rp_subscription \<times> string) bill" where
  "fetchRazorpaySubscriptionStatus E i =
     bind_io (fetchSubscription E i) (\<lambda>sub. ret (sub, lower_status (rs_status sub) ''unknown''))"

definition cancelRazorpaySubscriptionIfPossible ::
    "env \<Rightarrow> string option \<Rightarrow> bool \<Rightarrow> cancel_result option bill" where
  "cancelRazorpaySubscriptionIfPossible E subscriptionId cancelAtCycleEnd =
     (if \<not> js_truthy subscriptionId then ret None
      else bind_io (cancelSubscriptionIfPossible E (the subscriptionId) cancelAtCycleEnd)
             (\<lambda>r. ret (Some r)))"

section \<open>Refund of the replaced subscription\<close>

text \<open>Newest payment first; rows without a payment date come first in a descending order.\<close>

definition payment_order :: "payment \<Rightarrow> int \<times> int \<times> int" where
  "payment_order r =
     (case pay_paidAt r of None \<Rightarrow> (0, 0, - pay_createdAt r) | Some t \<Rightarrow> (1, - t, - pay_createdAt r))"

definition findLatestRazorpayPaymentForProviderSubscription ::
    "string \<Rightarrow> string \<Rightarrow> string \<Rightarrow> payment option bill" where
  "findLatestRazorpayPaymentForProviderSubscription subscriptionId workspaceId providerSubId =
     gets (\<lambda>s. find (\<lambda>r. Option.bind (pay_metadata r) meta_subscription_id = Some providerSubId)
       (take 20 (sort_key payment_order
          (filter (\<lambda>r. pay_workspaceId r = workspaceId \<and> pay_subscriptionId r = Some subscriptionId
                 \<and> pay_provider r = Razorpay \<and> pay_status r = PayPaid
                 \<and> pay_providerPaymentId r \<noteq> None) (w_pays s)))))"

definition issueRefund :: "env \<Rightarrow> subscription \<Rightarrow> string \<Rightarrow> string \<Rightarrow> string \<Rightarrow> int \<Rightarrow> unit bill" where
  "issueRefund E sub paymentId replaced replacement refundAmount =
     bind_io (refundPayment E paymentId refundAmount
        [(''workspaceId'', sub_workspaceId sub), (''replacedSubscription'', replaced),
         (''replacementSubscription'', replacement)])
       (\<lambda>refund. bind_io (clock E) (\<lambda>now.
          bind_io (sub_update (by_sub_id (sub_id sub))
            (\<lambda>r. r\<lparr>sub_lastRefundStatus := Some (js_or_str (re_status refund) ''initiated''),
                  sub_lastRefundAt := Some now\<rparr>))
           (\<lambda>_. ret ())))"

definition refundReplacementCredit ::
    "env \<Rightarrow> subscription \<Rightarrow> string option \<Rightarrow> string \<Rightarrow> unit bill" where
  "refundReplacementCredit E sub replaced replacement =
     (let refundAmount = js_num_or (sub_lastRefundAmount sub) 0
      in if \<not> js_truthy replaced \<or> refundAmount \<le> 0 then ret ()
         else if js_truthy (sub_lastRefundStatus sub) \<and> sub_lastRefundStatus sub \<noteq> Some ''pending''
         then ret ()
         else bind_io (findLatestRazorpayPaymentForProviderSubscription (sub_id sub)
                         (sub_workspaceId sub) (the replaced))
           (\<lambda>payment.
              let paymentId = Option.bind payment pay_providerPaymentId
              in if \<not> js_truthy paymentId then ret ()
                 else issueRefund E sub (the paymentId) (the replaced) replacement refundAmount))"

section \<open>Verification and clean-up of a replaced subscription\<close>

definition abandonOperation :: "env \<Rightarrow> string \<Rightarrow> string \<Rightarrow> unit bill" where
  "abandonOperation E i err =
     bind_io (op_update E i (\<lambda>r. r\<lparr>op_status := Abandoned, op_lastError := Some err\<rparr>)) (\<lambda>_. ret ())"

definition completeOperation :: "env \<Rightarrow> string \<Rightarrow> unit bill" where
  "completeOperation E i =
     bind_io (clock E) (\<lambda>now. bind_io (op_update E i
        (\<lambda>r. r\<lparr>op_status := Completed, op_lastError := None, op_nextRetryAt := now\<rparr>))
       (\<lambda>_. ret ()))"

definition requestedOperation :: "env \<Rightarrow> operation \<Rightarrow> string \<Rightarrow> unit bill" where
  "requestedOperation E oper err =
     (let retryCount = op_retryCount oper + 1
      in bind_io (clock E) (\<lambda>now. bind_io (op_update E (op_id oper)
           (\<lambda>r. r\<lparr>op_status := CancelRequested, op_retryCount := retryCount,
                 op_nextRetryAt := now + getRazorpayCancellationVerificationDelayMs retryCount,
                 op_lastError := Some err\<rparr>))
          (\<lambda>_. ret ())))"

definition verifyRazorpayReplacementCancellation :: "env \<Rightarrow> operation \<Rightarrow> subscription \<Rightarrow> unit bill" where
  "verifyRazorpayReplacementCancellation E oper sub =
     (if \<not> js_truthy (op_oldProviderSubId oper) \<or> \<not> js_truthy (op_newProviderSubId oper) then
        abandonOperation E (op_id oper) ''Cancellation verification is missing old or new subscription id''
      else
        let old = the (op_oldProviderSubId oper); new = the (op_newProviderSubId oper)
        in bind_io (fetchRazorpaySubscriptionStatus E old)
          (\<lambda>(_, status).
             if isTerminalRazorpaySubscriptionStatus status then
               seq_io (markRazorpayReplacementOperationCompleted E (op_workspaceId oper) old new)
                 (refundReplacementCredit E sub (Some old) new)
             else requestedOperation E oper
               (''Cancel requested; old Razorpay subscription still '' @ status)))"

definition latest :: "operation list \<Rightarrow> operation option" where
  "latest rows =
     foldr (\<lambda>r best. case best of
              None \<Rightarrow> Some r
            | Some q \<Rightarrow> if op_updatedAt r < op_updatedAt q then Some q else Some r) rows None"

definition replacement_params_for ::
    "subscription \<Rightarrow> string \<Rightarrow> string \<Rightarrow> operation_status \<Rightarrow> nat \<Rightarrow> int \<Rightarrow> string option \<Rightarrow> replacement_params" where
  "replacement_params_for sub replaced replacement st retryCount nextRetryAt err =
     \<lparr>rp_workspaceId = sub_workspaceId sub, rp_oldProviderSubId = Some replaced,
      rp_newProviderSubId = Some replacement, rp_plan = None, rp_status = st,
      rp_retryCount = Some retryCount, rp_nextRetryAt = Some nextRetryAt,
      rp_lastError = err, rp_refundAmount = None\<rparr>"

text \<open>What follows a cancellation that was accepted: verify, then complete and refund.\<close>

definition finalize_after_cancel ::
    "env \<Rightarrow> subscription \<Rightarrow> string \<Rightarrow> string \<Rightarrow> nat \<Rightarrow> string \<Rightarrow> unit bill" where
  "finalize_after_cancel E sub replaced replacement attempt verifiedOldStatus =
     (if \<not> isTerminalRazorpaySubscriptionStatus verifiedOldStatus then
        (let retryCount = attempt + 1
         in bind_io (clock E) (\<lambda>now. bind_io (upsertRazorpayReplacementOperation E
                  (replacement_params_for sub replaced replacement CancelRequested retryCount
                     (now + getRazorpayCancellationVerificationDelayMs retryCount)
                     (Some (''Cancel requested; old Razorpay subscription still '' @ verifiedOldStatus))))
                 (\<lambda>_. ret ())))
      else
        seq_io (markRazorpayReplacementOperationCompleted E (sub_workspaceId sub) replaced replacement)
          (catch_io (refundReplacementCredit E sub (Some replaced) replacement) (\<lambda>_. ret ())))"

definition finalizeReplacedRazorpaySubscription ::
    "env \<Rightarrow> subscription \<Rightarrow> string option \<Rightarrow> string \<Rightarrow> nat \<Rightarrow> unit bill" where
  "finalizeReplacedRazorpaySubscription E sub replacedOpt replacement attempt =
     (if \<not> js_truthy replacedOpt \<or> replacedOpt = Some replacement then ret ()
      else let replaced = the replacedOpt in
        bind_io (gets (\<lambda>s. latest (filter (\<lambda>r. replacement_of (sub_workspaceId sub) replaced replacement r
                                             \<and> op_status r = CancelRequested) (w_ops s))))
          (\<lambda>existing. case existing of
             Some oper \<Rightarrow> verifyRazorpayReplacementCancellation E oper sub
           | None \<Rightarrow>
               bind_io (cancelRazorpaySubscriptionIfPossible E (Some replaced) False)
                 (\<lambda>result.
                    let returnedProviderStatus =
                          lower_status (Option.bind (Option.bind result cr_subscription) rs_status) []
                    in if map_option cr_status result = Some CancelDeferred then
                         scheduleRazorpayReplacementCleanup E
                           \<lparr>ct_workspaceId = sub_workspaceId sub, ct_replacedProviderSubId = replaced,
                            ct_replacementProviderSubId = replacement, ct_attempt = Some (attempt + 1),
                            ct_lastError = Option.bind result cr_reason\<rparr>
                       else if map_option cr_status result = Some CancelNotStarted then
                         (let retryCount = attempt + 1
                          in bind_io (clock E) (\<lambda>now. bind_io (upsertRazorpayReplacementOperation E
                                   (replacement_params_for sub replaced replacement CleanupPending retryCount
                                      (now + getRazorpayCleanupDelayMs retryCount)
                                      (Option.bind result cr_reason)))
                                  (\<lambda>_. ret ())))
                       else if returnedProviderStatus = []
                            \<or> \<not> isTerminalRazorpaySubscriptionStatus returnedProviderStatus then
                         bind_io (fetchRazorpaySubscriptionStatus E replaced)
                           (\<lambda>(_, status). finalize_after_cancel E sub replaced replacement attempt status)
                       else finalize_after_cancel E sub replaced replacement attempt returnedProviderStatus)))"

section \<open>Activation and synchronisation of the subscription row\<close>

definition syncCurrentRazorpaySubscriptionStatus :: "env \<Rightarrow> subscription \<Rightarrow> subscription bill" where
  "syncCurrentRazorpaySubscriptionStatus E sub =
     (if \<not> js_truthy (sub_providerSubId sub) then ret sub
      else bind_io (fetchRazorpaySubscriptionStatus E (the (sub_providerSubId sub)))
        (\<lambda>(entity, status).
           let mapped = mapRazorpaySubscriptionStatus status
           in if sub_status sub = mapped \<and> sub_currentPeriodStart sub \<noteq> None
                 \<and> sub_currentPeriodEnd sub \<noteq> None then ret sub
              else sub_update (by_sub_id (sub_id sub))
                (\<lambda>r. r\<lparr>sub_status := mapped,
                      sub_cancelAtPeriodEnd :=
                        (if isTerminalRazorpaySubscriptionStatus status then False
                         else sub_cancelAtPeriodEnd sub),
                      sub_currentPeriodStart :=
                        js_nullish (getRazorpayDate (rs_current_start entity)) (sub_currentPeriodStart sub),
                      sub_currentPeriodEnd :=
                        js_nullish (getRazorpayDate (rs_current_end entity))
                          (js_nullish (getRazorpayDate (rs_charge_at entity)) (sub_currentPeriodEnd sub))\<rparr>)))"

definition activateRazorpayReplacement ::
    "env \<Rightarrow> subscription \<Rightarrow> rp_subscription \<Rightarrow> string \<Rightarrow> string option \<Rightarrow> string option \<Rightarrow> subscription bill" where
  "activateRazorpayReplacement E sub replacement replacementProviderSubId replacedProviderSubId plan =
     (let nextPlan = js_or_str (js_or plan (js_or (rs_notes_plan replacement) (sub_pendingPlan sub)))
                       (sub_plan sub)
      in bind_io (sub_update (by_sub_id (sub_id sub))
           (\<lambda>r. r\<lparr>sub_provider := Some Razorpay,
                 sub_providerCustomerId := js_or (rs_customer_id replacement) (sub_providerCustomerId sub),
                 sub_providerSubId := Some replacementProviderSubId,
                 sub_plan := nextPlan,
                 sub_status := Active,
                 sub_pendingPlan := None,
                 sub_pendingEffectiveAt := None,
                 sub_pendingProviderSubId := None,
                 sub_currentPeriodStart :=
                   js_nullish (getRazorpayDate (rs_current_start replacement)) (sub_currentPeriodStart sub),
                 sub_currentPeriodEnd :=
                   js_nullish (getRazorpayDate (rs_current_end replacement))
                     (js_nullish (getRazorpayDate (rs_charge_at replacement)) (sub_currentPeriodEnd sub))\<rparr>))
          (\<lambda>updated.
             seq_io
               (if js_truthy replacedProviderSubId \<and> replacedProviderSubId \<noteq> Some replacementProviderSubId
                then queueRazorpayReplacementCleanup (sub_workspaceId sub) (the replacedProviderSubId)
                       replacementProviderSubId
                else ret ())
               (ret updated)))"

section \<open>Processing one operation\<close>

definition settleCancelled :: "env \<Rightarrow> operation \<Rightarrow> subscription option \<Rightarrow> string \<Rightarrow> unit bill" where
  "settleCancelled E oper sub status =
     seq_io (completeOperation E (op_id oper))
       (case sub of
          None \<Rightarrow> ret ()
        | Some r \<Rightarrow>
            if sub_providerSubId r = op_oldProviderSubId oper then
              bind_io (sub_update (by_sub_id (sub_id r))
                 (\<lambda>x. x\<lparr>sub_status := mapRazorpaySubscriptionStatus status,
                       sub_cancelAtPeriodEnd := False\<rparr>)) (\<lambda>_. ret ())
            else ret ())"

definition processRazorpayCancelSubscriptionOperation :: "env \<Rightarrow> operation \<Rightarrow> unit bill" where
  "processRazorpayCancelSubscriptionOperation E oper =
     (if \<not> js_truthy (op_oldProviderSubId oper) then
        abandonOperation E (op_id oper) ''Cancel operation is missing subscription id''
      else let old = the (op_oldProviderSubId oper) in
        bind_io (sub_find (by_workspace (op_workspaceId oper)))
          (\<lambda>sub.
             let cancelAtCycleEnd =
                   (case op_metadata oper of Some (MetaCancelAtCycleEnd b) \<Rightarrow> b | _ \<Rightarrow> True)
             in if op_status oper = CancelRequested then
                  bind_io (fetchRazorpaySubscriptionStatus E old)
                    (\<lambda>(_, status).
                       if isTerminalRazorpaySubscriptionStatus status then settleCancelled E oper sub status
                       else requestedOperation E oper
                         (''Cancel requested; Razorpay subscription still '' @ status))
                else
                  bind_io (cancelRazorpaySubscriptionIfPossible E (Some old) cancelAtCycleEnd)
                    (\<lambda>result.
                       if map_option cr_status result = Some CancelDeferred
                          \<or> map_option cr_status result = Some CancelNotStarted then
                         (let retryCount = op_retryCount oper + 1
                          in bind_io (clock E) (\<lambda>now. bind_io (op_update E (op_id oper)
                                   (\<lambda>r. r\<lparr>op_status := CleanupPending, op_retryCount := retryCount,
                                         op_nextRetryAt := now + getRazorpayCleanupDelayMs retryCount,
                                         op_lastError := js_nullish (Option.bind result cr_reason) (op_lastError r)\<rparr>))
                                  (\<lambda>_. ret ())))
                       else
                         let returnedStatus =
                               lower_status (Option.bind (Option.bind result cr_subscription) rs_status) []
                         in bind_io
                              (if isTerminalRazorpaySubscriptionStatus returnedStatus then ret returnedStatus
                               else bind_io (fetchRazorpaySubscriptionStatus E old) (\<lambda>(_, st). ret st))
                              (\<lambda>status.
                                 if isTerminalRazorpaySubscriptionStatus status
                                 then settleCancelled E oper sub status
                                 else requestedOperation E oper
                                   (''Cancel requested; Razorpay subscription still '' @ status)))))"

text \<open>The part of the processing of a replacement that depends on the replacement's status.\<close>

definition processReplacementStatus ::
    "env \<Rightarrow> operation \<Rightarrow> subscription \<Rightarrow> string \<Rightarrow> rp_subscription \<Rightarrow> unit bill" where
  "processReplacementStatus E oper sub new replacement =
     (let replacementStatus = lower_status (rs_status replacement) []
      in if replacementStatus = ''active'' then
           bind_io (activateRazorpayReplacement E sub replacement new (op_oldProviderSubId oper) (op_plan oper))
             (\<lambda>updated.
                if js_truthy (op_oldProviderSubId oper) \<and> op_oldProviderSubId oper \<noteq> Some new then
                  finalizeReplacedRazorpaySubscription E updated (op_oldProviderSubId oper) new
                    (op_retryCount oper)
                else completeOperation E (op_id oper))
         else if isPendingRazorpaySubscriptionStatus replacementStatus then
           deferRazorpayOperation E oper
             (''Replacement subscription is still '' @
                (if replacementStatus = [] then ''pending'' else replacementStatus))
         else bind_io (clock E) (\<lambda>now.
           bind_io (op_update E (op_id oper)
             (\<lambda>r. r\<lparr>op_status := (if isTerminalRazorpaySubscriptionStatus replacementStatus
                                  then Abandoned else Failed),
                   op_retryCount := op_retryCount oper + 1,
                   op_nextRetryAt := now + getRazorpayCleanupDelayMs (op_retryCount oper + 1),
                   op_lastError := Some (''Replacement subscription status is '' @
                      (if replacementStatus = [] then ''unknown'' else replacementStatus))\<rparr>))
            (\<lambda>_. ret ())))"

definition processRazorpaySubscriptionOperation :: "env \<Rightarrow> operation \<Rightarrow> unit bill" where
  "processRazorpaySubscriptionOperation E oper =
     (if op_provider oper \<noteq> Razorpay then ret ()
      else if op_type oper = CancelSubscription then processRazorpayCancelSubscriptionOperation E oper
      else if op_type oper \<noteq> ReplaceSubscription then ret ()
      else if \<not> js_truthy (op_newProviderSubId oper) then
        abandonOperation E (op_id oper) ''Replacement subscription id is missing''
      else let new = the (op_newProviderSubId oper) in
        bind_io (sub_find (by_workspace (op_workspaceId oper)))
          (\<lambda>found. case found of
             None \<Rightarrow> abandonOperation E (op_id oper) ''Workspace subscription not found''
           | Some sub \<Rightarrow>
               if op_status oper = CancelRequested then verifyRazorpayReplacementCancellation E oper sub
               else bind_io (fetchSubscription E new) (processReplacementStatus E oper sub new)))"

section \<open>Reconciling a subscription\<close>

definition cancellable_statuses :: "string list" where
  "cancellable_statuses = [''authenticated'', ''active'', ''pending'', ''halted'']"

definition is_duplicate ::
    "string \<Rightarrow> string option \<Rightarrow> string \<Rightarrow> string option \<Rightarrow> rp_subscription \<Rightarrow> bool" where
  "is_duplicate ws customerId keep pendingSub item =
     (js_truthy (rs_id item) \<and> rs_id item \<noteq> Some keep \<and> rs_id item \<noteq> pendingSub
      \<and> rs_notes_workspaceId item = Some ws
      \<and> (\<not> js_truthy customerId \<or> rs_customer_id item = customerId)
      \<and> lower_status (rs_status item) [] \<in> set cancellable_statuses)"

definition duplicate_subscriptions ::
    "string \<Rightarrow> string option \<Rightarrow> string \<Rightarrow> string option \<Rightarrow> rp_subscription list \<Rightarrow> rp_subscription list" where
  "duplicate_subscriptions ws customerId keep pendingSub items =
     sort_key (\<lambda>i. js_num_or (rs_created_at i) 0) (filter (is_duplicate ws customerId keep pendingSub) items)"

definition queue_duplicate :: "env \<Rightarrow> string \<Rightarrow> string \<Rightarrow> rp_subscription \<Rightarrow> unit bill" where
  "queue_duplicate E ws keep dup =
     bind_io (op_find (\<lambda>r. op_workspaceId r = ws \<and> op_provider r = Razorpay \<and> op_type r = ReplaceSubscription
                \<and> op_oldProviderSubId r = rs_id dup \<and> op_newProviderSubId r = Some keep
                \<and> \<not> isTerminalRazorpayOperationStatus (op_status r)))
       (\<lambda>found. case found of
          Some _ \<Rightarrow> ret ()
        | None \<Rightarrow> bind_io (upsertRazorpayCancelOperation E
            \<lparr>cp_workspaceId = ws, cp_providerSubId = rs_id dup, cp_cancelAtCycleEnd = False,
             cp_status = Some CleanupPending, cp_retryCount = None, cp_nextRetryAt = None,
             cp_lastError = Some ''Duplicate Razorpay subscription discovered by reconciler''\<rparr>)
            (\<lambda>_. ret ()))"

definition cleanupRazorpayWorkspaceSubscriptions ::
    "env \<Rightarrow> string \<Rightarrow> string option \<Rightarrow> string \<Rightarrow> string option \<Rightarrow> unit bill" where
  "cleanupRazorpayWorkspaceSubscriptions E ws customerId keep pendingSub =
     (if \<not> js_truthy customerId then ret ()
      else catch_io
        (bind_io (listSubscriptions E customerId (Some 100) None)
           (\<lambda>items. for_io (queue_duplicate E ws keep)
                      (take 10 (duplicate_subscriptions ws customerId keep pendingSub items))))
        (\<lambda>_. ret ()))"

text \<open>The step for a subscription that waits for its replacement.\<close>

definition reconcile_pending :: "env \<Rightarrow> subscription \<Rightarrow> unit bill" where
  "reconcile_pending E sub =
     (if \<not> js_truthy (sub_pendingProviderSubId sub) then ret ()
      else let pendingId = the (sub_pendingProviderSubId sub) in
        bind_io (fetchSubscription E pendingId)
          (\<lambda>pendingSub.
             let pendingStatus = lower_status (rs_status pendingSub) []
             in if pendingStatus = ''active'' then
                  bind_io (activateRazorpayReplacement E sub pendingSub pendingId
                             (sub_providerSubId sub) (sub_pendingPlan sub)) (\<lambda>_. ret ())
                else if isPendingRazorpaySubscriptionStatus pendingStatus then
                  bind_io (upsertRazorpayReplacementOperation E
                    \<lparr>rp_workspaceId = sub_workspaceId sub, rp_oldProviderSubId = sub_providerSubId sub,
                     rp_newProviderSubId = sub_pendingProviderSubId sub, rp_plan = sub_pendingPlan sub,
                     rp_status = Pending, rp_retryCount = None, rp_nextRetryAt = None,
                     rp_lastError = Some (''Replacement subscription is still '' @
                        (if pendingStatus = [] then ''pending'' else pendingStatus)),
                     rp_refundAmount = None\<rparr>) (\<lambda>_. ret ())
                else if isTerminalRazorpaySubscriptionStatus pendingStatus then
                  seq_io
                    (sub_update (by_sub_id (sub_id sub))
                       (\<lambda>r. r\<lparr>sub_pendingPlan := None, sub_pendingEffectiveAt := None,
                             sub_pendingProviderSubId := None\<rparr>))
                    (abandonReplacements E (sub_workspaceId sub) pendingId
                       (''Replacement subscription ended as '' @ pendingStatus))
                else ret ()))"

text \<open>The step that repeats a refund still marked as pending.\<close>

definition reconcile_refund :: "env \<Rightarrow> subscription \<Rightarrow> unit bill" where
  "reconcile_refund E sub =
     (if sub_lastRefundStatus sub = Some ''pending'' \<and> js_truthy (sub_providerSubId sub) then
        bind_io (gets (\<lambda>s. latest (filter (\<lambda>r. op_workspaceId r = sub_workspaceId sub
                     \<and> op_provider r = Razorpay \<and> op_type r = ReplaceSubscription
                     \<and> op_newProviderSubId r = sub_providerSubId sub \<and> op_oldProviderSubId r \<noteq> None)
                   (w_ops s))))
          (\<lambda>found. let old = Option.bind found op_oldProviderSubId
             in if js_truthy old
                then refundReplacementCredit E sub old (the (sub_providerSubId sub))
                else ret ())
      else ret ())"

definition reconcileRazorpaySubscription :: "env \<Rightarrow> subscription \<Rightarrow> unit bill" where
  "reconcileRazorpaySubscription E subscription =
     bind_io (if js_truthy (sub_providerSubId subscription)
              then syncCurrentRazorpaySubscriptionStatus E subscription else ret subscription)
       (\<lambda>sub.
          seq_io (reconcile_pending E sub)
            (seq_io
               (if js_truthy (sub_providerSubId sub) \<and> js_truthy (sub_providerCustomerId sub)
                   \<and> sub_status sub = Active then
                  cleanupRazorpayWorkspaceSubscriptions E (sub_workspaceId sub) (sub_providerCustomerId sub)
                    (the (sub_providerSubId sub)) (sub_pendingProviderSubId sub)
                else ret ())
               (reconcile_refund E sub)))"

section \<open>The job\<close>

definition RAZORPAY_WIDE_RECONCILE_INTERVAL_MINUTES :: nat where
  "RAZORPAY_WIDE_RECONCILE_INTERVAL_MINUTES = 30"

definition due_operations :: "int \<Rightarrow> operation list \<Rightarrow> operation list" where
  "due_operations now rows =
     take 25 (sort_key op_nextRetryAt
       (filter (\<lambda>r. op_provider r = Razorpay \<and> op_status r \<in> set RAZORPAY_OPERATION_WORKER_STATUSES
              \<and> op_nextRetryAt r \<le> now \<and> lock_free now r) rows))"

definition failOperation :: "env \<Rightarrow> operation \<Rightarrow> exn \<Rightarrow> unit bill" where
  "failOperation E oper ex =
     bind_io (clock E) (\<lambda>now. bind_io (op_update E (op_id oper)
        (\<lambda>r. r\<lparr>op_status := Failed, op_retryCount := op_retryCount oper + 1,
              op_nextRetryAt := now + getRazorpayCleanupDelayMs (op_retryCount oper + 1),
              op_lastError := Some (getErrorMessage ex)\<rparr>))
       (\<lambda>_. ret ()))"

definition reconcile_operation :: "env \<Rightarrow> operation \<Rightarrow> unit bill" where
  "reconcile_operation E oper =
     bind_io (claimRazorpaySubscriptionOperation E oper)
       (\<lambda>claimed. case claimed of
          None \<Rightarrow> ret ()
        | Some c \<Rightarrow>
            finally_io
              (catch_io (processRazorpaySubscriptionOperation E c) (failOperation E c))
              (releaseRazorpaySubscriptionOperationLock E (op_id c)))"

definition subscriptions_to_reconcile :: "bool \<Rightarrow> subscription list \<Rightarrow> subscription list" where
  "subscriptions_to_reconcile wide rows =
     take 50 (filter (\<lambda>r. sub_provider r = Some Razorpay
         \<and> (sub_pendingProviderSubId r \<noteq> None \<or> sub_lastRefundStatus r = Some ''pending''
            \<or> (wide \<and> sub_providerSubId r \<noteq> None))) rows)"

definition reconcileRazorpayBillingState :: "env \<Rightarrow> unit bill" where
  "reconcileRazorpayBillingState E =
     bind_io (clock E) (\<lambda>now.
      let shouldRunWideReconcile = (env_minutes E now mod RAZORPAY_WIDE_RECONCILE_INTERVAL_MINUTES = 0)
      in seq_io
           (bind_io (gets (\<lambda>s. due_operations now (w_ops s))) (for_io (reconcile_operation E)))
           (bind_io (gets (\<lambda>s. subscriptions_to_reconcile shouldRunWideReconcile (w_subs s)))
              (for_io (\<lambda>sub. catch_io (reconcileRazorpaySubscription E sub) (\<lambda>_. ret ())))))"

section \<open>What the handlers keep\<close>

text \<open>
  The reconciler's lemmas, once for every relation: \<open>fetch_order\<close> for the parts that read
  from the provider and refund, \<open>cancel_order\<close> for those that also cancel.
\<close>

locale fetch_order = table_writes R E
  for R :: "world \<Rightarrow> world \<Rightarrow> bool" and E :: env +
  assumes R_fetch: "keeps R (fetchSubscription E i)"
    and R_list: "keeps R (listSubscriptions E cu n k)"
    and R_refund: "keeps R (refundPayment E i a nt)"
begin

lemmas f_intros = t_intros t_operations R_fetch R_list R_refund R_sub_update

lemma f_status: "keeps R (fetchRazorpaySubscriptionStatus E i)"
  unfolding fetchRazorpaySubscriptionStatus_def by (intro f_intros)

lemma f_refund: "keeps R (refundReplacementCredit E sub x y)"
  unfolding refundReplacementCredit_def findLatestRazorpayPaymentForProviderSubscription_def
    issueRefund_def Let_def
  by (intro f_intros) simp

lemma f_abandon: "keeps R (abandonOperation E i err)"
  unfolding abandonOperation_def by (intro f_intros) (simp add: op_ident_def)

lemma f_complete: "keeps R (completeOperation E i)"
  unfolding completeOperation_def by (intro f_intros) (simp add: op_ident_def)

lemma f_requested: "keeps R (requestedOperation E oper err)"
  unfolding requestedOperation_def Let_def by (intro f_intros) (simp add: op_ident_def)

lemma f_fail: "keeps R (failOperation E oper ex)"
  unfolding failOperation_def by (intro f_intros) (simp add: op_ident_def)

lemma f_verify: "keeps R (verifyRazorpayReplacementCancellation E oper sub)"
  unfolding verifyRazorpayReplacementCancellation_def Let_def
  by (intro f_intros f_abandon f_status f_refund f_requested)

lemma f_finalize_after: "keeps R (finalize_after_cancel E sub x y n st)"
  unfolding finalize_after_cancel_def Let_def by (intro f_intros f_refund)

lemma f_sync: "keeps R (syncCurrentRazorpaySubscriptionStatus E sub)"
  unfolding syncCurrentRazorpaySubscriptionStatus_def Let_def
  by (intro f_intros f_status) simp

lemma f_activate: "keeps R (activateRazorpayReplacement E sub rep new old plan)"
  unfolding activateRazorpayReplacement_def Let_def by (intro f_intros) simp

lemma f_settle: "keeps R (settleCancelled E oper sub st)"
  unfolding settleCancelled_def by (intro f_intros f_complete) simp

lemma f_cleanup: "keeps R (cleanupRazorpayWorkspaceSubscriptions E ws cu keep pend)"
  unfolding cleanupRazorpayWorkspaceSubscriptions_def queue_duplicate_def
  by (intro f_intros)

lemma f_pending: "keeps R (reconcile_pending E sub)"
  unfolding reconcile_pending_def Let_def by (intro f_intros f_activate) simp

lemma f_reconcile_refund: "keeps R (reconcile_refund E sub)"
  unfolding reconcile_refund_def Let_def by (intro f_intros f_refund)

lemma f_reconcile: "keeps R (reconcileRazorpaySubscription E sub)"
  unfolding reconcileRazorpaySubscription_def
  by (intro f_intros f_sync f_pending f_cleanup f_reconcile_refund)

lemma f_process_requested:
  assumes "op_status oper = CancelRequested"
  shows "keeps R (processRazorpaySubscriptionOperation E oper)"
  unfolding processRazorpaySubscriptionOperation_def processRazorpayCancelSubscriptionOperation_def
    Let_def assms
  by (simp, intro conjI impI f_intros f_abandon f_verify f_status f_settle f_requested) 

end

text \<open>\<open>T\<close> is the set of subscriptions whose cancellation the relation tolerates.\<close>

locale cancel_order = fetch_order R E
  for R :: "world \<Rightarrow> world \<Rightarrow> bool" and E :: env +
  fixes T :: "string \<Rightarrow> bool"
  assumes R_cancel: "T i \<Longrightarrow> keeps R (cancelSubscriptionIfPossible E i b)"
begin

lemma c_cancel: "T i \<Longrightarrow> keeps R (cancelRazorpaySubscriptionIfPossible E (Some i) b)"
  unfolding cancelRazorpaySubscriptionIfPossible_def option.sel by (intro f_intros R_cancel)

lemma c_finalize:
  assumes "js_truthy x \<Longrightarrow> T (the x)"
  shows "keeps R (finalizeReplacedRazorpaySubscription E sub x y n)"
proof (cases "js_truthy x")
  case True
  then show ?thesis
    unfolding finalizeReplacedRazorpaySubscription_def Let_def
    by (intro f_intros f_verify c_cancel assms f_status f_finalize_after)
next
  case False
  then show ?thesis
    by (simp add: finalizeReplacedRazorpaySubscription_def r_ret)
qed

lemma c_process_cancel:
  assumes "js_truthy (op_oldProviderSubId oper) \<Longrightarrow> T (the (op_oldProviderSubId oper))"
  shows "keeps R (processRazorpayCancelSubscriptionOperation E oper)"
proof (cases "js_truthy (op_oldProviderSubId oper)")
  case True
  then show ?thesis
    unfolding processRazorpayCancelSubscriptionOperation_def Let_def
    by (intro f_intros f_abandon f_status f_settle f_requested c_cancel assms)
       (simp_all add: op_ident_def)
next
  case False
  then show ?thesis
    by (simp add: processRazorpayCancelSubscriptionOperation_def f_abandon)
qed

lemma c_process_status:
  assumes "js_truthy (op_oldProviderSubId oper) \<Longrightarrow> T (the (op_oldProviderSubId oper))"
  shows "keeps R (processReplacementStatus E oper sub new rep)"
  unfolding processReplacementStatus_def Let_def
  by (intro f_intros f_activate c_finalize f_complete assms) (simp_all add: op_ident_def)

lemma c_process:
  assumes "js_truthy (op_oldProviderSubId oper) \<Longrightarrow> T (the (op_oldProviderSubId oper))"
  shows "keeps R (processRazorpaySubscriptionOperation E oper)"
  unfolding processRazorpaySubscriptionOperation_def Let_def
  by (intro f_intros c_process_cancel f_abandon f_verify c_process_status assms)

end

sublocale call_order \<subseteq> cancel_order R E "\<lambda>_. True"
  by unfold_locales (rule t_service; rule service_calls)+

context call_order begin

lemma c_operation: "keeps R (reconcile_operation E oper)"
  unfolding reconcile_operation_def by (intro f_intros c_process f_fail) simp

lemma c_job: "keeps R (reconcileRazorpayBillingState E)"
  unfolding reconcileRazorpayBillingState_def Let_def
  by (intro f_intros c_operation f_reconcile)

end

section \<open>No second cancellation\<close>

definition is_cancel_call :: "call \<Rightarrow> bool" where
  "is_cancel_call c = (case c of CallCancelSubscription _ _ \<Rightarrow> True | _ \<Rightarrow> False)"

definition no_cancel_calls :: "world \<Rightarrow> world \<Rightarrow> bool" where
  "no_cancel_calls s t \<longleftrightarrow>
     (\<exists>cs. w_calls t = w_calls s @ cs \<and> \<not> list_ex is_cancel_call cs)"

lemma no_cancel_same: "w_calls t = w_calls s \<Longrightarrow> no_cancel_calls s t"
  unfolding no_cancel_calls_def by (rule exI [of _ "[]"]) simp

lemma no_cancel_promise:
  "\<not> is_cancel_call c \<Longrightarrow> keeps no_cancel_calls (returned_promise msg c f)"
  by (auto intro!: keepsI exI [of _ "[c]"] simp: returned_promise_state no_cancel_calls_def)

interpretation quiet: fetch_order no_cancel_calls E for E
proof
  show "no_cancel_calls s s" for s
    by (rule no_cancel_same) simp
  show "no_cancel_calls s t \<Longrightarrow> no_cancel_calls t u \<Longrightarrow> no_cancel_calls s u" for s t u
    by (auto simp: no_cancel_calls_def)
  show "keeps no_cancel_calls (op_update E i f)" for i f
    by (rule keepsI) (auto intro: no_cancel_same simp: op_update_def split: option.split)
  show "keeps no_cancel_calls (op_updateMany E P f)" for P f
    by (rule keepsI) (auto intro: no_cancel_same simp: op_updateMany_def)
  show "keeps no_cancel_calls (op_create E r)" for r
    by (rule keepsI) (auto intro: no_cancel_same simp: op_create_def Let_def)
  show "keeps no_cancel_calls (sub_update Q g)" for Q g
    by (rule keepsI) (auto intro: no_cancel_same simp: sub_update_def split: option.split)
  show "no_cancel_calls s (s\<lparr>w_queued := q\<rparr>)" for s q
    by (rule no_cancel_same) simp
  show "keeps no_cancel_calls (fetchSubscription E i)" for i
    unfolding fetchSubscription_def by (rule no_cancel_promise) (simp add: is_cancel_call_def)
  show "keeps no_cancel_calls (listSubscriptions E cu n k)" for cu n k
    unfolding listSubscriptions_def by (rule no_cancel_promise) (simp add: is_cancel_call_def)
  show "keeps no_cancel_calls (refundPayment E i a nt)" for i a nt
    unfolding refundPayment_def by (rule no_cancel_promise) (simp add: is_cancel_call_def)
qed

section \<open>Results of the job\<close>

lemma ops_grow_row:
  assumes "ops_grow s t" and "r \<in> set (w_ops s)"
  shows "\<exists>r' \<in> set (w_ops t). op_ident r' = op_ident r"
proof -
  from assms(1) obtain rest where "map op_ident (w_ops t) = map op_ident (w_ops s) @ rest"
    by (auto simp: ops_grow_def)
  then have "op_ident ` set (w_ops t) = op_ident ` set (w_ops s) \<union> set rest"
    by (metis set_append set_map)
  with assms(2) have "op_ident r \<in> op_ident ` set (w_ops t)" by simp
  then show ?thesis by force
qed

lemma failOperation_returns:
  assumes "r \<in> set (w_ops s)" and "op_id r = op_id oper"
  shows "fst (failOperation E oper ex s) = Inr ()"
proof -
  have "find (\<lambda>x. op_id x = op_id oper) (w_ops s) \<noteq> None"
    using assms by (auto simp: find_None_iff)
  then obtain y where "find (\<lambda>x. op_id x = op_id oper) (w_ops s) = Some y" by blast
  then show ?thesis by (simp add: failOperation_def io_simps clock_def op_update_def)
qed

lemma claim_returns: "\<exists>c t. claimRazorpaySubscriptionOperation E oper s = (Inr c, t)"
  by (simp add: claimRazorpaySubscriptionOperation_def io_simps clock_def op_updateMany_def
      op_find_def Let_def)

lemma claim_cases:
  obtains (free) t where "claimRazorpaySubscriptionOperation E oper s = (Inr None, t)"
  | (claimed) c t where "claimRazorpaySubscriptionOperation E oper s = (Inr (Some c), t)"
  using claim_returns [of E oper s] by (metis not_None_eq)

text \<open>The guarded body of a claimed operation: whatever happens in it, the row is unlocked.\<close>

lemma guarded_body:
  assumes "ops_ok s" and "claimRazorpaySubscriptionOperation E oper s = (Inr (Some c), t)"
  shows "\<exists>u. finally_io (catch_io (processRazorpaySubscriptionOperation E c) (failOperation E c))
               (releaseRazorpaySubscriptionOperationLock E (op_id c)) t = (Inr (), u)
             \<and> (\<forall>r \<in> set (w_ops u). op_id r = op_id oper \<longrightarrow> op_lockExpiresAt r = None)"
proof -
  let ?m = "catch_io (processRazorpaySubscriptionOperation E c) (failOperation E c)"
  obtain q v where m: "?m t = (q, v)" by (cases "?m t")
  have "q = Inr ()"
  proof (cases "processRazorpaySubscriptionOperation E c t")
    case (Pair r w)
    have "ops_grow t w"
      using keeps_result [OF evolve.c_process Pair] by (simp add: evolves_def)
    from ops_grow_row [OF this claim_result(1) [OF assms]]
    obtain x where "x \<in> set (w_ops w)" "op_id x = op_id c" by (auto simp: op_ident_def)
    from failOperation_returns [OF this, of E] m Pair show ?thesis
      by (cases r) (auto simp: io_simps prod_eq_iff)
  qed
  with m release_state [of E "op_id c" v] release_unlocks [of E "op_id c" v] claim_result(2) [OF assms]
  show ?thesis by (simp add: io_simps)
qed

lemma reconcile_operation_returns:
  assumes "ops_ok s"
  shows "fst (reconcile_operation E oper s) = Inr ()"
proof (cases E oper s rule: claim_cases)
  case (free t)
  then show ?thesis by (simp add: reconcile_operation_def io_simps)
next
  case (claimed c t)
  with guarded_body [OF assms claimed] show ?thesis
    by (auto simp: reconcile_operation_def bind_io_def)
qed

lemma for_io_returns:
  assumes "I s" and "\<And>x t. I t \<Longrightarrow> fst (f x t) = Inr () \<and> I (snd (f x t))"
  shows "fst (for_io f xs s) = Inr ()"
  using assms(1)
proof (induction xs arbitrary: s)
  case Nil
  then show ?case by (simp add: io_simps)
next
  case (Cons x xs)
  with assms(2) [of s x] show ?case
    by (auto simp: io_simps split: prod.splits sum.splits)
qed


section \<open>Cancellations hit the old subscription only\<close>

definition cancels_only :: "string option \<Rightarrow> world \<Rightarrow> world \<Rightarrow> bool" where
  "cancels_only x s t \<longleftrightarrow>
     (\<exists>cs. w_calls t = w_calls s @ cs
          \<and> list_all (\<lambda>c. case c of CallCancelSubscription i b \<Rightarrow> x = Some i | _ \<Rightarrow> True) cs)"

lemma cancels_only_quiet: "no_cancel_calls s t \<Longrightarrow> cancels_only x s t"
  by (auto simp: no_cancel_calls_def cancels_only_def is_cancel_call_def list_ex_iff list_all_iff
      split: call.splits)

lemma quiet_cancels_only: "keeps no_cancel_calls m \<Longrightarrow> keeps (cancels_only x) m"
  by (auto simp: keeps_def intro: cancels_only_quiet)

lemma cancels_only_trans: "cancels_only x s t \<Longrightarrow> cancels_only x t u \<Longrightarrow> cancels_only x s u"
  by (auto simp: cancels_only_def)

lemma cancels_only_cancel: "x = Some i \<Longrightarrow> keeps (cancels_only x) (cancelSubscriptionIfPossible E i b)"
proof (rule keepsI)
  fix s assume "x = Some i"
  have "snd (cancelSubscriptionIfPossible E i b s) = s\<lparr>w_calls := w_calls s @ [CallCancelSubscription i b]\<rparr>"
    using awaited_state [of "CallCancelSubscription i b" "\<lambda>s. sdk_cancel_subscription E s i b" s]
    by (auto simp: cancelSubscriptionIfPossible_def io_simps split: prod.splits sum.splits exn.splits option.splits)
  with \<open>x = Some i\<close> show "cancels_only x s (snd (cancelSubscriptionIfPossible E i b s))"
    by (auto simp: cancels_only_def)
qed

interpretation aimed: cancel_order "cancels_only x" E "\<lambda>i. x = Some i" for x E
  by unfold_locales
     (auto intro: cancels_only_trans cancels_only_cancel cancels_only_quiet quiet_cancels_only
        quiet.R_refl quiet.R_op_update quiet.R_op_updateMany quiet.R_op_create quiet.R_sub_update
        quiet.R_queue quiet.R_fetch quiet.R_list quiet.R_refund)


section \<open>Rows of the subscription table\<close>

lemma same_sub:
  assumes "subs_ok s" and "r \<in> set (w_subs s)" and "x \<in> set (w_subs s)"
  shows "sub_id x = sub_id r \<longleftrightarrow> x = r" and "sub_workspaceId x = sub_workspaceId r \<longleftrightarrow> x = r"
  using assms by (auto simp: subs_ok_def distinct_map dest: inj_onD)

lemma find_sub:
  assumes "subs_ok s" and "r \<in> set (w_subs s)"
  shows "find (by_sub_id (sub_id r)) (w_subs s) = Some r"
    and "find (by_workspace (sub_workspaceId r)) (w_subs s) = Some r"
  using assms find_unique_key [of sub_id "w_subs s" r] find_unique_key [of sub_workspaceId "w_subs s" r]
  by (simp_all add: subs_ok_def by_sub_id_def [abs_def] by_workspace_def [abs_def])

lemma no_clash_same:
  assumes "subs_ok s" and "r \<in> set (w_subs s)" and "sub_id r' = sub_id r"
    and "sub_providerSubId r' = sub_providerSubId r \<or> sub_providerSubId r' = None"
  shows "\<not> sub_clash r' (w_subs s)"
proof
  assume "sub_clash r' (w_subs s)"
  then obtain x where "x \<in> set (w_subs s)" "sub_id x \<noteq> sub_id r" "sub_providerSubId r \<noteq> None"
    "sub_providerSubId x = sub_providerSubId r"
    using assms(3,4) by (auto simp: sub_clash_def)
  with unique_nonnull_inj [of sub_providerSubId "w_subs s" x r] assms(1,2) show False
    by (auto simp: subs_ok_def)
qed

text \<open>An update of a known row that keeps its provider subscription always succeeds.\<close>

lemma sub_update_row:
  assumes "subs_ok s" and "r \<in> set (w_subs s)" and "\<not> sub_clash (f r) (w_subs s)"
  shows "sub_update (by_sub_id (sub_id r)) f s =
      (Inr (f r), s\<lparr>w_subs := upd_where (by_sub_id (sub_id r)) (\<lambda>_. f r) (w_subs s)\<rparr>)"
    and "sub_update (by_workspace (sub_workspaceId r)) f s =
      (Inr (f r), s\<lparr>w_subs := upd_where (by_sub_id (sub_id r)) (\<lambda>_. f r) (w_subs s)\<rparr>)"
  unfolding sub_update_def find_sub [OF assms(1,2)] using assms(3)
  by (simp_all add: by_sub_id_def [abs_def])

lemma sub_update_keep:
  assumes "subs_ok s" and "r \<in> set (w_subs s)" and "sub_id (f r) = sub_id r"
    and "sub_providerSubId (f r) = sub_providerSubId r \<or> sub_providerSubId (f r) = None"
  shows "sub_update (by_sub_id (sub_id r)) f s =
      (Inr (f r), s\<lparr>w_subs := upd_where (by_sub_id (sub_id r)) (\<lambda>_. f r) (w_subs s)\<rparr>)"
    and "sub_update (by_workspace (sub_workspaceId r)) f s =
      (Inr (f r), s\<lparr>w_subs := upd_where (by_sub_id (sub_id r)) (\<lambda>_. f r) (w_subs s)\<rparr>)"
  using sub_update_row [OF assms(1,2), of f] no_clash_same [OF assms] by blast+

lemma sub_update_move:
  assumes "subs_ok s" and "r \<in> set (w_subs s)" and "sub_id (f r) = sub_id r"
    and "\<forall>x \<in> set (w_subs s). sub_id x \<noteq> sub_id r \<longrightarrow> sub_providerSubId x \<noteq> sub_providerSubId (f r)"
  shows "sub_update (by_sub_id (sub_id r)) f s =
      (Inr (f r), s\<lparr>w_subs := upd_where (by_sub_id (sub_id r)) (\<lambda>_. f r) (w_subs s)\<rparr>)"
proof -
  have "\<not> sub_clash (f r) (w_subs s)" using assms(3,4) by (auto simp: sub_clash_def)
  then show ?thesis using sub_update_row(1) [OF assms(1,2), of f] by blast
qed

lemma sub_upd_in:
  "r \<in> set rows \<Longrightarrow> r' \<in> set (upd_where (by_sub_id (sub_id r)) (\<lambda>_. r') rows)"
  by (force simp: set_upd_where by_sub_id_def)

section \<open>Refunds\<close>

lemma refund_not_due:
  assumes "js_truthy (sub_lastRefundStatus sub)" and "sub_lastRefundStatus sub \<noteq> Some ''pending''"
  shows "refundReplacementCredit E sub x y s = (Inr (), s)"
  using assms by (simp add: refundReplacementCredit_def Let_def io_simps)

text \<open>The payment a refund is made against.\<close>

definition refundable :: "subscription \<Rightarrow> string \<Rightarrow> payment \<Rightarrow> bool" where
  "refundable sub replaced r =
     (pay_workspaceId r = sub_workspaceId sub \<and> pay_subscriptionId r = Some (sub_id sub)
      \<and> pay_provider r = Razorpay \<and> pay_status r = PayPaid
      \<and> Option.bind (pay_metadata r) meta_subscription_id = Some replaced)"

lemma latest_payment_refundable:
  assumes "findLatestRazorpayPaymentForProviderSubscription (sub_id sub) (sub_workspaceId sub) x s
             = (Inr (Some r), t)"
  shows "r \<in> set (w_pays s) \<and> refundable sub x r \<and> pay_providerPaymentId r \<noteq> None"
  using assms
  by (auto simp: findLatestRazorpayPaymentForProviderSubscription_def gets_def refundable_def
      dest!: find_Some_in in_set_takeD)

text \<open>A refund either does nothing at all or is issued against a paid payment.\<close>

lemma refund_cases:
  obtains (nothing) "refundReplacementCredit E sub x y s = (Inr (), s)"
  | (issued) r i where "r \<in> set (w_pays s)" "refundable sub (the x) r" "pay_providerPaymentId r = Some i"
      "0 < js_num_or (sub_lastRefundAmount sub) 0"
      "refundReplacementCredit E sub x y s =
         issueRefund E sub i (the x) y (js_num_or (sub_lastRefundAmount sub) 0) s"
proof -
  let ?find = "findLatestRazorpayPaymentForProviderSubscription (sub_id sub) (sub_workspaceId sub) (the x)"
  obtain pay where find: "?find s = (Inr pay, s)"
    by (simp add: findLatestRazorpayPaymentForProviderSubscription_def gets_def)
  let ?amount = "js_num_or (sub_lastRefundAmount sub) 0"
  let ?due = "js_truthy x \<and> 0 < ?amount \<and> js_truthy (Option.bind pay pay_providerPaymentId)
      \<and> \<not> (js_truthy (sub_lastRefundStatus sub) \<and> sub_lastRefundStatus sub \<noteq> Some ''pending'')"
  have run: "refundReplacementCredit E sub x y s =
      (if ?due then issueRefund E sub (the (Option.bind pay pay_providerPaymentId)) (the x) y ?amount s
       else (Inr (), s))"
    by (auto simp: refundReplacementCredit_def Let_def bind_io_def find ret_def)
  show thesis
  proof (cases ?due)
    case True
    then obtain r i where "pay = Some r" "pay_providerPaymentId r = Some i"
      by (cases pay) (auto elim: js_truthyE)
    with True run find latest_payment_refundable [of sub "the x" s r s] show thesis
      by (intro issued [of r i]) simp_all
  next
    case False
    from run [unfolded if_not_P [OF False]] show thesis by (rule nothing)
  qed
qed

lemma issueRefund_run:
  assumes "subs_ok s" and "sub \<in> set (w_subs s)"
    and "t = s\<lparr>w_calls := w_calls s @ [CallRefundPayment i a
           [(''workspaceId'', sub_workspaceId sub), (''replacedSubscription'', x),
            (''replacementSubscription'', y)]]\<rparr>"
  shows "issueRefund E sub i x y a s =
     (case sdk_refund E t i a of
        Resolved refund \<Rightarrow>
          (Inr (), t\<lparr>w_subs := upd_where (by_sub_id (sub_id sub))
             (\<lambda>_. sub\<lparr>sub_lastRefundStatus := Some (js_or_str (re_status refund) ''initiated''),
                     sub_lastRefundAt := Some (env_now E t)\<rparr>) (w_subs s)\<rparr>)
      | Rejected e \<Rightarrow> (Inl (SdkException e), t)
      | Threw e \<Rightarrow> (Inl (InternalServerErrorException ''Failed to refund Razorpay payment''), t))"
proof -
  have ok: "subs_ok t" and sub: "sub \<in> set (w_subs t)"
    using assms by (simp_all add: subs_ok_def)
  have "sub_update (by_sub_id (sub_id sub)) (\<lambda>r. r\<lparr>sub_lastRefundStatus := st, sub_lastRefundAt := n\<rparr>) t =
      (Inr (sub\<lparr>sub_lastRefundStatus := st, sub_lastRefundAt := n\<rparr>),
       t\<lparr>w_subs := upd_where (by_sub_id (sub_id sub))
         (\<lambda>_. sub\<lparr>sub_lastRefundStatus := st, sub_lastRefundAt := n\<rparr>) (w_subs t)\<rparr>)" for st n
    by (rule sub_update_row(1) [OF ok sub]) (simp add: no_clash_same [OF ok sub])
  then show ?thesis
    using assms(3)
    by (auto simp: issueRefund_def refundPayment_def returned_promise_def sdk_call_def Let_def
        io_simps clock_def split: sdk.splits)
qed


section \<open>Duplicate subscriptions\<close>

text \<open>Every row of \<open>t\<close> is an old row or a cancel operation of workspace \<open>ws\<close> on a subscription of \<open>A\<close>.\<close>

definition adds_cancels :: "string \<Rightarrow> (string \<Rightarrow> bool) \<Rightarrow> world \<Rightarrow> world \<Rightarrow> bool" where
  "adds_cancels ws A s t \<longleftrightarrow>
     (\<forall>r \<in> set (w_ops t). op_ident r \<in> op_ident ` set (w_ops s)
        \<or> (op_type r = CancelSubscription \<and> op_workspaceId r = ws
           \<and> (\<exists>i. op_oldProviderSubId r = Some i \<and> A i)))"

interpretation dups: step_order "adds_cancels ws A" for ws A
proof
  show "adds_cancels ws A s s" for s
    by (auto simp: adds_cancels_def)
  show "adds_cancels ws A s u" if "adds_cancels ws A s t" and "adds_cancels ws A t u" for s t u
    unfolding adds_cancels_def
  proof
    fix r assume "r \<in> set (w_ops u)"
    with that(2) consider "op_ident r \<in> op_ident ` set (w_ops t)"
      | "op_type r = CancelSubscription \<and> op_workspaceId r = ws \<and> (\<exists>i. op_oldProviderSubId r = Some i \<and> A i)"
      by (auto simp: adds_cancels_def)
    then show "op_ident r \<in> op_ident ` set (w_ops s) \<or> op_type r = CancelSubscription
        \<and> op_workspaceId r = ws \<and> (\<exists>i. op_oldProviderSubId r = Some i \<and> A i)"
    proof cases
      case 1
      then obtain x where "x \<in> set (w_ops t)" "op_ident r = op_ident x" by auto
      with that(1) show ?thesis by (auto simp: adds_cancels_def op_ident_def)
    qed simp
  qed
qed

lemma adds_same: "map op_ident (w_ops t) = map op_ident (w_ops s) \<Longrightarrow> adds_cancels ws A s t"
  by (metis adds_cancels_def image_eqI image_set)

lemma adds_op_update:
  "(\<And>r. op_ident (f r) = op_ident r) \<Longrightarrow> keeps (adds_cancels ws A) (op_update E i f)"
  by (rule keepsI) (auto intro!: adds_same simp: op_update_def map_ident_upd split: option.split)

lemma adds_op_create:
  "op_type r = CancelSubscription \<Longrightarrow> op_workspaceId r = ws \<Longrightarrow> op_oldProviderSubId r = Some i \<Longrightarrow> A i \<Longrightarrow>
   keeps (adds_cancels ws A) (op_create E r)"
  by (rule keepsI) (auto simp: op_create_def adds_cancels_def Let_def)

lemma adds_find: "keeps (adds_cancels ws A) (op_find P)" "keeps (adds_cancels ws A) (clock E)"
  unfolding op_find_def clock_def by (rule dups.r_gets)+

lemma adds_cancel_rounds:
  assumes "cp_workspaceId p = ws" and "cp_providerSubId p = Some i" and "A i"
  shows "keeps (adds_cancels ws A) (cancel_rounds E p key n)"
proof (induction n)
  case 0
  then show ?case by (simp add: dups.r_throw)
next
  case (Suc n)
  show ?case
    unfolding cancel_rounds.simps cancel_write_def Let_def
    by (intro dups.r_intros adds_find adds_op_update adds_op_create [of _ _ i] Suc assms(3))
       (simp_all add: op_ident_def assms)
qed

lemma adds_queue_duplicate:
  assumes "rs_id dup = Some i" and "A i"
  shows "keeps (adds_cancels ws A) (queue_duplicate E ws keep dup)"
  unfolding queue_duplicate_def upsertRazorpayCancelOperation_def
  by (intro dups.r_intros adds_find adds_cancel_rounds [of _ _ i]) (simp_all add: assms)

lemma keeps_for_in:
  assumes "step_order R" and "\<And>x. x \<in> set xs \<Longrightarrow> keeps R (f x)"
  shows "keeps R (for_io f xs)"
  using assms(2)
  by (induction xs) (auto intro: step_order.r_ret [OF assms(1)] step_order.r_seq [OF assms(1)])

lemma cancel_rounds_length:
  "length (w_ops (snd (cancel_rounds E p key n s))) \<le> Suc (length (w_ops s))"
  by (induction n)
     (auto simp: cancel_write_def io_simps op_find_def clock_def op_create_def op_update_def Let_def
        split: option.splits)

lemma queue_duplicate_length:
  "length (w_ops (snd (queue_duplicate E ws keep dup s))) \<le> Suc (length (w_ops s))"
proof -
  have "length (w_ops (snd (bind_io (upsertRazorpayCancelOperation E p) (\<lambda>_. ret ()) s)))
      \<le> Suc (length (w_ops s))" for p
    unfolding snd_bind_ret upsertRazorpayCancelOperation_def
    by (simp add: cancel_rounds_length ret_def del: cancel_rounds.simps)
  then show ?thesis
    by (simp add: queue_duplicate_def op_find_def bind_gets ret_def split: option.split)
qed

lemma for_io_length:
  assumes "\<And>x s. length (w_ops (snd (f x s))) \<le> Suc (length (w_ops s))"
  shows "length (w_ops (snd (for_io f xs s))) \<le> length (w_ops s) + length xs"
proof (induction xs arbitrary: s)
  case Nil
  then show ?case by (simp add: io_simps)
next
  case (Cons x xs)
  obtain r t where f: "f x s = (r, t)" by (cases "f x s")
  have "length (w_ops t) \<le> Suc (length (w_ops s))" using assms [of x s] f by simp
  with Cons [of t] f show ?case by (cases r) (simp_all add: io_simps)
qed

lemma cleanup_length:
  "length (w_ops (snd (cleanupRazorpayWorkspaceSubscriptions E ws cu keep pend s))) \<le> length (w_ops s) + 10"
proof -
  have list: "w_ops (snd (listSubscriptions E cu n k s)) = w_ops s" for n k
    by (simp add: listSubscriptions_def returned_promise_state)
  have "length (w_ops (snd (for_io (queue_duplicate E ws keep) (take 10 xs) u))) \<le> length (w_ops u) + 10"
    for xs u
  proof -
    have "length (take 10 xs) \<le> 10" by simp
    with for_io_length [of "queue_duplicate E ws keep" "take 10 xs" u, OF queue_duplicate_length]
    show ?thesis by linarith
  qed
  then show ?thesis
    using list [of "Some 100" None]
    by (auto simp: cleanupRazorpayWorkspaceSubscriptions_def catch_io_def bind_io_def ret_def
        split: prod.splits sum.splits) (metis snd_conv)+
qed

lemma adds_cleanup:
  "keeps (adds_cancels ws (\<lambda>i. i \<noteq> keep \<and> pend \<noteq> Some i))
     (cleanupRazorpayWorkspaceSubscriptions E ws cu keep pend)"
proof -
  have service: "keeps (adds_cancels ws A) (listSubscriptions E cu n k)" for A n k
    unfolding listSubscriptions_def
    by (rule keepsI) (simp add: returned_promise_state adds_same)
  have "keeps (adds_cancels ws (\<lambda>i. i \<noteq> keep \<and> pend \<noteq> Some i)) (queue_duplicate E ws keep dup)"
    if "dup \<in> set (take 10 (duplicate_subscriptions ws cu keep pend items))" for dup items
  proof -
    have "is_duplicate ws cu keep pend dup"
      using in_set_takeD [OF that] by (simp add: duplicate_subscriptions_def)
    then obtain i where "rs_id dup = Some i" "i \<noteq> keep" "pend \<noteq> Some i"
      by (auto simp: is_duplicate_def elim!: js_truthyE)
    then show ?thesis by (intro adds_queue_duplicate [of dup i]) simp_all
  qed
  then show ?thesis
    unfolding cleanupRazorpayWorkspaceSubscriptions_def
    by (intro dups.r_intros service keeps_for_in [OF dups.step_order_axioms]) auto
qed


section \<open>Properties\<close>

text \<open>
  C15: The ten-minute job is total and safe: whatever the provider answers, no exception escapes
  it, the operation table stays well-formed with every earlier row still there and its
  identifying columns unchanged, the subscription table keeps its unique keys, and payments,
  invoices, usage counters and checkout locks are untouched.
\<close>

theorem reconcile_job_total:
  assumes "fresh_ids E" and "ops_ok s"
  shows "\<exists>t. reconcileRazorpayBillingState E s = (Inr (), t) \<and> ops_ok t
           \<and> (subs_ok s \<longrightarrow> subs_ok t) \<and> ops_grow s t \<and> books_same s t"
proof -
  let ?sub = "\<lambda>sub. catch_io (reconcileRazorpaySubscription E sub) (\<lambda>_. ret ())"
  have ops: "fst (for_io (reconcile_operation E) xs s) = Inr ()" for xs
    using assms keepsD [OF evolve.c_operation] reconcile_operation_returns
    by (intro for_io_returns [of ops_ok]) (auto simp: evolves_def)
  have subs: "fst (for_io ?sub xs u) = Inr ()" for xs u
    by (rule for_io_returns [of "\<lambda>_. True"]) (auto simp: io_simps split: prod.split sum.split)
  let ?wide = "env_minutes E (env_now E s) mod RAZORPAY_WIDE_RECONCILE_INTERVAL_MINUTES = 0"
  obtain u where u: "for_io (reconcile_operation E) (due_operations (env_now E s) (w_ops s)) s = (Inr (), u)"
    using ops by (metis prod.collapse)
  obtain t where "for_io ?sub (subscriptions_to_reconcile ?wide (w_subs u)) u = (Inr (), t)"
    using subs by (metis prod.collapse)
  with u have t: "reconcileRazorpayBillingState E s = (Inr (), t)"
    by (simp add: reconcileRazorpayBillingState_def seq_io_def bind_io_def clock_def gets_def Let_def)
  from keeps_result [OF evolve.c_job t] keeps_result [OF books.c_job t] t assms show ?thesis
    by (auto simp: evolves_def)
qed

theorem reconcile_job_witness:
  "\<exists>t. reconcileRazorpayBillingState sample_env sample_world = (Inr (), t) \<and> ops_ok t"
  using reconcile_job_total [OF fresh_sample ops_ok_sample] by blast

text \<open>
  C25: A claimed operation is always released: processing it never throws, and afterwards its row
  holds no lock, also when a provider call failed in the middle.
\<close>

theorem claimed_operation_released:
  assumes "ops_ok s" and "claimRazorpaySubscriptionOperation E oper s = (Inr (Some c), t)"
  shows "\<exists>u. reconcile_operation E oper s = (Inr (), u)
           \<and> (\<forall>r \<in> set (w_ops u). op_id r = op_id oper \<longrightarrow> op_lockExpiresAt r = None)"
  using guarded_body [OF assms] assms(2) by (simp add: reconcile_operation_def bind_io_def)

theorem claimed_operation_witness:
  "\<exists>u. reconcile_operation sample_env sample_op sample_world = (Inr (), u)
     \<and> (\<forall>r \<in> set (w_ops u). op_id r = op_id sample_op \<longrightarrow> op_lockExpiresAt r = None)"
proof -
  obtain c t where "claimRazorpaySubscriptionOperation sample_env sample_op sample_world = (Inr (Some c), t)"
    by (simp add: claimRazorpaySubscriptionOperation_def io_simps clock_def op_updateMany_def
        op_find_def sample_defs sample_env_def lock_free_def Let_def)
  from claimed_operation_released [OF ops_ok_sample this] show ?thesis .
qed



text \<open>
  C18: Processing an operation never cancels a subscription other than the operation's old one;
  for a row of a well-formed table this is never the new subscription.
\<close>

theorem cancel_targets_old:
  assumes "wf_op oper"
  shows "cancels_only (op_oldProviderSubId oper) s (snd (processRazorpaySubscriptionOperation E oper s))
         \<and> op_oldProviderSubId oper \<noteq> op_newProviderSubId oper"
proof
  show "cancels_only (op_oldProviderSubId oper) s (snd (processRazorpaySubscriptionOperation E oper s))"
    by (rule keepsD [OF aimed.c_process]) (auto elim: js_truthyE)
  show "op_oldProviderSubId oper \<noteq> op_newProviderSubId oper"
    using assms by (cases "op_oldProviderSubId oper") (auto simp: wf_op_def split: operation_type.splits)
qed

theorem cancel_targets_old_witness:
  "cancels_only (Some ''a'') sample_world
     (snd (processRazorpaySubscriptionOperation sample_env (sample_op\<lparr>op_status := Pending\<rparr>) sample_world))"
proof -
  have "wf_op (sample_op\<lparr>op_status := Pending\<rparr>)"
    by (simp add: sample_op_def wf_op_def buildRazorpayReplacementOperationKey_def)
  from cancel_targets_old [OF this, of sample_world sample_env] show ?thesis
    by (simp add: sample_op_def)
qed

text \<open>
  C36: The clean-up of duplicates only ever schedules, and never on the subscription that is
  kept or on the one that is pending: every row it adds is a cancel operation of the workspace
  on some other subscription, there are at most ten of them, and no cancel call is made.
\<close>

theorem duplicate_cleanup_safe:
  "adds_cancels ws (\<lambda>i. i \<noteq> keep \<and> pend \<noteq> Some i) s
     (snd (cleanupRazorpayWorkspaceSubscriptions E ws customerId keep pend s))
   \<and> no_cancel_calls s (snd (cleanupRazorpayWorkspaceSubscriptions E ws customerId keep pend s))
   \<and> length (w_ops (snd (cleanupRazorpayWorkspaceSubscriptions E ws customerId keep pend s)))
       \<le> length (w_ops s) + 10"
  using keepsD [OF adds_cleanup] keepsD [OF quiet.f_cleanup] cleanup_length by simp


definition sample_sub :: subscription where
  "sample_sub = \<lparr>sub_id = ''s1'', sub_workspaceId = ''w'', sub_plan = ''growth'', sub_status = Active,
     sub_provider = Some Razorpay, sub_providerCustomerId = Some ''c'', sub_providerSubId = Some ''b'',
     sub_trialStartAt = None, sub_trialEndAt = None, sub_currentPeriodStart = Some 0,
     sub_currentPeriodEnd = Some 2000, sub_pendingPlan = None, sub_pendingEffectiveAt = None,
     sub_pendingProviderSubId = None, sub_quantity = 1, sub_lastRefundAmount = Some 500,
     sub_lastRefundStatus = Some ''pending'', sub_lastRefundAt = None, sub_cancelAtPeriodEnd = False,
     sub_createdAt = 0\<rparr>"

definition sample_rp_payment :: rp_payment where
  "sample_rp_payment = \<lparr>pe_id = Some ''pay_1'', pe_subscription_id = Some ''a'', pe_amount = Some 999,
     pe_currency = Some ''INR'', pe_notes = None, pe_invoice_id = None, pe_order_id = None,
     pe_created_at = None, pe_description = None, pe_error_description = None, pe_status = None\<rparr>"

definition sample_payment :: payment where
  "sample_payment = \<lparr>pay_id = ''p1'', pay_workspaceId = ''w'', pay_subscriptionId = Some ''s1'',
     pay_amount = 999, pay_currency = ''INR'', pay_status = PayPaid, pay_provider = Razorpay,
     pay_providerPaymentId = Some ''pay_1'', pay_providerInvoiceId = None,
     pay_metadata = Some (MetaPayment sample_rp_payment), pay_paidAt = Some 5,
     pay_type = TypeSubscription, pay_description = None, pay_createdAt = 5\<rparr>"

definition refund_env :: env where
  "refund_env = sample_env\<lparr>sdk_refund := (\<lambda>s i a. Resolved \<lparr>re_status = Some ''processed''\<rparr>)\<rparr>"

definition refund_world :: world where
  "refund_world = empty_world\<lparr>w_subs := [sample_sub], w_pays := [sample_payment]\<rparr>"


text \<open>
  C19: Activating a replacement is atomic on the subscription row: the row switches to the new
  provider subscription, becomes active, drops everything pending and keeps every other row; the
  old subscription, when there is a different one, is handed to the clean-up queue exactly once,
  and no provider call is made.
\<close>

theorem activation_switches:
  assumes "subs_ok s" and "sub \<in> set (w_subs s)"
    and "\<forall>r \<in> set (w_subs s). sub_id r \<noteq> sub_id sub \<longrightarrow> sub_providerSubId r \<noteq> Some new"
    and "activateRazorpayReplacement E sub rep new old plan s = (res, t)"
  shows "\<exists>row. res = Inr row
    \<and> w_subs t = upd_where (by_sub_id (sub_id sub)) (\<lambda>_. row) (w_subs s)
    \<and> sub_workspaceId row = sub_workspaceId sub
    \<and> sub_providerSubId row = Some new \<and> sub_status row = Active \<and> sub_pendingPlan row = None
    \<and> sub_pendingEffectiveAt row = None \<and> sub_pendingProviderSubId row = None
    \<and> w_calls t = w_calls s \<and> w_ops t = w_ops s
    \<and> map (\<lambda>q. (ct_workspaceId q, ct_replacedProviderSubId q, ct_replacementProviderSubId q)) (w_queued t) =
        map (\<lambda>q. (ct_workspaceId q, ct_replacedProviderSubId q, ct_replacementProviderSubId q)) (w_queued s)
        @ (if js_truthy old \<and> old \<noteq> Some new then [(sub_workspaceId sub, the old, new)] else [])"
proof -
  have upd: "sub_update (by_sub_id (sub_id sub)) f s =
      (Inr (f sub), s\<lparr>w_subs := upd_where (by_sub_id (sub_id sub)) (\<lambda>_. f sub) (w_subs s)\<rparr>)"
    if "sub_id (f sub) = sub_id sub" "sub_providerSubId (f sub) = Some new" for f
    using that sub_update_move [OF assms(1,2), of f] assms(3) by simp
  show ?thesis
    using assms(4)
    by (auto simp: activateRazorpayReplacement_def io_simps upd queueRazorpayReplacementCleanup_def Let_def
        split: if_splits)
qed

definition sample_rp_sub :: "string \<Rightarrow> string \<Rightarrow> rp_subscription" where
  "sample_rp_sub i st = \<lparr>rs_id = Some i, rs_status = Some st, rs_customer_id = Some ''c'',
     rs_notes_workspaceId = Some ''w'', rs_notes_plan = Some ''pro'', rs_current_start = Some 1,
     rs_current_end = Some 2, rs_charge_at = None, rs_plan_id = None, rs_short_url = None,
     rs_created_at = Some 1\<rparr>"

theorem activation_switches_witness:
  "\<exists>row t. activateRazorpayReplacement sample_env sample_sub (sample_rp_sub ''n'' ''active'') ''n'' (Some ''b'')
       (Some ''pro'') refund_world = (Inr row, t) \<and> sub_providerSubId row = Some ''n''
     \<and> length (w_queued t) = 1"
proof -
  have ok: "subs_ok refund_world" "sample_sub \<in> set (w_subs refund_world)"
    "\<forall>r \<in> set (w_subs refund_world). sub_id r \<noteq> sub_id sample_sub \<longrightarrow> sub_providerSubId r \<noteq> Some ''n''"
    by (simp_all add: subs_ok_def refund_world_def sample_sub_def empty_world_def)
  obtain res t where t: "activateRazorpayReplacement sample_env sample_sub (sample_rp_sub ''n'' ''active'') ''n''
      (Some ''b'') (Some ''pro'') refund_world = (res, t)" by fastforce
  have "length (map g xs) = length xs" for g :: "cleanup_task \<Rightarrow> string \<times> string \<times> string" and xs
    by simp
  with activation_switches [OF ok t] t show ?thesis
    by (auto simp: refund_world_def empty_world_def dest: arg_cong [where f = length])
qed

section \<open>Verification of a cancellation\<close>

definition same_ops :: "world \<Rightarrow> world \<Rightarrow> bool" where
  "same_ops s t \<longleftrightarrow> w_ops t = w_ops s"

interpretation ops_fixed: step_order same_ops
  by unfold_locales (simp_all add: same_ops_def)

lemma refund_same_ops: "keeps same_ops (refundReplacementCredit E sub x y)"
proof -
  have "keeps same_ops (refundPayment E i a nt)" for i a nt
    unfolding refundPayment_def by (rule keepsI) (simp add: returned_promise_state same_ops_def)
  moreover have "keeps same_ops (sub_update P f)" for P f
    by (rule keepsI) (simp add: sub_update_def same_ops_def split: option.split)
  ultimately show ?thesis
    unfolding refundReplacementCredit_def findLatestRazorpayPaymentForProviderSubscription_def
      issueRefund_def clock_def Let_def
    by (intro ops_fixed.r_intros)
qed

lemma fetch_status_run:
  "fetchRazorpaySubscriptionStatus E i s =
     (case sdk_call (CallFetchSubscription i) (\<lambda>u. sdk_fetch_subscription E u i) s of
        (Resolved e, t) \<Rightarrow> (Inr (e, lower_status (rs_status e) ''unknown''), t)
      | (Rejected e, t) \<Rightarrow> (Inl (SdkException e), t)
      | (Threw e, t) \<Rightarrow> (Inl (InternalServerErrorException ''Failed to fetch Razorpay subscription''), t))"
  by (simp add: fetchRazorpaySubscriptionStatus_def fetchSubscription_def returned_promise_def
      bind_io_def ret_def split: prod.split sdk.split)

lemma row_of_upd:
  assumes "ops_ok s" and "oper \<in> set (w_ops s)" and "row \<in> set (upd_where P f (w_ops s))"
    and "\<And>r. op_id (f r) = op_id r" and "op_id row = op_id oper"
  shows "row = (if P oper then f oper else oper)"
proof -
  from assms(3) obtain x where x: "x \<in> set (w_ops s)" "row = (if P x then f x else x)"
    by (auto simp: set_upd_where)
  then have "op_id x = op_id oper" using assms(4,5) by (auto split: if_splits)
  with x same_row(1) [OF assms(1,2) x(1)] show ?thesis by simp
qed

lemma verify_ops:
  assumes "js_truthy (op_oldProviderSubId oper)" and "js_truthy (op_newProviderSubId oper)"
    and "u = s\<lparr>w_calls := w_calls s @ [CallFetchSubscription (the (op_oldProviderSubId oper))]\<rparr>"
  shows "w_ops (snd (verifyRazorpayReplacementCancellation E oper sub s)) =
    (case sdk_fetch_subscription E u (the (op_oldProviderSubId oper)) of
       Resolved e \<Rightarrow>
         if isTerminalRazorpaySubscriptionStatus (lower_status (rs_status e) ''unknown'')
         then w_ops (snd (markRazorpayReplacementOperationCompleted E (op_workspaceId oper)
                (the (op_oldProviderSubId oper)) (the (op_newProviderSubId oper)) u))
         else w_ops (snd (requestedOperation E oper
                (''Cancel requested; old Razorpay subscription still ''
                   @ lower_status (rs_status e) ''unknown'') u))
     | _ \<Rightarrow> w_ops s)"
proof -
  let ?mark = "markRazorpayReplacementOperationCompleted E (op_workspaceId oper)
                (the (op_oldProviderSubId oper)) (the (op_newProviderSubId oper))"
  have "w_ops (snd (seq_io ?mark (refundReplacementCredit E sub x y) u)) = w_ops (snd (?mark u))" for x y
    using keepsD [OF refund_same_ops, of _ E sub x y]
    by (auto simp: seq_io_def bind_io_def same_ops_def split: prod.split sum.split)
  with assms show ?thesis
    by (simp add: verifyRazorpayReplacementCancellation_def bind_io_def fetch_status_run sdk_call_def
        Let_def split: sdk.split)
qed

text \<open>
  Verification of a requested cancellation: when the provider reports the old subscription
  as ended the operation is completed; when it reports any other status the operation stays
  requested with one more attempt counted and the next check put off by the verification
  schedule; when the provider cannot be reached no operation row changes.
\<close>

theorem verification_outcome:
  assumes "ops_ok s" and "oper \<in> set (w_ops s)" and "op_type oper = ReplaceSubscription"
    and "\<not> isTerminalRazorpayOperationStatus (op_status oper)"
    and "u = s\<lparr>w_calls := w_calls s @ [CallFetchSubscription (the (op_oldProviderSubId oper))]\<rparr>"
    and "reply = sdk_fetch_subscription E u (the (op_oldProviderSubId oper))"
    and "row \<in> set (w_ops (snd (verifyRazorpayReplacementCancellation E oper sub s)))"
    and "op_id row = op_id oper"
  shows "case reply of
     Resolved e \<Rightarrow>
       if isTerminalRazorpaySubscriptionStatus (lower_status (rs_status e) ''unknown'')
       then op_status row = Completed \<and> op_lastError row = None
       else op_status row = CancelRequested \<and> op_retryCount row = op_retryCount oper + 1
         \<and> op_nextRetryAt row =
             env_now E u + getRazorpayCancellationVerificationDelayMs (op_retryCount oper + 1)
   | _ \<Rightarrow> row \<in> set (w_ops s)"
proof -
  have wf: "wf_op oper" using assms(1,2) by (simp add: ops_ok_def list_all_iff)
  then have ids: "js_truthy (op_oldProviderSubId oper)" "js_truthy (op_newProviderSubId oper)"
    "replacement_of (op_workspaceId oper) (the (op_oldProviderSubId oper))
       (the (op_newProviderSubId oper)) oper"
    using assms(3) by (auto simp: wf_op_def replacement_of_def elim!: js_truthyE)
  have u: "ops_ok u" "oper \<in> set (w_ops u)" using assms(1,2,5) by (simp_all add: ops_ok_def)
  note rows = assms(7) [unfolded verify_ops [OF ids(1,2) assms(5)], folded assms(6)]
  show ?thesis
  proof (cases reply)
    case (Resolved e)
    show ?thesis
    proof (cases "isTerminalRazorpaySubscriptionStatus (lower_status (rs_status e) ''unknown'')")
      case True
      with rows Resolved ids(3) assms(4) show ?thesis
        by (auto simp: markRazorpayReplacementOperationCompleted_def io_simps clock_def op_updateMany_def
            dest!: row_of_upd [OF u _ _ assms(8)])
    next
      case False
      with rows Resolved op_update_row [OF u] show ?thesis
        by (auto simp: requestedOperation_def io_simps clock_def with_key_def Let_def
            dest!: row_of_upd [OF u _ _ assms(8)])
    qed
  qed (use rows in simp_all)
qed

theorem verification_outcome_witness:
  "\<exists>row. row \<in> set (w_ops (snd (verifyRazorpayReplacementCancellation
       (sample_env\<lparr>sdk_fetch_subscription := (\<lambda>s i. Resolved (sample_rp_sub i ''cancelled''))\<rparr>)
       sample_op sample_sub sample_world)))
     \<and> op_id row = ''o1'' \<and> op_status row = Completed"
proof -
  let ?E = "sample_env\<lparr>sdk_fetch_subscription := (\<lambda>s i. Resolved (sample_rp_sub i ''cancelled''))\<rparr>"
  let ?t = "snd (verifyRazorpayReplacementCancellation ?E sample_op sample_sub sample_world)"
  have op: "sample_op \<in> set (w_ops sample_world)" "op_type sample_op = ReplaceSubscription"
    "\<not> isTerminalRazorpayOperationStatus (op_status sample_op)" "op_id sample_op = ''o1''"
    by (simp_all add: sample_defs status_defs)
  have "ops_grow sample_world ?t" using keepsD [OF evolve.f_verify] by (simp add: evolves_def)
  from ops_grow_row [OF this op(1)] obtain row
    where row: "row \<in> set (w_ops ?t)" "op_id row = op_id sample_op" by (auto simp: op_ident_def)
  have "isTerminalRazorpaySubscriptionStatus (lower_status (Some ''cancelled'') ''unknown'')"
    by code_simp
  with verification_outcome [OF ops_ok_sample op(1-3) refl refl row] op(4) row show ?thesis
    by (auto simp: sample_rp_sub_def)
qed

end
