(* ===== verification/Stripe_Service.thy ===== *)
theory Stripe_Service
  imports Razorpay_Service
begin

text \<open>
  \<^verbatim>\<open>src/src/modules/billing/providers/stripe.service.ts\<close>: the wrapper around the Stripe
  SDK. Only \<^verbatim>\<open>finalizeInvoice\<close> handles an error; everything else passes it on.
\<close>

definition stripe_createCustomer :: "env \<Rightarrow> string \<Rightarrow> string \<Rightarrow> note_list \<Rightarrow> string bill" where
  "stripe_createCustomer E email name metadata =
     awaited (CallStripeCreateCustomer email name metadata) (\<lambda>s. sdk_stripe_customer E s email)"

definition stripe_createCheckoutSession ::
    "env \<Rightarrow> string \<Rightarrow> string \<Rightarrow> string \<Rightarrow> string \<Rightarrow> int option \<Rightarrow> note_list \<Rightarrow> checkout_session bill" where
  "stripe_createCheckoutSession E customerId priceId successUrl cancelUrl trialDays metadata =
     (let payload = \<lparr>co_customer = customerId, co_price = priceId, co_success_url = successUrl,
                     co_cancel_url = cancelUrl, co_trial_period_days = trialDays, co_metadata = metadata\<rparr>
      in awaited (CallStripeCheckout payload) (\<lambda>s. sdk_stripe_checkout E s payload))"

text \<open>\<open>construct\<close> is the SDK's \<^verbatim>\<open>webhooks.constructEvent\<close> under the configured secret.\<close>

definition stripe_verifyWebhookSignature ::
    "(string \<Rightarrow> string \<Rightarrow> 'e option) \<Rightarrow> string \<Rightarrow> string \<Rightarrow> 'e bill" where
  "stripe_verifyWebhookSignature construct rawBody signature =
     (case construct rawBody signature of
        Some ev \<Rightarrow> ret ev
      | None \<Rightarrow> throw (InternalServerErrorException ''Invalid Stripe webhook signature''))"

definition stripe_createOneTimeInvoice ::
    "env \<Rightarrow> string option \<Rightarrow> int \<Rightarrow> string \<Rightarrow> string \<Rightarrow> stripe_invoice bill" where
  "stripe_createOneTimeInvoice E customerId amount currency description =
     seq_io (awaited (CallStripeInvoiceItem customerId amount currency description)
               (\<lambda>s. sdk_stripe_item E s customerId amount))
       (bind_io (awaited (CallStripeCreateInvoice customerId) (\<lambda>s. sdk_stripe_invoice E s customerId))
          (\<lambda>i. awaited (CallStripeFinalizeInvoice i) (\<lambda>s. sdk_stripe_finalize E s i)))"

definition stripe_finalizeInvoice :: "env \<Rightarrow> string \<Rightarrow> stripe_invoice bill" where
  "stripe_finalizeInvoice E i =
     catch_io (awaited (CallStripeFinalizeInvoice i) (\<lambda>s. sdk_stripe_finalize E s i))
       (\<lambda>ex. case ex of
          SdkException e \<Rightarrow>
            if se_code e = Some ''invoice_already_finalized'' \<or> se_statusCode e = Some 400
            then awaited (CallStripeRetrieveInvoice i) (\<lambda>s. sdk_stripe_retrieve E s i)
            else throw (InternalServerErrorException ''Failed to finalize invoice'')
        | _ \<Rightarrow> throw (InternalServerErrorException ''Failed to finalize invoice''))"

definition stripe_listInvoices :: "env \<Rightarrow> string option \<Rightarrow> stripe_invoice list bill" where
  "stripe_listInvoices E customerId =
     awaited (CallStripeListInvoices customerId 50) (\<lambda>s. sdk_stripe_list E s customerId 50)"

lemma only_calls_finalize: "keeps only_calls (stripe_finalizeInvoice E i)"
  unfolding stripe_finalizeInvoice_def
  by (intro calls_only.r_intros only_calls_sdk)
     (auto split: exn.splits intro!: calls_only.r_intros only_calls_sdk)

lemma only_calls_stripe:
  "keeps only_calls (stripe_createCustomer E m n md)"
  "keeps only_calls (stripe_createCheckoutSession E c pr su ca td md)"
  "keeps only_calls (stripe_createOneTimeInvoice E cu a cur d)"
  "keeps only_calls (stripe_listInvoices E cu)"
  unfolding stripe_createCustomer_def stripe_createCheckoutSession_def
    stripe_createOneTimeInvoice_def stripe_listInvoices_def Let_def
  by (intro calls_only.r_intros only_calls_sdk)+

lemmas stripe_calls = only_calls_finalize only_calls_stripe

end
