(* ===== verification/Billing_Payments.thy ===== *)
theory Billing_Payments
  imports Billing_Reconcile Stripe_Service
begin

text \<open>
  Payments and invoices of \<^verbatim>\<open>billing.service.ts\<close>: the payment upsert that every webhook
  goes through, the settlement of an order, and the copies of the providers' invoices. The
  payment upsert reads first and writes afterwards; its writing half is a definition of its own,
  so that the writes of another delivery of the same event can be placed between the two.
\<close>

section \<open>Payments\<close>

record payment_data =
  pd_workspaceId :: string
  pd_subscriptionId :: "string option"
  pd_amount :: "int option"
  pd_currency :: string
  pd_status :: payment_status
  pd_provider :: billing_provider
  pd_providerPaymentId :: "string option"
  pd_providerInvoiceId :: "string option"
  pd_paidAt :: "int option"
  pd_metadata :: "metadata option"
  pd_type :: "payment_type option"
  pd_description :: "string option"

text \<open>The columns written by an update; a missing \<^verbatim>\<open>metadata\<close> leaves the column as it is.\<close>

definition payment_columns :: "payment_data \<Rightarrow> int \<Rightarrow> payment \<Rightarrow> payment" where
  "payment_columns d amount r =
     r\<lparr>pay_workspaceId := pd_workspaceId d, pay_subscriptionId := pd_subscriptionId d,
       pay_amount := amount, pay_currency := pd_currency d, pay_status := pd_status d,
       pay_provider := pd_provider d, pay_providerPaymentId := pd_providerPaymentId d,
       pay_providerInvoiceId := pd_providerInvoiceId d, pay_paidAt := pd_paidAt d,
       pay_metadata := js_nullish (pd_metadata d) (pay_metadata r),
       pay_type := js_default (pd_type d) TypeSubscription, pay_description := pd_description d\<rparr>"

definition payment_row :: "payment_data \<Rightarrow> int \<Rightarrow> payment" where
  "payment_row d amount =
     \<lparr>pay_id = [], pay_workspaceId = pd_workspaceId d, pay_subscriptionId = pd_subscriptionId d,
      pay_amount = amount, pay_currency = pd_currency d, pay_status = pd_status d,
      pay_provider = pd_provider d, pay_providerPaymentId = pd_providerPaymentId d,
      pay_providerInvoiceId = pd_providerInvoiceId d, pay_metadata = pd_metadata d,
      pay_paidAt = pd_paidAt d, pay_type = js_default (pd_type d) TypeSubscription,
      pay_description = pd_description d, pay_createdAt = 0\<rparr>"

definition by_payment_id :: "billing_provider \<Rightarrow> string option \<Rightarrow> payment \<Rightarrow> bool" where
  "by_payment_id prov i r = (pay_provider r = prov \<and> pay_providerPaymentId r = i)"

definition payment_write :: "env \<Rightarrow> payment_data \<Rightarrow> payment option \<Rightarrow> payment bill" where
  "payment_write E d existing =
     (case pd_amount d of
        None \<Rightarrow> throw PrismaValidation
      | Some amount \<Rightarrow>
          (case existing of
             Some old \<Rightarrow> pay_update (pay_id old) (payment_columns d amount)
           | None \<Rightarrow>
               catch_io (pay_create E (payment_row d amount))
                 (\<lambda>ex.
                    if js_truthy (pd_providerPaymentId d) \<and> ex = PrismaP2002 then
                      bind_io (pay_find (by_payment_id (pd_provider d) (pd_providerPaymentId d)))
                        (\<lambda>found. case found of
                           Some cur \<Rightarrow> pay_update (pay_id cur) (payment_columns d amount)
                         | None \<Rightarrow> throw ex)
                    else throw ex)))"

definition upsertProviderPayment :: "env \<Rightarrow> payment_data \<Rightarrow> payment bill" where
  "upsertProviderPayment E d =
     (if js_truthy (pd_providerPaymentId d) then
        bind_io (pay_find (by_payment_id (pd_provider d) (pd_providerPaymentId d))) (payment_write E d)
      else payment_write E d None)"

section \<open>Settlement of an order\<close>

definition no_notes :: rp_notes where
  "no_notes = \<lparr>n_paymentRecordId = None, n_invoiceDbId = None, n_providerInvoiceId = None,
     n_workspaceId = None, n_plan = None\<rparr>"

text \<open>\<^verbatim>\<open>{...payment.notes, ...order.notes}\<close>: a key of the order wins.\<close>

definition merge_notes :: "rp_payment option \<Rightarrow> rp_order option \<Rightarrow> rp_notes" where
  "merge_notes payment order =
     (let p = js_default (Option.bind payment pe_notes) no_notes;
          q = js_default (Option.bind order oe_notes) no_notes
      in \<lparr>n_paymentRecordId = js_nullish (n_paymentRecordId q) (n_paymentRecordId p),
          n_invoiceDbId = js_nullish (n_invoiceDbId q) (n_invoiceDbId p),
          n_providerInvoiceId = js_nullish (n_providerInvoiceId q) (n_providerInvoiceId p),
          n_workspaceId = js_nullish (n_workspaceId q) (n_workspaceId p),
          n_plan = js_nullish (n_plan q) (n_plan p)\<rparr>)"

text \<open>\<^verbatim>\<open>updateMany\<close> on a primary key: nothing happens when there is no such row.\<close>

definition pay_updateMany_id :: "string \<Rightarrow> (payment \<Rightarrow> payment) \<Rightarrow> unit bill" where
  "pay_updateMany_id i f =
     bind_io (pay_find (\<lambda>r. pay_id r = i))
       (\<lambda>found. case found of
          None \<Rightarrow> ret ()
        | Some _ \<Rightarrow> bind_io (pay_update i f) (\<lambda>_. ret ()))"

record settlement =
  sm_notes :: rp_notes
  sm_providerInvoiceId :: "string option"
  sm_paidAt :: int
  sm_amountPaid :: int
  sm_metadata :: metadata

definition settlement_of :: "int \<Rightarrow> rp_order option \<Rightarrow> rp_payment option \<Rightarrow> settlement" where
  "settlement_of now order payment =
     (let notes = merge_notes payment order
      in \<lparr>sm_notes = notes,
          sm_providerInvoiceId =
            js_nullish (n_providerInvoiceId notes) (Option.bind payment pe_invoice_id),
          sm_paidAt =
            (let c = js_num_or (Option.bind payment pe_created_at) 0 in if c \<noteq> 0 then c * 1000 else now),
          sm_amountPaid =
            js_default (js_nullish (Option.bind payment pe_amount)
              (js_nullish (Option.bind order oe_amount_paid) (Option.bind order oe_amount))) 0,
          sm_metadata = MetaOrderPayment order payment\<rparr>)"

text \<open>The invoice a settlement belongs to, by row id or by provider id within a workspace.\<close>

definition settlement_invoice :: "settlement \<Rightarrow> invoice \<Rightarrow> bool" where
  "settlement_invoice sm r =
     ((if js_truthy (n_invoiceDbId (sm_notes sm)) then Some (inv_id r) = n_invoiceDbId (sm_notes sm)
       else Some (inv_providerInvoiceId r) = sm_providerInvoiceId sm)
      \<and> (\<not> js_truthy (n_workspaceId (sm_notes sm)) \<or> Some (inv_workspaceId r) = n_workspaceId (sm_notes sm)))"

text \<open>A payment that no row knows yet.\<close>

definition settle_new_payment ::
    "env \<Rightarrow> settlement \<Rightarrow> rp_order option \<Rightarrow> rp_payment \<Rightarrow> unit bill" where
  "settle_new_payment E sm order payment =
     bind_io
       (if js_truthy (n_invoiceDbId (sm_notes sm)) \<or> js_truthy (sm_providerInvoiceId sm)
        then inv_find (settlement_invoice sm) else ret None)
       (\<lambda>invoice.
          if js_truthy (n_workspaceId (sm_notes sm)) then
            bind_io (upsertProviderPayment E
              \<lparr>pd_workspaceId = the (n_workspaceId (sm_notes sm)),
               pd_subscriptionId = Option.bind invoice inv_subscriptionId,
               pd_amount = Some (sm_amountPaid sm),
               pd_currency = js_upper (js_or_str (js_or (pe_currency payment) (Option.bind order oe_currency)) ''INR''),
               pd_status = PayPaid, pd_provider = Razorpay,
               pd_providerPaymentId = pe_id payment,
               pd_providerInvoiceId = sm_providerInvoiceId sm,
               pd_paidAt = Some (sm_paidAt sm), pd_metadata = Some (sm_metadata sm),
               pd_type = map_option inv_type invoice,
               pd_description =
                 Some (js_default (js_nullish (Option.bind invoice inv_description) (pe_description payment))
                        ''Invoice payment'')\<rparr>) (\<lambda>_. ret ())
          else ret ())"

definition settle_payment ::
    "env \<Rightarrow> settlement \<Rightarrow> rp_order option \<Rightarrow> rp_payment option \<Rightarrow> unit bill" where
  "settle_payment E sm order payment =
     (if js_truthy (n_paymentRecordId (sm_notes sm)) then
        pay_updateMany_id (the (n_paymentRecordId (sm_notes sm)))
          (\<lambda>r. r\<lparr>pay_status := PayPaid,
                pay_providerPaymentId := js_nullish (Option.bind payment pe_id) (pay_providerPaymentId r),
                pay_paidAt := Some (sm_paidAt sm), pay_metadata := Some (sm_metadata sm)\<rparr>)
      else if js_truthy (Option.bind payment pe_id) then
        bind_io (pay_find (by_payment_id Razorpay (Option.bind payment pe_id)))
          (\<lambda>existing.
             bind_io
               (if existing = None \<and> js_truthy (Option.bind order oe_id)
                then pay_find (\<lambda>r. pay_provider r = Razorpay \<and> pay_providerInvoiceId r = Option.bind order oe_id
                                 \<and> pay_status r = PayPending)
                else ret None)
               (\<lambda>pendingOrderPayment. case pendingOrderPayment of
                  Some row \<Rightarrow>
                    bind_io (pay_update (pay_id row)
                      (\<lambda>r. r\<lparr>pay_status := PayPaid,
                            pay_providerPaymentId := Option.bind payment pe_id,
                            pay_providerInvoiceId :=
                              js_nullish (sm_providerInvoiceId sm) (pay_providerInvoiceId r),
                            pay_paidAt := Some (sm_paidAt sm), pay_metadata := Some (sm_metadata sm)\<rparr>))
                     (\<lambda>_. ret ())
                | None \<Rightarrow>
                    if existing = None then settle_new_payment E sm order (the payment) else ret ()))
      else ret ())"

text \<open>The update of the invoice; without any reference to one nothing is done.\<close>

definition settle_invoice :: "settlement \<Rightarrow> rp_payment option \<Rightarrow> unit bill" where
  "settle_invoice sm payment =
     (let notes = sm_notes sm;
          mark = (\<lambda>r. r\<lparr>inv_status := InvPaid, inv_amountPaid := Some (sm_amountPaid sm),
                       inv_amountDue := Some 0, inv_paidAt := Some (sm_paidAt sm),
                       inv_providerPaymentId :=
                         js_nullish (Option.bind payment pe_id) (inv_providerPaymentId r),
                       inv_metadata := Some (sm_metadata sm)\<rparr>)
      in if js_truthy (n_invoiceDbId notes) then
           bind_io (inv_updateMany (\<lambda>r. Some (inv_id r) = n_invoiceDbId notes \<and> inv_status r \<noteq> InvPaid) mark)
             (\<lambda>_. ret ())
         else if js_truthy (sm_providerInvoiceId sm) then
           bind_io (inv_updateMany
               (\<lambda>r. Some (inv_providerInvoiceId r) = sm_providerInvoiceId sm
                  \<and> (\<not> js_truthy (n_workspaceId notes) \<or> Some (inv_workspaceId r) = n_workspaceId notes)
                  \<and> inv_status r \<noteq> InvPaid) mark)
             (\<lambda>_. ret ())
         else ret ())"

definition markRazorpayOrderInvoicePaid ::
    "env \<Rightarrow> rp_order option \<Rightarrow> rp_payment option \<Rightarrow> unit bill" where
  "markRazorpayOrderInvoicePaid E order payment =
     bind_io (clock E) (\<lambda>now.
       let sm = settlement_of now order payment
       in seq_io (settle_payment E sm order payment) (settle_invoice sm payment))"

section \<open>Invoices\<close>

definition mapRazorpayInvoiceStatus :: "string \<Rightarrow> invoice_status" where
  "mapRazorpayInvoiceStatus st =
     js_default (map_of [(''draft'', InvDraft), (''issued'', InvOpen), (''paid'', InvPaid),
       (''cancelled'', InvVoid), (''expired'', InvVoid)] st) InvOpen"

definition mapStripeInvoiceStatus :: "string \<Rightarrow> invoice_status" where
  "mapStripeInvoiceStatus st =
     js_default (map_of [(''draft'', InvDraft), (''open'', InvOpen), (''paid'', InvPaid),
       (''void'', InvVoid), (''uncollectible'', InvUncollectible)] st) InvOpen"

text \<open>\<^verbatim>\<open>x ? new Date(x * 1000) : null\<close>\<close>

definition unix_date :: "int option \<Rightarrow> int option" where
  "unix_date v = (if js_num_or v 0 \<noteq> 0 then map_option (\<lambda>n. n * 1000) v else None)"

definition upsertRazorpayInvoice :: "env \<Rightarrow> rp_invoice \<Rightarrow> string \<Rightarrow> string \<Rightarrow> unit bill" where
  "upsertRazorpayInvoice E iv subscriptionId workspaceId =
     (let status = mapRazorpayInvoiceStatus (ie_status iv);
          amount = js_default (js_nullish (ie_amount iv) (ie_line_amount iv)) 0;
          paid = js_default (ie_amount_paid iv) (if status = InvPaid then amount else 0);
          due = js_default (ie_amount_due iv) (if status \<noteq> InvPaid then amount else 0)
      in inv_upsert E (ie_id iv)
           (\<lambda>r. r\<lparr>inv_status := status, inv_amountPaid := Some paid, inv_amountDue := Some due,
                 inv_paidAt := unix_date (ie_paid_at iv), inv_invoiceUrl := ie_short_url iv,
                 inv_providerPaymentId := ie_payment_id iv, inv_metadata := Some (MetaRpInvoice iv)\<rparr>)
           \<lparr>inv_id = [], inv_workspaceId = workspaceId, inv_subscriptionId = Some subscriptionId,
            inv_provider = Razorpay, inv_providerInvoiceId = ie_id iv,
            inv_providerPaymentId = ie_payment_id iv,
            inv_type = (if ie_type iv = Some ''invoice'' then TypeSubscription else TypeAddon),
            inv_description = Some (js_default (ie_description iv) (''Invoice '' @ ie_id iv)),
            inv_amount = amount, inv_amountDue = Some due, inv_amountPaid = Some paid,
            inv_currency = js_upper (js_default (ie_currency iv) ''INR''), inv_status = status,
            inv_invoiceDate = unix_date (ie_date iv), inv_dueDate = unix_date (ie_due iv),
            inv_paidAt = unix_date (ie_paid_at iv), inv_periodStart = unix_date (ie_billing_start iv),
            inv_periodEnd = unix_date (ie_billing_end iv), inv_invoiceUrl = ie_short_url iv,
            inv_invoicePdf = None, inv_metadata = Some (MetaRpInvoice iv), inv_createdAt = 0\<rparr>)"

definition upsertStripeInvoice :: "env \<Rightarrow> stripe_invoice \<Rightarrow> string \<Rightarrow> string \<Rightarrow> unit bill" where
  "upsertStripeInvoice E iv workspaceId subscriptionId =
     (let status = mapStripeInvoiceStatus (si_status iv);
          amount = js_default (js_nullish (si_amount_due iv) (si_total iv)) 0;
          paid = js_default (si_amount_paid iv) 0;
          due = js_default (si_amount_due iv) 0
      in inv_upsert E (si_id iv)
           (\<lambda>r. r\<lparr>inv_status := status, inv_amountPaid := Some paid, inv_amountDue := Some due,
                 inv_paidAt := unix_date (si_paid_at iv), inv_invoiceUrl := si_hosted_invoice_url iv,
                 inv_invoicePdf := si_invoice_pdf iv, inv_providerPaymentId := si_payment_intent iv,
                 inv_metadata := Some (MetaStripeInvoice iv)\<rparr>)
           \<lparr>inv_id = [], inv_workspaceId = workspaceId, inv_subscriptionId = Some subscriptionId,
            inv_provider = Stripe, inv_providerInvoiceId = si_id iv,
            inv_providerPaymentId = si_payment_intent iv,
            inv_type = (if si_metadata_type iv = Some ''addon'' then TypeAddon else TypeSubscription),
            inv_description = Some (js_default (js_nullish (si_description iv) (si_line_description iv))
                                     (''Invoice '' @ si_id iv)),
            inv_amount = amount, inv_amountDue = Some due, inv_amountPaid = Some paid,
            inv_currency = js_upper (js_default (si_currency iv) ''inr''), inv_status = status,
            inv_invoiceDate = unix_date (si_created iv), inv_dueDate = unix_date (si_due_date iv),
            inv_paidAt = unix_date (si_paid_at iv), inv_periodStart = unix_date (si_period_start iv),
            inv_periodEnd = unix_date (si_period_end iv), inv_invoiceUrl = si_hosted_invoice_url iv,
            inv_invoicePdf = si_invoice_pdf iv, inv_metadata = Some (MetaStripeInvoice iv),
            inv_createdAt = 0\<rparr>)"

definition syncRazorpayInvoices :: "env \<Rightarrow> string \<Rightarrow> string \<Rightarrow> unit bill" where
  "syncRazorpayInvoices E workspaceId providerSubId =
     catch_io
       (bind_io (fetchSubscriptionInvoices E providerSubId)
          (\<lambda>invoices. if invoices = [] then ret ()
             else bind_io (sub_find (by_workspace workspaceId))
               (\<lambda>found. case found of
                  None \<Rightarrow> ret ()
                | Some sub \<Rightarrow> for_io (\<lambda>iv. upsertRazorpayInvoice E iv (sub_id sub) workspaceId) invoices)))
       (\<lambda>_. ret ())"

definition syncStripeInvoices :: "env \<Rightarrow> string \<Rightarrow> string option \<Rightarrow> string \<Rightarrow> unit bill" where
  "syncStripeInvoices E workspaceId customerId subscriptionId =
     catch_io
       (bind_io (stripe_listInvoices E customerId)
          (for_io (\<lambda>iv. upsertStripeInvoice E iv workspaceId subscriptionId)))
       (\<lambda>_. ret ())"

definition fullSyncWorkspace :: "env \<Rightarrow> string \<Rightarrow> unit bill" where
  "fullSyncWorkspace E workspaceId =
     bind_io (sub_find (by_workspace workspaceId))
       (\<lambda>found. case found of
          None \<Rightarrow> ret ()
        | Some sub \<Rightarrow>
            if \<not> js_truthy (sub_providerSubId sub) then ret ()
            else seq_io
              (if sub_provider sub = Some Razorpay
               then syncRazorpayInvoices E workspaceId (the (sub_providerSubId sub)) else ret ())
              (if sub_provider sub = Some Stripe
               then syncStripeInvoices E workspaceId (sub_providerCustomerId sub) (sub_id sub)
               else ret ()))"


section \<open>Consistency of the tables\<close>

definition payment_key :: "payment \<Rightarrow> (billing_provider \<times> string) option" where
  "payment_key r = map_option (Pair (pay_provider r)) (pay_providerPaymentId r)"

definition pays_ok :: "world \<Rightarrow> bool" where
  "pays_ok s = (distinct (map pay_id (w_pays s)) \<and> unique_nonnull payment_key (w_pays s))"

definition invs_ok :: "world \<Rightarrow> bool" where
  "invs_ok s = (distinct (map inv_id (w_invs s)) \<and> distinct (map inv_providerInvoiceId (w_invs s)))"

definition tables_ok :: "world \<Rightarrow> bool" where
  "tables_ok s = (ops_ok s \<and> subs_ok s \<and> pays_ok s \<and> invs_ok s)"

definition consistent :: "env \<Rightarrow> world \<Rightarrow> world \<Rightarrow> bool" where
  "consistent E s t \<longleftrightarrow> (fresh_ids E \<and> tables_ok s \<longrightarrow> tables_ok t) \<and> ops_grow s t"

text \<open>A relation that every write of the billing module satisfies.\<close>

locale book_order = call_order R E
  for R :: "world \<Rightarrow> world \<Rightarrow> bool" and E :: env +
  assumes R_sub_create: "keeps R (sub_create E row)"
    and R_sub_updateMany:
      "(\<And>r. sub_id (g r) = sub_id r \<and> sub_workspaceId (g r) = sub_workspaceId r
         \<and> sub_providerSubId (g r) = sub_providerSubId r) \<Longrightarrow> keeps R (sub_updateMany Q g)"
    and R_pay_update: "(\<And>r. pay_id (f r) = pay_id r) \<Longrightarrow> keeps R (pay_update i f)"
    and R_pay_create: "keeps R (pay_create E pay)"
    and R_inv_updateMany:
      "(\<And>r. inv_id (h r) = inv_id r \<and> inv_providerInvoiceId (h r) = inv_providerInvoiceId r) \<Longrightarrow>
       keeps R (inv_updateMany P h)"
    and R_inv_create: "keeps R (inv_create E iv)"
begin

lemma b_find: "keeps R (pay_find P)" "keeps R (inv_find Q)"
  unfolding pay_find_def inv_find_def by (rule r_gets)+

lemmas b_intros =
  f_intros b_find R_sub_create R_sub_updateMany R_pay_update R_pay_create R_inv_updateMany
  R_inv_create

lemma b_sub_upsert:
  "(\<And>r. sub_id (g r) = sub_id r \<and> sub_workspaceId (g r) = sub_workspaceId r) \<Longrightarrow>
   keeps R (sub_upsert E ws g row)"
  unfolding sub_upsert_def by (intro b_intros)

lemma b_inv_upsert:
  "(\<And>r. inv_id (h r) = inv_id r \<and> inv_providerInvoiceId (h r) = inv_providerInvoiceId r) \<Longrightarrow>
   keeps R (inv_upsert E i h row)"
  unfolding inv_upsert_def by (intro b_intros)

lemma b_payment_write: "keeps R (payment_write E d existing)"
  unfolding payment_write_def by (intro b_intros) (simp_all add: payment_columns_def)

lemma b_payment: "keeps R (upsertProviderPayment E d)"
  unfolding upsertProviderPayment_def by (intro b_intros b_payment_write)

lemma b_settle_payment: "keeps R (settle_payment E sm order payment)"
  unfolding settle_payment_def settle_new_payment_def pay_updateMany_id_def
  by (intro b_intros b_payment) simp_all

lemma b_settle_invoice: "keeps R (settle_invoice sm payment)"
  unfolding settle_invoice_def Let_def by (intro b_intros) simp_all

lemma b_order_paid: "keeps R (markRazorpayOrderInvoicePaid E order payment)"
  unfolding markRazorpayOrderInvoicePaid_def Let_def
  by (intro b_intros b_settle_payment b_settle_invoice)

lemma b_rp_invoice: "keeps R (upsertRazorpayInvoice E iv sid ws)"
  unfolding upsertRazorpayInvoice_def Let_def by (rule b_inv_upsert) simp

lemma b_stripe_invoice: "keeps R (upsertStripeInvoice E iv ws sid)"
  unfolding upsertStripeInvoice_def Let_def by (rule b_inv_upsert) simp

lemma b_rp_sync: "keeps R (syncRazorpayInvoices E ws i)"
  unfolding syncRazorpayInvoices_def
  by (intro b_intros b_rp_invoice t_service service_calls)

lemma b_stripe_sync: "keeps R (syncStripeInvoices E ws c sid)"
  unfolding syncStripeInvoices_def
  by (intro b_intros b_stripe_invoice t_service stripe_calls)

lemma b_full_sync: "keeps R (fullSyncWorkspace E ws)"
  unfolding fullSyncWorkspace_def by (intro b_intros b_rp_sync b_stripe_sync)

lemmas b_billing = b_payment b_order_paid b_rp_invoice b_rp_sync b_full_sync

end


lemma consistent_evolves:
  "keeps (evolves E) m \<Longrightarrow> keeps books_same m \<Longrightarrow> keeps (consistent E) m"
  by (auto simp: keeps_def evolves_def books_same_def consistent_def tables_ok_def pays_ok_def invs_ok_def)

lemma consistent_same:
  assumes "w_ops t = w_ops s" and "subs_ok s \<and> fresh_ids E \<longrightarrow> subs_ok t"
    and "pays_ok s \<and> fresh_ids E \<longrightarrow> pays_ok t" and "invs_ok s \<and> fresh_ids E \<longrightarrow> invs_ok t"
  shows "consistent E s t"
  using assms by (auto simp: consistent_def tables_ok_def ops_grow_def ops_ok_def)

lemma fresh_notin:
  assumes "fresh_ids E"
  shows "env_newid E s \<notin> sub_id ` set (w_subs s)" and "env_newid E s \<notin> pay_id ` set (w_pays s)"
    and "env_newid E s \<notin> inv_id ` set (w_invs s)"
  using assms unfolding fresh_ids_def by blast+

lemma fresh_neq:
  assumes "fresh_ids E"
  shows "x \<in> set (w_subs s) \<Longrightarrow> sub_id x \<noteq> env_newid E s"
    and "y \<in> set (w_pays s) \<Longrightarrow> pay_id y \<noteq> env_newid E s"
  using fresh_notin [OF assms, of s] by (metis image_eqI)+

lemma consistent_sub_create: "keeps (consistent E) (sub_create E row)"
proof (rule keepsI)
  fix s
  let ?r = "row\<lparr>sub_id := env_newid E s, sub_createdAt := env_now E s\<rparr>"
  have "subs_ok (s\<lparr>w_subs := w_subs s @ [?r]\<rparr>)"
    if "sub_workspaceId row \<notin> sub_workspaceId ` set (w_subs s)" "\<not> sub_clash ?r (w_subs s)"
      "subs_ok s" "fresh_ids E"
  proof -
    have "sub_providerSubId x \<noteq> sub_providerSubId ?r"
      if "sub_providerSubId ?r \<noteq> None" and "x \<in> set (w_subs s)" for x
      using that \<open>\<not> sub_clash ?r (w_subs s)\<close> fresh_neq(1) [OF \<open>fresh_ids E\<close>, of x s]
      by (auto simp: sub_clash_def)
    then have "sub_providerSubId ?r = None \<or> sub_providerSubId ?r \<notin> sub_providerSubId ` set (w_subs s)"
      by (metis imageE)
    then have "unique_nonnull sub_providerSubId (w_subs s @ [?r])"
      using that(3) by (intro unique_nonnull_append) (simp_all add: subs_ok_def)
    then show ?thesis
      using that(1,3) fresh_notin(1) [OF that(4), of s] by (simp add: subs_ok_def)
  qed
  then show "consistent E s (snd (sub_create E row s))"
    by (auto simp: sub_create_def Let_def pays_ok_def invs_ok_def intro!: consistent_same)
qed

lemma consistent_sub_updateMany:
  assumes "\<And>r. sub_id (g r) = sub_id r \<and> sub_workspaceId (g r) = sub_workspaceId r
         \<and> sub_providerSubId (g r) = sub_providerSubId r"
  shows "keeps (consistent E) (sub_updateMany Q g)"
proof (rule keepsI)
  fix s
  have "map sub_id (upd_where Q g rows) = map sub_id rows"
    "map sub_workspaceId (upd_where Q g rows) = map sub_workspaceId rows"
    "map sub_providerSubId (upd_where Q g rows) = map sub_providerSubId rows" for rows
    using assms by (simp_all add: map_upd_where)
  then show "consistent E s (snd (sub_updateMany Q g s))"
    by (intro consistent_same) (simp_all add: sub_updateMany_def subs_ok_def unique_nonnull_def pays_ok_def invs_ok_def)
qed

lemma pay_clash_key:
  "\<not> pay_clash r rows \<Longrightarrow>
   payment_key r = None \<or> (\<forall>x \<in> set rows. pay_id x \<noteq> pay_id r \<longrightarrow> payment_key x \<noteq> payment_key r)"
  by (cases "pay_providerPaymentId r") (auto simp: pay_clash_def payment_key_def)

lemma consistent_pay_update:
  assumes "\<And>r. pay_id (f r) = pay_id r"
  shows "keeps (consistent E) (pay_update i f)"
proof (rule keepsI)
  fix s
  show "consistent E s (snd (pay_update i f s))"
  proof (cases "find (\<lambda>r. pay_id r = i) (w_pays s)")
    case None
    then show ?thesis by (auto simp: pay_update_def intro!: consistent_same)
  next
    case (Some r)
    then have i: "pay_id (f r) = i" using assms find_Some_in [OF Some] by simp
    show ?thesis
    proof (cases "pay_clash (f r) (w_pays s)")
      case True
      with Some show ?thesis by (auto simp: pay_update_def intro!: consistent_same)
    next
      case False
      have "map pay_id (upd_where (\<lambda>x. pay_id x = i) (\<lambda>_. f r) (w_pays s)) = map pay_id (w_pays s)"
        using i by (auto simp: upd_where_def)
      moreover have "pays_ok s \<Longrightarrow>
          unique_nonnull payment_key (upd_where (\<lambda>x. pay_id x = i) (\<lambda>_. f r) (w_pays s))"
        using pay_clash_key [OF False] i by (intro unique_nonnull_upd) (auto simp: pays_ok_def)
      ultimately show ?thesis
        using Some False
        by (auto simp: pay_update_def subs_ok_def pays_ok_def invs_ok_def intro!: consistent_same)
    qed
  qed
qed

lemma consistent_pay_create: "keeps (consistent E) (pay_create E pay)"
proof (rule keepsI)
  fix s
  let ?r = "pay\<lparr>pay_id := env_newid E s, pay_createdAt := env_now E s\<rparr>"
  have "pays_ok (s\<lparr>w_pays := w_pays s @ [?r]\<rparr>)"
    if "\<not> pay_clash ?r (w_pays s)" "pays_ok s" "fresh_ids E"
  proof -
    have "payment_key x \<noteq> payment_key ?r" if "payment_key ?r \<noteq> None" and "x \<in> set (w_pays s)" for x
      using that pay_clash_key [OF \<open>\<not> pay_clash ?r (w_pays s)\<close>] fresh_neq(2) [OF \<open>fresh_ids E\<close>, of x s]
      by auto
    then have "payment_key ?r = None \<or> payment_key ?r \<notin> payment_key ` set (w_pays s)"
      by (metis imageE)
    then have "unique_nonnull payment_key (w_pays s @ [?r])"
      using that(2) by (intro unique_nonnull_append) (simp_all add: pays_ok_def)
    then show ?thesis
      using that(2) fresh_notin(2) [OF that(3), of s] by (simp add: pays_ok_def)
  qed
  then show "consistent E s (snd (pay_create E pay s))"
    by (auto simp: pay_create_def Let_def subs_ok_def invs_ok_def intro!: consistent_same)
qed

lemma consistent_inv_updateMany:
  assumes "\<And>r. inv_id (h r) = inv_id r \<and> inv_providerInvoiceId (h r) = inv_providerInvoiceId r"
  shows "keeps (consistent E) (inv_updateMany P h)"
proof (rule keepsI)
  fix s
  have "map inv_id (upd_where P h rows) = map inv_id rows"
    "map inv_providerInvoiceId (upd_where P h rows) = map inv_providerInvoiceId rows" for rows
    using assms by (simp_all add: map_upd_where)
  then show "consistent E s (snd (inv_updateMany P h s))"
    by (intro consistent_same) (simp_all add: inv_updateMany_def subs_ok_def pays_ok_def invs_ok_def)
qed

lemma consistent_inv_create: "keeps (consistent E) (inv_create E iv)"
  by (rule keepsI)
     (auto simp: inv_create_def Let_def subs_ok_def pays_ok_def invs_ok_def fresh_notin(3)
        intro!: consistent_same)

interpretation tables: book_order "consistent E" E for E
proof
  show "consistent E s s" for s
    by (simp add: consistent_def ops_grow_def)
  show "consistent E s t \<Longrightarrow> consistent E t u \<Longrightarrow> consistent E s u" for s t u
    by (auto simp: consistent_def ops_grow_def)
  show "keeps (consistent E) (op_update E i f)" if "\<And>r. op_ident (f r) = op_ident r" for i f
    using that by (intro consistent_evolves evolve.R_op_update books.R_op_update)
  show "keeps (consistent E) (op_updateMany E P f)" if "\<And>r. op_ident (f r) = op_ident r" for P f
    using that by (intro consistent_evolves evolve.R_op_updateMany books.R_op_updateMany)
  show "keeps (consistent E) (op_create E r)" if "wf_op r" for r
    using that by (intro consistent_evolves evolve.R_op_create books.R_op_create)
  show "keeps (consistent E) (sub_update Q g)"
    if "\<And>r. sub_id (g r) = sub_id r \<and> sub_workspaceId (g r) = sub_workspaceId r" for Q g
    using that by (intro consistent_evolves evolve.R_sub_update books.R_sub_update)
  show "consistent E s t" if "only_calls s t" for s t
    using that by (auto simp: only_calls_def subs_ok_def pays_ok_def invs_ok_def intro!: consistent_same)
  show "consistent E s (s\<lparr>w_queued := q\<rparr>)" for s q
    by (auto simp: subs_ok_def pays_ok_def invs_ok_def intro!: consistent_same)
qed (rule consistent_sub_create consistent_sub_updateMany consistent_pay_update consistent_pay_create
      consistent_inv_updateMany consistent_inv_create; assumption)+


section \<open>Behaviour of the payment upsert\<close>

text \<open>
  The row returned is the only one of its provider payment id, it holds the data of the event,
  and every other payment is as before.
\<close>

definition recorded :: "payment_data \<Rightarrow> int \<Rightarrow> world \<Rightarrow> (exn + payment) \<times> world \<Rightarrow> bool" where
  "recorded d a s out =
     (case out of
        (Inr r, t) \<Rightarrow>
          filter (by_payment_id (pd_provider d) (pd_providerPaymentId d)) (w_pays t) = [r]
          \<and> filter (\<lambda>x. \<not> by_payment_id (pd_provider d) (pd_providerPaymentId d) x) (w_pays t) =
            filter (\<lambda>x. \<not> by_payment_id (pd_provider d) (pd_providerPaymentId d) x) (w_pays s)
          \<and> payment_columns d a r = r
      | _ \<Rightarrow> False)"

lemma columns_idem [simp]:
  "payment_columns d a (payment_columns d a r) = payment_columns d a r"
  "payment_columns d a (payment_row d a\<lparr>pay_id := i, pay_createdAt := c\<rparr>)
     = payment_row d a\<lparr>pay_id := i, pay_createdAt := c\<rparr>"
  by (auto simp: payment_columns_def payment_row_def js_nullish_def split: option.splits)

lemma columns_key [simp]:
  "pay_id (payment_columns d a r) = pay_id r"
  "by_payment_id (pd_provider d) (pd_providerPaymentId d) (payment_columns d a r)"
  "by_payment_id (pd_provider d) (pd_providerPaymentId d) (payment_row d a\<lparr>pay_id := i, pay_createdAt := c\<rparr>)"
  by (simp_all add: payment_columns_def payment_row_def by_payment_id_def)

lemma by_key:
  "pd_providerPaymentId d = Some k \<Longrightarrow>
   by_payment_id (pd_provider d) (pd_providerPaymentId d) r \<longleftrightarrow> payment_key r = Some (pd_provider d, k)"
  by (auto simp: by_payment_id_def payment_key_def)

lemma same_payment:
  assumes "pays_ok s" and "pd_providerPaymentId d = Some k" and "cur \<in> set (w_pays s)"
    and "by_payment_id (pd_provider d) (pd_providerPaymentId d) cur" and "x \<in> set (w_pays s)"
  shows "pay_id x = pay_id cur \<longleftrightarrow> x = cur"
    and "by_payment_id (pd_provider d) (pd_providerPaymentId d) x \<longleftrightarrow> x = cur"
proof -
  show "pay_id x = pay_id cur \<longleftrightarrow> x = cur"
    using assms(1,3,5) by (auto simp: pays_ok_def distinct_map dest: inj_onD)
  show "by_payment_id (pd_provider d) (pd_providerPaymentId d) x \<longleftrightarrow> x = cur"
    using assms(1,3-5) unique_nonnull_inj [of payment_key "w_pays s" x cur]
    unfolding by_key [OF assms(2)] pays_ok_def by auto
qed

lemma recorded_update:
  assumes "pays_ok s" and "pd_providerPaymentId d = Some k" and "cur \<in> set (w_pays s)"
    and "by_payment_id (pd_provider d) (pd_providerPaymentId d) cur"
  shows "recorded d a s (pay_update (pay_id cur) (payment_columns d a) s)"
proof -
  let ?K = "by_payment_id (pd_provider d) (pd_providerPaymentId d)"
  have find: "find (\<lambda>r. pay_id r = pay_id cur) (w_pays s) = Some cur"
    using assms(1,3) by (intro find_unique_key) (simp_all add: pays_ok_def)
  have "x = cur" if "x \<in> set (w_pays s)" and "pay_provider x = pd_provider d"
    and "pay_providerPaymentId x = pd_providerPaymentId d" for x
    using same_payment(2) [OF assms that(1)] that(2,3) by (simp add: by_payment_id_def)
  then have clash: "\<not> pay_clash (payment_columns d a cur) (w_pays s)"
    by (auto simp: pay_clash_def payment_columns_def)
  have upd: "upd_where (\<lambda>x. pay_id x = pay_id cur) g (w_pays s) = upd_where ?K g (w_pays s)" for g
    using same_payment [OF assms] by (intro upd_where_cong) simp
  have "filter ?K (w_pays s) = filter (\<lambda>x. pay_id x = pay_id cur) (w_pays s)"
    using same_payment [OF assms] by (intro filter_cong) simp_all
  also have "\<dots> = [cur]"
    using assms(1,3) by (intro filter_unique_key) (simp_all add: pays_ok_def)
  finally have only: "filter ?K (w_pays s) = [cur]" .
  have "filter ?K (upd_where ?K (\<lambda>_. r) rows) = map (\<lambda>_. r) (filter ?K rows)"
    and "filter (\<lambda>x. \<not> ?K x) (upd_where ?K (\<lambda>_. r) rows) = filter (\<lambda>x. \<not> ?K x) rows" if "?K r" for r rows
    using that by (induction rows) auto
  with find clash upd only show ?thesis
    by (simp add: recorded_def pay_update_def)
qed

lemma recorded_write:
  assumes "pays_ok s" and "fresh_ids E" and "pd_providerPaymentId d = Some k" and "k \<noteq> []"
    and "pd_amount d = Some a"
    and "existing = None \<or> existing = find (by_payment_id (pd_provider d) (pd_providerPaymentId d)) (w_pays s)"
  shows "recorded d a s (payment_write E d existing s)"
proof (cases "find (by_payment_id (pd_provider d) (pd_providerPaymentId d)) (w_pays s)")
  case None
  let ?K = "by_payment_id (pd_provider d) (pd_providerPaymentId d)"
  let ?r = "payment_row d a\<lparr>pay_id := env_newid E s, pay_createdAt := env_now E s\<rparr>"
  have none: "\<not> ?K x" if "x \<in> set (w_pays s)" for x
    using None that by (auto simp: find_None_iff)
  then have "\<not> pay_clash ?r (w_pays s)"
    by (auto simp: pay_clash_def payment_row_def by_payment_id_def)
  moreover have "filter ?K (w_pays s) = []" using none by (simp add: filter_empty_conv)
  ultimately show ?thesis
    using assms(5,6) None by (auto simp: payment_write_def recorded_def pay_create_def catch_io_def Let_def)
next
  case (Some cur)
  let ?K = "by_payment_id (pd_provider d) (pd_providerPaymentId d)"
  have cur: "cur \<in> set (w_pays s)" "?K cur" using find_Some_in [OF Some] by simp_all
  have "pay_id cur \<noteq> env_newid E s" using fresh_neq(2) [OF assms(2) cur(1)] .
  then have clash: "pay_clash (payment_row d a\<lparr>pay_id := env_newid E s, pay_createdAt := env_now E s\<rparr>) (w_pays s)"
    using cur assms(3) by (auto simp: pay_clash_def payment_row_def by_payment_id_def)
  show ?thesis
    using assms(3-6) recorded_update [OF assms(1,3) cur, of a] Some clash
    by (auto simp: payment_write_def pay_create_def catch_io_def bind_io_def pay_find_def gets_def Let_def)
qed

lemma recorded_again:
  assumes "recorded d a s (Inr r, t)" and "pays_ok t" and "pd_providerPaymentId d = Some k" and "k \<noteq> []"
    and "pd_amount d = Some a"
  shows "upsertProviderPayment E d t = (Inr r, t)"
proof -
  let ?K = "by_payment_id (pd_provider d) (pd_providerPaymentId d)"
  have only: "filter ?K (w_pays t) = [r]" and same: "payment_columns d a r = r"
    using assms(1) by (simp_all add: recorded_def)
  have "r \<in> set (filter ?K (w_pays t))" by (simp add: only)
  then have r: "r \<in> set (w_pays t)" "?K r" by simp_all
  have "find ?K (w_pays t) = Some r" by (simp add: find_filter only)
  moreover have "pay_update (pay_id r) (payment_columns d a) t = (Inr r, t)"
  proof -
    have "find (\<lambda>x. pay_id x = pay_id r) (w_pays t) = Some r"
      using r assms(2) by (intro find_unique_key) (simp_all add: pays_ok_def)
    moreover have "x = r" if "x \<in> set (w_pays t)" "pay_provider x = pay_provider r"
      "pay_providerPaymentId x = pay_providerPaymentId r" for x
      using same_payment(2) [OF assms(2,3) r that(1)] that(2,3) r(2) by (simp add: by_payment_id_def)
    then have "\<not> pay_clash r (w_pays t)" by (auto simp: pay_clash_def)
    moreover have "upd_where (\<lambda>x. pay_id x = pay_id r) (\<lambda>_. r) (w_pays t) = w_pays t"
      using same_payment(1) [OF assms(2,3) r] by (auto simp: upd_where_def intro: map_idI)
    ultimately show ?thesis by (simp add: pay_update_def same)
  qed
  ultimately show ?thesis
    using assms(3-5) by (simp add: upsertProviderPayment_def pay_find_def bind_gets payment_write_def)
qed


lemma columns_fields:
  assumes "payment_columns d a r = r"
  shows "pay_status r = pd_status d" and "pay_amount r = a" and "pay_subscriptionId r = pd_subscriptionId d"
    and "pay_workspaceId r = pd_workspaceId d"
proof -
  have "pay_status (payment_columns d a r) = pd_status d" "pay_amount (payment_columns d a r) = a"
    "pay_subscriptionId (payment_columns d a r) = pd_subscriptionId d"
    "pay_workspaceId (payment_columns d a r) = pd_workspaceId d"
    by (simp_all add: payment_columns_def)
  then show "pay_status r = pd_status d" "pay_amount r = a" "pay_subscriptionId r = pd_subscriptionId d"
    "pay_workspaceId r = pd_workspaceId d"
    using assms by simp_all
qed

text \<open>The upsert writes payments only.\<close>

definition payments_only :: "world \<Rightarrow> world \<Rightarrow> bool" where
  "payments_only s t \<longleftrightarrow>
     w_subs t = w_subs s \<and> w_ops t = w_ops s \<and> w_invs t = w_invs s \<and> w_usage t = w_usage s
     \<and> w_locks t = w_locks s \<and> w_queued t = w_queued s \<and> w_calls t = w_calls s"

interpretation pay_only: step_order payments_only
  by unfold_locales (simp_all add: payments_only_def)

lemma payments_only_upsert: "keeps payments_only (upsertProviderPayment E d)"
proof -
  have "keeps payments_only (pay_find P)" "keeps payments_only (pay_update i f)"
    "keeps payments_only (pay_create E r)" for P i f r
    by (auto simp: keeps_def payments_only_def pay_find_def gets_def pay_update_def pay_create_def Let_def
        split: option.split)
  then show ?thesis
    unfolding upsertProviderPayment_def payment_write_def by (intro pay_only.r_intros)
qed

lemma payment_recorded:
  assumes "fresh_ids E" and "tables_ok s" and "pd_providerPaymentId d = Some k" and "k \<noteq> []"
    and "pd_amount d = Some a"
  obtains pay u where "upsertProviderPayment E d s = (Inr pay, u)" and "recorded d a s (Inr pay, u)"
    and "payments_only s u" and "tables_ok u"
proof -
  have "recorded d a s (upsertProviderPayment E d s)"
    using recorded_write [OF _ assms(1,3-5)] assms(2-4)
    by (simp add: upsertProviderPayment_def pay_find_def bind_gets tables_ok_def)
  then obtain pay u where u: "upsertProviderPayment E d s = (Inr pay, u)" and "recorded d a s (Inr pay, u)"
    by (auto simp: recorded_def split: prod.splits sum.splits)
  moreover have "payments_only s u" by (rule keeps_result [OF payments_only_upsert u])
  moreover have "tables_ok u"
    using keeps_result [OF tables.b_payment u] assms(1,2) by (simp add: consistent_def)
  ultimately show thesis using that by blast
qed

section \<open>Settled invoices\<close>

definition same_invs :: "world \<Rightarrow> world \<Rightarrow> bool" where
  "same_invs s t \<longleftrightarrow> w_invs t = w_invs s"

interpretation invs_fixed: step_order same_invs
  by unfold_locales (simp_all add: same_invs_def)

lemma same_invs_tables:
  "keeps same_invs (pay_find P)" "keeps same_invs (inv_find Q)" "keeps same_invs (pay_update i f)"
  "keeps same_invs (pay_create E r)"
  by (auto simp: keeps_def same_invs_def pay_find_def inv_find_def gets_def pay_update_def
      pay_create_def Let_def split: option.split)

lemma settle_payment_invs: "keeps same_invs (settle_payment E sm order payment)"
  unfolding settle_payment_def settle_new_payment_def pay_updateMany_id_def
    upsertProviderPayment_def payment_write_def
  by (intro invs_fixed.r_intros same_invs_tables)

section \<open>Properties\<close>

text \<open>
  Recording a provider payment is idempotent: the row is the only one of its provider
  payment id and holds the event's data, all other payments stay as they are, and a second
  delivery of the same event changes nothing at all. When two deliveries interleave, so that the
  read found nothing and the row appeared before the write, the outcome is the same.
\<close>

theorem payment_upsert_idempotent:
  assumes "fresh_ids E" and "tables_ok s" and "pd_providerPaymentId d = Some k" and "k \<noteq> []"
    and "pd_amount d = Some a"
  shows "\<exists>r t. upsertProviderPayment E d s = (Inr r, t) \<and> recorded d a s (Inr r, t)
           \<and> upsertProviderPayment E d t = (Inr r, t)
           \<and> recorded d a s (payment_write E d None s)"
proof -
  obtain r t where t: "upsertProviderPayment E d s = (Inr r, t)" "recorded d a s (Inr r, t)" "tables_ok t"
    using payment_recorded [OF assms] by blast
  moreover have "upsertProviderPayment E d t = (Inr r, t)"
    using recorded_again [OF t(2) _ assms(3-5)] t(3) by (simp add: tables_ok_def)
  moreover have "recorded d a s (payment_write E d None s)"
    using recorded_write [OF _ assms(1,3-5)] assms(2) by (simp add: tables_ok_def)
  ultimately show ?thesis by blast
qed

definition sample_payment_data :: payment_data where
  "sample_payment_data = \<lparr>pd_workspaceId = ''w'', pd_subscriptionId = Some ''s1'', pd_amount = Some 999,
     pd_currency = ''INR'', pd_status = PayPaid, pd_provider = Razorpay,
     pd_providerPaymentId = Some ''pay_1'', pd_providerInvoiceId = None, pd_paidAt = Some 7,
     pd_metadata = None, pd_type = None, pd_description = None\<rparr>"

lemma tables_ok_sample: "tables_ok sample_world" "tables_ok refund_world"
  using ops_ok_sample
  by (simp_all add: tables_ok_def subs_ok_def pays_ok_def invs_ok_def ops_ok_def sample_world_def
      empty_world_def refund_world_def)

theorem payment_upsert_witness:
  "\<exists>r t. upsertProviderPayment sample_env sample_payment_data refund_world = (Inr r, t)
     \<and> upsertProviderPayment sample_env sample_payment_data t = (Inr r, t)"
  using payment_upsert_idempotent [OF fresh_sample tables_ok_sample(2),
      of sample_env sample_payment_data "''pay_1''" 999]
  by (auto simp: sample_payment_data_def)

text \<open>
  Settling an order: an invoice that was already paid is never touched again, an unpaid
  invoice that the order's notes name by row id becomes paid with nothing due and the amount of
  the payment, and every other invoice stays as it is.
\<close>

theorem order_settles_invoice:
  assumes "markRazorpayOrderInvoicePaid E order payment s = (Inr (), t)"
    and "sm = settlement_of (env_now E s) order payment"
    and "n_invoiceDbId (sm_notes sm) = Some i" and "i \<noteq> []"
  shows "list_all2 (\<lambda>r r'. if inv_id r = i \<and> inv_status r \<noteq> InvPaid
            then inv_status r' = InvPaid \<and> inv_amountDue r' = Some 0
                 \<and> inv_amountPaid r' = Some (sm_amountPaid sm) \<and> inv_id r' = i
                 \<and> inv_workspaceId r' = inv_workspaceId r \<and> inv_amount r' = inv_amount r
            else r' = r) (w_invs s) (w_invs t)"
proof -
  obtain u where "settle_payment E sm order payment s = (Inr (), u)" and t: "settle_invoice sm payment u = (Inr (), t)"
    using assms(1,2)
    by (auto simp: markRazorpayOrderInvoicePaid_def io_simps clock_def Let_def
        split: prod.splits sum.splits)
  then have invs: "w_invs u = w_invs s"
    using keeps_result [OF settle_payment_invs] by (auto simp: same_invs_def)
  show ?thesis
    using t assms(3,4)
    by (auto simp: settle_invoice_def io_simps inv_updateMany_def Let_def invs upd_where_def
        list_all2_conv_all_nth)
qed

definition sample_invoice :: invoice where
  "sample_invoice = \<lparr>inv_id = ''v1'', inv_workspaceId = ''w'', inv_subscriptionId = Some ''s1'',
     inv_provider = Razorpay, inv_providerInvoiceId = ''iv_1'', inv_providerPaymentId = None,
     inv_type = TypeAddon, inv_description = None, inv_amount = 700, inv_amountDue = Some 700,
     inv_amountPaid = Some 0, inv_currency = ''INR'', inv_status = InvOpen, inv_invoiceDate = None,
     inv_dueDate = None, inv_paidAt = None, inv_periodStart = None, inv_periodEnd = None,
     inv_invoiceUrl = None, inv_invoicePdf = None, inv_metadata = None, inv_createdAt = 1\<rparr>"

definition sample_order :: rp_order where
  "sample_order = \<lparr>oe_id = Some ''order_1'', oe_amount = Some 700, oe_amount_paid = Some 700,
     oe_currency = Some ''INR'', oe_notes = Some (no_notes\<lparr>n_invoiceDbId := Some ''v1''\<rparr>)\<rparr>"

theorem order_settles_witness:
  "\<exists>t. markRazorpayOrderInvoicePaid sample_env (Some sample_order) None
         (empty_world\<lparr>w_invs := [sample_invoice]\<rparr>) = (Inr (), t)
     \<and> map inv_status (w_invs t) = [InvPaid]"
proof -
  let ?s = "empty_world\<lparr>w_invs := [sample_invoice]\<rparr>"
  obtain t where t: "markRazorpayOrderInvoicePaid sample_env (Some sample_order) None ?s = (Inr (), t)"
    by (simp add: markRazorpayOrderInvoicePaid_def io_simps clock_def settle_payment_def settle_invoice_def
        settlement_of_def merge_notes_def no_notes_def sample_order_def inv_updateMany_def Let_def)
  have ref: "n_invoiceDbId (sm_notes (settlement_of (env_now sample_env ?s) (Some sample_order) None)) = Some ''v1''"
    by (simp add: settlement_of_def merge_notes_def no_notes_def sample_order_def Let_def)
  from order_settles_invoice [OF t refl ref] t show ?thesis
    by (auto simp: empty_world_def sample_invoice_def list_all2_Cons1)
qed

end
