(* ===== verification/Billing_Webhooks.thy ===== *)
theory Billing_Webhooks
  imports Billing_Payments
begin

text \<open>
  The webhook handlers of \<^verbatim>\<open>billing.service.ts\<close>, one definition per case of the two
  switches, and the two routes of \<^verbatim>\<open>billing-webhook.controller.ts\<close> with their signature
  checks. A payload is a record of the entities the code reads from it. The property
  \<^verbatim>\<open>undefined\<close> in a Prisma filter means no filter, \<^verbatim>\<open>null\<close> means a null column:
  the code passes the former for a missing refund entity and the latter for a Stripe invoice
  without subscription.
\<close>

section \<open>Stripe\<close>

definition mapStripeStatus :: "string \<Rightarrow> subscription_status" where
  "mapStripeStatus st =
     js_default (map_of [(''trialing'', Trialing), (''active'', Active), (''past_due'', PastDue),
       (''canceled'', Cancelled), (''unpaid'', Unpaid), (''paused'', Paused),
       (''incomplete_expired'', Expired), (''incomplete'', PastDue)] st) PastDue"

record stripe_event =
  sv_type :: string
  sv_subscription :: "stripe_subscription option"
  sv_invoice :: "stripe_invoice option"

text \<open>The defaults of a new subscription row, before the columns a caller sets.\<close>

definition blank_subscription :: "string \<Rightarrow> string \<Rightarrow> subscription_status \<Rightarrow> subscription" where
  "blank_subscription ws plan st =
     \<lparr>sub_id = [], sub_workspaceId = ws, sub_plan = plan, sub_status = st, sub_provider = None,
      sub_providerCustomerId = None, sub_providerSubId = None, sub_trialStartAt = None,
      sub_trialEndAt = None, sub_currentPeriodStart = None, sub_currentPeriodEnd = None,
      sub_pendingPlan = None, sub_pendingEffectiveAt = None, sub_pendingProviderSubId = None,
      sub_quantity = 1, sub_lastRefundAmount = None, sub_lastRefundStatus = None,
      sub_lastRefundAt = None, sub_cancelAtPeriodEnd = False, sub_createdAt = 0\<rparr>"

definition stripe_columns :: "stripe_subscription \<Rightarrow> subscription \<Rightarrow> subscription" where
  "stripe_columns sub r =
     r\<lparr>sub_provider := Some Stripe, sub_providerSubId := Some (st_id sub),
       sub_providerCustomerId := Some (st_customer sub),
       sub_plan := js_or_str (st_metadata_plan sub) ''starter'',
       sub_status := mapStripeStatus (st_status sub),
       sub_currentPeriodStart := Some (st_current_period_start sub * 1000),
       sub_currentPeriodEnd := Some (st_current_period_end sub * 1000),
       sub_cancelAtPeriodEnd := st_cancel_at_period_end sub\<rparr>"

definition stripe_subscription_event :: "env \<Rightarrow> stripe_subscription \<Rightarrow> unit bill" where
  "stripe_subscription_event E sub =
     (if \<not> js_truthy (st_metadata_workspaceId sub) then ret ()
      else let ws = the (st_metadata_workspaceId sub)
           in bind_io (sub_upsert E ws (stripe_columns sub)
                (stripe_columns sub (blank_subscription ws [] PastDue))) (\<lambda>_. ret ()))"

text \<open>The two invoice events differ in the recorded payment and in the new status.\<close>

definition stripe_invoice_event :: "env \<Rightarrow> bool \<Rightarrow> stripe_invoice \<Rightarrow> unit bill" where
  "stripe_invoice_event E succeeded iv =
     bind_io (sub_find (\<lambda>r. sub_providerSubId r = si_subscription iv))
       (\<lambda>found. case found of
          None \<Rightarrow> ret ()
        | Some sub \<Rightarrow>
            bind_io (clock E) (\<lambda>now.
              seq_io (upsertProviderPayment E
                \<lparr>pd_workspaceId = sub_workspaceId sub, pd_subscriptionId = Some (sub_id sub),
                 pd_amount = (if succeeded then si_amount_paid iv else Some (js_num_or (si_amount_due iv) 0)),
                 pd_currency = js_upper (js_or_str (si_currency iv) ''inr''),
                 pd_status = (if succeeded then PayPaid else PayFailed), pd_provider = Stripe,
                 pd_providerPaymentId = Some (js_or_str (si_payment_intent iv) (''invoice:'' @ si_id iv)),
                 pd_providerInvoiceId = Some (si_id iv),
                 pd_paidAt = (if succeeded then Some now else None),
                 pd_metadata = Some (MetaStripeInvoice iv), pd_type = None, pd_description = None\<rparr>)
               (bind_io (sub_update (by_sub_id (sub_id sub))
                  (\<lambda>r. r\<lparr>sub_status := (if succeeded then Active else PastDue)\<rparr>)) (\<lambda>_. ret ()))))"

text \<open>An event whose object is missing throws when a property of it is read.\<close>

definition need :: "'x option \<Rightarrow> ('x \<Rightarrow> 'a bill) \<Rightarrow> 'a bill" where
  "need v f =
     (case v of Some x \<Rightarrow> f x | None \<Rightarrow> throw (TypeErrorException ''Cannot read properties of undefined''))"

definition handleStripeWebhook :: "env \<Rightarrow> stripe_event \<Rightarrow> unit bill" where
  "handleStripeWebhook E ev =
     (if sv_type ev \<in> set [''customer.subscription.created'', ''customer.subscription.updated''] then
        need (sv_subscription ev) (stripe_subscription_event E)
      else if sv_type ev = ''invoice.payment_succeeded'' then
        need (sv_invoice ev) (stripe_invoice_event E True)
      else if sv_type ev = ''invoice.payment_failed'' then
        need (sv_invoice ev) (stripe_invoice_event E False)
      else ret ())"

section \<open>Razorpay\<close>

text \<open>What the subscription events read from whichever entity is present.\<close>

record event_sub =
  ev_id :: "string option"
  ev_subscription_id :: "string option"
  ev_status :: "string option"
  ev_notes_plan :: "string option"

record rp_webhook =
  wh_event :: string
  wh_order :: "rp_order option"
  wh_payment :: "rp_payment option"
  wh_refund_payment_id :: "string option"
  wh_subscription :: "rp_subscription option"
  wh_subscription_raw :: "event_sub option"
  wh_invoice :: "rp_invoice option"

definition event_sub_of :: "rp_webhook \<Rightarrow> event_sub option" where
  "event_sub_of w =
     (case wh_subscription w of
        Some sub \<Rightarrow> Some \<lparr>ev_id = rs_id sub, ev_subscription_id = None, ev_status = rs_status sub,
                        ev_notes_plan = rs_notes_plan sub\<rparr>
      | None \<Rightarrow>
          (case wh_subscription_raw w of
             Some raw \<Rightarrow> Some raw
           | None \<Rightarrow>
               map_option (\<lambda>p. \<lparr>ev_id = pe_id p, ev_subscription_id = pe_subscription_id p,
                                 ev_status = pe_status p,
                                 ev_notes_plan = Option.bind (pe_notes p) n_plan\<rparr>) (wh_payment w)))"

definition refund_processed :: "string option \<Rightarrow> unit bill" where
  "refund_processed payment_id =
     bind_io (pay_find (\<lambda>r. pay_provider r = Razorpay
                 \<and> (payment_id = None \<or> pay_providerPaymentId r = payment_id)))
       (\<lambda>found. let subscriptionId = Option.bind found pay_subscriptionId
          in if \<not> js_truthy subscriptionId then ret ()
             else bind_io (sub_update (by_sub_id (the subscriptionId))
                    (\<lambda>r. r\<lparr>sub_lastRefundStatus := Some ''processed''\<rparr>)) (\<lambda>_. ret ()))"

definition queue_replaced :: "string \<Rightarrow> string option \<Rightarrow> string \<Rightarrow> unit bill" where
  "queue_replaced ws replaced new =
     (if js_truthy replaced \<and> replaced \<noteq> Some new
      then queueRazorpayReplacementCleanup ws (the replaced) new else ret ())"

definition subscription_activated :: "rp_subscription option \<Rightarrow> unit bill" where
  "subscription_activated entity =
     (let i = Option.bind entity rs_id; notesPlan = Option.bind entity rs_notes_plan
      in if \<not> js_truthy i then ret ()
         else bind_io (sub_find (\<lambda>r. sub_pendingProviderSubId r = i))
           (\<lambda>existing. case existing of
              Some sub \<Rightarrow>
                seq_io (sub_update (by_sub_id (sub_id sub))
                   (\<lambda>r. r\<lparr>sub_providerSubId := i,
                         sub_plan := js_or_str (js_or (sub_pendingPlan sub) notesPlan) (sub_plan sub),
                         sub_status := Active, sub_pendingPlan := None,
                         sub_pendingEffectiveAt := None, sub_pendingProviderSubId := None\<rparr>))
                  (queue_replaced (sub_workspaceId sub) (sub_providerSubId sub) (the i))
            | None \<Rightarrow>
                bind_io (sub_find (\<lambda>r. sub_providerSubId r = i))
                  (\<lambda>normal. case normal of
                     None \<Rightarrow> ret ()
                   | Some sub \<Rightarrow>
                       bind_io (sub_update (by_sub_id (sub_id sub))
                          (\<lambda>r. r\<lparr>sub_status := Active,
                                sub_plan := js_or_str (js_or notesPlan (sub_pendingPlan sub)) (sub_plan sub),
                                sub_pendingPlan := None, sub_pendingEffectiveAt := None\<rparr>)) (\<lambda>_. ret ()))))"

definition by_either_sub :: "string \<Rightarrow> subscription \<Rightarrow> bool" where
  "by_either_sub i r = (sub_providerSubId r = Some i \<or> sub_pendingProviderSubId r = Some i)"

definition clear_pending :: "subscription \<Rightarrow> subscription" where
  "clear_pending r =
     r\<lparr>sub_pendingPlan := None, sub_pendingEffectiveAt := None, sub_pendingProviderSubId := None\<rparr>"

text \<open>The update of the row for a status the handler applies to it.\<close>

definition apply_subscription_event ::
    "subscription \<Rightarrow> string \<Rightarrow> string \<Rightarrow> string option \<Rightarrow> unit bill" where
  "apply_subscription_event existing providerSubId providerStatus notesPlan =
     (let isPendingReplacement = (sub_pendingProviderSubId existing = Some providerSubId);
          replaced = (if isPendingReplacement then sub_providerSubId existing else None);
          plan = (if isPendingReplacement
                  then js_or_str (js_or (sub_pendingPlan existing) notesPlan) (sub_plan existing)
                  else js_or_str (js_or notesPlan (sub_pendingPlan existing)) (sub_plan existing));
          shouldClearPending = (isPendingReplacement \<or> sub_pendingPlan existing = Some plan)
      in seq_io (sub_update (by_sub_id (sub_id existing))
           (\<lambda>r. r\<lparr>sub_provider := Some Razorpay,
                 sub_providerSubId :=
                   (if isPendingReplacement then Some providerSubId else sub_providerSubId existing),
                 sub_plan := plan,
                 sub_status := mapRazorpaySubscriptionStatus providerStatus,
                 sub_cancelAtPeriodEnd :=
                   (if isTerminalRazorpaySubscriptionStatus providerStatus then False
                    else sub_cancelAtPeriodEnd existing),
                 sub_pendingPlan := (if shouldClearPending then None else sub_pendingPlan existing),
                 sub_pendingEffectiveAt :=
                   (if shouldClearPending then None else sub_pendingEffectiveAt existing),
                 sub_pendingProviderSubId :=
                   (if isPendingReplacement then None else sub_pendingProviderSubId existing)\<rparr>))
          (queue_replaced (sub_workspaceId existing) replaced providerSubId))"

definition subscription_event :: "env \<Rightarrow> rp_webhook \<Rightarrow> unit bill" where
  "subscription_event E w =
     (let sub = event_sub_of w;
          providerSubId = js_or (Option.bind sub ev_id) (Option.bind sub ev_subscription_id);
          providerStatus = js_lower (js_or_str (Option.bind sub ev_status)
             (if wh_event w = ''subscription.charged'' then ''active'' else []))
      in if \<not> js_truthy providerSubId then ret ()
         else let i = the providerSubId in
           bind_io (sub_find (by_either_sub i))
             (\<lambda>found. case found of
                None \<Rightarrow> ret ()
              | Some existing \<Rightarrow>
                  seq_io (if sub_workspaceId existing \<noteq> []
                          then syncRazorpayInvoices E (sub_workspaceId existing) i else ret ())
                    (let isPendingReplacement = (sub_pendingProviderSubId existing = Some i)
                     in if isPendingReplacement \<and> isTerminalRazorpaySubscriptionStatus providerStatus then
                          seq_io (sub_update (by_sub_id (sub_id existing)) clear_pending)
                            (abandonReplacements E (sub_workspaceId existing) i
                               (''Replacement subscription ended as '' @ providerStatus))
                        else if isPendingReplacement \<and> \<not> isActiveLikeRazorpaySubscriptionStatus providerStatus then
                          bind_io (upsertRazorpayReplacementOperation E
                            \<lparr>rp_workspaceId = sub_workspaceId existing,
                             rp_oldProviderSubId = sub_providerSubId existing,
                             rp_newProviderSubId = Some i, rp_plan = sub_pendingPlan existing,
                             rp_status = Pending, rp_retryCount = None, rp_nextRetryAt = None,
                             rp_lastError = Some (''Replacement subscription is '' @
                               (if providerStatus = [] then ''pending'' else providerStatus)),
                             rp_refundAmount = None\<rparr>) (\<lambda>_. ret ())
                        else apply_subscription_event existing i providerStatus
                               (Option.bind sub ev_notes_plan))))"

definition razorpay_payment_data ::
    "subscription \<Rightarrow> rp_payment \<Rightarrow> int option \<Rightarrow> payment_status \<Rightarrow> int option \<Rightarrow> payment_data" where
  "razorpay_payment_data sub payment amount st paidAt =
     \<lparr>pd_workspaceId = sub_workspaceId sub, pd_subscriptionId = Some (sub_id sub), pd_amount = amount,
      pd_currency = js_upper (js_or_str (pe_currency payment) ''INR''), pd_status = st,
      pd_provider = Razorpay, pd_providerPaymentId = pe_id payment, pd_providerInvoiceId = None,
      pd_paidAt = paidAt, pd_metadata = Some (MetaPayment payment), pd_type = None,
      pd_description = None\<rparr>"

text \<open>A captured payment of a subscription: recorded first, then the row becomes active.\<close>

definition captured_subscription_payment :: "env \<Rightarrow> rp_payment \<Rightarrow> string \<Rightarrow> unit bill" where
  "captured_subscription_payment E payment i =
     bind_io (sub_find (by_either_sub i))
       (\<lambda>found. case found of
          None \<Rightarrow> ret ()
        | Some sub \<Rightarrow>
            let isPendingReplacement = (sub_pendingProviderSubId sub = Some i);
                replaced = (if isPendingReplacement then sub_providerSubId sub else None);
                nextPlan = (if isPendingReplacement
                            then js_or_str (sub_pendingPlan sub) (sub_plan sub)
                            else js_or_str (js_or (Option.bind (pe_notes payment) n_plan) (sub_pendingPlan sub))
                                   (sub_plan sub));
                shouldClearPending = (isPendingReplacement \<or> sub_pendingPlan sub = Some nextPlan)
            in bind_io (clock E) (\<lambda>now.
                 seq_io (upsertProviderPayment E
                    (razorpay_payment_data sub payment (pe_amount payment) PayPaid (Some now)))
                  (seq_io (sub_update (by_sub_id (sub_id sub))
                     (\<lambda>r. r\<lparr>sub_provider := Some Razorpay, sub_status := Active,
                           sub_providerSubId := (if isPendingReplacement then Some i else sub_providerSubId sub),
                           sub_plan := nextPlan,
                           sub_pendingPlan := (if shouldClearPending then None else sub_pendingPlan sub),
                           sub_pendingEffectiveAt :=
                             (if shouldClearPending then None else sub_pendingEffectiveAt sub),
                           sub_pendingProviderSubId :=
                             (if isPendingReplacement then None else sub_pendingProviderSubId sub)\<rparr>))
                    (queue_replaced (sub_workspaceId sub) replaced i))))"

definition payment_captured :: "env \<Rightarrow> rp_payment option \<Rightarrow> unit bill" where
  "payment_captured E payment =
     (case payment of
        None \<Rightarrow> ret ()
      | Some p \<Rightarrow>
          if js_truthy (pe_subscription_id p) then
            captured_subscription_payment E p (the (pe_subscription_id p))
          else if js_truthy (pe_order_id p) then
            bind_io (fetchOrder E (the (pe_order_id p)))
              (\<lambda>order. markRazorpayOrderInvoicePaid E (Some order) (Some p))
          else ret ())"

definition payment_failed_on :: "env \<Rightarrow> rp_payment \<Rightarrow> string \<Rightarrow> subscription \<Rightarrow> unit bill" where
  "payment_failed_on E payment i sub =
     (let isPendingReplacementFailure = (sub_pendingProviderSubId sub = Some i)
      in seq_io (upsertProviderPayment E
           (razorpay_payment_data sub payment (Some (js_num_or (pe_amount payment) 0)) PayFailed None))
         (seq_io
            (sub_update (by_sub_id (sub_id sub))
               (\<lambda>r. if isPendingReplacementFailure then clear_pending r else r\<lparr>sub_status := PastDue\<rparr>))
            (if isPendingReplacementFailure then
               abandonReplacements E (sub_workspaceId sub) i
                 (js_or_str (pe_error_description payment) ''Replacement payment failed'')
             else ret ())))"

definition payment_failed :: "env \<Rightarrow> rp_payment option \<Rightarrow> unit bill" where
  "payment_failed E payment =
     need payment (\<lambda>p.
       bind_io
         (if \<not> js_truthy (pe_subscription_id p) \<and> js_truthy (pe_invoice_id p)
          then bind_io (getInvoice E (the (pe_invoice_id p))) (\<lambda>iv. ret (ie_subscription_id iv))
          else ret (pe_subscription_id p))
         (\<lambda>providerSubId.
            if \<not> js_truthy providerSubId then ret ()
            else bind_io (sub_find (by_either_sub (the providerSubId)))
              (\<lambda>found. case found of
                 None \<Rightarrow> ret ()
               | Some sub \<Rightarrow> payment_failed_on E p (the providerSubId) sub)))"

definition invoice_event :: "env \<Rightarrow> rp_invoice option \<Rightarrow> unit bill" where
  "invoice_event E entity =
     (case entity of
        None \<Rightarrow> ret ()
      | Some iv \<Rightarrow>
          if \<not> js_truthy (ie_subscription_id iv) then ret ()
          else bind_io (sub_find (\<lambda>r. sub_providerSubId r = ie_subscription_id iv))
            (\<lambda>found. case found of
               None \<Rightarrow> ret ()
             | Some sub \<Rightarrow> upsertRazorpayInvoice E iv (sub_id sub) (sub_workspaceId sub)))"

definition subscription_event_names :: "string list" where
  "subscription_event_names =
     [''subscription.charged'', ''subscription.completed'', ''subscription.cancelled'',
      ''subscription.pending'', ''subscription.halted'', ''subscription.paused'',
      ''subscription.resumed'', ''subscription.authenticated'', ''subscription.updated'']"

definition handleRazorpayWebhook :: "env \<Rightarrow> rp_webhook \<Rightarrow> unit bill" where
  "handleRazorpayWebhook E w =
     (if wh_event w = ''order.paid'' then markRazorpayOrderInvoicePaid E (wh_order w) (wh_payment w)
      else if wh_event w = ''refund.processed'' then refund_processed (wh_refund_payment_id w)
      else if wh_event w = ''subscription.activated'' then subscription_activated (wh_subscription w)
      else if wh_event w \<in> set subscription_event_names then subscription_event E w
      else if wh_event w = ''payment.captured'' then payment_captured E (wh_payment w)
      else if wh_event w = ''payment.failed'' then payment_failed E (wh_payment w)
      else if wh_event w \<in> set [''invoice.paid'', ''invoice.issued''] then invoice_event E (wh_invoice w)
      else ret ())"

section \<open>Routes\<close>

definition stripeWebhook ::
    "env \<Rightarrow> (string \<Rightarrow> string \<Rightarrow> stripe_event option) \<Rightarrow> string \<Rightarrow> string \<Rightarrow> unit bill" where
  "stripeWebhook E construct rawBody signature =
     bind_io (stripe_verifyWebhookSignature construct rawBody signature) (handleStripeWebhook E)"

text \<open>\<open>parse\<close> is the framework's body parser: the handler gets the parsed body of the request.\<close>

definition razorpayWebhook ::
    "env \<Rightarrow> (string \<Rightarrow> string) \<Rightarrow> (string \<Rightarrow> rp_webhook) \<Rightarrow> string \<Rightarrow> string \<Rightarrow> unit bill" where
  "razorpayWebhook E hmac parse rawBody signature =
     (if \<not> rp_verifyWebhookSignature hmac rawBody signature
      then throw (BadRequestException ''Invalid webhook signature'')
      else handleRazorpayWebhook E (parse rawBody))"

section \<open>What the handlers keep\<close>

context book_order begin

lemma w_need: "(\<And>x. keeps R (f x)) \<Longrightarrow> keeps R (need v f)"
  unfolding need_def by (intro b_intros)

lemma w_stripe_subscription: "keeps R (stripe_subscription_event E sub)"
  unfolding stripe_subscription_event_def Let_def
  by (intro b_intros b_sub_upsert) (simp add: stripe_columns_def)

lemma w_stripe_invoice: "keeps R (stripe_invoice_event E b iv)"
  unfolding stripe_invoice_event_def by (intro b_intros b_billing) simp

lemma w_stripe: "keeps R (handleStripeWebhook E ev)"
  unfolding handleStripeWebhook_def
  by (intro b_intros w_need w_stripe_subscription w_stripe_invoice)

lemma w_refund: "keeps R (refund_processed i)"
  unfolding refund_processed_def Let_def by (intro b_intros) simp

lemma w_queue: "keeps R (queue_replaced ws x y)"
  unfolding queue_replaced_def by (intro b_intros)

lemma w_activated: "keeps R (subscription_activated entity)"
  unfolding subscription_activated_def Let_def by (intro b_intros w_queue) simp_all

lemma w_apply: "keeps R (apply_subscription_event sub i st plan)"
  unfolding apply_subscription_event_def Let_def by (intro b_intros w_queue) simp

lemma w_subscription: "keeps R (subscription_event E w)"
  unfolding subscription_event_def Let_def
  by (intro b_intros b_billing w_apply) (simp add: clear_pending_def)

lemma w_captured_subscription: "keeps R (captured_subscription_payment E p i)"
  unfolding captured_subscription_payment_def Let_def by (intro b_intros b_billing w_queue) simp

lemma w_captured: "keeps R (payment_captured E p)"
  unfolding payment_captured_def
  by (intro b_intros b_billing w_captured_subscription t_service service_calls)

lemma w_failed: "keeps R (payment_failed E p)"
  unfolding payment_failed_def payment_failed_on_def Let_def
  by (intro w_need b_intros b_billing t_service service_calls) (simp add: clear_pending_def)

lemma w_invoice: "keeps R (invoice_event E iv)"
  unfolding invoice_event_def by (intro b_intros b_billing)

lemma w_razorpay: "keeps R (handleRazorpayWebhook E w)"
  unfolding handleRazorpayWebhook_def
  by (intro b_intros b_billing w_refund w_activated w_subscription w_captured w_failed w_invoice)

lemma w_routes:
  "keeps R (stripeWebhook E construct body sig)" "keeps R (razorpayWebhook E hmac parse body sig)"
  unfolding stripeWebhook_def razorpayWebhook_def stripe_verifyWebhookSignature_def
  by (intro b_intros w_stripe w_razorpay)+

end

section \<open>Invoice synchronisation only writes invoices\<close>

definition invoices_only :: "world \<Rightarrow> world \<Rightarrow> bool" where
  "invoices_only s t \<longleftrightarrow>
     w_subs t = w_subs s \<and> w_ops t = w_ops s \<and> w_pays t = w_pays s \<and> w_usage t = w_usage s
     \<and> w_locks t = w_locks s \<and> w_queued t = w_queued s"

interpretation inv_only: step_order invoices_only
  by unfold_locales (simp_all add: invoices_only_def)

lemma invoices_only_tables:
  "keeps invoices_only (inv_find P)" "keeps invoices_only (sub_find Q)"
  "keeps invoices_only (inv_updateMany P h)" "keeps invoices_only (inv_create E r)"
  "keeps invoices_only (fetchSubscriptionInvoices E i)"
proof -
  show "keeps invoices_only (inv_find P)" "keeps invoices_only (sub_find Q)"
    "keeps invoices_only (inv_updateMany P h)" "keeps invoices_only (inv_create E r)"
    by (auto simp: keeps_def inv_find_def sub_find_def gets_def inv_updateMany_def inv_create_def
        Let_def invoices_only_def)
  have "only_calls s t \<Longrightarrow> invoices_only s t" for s t
    by (auto simp: invoices_only_def only_calls_def)
  then show "keeps invoices_only (fetchSubscriptionInvoices E i)"
    using only_calls_service(10) [of E i] by (simp add: keeps_def)
qed

lemma sync_invoices_only: "keeps invoices_only (syncRazorpayInvoices E ws i)"
  unfolding syncRazorpayInvoices_def upsertRazorpayInvoice_def inv_upsert_def Let_def
  by (intro inv_only.r_intros invoices_only_tables)

lemma sync_returns: "\<exists>t. syncRazorpayInvoices E ws i s = (Inr (), t) \<and> invoices_only s t"
proof -
  have "fst (syncRazorpayInvoices E ws i s) = Inr ()"
    by (simp add: syncRazorpayInvoices_def catch_io_def ret_def split: prod.split sum.split)
  with keepsD [OF sync_invoices_only, of s E ws i] show ?thesis
    by (cases "syncRazorpayInvoices E ws i s") simp
qed

lemma clear_pending_row:
  assumes "subs_ok s" and "r \<in> set (w_subs s)"
  shows "sub_update (by_sub_id (sub_id r)) clear_pending s =
    (Inr (clear_pending r), s\<lparr>w_subs := upd_where (by_sub_id (sub_id r)) (\<lambda>_. clear_pending r) (w_subs s)\<rparr>)"
  by (rule sub_update_keep(1) [OF assms]) (simp_all add: clear_pending_def)

section \<open>Properties\<close>

text \<open>
  The webhook routes: a request whose signature does not match changes nothing and is
  refused; every other request, whatever it holds and however the provider answers, keeps the
  operation, subscription, payment and invoice tables consistent, with their unique columns.
\<close>

theorem webhooks_keep_tables:
  assumes "fresh_ids E" and "tables_ok s"
  shows "tables_ok (snd (razorpayWebhook E hmac parse body sig s))
         \<and> tables_ok (snd (stripeWebhook E construct body sig s))
         \<and> (hmac body \<noteq> sig \<longrightarrow> razorpayWebhook E hmac parse body sig s =
              (Inl (BadRequestException ''Invalid webhook signature''), s))
         \<and> (construct body sig = None \<longrightarrow> stripeWebhook E construct body sig s =
              (Inl (InternalServerErrorException ''Invalid Stripe webhook signature''), s))"
  using keepsD [OF tables.w_routes(1) [where E = E and construct = construct and body = body and sig = sig], of s]
    keepsD [OF tables.w_routes(2) [where E = E and hmac = hmac and parse = parse and body = body and sig = sig], of s]
    assms
  by (auto simp: consistent_def razorpayWebhook_def rp_verifyWebhookSignature_def stripeWebhook_def
      stripe_verifyWebhookSignature_def io_simps)

definition sample_webhook :: rp_webhook where
  "sample_webhook = \<lparr>wh_event = ''subscription.cancelled'', wh_order = None, wh_payment = None,
     wh_refund_payment_id = None, wh_subscription = Some (sample_rp_sub ''n'' ''cancelled''),
     wh_subscription_raw = None, wh_invoice = None\<rparr>"

theorem webhooks_keep_tables_witness:
  "tables_ok (snd (razorpayWebhook sample_env (\<lambda>b. ''ok'') (\<lambda>b. sample_webhook) ''body'' ''ok'' refund_world))"
  using webhooks_keep_tables [OF fresh_sample tables_ok_sample(2), where hmac = "\<lambda>b. ''ok''"
      and parse = "\<lambda>b. sample_webhook" and body = "''body''" and sig = "''ok''" and E = sample_env] by simp

text \<open>
  C31: A replacement that ends before it was activated never harms the running subscription: the
  row only loses what was pending, its plan, status and provider subscription stay, no payment
  is touched, and every replacement operation leading to the ended subscription is finished.
\<close>

theorem ended_replacement_harmless:
  assumes "subs_ok s" and "find (by_either_sub i) (w_subs s) = Some r"
    and "sub_pendingProviderSubId r = Some i" and "i \<noteq> []"
    and "wh_event w \<in> set subscription_event_names" and "event_sub_of w = Some e" and "ev_id e = Some i"
    and "ev_status e = Some st" and "isTerminalRazorpaySubscriptionStatus (js_lower st)"
  shows "\<exists>t. handleRazorpayWebhook E w s = (Inr (), t)
     \<and> w_subs t = upd_where (by_sub_id (sub_id r)) (\<lambda>_. clear_pending r) (w_subs s)
     \<and> w_pays t = w_pays s
     \<and> (\<forall>x \<in> set (w_ops t). op_workspaceId x = sub_workspaceId r \<and> op_provider x = Razorpay
           \<and> op_type x = ReplaceSubscription \<and> op_newProviderSubId x = Some i
           \<longrightarrow> isTerminalRazorpayOperationStatus (op_status x))"
proof -
  have r: "r \<in> set (w_subs s)" using find_Some_in [OF assms(2)] by simp
  have "st \<noteq> []" using assms(9) by (auto simp: isTerminalRazorpaySubscriptionStatus_def)
  obtain u where u: "(if sub_workspaceId r \<noteq> [] then syncRazorpayInvoices E (sub_workspaceId r) i else ret ()) s
      = (Inr (), u)" and only: "invoices_only s u"
    using sync_returns [of E "sub_workspaceId r" i s] inv_only.R_refl by (cases "sub_workspaceId r = []") (auto simp: ret_def)
  then have same: "w_subs u = w_subs s" "w_pays u = w_pays s" by (auto simp: invoices_only_def)
  let ?v = "u\<lparr>w_subs := upd_where (by_sub_id (sub_id r)) (\<lambda>_. clear_pending r) (w_subs s)\<rparr>"
  have ok: "subs_ok u" "r \<in> set (w_subs u)" using assms(1) r same by (simp_all add: subs_ok_def)
  have "handleRazorpayWebhook E w s = subscription_event E w s"
    using assms(5) by (auto simp: handleRazorpayWebhook_def subscription_event_names_def)
  also have "\<dots> =
      abandonReplacements E (sub_workspaceId r) i (''Replacement subscription ended as '' @ js_lower st) ?v"
    using assms(2-4,6-9) \<open>st \<noteq> []\<close> u clear_pending_row [OF ok] same
    by (simp add: subscription_event_def sub_find_def io_simps Let_def)
  finally show ?thesis
    by (auto simp: abandonReplacements_def io_simps op_updateMany_def ball_upd_where same terminal_status_iff)
qed

definition pending_sub :: subscription where
  "pending_sub = sample_sub\<lparr>sub_pendingProviderSubId := Some ''n'', sub_pendingPlan := Some ''pro''\<rparr>"

definition pending_world :: world where
  "pending_world = empty_world\<lparr>w_subs := [pending_sub]\<rparr>"

lemma pending_world_ok:
  "subs_ok pending_world" "tables_ok pending_world"
  "find (by_either_sub ''n'') (w_subs pending_world) = Some pending_sub"
  "sub_pendingProviderSubId pending_sub = Some ''n''"
  by (simp_all add: tables_ok_def subs_ok_def pays_ok_def invs_ok_def ops_ok_def pending_world_def
      pending_sub_def empty_world_def by_either_sub_def)

theorem ended_replacement_witness:
  "\<exists>t. handleRazorpayWebhook sample_env sample_webhook pending_world = (Inr (), t)
     \<and> map sub_status (w_subs t) = [Active] \<and> map sub_providerSubId (w_subs t) = [Some ''b'']
     \<and> map sub_pendingProviderSubId (w_subs t) = [None]"
proof -
  have ended: "isTerminalRazorpaySubscriptionStatus (js_lower ''cancelled'')" by code_simp
  have ev: "event_sub_of sample_webhook = Some \<lparr>ev_id = Some ''n'', ev_subscription_id = None,
      ev_status = Some ''cancelled'', ev_notes_plan = Some ''pro''\<rparr>"
    and name: "wh_event sample_webhook \<in> set subscription_event_names"
    by (simp_all add: event_sub_of_def sample_webhook_def sample_rp_sub_def subscription_event_names_def)
  from ended_replacement_harmless [OF pending_world_ok(1,3,4) _ name ev _ _ ended, of sample_env]
  show ?thesis
    by (auto simp: pending_world_def pending_sub_def sample_sub_def clear_pending_def by_sub_id_def empty_world_def)
qed

text \<open>
  C30: A captured payment of a subscription, running or pending: the payment is recorded once as
  paid, the row becomes active on the paying provider subscription and no longer waits for it,
  every other row stays, and the subscription it replaces, if any, goes to the clean-up queue.
\<close>

theorem captured_payment_activates:
  assumes "fresh_ids E" and "tables_ok s" and "find (by_either_sub i) (w_subs s) = Some r"
    and "\<forall>x \<in> set (w_subs s). sub_id x \<noteq> sub_id r \<longrightarrow> sub_providerSubId x \<noteq> Some i"
    and "pe_subscription_id p = Some i" and "i \<noteq> []" and "pe_id p = Some k" and "k \<noteq> []"
    and "pe_amount p = Some a"
  shows "\<exists>t row pay. payment_captured E (Some p) s = (Inr (), t)
     \<and> w_subs t = upd_where (by_sub_id (sub_id r)) (\<lambda>_. row) (w_subs s)
     \<and> sub_status row = Active \<and> sub_providerSubId row = Some i
     \<and> sub_pendingProviderSubId row =
         (if sub_pendingProviderSubId r = Some i then None else sub_pendingProviderSubId r)
     \<and> filter (by_payment_id Razorpay (Some k)) (w_pays t) = [pay] \<and> pay_status pay = PayPaid
     \<and> pay_amount pay = a \<and> pay_subscriptionId pay = Some (sub_id r)
     \<and> length (w_queued t) = length (w_queued s)
         + (if sub_pendingProviderSubId r = Some i \<and> js_truthy (sub_providerSubId r)
               \<and> sub_providerSubId r \<noteq> Some i then 1 else 0)"
proof -
  let ?d = "razorpay_payment_data r p (pe_amount p) PayPaid (Some (env_now E s))"
  have r: "r \<in> set (w_subs s)" "sub_providerSubId r = Some i \<or> sub_pendingProviderSubId r = Some i"
    using find_Some_in [OF assms(3)] by (auto simp: by_either_sub_def)
  have d: "pd_providerPaymentId ?d = Some k" "pd_amount ?d = Some a" "pd_provider ?d = Razorpay"
    using assms(7,9) by (simp_all add: razorpay_payment_data_def)
  obtain pay u where u: "upsertProviderPayment E ?d s = (Inr pay, u)" and rec: "recorded ?d a s (Inr pay, u)"
    and frame: "payments_only s u" "tables_ok u"
    using payment_recorded [OF assms(1,2) d(1) assms(8) d(2)] by blast
  have pays: "filter (by_payment_id Razorpay (Some k)) (w_pays u) = [pay]" and "payment_columns ?d a pay = pay"
    using rec d by (simp_all add: recorded_def)
  note cols = columns_fields [OF this(2)]
  have same: "w_subs u = w_subs s" "w_queued u = w_queued s" "subs_ok u" "r \<in> set (w_subs u)"
    using frame r(1) by (simp_all add: payments_only_def tables_ok_def)
  have upd: "sub_update (by_sub_id (sub_id r)) f u =
      (Inr (f r), u\<lparr>w_subs := upd_where (by_sub_id (sub_id r)) (\<lambda>_. f r) (w_subs s)\<rparr>)"
    if "sub_id (f r) = sub_id r" "sub_providerSubId (f r) = Some i" for f
    using sub_update_move [OF same(3,4), of f] assms(4) that same(1) by simp
  have "\<exists>t row. payment_captured E (Some p) s = (Inr (), t)
     \<and> w_subs t = upd_where (by_sub_id (sub_id r)) (\<lambda>_. row) (w_subs s) \<and> w_pays t = w_pays u
     \<and> sub_status row = Active \<and> sub_providerSubId row = Some i
     \<and> sub_pendingProviderSubId row =
         (if sub_pendingProviderSubId r = Some i then None else sub_pendingProviderSubId r)
     \<and> length (w_queued t) = length (w_queued s)
         + (if sub_pendingProviderSubId r = Some i \<and> js_truthy (sub_providerSubId r)
               \<and> sub_providerSubId r \<noteq> Some i then 1 else 0)"
    using assms(3,5,6) r(2) u
    by (cases "sub_pendingProviderSubId r = Some i")
       (auto simp: payment_captured_def captured_subscription_payment_def sub_find_def io_simps clock_def
          upd queue_replaced_def queueRazorpayReplacementCleanup_def same(2) Let_def)
  with pays cols show ?thesis by (auto simp: razorpay_payment_data_def)
qed

theorem captured_payment_witness:
  "\<exists>t. payment_captured sample_env (Some (sample_rp_payment\<lparr>pe_subscription_id := Some ''n''\<rparr>)) pending_world
         = (Inr (), t) \<and> map sub_providerSubId (w_subs t) = [Some ''n''] \<and> length (w_queued t) = 1"
proof -
  have "\<forall>x \<in> set (w_subs pending_world). sub_id x \<noteq> sub_id pending_sub \<longrightarrow> sub_providerSubId x \<noteq> Some ''n''"
    by (simp add: pending_world_def)
  from captured_payment_activates [OF fresh_sample pending_world_ok(2,3) this,
      of sample_env "sample_rp_payment\<lparr>pe_subscription_id := Some ''n''\<rparr>" "''pay_1''" 999]
  show ?thesis
    by (auto simp: sample_rp_payment_def pending_world_def pending_sub_def sample_sub_def empty_world_def by_sub_id_def)
qed

text \<open>
  A failed payment marks the subscription it belongs to as past due only when that
  subscription is the running one: for a pending replacement the running plan, status and
  provider subscription are kept and only what was pending is dropped.
\<close>

theorem failed_payment_outcome:
  assumes "fresh_ids E" and "tables_ok s" and "find (by_either_sub i) (w_subs s) = Some r"
    and "pe_subscription_id p = Some i" and "i \<noteq> []" and "pe_id p = Some k" and "k \<noteq> []"
  shows "\<exists>t. payment_failed E (Some p) s = (Inr (), t)
     \<and> w_subs t = upd_where (by_sub_id (sub_id r))
         (\<lambda>_. if sub_pendingProviderSubId r = Some i then clear_pending r else r\<lparr>sub_status := PastDue\<rparr>)
         (w_subs s)
     \<and> w_queued t = w_queued s \<and> w_calls t = w_calls s"
proof -
  let ?d = "razorpay_payment_data r p (Some (js_num_or (pe_amount p) 0)) PayFailed None"
  have r: "r \<in> set (w_subs s)" using find_Some_in [OF assms(3)] by simp
  have d: "pd_providerPaymentId ?d = Some k" "pd_amount ?d = Some (js_num_or (pe_amount p) 0)"
    using assms(6) by (simp_all add: razorpay_payment_data_def)
  obtain pay u where u: "upsertProviderPayment E ?d s = (Inr pay, u)" and frame: "payments_only s u" "tables_ok u"
    using payment_recorded [OF assms(1,2) d(1) assms(7) d(2)] by blast
  have same: "w_subs u = w_subs s" "w_queued u = w_queued s" "w_calls u = w_calls s"
    "subs_ok u" "r \<in> set (w_subs u)"
    using frame r by (simp_all add: payments_only_def tables_ok_def)
  have upd: "sub_update (by_sub_id (sub_id r)) f u =
      (Inr (f r), u\<lparr>w_subs := upd_where (by_sub_id (sub_id r)) (\<lambda>_. f r) (w_subs s)\<rparr>)"
    if "sub_id (f r) = sub_id r" "sub_providerSubId (f r) = sub_providerSubId r" for f
    using sub_update_keep(1) [OF same(4,5), of f] that same(1) by simp
  show ?thesis
    using assms(3-5) u
    by (cases "sub_pendingProviderSubId r = Some i")
       (auto simp: payment_failed_def need_def payment_failed_on_def sub_find_def io_simps upd same(2,3)
          clear_pending_def abandonReplacements_def op_updateMany_def Let_def)
qed

theorem failed_payment_witness:
  "\<exists>t. payment_failed sample_env (Some (sample_rp_payment\<lparr>pe_subscription_id := Some ''n''\<rparr>)) pending_world
         = (Inr (), t) \<and> map sub_status (w_subs t) = [Active]"
proof -
  from failed_payment_outcome [OF fresh_sample pending_world_ok(2,3),
      of sample_env "sample_rp_payment\<lparr>pe_subscription_id := Some ''n''\<rparr>" "''pay_1''"]
  show ?thesis
    by (auto simp: sample_rp_payment_def pending_world_def pending_sub_def sample_sub_def empty_world_def
        by_sub_id_def clear_pending_def)
qed

text \<open>
  A paid Stripe invoice that belongs to no subscription (a one-off invoice has a null
  subscription) is matched against the rows without provider subscription: the first such row,
  of whatever workspace, is set active and the payment is booked on it.
\<close>

theorem stripe_null_subscription:
  assumes "fresh_ids E" and "tables_ok s" and "si_subscription iv = None"
    and "find (\<lambda>r. sub_providerSubId r = None) (w_subs s) = Some r" and "si_amount_paid iv = Some a"
  shows "\<exists>t pay. handleStripeWebhook E \<lparr>sv_type = ''invoice.payment_succeeded'', sv_subscription = None,
              sv_invoice = Some iv\<rparr> s = (Inr (), t)
     \<and> w_subs t = upd_where (by_sub_id (sub_id r)) (\<lambda>_. r\<lparr>sub_status := Active\<rparr>) (w_subs s)
     \<and> pay \<in> set (w_pays t) \<and> pay_workspaceId pay = sub_workspaceId r \<and> pay_status pay = PayPaid"
proof -
  let ?k = "js_or_str (si_payment_intent iv) (''invoice:'' @ si_id iv)"
  let ?d = "\<lparr>pd_workspaceId = sub_workspaceId r, pd_subscriptionId = Some (sub_id r), pd_amount = si_amount_paid iv,
     pd_currency = js_upper (js_or_str (si_currency iv) ''inr''), pd_status = PayPaid, pd_provider = Stripe,
     pd_providerPaymentId = Some ?k, pd_providerInvoiceId = Some (si_id iv), pd_paidAt = Some (env_now E s),
     pd_metadata = Some (MetaStripeInvoice iv), pd_type = None, pd_description = None\<rparr>"
  have r: "r \<in> set (w_subs s)" using find_Some_in [OF assms(4)] by simp
  have k: "pd_providerPaymentId ?d = Some ?k" "?k \<noteq> []" "pd_amount ?d = Some a"
    using assms(5) by (auto simp: js_or_str_def elim: js_truthyE)
  obtain pay u where u: "upsertProviderPayment E ?d s = (Inr pay, u)" and rec: "recorded ?d a s (Inr pay, u)"
    and frame: "payments_only s u" "tables_ok u"
    using payment_recorded [OF assms(1,2) k] by blast
  have "pay \<in> set (filter (by_payment_id Stripe (Some ?k)) (w_pays u))" and "payment_columns ?d a pay = pay"
    using rec by (simp_all add: recorded_def)
  then have pay: "pay \<in> set (w_pays u)" "pay_workspaceId pay = sub_workspaceId r" "pay_status pay = PayPaid"
    using columns_fields [of ?d a pay] by simp_all
  have same: "w_subs u = w_subs s" "subs_ok u" "r \<in> set (w_subs u)"
    using frame r by (simp_all add: payments_only_def tables_ok_def)
  from sub_update_keep(1) [OF same(2,3), of "\<lambda>r. r\<lparr>sub_status := Active\<rparr>"] show ?thesis
    using assms(3,4) u pay same(1)
    by (auto simp: handleStripeWebhook_def need_def stripe_invoice_event_def sub_find_def io_simps clock_def)
qed

definition sample_stripe_invoice :: stripe_invoice where
  "sample_stripe_invoice = \<lparr>si_id = ''in_1'', si_subscription = None, si_status = ''paid'', si_total = Some 500,
     si_amount_paid = Some 500, si_amount_due = Some 0, si_currency = Some ''inr'', si_payment_intent = None,
     si_metadata_type = None, si_description = None, si_line_description = None,
     si_hosted_invoice_url = None, si_invoice_pdf = None, si_created = None, si_due_date = None,
     si_paid_at = None, si_period_start = None, si_period_end = None\<rparr>"

theorem stripe_null_subscription_witness:
  "\<exists>t. handleStripeWebhook sample_env \<lparr>sv_type = ''invoice.payment_succeeded'', sv_subscription = None,
              sv_invoice = Some sample_stripe_invoice\<rparr>
         (empty_world\<lparr>w_subs := [blank_subscription ''someone'' ''trial'' Expired]\<rparr>) = (Inr (), t)
     \<and> map sub_status (w_subs t) = [Active]"
proof -
  let ?s = "empty_world\<lparr>w_subs := [blank_subscription ''someone'' ''trial'' Expired]\<rparr>"
  have ok: "tables_ok ?s"
    by (simp add: tables_ok_def ops_ok_def subs_ok_def pays_ok_def invs_ok_def empty_world_def blank_subscription_def)
  have found: "find (\<lambda>r. sub_providerSubId r = None) (w_subs ?s) = Some (blank_subscription ''someone'' ''trial'' Expired)"
    by (simp add: blank_subscription_def)
  have iv: "si_subscription sample_stripe_invoice = None" "si_amount_paid sample_stripe_invoice = Some 500"
    by (simp_all add: sample_stripe_invoice_def)
  from stripe_null_subscription [OF fresh_sample ok iv(1) found iv(2), of sample_env] show ?thesis
    by (auto simp: by_sub_id_def)
qed

end
