(* ===== verification/Billing_Checkout.thy ===== *)
theory Billing_Checkout
  imports Billing_Plans Billing_Webhooks
begin

text \<open>
  The requests of a workspace (\<^verbatim>\<open>billing.service.ts\<close>, \<^verbatim>\<open>billing.controller.ts\<close>): the
  trial, the overview, add-ons, checkout with either provider, plan changes, cancellation, the
  payment of an invoice and the expiry of trials. A variable of the source that is read after a
  database update keeps the row as it was read, as in the source.
\<close>

section \<open>Locks and tests\<close>

text \<open>The key is the workspace id of the request, which is undefined when no workspace was resolved.\<close>

definition withCheckoutLock :: "string option \<Rightarrow> 'a bill \<Rightarrow> 'a bill" where
  "withCheckoutLock ws action =
     bind_io (gets (\<lambda>s. ws \<in> set (w_locks s)))
       (\<lambda>held. if held
          then throw (BadRequestException ''Checkout already in progress. Please wait a few seconds.'')
          else seq_io (modify (\<lambda>s. s\<lparr>w_locks := ws # w_locks s\<rparr>))
                 (finally_io action (modify (\<lambda>s. s\<lparr>w_locks := filter (\<lambda>x. x \<noteq> ws) (w_locks s)\<rparr>))))"

definition hasActivePaidSubscription :: "subscription option \<Rightarrow> bool" where
  "hasActivePaidSubscription sub =
     (case sub of
        None \<Rightarrow> False
      | Some r \<Rightarrow> sub_plan r \<noteq> ''trial'' \<and> sub_status r = Active \<and> sub_provider r \<noteq> None
                  \<and> js_truthy (sub_providerSubId r))"

definition isReusableRazorpaySubscription :: "env \<Rightarrow> rp_subscription \<Rightarrow> string \<Rightarrow> bool" where
  "isReusableRazorpaySubscription E sub planKey =
     (let status = lower_status (rs_status sub) [];
          expectedPlanId = Option.bind (PLANS E planKey) plan_razorpayPlanId
      in js_truthy (rs_id sub) \<and> status \<notin> set [''cancelled'', ''completed'', ''expired'']
         \<and> (\<not> js_truthy expectedPlanId \<or> \<not> js_truthy (rs_plan_id sub) \<or> rs_plan_id sub = expectedPlanId)
         \<and> (\<not> js_truthy (rs_notes_plan sub) \<or> rs_notes_plan sub = Some planKey))"

section \<open>Trial and overview\<close>

definition trial_days :: int where
  "trial_days = js_num_or (plan_trialDays plan_trial) 14"

definition complete_trial :: "subscription \<Rightarrow> subscription \<Rightarrow> subscription" where
  "complete_trial existing r =
     (let trialStart = js_default (js_nullish (sub_trialStartAt existing) (sub_currentPeriodStart existing))
                         (sub_createdAt existing);
          trialEnd = js_default (js_nullish (sub_trialEndAt existing) (sub_currentPeriodEnd existing))
                         (trialStart + trial_days * 86400000)
      in r\<lparr>sub_trialStartAt := Some (js_default (sub_trialStartAt existing) trialStart),
           sub_trialEndAt := Some (js_default (sub_trialEndAt existing) trialEnd),
           sub_currentPeriodStart := Some (js_default (sub_currentPeriodStart existing) trialStart),
           sub_currentPeriodEnd := Some (js_default (sub_currentPeriodEnd existing) trialEnd)\<rparr>)"

definition trial_incomplete :: "subscription \<Rightarrow> bool" where
  "trial_incomplete r =
     (sub_status r = Trialing
      \<and> (sub_trialStartAt r = None \<or> sub_trialEndAt r = None
         \<or> sub_currentPeriodStart r = None \<or> sub_currentPeriodEnd r = None))"

definition ensureTrialSubscription :: "env \<Rightarrow> string \<Rightarrow> subscription bill" where
  "ensureTrialSubscription E ws =
     bind_io (sub_find (by_workspace ws))
       (\<lambda>found. bind_io (clock E) (\<lambda>now.
          case found of
            Some existing \<Rightarrow>
              if trial_incomplete existing then sub_update (by_workspace ws) (complete_trial existing)
              else ret existing
          | None \<Rightarrow>
              (let trialEnd = env_addDays E now trial_days
               in sub_create E ((blank_subscription ws ''trial'' Trialing)
                    \<lparr>sub_trialStartAt := Some now, sub_trialEndAt := Some trialEnd,
                     sub_currentPeriodStart := Some now, sub_currentPeriodEnd := Some trialEnd\<rparr>))))"

record billing_me =
  me_subscription :: subscription
  me_planKey :: string
  me_planName :: string
  me_limits :: "billing_metric \<Rightarrow> int"
  me_features :: "billing_feature \<Rightarrow> bool"
  me_addonPricing :: "plan_addons option"
  me_usage_agents :: int
  me_usage_channels :: int
  me_usage_messagesPerMonth :: int
  me_usage_contacts :: int

definition getBillingMe :: "env \<Rightarrow> string \<Rightarrow> billing_me bill" where
  "getBillingMe E ws =
     bind_io (ensureTrialSubscription E ws)
       (\<lambda>sub. let planKey = js_or_str (Some (sub_plan sub)) ''trial''; plan = plan_of_key E planKey
          in bind_io (getUsageMap E ws)
            (\<lambda>usageMap. ret
               \<lparr>me_subscription = sub, me_planKey = planKey, me_planName = plan_name plan,
                me_limits = plan_limits plan, me_features = plan_features plan,
                me_addonPricing = plan_addons plan,
                me_usage_agents = js_num_or (usageMap ''agents'') 0,
                me_usage_channels = js_num_or (usageMap ''channels'') 0,
                me_usage_messagesPerMonth = js_num_or (usageMap ''messagesPerMonth'') 0,
                me_usage_contacts = js_num_or (usageMap ''contacts'') 0\<rparr>))"

section \<open>Add-ons\<close>

text \<open>The em dash and the multiplication sign of the messages, as UTF-8 bytes.\<close>

definition em_dash :: string where
  "em_dash = [CHR 0xE2, CHR 0x80, CHR 0x94]"

definition times_sign :: string where
  "times_sign = [CHR 0xC3, CHR 0x97]"

datatype addon_reply =
    AddonOrder "string option" "string option" int string string
  | AddonInvoice string "string option" int string

definition razorpay_addon ::
    "env \<Rightarrow> string \<Rightarrow> subscription \<Rightarrow> string \<Rightarrow> int \<Rightarrow> int \<Rightarrow> string \<Rightarrow> addon_reply bill" where
  "razorpay_addon E ws sub type quantity pricePerUnit description =
     (let amount = quantity * pricePerUnit
      in bind_io (createInvoice E (if js_truthy (sub_providerCustomerId sub) then sub_providerCustomerId sub else None)
            amount description
            [(''workspaceId'', ws), (''subscriptionId'', sub_id sub), (''type'', type)])
         (\<lambda>rpInvoice.
            bind_io (inv_create E
              \<lparr>inv_id = [], inv_workspaceId = ws, inv_subscriptionId = Some (sub_id sub),
               inv_provider = Razorpay, inv_providerInvoiceId = ie_id rpInvoice,
               inv_providerPaymentId = None, inv_type = TypeAddon, inv_description = Some description,
               inv_amount = amount, inv_amountDue = Some amount, inv_amountPaid = Some 0,
               inv_currency = ''INR'', inv_status = InvOpen, inv_invoiceDate = None, inv_dueDate = None,
               inv_paidAt = None, inv_periodStart = None, inv_periodEnd = None,
               inv_invoiceUrl = ie_short_url rpInvoice, inv_invoicePdf = None,
               inv_metadata = Some (MetaRpInvoice rpInvoice), inv_createdAt = 0\<rparr>)
             (\<lambda>invoice.
                bind_io (createOrder E amount ''INR''
                  [(''workspaceId'', ws), (''invoiceDbId'', inv_id invoice),
                   (''providerInvoiceId'', inv_providerInvoiceId invoice), (''type'', type),
                   (''quantity'', js_int_str quantity),
                   (''subscriptionId'', js_or_str (sub_providerSubId sub) [])])
                 (\<lambda>order.
                    bind_io (pay_create E
                      \<lparr>pay_id = [], pay_workspaceId = ws, pay_subscriptionId = Some (sub_id sub),
                       pay_amount = amount, pay_currency = ''INR'', pay_status = PayPending,
                       pay_provider = Razorpay, pay_providerPaymentId = None,
                       pay_providerInvoiceId = oe_id order,
                       pay_metadata = Some (MetaAddonOrder order type quantity pricePerUnit description),
                       pay_paidAt = None, pay_type = TypeAddon, pay_description = Some description,
                       pay_createdAt = 0\<rparr>)
                     (\<lambda>payment. ret (AddonOrder (oe_id order) (env_var E ''RAZORPAY_KEY_ID'') amount
                                       description (pay_id payment)))))))"

definition stripe_addon ::
    "env \<Rightarrow> string \<Rightarrow> subscription \<Rightarrow> int \<Rightarrow> int \<Rightarrow> string \<Rightarrow> addon_reply bill" where
  "stripe_addon E ws sub quantity pricePerUnit description =
     (let amount = quantity * pricePerUnit
      in bind_io (stripe_createOneTimeInvoice E (sub_providerCustomerId sub) amount ''inr'' description)
         (\<lambda>iv. bind_io (clock E) (\<lambda>now.
            bind_io (pay_create E
              \<lparr>pay_id = [], pay_workspaceId = ws, pay_subscriptionId = Some (sub_id sub),
               pay_amount = amount, pay_currency = ''INR'',
               pay_status = (if si_status iv = ''paid'' then PayPaid else PayPending),
               pay_provider = Stripe, pay_providerPaymentId = None, pay_providerInvoiceId = Some (si_id iv),
               pay_metadata = Some (MetaStripeInvoice iv),
               pay_paidAt = (if si_status iv = ''paid'' then Some now else None), pay_type = TypeAddon,
               pay_description = Some description, pay_createdAt = 0\<rparr>)
             (\<lambda>_. ret (AddonInvoice (si_id iv) (si_hosted_invoice_url iv) amount description)))))"

definition createAddonInvoice ::
    "env \<Rightarrow> string \<Rightarrow> subscription \<Rightarrow> string \<Rightarrow> int \<Rightarrow> int \<Rightarrow> string \<Rightarrow> addon_reply bill" where
  "createAddonInvoice E ws sub type quantity pricePerUnit description =
     (if sub_provider sub = Some Razorpay then
        razorpay_addon E ws sub type quantity pricePerUnit description
      else if sub_provider sub = Some Stripe then stripe_addon E ws sub quantity pricePerUnit description
      else throw (BadRequestException ''Unsupported provider''))"

definition addon_on :: "env \<Rightarrow> string \<Rightarrow> subscription \<Rightarrow> plan_addons \<Rightarrow> string \<Rightarrow> int \<Rightarrow> addon_reply bill" where
  "addon_on E ws sub addons type quantity =
     (if type = ''extra_agents'' then
        (case ad_extraAgent addons of
           None \<Rightarrow> throw (BadRequestException
             (''Extra agents not available '' @ em_dash @ '' agents are unlimited on this plan''))
         | Some cfg \<Rightarrow> createAddonInvoice E ws sub type quantity (ea_pricePerUnit cfg)
             (js_int_str quantity @ '' extra agent seat'' @ (if quantity > 1 then ''s'' else [])))
      else if type = ''extra_contacts'' then
        (case ad_extraContacts addons of
           None \<Rightarrow> throw (BadRequestException ''Extra contacts not available on this plan'')
         | Some cfg \<Rightarrow> createAddonInvoice E ws sub type quantity (ec_pricePerSlab cfg)
             (env_locale E (quantity * ec_slabSize cfg) @ '' extra contacts ('' @ js_int_str quantity
                @ '' '' @ times_sign @ '' '' @ env_locale E (ec_slabSize cfg) @ '')''))
      else throw (BadRequestException ''Invalid addon type''))"

definition addAddon :: "env \<Rightarrow> string \<Rightarrow> string \<Rightarrow> int \<Rightarrow> addon_reply bill" where
  "addAddon E ws type quantity =
     bind_io (sub_find (by_workspace ws))
       (\<lambda>found. case found of
          None \<Rightarrow> throw (NotFoundException ''Subscription not found'')
        | Some sub \<Rightarrow>
            if sub_status sub \<noteq> Active then throw (BadRequestException ''Subscription must be active'')
            else (case Option.bind (PLANS E (sub_plan sub)) plan_addons of
                    None \<Rightarrow> throw (BadRequestException ''Add-ons not available on this plan'')
                  | Some addons \<Rightarrow> addon_on E ws sub addons type quantity))"

section \<open>Plan changes\<close>

record user =
  user_id :: string
  user_email :: string
  user_firstName :: "string option"
  user_lastName :: "string option"

datatype checkout_reply =
    StripeSession "string option" string
  | RazorpayKey "string option" "string option"
  | RazorpayUpdated
  | RazorpayPending
  | PlanUpdated bool
  | PlanRecreated "string option" "string option" "string option" bool int
  | PlanPending bool int

text \<open>A plan id that is missing or still the placeholder of the template.\<close>

definition plan_unconfigured :: "string option \<Rightarrow> bool" where
  "plan_unconfigured planId = (\<not> js_truthy planId \<or> js_starts_with (the planId) ''replace_'')"

definition waiting_statuses :: "string list" where
  "waiting_statuses = [''created'', ''authenticated'', ''pending'', ''halted'']"

definition expire_by :: "int \<Rightarrow> int option" where
  "expire_by now = Some (now div 1000 + 1800)"

text \<open>Another plan is pending: its state decides whether the change may go on.\<close>

definition resolve_other_pending :: "env \<Rightarrow> subscription \<Rightarrow> unit bill" where
  "resolve_other_pending E sub =
     bind_io (fetchSubscription E (the (sub_pendingProviderSubId sub)))
       (\<lambda>pendingSub.
          let pendingStatus = lower_status (rs_status pendingSub) []
          in if pendingStatus \<in> set waiting_statuses then
               throw (BadRequestException
                 ''A Razorpay plan change is already in progress. Complete it or wait before choosing another plan.'')
             else if pendingStatus = ''active'' then
               seq_io (activateRazorpayReplacement E sub pendingSub (the (sub_pendingProviderSubId sub))
                         (sub_providerSubId sub) (sub_pendingPlan sub))
                 (throw (BadRequestException
                    ''A previous Razorpay plan change just completed. Refresh billing and try again.''))
             else seq_io (sub_update (by_sub_id (sub_id sub)) clear_pending) (ret ()))"

definition pending_operation :: "env \<Rightarrow> subscription \<Rightarrow> string option \<Rightarrow> string \<Rightarrow> int \<Rightarrow> unit bill" where
  "pending_operation E sub new plan refund =
     bind_io (upsertRazorpayReplacementOperation E
        \<lparr>rp_workspaceId = sub_workspaceId sub, rp_oldProviderSubId = sub_providerSubId sub,
         rp_newProviderSubId = new, rp_plan = Some plan, rp_status = Pending, rp_retryCount = None,
         rp_nextRetryAt = None, rp_lastError = None, rp_refundAmount = Some refund\<rparr>) (\<lambda>_. ret ())"

text \<open>The same plan is pending: \<open>None\<close> when a new subscription has to be created.\<close>

definition resume_pending :: "env \<Rightarrow> subscription \<Rightarrow> string \<Rightarrow> bool \<Rightarrow> checkout_reply option bill" where
  "resume_pending E sub plan upgrade =
     bind_io (fetchSubscription E (the (sub_pendingProviderSubId sub)))
       (\<lambda>pendingSub.
          let pendingStatus = lower_status (rs_status pendingSub) [];
              refund = js_num_or (sub_lastRefundAmount sub) 0
          in if pendingStatus = ''active'' then
               seq_io (sub_update (by_sub_id (sub_id sub))
                 (\<lambda>r. r\<lparr>sub_provider := Some Razorpay,
                       sub_providerCustomerId := js_or (rs_customer_id pendingSub) (sub_providerCustomerId sub),
                       sub_providerSubId := js_nullish (rs_id pendingSub) (sub_providerSubId r),
                       sub_plan := plan, sub_status := Active, sub_pendingPlan := None,
                       sub_pendingEffectiveAt := None, sub_pendingProviderSubId := None\<rparr>))
                (seq_io
                   (if js_truthy (sub_providerSubId sub) \<and> sub_providerSubId sub \<noteq> rs_id pendingSub
                    then queueRazorpayReplacementCleanup (sub_workspaceId sub) (the (sub_providerSubId sub))
                           (js_or_str (rs_id pendingSub) [])
                    else ret ())
                   (ret (Some (PlanUpdated upgrade))))
             else if pendingStatus = ''created'' then
               seq_io (pending_operation E sub (rs_id pendingSub) plan refund)
                 (ret (Some (PlanRecreated (rs_id pendingSub) (rs_short_url pendingSub)
                               (env_var E ''RAZORPAY_KEY_ID'') upgrade refund)))
             else if pendingStatus \<in> set [''authenticated'', ''pending'', ''halted''] then
               seq_io (pending_operation E sub (rs_id pendingSub) plan refund)
                 (ret (Some (PlanPending upgrade refund)))
             else seq_io (sub_update (by_sub_id (sub_id sub)) clear_pending) (ret None))"

definition create_replacement ::
    "env \<Rightarrow> subscription \<Rightarrow> string \<Rightarrow> string \<Rightarrow> bool \<Rightarrow> checkout_reply bill" where
  "create_replacement E sub plan planId upgrade =
     bind_io (clock E) (\<lambda>now.
       let refund = calculateProratedPlanRefund E now sub
       in bind_io (createSubscription E planId
              (if js_truthy (sub_providerCustomerId sub) then sub_providerCustomerId sub else None)
              False None None (expire_by now)
              [(''workspaceId'', sub_workspaceId sub), (''plan'', plan),
               (''replacedSubscription'', js_or_str (sub_providerSubId sub) [])])
           (\<lambda>newSub.
              seq_io (sub_update (by_sub_id (sub_id sub))
                (\<lambda>r. r\<lparr>sub_pendingPlan := Some plan, sub_pendingEffectiveAt := Some ''now'',
                      sub_pendingProviderSubId := js_nullish (rs_id newSub) (sub_pendingProviderSubId r),
                      sub_lastRefundAmount := (if refund = 0 then None else Some refund),
                      sub_lastRefundStatus := (if refund > 0 then Some ''pending'' else None),
                      sub_lastRefundAt := None\<rparr>))
               (seq_io (pending_operation E sub (rs_id newSub) plan refund)
                 (ret (PlanRecreated (rs_id newSub) (rs_short_url newSub) (env_var E ''RAZORPAY_KEY_ID'')
                         upgrade refund)))))"

definition handleRazorpayPlanChange :: "env \<Rightarrow> subscription \<Rightarrow> string \<Rightarrow> checkout_reply bill" where
  "handleRazorpayPlanChange E sub plan =
     (let planId = Option.bind (PLANS E plan) plan_razorpayPlanId;
          upgrade = isUpgrade (sub_plan sub) plan;
          pending = js_truthy (sub_pendingProviderSubId sub)
      in if plan_unconfigured planId then throw (BadRequestException ''Razorpay plan not configured'')
         else seq_io
           (if pending \<and> sub_pendingPlan sub \<noteq> Some plan then resolve_other_pending E sub else ret ())
           (bind_io
              (if pending \<and> sub_pendingPlan sub = Some plan then resume_pending E sub plan upgrade else ret None)
              (\<lambda>reply. case reply of
                 Some r \<Rightarrow> ret r
               | None \<Rightarrow> create_replacement E sub plan (the planId) upgrade)))"

definition changePlanInternal :: "env \<Rightarrow> string \<Rightarrow> string \<Rightarrow> checkout_reply bill" where
  "changePlanInternal E ws plan =
     (if PLANS E plan = None \<or> plan = ''trial'' then throw (BadRequestException ''Invalid plan'')
      else bind_io (sub_find (by_workspace ws))
        (\<lambda>found. case found of
           None \<Rightarrow> throw (BadRequestException ''No active paid subscription found'')
         | Some sub \<Rightarrow>
             if sub_provider sub = None \<or> \<not> js_truthy (sub_providerSubId sub) then
               throw (BadRequestException ''No active paid subscription found'')
             else if sub_provider sub = Some Razorpay then handleRazorpayPlanChange E sub plan
             else throw (BadRequestException ''Unsupported billing provider'')))"

definition changePlan :: "env \<Rightarrow> string \<Rightarrow> string \<Rightarrow> checkout_reply bill" where
  "changePlan E ws plan = withCheckoutLock (Some ws) (changePlanInternal E ws plan)"

section \<open>Checkout\<close>

record checkout_dto =
  dto_plan :: string
  dto_provider :: string
  dto_successUrl :: "string option"
  dto_cancelUrl :: "string option"

definition full_name :: "user \<Rightarrow> string" where
  "full_name u = js_trim (js_or_str (user_firstName u) [] @ '' '' @ js_or_str (user_lastName u) [])"

text \<open>A template with an unset variable holds the word \<^verbatim>\<open>undefined\<close>.\<close>

definition app_url :: "env \<Rightarrow> string \<Rightarrow> string" where
  "app_url E path = js_default (env_var E ''APP_URL'') ''undefined'' @ path"

definition createStripeCheckout :: "env \<Rightarrow> string \<Rightarrow> checkout_dto \<Rightarrow> user \<Rightarrow> checkout_reply bill" where
  "createStripeCheckout E ws dto u =
     (let priceId = Option.bind (PLANS E (dto_plan dto)) plan_stripePriceId
      in if \<not> js_truthy priceId then throw (BadRequestException ''Stripe price not configured for this plan'')
         else bind_io (sub_find (by_workspace ws))
           (\<lambda>existing.
              let known = (if Option.bind existing sub_provider = Some Stripe
                           then Option.bind existing sub_providerCustomerId else None)
              in bind_io
                   (if js_truthy known then ret (the known)
                    else stripe_createCustomer E (user_email u) (full_name u)
                           [(''workspaceId'', ws), (''userId'', user_id u)])
                   (\<lambda>customerId.
                      bind_io (stripe_createCheckoutSession E customerId (the priceId)
                          (js_or_str (dto_successUrl dto) (app_url E ''/billing/success''))
                          (js_or_str (dto_cancelUrl dto) (app_url E ''/billing/cancel''))
                          (if map_option sub_plan existing = Some ''trial'' then Some 0 else None)
                          [(''workspaceId'', ws), (''plan'', dto_plan dto)])
                        (\<lambda>session.
                           seq_io (sub_upsert E ws
                               (\<lambda>r. r\<lparr>sub_provider := Some Stripe, sub_providerCustomerId := Some customerId\<rparr>)
                               ((blank_subscription ws ''trial'' Trialing)
                                  \<lparr>sub_provider := Some Stripe, sub_providerCustomerId := Some customerId\<rparr>))
                             (ret (StripeSession (cs_url session) (cs_id session)))))))"

text \<open>Another plan is pending; unlike in a plan change, an unknown status clears nothing.\<close>

definition checkout_other_pending :: "env \<Rightarrow> subscription \<Rightarrow> unit bill" where
  "checkout_other_pending E existing =
     bind_io (fetchSubscription E (the (sub_pendingProviderSubId existing)))
       (\<lambda>pendingSub.
          let pendingStatus = lower_status (rs_status pendingSub) []
          in if pendingStatus = ''active'' then
               seq_io (activateRazorpayReplacement E existing pendingSub
                         (the (sub_pendingProviderSubId existing)) (sub_providerSubId existing)
                         (sub_pendingPlan existing))
                 (throw (BadRequestException
                    ''A previous Razorpay checkout just completed. Refresh billing before choosing another plan.''))
             else if pendingStatus \<in> set waiting_statuses then
               throw (BadRequestException
                 ''A Razorpay plan checkout is already in progress. Complete it or wait before choosing another plan.'')
             else if isTerminalRazorpaySubscriptionStatus pendingStatus then
               seq_io (sub_update (by_sub_id (sub_id existing)) clear_pending) (ret ())
             else ret ())"

definition reuse_subscription ::
    "env \<Rightarrow> string \<Rightarrow> string \<Rightarrow> subscription option \<Rightarrow> string \<Rightarrow> checkout_reply option bill" where
  "reuse_subscription E ws plan existing i =
     bind_io (fetchSubscription E i)
       (\<lambda>reusable.
          if \<not> isReusableRazorpaySubscription E reusable plan then ret None
          else
            let customerId = (if js_truthy (rs_customer_id reusable) then rs_customer_id reusable
                              else js_or (Option.bind existing sub_providerCustomerId) None);
                reusableStatus = lower_status (rs_status reusable) []
            in if reusableStatus = ''active'' then
                 seq_io (sub_update (by_workspace ws)
                   (\<lambda>r. r\<lparr>sub_provider := Some Razorpay, sub_providerCustomerId := customerId,
                         sub_providerSubId := rs_id reusable, sub_plan := plan, sub_status := Active,
                         sub_pendingPlan := None, sub_pendingEffectiveAt := None,
                         sub_pendingProviderSubId := None\<rparr>))
                  (ret (Some RazorpayUpdated))
               else
                 seq_io (sub_update (by_workspace ws)
                   (\<lambda>r. r\<lparr>sub_provider := Some Razorpay, sub_providerCustomerId := customerId,
                         sub_providerSubId := (if Option.bind existing sub_providerSubId = Some i then None
                                               else sub_providerSubId r),
                         sub_pendingProviderSubId := Some i, sub_pendingPlan := Some plan,
                         sub_pendingEffectiveAt := Some ''now''\<rparr>))
                  (ret (Some (if reusableStatus \<noteq> ''created'' then RazorpayPending
                              else RazorpayKey (rs_id reusable) (env_var E ''RAZORPAY_KEY_ID'')))))"

definition fresh_razorpay_checkout ::
    "env \<Rightarrow> string \<Rightarrow> string \<Rightarrow> string \<Rightarrow> subscription option \<Rightarrow> user \<Rightarrow> checkout_reply bill" where
  "fresh_razorpay_checkout E ws plan planId existing u =
     (let known = (if Option.bind existing sub_provider = Some Razorpay
                   then Option.bind existing sub_providerCustomerId else None)
      in bind_io
           (if js_truthy known then ret (the known)
            else bind_io (createCustomer E (js_or_str (Some (full_name u)) (user_email u)) (user_email u) None)
                   (\<lambda>c. ret (cu_id c)))
           (\<lambda>customerId. bind_io (clock E) (\<lambda>now.
              bind_io (createSubscription E planId (Some customerId) False None None (expire_by now)
                  [(''workspaceId'', ws), (''plan'', plan)])
                (\<lambda>sub.
                   seq_io (sub_upsert E ws
                     (\<lambda>r. r\<lparr>sub_provider := Some Razorpay, sub_providerCustomerId := Some customerId,
                           sub_providerSubId := None,
                           sub_pendingProviderSubId := js_nullish (rs_id sub) (sub_pendingProviderSubId r),
                           sub_pendingPlan := Some plan, sub_pendingEffectiveAt := Some ''now''\<rparr>)
                     ((blank_subscription ws ''trial'' Trialing)
                        \<lparr>sub_provider := Some Razorpay, sub_providerCustomerId := Some customerId,
                         sub_pendingProviderSubId := rs_id sub, sub_pendingPlan := Some plan,
                         sub_pendingEffectiveAt := Some ''now''\<rparr>))
                    (ret (RazorpayKey (rs_id sub) (env_var E ''RAZORPAY_KEY_ID'')))))))"

definition createRazorpayCheckout :: "env \<Rightarrow> string \<Rightarrow> string \<Rightarrow> user \<Rightarrow> checkout_reply bill" where
  "createRazorpayCheckout E ws plan u =
     (let planId = Option.bind (PLANS E plan) plan_razorpayPlanId
      in if plan_unconfigured planId then
           throw (BadRequestException ''Razorpay plan not configured for this plan'')
         else bind_io (sub_find (by_workspace ws))
           (\<lambda>existing.
              let pendingId = Option.bind existing sub_pendingProviderSubId;
                  pendingPlan = Option.bind existing sub_pendingPlan
              in seq_io
                   (if js_truthy pendingId \<and> pendingPlan \<noteq> Some plan
                    then checkout_other_pending E (the existing) else ret ())
                   (let reusableId =
                          (if pendingPlan = Some plan \<and> js_truthy pendingId then pendingId
                           else if Option.bind existing sub_provider = Some Razorpay
                           then Option.bind existing sub_providerSubId else None)
                    in bind_io
                         (if js_truthy reusableId
                          then catch_io (reuse_subscription E ws plan existing (the reusableId)) (\<lambda>_. ret None)
                          else ret None)
                         (\<lambda>reply. case reply of
                            Some r \<Rightarrow> ret r
                          | None \<Rightarrow> fresh_razorpay_checkout E ws plan (the planId) existing u))))"

definition createCheckout :: "env \<Rightarrow> string \<Rightarrow> checkout_dto \<Rightarrow> user \<Rightarrow> checkout_reply bill" where
  "createCheckout E ws dto u =
     withCheckoutLock (Some ws)
       (if PLANS E (dto_plan dto) = None \<or> dto_plan dto = ''trial'' then
          throw (BadRequestException ''Invalid plan'')
        else bind_io (sub_find (by_workspace ws))
          (\<lambda>sub. if hasActivePaidSubscription sub then changePlanInternal E ws (dto_plan dto)
             else if dto_provider dto = ''stripe'' then createStripeCheckout E ws dto u
             else if dto_provider dto = ''razorpay'' then createRazorpayCheckout E ws (dto_plan dto) u
             else throw (BadRequestException ''Unsupported billing provider'')))"

section \<open>Cancellation, expiry, invoices\<close>

definition expireTrials :: "env \<Rightarrow> nat bill" where
  "expireTrials E =
     bind_io (clock E) (\<lambda>now.
       sub_updateMany (\<lambda>r. sub_status r = Trialing
           \<and> (case sub_trialEndAt r of None \<Rightarrow> False | Some t \<Rightarrow> t < now))
         (\<lambda>r. r\<lparr>sub_status := Expired\<rparr>))"

definition cancelSubscription :: "env \<Rightarrow> string \<Rightarrow> subscription bill" where
  "cancelSubscription E ws =
     bind_io (sub_find (by_workspace ws))
       (\<lambda>found. case found of
          None \<Rightarrow> throw (NotFoundException ''Subscription not found'')
        | Some sub \<Rightarrow>
            seq_io
              (if sub_provider sub = Some Razorpay \<and> js_truthy (sub_providerSubId sub) then
                 bind_io (clock E) (\<lambda>now.
                   bind_io (upsertRazorpayCancelOperation E
                     \<lparr>cp_workspaceId = ws, cp_providerSubId = sub_providerSubId sub,
                      cp_cancelAtCycleEnd = True, cp_status = Some CleanupPending, cp_retryCount = None,
                      cp_nextRetryAt = Some now, cp_lastError = None\<rparr>) (\<lambda>_. ret ()))
               else ret ())
              (sub_update (by_workspace ws) (\<lambda>r. r\<lparr>sub_cancelAtPeriodEnd := True\<rparr>)))"

datatype pay_reply =
    PayOrder "string option" "string option" int string string
  | PayHosted "string option"

text \<open>
  A filter on the workspace: Prisma leaves out a condition whose value is \<^verbatim>\<open>undefined\<close>, while
  \<^verbatim>\<open>findUnique\<close> rejects such a condition. The two invoice requests pass the workspace id of the
  request as it is, so it is optional here.
\<close>

definition in_workspace :: "string option \<Rightarrow> invoice \<Rightarrow> bool" where
  "in_workspace ws r = (case ws of None \<Rightarrow> True | Some w \<Rightarrow> inv_workspaceId r = w)"

definition payInvoice :: "env \<Rightarrow> string option \<Rightarrow> string \<Rightarrow> pay_reply bill" where
  "payInvoice E ws providerInvoiceId =
     bind_io (inv_find (\<lambda>r. inv_providerInvoiceId r = providerInvoiceId \<and> in_workspace ws r))
       (\<lambda>found. case found of
          None \<Rightarrow> throw (NotFoundException ''Invoice not found'')
        | Some r \<Rightarrow>
            if inv_status r = InvPaid then throw (BadRequestException ''Invoice already paid'')
            else if inv_provider r = Razorpay then
              bind_io (createOrder E (js_default (inv_amountDue r) (inv_amount r)) (inv_currency r)
                 ((case ws of None \<Rightarrow> [] | Some w \<Rightarrow> [(''workspaceId'', w)])
                  @ [(''invoiceDbId'', inv_id r), (''providerInvoiceId'', inv_providerInvoiceId r)]))
                (\<lambda>order. ret (PayOrder (oe_id order) (env_var E ''RAZORPAY_KEY_ID'')
                   (js_default (inv_amountDue r) (inv_amount r)) (inv_currency r)
                   (js_default (inv_description r) ''Invoice payment'')))
            else bind_io (stripe_finalizeInvoice E (inv_providerInvoiceId r))
                   (\<lambda>iv. ret (PayHosted (si_hosted_invoice_url iv))))"

text \<open>Newest first; invoices without a date come first in a descending order.\<close>

definition invoice_order :: "invoice \<Rightarrow> int \<times> int" where
  "invoice_order r = (case inv_invoiceDate r of None \<Rightarrow> (0, 0) | Some t \<Rightarrow> (1, - t))"

text \<open>The reply lists the rows with the creation time in place of a missing invoice date.\<close>

definition getInvoices :: "env \<Rightarrow> string option \<Rightarrow> (int \<times> invoice) list bill" where
  "getInvoices E ws =
     seq_io (catch_io (case ws of None \<Rightarrow> throw PrismaValidation | Some w \<Rightarrow> fullSyncWorkspace E w)
               (\<lambda>_. ret ()))
       (gets (\<lambda>s. map (\<lambda>r. (js_default (inv_invoiceDate r) (inv_createdAt r), r))
          (take 50 (sort_key invoice_order (filter (in_workspace ws) (w_invs s))))))"

text \<open>The link of a payment's document, as stored in its metadata.\<close>

definition extractInvoiceUrl :: "payment \<Rightarrow> string option" where
  "extractInvoiceUrl r =
     (case pay_metadata r of
        Some (MetaStripeInvoice iv) \<Rightarrow>
          (if js_truthy (si_hosted_invoice_url iv) then si_hosted_invoice_url iv
           else if js_truthy (si_invoice_pdf iv) then si_invoice_pdf iv else None)
      | Some (MetaRpInvoice iv) \<Rightarrow> (if js_truthy (ie_short_url iv) then ie_short_url iv else None)
      | _ \<Rightarrow> None)"

section \<open>What the requests keep\<close>

context book_order begin

lemma k_trial: "keeps R (ensureTrialSubscription E ws)"
  unfolding ensureTrialSubscription_def Let_def
  by (intro b_intros) (simp add: complete_trial_def Let_def)

lemma k_me: "keeps R (getBillingMe E ws)"
  unfolding getBillingMe_def getUsageMap_def Let_def by (intro b_intros k_trial)

lemma k_addon: "keeps R (addAddon E ws ty q)"
  unfolding addAddon_def addon_on_def createAddonInvoice_def razorpay_addon_def stripe_addon_def Let_def
  by (intro b_intros t_service service_calls stripe_calls)

lemma k_pending_operation: "keeps R (pending_operation E sub new plan refund)"
  unfolding pending_operation_def by (intro b_intros)

lemma k_plan_change: "keeps R (handleRazorpayPlanChange E sub plan)"
  unfolding handleRazorpayPlanChange_def resolve_other_pending_def resume_pending_def
    create_replacement_def Let_def
  by (intro b_intros f_activate k_pending_operation t_service service_calls)
     (simp_all add: clear_pending_def)

lemma k_change: "keeps R (changePlanInternal E ws plan)"
  unfolding changePlanInternal_def by (intro b_intros k_plan_change)

lemma k_stripe: "keeps R (createStripeCheckout E ws dto u)"
  unfolding createStripeCheckout_def Let_def
  by (intro b_intros b_sub_upsert t_service stripe_calls) simp

lemma k_reuse: "keeps R (reuse_subscription E ws plan existing i)"
  unfolding reuse_subscription_def Let_def by (intro b_intros) simp_all

lemma k_fresh: "keeps R (fresh_razorpay_checkout E ws plan i existing u)"
  unfolding fresh_razorpay_checkout_def Let_def
  by (intro b_intros b_sub_upsert t_service service_calls) simp

lemma k_razorpay: "keeps R (createRazorpayCheckout E ws plan u)"
  unfolding createRazorpayCheckout_def checkout_other_pending_def Let_def
  by (intro b_intros f_activate k_reuse k_fresh) (simp add: clear_pending_def)

lemma k_expire: "keeps R (expireTrials E)"
  unfolding expireTrials_def by (intro b_intros) simp

lemma k_cancel: "keeps R (cancelSubscription E ws)"
  unfolding cancelSubscription_def by (intro b_intros) simp

lemma k_pay: "keeps R (payInvoice E ws i)"
  unfolding payInvoice_def by (intro b_intros t_service service_calls stripe_calls)

lemma k_invoices: "keeps R (getInvoices E ws)"
  unfolding getInvoices_def by (intro b_intros b_full_sync)

text \<open>The body of a checkout, run under the lock.\<close>

lemma k_checkout_body:
  "keeps R (if PLANS E (dto_plan dto) = None \<or> dto_plan dto = ''trial'' then
          throw (BadRequestException ''Invalid plan'')
        else bind_io (sub_find (by_workspace ws))
          (\<lambda>sub. if hasActivePaidSubscription sub then changePlanInternal E ws (dto_plan dto)
             else if dto_provider dto = ''stripe'' then createStripeCheckout E ws dto u
             else if dto_provider dto = ''razorpay'' then createRazorpayCheckout E ws (dto_plan dto) u
             else throw (BadRequestException ''Unsupported billing provider'')))"
  by (intro b_intros k_change k_stripe k_razorpay)

end

text \<open>A relation that also tolerates a change of the checkout locks.\<close>

locale request_order = book_order R E
  for R :: "world \<Rightarrow> world \<Rightarrow> bool" and E :: env +
  assumes R_locks: "R s (s\<lparr>w_locks := l\<rparr>)"
begin

lemma k_lock: "keeps R m \<Longrightarrow> keeps R (withCheckoutLock ws m)"
  unfolding withCheckoutLock_def by (intro r_intros r_modify R_locks)

lemma k_locked:
  "keeps R (changePlan E ws plan)" "keeps R (createCheckout E ws dto u)"
  unfolding changePlan_def createCheckout_def by (intro k_lock k_change k_checkout_body)+

lemmas k_requests =
  k_trial k_me k_addon k_locked k_expire k_cancel k_pay k_invoices

end

interpretation requests: request_order "consistent E" E for E
  by unfold_locales (auto simp: subs_ok_def pays_ok_def invs_ok_def intro!: consistent_same)

definition same_locks :: "world \<Rightarrow> world \<Rightarrow> bool" where
  "same_locks s t \<longleftrightarrow> w_locks t = w_locks s"

interpretation locks: book_order same_locks E for E
  by unfold_locales
     (auto simp: same_locks_def keeps_def op_update_def op_updateMany_def op_create_def
        sub_update_def sub_create_def sub_updateMany_def pay_update_def pay_create_def inv_updateMany_def
        inv_create_def only_calls_def Let_def split: option.split)

lemma lock_outcome:
  assumes "keeps same_locks m"
  shows "ws \<in> set (w_locks s) \<Longrightarrow> withCheckoutLock ws m s =
           (Inl (BadRequestException ''Checkout already in progress. Please wait a few seconds.''), s)"
    and "ws \<notin> set (w_locks s) \<Longrightarrow> w_locks (snd (withCheckoutLock ws m s)) = w_locks s"
    and "ws \<notin> set (w_locks s) \<Longrightarrow>
           fst (withCheckoutLock ws m s) = fst (m (s\<lparr>w_locks := ws # w_locks s\<rparr>))"
proof -
  show "ws \<in> set (w_locks s) \<Longrightarrow> withCheckoutLock ws m s =
           (Inl (BadRequestException ''Checkout already in progress. Please wait a few seconds.''), s)"
    by (simp add: withCheckoutLock_def io_simps)
next
  assume free: "ws \<notin> set (w_locks s)"
  let ?s = "s\<lparr>w_locks := ws # w_locks s\<rparr>"
  obtain r t where m: "m ?s = (r, t)" by (cases "m ?s")
  have "w_locks t = ws # w_locks s" using keeps_result [OF assms m] by (simp add: same_locks_def)
  moreover have "filter (\<lambda>x. x \<noteq> ws) (w_locks s) = w_locks s"
    using free by (auto simp: filter_id_conv)
  ultimately show "w_locks (snd (withCheckoutLock ws m s)) = w_locks s"
    and "fst (withCheckoutLock ws m s) = fst (m ?s)"
    using free m by (simp_all add: withCheckoutLock_def io_simps)
qed

section \<open>Properties\<close>



lemma find_append:
  "find P (xs @ ys) = (case find P xs of None \<Rightarrow> find P ys | Some x \<Rightarrow> Some x)"
  by (induction xs) auto

lemma find_sub_upd:
  assumes "subs_ok s" and "r \<in> set (w_subs s)" and "sub_workspaceId r' = sub_workspaceId r"
  shows "find (by_workspace (sub_workspaceId r))
           (upd_where (by_sub_id (sub_id r)) (\<lambda>_. r') (w_subs s)) = Some r'"
proof -
  have "upd_where (by_sub_id (sub_id r)) (\<lambda>_. r') (w_subs s) =
      upd_where (by_workspace (sub_workspaceId r)) (\<lambda>_. r') (w_subs s)"
    using same_sub [OF assms(1,2)] by (intro upd_where_cong) (simp add: by_sub_id_def by_workspace_def)
  then show ?thesis
    using find_upd_where_same [OF find_sub(2) [OF assms(1,2)], of "\<lambda>_. r'"] assms(3)
    by (simp add: by_workspace_def)
qed

lemma trial_again:
  assumes "find (by_workspace ws) (w_subs t) = Some r" and "\<not> trial_incomplete r"
  shows "ensureTrialSubscription E ws t = (Inr r, t)"
  using assms by (simp add: ensureTrialSubscription_def sub_find_def io_simps clock_def)

text \<open>
  Ensuring a trial always succeeds and is idempotent: afterwards the workspace has a
  subscription whose trial and period dates are complete if it is a trial, no other row has
  changed, and asking again returns the same row and changes nothing.
\<close>

theorem ensureTrial_idempotent:
  assumes "subs_ok s"
  shows "\<exists>r t. ensureTrialSubscription E ws s = (Inr r, t)
     \<and> sub_workspaceId r = ws \<and> \<not> trial_incomplete r
     \<and> filter (\<lambda>x. sub_workspaceId x \<noteq> ws) (w_subs t) = filter (\<lambda>x. sub_workspaceId x \<noteq> ws) (w_subs s)
     \<and> ensureTrialSubscription E ws t = (Inr r, t)"
proof (cases "find (by_workspace ws) (w_subs s)")
  case None
  let ?e = "env_addDays E (env_now E s) trial_days"
  let ?r = "(blank_subscription ws ''trial'' Trialing)
     \<lparr>sub_trialStartAt := Some (env_now E s), sub_trialEndAt := Some ?e,
      sub_currentPeriodStart := Some (env_now E s), sub_currentPeriodEnd := Some ?e,
      sub_id := env_newid E s, sub_createdAt := env_now E s\<rparr>"
  have "ws \<notin> sub_workspaceId ` set (w_subs s)"
    using None by (auto simp: find_None_iff by_workspace_def)
  then have run: "ensureTrialSubscription E ws s = (Inr ?r, s\<lparr>w_subs := w_subs s @ [?r]\<rparr>)"
    using None
    by (simp add: ensureTrialSubscription_def sub_find_def io_simps clock_def sub_create_def
        blank_subscription_def sub_clash_def Let_def)
  moreover have "\<not> trial_incomplete ?r" by (simp add: trial_incomplete_def)
  moreover have "find (by_workspace ws) (w_subs (s\<lparr>w_subs := w_subs s @ [?r]\<rparr>)) = Some ?r"
    using None by (simp add: find_append by_workspace_def blank_subscription_def)
  ultimately show ?thesis
    using trial_again [of ws "s\<lparr>w_subs := w_subs s @ [?r]\<rparr>" ?r E]
    by (auto simp: blank_subscription_def)
next
  case (Some r)
  have r: "r \<in> set (w_subs s)" "sub_workspaceId r = ws"
    using find_Some_in [OF Some] by (simp_all add: by_workspace_def)
  show ?thesis
  proof (cases "trial_incomplete r")
    case False
    with trial_again [OF Some False] r show ?thesis by blast
  next
    case True
    let ?r = "complete_trial r r"
    let ?t = "s\<lparr>w_subs := upd_where (by_sub_id (sub_id r)) (\<lambda>_. ?r) (w_subs s)\<rparr>"
    have keep: "sub_id ?r = sub_id r" "sub_workspaceId ?r = ws" "sub_providerSubId ?r = sub_providerSubId r"
      "\<not> trial_incomplete ?r"
      using r(2) by (simp_all add: complete_trial_def trial_incomplete_def Let_def)
    have run: "ensureTrialSubscription E ws s = (Inr ?r, ?t)"
      using Some True sub_update_keep(2) [OF assms r(1), of "complete_trial r"] keep r(2)
      by (simp add: ensureTrialSubscription_def sub_find_def io_simps clock_def)
    moreover have "find (by_workspace ws) (w_subs ?t) = Some ?r"
      using find_sub_upd [OF assms r(1), of ?r] keep r(2) by simp
    moreover have "filter (\<lambda>x. sub_workspaceId x \<noteq> ws) (w_subs ?t) = filter (\<lambda>x. sub_workspaceId x \<noteq> ws) (w_subs s)"
    proof -
      have "sub_workspaceId x = ws" if "x \<in> set (w_subs s)" "sub_id x = sub_id r" for x
        using same_sub(1) [OF assms r(1) that(1)] that(2) r(2) by simp
      then have "filter (\<lambda>x. sub_workspaceId x \<noteq> ws) (upd_where (by_sub_id (sub_id r)) (\<lambda>_. ?r) rows)
          = filter (\<lambda>x. sub_workspaceId x \<noteq> ws) rows" if "set rows \<subseteq> set (w_subs s)" for rows
        using that keep(2) by (induction rows) (auto simp: by_sub_id_def)
      then show ?thesis by simp
    qed
    ultimately show ?thesis
      using keep trial_again [of ws ?t ?r E] by blast
  qed
qed

theorem ensureTrial_witness:
  "\<exists>r t. ensureTrialSubscription sample_env ''new'' refund_world = (Inr r, t)
     \<and> ensureTrialSubscription sample_env ''new'' t = (Inr r, t)"
  using ensureTrial_idempotent [of refund_world sample_env "''new''"] tables_ok_sample(2)
  by (auto simp: tables_ok_def)

text \<open>
  Expiring trials changes exactly the trials whose end lies in the past, only in their
  status, and reports their number; running it again at the same time changes nothing.
\<close>

theorem expireTrials_exact:
  assumes "env_now E t = env_now E s" and "expireTrials E s = (res, t)"
  shows "res = Inr (length (filter (\<lambda>r. sub_status r = Trialing
              \<and> (\<exists>e. sub_trialEndAt r = Some e \<and> e < env_now E s)) (w_subs s)))
     \<and> list_all2 (\<lambda>r r'. r' = (if sub_status r = Trialing \<and> (\<exists>e. sub_trialEndAt r = Some e \<and> e < env_now E s)
             then r\<lparr>sub_status := Expired\<rparr> else r)) (w_subs s) (w_subs t)
     \<and> expireTrials E t = (Inr 0, t)"
proof -
  let ?P = "\<lambda>r. sub_status r = Trialing \<and> (case sub_trialEndAt r of None \<Rightarrow> False | Some e \<Rightarrow> e < env_now E s)"
  have P: "?P r \<longleftrightarrow> sub_status r = Trialing \<and> (\<exists>e. sub_trialEndAt r = Some e \<and> e < env_now E s)" for r
    by (auto split: option.splits)
  have t: "w_subs t = upd_where ?P (\<lambda>r. r\<lparr>sub_status := Expired\<rparr>) (w_subs s)"
    and res: "res = Inr (length (filter ?P (w_subs s)))"
    using assms(2) by (auto simp: expireTrials_def io_simps clock_def sub_updateMany_def)
  have none: "\<not> ?P r" if "r \<in> set (w_subs t)" for r
    using that by (auto simp: t set_upd_where)
  then have "filter ?P (w_subs t) = []" "upd_where ?P f (w_subs t) = w_subs t" for f
    by (simp_all add: filter_empty_conv upd_where_none)
  then have "expireTrials E t = (Inr 0, t)"
    using assms(1) by (simp add: expireTrials_def bind_io_def clock_def gets_def sub_updateMany_def)
  with res t show ?thesis
    unfolding P by (auto simp: upd_where_def list_all2_conv_all_nth)
qed

theorem expireTrials_witness:
  "expireTrials sample_env (refund_world\<lparr>w_subs := [sample_sub\<lparr>sub_status := Trialing, sub_trialEndAt := Some 1\<rparr>]\<rparr>) =
     (Inr 1, refund_world\<lparr>w_subs := [sample_sub\<lparr>sub_status := Expired, sub_trialEndAt := Some 1\<rparr>]\<rparr>)"
proof -
  let ?s = "refund_world\<lparr>w_subs := [sample_sub\<lparr>sub_status := Trialing, sub_trialEndAt := Some 1\<rparr>]\<rparr>"
  let ?t = "refund_world\<lparr>w_subs := [sample_sub\<lparr>sub_status := Expired, sub_trialEndAt := Some 1\<rparr>]\<rparr>"
  have now: "env_now sample_env x = 1000" for x by (simp add: sample_env_def)
  obtain n where run: "expireTrials sample_env ?s = (n, ?t)"
    by (simp add: expireTrials_def io_simps clock_def sub_updateMany_def now)
  have "env_now sample_env ?t = env_now sample_env ?s" by (simp add: now)
  from expireTrials_exact [OF this run] run show ?thesis by (simp add: now)
qed

definition operations_only :: "world \<Rightarrow> world \<Rightarrow> bool" where
  "operations_only s t \<longleftrightarrow>
     w_subs t = w_subs s \<and> w_pays t = w_pays s \<and> w_invs t = w_invs s \<and> w_usage t = w_usage s
     \<and> w_locks t = w_locks s \<and> w_queued t = w_queued s \<and> w_calls t = w_calls s"

interpretation op_only: step_order operations_only
  by unfold_locales (simp_all add: operations_only_def)

lemma operations_only_tables:
  "keeps operations_only (op_find P)" "keeps operations_only (clock E)"
  "keeps operations_only (op_update E i f)" "keeps operations_only (op_create E r)"
  by (auto simp: keeps_def operations_only_def op_find_def clock_def gets_def op_update_def op_create_def
      Let_def split: option.split)

lemma operations_only_upserts:
  "keeps operations_only (upsertRazorpayReplacementOperation E p)"
  "keeps operations_only (upsertRazorpayCancelOperation E q)"
proof -
  show "keeps operations_only (upsertRazorpayReplacementOperation E p)"
    unfolding upsertRazorpayReplacementOperation_def replacement_write_def Let_def
    by (intro op_only.r_intros operations_only_tables)
  have "keeps operations_only (cancel_rounds E q k n)" for k n
    unfolding cancel_write_def Let_def
    by (induction n) (auto simp: cancel_write_def Let_def intro!: op_only.r_intros operations_only_tables)
  then show "keeps operations_only (upsertRazorpayCancelOperation E q)"
    unfolding upsertRazorpayCancelOperation_def by (intro op_only.r_intros)
qed

text \<open>
  Cancelling makes no provider call: it marks the row to end with the period and, for a
  Razorpay subscription, leaves exactly one cancel operation for it, due at once unless the
  operation was finished or requested before, for the reconciler to carry out.
\<close>

theorem cancel_is_deferred:
  assumes "fresh_ids E" and "tables_ok s" and "find (by_workspace ws) (w_subs s) = Some r"
    and "sub_provider r = Some Razorpay" and "sub_providerSubId r = Some i" and "i \<noteq> []"
    and "k = buildRazorpayCancelOperationKey ws i"
  shows "\<exists>t oper. cancelSubscription E ws s = (Inr (r\<lparr>sub_cancelAtPeriodEnd := True\<rparr>), t)
     \<and> w_calls t = w_calls s
     \<and> w_subs t = upd_where (by_sub_id (sub_id r)) (\<lambda>_. r\<lparr>sub_cancelAtPeriodEnd := True\<rparr>) (w_subs s)
     \<and> filter (with_key k) (w_ops t) = [oper]
     \<and> op_status oper = nextRazorpayOperationStatus
         (map_option op_status (find (with_key k) (w_ops s))) CleanupPending"
proof -
  let ?p = "\<lparr>cp_workspaceId = ws, cp_providerSubId = Some i, cp_cancelAtCycleEnd = True,
     cp_status = Some CleanupPending, cp_retryCount = None, cp_nextRetryAt = Some (env_now E s),
     cp_lastError = None\<rparr>"
  have r: "r \<in> set (w_subs s)" "sub_workspaceId r = ws"
    using find_Some_in [OF assms(3)] by (simp_all add: by_workspace_def)
  have "ops_ok s" using assms(2) by (simp add: tables_ok_def)
  from cancel_rounds_wrote [OF this, of k E ?p 1]
  have "wrote k s (upsertRazorpayCancelOperation E ?p s) (\<lambda>q. op_status q =
      nextRazorpayOperationStatus (map_option op_status (find (with_key k) (w_ops s))) CleanupPending)"
    using assms(6,7)
    by (simp add: upsertRazorpayCancelOperation_def numeral_2_eq_2 with_key_def [abs_def] del: cancel_rounds.simps)
  then obtain oper u where u: "upsertRazorpayCancelOperation E ?p s = (Inr (Some oper), u)"
    and oper: "filter (with_key k) (w_ops u) = [oper]" "op_status oper =
      nextRazorpayOperationStatus (map_option op_status (find (with_key k) (w_ops s))) CleanupPending"
    by (auto simp: wrote_def split: prod.splits sum.splits option.splits)
  have same: "w_subs u = w_subs s" "w_calls u = w_calls s"
    using keeps_result [OF operations_only_upserts(2) u] by (simp_all add: operations_only_def)
  have ok: "subs_ok u" "r \<in> set (w_subs u)" using assms(2) r(1) same by (simp_all add: tables_ok_def subs_ok_def)
  from sub_update_keep(2) [OF ok, of "\<lambda>r. r\<lparr>sub_cancelAtPeriodEnd := True\<rparr>"] show ?thesis
    using assms(3-6) u oper same r(2)
    by (simp add: cancelSubscription_def sub_find_def io_simps clock_def)
qed

theorem cancel_is_deferred_witness:
  "\<exists>r t. cancelSubscription sample_env ''w'' refund_world = (Inr r, t) \<and> w_calls t = [] \<and> length (w_ops t) \<ge> 1"
proof -
  have found: "find (by_workspace ''w'') (w_subs refund_world) = Some sample_sub"
    "sub_provider sample_sub = Some Razorpay" "sub_providerSubId sample_sub = Some ''b''"
    by (simp_all add: refund_world_def sample_sub_def by_workspace_def)
  from cancel_is_deferred [OF fresh_sample tables_ok_sample(2) found, of sample_env]
  obtain t oper where t: "cancelSubscription sample_env ''w'' refund_world = (Inr (sample_sub\<lparr>sub_cancelAtPeriodEnd := True\<rparr>), t)"
    "w_calls t = w_calls refund_world" "filter (with_key (buildRazorpayCancelOperationKey ''w'' ''b'')) (w_ops t) = [oper]"
    by auto
  then have "w_ops t \<noteq> []" by auto
  with t show ?thesis
    by (auto simp: refund_world_def empty_world_def Suc_le_eq)
qed

lemma pending_operation_wrote:
  assumes "ops_ok v" and "sub_providerSubId sub = Some old" and "old \<noteq> []" and "new \<noteq> []" and "new \<noteq> old"
    and "pending_operation E sub (Some new) plan refund v = (Inr (), w)"
  shows "\<exists>oper. filter (with_key (buildRazorpayReplacementOperationKey (sub_workspaceId sub) old new)) (w_ops w) = [oper]"
    and "w_subs w = w_subs v"
proof -
  let ?p = "\<lparr>rp_workspaceId = sub_workspaceId sub, rp_oldProviderSubId = Some old, rp_newProviderSubId = Some new,
     rp_plan = Some plan, rp_status = Pending, rp_retryCount = None, rp_nextRetryAt = None,
     rp_lastError = None, rp_refundAmount = Some refund\<rparr>"
  let ?k = "buildRazorpayReplacementOperationKey (sub_workspaceId sub) old new"
  have run: "upsertRazorpayReplacementOperation E ?p v = replacement_write E ?p ?k (find (with_key ?k) (w_ops v)) v"
    by (rule upsert_replacement_reads) (use assms(3-5) in simp_all)
  have "wrote ?k v (upsertRazorpayReplacementOperation E ?p v)
      (\<lambda>r. op_status r = nextRazorpayOperationStatus (map_option op_status (find (with_key ?k) (w_ops v))) Pending)"
    unfolding run using replacement_write_wrote [OF assms(1) refl, of ?k E ?p]
    by (simp add: with_key_def [abs_def])
  then obtain r where r: "upsertRazorpayReplacementOperation E ?p v = (Inr (Some r), w)"
    and "filter (with_key ?k) (w_ops w) = [r]"
    using assms(2,6) by (auto simp: pending_operation_def io_simps wrote_def
        split: prod.splits sum.splits option.splits)
  moreover have "w_subs w = w_subs v"
    using keeps_result [OF operations_only_upserts(1) r] by (simp add: operations_only_def)
  ultimately show "\<exists>oper. filter (with_key ?k) (w_ops w) = [oper]" and "w_subs w = w_subs v" by simp_all
qed

text \<open>
  A plan change only prepares the switch: when the provider creates the replacement, the
  running plan, status and provider subscription of the row stay, the pending fields and the
  prorated refund are recorded, and exactly one replacement operation from the running to the
  new subscription is left for the reconciler.
\<close>

theorem plan_change_prepares:
  assumes "fresh_ids E" and "tables_ok s" and "sub \<in> set (w_subs s)"
    and "sub_providerSubId sub = Some old" and "old \<noteq> []"
    and "create_replacement E sub plan planId up s = (Inr reply, t)"
    and "reply = PlanRecreated (Some new) url key up refund" and "new \<noteq> []" and "new \<noteq> old"
  shows "refund = calculateProratedPlanRefund E (env_now E s) sub
     \<and> w_subs t = upd_where (by_sub_id (sub_id sub))
         (\<lambda>_. sub\<lparr>sub_pendingPlan := Some plan, sub_pendingEffectiveAt := Some ''now'',
                 sub_pendingProviderSubId := Some new,
                 sub_lastRefundAmount := (if refund = 0 then None else Some refund),
                 sub_lastRefundStatus := (if refund > 0 then Some ''pending'' else None),
                 sub_lastRefundAt := None\<rparr>) (w_subs s)
     \<and> (\<exists>oper. filter (with_key (buildRazorpayReplacementOperationKey (sub_workspaceId sub) old new)) (w_ops t)
           = [oper])"
proof -
  let ?now = "env_now E s"
  let ?refund = "calculateProratedPlanRefund E ?now sub"
  let ?create = "createSubscription E planId
      (if js_truthy (sub_providerCustomerId sub) then sub_providerCustomerId sub else None)
      False None None (expire_by ?now) [(''workspaceId'', sub_workspaceId sub), (''plan'', plan),
         (''replacedSubscription'', js_or_str (sub_providerSubId sub) [])]"
  let ?upd = "\<lambda>n r. r\<lparr>sub_pendingPlan := Some plan, sub_pendingEffectiveAt := Some ''now'',
      sub_pendingProviderSubId := js_nullish n (sub_pendingProviderSubId r),
      sub_lastRefundAmount := (if ?refund = 0 then None else Some ?refund),
      sub_lastRefundStatus := (if ?refund > 0 then Some ''pending'' else None), sub_lastRefundAt := None\<rparr>"
  obtain newSub u where u: "?create s = (Inr newSub, u)"
    and rest: "seq_io (sub_update (by_sub_id (sub_id sub)) (?upd (rs_id newSub)))
        (seq_io (pending_operation E sub (rs_id newSub) plan ?refund)
          (ret (PlanRecreated (rs_id newSub) (rs_short_url newSub) (env_var E ''RAZORPAY_KEY_ID'') up ?refund))) u
        = (Inr reply, t)"
    using assms(6)
    by (auto simp: create_replacement_def clock_def bind_gets bind_io_def [of ?create] Let_def
        split: prod.splits sum.splits)
  have "only_calls s u" using keeps_result [OF only_calls_service(1) u] .
  then have same: "w_subs u = w_subs s" "w_ops u = w_ops s" by (auto simp: only_calls_def)
  have ok: "subs_ok u" "sub \<in> set (w_subs u)" using assms(2,3) same by (simp_all add: tables_ok_def subs_ok_def)
  let ?v = "u\<lparr>w_subs := upd_where (by_sub_id (sub_id sub)) (\<lambda>_. ?upd (rs_id newSub) sub) (w_subs s)\<rparr>"
  have step: "sub_update (by_sub_id (sub_id sub)) (?upd (rs_id newSub)) u = (Inr (?upd (rs_id newSub) sub), ?v)"
    using sub_update_keep(1) [OF ok, of "?upd (rs_id newSub)"] same by simp
  obtain w where w: "pending_operation E sub (rs_id newSub) plan ?refund ?v = (Inr (), w)"
    and reply: "reply = PlanRecreated (rs_id newSub) (rs_short_url newSub) (env_var E ''RAZORPAY_KEY_ID'') up ?refund"
      "t = w"
    using rest step by (auto simp: io_simps split: prod.splits sum.splits)
  have new: "rs_id newSub = Some new" "refund = ?refund" using reply(1) assms(7) by simp_all
  have "ops_ok ?v" using assms(2) same(2) by (simp add: tables_ok_def ops_ok_def)
  from pending_operation_wrote [OF this [unfolded new(1)] assms(4,5,8,9) w [unfolded new(1)]] reply(2) new show ?thesis
    by simp
qed

theorem plan_change_witness:
  "\<exists>t. create_replacement (sample_env\<lparr>sdk_create_subscription := (\<lambda>s p. Resolved (sample_rp_sub ''n'' ''created''))\<rparr>)
         sample_sub ''pro'' ''plan_pro'' True refund_world
       = (Inr (PlanRecreated (Some ''n'') None (Some ''RAZORPAY_KEY_ID'') True 1500), t)
     \<and> map sub_pendingProviderSubId (w_subs t) = [Some ''n''] \<and> map sub_plan (w_subs t) = [''growth'']"
proof -
  let ?E = "sample_env\<lparr>sdk_create_subscription := (\<lambda>s p. Resolved (sample_rp_sub ''n'' ''created''))\<rparr>"
  have "fst (create_replacement ?E sample_sub ''pro'' ''plan_pro'' True refund_world)
      = Inr (PlanRecreated (Some ''n'') None (Some ''RAZORPAY_KEY_ID'') True 1500)"
    by code_simp
  then obtain t where t: "create_replacement ?E sample_sub ''pro'' ''plan_pro'' True refund_world
      = (Inr (PlanRecreated (Some ''n'') None (Some ''RAZORPAY_KEY_ID'') True 1500), t)"
    by (metis prod.collapse)
  have sub: "sample_sub \<in> set (w_subs refund_world)" "sub_providerSubId sample_sub = Some ''b''"
    by (simp_all add: refund_world_def sample_sub_def)
  from plan_change_prepares [OF fresh_sample tables_ok_sample(2) sub _ t refl] t show ?thesis
    by (auto simp: refund_world_def sample_sub_def by_sub_id_def)
qed

end
