(* ===== verification/Billing_System.thy ===== *)
theory Billing_System
  imports Billing_Checkout
begin

text \<open>
  The billing module as a transition system: one step is a request of a workspace, a webhook, a
  scheduled job, a queued clean-up task or a count of usage. Handlers of the same process
  interleave at their \<^verbatim>\<open>await\<close> points; the reads that the upserts base their writes on may
  be stale by then, which the steps with an arbitrary earlier read account for.
\<close>

inductive billing_step :: "env \<Rightarrow> world \<Rightarrow> world \<Rightarrow> bool" for E where
  razorpay_webhook: "billing_step E s (snd (razorpayWebhook E hmac parse body sig s))"
| stripe_webhook: "billing_step E s (snd (stripeWebhook E construct body sig s))"
| checkout: "billing_step E s (snd (createCheckout E ws dto u s))"
| change_plan: "billing_step E s (snd (changePlan E ws plan s))"
| cancel: "billing_step E s (snd (cancelSubscription E ws s))"
| add_addon: "billing_step E s (snd (addAddon E ws ty q s))"
| pay_invoice: "billing_step E s (snd (payInvoice E ws i s))"
| get_invoices: "billing_step E s (snd (getInvoices E ws s))"
| billing_me: "billing_step E s (snd (getBillingMe E ws s))"
| reconcile: "billing_step E s (snd (reconcileRazorpayBillingState E s))"
| expire: "billing_step E s (snd (expireTrials E s))"
| queued: "billing_step E s (snd (run_queued E s))"
| count_usage: "billing_step E s (snd (usage_increment E ws metric n s))"
| set_usage: "billing_step E s (snd (usage_set E ws metric n s))"
| stale_replacement:
    "js_truthy (rp_oldProviderSubId p) \<Longrightarrow> js_truthy (rp_newProviderSubId p) \<Longrightarrow>
     rp_oldProviderSubId p \<noteq> rp_newProviderSubId p \<Longrightarrow>
     key = buildRazorpayReplacementOperationKey (rp_workspaceId p)
       (the (rp_oldProviderSubId p)) (the (rp_newProviderSubId p)) \<Longrightarrow>
     billing_step E s (snd (replacement_write E p key read s))"
| stale_cancel:
    "js_truthy (cp_providerSubId c) \<Longrightarrow>
     key = buildRazorpayCancelOperationKey (cp_workspaceId c) (the (cp_providerSubId c)) \<Longrightarrow>
     billing_step E s (snd (cancel_write E c key (cancel_rounds E c key n) read s))"
| stale_payment: "billing_step E s (snd (payment_write E d read' s))"

inductive reachable :: "env \<Rightarrow> world \<Rightarrow> bool" for E where
  initial: "reachable E empty_world"
| step: "reachable E s \<Longrightarrow> billing_step E s t \<Longrightarrow> reachable E t"

lemma usage_consistent:
  "keeps (consistent E) (usage_increment E' ws m n)" "keeps (consistent E) (usage_set E' ws m n)"
  by (auto simp: keeps_def usage_run subs_ok_def pays_ok_def invs_ok_def intro!: consistent_same)

lemma step_consistent:
  assumes "billing_step E s t"
  shows "consistent E s t"
  using assms
proof cases
  case (stale_replacement p key read)
  then show ?thesis using keepsD [OF tables.t_replacement_write] by blast
next
  case (stale_cancel c key n read)
  then show ?thesis using keepsD [OF tables.t_cancel_write [OF _ tables.t_cancel_rounds]] by blast
qed (simp_all add: keepsD tables.w_routes requests.k_requests tables.c_job tables.t_run_queued
      usage_consistent tables.b_payment_write)

lemma empty_world_ok: "tables_ok empty_world"
  by (simp add: tables_ok_def ops_ok_def subs_ok_def pays_ok_def invs_ok_def empty_world_def)

lemma reachable_ok:
  assumes "reachable E s" and "fresh_ids E"
  shows "tables_ok s"
  using assms(1)
proof (induction rule: reachable.induct)
  case initial
  then show ?case by (rule empty_world_ok)
next
  case (step s t)
  with step_consistent [OF step(2)] assms(2) show ?case by (simp add: consistent_def)
qed

end
