(* ===== verification/Access_Control.thy ===== *)
theory Access_Control
  imports Prelude
begin

text \<open>
  Who may call a route: the permission tables (\<^verbatim>\<open>common/constants/permissions.ts\<close>,
  \<^verbatim>\<open>platform-admin.permissions.ts\<close>), the guard that every route passes
  (\<^verbatim>\<open>common/auth/route.guard.ts\<close>), the two older membership guards and the guard of the platform
  administration. The request is the state: a guard may stamp it, and what it stamped stays when
  a later check refuses the request.
\<close>

section \<open>Roles and permissions\<close>

datatype org_permission =
    ORG_SETTINGS_MANAGE | ORG_SETTINGS_VIEW | ORG_DELETE | BILLING_MANAGE | BILLING_VIEW
  | SUBSCRIPTION_CANCEL | USERS_MANAGE | USERS_VIEW | WORKSPACES_MANAGE | WORKSPACES_VIEW

definition org_permissions :: "org_permission list" where
  "org_permissions =
     [ORG_SETTINGS_MANAGE, ORG_SETTINGS_VIEW, ORG_DELETE, BILLING_MANAGE, BILLING_VIEW,
      SUBSCRIPTION_CANCEL, USERS_MANAGE, USERS_VIEW, WORKSPACES_MANAGE, WORKSPACES_VIEW]"

fun org_permission_name :: "org_permission \<Rightarrow> string" where
  "org_permission_name ORG_SETTINGS_MANAGE = ''org:settings:manage''"
| "org_permission_name ORG_SETTINGS_VIEW = ''org:settings:view''"
| "org_permission_name ORG_DELETE = ''org:delete''"
| "org_permission_name BILLING_MANAGE = ''org:billing:manage''"
| "org_permission_name BILLING_VIEW = ''org:billing:view''"
| "org_permission_name SUBSCRIPTION_CANCEL = ''org:subscription:cancel''"
| "org_permission_name USERS_MANAGE = ''org:users:manage''"
| "org_permission_name USERS_VIEW = ''org:users:view''"
| "org_permission_name WORKSPACES_MANAGE = ''org:workspaces:manage''"
| "org_permission_name WORKSPACES_VIEW = ''org:workspaces:view''"

definition ORG_ROLE_PERMISSIONS :: "(string \<times> org_permission list) list" where
  "ORG_ROLE_PERMISSIONS =
     [(''ORG_ADMIN'', org_permissions),
      (''ORG_BILLING_ADMIN'',
        [ORG_SETTINGS_VIEW, BILLING_MANAGE, BILLING_VIEW, USERS_VIEW, WORKSPACES_VIEW]),
      (''ORG_USER_ADMIN'',
        [ORG_SETTINGS_VIEW, BILLING_VIEW, USERS_MANAGE, USERS_VIEW, WORKSPACES_MANAGE, WORKSPACES_VIEW]),
      (''ORG_MEMBER'', [])]"

datatype workspace_permission =
    DASHBOARD_VIEW | CONTACTS_VIEW | CONTACTS_MANAGE | MESSAGES_VIEW | MESSAGES_SEND
  | SHORTCUTS_USE | SHORTCUTS_MANAGE | BROADCASTS_VIEW | BROADCASTS_SEND | REPORTS_VIEW
  | SETTINGS_VIEW | SETTINGS_MANAGE | SETTINGS_LIMITED | PROFILE_MANAGE | NOTIFICATIONS_MANAGE
  | TEAMS_MANAGE | WORKFLOWS_VIEW | WORKFLOWS_MANAGE | CHANNELS_MANAGE | FILES_ACCESS
  | AI_AGENTS_VIEW | AI_AGENTS_MANAGE

definition workspace_permissions :: "workspace_permission list" where
  "workspace_permissions =
     [DASHBOARD_VIEW, CONTACTS_VIEW, CONTACTS_MANAGE, MESSAGES_VIEW, MESSAGES_SEND,
      SHORTCUTS_USE, SHORTCUTS_MANAGE, BROADCASTS_VIEW, BROADCASTS_SEND, REPORTS_VIEW,
      SETTINGS_VIEW, SETTINGS_MANAGE, SETTINGS_LIMITED, PROFILE_MANAGE, NOTIFICATIONS_MANAGE,
      TEAMS_MANAGE, WORKFLOWS_VIEW, WORKFLOWS_MANAGE, CHANNELS_MANAGE, FILES_ACCESS,
      AI_AGENTS_VIEW, AI_AGENTS_MANAGE]"

fun workspace_permission_name :: "workspace_permission \<Rightarrow> string" where
  "workspace_permission_name DASHBOARD_VIEW = ''ws:dashboard:view''"
| "workspace_permission_name CONTACTS_VIEW = ''ws:contacts:view''"
| "workspace_permission_name CONTACTS_MANAGE = ''ws:contacts:manage''"
| "workspace_permission_name MESSAGES_VIEW = ''ws:messages:view''"
| "workspace_permission_name MESSAGES_SEND = ''ws:messages:send''"
| "workspace_permission_name SHORTCUTS_USE = ''ws:shortcuts:use''"
| "workspace_permission_name SHORTCUTS_MANAGE = ''ws:shortcuts:manage''"
| "workspace_permission_name BROADCASTS_VIEW = ''ws:broadcasts:view''"
| "workspace_permission_name BROADCASTS_SEND = ''ws:broadcasts:send''"
| "workspace_permission_name REPORTS_VIEW = ''ws:reports:view''"
| "workspace_permission_name SETTINGS_VIEW = ''ws:settings:view''"
| "workspace_permission_name SETTINGS_MANAGE = ''ws:settings:manage''"
| "workspace_permission_name SETTINGS_LIMITED = ''ws:settings:limited''"
| "workspace_permission_name PROFILE_MANAGE = ''ws:profile:manage''"
| "workspace_permission_name NOTIFICATIONS_MANAGE = ''ws:notifications:manage''"
| "workspace_permission_name TEAMS_MANAGE = ''ws:teams:manage''"
| "workspace_permission_name WORKFLOWS_VIEW = ''ws:workflows:view''"
| "workspace_permission_name WORKFLOWS_MANAGE = ''ws:workflows:manage''"
| "workspace_permission_name CHANNELS_MANAGE = ''ws:channels:manage''"
| "workspace_permission_name FILES_ACCESS = ''ws:files:access''"
| "workspace_permission_name AI_AGENTS_VIEW = ''ws:ai-agents:view''"
| "workspace_permission_name AI_AGENTS_MANAGE = ''ws:ai-agents:manage''"

definition WS_ROLE_PERMISSIONS :: "(string \<times> workspace_permission list) list" where
  "WS_ROLE_PERMISSIONS =
     [(''WS_OWNER'', workspace_permissions),
      (''WS_MANAGER'',
        [DASHBOARD_VIEW, CONTACTS_VIEW, CONTACTS_MANAGE, MESSAGES_VIEW, MESSAGES_SEND,
         SHORTCUTS_USE, SHORTCUTS_MANAGE, BROADCASTS_VIEW, BROADCASTS_SEND, REPORTS_VIEW,
         SETTINGS_VIEW, SETTINGS_LIMITED, PROFILE_MANAGE, NOTIFICATIONS_MANAGE, WORKFLOWS_VIEW,
         AI_AGENTS_VIEW, AI_AGENTS_MANAGE, FILES_ACCESS]),
      (''WS_AGENT'',
        [MESSAGES_VIEW, MESSAGES_SEND, SHORTCUTS_USE, AI_AGENTS_VIEW, PROFILE_MANAGE,
         NOTIFICATIONS_MANAGE])]"

section \<open>The request\<close>

text \<open>
  The roles of a user are plain objects indexed by an id the caller sends. Indexing such an
  object with the name of an inherited property yields that property, which is truthy and is no
  role of any table.
\<close>

datatype role = Role string | Inherited

definition object_prototype :: "string list" where
  "object_prototype =
     [''constructor'', ''__defineGetter__'', ''__defineSetter__'', ''hasOwnProperty'',
      ''__lookupGetter__'', ''__lookupSetter__'', ''isPrototypeOf'', ''propertyIsEnumerable'',
      ''toString'', ''valueOf'', ''__proto__'', ''toLocaleString'']"

definition role_at :: "(string \<times> string) list option \<Rightarrow> string \<Rightarrow> role option" where
  "role_at roles key =
     (case roles of
        None \<Rightarrow> None
      | Some entries \<Rightarrow>
          (case map_of entries key of
             Some r \<Rightarrow> Some (Role r)
           | None \<Rightarrow> if key \<in> set object_prototype then Some Inherited else None))"

definition role_truthy :: "role option \<Rightarrow> bool" where
  "role_truthy r = (r \<noteq> None \<and> r \<noteq> Some (Role []))"

record guard_user =
  gu_id :: "string option"
  gu_email :: "string option"
  gu_firstName :: "string option"
  gu_lastName :: "string option"
  gu_orgRoles :: "(string \<times> string) list option"
  gu_workspaceRoles :: "(string \<times> string) list option"

datatype platform_role =
    PlatformOwner | PlatformAdmin | PlatformSupport | PlatformBilling | PlatformReadonly

datatype platform_permission =
    P_DASHBOARD_VIEW | P_ORGANIZATIONS_VIEW | P_ORGANIZATIONS_MANAGE | P_WORKSPACES_VIEW
  | P_WORKSPACES_MANAGE | P_USERS_VIEW | P_USERS_MANAGE | P_BILLING_VIEW | P_BILLING_MANAGE
  | P_USAGE_VIEW | P_CHANNELS_VIEW | P_CHANNELS_REPAIR | P_SYSTEM_VIEW | P_SYSTEM_MANAGE
  | P_AUDIT_VIEW | P_SETTINGS_VIEW | P_SETTINGS_MANAGE | P_IMPERSONATION_START

record platform_admin_user =
  pa_id :: string
  pa_email :: string
  pa_firstName :: "string option"
  pa_lastName :: "string option"
  pa_role :: platform_role
  pa_permissions :: "platform_permission list"

record request =
  rq_path :: "string option"
  rq_user :: "guard_user option"
  rq_header_organization :: "string option"
  rq_header_workspace :: "string option"
  rq_param_organization :: "string option"
  rq_param_workspace :: "string option"
  rq_organizationId :: "string option"
  rq_orgRole :: "role option"
  rq_workspaceId :: "string option"
  rq_workspaceRole :: "role option"
  rq_platformAdmin :: "platform_admin_user option"

type_synonym 'a guarded = "(request, 'a) io"

section \<open>The permission check\<close>

text \<open>
  The granted permissions of a role: an unknown role grants nothing; a role named like an
  inherited property finds a function, on which \<^verbatim>\<open>includes\<close> cannot be called.
\<close>

definition granted :: "(string \<times> 'p list) list \<Rightarrow> role \<Rightarrow> exn + 'p list" where
  "granted table r =
     (case r of
        Inherited \<Rightarrow> Inr []
      | Role name \<Rightarrow>
          (case map_of table name of
             Some ps \<Rightarrow> Inr ps
           | None \<Rightarrow> if name \<in> set object_prototype
                      then Inl (TypeErrorException ''granted.includes is not a function'') else Inr []))"

definition missing_of :: "'p list \<Rightarrow> 'p list \<Rightarrow> 'p list" where
  "missing_of required held = filter (\<lambda>p. p \<notin> set held) required"

definition check_permissions ::
  "string \<Rightarrow> ('p \<Rightarrow> string) \<Rightarrow> (string \<times> 'p list) list \<Rightarrow> role \<Rightarrow> 'p list option \<Rightarrow> unit guarded"
where
  "check_permissions label name table r required =
     (case required of
        None \<Rightarrow> ret ()
      | Some ps \<Rightarrow>
          if ps = [] then ret ()
          else case granted table r of
            Inl e \<Rightarrow> throw e
          | Inr held \<Rightarrow>
              (let missing = missing_of ps held
               in if missing \<noteq> [] then throw (ForbiddenException (label @ js_join '', '' (map name missing)))
                  else ret ()))"

section \<open>The route guard\<close>

datatype route_access =
    Public
  | JwtOnly
  | OrgRoute "org_permission list option"
  | WorkspaceRoute "workspace_permission list option"

text \<open>The metadata of the handler overrides that of its class.\<close>

definition getAllAndOverride :: "'a option \<Rightarrow> 'a option \<Rightarrow> 'a option" where
  "getAllAndOverride handler cls = (case handler of Some a \<Rightarrow> Some a | None \<Rightarrow> cls)"

definition requested_organization :: "request \<Rightarrow> string option" where
  "requested_organization rq = js_nullish (rq_header_organization rq) (rq_param_organization rq)"

definition requested_workspace :: "request \<Rightarrow> string option" where
  "requested_workspace rq = js_nullish (rq_header_workspace rq) (rq_param_workspace rq)"

definition role_for :: "(string \<times> string) list option \<Rightarrow> string option \<Rightarrow> role option" where
  "role_for roles i = (if js_truthy i then role_at roles (the i) else None)"

definition stamp_organization :: "string option \<Rightarrow> role option \<Rightarrow> request \<Rightarrow> request" where
  "stamp_organization i r rq =
     (if js_truthy i \<and> role_truthy r then rq\<lparr>rq_organizationId := i, rq_orgRole := r\<rparr> else rq)"

definition stamp_workspace :: "string option \<Rightarrow> role option \<Rightarrow> request \<Rightarrow> request" where
  "stamp_workspace i r rq =
     (if js_truthy i \<and> role_truthy r then rq\<lparr>rq_workspaceId := i, rq_workspaceRole := r\<rparr> else rq)"

definition isOrgAdmin :: "guard_user \<Rightarrow> bool" where
  "isOrgAdmin u = (''ORG_ADMIN'' \<in> snd ` set (case gu_orgRoles u of None \<Rightarrow> [] | Some rs \<Rightarrow> rs))"

definition enforce_org ::
  "string option \<Rightarrow> role option \<Rightarrow> org_permission list option \<Rightarrow> bool guarded" where
  "enforce_org organizationId orgRole permissions =
     (if \<not> js_truthy organizationId then
        throw (BadRequestException ''X-Organization-Id header is required'')
      else if \<not> role_truthy orgRole then
        throw (ForbiddenException ''You are not a member of this organization'')
      else seq_io (check_permissions ''Missing org permissions: '' org_permission_name
                     ORG_ROLE_PERMISSIONS (the orgRole) permissions)
             (ret True))"

definition enforce_workspace ::
  "guard_user \<Rightarrow> string option \<Rightarrow> role option \<Rightarrow> workspace_permission list option \<Rightarrow> bool guarded" where
  "enforce_workspace u workspaceId wsRole permissions =
     (if \<not> js_truthy workspaceId then
        throw (BadRequestException ''X-Workspace-Id header is required'')
      else if \<not> role_truthy wsRole then
        throw (ForbiddenException ''You do not have access to this workspace'')
      else seq_io
             (if isOrgAdmin u then ret ()
              else check_permissions ''Missing workspace permissions: '' workspace_permission_name
                     WS_ROLE_PERMISSIONS (the wsRole) permissions)
             (ret True))"

definition enforce :: "route_access \<Rightarrow> bool guarded" where
  "enforce access =
     bind_io (gets id) (\<lambda>rq.
       if access = Public then ret True
       else case rq_user rq of
         None \<Rightarrow> throw (UnauthorizedException ''Authentication required'')
       | Some u \<Rightarrow>
           if access = JwtOnly then ret True
           else
             (let organizationId = requested_organization rq;
                  workspaceId = requested_workspace rq;
                  orgRole = role_for (gu_orgRoles u) organizationId;
                  wsRole = role_for (gu_workspaceRoles u) workspaceId
              in seq_io (modify (stamp_organization organizationId orgRole))
                (seq_io (modify (stamp_workspace workspaceId wsRole))
                  (case access of
                     OrgRoute permissions \<Rightarrow> enforce_org organizationId orgRole permissions
                   | WorkspaceRoute permissions \<Rightarrow> enforce_workspace u workspaceId wsRole permissions
                   | _ \<Rightarrow> ret False))))"

definition canActivate :: "route_access option \<Rightarrow> route_access option \<Rightarrow> bool guarded" where
  "canActivate handler cls =
     (case getAllAndOverride handler cls of
        None \<Rightarrow> throw (ForbiddenException
          ''This route has no @Access decorator. Add one to the controller.'')
      | Some access \<Rightarrow> enforce access)"

section \<open>The membership guards\<close>

definition ORG_EXEMPT :: "string list" where
  "ORG_EXEMPT =
     [''/webhooks/'', ''/webchat/'', ''/api/channels/whatsapp/webhook'',
      ''/api/channels/instagram/webhook'', ''/api/channels/messenger/webhook'',
      ''/api/organizations/me'', ''/api/users/me'']"

definition WS_EXEMPT :: "string list" where
  "WS_EXEMPT =
     [''/webhooks/'', ''/webchat/'', ''/api/billing/webhook'', ''/api/organizations'',
      ''/api/billing'', ''/api/users/invite'', ''/api/channels/whatsapp/webhook'',
      ''/api/channels/instagram/webhook'', ''/api/channels/messenger/webhook'']"

definition orgMember_canActivate :: "bool guarded" where
  "orgMember_canActivate =
     bind_io (gets id) (\<lambda>rq.
       if list_ex (js_starts_with (js_default (rq_path rq) [])) ORG_EXEMPT then ret True
       else
         (let organizationId = requested_organization rq;
              orgRole = Option.bind (rq_user rq) (\<lambda>u. role_for (gu_orgRoles u) organizationId)
          in if \<not> js_truthy organizationId then
               throw (BadRequestException ''X-Organization-Id header is required'')
             else if \<not> role_truthy orgRole then
               throw (ForbiddenException ''You are not a member of this organization'')
             else seq_io (modify (stamp_organization organizationId orgRole)) (ret True)))"

definition workspaceMember_canActivate :: "bool guarded" where
  "workspaceMember_canActivate =
     bind_io (gets id) (\<lambda>rq.
       if list_ex (js_starts_with (js_default (rq_path rq) [])) WS_EXEMPT then ret True
       else
         (let workspaceId = requested_workspace rq;
              wsRole = Option.bind (rq_user rq) (\<lambda>u. role_for (gu_workspaceRoles u) workspaceId)
          in if \<not> js_truthy workspaceId then
               throw (BadRequestException ''X-Workspace-Id header is required'')
             else if \<not> role_truthy wsRole then
               throw (ForbiddenException ''You do not have access to this workspace'')
             else seq_io (modify (stamp_workspace workspaceId wsRole)) (ret True)))"

section \<open>Platform administration\<close>

definition platform_permissions :: "platform_permission list" where
  "platform_permissions =
     [P_DASHBOARD_VIEW, P_ORGANIZATIONS_VIEW, P_ORGANIZATIONS_MANAGE, P_WORKSPACES_VIEW,
      P_WORKSPACES_MANAGE, P_USERS_VIEW, P_USERS_MANAGE, P_BILLING_VIEW, P_BILLING_MANAGE,
      P_USAGE_VIEW, P_CHANNELS_VIEW, P_CHANNELS_REPAIR, P_SYSTEM_VIEW, P_SYSTEM_MANAGE,
      P_AUDIT_VIEW, P_SETTINGS_VIEW, P_SETTINGS_MANAGE, P_IMPERSONATION_START]"

fun platform_permission_name :: "platform_permission \<Rightarrow> string" where
  "platform_permission_name P_DASHBOARD_VIEW = ''platform:dashboard:view''"
| "platform_permission_name P_ORGANIZATIONS_VIEW = ''platform:organizations:view''"
| "platform_permission_name P_ORGANIZATIONS_MANAGE = ''platform:organizations:manage''"
| "platform_permission_name P_WORKSPACES_VIEW = ''platform:workspaces:view''"
| "platform_permission_name P_WORKSPACES_MANAGE = ''platform:workspaces:manage''"
| "platform_permission_name P_USERS_VIEW = ''platform:users:view''"
| "platform_permission_name P_USERS_MANAGE = ''platform:users:manage''"
| "platform_permission_name P_BILLING_VIEW = ''platform:billing:view''"
| "platform_permission_name P_BILLING_MANAGE = ''platform:billing:manage''"
| "platform_permission_name P_USAGE_VIEW = ''platform:usage:view''"
| "platform_permission_name P_CHANNELS_VIEW = ''platform:channels:view''"
| "platform_permission_name P_CHANNELS_REPAIR = ''platform:channels:repair''"
| "platform_permission_name P_SYSTEM_VIEW = ''platform:system:view''"
| "platform_permission_name P_SYSTEM_MANAGE = ''platform:system:manage''"
| "platform_permission_name P_AUDIT_VIEW = ''platform:audit:view''"
| "platform_permission_name P_SETTINGS_VIEW = ''platform:settings:view''"
| "platform_permission_name P_SETTINGS_MANAGE = ''platform:settings:manage''"
| "platform_permission_name P_IMPERSONATION_START = ''platform:impersonation:start''"

definition platform_roles :: "platform_role list" where
  "platform_roles =
     [PlatformOwner, PlatformAdmin, PlatformSupport, PlatformBilling, PlatformReadonly]"

fun getPlatformPermissions :: "platform_role \<Rightarrow> platform_permission list" where
  "getPlatformPermissions PlatformOwner = platform_permissions"
| "getPlatformPermissions PlatformAdmin =
     [P_DASHBOARD_VIEW, P_ORGANIZATIONS_VIEW, P_ORGANIZATIONS_MANAGE, P_WORKSPACES_VIEW,
      P_WORKSPACES_MANAGE, P_USERS_VIEW, P_USERS_MANAGE, P_BILLING_VIEW, P_BILLING_MANAGE,
      P_USAGE_VIEW, P_CHANNELS_VIEW, P_CHANNELS_REPAIR, P_SYSTEM_VIEW, P_SYSTEM_MANAGE,
      P_AUDIT_VIEW, P_SETTINGS_VIEW]"
| "getPlatformPermissions PlatformSupport =
     [P_DASHBOARD_VIEW, P_ORGANIZATIONS_VIEW, P_WORKSPACES_VIEW, P_USERS_VIEW, P_USAGE_VIEW,
      P_CHANNELS_VIEW, P_CHANNELS_REPAIR, P_SYSTEM_VIEW, P_AUDIT_VIEW]"
| "getPlatformPermissions PlatformBilling =
     [P_DASHBOARD_VIEW, P_ORGANIZATIONS_VIEW, P_WORKSPACES_VIEW, P_USERS_VIEW, P_BILLING_VIEW,
      P_BILLING_MANAGE, P_USAGE_VIEW, P_AUDIT_VIEW]"
| "getPlatformPermissions PlatformReadonly =
     [P_DASHBOARD_VIEW, P_ORGANIZATIONS_VIEW, P_WORKSPACES_VIEW, P_USERS_VIEW, P_BILLING_VIEW,
      P_USAGE_VIEW, P_CHANNELS_VIEW, P_SYSTEM_VIEW, P_AUDIT_VIEW, P_SETTINGS_VIEW]"

fun ROLE_EMAIL_ENV :: "platform_role \<Rightarrow> string list" where
  "ROLE_EMAIL_ENV PlatformOwner = [''PLATFORM_OWNER_EMAILS'', ''PLATFORM_ADMIN_EMAILS'']"
| "ROLE_EMAIL_ENV PlatformAdmin = [''PLATFORM_OPERATOR_EMAILS'']"
| "ROLE_EMAIL_ENV PlatformSupport = [''PLATFORM_SUPPORT_EMAILS'']"
| "ROLE_EMAIL_ENV PlatformBilling = [''PLATFORM_BILLING_EMAILS'']"
| "ROLE_EMAIL_ENV PlatformReadonly = [''PLATFORM_READONLY_EMAILS'']"

text \<open>The environment variables of the process are a parameter.\<close>

definition readCsvSet :: "(string \<Rightarrow> string option) \<Rightarrow> string list \<Rightarrow> string list" where
  "readCsvSet vars names =
     filter (\<lambda>v. v \<noteq> [])
       (map (\<lambda>v. js_lower (js_trim v))
          (concat (map (\<lambda>n. js_split (CHR '','') (js_default (vars n) [])) names)))"

definition resolvePlatformRoleForEmail ::
  "(string \<Rightarrow> string option) \<Rightarrow> string option \<Rightarrow> platform_role option" where
  "resolvePlatformRoleForEmail vars email =
     (case email of
        None \<Rightarrow> None
      | Some e \<Rightarrow>
          (let normalized = js_lower (js_trim e)
           in if normalized = [] then None
              else find (\<lambda>r. normalized \<in> set (readCsvSet vars (ROLE_EMAIL_ENV r))) platform_roles))"

definition platform_canActivate ::
  "(string \<Rightarrow> string option) \<Rightarrow> platform_permission list option \<Rightarrow> bool guarded" where
  "platform_canActivate vars required =
     bind_io (gets rq_user) (\<lambda>user.
       case (resolvePlatformRoleForEmail vars (Option.bind user gu_email), user) of
         (Some r, Some u) \<Rightarrow>
           if \<not> js_truthy (gu_id u) \<or> \<not> js_truthy (gu_email u) then
             throw (ForbiddenException ''Platform admin access is not configured for this account'')
           else
             (let permissions = getPlatformPermissions r;
                  missing = missing_of (js_default required []) permissions
              in if missing \<noteq> [] then
                   throw (ForbiddenException
                     (''Missing platform permissions: '' @ js_join '', '' (map platform_permission_name missing)))
                 else seq_io
                   (modify (\<lambda>rq. rq\<lparr>rq_platformAdmin := Some
                      \<lparr>pa_id = the (gu_id u), pa_email = the (gu_email u), pa_firstName = gu_firstName u,
                       pa_lastName = gu_lastName u, pa_role = r, pa_permissions = permissions\<rparr>\<rparr>))
                   (ret True))
       | _ \<Rightarrow> throw (ForbiddenException ''Platform admin access is not configured for this account''))"

section \<open>Permission schemes\<close>

text \<open>
  What the three tables have in common: one role holds every permission, and permissions are
  told apart by their names in a refusal.
\<close>

locale permission_scheme =
  fixes grants :: "'r \<Rightarrow> 'p list" and top :: 'r and name :: "'p \<Rightarrow> string"
  assumes grants_top: "p \<in> set (grants top)"
    and name_inj: "name p = name q \<Longrightarrow> p = q"
begin

lemma top_misses_nothing: "missing_of required (grants top) = []"
  by (simp add: missing_of_def filter_empty_conv grants_top)

lemma missing_antimono:
  assumes "set (grants r) \<subseteq> set (grants r')"
  shows "set (missing_of required (grants r')) \<subseteq> set (missing_of required (grants r))"
  using assms by (auto simp: missing_of_def)

lemma named_missing:
  "name p \<in> set (map name (missing_of required (grants r))) \<longleftrightarrow> p \<in> set required \<and> p \<notin> set (grants r)"
  using name_inj by (auto simp: missing_of_def)

lemma misses_nothing_iff: "missing_of required (grants r) = [] \<longleftrightarrow> set required \<subseteq> set (grants r)"
  by (auto simp: missing_of_def filter_empty_conv)

end

text \<open>The permissions a role holds, none for a value that is no role.\<close>

definition held_by :: "(string \<times> 'p list) list \<Rightarrow> role \<Rightarrow> 'p list" where
  "held_by table r = (case granted table r of Inl _ \<Rightarrow> [] | Inr ps \<Rightarrow> ps)"

interpretation org: permission_scheme "held_by ORG_ROLE_PERMISSIONS" "Role ''ORG_ADMIN''" org_permission_name
proof
  show "p \<in> set (held_by ORG_ROLE_PERMISSIONS (Role ''ORG_ADMIN''))" for p
    by (cases p) (simp_all add: held_by_def granted_def ORG_ROLE_PERMISSIONS_def org_permissions_def)
  show "org_permission_name p = org_permission_name q \<Longrightarrow> p = q" for p q
    by (cases p; cases q) simp_all
qed

interpretation ws: permission_scheme
  "held_by WS_ROLE_PERMISSIONS" "Role ''WS_OWNER''" workspace_permission_name
proof
  show "p \<in> set (held_by WS_ROLE_PERMISSIONS (Role ''WS_OWNER''))" for p
    by (cases p) (simp_all add: held_by_def granted_def WS_ROLE_PERMISSIONS_def workspace_permissions_def)
  show "workspace_permission_name p = workspace_permission_name q \<Longrightarrow> p = q" for p q
    by (cases p; cases q) simp_all
qed

interpretation platform: permission_scheme getPlatformPermissions PlatformOwner platform_permission_name
proof
  show "p \<in> set (getPlatformPermissions PlatformOwner)" for p
    by (cases p) (simp_all add: platform_permissions_def)
  show "platform_permission_name p = platform_permission_name q \<Longrightarrow> p = q" for p q
    by (cases p; cases q) simp_all
qed

lemma check_state [simp]: "snd (check_permissions label name table r required rq) = rq"
  by (simp add: check_permissions_def ret_def throw_def Let_def split: option.split sum.split)

lemma check_passes:
  "fst (check_permissions label name table r required rq) = Inr () \<longleftrightarrow>
     set (js_default required []) \<subseteq> set (held_by table r)"
  by (auto simp: check_permissions_def ret_def throw_def Let_def held_by_def missing_of_def
      filter_empty_conv split: option.split sum.split)

lemma check_then:
  "seq_io (check_permissions label name table r required) (ret True) rq =
     (if set (js_default required []) \<subseteq> set (held_by table r) then (Inr True, rq)
      else (Inl (case fst (check_permissions label name table r required rq) of Inl e \<Rightarrow> e), rq))"
  using check_passes [of label name table r required rq] check_state [of label name table r required rq]
  by (cases "check_permissions label name table r required rq") (auto simp: io_simps split: sum.split)

section \<open>Properties of the route guard\<close>

definition org_role_of :: "request \<Rightarrow> role option" where
  "org_role_of rq = Option.bind (rq_user rq) (\<lambda>u. role_for (gu_orgRoles u) (requested_organization rq))"

definition workspace_role_of :: "request \<Rightarrow> role option" where
  "workspace_role_of rq = Option.bind (rq_user rq) (\<lambda>u. role_for (gu_workspaceRoles u) (requested_workspace rq))"

text \<open>The abstract access rule of a route.\<close>

definition admitted :: "route_access \<Rightarrow> request \<Rightarrow> bool" where
  "admitted access rq =
     (case access of
        Public \<Rightarrow> True
      | JwtOnly \<Rightarrow> rq_user rq \<noteq> None
      | OrgRoute ps \<Rightarrow>
          role_truthy (org_role_of rq)
          \<and> set (js_default ps []) \<subseteq> set (held_by ORG_ROLE_PERMISSIONS (the (org_role_of rq)))
      | WorkspaceRoute ps \<Rightarrow>
          role_truthy (workspace_role_of rq)
          \<and> (isOrgAdmin (the (rq_user rq))
             \<or> set (js_default ps []) \<subseteq> set (held_by WS_ROLE_PERMISSIONS (the (workspace_role_of rq)))))"

definition stamped :: "request \<Rightarrow> request" where
  "stamped rq =
     stamp_workspace (requested_workspace rq) (workspace_role_of rq)
       (stamp_organization (requested_organization rq) (org_role_of rq) rq)"

lemma role_for_truthy: "role_truthy (role_for roles i) \<Longrightarrow> js_truthy i"
  by (auto simp: role_for_def role_truthy_def split: if_splits)

lemma seq_skip: "seq_io (ret ()) m = m"
  by (rule ext) (simp add: io_simps)

lemma enforce_org_run:
  "fst (enforce_org i (role_for roles i) ps rq) = Inr True \<longleftrightarrow>
     role_truthy (role_for roles i)
     \<and> set (js_default ps []) \<subseteq> set (held_by ORG_ROLE_PERMISSIONS (the (role_for roles i)))"
  "fst (enforce_org i r ps rq) \<noteq> Inr False" "snd (enforce_org i r ps rq) = rq"
  by (auto simp: enforce_org_def check_then throw_def dest: role_for_truthy)

lemma enforce_workspace_run:
  "fst (enforce_workspace u i (role_for roles i) ps rq) = Inr True \<longleftrightarrow>
     role_truthy (role_for roles i)
     \<and> (isOrgAdmin u
        \<or> set (js_default ps []) \<subseteq> set (held_by WS_ROLE_PERMISSIONS (the (role_for roles i))))"
  "fst (enforce_workspace u i r ps rq) \<noteq> Inr False" "snd (enforce_workspace u i r ps rq) = rq"
  by (cases "isOrgAdmin u")
     (auto simp: enforce_workspace_def check_then throw_def seq_skip ret_def dest: role_for_truthy)

lemma enforce_run:
  assumes "rq_user rq = Some u"
  shows "enforce (OrgRoute ops) rq =
      enforce_org (requested_organization rq) (role_for (gu_orgRoles u) (requested_organization rq)) ops
        (stamped rq)"
    and "enforce (WorkspaceRoute wps) rq =
      enforce_workspace u (requested_workspace rq)
        (role_for (gu_workspaceRoles u) (requested_workspace rq)) wps (stamped rq)"
  using assms by (simp_all add: enforce_def io_simps stamped_def org_role_of_def workspace_role_of_def Let_def)

lemma guard_outcome:
  "(fst (canActivate handler cls rq) = Inr True \<longleftrightarrow>
      (\<exists>access. getAllAndOverride handler cls = Some access \<and> admitted access rq))
   \<and> fst (canActivate handler cls rq) \<noteq> Inr False
   \<and> snd (canActivate handler cls rq) \<in> {rq, stamped rq}"
proof (cases "getAllAndOverride handler cls")
  case None
  then show ?thesis by (simp add: canActivate_def throw_def)
next
  case (Some access)
  then have run: "canActivate handler cls rq = enforce access rq" by (simp add: canActivate_def)
  show ?thesis
  proof (cases "rq_user rq")
    case None
    with Some run show ?thesis
      by (cases access)
         (auto simp: enforce_def io_simps admitted_def org_role_of_def workspace_role_of_def role_truthy_def)
  next
    case user: (Some u)
    show ?thesis
    proof (cases access)
      case (OrgRoute ps)
      with Some run user show ?thesis
        by (simp add: enforce_run enforce_org_run admitted_def org_role_of_def)
    next
      case (WorkspaceRoute ps)
      with Some run user show ?thesis
        by (simp add: enforce_run enforce_workspace_run admitted_def workspace_role_of_def)
    qed (use Some run user in \<open>simp_all add: enforce_def io_simps admitted_def\<close>)
  qed
qed

lemmas guard_admits = guard_outcome [THEN conjunct1]

text \<open>
  C26: The route guard admits a request exactly when the abstract rule of its route does: a
  public route always; a signed-in route for a user; an organization route for a user with a
  role in the organization named by the request and every required permission in that role; a
  workspace route for a user with a role in the named workspace who holds every required
  permission or is administrator of some organization. It never answers false without a reason,
  and the request it hands on differs only by the organization and the workspace it resolved.
\<close>

theorem route_guard_exact:
  "(fst (canActivate handler cls rq) = Inr True \<longleftrightarrow>
      (\<exists>access. getAllAndOverride handler cls = Some access \<and> admitted access rq))
   \<and> fst (canActivate handler cls rq) \<noteq> Inr False
   \<and> snd (canActivate handler cls rq) \<in> {rq, stamped rq}"
  by (rule guard_outcome)

text \<open>A request of a user with one role in workspace \<open>w\<close>, sent for that workspace.\<close>

definition with_workspace_role :: "string \<Rightarrow> string \<Rightarrow> guard_user \<Rightarrow> request \<Rightarrow> request" where
  "with_workspace_role w r u rq =
     rq\<lparr>rq_user := Some (u\<lparr>gu_workspaceRoles :=
          Some ((w, r) # (case gu_workspaceRoles u of None \<Rightarrow> [] | Some rs \<Rightarrow> rs))\<rparr>),
        rq_header_workspace := Some w\<rparr>"

definition workspace_ranks :: "string list" where
  "workspace_ranks = [''WS_AGENT'', ''WS_MANAGER'', ''WS_OWNER'']"

lemma workspace_ranks_ordered:
  assumes "i \<le> j" and "j < length workspace_ranks"
  shows "set (held_by WS_ROLE_PERMISSIONS (Role (workspace_ranks ! i)))
    \<subseteq> set (held_by WS_ROLE_PERMISSIONS (Role (workspace_ranks ! j)))"
proof -
  have "j = 0 \<or> j = 1 \<or> j = 2" using assms(2) by (auto simp: workspace_ranks_def)
  moreover have "i = 0 \<or> i = 1 \<or> i = 2" using assms(1) calculation by auto
  ultimately show ?thesis
    using assms(1)
    by (elim disjE)
       (simp_all add: workspace_ranks_def held_by_def granted_def WS_ROLE_PERMISSIONS_def workspace_permissions_def)
qed

text \<open>
  The workspace roles are ranked: whatever route a request with a lower role is admitted to,
  it is also admitted to with a higher one, and an owner is admitted to every workspace route.
\<close>

theorem workspace_roles_ranked:
  assumes "i \<le> j" and "j < length workspace_ranks" and "w \<noteq> []"
    and "fst (canActivate handler cls (with_workspace_role w (workspace_ranks ! i) u rq)) = Inr True"
  shows "fst (canActivate handler cls (with_workspace_role w (workspace_ranks ! j) u rq)) = Inr True
    \<and> fst (canActivate (Some (WorkspaceRoute ps)) cls' (with_workspace_role w ''WS_OWNER'' u rq)) = Inr True"
proof -
  have role: "workspace_role_of (with_workspace_role w r u rq) = Some (Role r)"
    "org_role_of (with_workspace_role w r u rq) = org_role_of (rq\<lparr>rq_user := Some u\<rparr>)" for r
    using assms(3)
    by (simp_all add: workspace_role_of_def org_role_of_def with_workspace_role_def role_for_def role_at_def
        requested_workspace_def requested_organization_def)
  have ranked: "role_truthy (Some (Role (workspace_ranks ! k)))" if "k < length workspace_ranks" for k
    using that by (auto simp: role_truthy_def workspace_ranks_def less_Suc_eq)
  obtain access where a: "getAllAndOverride handler cls = Some access"
    "admitted access (with_workspace_role w (workspace_ranks ! i) u rq)"
    using assms(4) guard_admits by blast
  have "admitted access (with_workspace_role w (workspace_ranks ! j) u rq)"
    using a(2) workspace_ranks_ordered [OF assms(1,2)] ranked [OF assms(2)] role
    by (cases access) (auto simp: admitted_def with_workspace_role_def isOrgAdmin_def)
  moreover have "admitted (WorkspaceRoute ps) (with_workspace_role w ''WS_OWNER'' u rq)"
    using ws.grants_top role by (auto simp: admitted_def role_truthy_def)
  ultimately show ?thesis using a(1) by (simp add: guard_admits getAllAndOverride_def)
qed

definition sample_user :: guard_user where
  "sample_user =
     \<lparr>gu_id = Some ''u1'', gu_email = Some ''Ops@Axodesk.test'', gu_firstName = Some ''Ada'',
      gu_lastName = None, gu_orgRoles = Some [(''o1'', ''ORG_BILLING_ADMIN'')],
      gu_workspaceRoles = Some [(''w1'', ''WS_AGENT'')]\<rparr>"

definition sample_request :: request where
  "sample_request =
     \<lparr>rq_path = Some ''/api/contacts'', rq_user = Some sample_user, rq_header_organization = Some ''o1'',
      rq_header_workspace = None, rq_param_organization = None, rq_param_workspace = None,
      rq_organizationId = None, rq_orgRole = None, rq_workspaceId = None, rq_workspaceRole = None,
      rq_platformAdmin = None\<rparr>"

theorem workspace_roles_witness:
  "fst (canActivate (Some (WorkspaceRoute (Some [MESSAGES_SEND]))) None
     (with_workspace_role ''w1'' ''WS_MANAGER'' sample_user sample_request)) = Inr True"
proof -
  have "admitted (WorkspaceRoute (Some [MESSAGES_SEND]))
      (with_workspace_role ''w1'' (workspace_ranks ! 0) sample_user sample_request)"
    by (simp add: admitted_def workspace_role_of_def with_workspace_role_def workspace_ranks_def
        requested_workspace_def role_for_def role_at_def role_truthy_def held_by_def granted_def
        WS_ROLE_PERMISSIONS_def)
  then have "fst (canActivate (Some (WorkspaceRoute (Some [MESSAGES_SEND]))) None
      (with_workspace_role ''w1'' (workspace_ranks ! 0) sample_user sample_request)) = Inr True"
    by (simp add: guard_admits getAllAndOverride_def)
  from workspace_roles_ranked [OF _ _ _ this, of 1] show ?thesis
    by (simp add: workspace_ranks_def)
qed

section \<open>Properties of the platform guard\<close>

lemma find_first:
  "find P xs = Some x \<longleftrightarrow> (\<exists>ys zs. xs = ys @ x # zs \<and> P x \<and> (\<forall>y\<in>set ys. \<not> P y))"
proof (induction xs)
  case (Cons a xs)
  have "(\<exists>ys zs. a # xs = ys @ x # zs \<and> P x \<and> (\<forall>y\<in>set ys. \<not> P y)) \<longleftrightarrow>
      (if P a then x = a else \<exists>ys zs. xs = ys @ x # zs \<and> P x \<and> (\<forall>y\<in>set ys. \<not> P y))"
    by (auto simp: Cons_eq_append_conv) (metis set_ConsD)+
  with Cons show ?case by (simp add: eq_commute)
qed simp

lemma readCsvSet_entry:
  "e \<in> set (readCsvSet vars names) \<longleftrightarrow>
     e \<noteq> [] \<and> (\<exists>n\<in>set names. \<exists>v\<in>set (js_split (CHR '','') (js_default (vars n) [])). e = js_lower (js_trim v))"
  by (auto simp: readCsvSet_def)

text \<open>The role of an account: the first one, in the order of the roles, whose list names it.\<close>

definition listed_for :: "(string \<Rightarrow> string option) \<Rightarrow> string \<Rightarrow> platform_role \<Rightarrow> bool" where
  "listed_for vars email r \<longleftrightarrow>
     js_lower (js_trim email) \<noteq> []
     \<and> (\<exists>n\<in>set (ROLE_EMAIL_ENV r).
          \<exists>v\<in>set (js_split (CHR '','') (js_default (vars n) [])). js_lower (js_trim v) = js_lower (js_trim email))"

lemma resolve_first:
  "resolvePlatformRoleForEmail vars (Some e) = Some r \<longleftrightarrow>
     (\<exists>before after. platform_roles = before @ r # after \<and> listed_for vars e r
        \<and> (\<forall>q\<in>set before. \<not> listed_for vars e q))"
proof -
  let ?n = "js_lower (js_trim e)"
  have "?n \<in> set (readCsvSet vars (ROLE_EMAIL_ENV q)) \<longleftrightarrow> listed_for vars e q" for q
    unfolding readCsvSet_entry listed_for_def by metis
  then show ?thesis
    by (cases "?n = []") (auto simp: resolvePlatformRoleForEmail_def find_first listed_for_def)
qed

text \<open>
  The platform guard admits a request exactly when its user has an id and an email that
  the environment lists for some platform role, and the first such role, in the order owner,
  administrator, support, billing, read-only, holds every permission the route requires. Then
  the request is stamped with that role; a refused request is handed back as it came.
\<close>

theorem platform_guard_exact:
  "(fst (platform_canActivate vars required rq) = Inr True \<longleftrightarrow>
      (\<exists>u e r. rq_user rq = Some u \<and> js_truthy (gu_id u) \<and> gu_email u = Some e
         \<and> resolvePlatformRoleForEmail vars (Some e) = Some r
         \<and> (\<exists>before after. platform_roles = before @ r # after \<and> listed_for vars e r
              \<and> (\<forall>q\<in>set before. \<not> listed_for vars e q))
         \<and> set (js_default required []) \<subseteq> set (getPlatformPermissions r)
         \<and> map_option pa_role (rq_platformAdmin (snd (platform_canActivate vars required rq))) = Some r))
   \<and> (fst (platform_canActivate vars required rq) \<noteq> Inr True \<longrightarrow>
        snd (platform_canActivate vars required rq) = rq)"
proof -
  let ?role = "resolvePlatformRoleForEmail vars (Option.bind (rq_user rq) gu_email)"
  show ?thesis
  proof (cases "\<exists>u e r. rq_user rq = Some u \<and> js_truthy (gu_id u) \<and> gu_email u = Some e \<and> e \<noteq> [] \<and> ?role = Some r")
    case True
    then obtain u e r where u: "rq_user rq = Some u" "js_truthy (gu_id u)" "gu_email u = Some e" "e \<noteq> []"
      "resolvePlatformRoleForEmail vars (Some e) = Some r" by auto
    then have "platform_canActivate vars required rq =
        (if set (js_default required []) \<subseteq> set (getPlatformPermissions r)
         then (Inr True, rq\<lparr>rq_platformAdmin := Some \<lparr>pa_id = the (gu_id u), pa_email = e,
            pa_firstName = gu_firstName u, pa_lastName = gu_lastName u, pa_role = r,
            pa_permissions = getPlatformPermissions r\<rparr>\<rparr>)
         else (Inl (ForbiddenException (''Missing platform permissions: '' @ js_join '', ''
            (map platform_permission_name (missing_of (js_default required []) (getPlatformPermissions r))))), rq))"
      by (simp add: platform_canActivate_def io_simps Let_def platform.misses_nothing_iff)
    with u resolve_first [of vars e r] show ?thesis by auto
  next
    case False
    then have refused: "platform_canActivate vars required rq =
        (Inl (ForbiddenException ''Platform admin access is not configured for this account''), rq)"
      by (cases "rq_user rq")
         (auto simp: platform_canActivate_def io_simps Let_def js_truthy_def split: option.splits)
    have "e \<noteq> []" if "resolvePlatformRoleForEmail vars (Some e) = Some r" for e r
      using that by (auto simp: resolvePlatformRoleForEmail_def js_lower_def js_trim_def split: if_splits)
    with False refused show ?thesis by auto
  qed
qed

theorem platform_guard_witness:
  "fst (platform_canActivate (\<lambda>n. if n = ''PLATFORM_SUPPORT_EMAILS'' then Some ''x@y.z, ops@axodesk.test'' else None)
       (Some [P_SETTINGS_MANAGE]) sample_request) \<noteq> Inr True
   \<and> snd (platform_canActivate (\<lambda>n. if n = ''PLATFORM_SUPPORT_EMAILS'' then Some ''x@y.z, ops@axodesk.test'' else None)
       (Some [P_SETTINGS_MANAGE]) sample_request) = sample_request"
proof -
  let ?vars = "\<lambda>n. if n = ''PLATFORM_SUPPORT_EMAILS'' then Some ''x@y.z, ops@axodesk.test'' else None"
  have "resolvePlatformRoleForEmail ?vars (Some ''Ops@Axodesk.test'') = Some PlatformSupport"
    by code_simp
  then have "fst (platform_canActivate ?vars (Some [P_SETTINGS_MANAGE]) sample_request) \<noteq> Inr True"
    by (simp add: platform_canActivate_def io_simps sample_request_def sample_user_def missing_of_def)
  with platform_guard_exact [of ?vars "Some [P_SETTINGS_MANAGE]" sample_request] show ?thesis by blast
qed

end
