(* ===== verification/Billing_Routes.thy ===== *)
theory Billing_Routes
  imports Billing_System Access_Control
begin

text \<open>
  The routes of the billing controller (\<^verbatim>\<open>billing.controller.ts\<close>) behind the route guard: which
  permission each needs, the validated bodies, and the service method it calls with the workspace
  the guard has resolved. An organization route does not require a workspace, so that id may be
  undefined when a method runs.
\<close>

section \<open>Requests and replies\<close>

datatype billing_request =
    Me
  | Checkout checkout_dto
  | ChangePlan string
  | Cancel
  | Invoices
  | Addon string int
  | PayInvoice string

datatype billing_reply =
    ReplyMe billing_me
  | ReplyCheckout checkout_reply
  | ReplySubscription subscription
  | ReplyInvoices "(int \<times> invoice) list"
  | ReplyAddon addon_reply
  | ReplyPay pay_reply

text \<open>The decorator of the handler, and that of the controller.\<close>

fun handler_access :: "billing_request \<Rightarrow> route_access option" where
  "handler_access Me = None"
| "handler_access (Checkout _) = Some (OrgRoute (Some [BILLING_MANAGE]))"
| "handler_access (ChangePlan _) = Some (OrgRoute (Some [BILLING_MANAGE]))"
| "handler_access Cancel = Some (OrgRoute (Some [SUBSCRIPTION_CANCEL]))"
| "handler_access Invoices = None"
| "handler_access (Addon _ _) = Some (OrgRoute (Some [BILLING_MANAGE]))"
| "handler_access (PayInvoice _) = Some (OrgRoute (Some [BILLING_MANAGE]))"

definition controller_access :: "route_access option" where
  "controller_access = Some (OrgRoute (Some [BILLING_VIEW]))"

fun valid_body :: "billing_request \<Rightarrow> bool" where
  "valid_body (Checkout dto) =
     (dto_plan dto \<in> set [''starter'', ''growth'', ''pro''] \<and> dto_provider dto \<in> set [''razorpay'', ''stripe''])"
| "valid_body (ChangePlan plan) = (plan \<in> set [''starter'', ''growth''])"
| "valid_body _ = True"

text \<open>The signed-in user as the billing methods read it; both columns are required in the table.\<close>

definition account :: "guard_user \<Rightarrow> user" where
  "account u =
     \<lparr>user_id = js_default (gu_id u) [], user_email = js_default (gu_email u) [],
      user_firstName = gu_firstName u, user_lastName = gu_lastName u\<rparr>"

definition map_reply :: "('a \<Rightarrow> 'b) \<Rightarrow> 'a bill \<Rightarrow> 'b bill" where
  "map_reply f m = bind_io m (\<lambda>x. ret (f x))"

text \<open>
  The methods called without a workspace. Their first query is a \<^verbatim>\<open>findUnique\<close> on an undefined
  id, which Prisma rejects; the checkout methods first take the lock and look at the plan.
\<close>

definition unscoped :: "'a bill" where
  "unscoped = throw PrismaValidation"

definition unscoped_plan :: "env \<Rightarrow> string \<Rightarrow> 'a bill" where
  "unscoped_plan E plan =
     withCheckoutLock None
       (if PLANS E plan = None \<or> plan = ''trial'' then throw (BadRequestException ''Invalid plan'') else unscoped)"

definition billing_handler :: "env \<Rightarrow> string option \<Rightarrow> user \<Rightarrow> billing_request \<Rightarrow> billing_reply bill" where
  "billing_handler E ws u req =
     (case req of
        Me \<Rightarrow> map_reply ReplyMe (case ws of None \<Rightarrow> unscoped | Some w \<Rightarrow> getBillingMe E w)
      | Checkout dto \<Rightarrow>
          map_reply ReplyCheckout
            (case ws of None \<Rightarrow> unscoped_plan E (dto_plan dto) | Some w \<Rightarrow> createCheckout E w dto u)
      | ChangePlan plan \<Rightarrow>
          map_reply ReplyCheckout
            (case ws of None \<Rightarrow> unscoped_plan E plan | Some w \<Rightarrow> changePlan E w plan)
      | Cancel \<Rightarrow> map_reply ReplySubscription (case ws of None \<Rightarrow> unscoped | Some w \<Rightarrow> cancelSubscription E w)
      | Invoices \<Rightarrow> map_reply ReplyInvoices (getInvoices E ws)
      | Addon type quantity \<Rightarrow>
          map_reply ReplyAddon (case ws of None \<Rightarrow> unscoped | Some w \<Rightarrow> addAddon E w type quantity)
      | PayInvoice i \<Rightarrow> map_reply ReplyPay (payInvoice E ws i))"

text \<open>Guards run first, then the validation of the body, then the handler.\<close>

definition billing_route :: "env \<Rightarrow> request \<Rightarrow> billing_request \<Rightarrow> billing_reply bill" where
  "billing_route E rq req =
     (case canActivate (handler_access req) controller_access rq of
        (Inl e, _) \<Rightarrow> throw e
      | (Inr False, _) \<Rightarrow> throw (ForbiddenException ''Forbidden resource'')
      | (Inr True, rq') \<Rightarrow>
          if \<not> valid_body req then throw (BadRequestException ''Bad Request Exception'')
          else billing_handler E (rq_workspaceId rq') (account (the (rq_user rq'))) req)"

section \<open>What a route does\<close>

definition required :: "billing_request \<Rightarrow> org_permission" where
  "required req =
     (case req of Me \<Rightarrow> BILLING_VIEW | Invoices \<Rightarrow> BILLING_VIEW | Cancel \<Rightarrow> SUBSCRIPTION_CANCEL
      | _ \<Rightarrow> BILLING_MANAGE)"

lemma billing_access:
  "getAllAndOverride (handler_access req) controller_access = Some (OrgRoute (Some [required req]))"
  by (cases req) (simp_all add: getAllAndOverride_def controller_access_def required_def)

lemma map_reply_run:
  "snd (map_reply f m s) = snd (m s)"
  "fst (m s) = Inr x \<Longrightarrow> fst (map_reply f m s) = Inr (f x)"
  "(\<exists>y. fst (map_reply f m s) = Inr y) \<longleftrightarrow> (\<exists>x. fst (m s) = Inr x)"
  by (cases "m s"; auto simp: map_reply_def io_simps split: sum.splits)+

lemma filter_no_None: "None \<notin> set xs \<Longrightarrow> filter (\<lambda>x. \<exists>y. x = Some y) xs = xs"
  by (auto simp: filter_id_conv) (metis not_Some_eq)

lemma unscoped_run:
  "snd (unscoped s) = s" "fst (unscoped s) \<noteq> Inr x"
  "snd (unscoped_plan E plan s) = s" "fst (unscoped_plan E plan s) \<noteq> Inr x"
  by (auto simp: unscoped_def unscoped_plan_def withCheckoutLock_def io_simps filter_no_None)

lemma admitted_workspace:
  assumes "rq_workspaceId rq = None" and "rq_user rq = Some u"
  shows "rq_workspaceId (stamped rq) = (if role_truthy (workspace_role_of rq) then requested_workspace rq else None)"
    and "rq_user (stamped rq) = Some u"
  using assms role_for_truthy [of "gu_workspaceRoles u" "requested_workspace rq"]
  by (auto simp: stamped_def stamp_workspace_def stamp_organization_def workspace_role_of_def)

lemma route_run:
  assumes "rq_workspaceId rq = None"
  shows "billing_route E rq req s =
    (if \<not> admitted (OrgRoute (Some [required req])) rq then
       (Inl (projl (fst (canActivate (handler_access req) controller_access rq))), s)
     else if \<not> valid_body req then (Inl (BadRequestException ''Bad Request Exception''), s)
     else billing_handler E (if role_truthy (workspace_role_of rq) then requested_workspace rq else None)
            (account (the (rq_user rq))) req s)"
proof -
  let ?can = "canActivate (handler_access req) controller_access rq"
  note guard = guard_outcome [of "handler_access req" controller_access rq, unfolded billing_access]
  show ?thesis
  proof (cases "admitted (OrgRoute (Some [required req])) rq")
    case False
    with guard obtain e t where "?can = (Inl e, t)"
      by (cases ?can; cases "fst ?can") auto
    with False show ?thesis by (simp add: billing_route_def throw_def)
  next
    case True
    then obtain u where u: "rq_user rq = Some u"
      by (auto simp: admitted_def org_role_of_def role_truthy_def split: bind_splits)
    have "?can = (Inr True, stamped rq)"
      using True guard u
      by (auto simp: canActivate_def billing_access enforce_run enforce_org_run prod_eq_iff)
    with True u admitted_workspace [OF assms u] show ?thesis
      by (simp add: billing_route_def throw_def)
  qed
qed

section \<open>Properties\<close>

text \<open>The requests that query invoices by a filter instead of a unique key.\<close>

definition filters_invoices :: "billing_request \<Rightarrow> bool" where
  "filters_invoices req = (case req of Invoices \<Rightarrow> True | PayInvoice _ \<Rightarrow> True | _ \<Rightarrow> False)"

lemma workspace_named:
  assumes "role_truthy (workspace_role_of rq)"
  shows "\<exists>w. requested_workspace rq = Some w"
  using assms
  by (auto simp: workspace_role_of_def role_truthy_def role_for_def js_truthy_def
      split: bind_splits if_splits option.splits)

lemma handler_unscoped:
  assumes "\<not> filters_invoices req"
  shows "snd (billing_handler E None u req s) = s" "fst (billing_handler E None u req s) \<noteq> Inr x"
  using assms map_reply_run(3)
  by (cases req;
      auto simp: billing_handler_def filters_invoices_def map_reply_run(1) unscoped_run
        intro!: notI dest!: map_reply_run(3) [THEN iffD1, OF exI])+

text \<open>
  C24: A billing request that is answered or changes anything was made by a user whose role in
  the named organization holds the permission of its route; apart from the two requests about
  invoices it was also made by a user with a role in the named workspace, and the service method
  ran for that workspace. In every other case the request ends in an exception and the tables,
  the locks and the log of provider calls are as before.
\<close>

theorem billing_route_guarded:
  assumes "rq_workspaceId rq = None"
    and "snd (billing_route E rq req s) \<noteq> s \<or> (\<exists>reply. fst (billing_route E rq req s) = Inr reply)"
  shows "role_truthy (org_role_of rq)
     \<and> required req \<in> set (held_by ORG_ROLE_PERMISSIONS (the (org_role_of rq)))
     \<and> valid_body req
     \<and> (\<not> filters_invoices req \<longrightarrow>
          (\<exists>w r. requested_workspace rq = Some w \<and> workspace_role_of rq = Some r \<and> r \<noteq> Role []
             \<and> billing_route E rq req s = billing_handler E (Some w) (account (the (rq_user rq))) req s))"
proof -
  note run = route_run [OF assms(1), of E req s]
  have ok: "admitted (OrgRoute (Some [required req])) rq" "valid_body req"
    using assms(2) run by (auto split: if_splits)
  then have handled: "billing_route E rq req s =
      billing_handler E (if role_truthy (workspace_role_of rq) then requested_workspace rq else None)
        (account (the (rq_user rq))) req s"
    using run by simp
  have "\<exists>w r. requested_workspace rq = Some w \<and> workspace_role_of rq = Some r \<and> r \<noteq> Role []
      \<and> billing_route E rq req s = billing_handler E (Some w) (account (the (rq_user rq))) req s"
    if "\<not> filters_invoices req"
  proof -
    have r: "role_truthy (workspace_role_of rq)"
      using handler_unscoped [OF that] assms(2) handled by (auto split: if_splits)
    then obtain w where "requested_workspace rq = Some w" using workspace_named by blast
    with r handled show ?thesis by (auto simp: role_truthy_def)
  qed
  with ok show ?thesis by (auto simp: admitted_def)
qed

lemma catch_unit: "\<exists>t. catch_io m (\<lambda>_. ret ()) s = (Inr (), t)"
  by (cases "m s") (auto simp: catch_io_def ret_def split: sum.split)

lemma handle_invoices:
  "\<exists>rows t. billing_handler E ws u Invoices s = (Inr (ReplyInvoices rows), t)
     \<and> (\<forall>(d, r)\<in>set rows. in_workspace ws r)
     \<and> (ws = None \<longrightarrow> t = s \<and> map snd rows = take 50 (sort_key invoice_order (w_invs s)))"
proof -
  obtain t where t: "catch_io (case ws of None \<Rightarrow> throw PrismaValidation | Some w \<Rightarrow> fullSyncWorkspace E w)
      (\<lambda>_. ret ()) s = (Inr (), t)" "ws = None \<Longrightarrow> t = s"
    using catch_unit [of "case ws of None \<Rightarrow> throw PrismaValidation | Some w \<Rightarrow> fullSyncWorkspace E w" s]
    by (cases ws) (auto simp: io_simps)
  let ?rows = "map (\<lambda>r. (js_default (inv_invoiceDate r) (inv_createdAt r), r))
     (take 50 (sort_key invoice_order (filter (in_workspace ws) (w_invs t))))"
  have "billing_handler E ws u Invoices s = (Inr (ReplyInvoices ?rows), t)"
    using t(1) by (simp add: billing_handler_def map_reply_def getInvoices_def io_simps)
  moreover have "\<forall>(d, r)\<in>set ?rows. in_workspace ws r"
    by (auto dest!: in_set_takeD)
  moreover have "ws = None \<Longrightarrow> map snd ?rows = take 50 (sort_key invoice_order (w_invs s))"
    using t(2) by (simp add: in_workspace_def comp_def)
  ultimately show ?thesis using t(2) by blast
qed

text \<open>
  Listing invoices always answers a user who may view billing. With a role in the named
  workspace the answer holds only invoices of that workspace. Without a resolved workspace,
  because the request names none or one the user has no role in, the filter is dropped and the
  answer is the newest fifty invoices of all workspaces.
\<close>

theorem invoices_scope:
  assumes "rq_workspaceId rq = None" and "admitted (OrgRoute (Some [BILLING_VIEW])) rq"
  shows "\<exists>rows t. billing_route E rq Invoices s = (Inr (ReplyInvoices rows), t)
     \<and> (if role_truthy (workspace_role_of rq)
        then \<forall>(d, r)\<in>set rows. Some (inv_workspaceId r) = requested_workspace rq
        else t = s \<and> map snd rows = take 50 (sort_key invoice_order (w_invs s)))"
proof (cases "role_truthy (workspace_role_of rq)")
  case True
  then obtain w where w: "requested_workspace rq = Some w" using workspace_named by blast
  show ?thesis
    using route_run [OF assms(1), of E Invoices s] assms(2) True w
      handle_invoices [of E "Some w" "account (the (rq_user rq))" s]
    by (auto simp: required_def in_workspace_def)
next
  case False
  then show ?thesis
    using route_run [OF assms(1), of E Invoices s] assms(2)
      handle_invoices [of E None "account (the (rq_user rq))" s]
    by (auto simp: required_def)
qed

definition foreign_world :: world where
  "foreign_world = pending_world\<lparr>w_invs := [sample_invoice]\<rparr>"

theorem billing_route_witness:
  "(\<exists>reply. fst (billing_route sample_env sample_request Invoices foreign_world) = Inr reply)
   \<and> BILLING_VIEW \<in> set (held_by ORG_ROLE_PERMISSIONS (the (org_role_of sample_request)))"
proof -
  have none: "rq_workspaceId sample_request = None" by (simp add: sample_request_def)
  have "admitted (OrgRoute (Some [BILLING_VIEW])) sample_request" by code_simp
  then have "\<exists>reply. fst (billing_route sample_env sample_request Invoices foreign_world) = Inr reply"
    using route_run [OF none, of sample_env Invoices foreign_world]
      handle_invoices [of sample_env None "account (the (rq_user sample_request))" foreign_world]
    by (auto simp: required_def sample_request_def workspace_role_of_def role_for_def role_truthy_def
        requested_workspace_def)
  with billing_route_guarded [OF none, of sample_env Invoices foreign_world] show ?thesis
    by (simp add: required_def)
qed

theorem invoices_scope_witness:
  "\<exists>d t. billing_route sample_env sample_request Invoices foreign_world
     = (Inr (ReplyInvoices [(d, sample_invoice)]), t)
     \<and> requested_workspace sample_request = None"
proof -
  have none: "rq_workspaceId sample_request = None" by (simp add: sample_request_def)
  have "admitted (OrgRoute (Some [BILLING_VIEW])) sample_request" by code_simp
  from invoices_scope [OF none this, of sample_env foreign_world] obtain rows t
    where "billing_route sample_env sample_request Invoices foreign_world = (Inr (ReplyInvoices rows), t)"
      and "map snd rows = [sample_invoice]"
    by (auto simp: sample_request_def workspace_role_of_def role_for_def role_truthy_def
        requested_workspace_def foreign_world_def)
  moreover obtain d where "rows = [(d, sample_invoice)]"
    using calculation(2) by (cases rows) auto
  ultimately show ?thesis by (simp add: sample_request_def requested_workspace_def)
qed

lemma route_reachable:
  assumes "reachable E s" and "rq_workspaceId rq = None"
  shows "reachable E (snd (billing_route E rq req s))"
proof -
  have "reachable E (snd (billing_handler E ws u req s))" for ws u
  proof (cases "ws = None \<and> \<not> filters_invoices req")
    case True
    then show ?thesis using handler_unscoped(1) assms(1) by auto
  next
    case False
    then show ?thesis
      by (cases req; cases ws)
         (auto simp: billing_handler_def map_reply_run filters_invoices_def
            intro: reachable.step [OF assms(1)] billing_step.intros)
  qed
  then show ?thesis using route_run [OF assms(2), of E req s] assms(1) by simp
qed

end
