(* ===== verification/Auth_Totp.thy ===== *)
theory Auth_Totp
  imports Prelude "HOL-Library.Word"
begin

text \<open>
  Time-based one-time passwords (\<^verbatim>\<open>auth/auth-totp.service.ts\<close>): the base32 coding of the shared
  secret, the code of a time step and the check of a code within a window of steps. A string of
  the characters 0 and 1 is a list of booleans; a byte of a buffer is an \<open>8 word\<close>. The keyed hash
  HMAC-SHA1 is a parameter.
\<close>

unbundle bit_operations_syntax

type_synonym byte = "8 word"

section \<open>Base32\<close>

definition BASE32_ALPHABET :: string where
  "BASE32_ALPHABET = ''ABCDEFGHIJKLMNOPQRSTUVWXYZ234567''"

text \<open>\<^verbatim>\<open>n.toString(2).padStart(w, '0')\<close> for a number below \<open>2 ^ w\<close>, and \<^verbatim>\<open>parseInt(bits, 2)\<close>.\<close>

fun bits_of :: "nat \<Rightarrow> nat \<Rightarrow> bool list" where
  "bits_of 0 n = []"
| "bits_of (Suc w) n = bits_of w (n div 2) @ [odd n]"

definition parse_bits :: "bool list \<Rightarrow> nat" where
  "parse_bits = foldl (\<lambda>n b. 2 * n + of_bool b) 0"

fun base32_chunks :: "bool list \<Rightarrow> bool list list" where
  "base32_chunks [] = []"
| "base32_chunks (b # bs) =
     (let chunk = take 5 (b # bs) in (chunk @ replicate (5 - length chunk) False) # base32_chunks (drop 4 bs))"

definition toBase32 :: "byte list \<Rightarrow> string" where
  "toBase32 buffer =
     (let bits = concat (map (\<lambda>b. bits_of 8 (unat b)) buffer)
      in map (\<lambda>chunk. BASE32_ALPHABET ! parse_bits chunk) (base32_chunks bits))"

fun index_of :: "string \<Rightarrow> char \<Rightarrow> nat option" where
  "index_of [] c = None"
| "index_of (x # xs) c = (if x = c then Some 0 else map_option Suc (index_of xs c))"

fun base32_bits :: "string \<Rightarrow> exn + bool list" where
  "base32_bits [] = Inr []"
| "base32_bits (c # cs) =
     (case index_of BASE32_ALPHABET c of
        None \<Rightarrow> Inl (PlainError ''Invalid base32 character'')
      | Some i \<Rightarrow> (case base32_bits cs of Inl e \<Rightarrow> Inl e | Inr bs \<Rightarrow> Inr (bits_of 5 i @ bs)))"

function bytes_of_bits :: "bool list \<Rightarrow> byte list" where
  "bytes_of_bits bits =
     (if length bits < 8 then [] else of_nat (parse_bits (take 8 bits)) # bytes_of_bits (drop 8 bits))"
  by pat_completeness auto

termination
  by (relation "measure length") auto

declare bytes_of_bits.simps [simp del]

text \<open>\<^verbatim>\<open>value.replace(/=+$/g, '').toUpperCase()\<close>\<close>

definition base32_normalized :: "string \<Rightarrow> string" where
  "base32_normalized v = js_upper (rev (dropWhile (\<lambda>c. c = CHR ''='') (rev v)))"

definition fromBase32 :: "string \<Rightarrow> exn + byte list" where
  "fromBase32 v =
     (case base32_bits (base32_normalized v) of Inl e \<Rightarrow> Inl e | Inr bits \<Rightarrow> Inr (bytes_of_bits bits))"

section \<open>Codes\<close>

text \<open>\<^verbatim>\<open>writeBigUInt64BE\<close>: the eight bytes, most significant first; out of range it throws.\<close>

definition counter_bytes :: "int \<Rightarrow> exn + byte list" where
  "counter_bytes c =
     (if 0 \<le> c \<and> c < 2 ^ 64 then Inr (map (\<lambda>i. word_of_int (c div 256 ^ (7 - i))) [0..<8])
      else Inl (PlainError ''The value is out of range''))"

definition readUInt32BE :: "byte list \<Rightarrow> nat \<Rightarrow> 32 word" where
  "readUInt32BE bs i =
     (ucast (bs ! i) * 16777216 + ucast (bs ! (i + 1)) * 65536 + ucast (bs ! (i + 2)) * 256 + ucast (bs ! (i + 3)))"

definition truncated :: "byte list \<Rightarrow> 32 word" where
  "truncated digest = readUInt32BE digest (unat (last digest AND 0x0F)) AND 0x7FFFFFFF"

definition code_of :: "(byte list \<Rightarrow> byte list \<Rightarrow> byte list) \<Rightarrow> byte list \<Rightarrow> byte list \<Rightarrow> string" where
  "code_of hmac key buffer = js_pad_start 6 (CHR ''0'') (js_nat_str (unat (truncated (hmac key buffer)) mod 1000000))"

definition generateCode ::
  "(byte list \<Rightarrow> byte list \<Rightarrow> byte list) \<Rightarrow> int \<Rightarrow> string \<Rightarrow> int \<Rightarrow> exn + string" where
  "generateCode hmac now secret offset =
     (case fromBase32 secret of
        Inl e \<Rightarrow> Inl e
      | Inr key \<Rightarrow>
          (case counter_bytes (now div 30000 + offset) of
             Inl e \<Rightarrow> Inl e
           | Inr buffer \<Rightarrow> Inr (code_of hmac key buffer)))"

definition js_digit :: "char \<Rightarrow> bool" where
  "js_digit c = (c \<in> set ''0123456789'')"

fun try_offsets :: "(int \<Rightarrow> exn + string) \<Rightarrow> string \<Rightarrow> int list \<Rightarrow> exn + bool" where
  "try_offsets generate code [] = Inr False"
| "try_offsets generate code (off # offs) =
     (case generate off of
        Inl e \<Rightarrow> Inl e
      | Inr c \<Rightarrow> if c = code then Inr True else try_offsets generate code offs)"

text \<open>The loop runs over the offsets \<^verbatim>\<open>-window\<close> to \<^verbatim>\<open>window\<close>.\<close>

definition verifyCode ::
  "(byte list \<Rightarrow> byte list \<Rightarrow> byte list) \<Rightarrow> int \<Rightarrow> string \<Rightarrow> string \<Rightarrow> nat \<Rightarrow> exn + bool" where
  "verifyCode hmac now secret code window =
     (let normalized = filter (\<lambda>c. \<not> js_space c) code
      in if length normalized \<noteq> 6 \<or> \<not> list_all js_digit normalized then Inr False
         else try_offsets (generateCode hmac now secret) normalized [- int window .. int window])"

section \<open>Bits, chunks and characters\<close>

lemma length_bits_of [simp]: "length (bits_of w n) = w"
  by (induction w arbitrary: n) simp_all

lemma parse_bits_snoc: "parse_bits (bs @ [b]) = 2 * parse_bits bs + of_bool b"
  by (simp add: parse_bits_def)

lemma parse_bits_of: "parse_bits (bits_of w n) = n mod 2 ^ w"
proof (induction w arbitrary: n)
  case 0
  then show ?case by (simp add: parse_bits_def)
next
  case (Suc w)
  have "n mod 2 ^ Suc w = 2 * (n div 2 mod 2 ^ w) + n mod 2"
    by (simp add: mod_mult2_eq)
  with Suc show ?case by (simp add: parse_bits_snoc mod2_eq_if)
qed

lemma bits_of_parse: "bits_of (length bs) (parse_bits bs) = bs"
  by (induction bs rule: rev_induct) (auto simp: parse_bits_snoc)

lemma parse_bits_less: "parse_bits bs < 2 ^ length bs"
proof (induction bs rule: rev_induct)
  case Nil
  then show ?case by (simp add: parse_bits_def)
next
  case (snoc b bs)
  then show ?case by (cases b) (simp_all add: parse_bits_snoc)
qed

lemma chunks_padded:
  "\<exists>k<5. concat (base32_chunks bs) = bs @ replicate k False \<and> (\<forall>c\<in>set (base32_chunks bs). length c = 5)"
proof (induction bs rule: base32_chunks.induct)
  case 1
  then show ?case by (intro exI [of _ 0]) simp
next
  case (2 b bs)
  show ?case
  proof (cases "length bs < 4")
    case True
    then show ?thesis by (intro exI [of _ "4 - length bs"]) (simp add: Let_def)
  next
    case False
    from "2.IH" [OF refl] obtain k where "k < 5" "concat (base32_chunks (drop 4 bs)) = drop 4 bs @ replicate k False"
      "\<forall>c\<in>set (base32_chunks (drop 4 bs)). length c = 5" by blast
    moreover have "base32_chunks (b # bs) = (b # take 4 bs) # base32_chunks (drop 4 bs)"
      using False by (simp add: Let_def min_def)
    moreover have "take 4 bs @ drop 4 bs = bs" "length (take 4 bs) = 4" using False by simp_all
    ultimately have "concat (base32_chunks (b # bs)) = (b # bs) @ replicate k False
        \<and> (\<forall>c\<in>set (base32_chunks (b # bs)). length c = 5)"
      by (metis append.assoc append_Cons concat.simps(2) length_Cons numeral_nat(2) numeral_nat(3) set_ConsD
          eval_nat_numeral(3))
    with \<open>k < 5\<close> show ?thesis by blast
  qed
qed

lemma index_of_nth: "distinct xs \<Longrightarrow> i < length xs \<Longrightarrow> index_of xs (xs ! i) = Some i"
proof (induction xs arbitrary: i)
  case (Cons x xs)
  then show ?case by (cases i) auto
qed simp

lemma alphabet: "distinct BASE32_ALPHABET" "length BASE32_ALPHABET = 32"
  "list_all (\<lambda>c. js_upper_char c = c \<and> c \<noteq> CHR ''='') BASE32_ALPHABET"
  by code_simp+

lemma decode_chunks:
  assumes "\<forall>c\<in>set cs. length c = 5"
  shows "base32_bits (map (\<lambda>c. BASE32_ALPHABET ! parse_bits c) cs) = Inr (concat cs)"
  using assms
proof (induction cs)
  case (Cons c cs)
  then have "parse_bits c < 32" using parse_bits_less [of c] by simp
  with Cons alphabet show ?case
    using bits_of_parse [of c] by (simp add: index_of_nth)
qed simp

lemma normalized_alphabet:
  assumes "set v \<subseteq> set BASE32_ALPHABET"
  shows "base32_normalized v = v"
proof -
  have ok: "js_upper_char c = c" "c \<noteq> CHR ''=''" if "c \<in> set v" for c
    using assms alphabet(3) that by (auto simp: list_all_iff)
  have "dropWhile (\<lambda>c. c = CHR ''='') (rev v) = rev v"
    using ok(2) by (cases "rev v") (auto simp: rev_swap)
  with ok(1) show ?thesis by (simp add: base32_normalized_def js_upper_def map_idI)
qed

lemma bytes_padded:
  "length pad < 8 \<Longrightarrow> bytes_of_bits (concat (map (\<lambda>b. bits_of 8 (unat b)) bs) @ pad) = bs"
proof (induction bs)
  case Nil
  then show ?case by (simp add: bytes_of_bits.simps)
next
  case (Cons b bs)
  have "unat b < 2 ^ LENGTH(8)" by (rule unsigned_less)
  then have "unat b mod 256 = unat b" by simp
  with Cons show ?case
    by (subst bytes_of_bits.simps) (simp add: parse_bits_of)
qed

lemma base32_decodes: "fromBase32 (toBase32 bs) = Inr bs"
proof -
  let ?bits = "concat (map (\<lambda>b. bits_of 8 (unat b)) bs)"
  obtain k where k: "k < 5" "concat (base32_chunks ?bits) = ?bits @ replicate k False"
    "\<forall>c\<in>set (base32_chunks ?bits). length c = 5"
    using chunks_padded by blast
  have "set (toBase32 bs) \<subseteq> set BASE32_ALPHABET"
  proof -
    have "parse_bits c < length BASE32_ALPHABET" if "c \<in> set (base32_chunks ?bits)" for c
      using parse_bits_less [of c] k(3) that alphabet(2) by simp
    then show ?thesis by (auto simp: toBase32_def Let_def)
  qed
  then have "fromBase32 (toBase32 bs) = Inr (bytes_of_bits (concat (base32_chunks ?bits)))"
    using decode_chunks [OF k(3)]
    by (simp add: fromBase32_def normalized_alphabet) (simp add: toBase32_def)
  with k bytes_padded [of "replicate k False" bs] show ?thesis by simp
qed

section \<open>The reference of RFC 4226\<close>

text \<open>Dynamic truncation of a digest and the code of a counter, in arithmetic.\<close>

definition rfc_truncate :: "byte list \<Rightarrow> nat" where
  "rfc_truncate d =
     (let i = unat (last d) mod 16
      in unat (d ! i) mod 128 * 2 ^ 24 + unat (d ! (i + 1)) * 2 ^ 16 + unat (d ! (i + 2)) * 2 ^ 8 + unat (d ! (i + 3)))"

fun decimal :: "nat \<Rightarrow> nat \<Rightarrow> string" where
  "decimal 0 n = []"
| "decimal (Suc w) n = decimal w (n div 10) @ [char_of (n mod 10 + 48)]"

definition big_endian :: "nat \<Rightarrow> nat \<Rightarrow> byte list" where
  "big_endian w c = map (\<lambda>i. of_nat (c div 256 ^ (w - 1 - i))) [0..<w]"

definition hotp :: "(byte list \<Rightarrow> byte list \<Rightarrow> byte list) \<Rightarrow> byte list \<Rightarrow> nat \<Rightarrow> string" where
  "hotp hmac key c = decimal 6 (rfc_truncate (hmac key (big_endian 8 c)) mod 10 ^ 6)"

lemma byte_less: "unat (b :: byte) < 256"
proof -
  have "unat b < 2 ^ LENGTH(8)" by (rule unsigned_less)
  then show ?thesis by simp
qed

lemma low_nibble: "unat (b AND 0x0F :: byte) = unat b mod 16"
proof -
  have "(0x0F :: byte) = mask 4" by (simp add: mask_eq_exp_minus_1)
  then have "b AND 0x0F = take_bit 4 b" by (simp add: take_bit_eq_mask)
  then show ?thesis by (simp add: unsigned_take_bit_eq take_bit_nat_def)
qed

lemma low_31: "unat (of_nat n AND 0x7FFFFFFF :: 32 word) = n mod 2 ^ 31"
proof -
  have "(0x7FFFFFFF :: 32 word) = mask 31" by (simp add: mask_eq_exp_minus_1)
  then have "(of_nat n AND 0x7FFFFFFF :: 32 word) = take_bit 31 (of_nat n)" by (simp add: take_bit_eq_mask)
  moreover have "take_bit 31 (take_bit 32 n) = take_bit 31 n" by (simp add: take_bit_take_bit)
  ultimately show ?thesis by (simp add: unsigned_take_bit_eq unsigned_of_nat take_bit_nat_def)
qed

lemma split_top: "x * 16777216 = x div 128 * 2147483648 + x mod 128 * (16777216 :: nat)"
proof -
  have "x * 16777216 = (x div 128 * 128 + x mod 128) * 16777216" by (simp only: div_mult_mod_eq)
  then show ?thesis by (simp only: add_mult_distrib)
qed

lemma truncated_rfc: "unat (truncated d) = rfc_truncate d"
proof -
  let ?i = "unat (last d) mod 16"
  let ?b = "\<lambda>k. unat (d ! (?i + k))"
  let ?low = "?b 1 * 2 ^ 16 + ?b 2 * 2 ^ 8 + ?b 3"
  have word: "(ucast b :: 32 word) = of_nat (unat b)" for b :: byte
    by simp
  have "readUInt32BE d ?i = of_nat (?b 0 * 2 ^ 24 + ?low)"
    unfolding readUInt32BE_def word of_nat_add of_nat_mult of_nat_power of_nat_numeral
    by (simp del: of_nat_unat)
  then have "unat (truncated d) = (?b 0 * 2 ^ 24 + ?low) mod 2 ^ 31"
    using low_31 [of "?b 0 * 2 ^ 24 + ?low"] by (simp add: truncated_def low_nibble)
  also have "\<dots> = (?b 0 mod 128 * 2 ^ 24 + ?low) mod 2 ^ 31"
  proof -
    have "?b 0 * 2 ^ 24 + ?low = (?b 0 div 128) * 2 ^ 31 + (?b 0 mod 128 * 2 ^ 24 + ?low)"
      using split_top [of "?b 0"] by simp
    then show ?thesis by (metis mod_mult_self3)
  qed
  also have "\<dots> = ?b 0 mod 128 * 2 ^ 24 + ?low"
  proof (rule mod_less)
    have "?b 0 mod 128 < 128" "?b 1 < 256" "?b 2 < 256" "?b 3 < 256" by (simp_all add: byte_less)
    then show "?b 0 mod 128 * 2 ^ 24 + ?low < 2 ^ 31" by simp
  qed
  finally show ?thesis by (simp add: rfc_truncate_def Let_def)
qed

lemma char_zero: "char_of (48 :: nat) = CHR ''0''"
  by code_simp

lemma decimal_zero: "decimal w 0 = replicate w (CHR ''0'')"
  by (induction w) (simp_all add: char_zero replicate_append_same)

lemma pad_snoc: "js_pad_start (Suc w) c (xs @ [x]) = js_pad_start w c xs @ [x]"
  by (simp add: js_pad_start_def)

lemma pad_decimal: "n < 10 ^ Suc w \<Longrightarrow> js_pad_start (Suc w) (CHR ''0'') (js_nat_str n) = decimal (Suc w) n"
proof (induction w arbitrary: n)
  case 0
  then show ?case by (simp add: js_nat_str.simps js_pad_start_def)
next
  case (Suc w)
  show ?case
  proof (cases "n < 10")
    case True
    then show ?thesis
      by (simp add: js_nat_str.simps js_pad_start_def decimal_zero replicate_append_same)
  next
    case False
    with Suc.prems have "js_nat_str n = js_nat_str (n div 10) @ [char_of (n mod 10 + 48)]" "n div 10 < 10 ^ Suc w"
      by (simp_all add: js_nat_str.simps)
    with Suc.IH show ?thesis by (simp add: pad_snoc)
  qed
qed

lemma decimal_digits: "length (decimal w n) = w" "list_all js_digit (decimal w n)"
proof -
  have "js_digit (char_of (k + 48))" if "k < 10" for k :: nat
  proof -
    have "list_all (\<lambda>k. js_digit (char_of (k + 48 :: nat))) [0..<10]" by code_simp
    with that show ?thesis by (simp add: list_all_iff)
  qed
  then show "length (decimal w n) = w" "list_all js_digit (decimal w n)"
    by (induction w arbitrary: n) auto
qed

lemma counter_ok:
  assumes "0 \<le> c" and "c < 2 ^ 64"
  shows "counter_bytes c = Inr (big_endian 8 (nat c))"
proof -
  obtain n where c: "c = int n" using assms(1) by (metis nat_0_le)
  have "word_of_int (c div 256 ^ k) = (of_nat (nat c div 256 ^ k) :: byte)" for k
  proof -
    have "c div 256 ^ k = int (nat c div 256 ^ k)" by (simp add: c zdiv_int)
    then show ?thesis by simp
  qed
  then show ?thesis using assms by (simp add: counter_bytes_def big_endian_def)
qed

lemma generate_hotp:
  assumes "0 \<le> now div 30000 + off" and "now div 30000 + off < 2 ^ 64"
  shows "generateCode hmac now (toBase32 key) off = Inr (hotp hmac key (nat (now div 30000 + off)))"
  using counter_ok [OF assms] pad_decimal [of _ 5]
  by (simp add: generateCode_def base32_decodes code_of_def truncated_rfc hotp_def)

section \<open>Properties\<close>

text \<open>
  C40: A shared secret survives the base32 coding: decoding what was encoded gives the bytes back,
  for every length, although the coding pads its last character with zero bits.
\<close>

theorem base32_roundtrip: "fromBase32 (toBase32 bs) = Inr bs"
  by (rule base32_decodes)

lemma offsets_none:
  "(\<And>off. off \<in> set offs \<Longrightarrow> generate off = Inr (f off)) \<Longrightarrow>
     try_offsets generate code offs = Inr (code \<in> f ` set offs)"
  by (induction offs) auto

text \<open>
  C39: The check of an authenticator code agrees with RFC 4226 and RFC 6238: on the secret that
  was handed out it never fails with an exception, and it accepts exactly the six-digit codes of
  the time steps within the window around the current one, where white space in the code is
  ignored.
\<close>

theorem verifyCode_rfc:
  assumes "30000 * int window \<le> now" and "now < 30000 * 2 ^ 63" and "window < 2 ^ 63"
  shows "verifyCode hmac now (toBase32 key) code window =
    Inr (\<exists>off. \<bar>off\<bar> \<le> int window
           \<and> filter (\<lambda>c. \<not> js_space c) code = hotp hmac key (nat (now div 30000 + off)))"
proof -
  let ?n = "filter (\<lambda>c. \<not> js_space c) code"
  let ?f = "\<lambda>off. hotp hmac key (nat (now div 30000 + off))"
  have six: "length (?f off) = 6" "list_all js_digit (?f off)" for off
    unfolding hotp_def by (rule decimal_digits)+
  have range: "generateCode hmac now (toBase32 key) off = Inr (?f off)"
    if "off \<in> set [- int window .. int window]" for off
  proof (rule generate_hotp)
    have "int window \<le> now div 30000" "now div 30000 < 2 ^ 63" using assms(1,2) by simp_all
    with that assms(3) show "0 \<le> now div 30000 + off" "now div 30000 + off < 2 ^ 64" by simp_all
  qed
  show ?thesis
  proof (cases "length ?n = 6 \<and> list_all js_digit ?n")
    case True
    then have "verifyCode hmac now (toBase32 key) code window =
        Inr (?n \<in> ?f ` set [- int window .. int window])"
      using offsets_none [where offs = "[- int window .. int window]" and code = ?n, OF range] by (simp add: verifyCode_def Let_def)
    then show ?thesis by (auto simp: image_iff abs_le_iff)
  next
    case False
    with six have "\<nexists>off. ?n = ?f off" by metis
    with False show ?thesis by (auto simp: verifyCode_def Let_def)
  qed
qed

theorem verifyCode_witness:
  "verifyCode (\<lambda>key m. replicate 20 0) 90000 (toBase32 [72, 105]) ''000 000'' 1 = Inr True"
proof -
  let ?h = "\<lambda>(key :: byte list) (m :: byte list). replicate 20 (0 :: byte)"
  have "rfc_truncate (replicate 20 0) = 0"
    by (simp add: rfc_truncate_def)
  then have "hotp ?h [72, 105] (nat (90000 div 30000 + 0)) = replicate 6 (CHR ''0'')"
    by (simp add: hotp_def decimal_zero)
  moreover have "filter (\<lambda>c. \<not> js_space c) ''000 000'' = replicate 6 (CHR ''0'')"
    by code_simp
  ultimately show ?thesis
    using verifyCode_rfc [of 1 90000 ?h "[72, 105]" "''000 000''"]
    by (auto intro!: exI [of _ "0 :: int"])
qed

end
