(* ===== verification/Auth_Model.thy ===== *)
theory Auth_Model
  imports Access_Control Auth_Totp
begin

text \<open>
  The state of the authentication module (\<^verbatim>\<open>src/src/modules/auth\<close>): the tables of the schema that
  it writes, the three groups of Redis keys it uses (rate counters, cached session contexts and
  OAuth states), the mails it has sent and the log of events. Times are milliseconds. The hash
  functions, the random generators, the cipher, the signature of access tokens, the mail
  transport and Google's two endpoints are parameters of the environment.
\<close>

section \<open>Enumerations and rows\<close>

datatype session_status = SessionActive | SessionRevoked | SessionExpired | SessionCompromised

datatype token_status = TokenActive | TokenUsed | TokenRevoked | TokenReused

datatype token_purpose =
    EMAIL_VERIFICATION | PASSWORD_RESET | MAGIC_LINK_LOGIN | TEAM_INVITE | EMAIL_OTP_LOGIN
  | EMAIL_OTP_VERIFY | EMAIL_OTP_RESET | TWO_FACTOR_SETUP | TWO_FACTOR_CHALLENGE

datatype attempt_result =
    AttemptSuccess | AttemptFailure | AttemptLocked | AttemptChallengeRequired | AttemptBlocked

datatype audit_event =
    SIGN_UP | SIGN_IN | SIGN_OUT | SESSION_REFRESH | SESSION_REVOKED | SESSION_REVOKED_ALL
  | TOKEN_REUSE_DETECTED | EMAIL_VERIFICATION_SENT | EMAIL_VERIFIED | PASSWORD_RESET_REQUESTED
  | PASSWORD_RESET_COMPLETED | MAGIC_LINK_SENT | MAGIC_LINK_CONSUMED | OTP_SENT | OTP_VERIFIED
  | OAUTH_LINKED | OAUTH_SIGN_IN | TEAM_INVITE_SENT | TEAM_INVITE_ACCEPTED | TWO_FACTOR_ENABLED
  | TWO_FACTOR_DISABLED | BACKUP_CODES_REGENERATED | SUSPICIOUS_LOGIN

datatype auth_provider = ByLocal | ByOauth | ByMagicLink | ByOtp | ByInvite

record user_row =
  us_id :: string
  us_email :: string
  us_emailVerifiedAt :: "int option"
  us_firstName :: "string option"
  us_lastName :: "string option"
  us_avatarUrl :: "string option"
  us_language :: "string option"
  us_status :: "string option"
  us_lastLoginAt :: "int option"

record credential =
  cd_id :: string
  cd_userId :: string
  cd_passwordHash :: "string option"
  cd_passwordUpdatedAt :: "int option"
  cd_mustRotatePassword :: bool
  cd_failedPasswordAttempts :: nat
  cd_lockedUntil :: "int option"

record auth_session =
  se_id :: string
  se_userId :: string
  se_state :: session_status
  se_rememberMe :: bool
  se_sessionVersion :: nat
  se_currentOrganizationId :: "string option"
  se_currentWorkspaceId :: "string option"
  se_ipAddress :: "string option"
  se_ipHash :: "string option"
  se_userAgent :: "string option"
  se_deviceId :: "string option"
  se_deviceName :: "string option"
  se_deviceFingerprintHash :: "string option"
  se_lastSeenAt :: int
  se_lastRefreshedAt :: int
  se_expiresAt :: int
  se_idleExpiresAt :: int
  se_revokedAt :: "int option"
  se_revokedReason :: "string option"
  se_trustedDeviceId :: "string option"

record refresh_token =
  rt_id :: string
  rt_sessionId :: string
  rt_userId :: string
  rt_tokenFamilyId :: string
  rt_previousTokenId :: "string option"
  rt_status :: token_status
  rt_tokenHash :: string
  rt_expiresAt :: int
  rt_usedAt :: "int option"
  rt_rotatedAt :: "int option"
  rt_revokedAt :: "int option"
  rt_revokedReason :: "string option"
  rt_createdByIp :: "string option"
  rt_lastSeenIp :: "string option"
  rt_userAgent :: "string option"

record otp_row =
  ot_id :: string
  ot_userId :: "string option"
  ot_email :: string
  ot_purpose :: token_purpose
  ot_codeHash :: string
  ot_expiresAt :: int
  ot_consumedAt :: "int option"
  ot_attemptCount :: nat
  ot_maxAttempts :: nat
  ot_createdAt :: int

text \<open>The rows of the magic-link table; the two mirror tables below hold the same hash.\<close>

record link_row =
  ml_id :: string
  ml_userId :: "string option"
  ml_email :: string
  ml_tokenHash :: string
  ml_purpose :: token_purpose
  ml_organizationId :: "string option"
  ml_workspaceId :: "string option"
  ml_redirectUri :: "string option"
  ml_expiresAt :: int
  ml_consumedAt :: "int option"

record mirror_row =
  mi_id :: string
  mi_userId :: string
  mi_email :: string
  mi_tokenHash :: string
  mi_expiresAt :: int
  mi_consumedAt :: "int option"

record totp_row =
  tf_id :: string
  tf_userId :: string
  tf_secretEncrypted :: string
  tf_label :: "string option"
  tf_confirmedAt :: "int option"
  tf_enabledAt :: "int option"
  tf_disabledAt :: "int option"
  tf_lastUsedAt :: "int option"

record backup_row =
  bk_id :: string
  bk_userId :: string
  bk_twoFactorSecretId :: string
  bk_codeHash :: string
  bk_consumedAt :: "int option"

record attempt_row =
  at_userId :: "string option"
  at_email :: string
  at_result :: attempt_result
  at_reason :: string
  at_requiresChallenge :: bool

record audit_row =
  au_event :: audit_event
  au_userId :: "string option"
  au_sessionId :: "string option"

record oauth_row =
  oa_id :: string
  oa_userId :: string
  oa_providerAccountId :: string
  oa_email :: string
  oa_accessTokenEncrypted :: string
  oa_refreshTokenEncrypted :: "string option"
  oa_idTokenEncrypted :: "string option"
  oa_expiresAt :: "int option"
  oa_lastUsedAt :: int

record member_row =
  me_userId :: string
  me_groupId :: string
  me_role :: string

text \<open>What a mail carries apart from its text.\<close>

datatype mail =
    MailOtp string string
  | MailMagicLink string string
  | MailInvite string string
  | MailVerification string string string
  | MailReset string string string

section \<open>Requests, contexts and tokens\<close>

record request_meta =
  mt_ipAddress :: "string option"
  mt_ipHash :: "string option"
  mt_userAgent :: "string option"
  mt_deviceId :: "string option"
  mt_deviceName :: "string option"
  mt_deviceFingerprint :: "string option"

record session_context =
  cx_sessionId :: string
  cx_userId :: string
  cx_user :: user_row
  cx_passwordSet :: bool
  cx_sessionVersion :: nat
  cx_currentOrganizationId :: "string option"
  cx_currentWorkspaceId :: "string option"
  cx_rememberMe :: bool
  cx_csrfToken :: string
  cx_orgRoles :: "(string \<times> string) list"
  cx_workspaceRoles :: "(string \<times> string) list"
  cx_trustedDeviceId :: "string option"
  cx_expiresAt :: int
  cx_idleExpiresAt :: int
  cx_lastRefreshedAt :: int
  cx_authProvider :: auth_provider

record access_claims =
  ac_type :: string
  ac_sid :: "string option"
  ac_ver :: nat
  ac_email :: string
  ac_workspaceId :: "string option"
  ac_orgId :: "string option"
  ac_provider :: auth_provider
  ac_sub :: string
  ac_iat :: int
  ac_exp :: int

record envelope =
  en_accessToken :: string
  en_refreshToken :: string
  en_csrfToken :: string
  en_expires_at :: int
  en_expires_in :: int
  en_userId :: string
  en_email :: string
  en_name :: string
  en_role :: string
  en_firstName :: "string option"
  en_lastName :: "string option"
  en_avatarUrl :: "string option"
  en_language :: "string option"
  en_emailVerified :: bool
  en_passwordSet :: bool
  en_currentOrganizationId :: "string option"
  en_currentWorkspaceId :: "string option"

record google_profile =
  gp_sub :: string
  gp_email :: string
  gp_email_verified :: bool
  gp_given_name :: "string option"
  gp_family_name :: "string option"
  gp_picture :: "string option"
  gp_name :: "string option"

record google_tokens =
  gt_access_token :: string
  gt_refresh_token :: "string option"
  gt_id_token :: "string option"
  gt_expires_in :: "int option"

section \<open>State and environment\<close>

record auth =
  a_users :: "user_row list"
  a_creds :: "credential list"
  a_sessions :: "auth_session list"
  a_tokens :: "refresh_token list"
  a_otps :: "otp_row list"
  a_links :: "link_row list"
  a_verifications :: "mirror_row list"
  a_resets :: "mirror_row list"
  a_secrets :: "totp_row list"
  a_backups :: "backup_row list"
  a_attempts :: "attempt_row list"
  a_audit :: "audit_row list"
  a_oauth :: "oauth_row list"
  a_orgMembers :: "member_row list"
  a_wsMembers :: "member_row list"
  a_rates :: "(string \<times> nat \<times> int) list"
  a_cache :: "(string \<times> session_context \<times> int) list"
  a_states :: "(string \<times> string \<times> int) list"
  a_mails :: "mail list"

type_synonym 'a authed = "(auth, 'a) io"

record auth_env =
  ae_now :: "auth \<Rightarrow> int"
  ae_newid :: "auth \<Rightarrow> string"
  ae_token :: "auth \<Rightarrow> string"
  ae_random :: "auth \<Rightarrow> nat"
  ae_secret :: "auth \<Rightarrow> byte list"
  ae_backup :: "auth \<Rightarrow> nat \<Rightarrow> string"
  ae_hash :: "string \<Rightarrow> string"
  ae_argon_hash :: "auth \<Rightarrow> string \<Rightarrow> string"
  ae_argon_verify :: "string \<Rightarrow> string \<Rightarrow> bool"
  ae_encrypt :: "auth \<Rightarrow> string \<Rightarrow> string"
  ae_decrypt :: "string \<Rightarrow> string option"
  ae_hmac :: "byte list \<Rightarrow> byte list \<Rightarrow> byte list"
  ae_sign :: "access_claims \<Rightarrow> string"
  ae_verify :: "int \<Rightarrow> string \<Rightarrow> access_claims option"
  ae_mail :: "auth \<Rightarrow> mail \<Rightarrow> exn option"
  ae_var :: "string \<Rightarrow> string option"
  ae_number :: "string \<Rightarrow> int option"
  ae_google_tokens :: "auth \<Rightarrow> string \<Rightarrow> google_tokens option"
  ae_google_profile :: "auth \<Rightarrow> string \<Rightarrow> google_profile option"

text \<open>
  \<^verbatim>\<open>Number(process.env.NAME ?? d)\<close> for a variable that holds a number, and the environment
  variables that select URLs.
\<close>

definition setting :: "auth_env \<Rightarrow> string \<Rightarrow> int \<Rightarrow> int" where
  "setting E name d = js_default (ae_number E name) d"

definition auth_clock :: "auth_env \<Rightarrow> int authed" where
  "auth_clock E = gets (ae_now E)"

section \<open>Table operations\<close>

text \<open>
  The statements of a transaction take effect together or not at all; the update of a single row
  fails when there is no such row.
\<close>

definition transaction :: "'a authed \<Rightarrow> 'a authed" where
  "transaction m s = (case m s of (Inl e, _) \<Rightarrow> (Inl e, s) | (Inr x, t) \<Rightarrow> (Inr x, t))"

definition row_update :: "(auth \<Rightarrow> 'r list) \<Rightarrow> ('r list \<Rightarrow> auth \<Rightarrow> auth) \<Rightarrow> ('r \<Rightarrow> bool) \<Rightarrow> ('r \<Rightarrow> 'r) \<Rightarrow> 'r authed" where
  "row_update get put P f s =
     (case find P (get s) of
        None \<Rightarrow> (Inl PrismaP2025, s)
      | Some r \<Rightarrow> (Inr (f r), put (upd_where P f (get s)) s))"

definition user_update :: "string \<Rightarrow> (user_row \<Rightarrow> user_row) \<Rightarrow> user_row authed" where
  "user_update i = row_update a_users (\<lambda>x. a_users_update (\<lambda>_. x)) (\<lambda>r. us_id r = i)"

definition cred_update :: "(credential \<Rightarrow> bool) \<Rightarrow> (credential \<Rightarrow> credential) \<Rightarrow> credential authed" where
  "cred_update = row_update a_creds (\<lambda>x. a_creds_update (\<lambda>_. x))"

definition session_update :: "string \<Rightarrow> (auth_session \<Rightarrow> auth_session) \<Rightarrow> auth_session authed" where
  "session_update i = row_update a_sessions (\<lambda>x. a_sessions_update (\<lambda>_. x)) (\<lambda>r. se_id r = i)"

definition token_update :: "string \<Rightarrow> (refresh_token \<Rightarrow> refresh_token) \<Rightarrow> refresh_token authed" where
  "token_update i = row_update a_tokens (\<lambda>x. a_tokens_update (\<lambda>_. x)) (\<lambda>r. rt_id r = i)"

definition session_updateMany :: "(auth_session \<Rightarrow> bool) \<Rightarrow> (auth_session \<Rightarrow> auth_session) \<Rightarrow> unit authed" where
  "session_updateMany P f = modify (\<lambda>s. s\<lparr>a_sessions := upd_where P f (a_sessions s)\<rparr>)"

definition token_updateMany :: "(refresh_token \<Rightarrow> bool) \<Rightarrow> (refresh_token \<Rightarrow> refresh_token) \<Rightarrow> unit authed" where
  "token_updateMany P f = modify (\<lambda>s. s\<lparr>a_tokens := upd_where P f (a_tokens s)\<rparr>)"

text \<open>The token hash is unique.\<close>

definition token_create :: "auth_env \<Rightarrow> refresh_token \<Rightarrow> refresh_token authed" where
  "token_create E row s =
     (if rt_tokenHash row \<in> rt_tokenHash ` set (a_tokens s) then (Inl PrismaP2002, s)
      else let r = row\<lparr>rt_id := ae_newid E s\<rparr> in (Inr r, s\<lparr>a_tokens := a_tokens s @ [r]\<rparr>))"

definition session_create :: "auth_env \<Rightarrow> auth_session \<Rightarrow> auth_session authed" where
  "session_create E row s =
     (let r = row\<lparr>se_id := ae_newid E s\<rparr> in (Inr r, s\<lparr>a_sessions := a_sessions s @ [r]\<rparr>))"

section \<open>Redis\<close>

text \<open>A key with a time to live is gone once that time has passed.\<close>

definition live :: "int \<Rightarrow> (string \<times> 'v \<times> int) list \<Rightarrow> string \<Rightarrow> 'v option" where
  "live now entries k =
     (case map_of entries k of None \<Rightarrow> None | Some (v, e) \<Rightarrow> if now < e then Some v else None)"

definition drop_key :: "string \<Rightarrow> (string \<times> 'v) list \<Rightarrow> (string \<times> 'v) list" where
  "drop_key k entries = filter (\<lambda>(k', _). k' \<noteq> k) entries"

lemma live_drop [simp]: "live now (drop_key k xs) k' = (if k' = k then None else live now xs k')"
proof -
  have "map_of (drop_key k xs) k' = (if k' = k then None else map_of xs k')"
    by (induction xs) (auto simp: drop_key_def)
  then show ?thesis by (simp add: live_def)
qed

lemma live_cons [simp]:
  "live now ((k, v, e) # xs) k' = (if k' = k then (if now < e then Some v else None) else live now xs k')"
  by (simp add: live_def)

lemma live_in: "live now xs k = Some v \<Longrightarrow> \<exists>e. (k, v, e) \<in> set xs"
  by (auto simp: live_def split: option.splits if_splits dest!: map_of_SomeD)

end
