(* ===== verification/Auth_Sessions.thy ===== *)
theory Auth_Sessions
  imports Auth_Model
begin

text \<open>
  Sessions and their refresh tokens: the session part of \<^verbatim>\<open>auth/auth.service.ts\<close>, with
  \<^verbatim>\<open>auth-token.service.ts\<close>, \<^verbatim>\<open>auth-session-cache.service.ts\<close>, \<^verbatim>\<open>auth-rate-limit.service.ts\<close>
  and the functions of \<^verbatim>\<open>auth.utils.ts\<close> they use. A refresh token may be used once: its use
  creates the next token of its family, and a second use revokes the family and its session.
\<close>

section \<open>Utilities\<close>

definition normalizeEmail :: "string \<Rightarrow> string" where
  "normalizeEmail email = js_lower (js_trim email)"

definition addMinutes :: "int \<Rightarrow> int \<Rightarrow> int" where
  "addMinutes date minutes = date + minutes * 60 * 1000"

definition addSeconds :: "int \<Rightarrow> int \<Rightarrow> int" where
  "addSeconds date seconds = date + seconds * 1000"

definition generateOtpCode :: "auth_env \<Rightarrow> auth \<Rightarrow> string" where
  "generateOtpCode E s = js_nat_str (ae_random E s + 100000)"

definition role_priority :: "string list" where
  "role_priority =
     [''ORG_OWNER'', ''ORG_ADMIN'', ''WS_OWNER'', ''owner'', ''admin'', ''manager'', ''supervisor'',
      ''agent'', ''member'']"

definition highestRole :: "(string \<times> string) list \<Rightarrow> (string \<times> string) list \<Rightarrow> string" where
  "highestRole workspaceRoles orgRoles =
     (let allRoles = map snd orgRoles @ map snd workspaceRoles
      in case find (\<lambda>r. r \<in> set allRoles) role_priority of
           Some r \<Rightarrow> r
         | None \<Rightarrow> (case allRoles of [] \<Rightarrow> ''agent'' | r # _ \<Rightarrow> r))"

definition buildDisplayName :: "string option \<Rightarrow> string option \<Rightarrow> string \<Rightarrow> string" where
  "buildDisplayName firstName lastName email =
     (let name = js_trim (js_join '' '' (map the (filter js_truthy [firstName, lastName])))
      in if name \<noteq> [] then name
         else js_or_str (Some (hd (js_split (CHR ''@'') email))) ''User'')"

section \<open>Rate limits and the cache of contexts\<close>

text \<open>The remaining time to live of a key is reported in seconds, rounded to the nearest.\<close>

record rate_result =
  rr_allowed :: bool
  rr_current :: nat
  rr_remaining :: int
  rr_resetInSeconds :: int

definition rate_key :: "string \<Rightarrow> string" where
  "rate_key key = ''auth:rate:'' @ key"

definition consume :: "auth_env \<Rightarrow> string \<Rightarrow> int \<Rightarrow> int \<Rightarrow> rate_result authed" where
  "consume E key maxAttempts windowSeconds =
     bind_io (auth_clock E) (\<lambda>now.
       bind_io (gets (\<lambda>s. map_of (a_rates s) (rate_key key))) (\<lambda>entry.
         let (current, expiry) = (case entry of
               Some (n, e) \<Rightarrow> if now < e then (Suc n, e) else (1, addSeconds now windowSeconds)
             | None \<Rightarrow> (1, addSeconds now windowSeconds))
         in seq_io (modify (\<lambda>s. s\<lparr>a_rates := (rate_key key, current, expiry) # drop_key (rate_key key) (a_rates s)\<rparr>))
              (ret \<lparr>rr_allowed = int current \<le> maxAttempts, rr_current = current,
                    rr_remaining = max 0 (maxAttempts - int current),
                    rr_resetInSeconds =
                      (let ttl = (expiry - now + 500) div 1000 in if ttl > 0 then ttl else windowSeconds)\<rparr>)))"

definition clear :: "string \<Rightarrow> unit authed" where
  "clear key = modify (\<lambda>s. s\<lparr>a_rates := drop_key (rate_key key) (a_rates s)\<rparr>)"

definition cache_get :: "auth_env \<Rightarrow> string \<Rightarrow> session_context option authed" where
  "cache_get E sid = gets (\<lambda>s. live (ae_now E s) (a_cache s) sid)"

definition cache_set :: "auth_env \<Rightarrow> session_context \<Rightarrow> unit authed" where
  "cache_set E cx =
     bind_io (auth_clock E) (\<lambda>now.
       let seconds = max 60 ((cx_expiresAt cx - now) div 1000)
       in modify (\<lambda>s. s\<lparr>a_cache := (cx_sessionId cx, cx, now + seconds * 1000)
                                    # drop_key (cx_sessionId cx) (a_cache s)\<rparr>))"

definition cache_delete :: "string \<Rightarrow> unit authed" where
  "cache_delete sid = modify (\<lambda>s. s\<lparr>a_cache := drop_key sid (a_cache s)\<rparr>)"

section \<open>Logs\<close>

definition logAudit :: "audit_event \<Rightarrow> string option \<Rightarrow> string option \<Rightarrow> unit authed" where
  "logAudit event userId sessionId =
     modify (\<lambda>s. s\<lparr>a_audit := a_audit s @ [\<lparr>au_event = event, au_userId = userId, au_sessionId = sessionId\<rparr>]\<rparr>)"

definition recordLoginAttempt :: "string \<Rightarrow> string option \<Rightarrow> attempt_result \<Rightarrow> string \<Rightarrow> unit authed" where
  "recordLoginAttempt email userId result reason =
     modify (\<lambda>s. s\<lparr>a_attempts := a_attempts s @
       [\<lparr>at_userId = userId, at_email = email, at_result = result, at_reason = reason,
         at_requiresChallenge = (result = AttemptChallengeRequired)\<rparr>]\<rparr>)"

section \<open>Revocation\<close>

definition revoke_session_row :: "int \<Rightarrow> string \<Rightarrow> auth_session \<Rightarrow> auth_session" where
  "revoke_session_row now reason r =
     r\<lparr>se_revokedAt := Some now, se_revokedReason := Some reason,
       se_state := (if reason = ''expired'' then SessionExpired else SessionRevoked)\<rparr>"

definition revoke_token_row :: "int \<Rightarrow> string \<Rightarrow> token_status \<Rightarrow> refresh_token \<Rightarrow> refresh_token" where
  "revoke_token_row now reason st r =
     r\<lparr>rt_revokedAt := Some now, rt_revokedReason := Some reason, rt_status := st\<rparr>"

definition revokeSessionInternal :: "auth_env \<Rightarrow> string \<Rightarrow> string \<Rightarrow> unit authed" where
  "revokeSessionInternal E sid reason =
     seq_io
       (transaction
         (bind_io (auth_clock E) (\<lambda>now.
            seq_io
              (session_updateMany (\<lambda>r. se_id r = sid \<and> se_revokedAt r = None) (revoke_session_row now reason))
              (token_updateMany (\<lambda>r. rt_sessionId r = sid \<and> rt_revokedAt r = None)
                 (revoke_token_row now reason TokenRevoked)))))
       (cache_delete sid)"

definition handleRefreshTokenReuse :: "auth_env \<Rightarrow> refresh_token \<Rightarrow> unit authed" where
  "handleRefreshTokenReuse E record =
     bind_io (auth_clock E) (\<lambda>now.
       seq_io
         (token_updateMany
            (\<lambda>r. rt_tokenFamilyId r = rt_tokenFamilyId record \<and> rt_userId r = rt_userId record)
            (revoke_token_row now ''reuse-detected'' TokenReused))
         (seq_io (revokeSessionInternal E (rt_sessionId record) ''refresh-token-reuse'')
            (logAudit TOKEN_REUSE_DETECTED (Some (rt_userId record)) (Some (rt_sessionId record)))))"

section \<open>Contexts\<close>

text \<open>A session belongs to a user row: the foreign key deletes it with the user.\<close>

definition getSessionRecord :: "string \<Rightarrow> (auth_session \<times> user_row) option authed" where
  "getSessionRecord sid =
     gets (\<lambda>s. case find (\<lambda>r. se_id r = sid) (a_sessions s) of
        None \<Rightarrow> None
      | Some r \<Rightarrow> map_option (Pair r) (find (\<lambda>u. us_id u = se_userId r) (a_users s)))"

definition memberships :: "member_row list \<Rightarrow> string \<Rightarrow> (string \<times> string) list" where
  "memberships rows userId = map (\<lambda>m. (me_groupId m, me_role m)) (filter (\<lambda>m. me_userId m = userId) rows)"

definition csrf_token :: "auth_env \<Rightarrow> string \<Rightarrow> string" where
  "csrf_token E sid = ae_hash E (sid @ '':'' @ js_default (ae_var E ''AUTH_CSRF_SECRET'') ''axodesk-csrf'')"

definition buildContextFromRecord ::
  "auth_env \<Rightarrow> auth \<Rightarrow> auth_session \<Rightarrow> user_row \<Rightarrow> auth_provider option \<Rightarrow> session_context" where
  "buildContextFromRecord E s r u provider =
     \<lparr>cx_sessionId = se_id r, cx_userId = us_id u, cx_user = u,
      cx_passwordSet = list_ex (\<lambda>c. cd_userId c = us_id u \<and> js_truthy (cd_passwordHash c)) (a_creds s),
      cx_sessionVersion = se_sessionVersion r,
      cx_currentOrganizationId = se_currentOrganizationId r,
      cx_currentWorkspaceId = se_currentWorkspaceId r,
      cx_rememberMe = se_rememberMe r, cx_csrfToken = csrf_token E (se_id r),
      cx_orgRoles = memberships (a_orgMembers s) (us_id u),
      cx_workspaceRoles = memberships (a_wsMembers s) (us_id u),
      cx_trustedDeviceId = se_trustedDeviceId r, cx_expiresAt = se_expiresAt r,
      cx_idleExpiresAt = se_idleExpiresAt r, cx_lastRefreshedAt = se_lastRefreshedAt r,
      cx_authProvider = js_default provider ByLocal\<rparr>"

definition session_active :: "auth_session \<Rightarrow> bool" where
  "session_active r = (se_revokedAt r = None \<and> se_state r = SessionActive)"

definition load_context :: "auth_env \<Rightarrow> string \<Rightarrow> auth_provider option \<Rightarrow> session_context authed" where
  "load_context E sid provider =
     bind_io (getSessionRecord sid) (\<lambda>found.
       case found of
         None \<Rightarrow> throw (UnauthorizedException ''Session has been revoked'')
       | Some (r, u) \<Rightarrow>
           if \<not> session_active r then throw (UnauthorizedException ''Session has been revoked'')
           else bind_io (auth_clock E) (\<lambda>now.
             if se_expiresAt r \<le> now \<or> se_idleExpiresAt r \<le> now then
               seq_io (revokeSessionInternal E sid ''expired'')
                 (throw (UnauthorizedException ''Session has expired''))
             else
               bind_io (gets (\<lambda>s. buildContextFromRecord E s r u provider)) (\<lambda>cx.
                 seq_io (cache_set E cx) (ret cx))))"

definition getSessionContext ::
  "auth_env \<Rightarrow> string \<Rightarrow> bool \<Rightarrow> auth_provider option \<Rightarrow> session_context authed" where
  "getSessionContext E sid forceRefresh provider =
     bind_io (if forceRefresh then ret None else cache_get E sid) (\<lambda>cached.
       case cached of
         Some cx \<Rightarrow> ret cx
       | None \<Rightarrow> load_context E sid provider)"

section \<open>Access tokens and envelopes\<close>

definition signAccessToken :: "auth_env \<Rightarrow> session_context \<Rightarrow> string authed" where
  "signAccessToken E cx =
     bind_io (auth_clock E) (\<lambda>now.
       let nowSeconds = now div 1000
       in ret (ae_sign E
         \<lparr>ac_type = ''access'', ac_sid = Some (cx_sessionId cx), ac_ver = cx_sessionVersion cx,
          ac_email = us_email (cx_user cx), ac_workspaceId = cx_currentWorkspaceId cx,
          ac_orgId = cx_currentOrganizationId cx, ac_provider = cx_authProvider cx,
          ac_sub = cx_userId cx, ac_iat = nowSeconds,
          ac_exp = nowSeconds + setting E ''AUTH_ACCESS_TOKEN_TTL_SECONDS'' (15 * 60)\<rparr>))"

definition verifyAccessToken :: "auth_env \<Rightarrow> string \<Rightarrow> string authed" where
  "verifyAccessToken E token =
     bind_io (auth_clock E) (\<lambda>now.
       case ae_verify E now token of
         Some claims \<Rightarrow>
           if ac_type claims = ''access'' \<and> ac_sid claims \<noteq> None then ret (the (ac_sid claims))
           else throw (UnauthorizedException ''Invalid access token'')
       | None \<Rightarrow> throw (UnauthorizedException ''Invalid access token''))"

definition buildSessionEnvelope :: "int \<Rightarrow> session_context \<Rightarrow> string \<Rightarrow> envelope" where
  "buildSessionEnvelope now cx token =
     (let expiresAtSeconds = cx_expiresAt cx div 1000
      in \<lparr>en_accessToken = token, en_refreshToken = [], en_csrfToken = cx_csrfToken cx,
          en_expires_at = expiresAtSeconds, en_expires_in = max 0 (expiresAtSeconds - now div 1000),
          en_userId = us_id (cx_user cx), en_email = us_email (cx_user cx),
          en_name = buildDisplayName (us_firstName (cx_user cx)) (us_lastName (cx_user cx)) (us_email (cx_user cx)),
          en_role = highestRole (cx_workspaceRoles cx) (cx_orgRoles cx),
          en_firstName = us_firstName (cx_user cx), en_lastName = us_lastName (cx_user cx),
          en_avatarUrl = us_avatarUrl (cx_user cx), en_language = us_language (cx_user cx),
          en_emailVerified = (us_emailVerifiedAt (cx_user cx) \<noteq> None), en_passwordSet = cx_passwordSet cx,
          en_currentOrganizationId = cx_currentOrganizationId cx,
          en_currentWorkspaceId = cx_currentWorkspaceId cx\<rparr>)"

definition buildEnvelope :: "auth_env \<Rightarrow> session_context \<Rightarrow> string option \<Rightarrow> envelope authed" where
  "buildEnvelope E cx accessToken =
     bind_io (case accessToken of Some t \<Rightarrow> ret t | None \<Rightarrow> signAccessToken E cx) (\<lambda>token.
       bind_io (auth_clock E) (\<lambda>now. ret (buildSessionEnvelope now cx token)))"

definition refreshCurrentSession :: "auth_env \<Rightarrow> string \<Rightarrow> envelope authed" where
  "refreshCurrentSession E sid =
     bind_io (getSessionContext E sid True None) (\<lambda>cx. buildEnvelope E cx None)"

section \<open>Creating, listing and ending sessions\<close>

record session_options =
  so_rememberMe :: bool
  so_currentOrganizationId :: "string option"
  so_currentWorkspaceId :: "string option"
  so_authProvider :: auth_provider

definition session_ttl :: "auth_env \<Rightarrow> bool \<Rightarrow> int" where
  "session_ttl E rememberMe =
     (if rememberMe then setting E ''AUTH_REMEMBER_ME_TTL_SECONDS'' (30 * 24 * 60 * 60)
      else setting E ''AUTH_SESSION_IDLE_TTL_SECONDS'' (7 * 24 * 60 * 60))"

definition new_session :: "auth_env \<Rightarrow> int \<Rightarrow> string \<Rightarrow> request_meta \<Rightarrow> session_options \<Rightarrow> auth_session" where
  "new_session E now userId mt opts =
     (let expiry = addSeconds now (session_ttl E (so_rememberMe opts))
      in \<lparr>se_id = [], se_userId = userId, se_state = SessionActive, se_rememberMe = so_rememberMe opts,
          se_sessionVersion = 1, se_currentOrganizationId = so_currentOrganizationId opts,
          se_currentWorkspaceId = so_currentWorkspaceId opts, se_ipAddress = mt_ipAddress mt,
          se_ipHash = mt_ipHash mt, se_userAgent = mt_userAgent mt, se_deviceId = mt_deviceId mt,
          se_deviceName = mt_deviceName mt,
          se_deviceFingerprintHash =
            (if js_truthy (mt_deviceFingerprint mt) then Some (ae_hash E (the (mt_deviceFingerprint mt))) else None),
          se_lastSeenAt = now, se_lastRefreshedAt = now, se_expiresAt = expiry, se_idleExpiresAt = expiry,
          se_revokedAt = None, se_revokedReason = None, se_trustedDeviceId = None\<rparr>)"

definition new_token ::
  "auth_env \<Rightarrow> request_meta \<Rightarrow> string \<Rightarrow> string \<Rightarrow> string \<Rightarrow> string option \<Rightarrow> string \<Rightarrow> int \<Rightarrow> refresh_token" where
  "new_token E mt sid userId family previous raw expiry =
     \<lparr>rt_id = [], rt_sessionId = sid, rt_userId = userId, rt_tokenFamilyId = family,
      rt_previousTokenId = previous, rt_status = TokenActive, rt_tokenHash = ae_hash E raw,
      rt_expiresAt = expiry, rt_usedAt = None, rt_rotatedAt = None, rt_revokedAt = None,
      rt_revokedReason = None, rt_createdByIp = mt_ipAddress mt, rt_lastSeenIp = mt_ipAddress mt,
      rt_userAgent = mt_userAgent mt\<rparr>"

definition createSession :: "auth_env \<Rightarrow> string \<Rightarrow> request_meta \<Rightarrow> session_options \<Rightarrow> envelope authed" where
  "createSession E userId mt opts =
     bind_io (auth_clock E) (\<lambda>now.
       bind_io (session_create E (new_session E now userId mt opts)) (\<lambda>r.
         bind_io (gets (ae_token E)) (\<lambda>raw.
           seq_io
             (token_create E (new_token E mt (se_id r) userId (se_id r) None raw
                (addSeconds now (session_ttl E (so_rememberMe opts)))))
             (seq_io
                (user_update userId (\<lambda>u. u\<lparr>us_lastLoginAt := Some now\<rparr>))
                (bind_io (getSessionContext E (se_id r) True (Some (so_authProvider opts))) (\<lambda>cx.
                   bind_io (buildEnvelope E cx None) (\<lambda>en.
                     seq_io (logAudit SIGN_IN (Some userId) (Some (se_id r)))
                       (ret (en\<lparr>en_refreshToken := raw\<rparr>)))))))))"

record session_summary =
  sm_id :: string
  sm_current :: bool
  sm_row :: auth_session

definition listSessions :: "string \<Rightarrow> string option \<Rightarrow> session_summary list authed" where
  "listSessions userId currentSessionId =
     gets (\<lambda>s. map (\<lambda>r. \<lparr>sm_id = se_id r, sm_current = (Some (se_id r) = currentSessionId), sm_row = r\<rparr>)
       (sort_key (\<lambda>r. - se_lastSeenAt r) (filter (\<lambda>r. se_userId r = userId \<and> session_active r) (a_sessions s))))"

definition revokeSession :: "auth_env \<Rightarrow> string \<Rightarrow> string \<Rightarrow> unit authed" where
  "revokeSession E userId sid =
     bind_io (gets (\<lambda>s. find (\<lambda>r. se_id r = sid \<and> se_userId r = userId) (a_sessions s))) (\<lambda>found.
       case found of
         None \<Rightarrow> throw (BadRequestException ''Session not found'')
       | Some _ \<Rightarrow> revokeSessionInternal E sid ''user-revoked'')"

definition revokeAllSessions :: "auth_env \<Rightarrow> string \<Rightarrow> string option \<Rightarrow> nat authed" where
  "revokeAllSessions E userId except =
     bind_io (gets (\<lambda>s. map se_id (filter (\<lambda>r. se_userId r = userId
          \<and> (js_truthy except \<longrightarrow> Some (se_id r) \<noteq> except) \<and> se_revokedAt r = None) (a_sessions s)))) (\<lambda>ids.
       seq_io (for_io (\<lambda>i. revokeSessionInternal E i ''revoke-all'') ids) (ret (length ids)))"

definition selectWorkspace ::
  "auth_env \<Rightarrow> string \<Rightarrow> string \<Rightarrow> string option \<Rightarrow> string option \<Rightarrow> envelope authed" where
  "selectWorkspace E userId sid organizationId workspaceId =
     bind_io (getSessionContext E sid True None) (\<lambda>cx.
       if cx_userId cx \<noteq> userId then throw (ForbiddenException ''Invalid session'')
       else if js_truthy organizationId \<and> \<not> role_truthy (role_at (Some (cx_orgRoles cx)) (the organizationId)) then
         throw (ForbiddenException ''You do not belong to that organization'')
       else if js_truthy workspaceId \<and> \<not> role_truthy (role_at (Some (cx_workspaceRoles cx)) (the workspaceId)) then
         throw (ForbiddenException ''You do not belong to that workspace'')
       else seq_io
         (session_update sid (\<lambda>r. r\<lparr>se_currentOrganizationId := organizationId,
            se_currentWorkspaceId := workspaceId, se_sessionVersion := Suc (se_sessionVersion r)\<rparr>))
         (refreshCurrentSession E sid))"

section \<open>Rotation of refresh tokens\<close>

text \<open>The row of a token after its use.\<close>

definition used_row :: "int \<Rightarrow> request_meta \<Rightarrow> refresh_token \<Rightarrow> refresh_token" where
  "used_row now mt t = t\<lparr>rt_status := TokenUsed, rt_usedAt := Some now, rt_rotatedAt := Some now,
     rt_lastSeenIp := js_nullish (mt_ipAddress mt) (rt_lastSeenIp t)\<rparr>"

definition seen_row :: "int \<Rightarrow> request_meta \<Rightarrow> auth_session \<Rightarrow> auth_session" where
  "seen_row now mt r = r\<lparr>se_lastRefreshedAt := now, se_lastSeenAt := now,
     se_ipAddress := js_nullish (mt_ipAddress mt) (se_ipAddress r),
     se_ipHash := js_nullish (mt_ipHash mt) (se_ipHash r),
     se_userAgent := js_nullish (mt_userAgent mt) (se_userAgent r)\<rparr>"

text \<open>
  The writing half of a refresh: \<open>record\<close> and \<open>r\<close> are the token row and its session as they were
  read before.
\<close>

definition rotate_token :: "auth_env \<Rightarrow> request_meta \<Rightarrow> refresh_token \<Rightarrow> string authed" where
  "rotate_token E mt record =
     bind_io (gets (ae_token E)) (\<lambda>raw.
       seq_io
         (transaction
           (bind_io (auth_clock E) (\<lambda>now.
              seq_io
                (token_update (rt_id record) (used_row now mt))
                (seq_io
                   (token_create E (new_token E mt (rt_sessionId record) (rt_userId record)
                      (rt_tokenFamilyId record) (Some (rt_id record)) raw (rt_expiresAt record)))
                   (session_update (rt_sessionId record) (seen_row now mt))))))
         (ret raw))"

definition refresh_with ::
  "auth_env \<Rightarrow> request_meta \<Rightarrow> (refresh_token \<times> auth_session) option \<Rightarrow> envelope authed" where
  "refresh_with E mt found =
     (case found of
        None \<Rightarrow> throw (UnauthorizedException ''Invalid refresh token'')
      | Some (record, r) \<Rightarrow>
          bind_io (auth_clock E) (\<lambda>now.
            if rt_status record \<noteq> TokenActive \<or> rt_revokedAt record \<noteq> None \<or> rt_expiresAt record \<le> now then
              seq_io (handleRefreshTokenReuse E record)
                (throw (UnauthorizedException ''Invalid refresh token''))
            else if \<not> session_active r \<or> se_expiresAt r \<le> now then
              throw (UnauthorizedException ''Session has expired'')
            else
              bind_io (rotate_token E mt record) (\<lambda>raw.
                bind_io (refreshCurrentSession E (rt_sessionId record)) (\<lambda>en.
                  ret (en\<lparr>en_refreshToken := raw\<rparr>)))))"

text \<open>The row of a token and, by its foreign key, the session it belongs to.\<close>

definition find_token :: "auth_env \<Rightarrow> string \<Rightarrow> auth \<Rightarrow> (refresh_token \<times> auth_session) option" where
  "find_token E raw s =
     (case find (\<lambda>t. rt_tokenHash t = ae_hash E raw) (a_tokens s) of
        None \<Rightarrow> None
      | Some t \<Rightarrow> map_option (Pair t) (find (\<lambda>r. se_id r = rt_sessionId t) (a_sessions s)))"

definition refreshSession :: "auth_env \<Rightarrow> string \<Rightarrow> request_meta \<Rightarrow> envelope authed" where
  "refreshSession E raw mt = bind_io (gets (find_token E raw)) (refresh_with E mt)"

definition getSession ::
  "auth_env \<Rightarrow> string option \<Rightarrow> string option \<Rightarrow> request_meta option \<Rightarrow> envelope option authed" where
  "getSession E accessToken refreshToken mt =
     (if js_truthy accessToken then
        bind_io (verifyAccessToken E (the accessToken)) (\<lambda>sid.
          bind_io (getSessionContext E sid False None) (\<lambda>cx.
            bind_io (buildEnvelope E cx accessToken) (\<lambda>en. ret (Some (en\<lparr>en_refreshToken := []\<rparr>)))))
      else if js_truthy refreshToken \<and> mt \<noteq> None then
        bind_io (refreshSession E (the refreshToken) (the mt)) (\<lambda>en. ret (Some en))
      else ret None)"

section \<open>Consistency of sessions, tokens and cache\<close>

definition live_token :: "refresh_token \<Rightarrow> bool" where
  "live_token t = (rt_status t = TokenActive \<and> rt_revokedAt t = None)"

definition session_ids_ok :: "auth \<Rightarrow> bool" where
  "session_ids_ok s \<longleftrightarrow>
     distinct (map se_id (a_sessions s)) \<and> distinct (map rt_id (a_tokens s))
     \<and> distinct (map rt_tokenHash (a_tokens s))"

text \<open>A token belongs to the session that is its family, and is dead once the session is.\<close>

definition tokens_ok :: "auth \<Rightarrow> bool" where
  "tokens_ok s \<longleftrightarrow>
     (\<forall>t\<in>set (a_tokens s). rt_tokenFamilyId t = rt_sessionId t
        \<and> (\<exists>r\<in>set (a_sessions s). se_id r = rt_sessionId t \<and> se_userId r = rt_userId t
             \<and> (live_token t \<longrightarrow> session_active r)))"

definition single_live :: "auth \<Rightarrow> bool" where
  "single_live s \<longleftrightarrow>
     (\<forall>t\<in>set (a_tokens s). \<forall>t'\<in>set (a_tokens s).
        live_token t \<longrightarrow> live_token t' \<longrightarrow> rt_sessionId t = rt_sessionId t' \<longrightarrow> t = t')"

definition cache_ok :: "auth \<Rightarrow> bool" where
  "cache_ok s \<longleftrightarrow>
     (\<forall>(k, cx, e)\<in>set (a_cache s). cx_sessionId cx = k
        \<and> (\<exists>r\<in>set (a_sessions s). se_id r = k \<and> se_userId r = cx_userId cx \<and> session_active r))"

definition sessions_ok :: "auth \<Rightarrow> bool" where
  "sessions_ok s \<longleftrightarrow> session_ids_ok s \<and> tokens_ok s \<and> single_live s \<and> cache_ok s"

lemmas sessions_defs = sessions_ok_def session_ids_ok_def tokens_ok_def single_live_def cache_ok_def

text \<open>Row ids and random tokens are never in use already.\<close>

definition fresh_rows :: "auth_env \<Rightarrow> bool" where
  "fresh_rows E \<longleftrightarrow>
     (\<forall>s. ae_newid E s \<notin> se_id ` set (a_sessions s) \<and> ae_newid E s \<notin> rt_id ` set (a_tokens s))"

lemma sessions_ok_cong:
  "sessions_ok s \<Longrightarrow> a_sessions t = a_sessions s \<Longrightarrow> a_tokens t = a_tokens s \<Longrightarrow> a_cache t = a_cache s
     \<Longrightarrow> sessions_ok t"
  by (simp add: sessions_defs)

lemma revoke_run:
  "revokeSessionInternal E sid reason s =
     (Inr (), s\<lparr>a_sessions := upd_where (\<lambda>r. se_id r = sid \<and> se_revokedAt r = None)
                  (revoke_session_row (ae_now E s) reason) (a_sessions s),
                a_tokens := upd_where (\<lambda>r. rt_sessionId r = sid \<and> rt_revokedAt r = None)
                  (revoke_token_row (ae_now E s) reason TokenRevoked) (a_tokens s),
                a_cache := drop_key sid (a_cache s)\<rparr>)"
  by (simp add: revokeSessionInternal_def transaction_def io_simps auth_clock_def session_updateMany_def
      token_updateMany_def cache_delete_def)

lemma revoke_rows [simp]:
  "se_id (revoke_session_row now reason r) = se_id r"
  "se_userId (revoke_session_row now reason r) = se_userId r"
  "\<not> session_active (revoke_session_row now reason r)"
  "rt_id (revoke_token_row now reason st t) = rt_id t"
  "rt_sessionId (revoke_token_row now reason st t) = rt_sessionId t"
  "rt_userId (revoke_token_row now reason st t) = rt_userId t"
  "rt_tokenFamilyId (revoke_token_row now reason st t) = rt_tokenFamilyId t"
  "rt_tokenHash (revoke_token_row now reason st t) = rt_tokenHash t"
  "\<not> live_token (revoke_token_row now reason st t)"
  by (simp_all add: revoke_session_row_def session_active_def revoke_token_row_def live_token_def)

text \<open>Tokens may be retired at any time.\<close>

lemma ok_retire_tokens:
  assumes "sessions_ok s" and "\<And>t. rt_id (f t) = rt_id t \<and> rt_sessionId (f t) = rt_sessionId t
      \<and> rt_userId (f t) = rt_userId t \<and> rt_tokenFamilyId (f t) = rt_tokenFamilyId t
      \<and> rt_tokenHash (f t) = rt_tokenHash t \<and> \<not> live_token (f t)"
  shows "sessions_ok (s\<lparr>a_tokens := upd_where P f (a_tokens s)\<rparr>)"
  using assms unfolding sessions_defs
  by (simp add: map_upd_where ball_upd_where) (auto split: if_splits)

lemma ok_revoke_tokens:
  assumes "sessions_ok s"
  shows "sessions_ok (s\<lparr>a_tokens := upd_where P (revoke_token_row now reason st) (a_tokens s)\<rparr>)"
  by (rule ok_retire_tokens [OF assms]) simp

text \<open>A session may be revoked once its tokens are and its context is not cached.\<close>

lemma ok_revoke_session:
  assumes "sessions_ok s" and "\<And>t. t \<in> set (a_tokens s) \<Longrightarrow> rt_sessionId t = sid \<Longrightarrow> \<not> live_token t"
    and "sid \<notin> fst ` set (a_cache s)"
  shows "sessions_ok (s\<lparr>a_sessions := upd_where (\<lambda>r. se_id r = sid \<and> P r) (revoke_session_row now reason)
    (a_sessions s)\<rparr>)"
proof -
  let ?t = "s\<lparr>a_sessions := upd_where (\<lambda>r. se_id r = sid \<and> P r) (revoke_session_row now reason) (a_sessions s)\<rparr>"
  have rows: "\<exists>r'\<in>set (a_sessions ?t). se_id r' = se_id r \<and> se_userId r' = se_userId r
      \<and> (se_id r \<noteq> sid \<longrightarrow> r' = r)" if "r \<in> set (a_sessions s)" for r
    using that
    by (intro bexI [of _ "if se_id r = sid \<and> P r then revoke_session_row now reason r else r"])
       (auto simp: set_upd_where)
  have "tokens_ok ?t"
    using assms(1,2) rows unfolding sessions_ok_def tokens_ok_def by (simp, metis)
  moreover have "cache_ok ?t"
    unfolding cache_ok_def
  proof (intro ballI, clarify, intro conjI)
    fix k cx e assume "(k, cx, e) \<in> set (a_cache ?t)"
    then have c: "(k, cx, e) \<in> set (a_cache s)" by simp
    with assms(3) have "k \<noteq> sid" by force
    moreover obtain r where "cx_sessionId cx = k" "r \<in> set (a_sessions s)" "se_id r = k"
      "se_userId r = cx_userId cx" "session_active r"
      using c assms(1) unfolding sessions_ok_def cache_ok_def by fast
    ultimately show "cx_sessionId cx = k" "\<exists>r\<in>set (a_sessions ?t). se_id r = k
        \<and> se_userId r = cx_userId cx \<and> session_active r"
      using rows [of r] by auto
  qed
  ultimately show ?thesis
    using assms(1) by (simp add: sessions_ok_def session_ids_ok_def single_live_def map_upd_where)
qed

lemma ok_drop:
  assumes "sessions_ok s"
  shows "sessions_ok (s\<lparr>a_cache := drop_key sid (a_cache s)\<rparr>)"
proof -
  have "cache_ok (s\<lparr>a_cache := drop_key sid (a_cache s)\<rparr>)"
    using assms by (auto simp: sessions_ok_def cache_ok_def drop_key_def)
  with assms show ?thesis by (simp add: sessions_ok_def session_ids_ok_def tokens_ok_def single_live_def)
qed

lemma ok_revoke:
  assumes "sessions_ok s"
  shows "sessions_ok (snd (revokeSessionInternal E sid reason s))"
proof -
  define u where "u = s\<lparr>a_tokens := upd_where (\<lambda>r. rt_sessionId r = sid \<and> rt_revokedAt r = None)
     (revoke_token_row (ae_now E s) reason TokenRevoked) (a_tokens s)\<rparr>"
  define v where "v = u\<lparr>a_cache := drop_key sid (a_cache u)\<rparr>"
  have tables: "a_sessions v = a_sessions s" "a_cache v = drop_key sid (a_cache s)"
    "a_tokens v = upd_where (\<lambda>r. rt_sessionId r = sid \<and> rt_revokedAt r = None)
     (revoke_token_row (ae_now E s) reason TokenRevoked) (a_tokens s)"
    by (simp_all add: u_def v_def)
  have "sessions_ok u" unfolding u_def by (rule ok_revoke_tokens [OF assms])
  then have "sessions_ok v" unfolding v_def by (rule ok_drop)
  moreover have "\<not> live_token t" if tv: "t \<in> set (a_tokens v)" "rt_sessionId t = sid" for t
  proof -
    obtain x where "t = (if rt_sessionId x = sid \<and> rt_revokedAt x = None
        then revoke_token_row (ae_now E s) reason TokenRevoked x else x)"
      using tv(1) unfolding tables set_upd_where by (elim imageE)
    with tv(2) show ?thesis
      by (cases "rt_sessionId x = sid \<and> rt_revokedAt x = None") (simp, metis live_token_def)
  qed
  moreover have "sid \<notin> fst ` set (a_cache v)" unfolding tables by (auto simp: drop_key_def)
  ultimately have "sessions_ok (v\<lparr>a_sessions := upd_where (\<lambda>r. se_id r = sid \<and> se_revokedAt r = None)
      (revoke_session_row (ae_now E s) reason) (a_sessions v)\<rparr>)"
    by (rule ok_revoke_session)
  then show ?thesis by (rule sessions_ok_cong) (simp_all add: revoke_run tables)
qed

text \<open>A session row may change in every column but its id, its user and its status.\<close>

lemma ok_session_update:
  assumes "sessions_ok s" and f: "\<And>r. se_id (f r) = se_id r \<and> se_userId (f r) = se_userId r
      \<and> session_active (f r) = session_active r"
  shows "sessions_ok (s\<lparr>a_sessions := upd_where P f (a_sessions s)\<rparr>)"
proof -
  have rows: "(\<exists>r\<in>set (upd_where P f (a_sessions s)). se_id r = i \<and> se_userId r = u \<and> (b \<longrightarrow> session_active r))
      \<longleftrightarrow> (\<exists>r\<in>set (a_sessions s). se_id r = i \<and> se_userId r = u \<and> (b \<longrightarrow> session_active r))" for i u b
    unfolding set_upd_where using f by (auto split: if_splits)
  from rows [where b = True] rows show ?thesis
    using assms unfolding sessions_defs by (simp add: map_upd_where)
qed

text \<open>A new token may be added for an active session that has no other live one.\<close>

lemma ok_token_add:
  assumes "sessions_ok s" and "r \<in> set (a_sessions s)" and "session_active r"
    and "se_id r = rt_sessionId t" and "se_userId r = rt_userId t" and "rt_tokenFamilyId t = rt_sessionId t"
    and "rt_id t \<notin> rt_id ` set (a_tokens s)" and "rt_tokenHash t \<notin> rt_tokenHash ` set (a_tokens s)"
    and "\<And>t'. t' \<in> set (a_tokens s) \<Longrightarrow> rt_sessionId t' = rt_sessionId t \<Longrightarrow> \<not> live_token t'"
  shows "sessions_ok (s\<lparr>a_tokens := a_tokens s @ [t]\<rparr>)"
proof -
  let ?u = "s\<lparr>a_tokens := a_tokens s @ [t]\<rparr>"
  have "session_ids_ok ?u" "cache_ok ?u"
    using assms(1,7,8) unfolding sessions_defs by simp_all
  moreover have "tokens_ok ?u"
    using assms(1-6) unfolding sessions_ok_def tokens_ok_def by auto
  moreover have "single_live ?u"
    using assms(1,9) unfolding sessions_ok_def single_live_def by simp metis
  ultimately show ?thesis by (simp add: sessions_ok_def)
qed

lemma ok_session_add:
  assumes "sessions_ok s" and "se_id r \<notin> se_id ` set (a_sessions s)"
  shows "sessions_ok (s\<lparr>a_sessions := a_sessions s @ [r]\<rparr>)"
  using assms unfolding sessions_defs by fastforce

lemma ok_cache_set:
  assumes "sessions_ok s" and "r \<in> set (a_sessions s)" and "session_active r"
    and "se_id r = cx_sessionId cx" and "se_userId r = cx_userId cx"
  shows "sessions_ok (snd (cache_set E cx s))"
  using assms unfolding sessions_defs
  by (auto simp: cache_set_def io_simps auth_clock_def drop_key_def Let_def)

lemma record_found:
  assumes "getSessionRecord sid s = (Inr (Some (r, u)), t)"
  shows "t = s" and "r \<in> set (a_sessions s)" and "se_id r = sid" and "us_id u = se_userId r"
    and "u \<in> set (a_users s)"
  using assms by (auto simp: getSessionRecord_def io_simps split: option.splits dest!: find_Some_in)

lemma load_run:
  assumes "getSessionRecord sid s = (Inr (Some (r, u)), s)"
  shows "load_context E sid provider s =
    (if \<not> session_active r then throw (UnauthorizedException ''Session has been revoked'') s
     else if se_expiresAt r \<le> ae_now E s \<or> se_idleExpiresAt r \<le> ae_now E s
       then (Inl (UnauthorizedException ''Session has expired''), snd (revokeSessionInternal E sid ''expired'' s))
     else (Inr (buildContextFromRecord E s r u provider),
       snd (cache_set E (buildContextFromRecord E s r u provider) s)))"
  by (simp add: load_context_def bind_io_def assms auth_clock_def gets_def seq_io_def ret_def throw_def
      revoke_run cache_set_def modify_def Let_def)

lemma ok_load:
  assumes "sessions_ok s"
  shows "sessions_ok (snd (load_context E sid provider s))"
proof -
  obtain found where f: "getSessionRecord sid s = (Inr found, s)"
    by (simp add: getSessionRecord_def io_simps)
  show ?thesis
  proof (cases found)
    case None
    with f assms show ?thesis by (simp add: load_context_def io_simps)
  next
    case (Some p)
    obtain r u where p: "p = (r, u)" by (cases p)
    note row = record_found [OF f [unfolded Some p]]
    have "sessions_ok (snd (cache_set E (buildContextFromRecord E s r u provider) s))"
      if "session_active r"
      by (rule ok_cache_set [OF assms row(2) that]) (simp_all add: buildContextFromRecord_def row(3,4))
    with assms ok_revoke [OF assms] show ?thesis by (simp add: load_run [OF f [unfolded Some p]] throw_def)
  qed
qed

section \<open>Preservation\<close>

text \<open>
  Two instances of the step order: an operation keeps the consistency of the sessions, or it does
  not touch sessions, tokens and cached contexts at all.
\<close>

definition keep_ok :: "auth \<Rightarrow> auth \<Rightarrow> bool" where
  "keep_ok s t \<longleftrightarrow> (sessions_ok s \<longrightarrow> sessions_ok t)"

definition same_sessions :: "auth \<Rightarrow> auth \<Rightarrow> bool" where
  "same_sessions s t \<longleftrightarrow> a_sessions t = a_sessions s \<and> a_tokens t = a_tokens s \<and> a_cache t = a_cache s"

interpretation ok: step_order keep_ok
  by unfold_locales (auto simp: keep_ok_def)

interpretation frame: step_order same_sessions
  by unfold_locales (auto simp: same_sessions_def)

lemma frame_ok: "keeps same_sessions m \<Longrightarrow> keeps keep_ok m"
  unfolding keeps_def keep_ok_def same_sessions_def by (metis sessions_ok_cong)

lemma ok_keeps: "(\<And>s. sessions_ok s \<Longrightarrow> sessions_ok (snd (m s))) \<Longrightarrow> keeps keep_ok m"
  by (simp add: keeps_def keep_ok_def)

lemma ok_then: "sessions_ok (snd (m s)) \<Longrightarrow> (\<And>x. keeps keep_ok (f x)) \<Longrightarrow> sessions_ok (snd (bind_io m f s))"
  by (auto simp: bind_io_def keeps_def keep_ok_def split: prod.splits sum.splits)

lemma keeps_transaction: "(\<And>s. R s s) \<Longrightarrow> keeps R m \<Longrightarrow> keeps R (transaction m)"
  by (auto simp: keeps_def transaction_def split: prod.splits sum.splits) (metis snd_conv)

lemma frame_row_update:
  "(\<And>x s. same_sessions s (put x s)) \<Longrightarrow> keeps same_sessions (row_update get put P f)"
  by (auto simp: keeps_def row_update_def same_sessions_def split: option.splits)

lemma frame_writes:
  "keeps same_sessions (user_update i f)" "keeps same_sessions (cred_update P g)"
  "keeps same_sessions (logAudit ev u session)" "keeps same_sessions (recordLoginAttempt em u res why)"
  "keeps same_sessions (consume E key mx win)" "keeps same_sessions (clear key)"
  "keeps same_sessions (auth_clock E)" "keeps same_sessions (cache_get E sid)"
  "keeps same_sessions (signAccessToken E cx)" "keeps same_sessions (verifyAccessToken E raw)"
  by (auto simp: user_update_def cred_update_def logAudit_def recordLoginAttempt_def consume_def clear_def
      auth_clock_def cache_get_def signAccessToken_def verifyAccessToken_def Let_def same_sessions_def
      intro!: frame_row_update frame.r_modify frame.r_intros split: prod.splits)

lemmas ok_writes = frame_writes [THEN frame_ok]

lemma frame_envelope: "keeps same_sessions (buildEnvelope E cx raw)"
  unfolding buildEnvelope_def by (intro frame.r_intros frame_writes)

lemma keeps_context: "keeps keep_ok (getSessionContext E sid force provider)"
  unfolding getSessionContext_def
  by (intro ok.r_intros frame_ok [OF frame_writes(8)] ok_keeps ok_load)

lemma keeps_current: "keeps keep_ok (refreshCurrentSession E sid)"
  unfolding refreshCurrentSession_def
  by (intro ok.r_intros keeps_context frame_ok [OF frame_envelope])

lemma keeps_revoke: "keeps keep_ok (revokeSessionInternal E sid reason)"
  by (rule ok_keeps) (rule ok_revoke)

lemma keeps_reuse: "keeps keep_ok (handleRefreshTokenReuse E record)"
proof -
  have retire: "keeps keep_ok (token_updateMany P (revoke_token_row now reason st))" for P now reason st
    by (rule ok_keeps) (simp add: token_updateMany_def modify_def ok_revoke_tokens)
  show ?thesis unfolding handleRefreshTokenReuse_def
    by (intro ok.r_intros retire keeps_revoke ok_writes)
qed

lemma token_create_run:
  "token_create E row s =
     (if rt_tokenHash row \<in> rt_tokenHash ` set (a_tokens s) then (Inl PrismaP2002, s)
      else (Inr (row\<lparr>rt_id := ae_newid E s\<rparr>), s\<lparr>a_tokens := a_tokens s @ [row\<lparr>rt_id := ae_newid E s\<rparr>]\<rparr>))"
  by (simp add: token_create_def Let_def)

lemma token_session:
  "sessions_ok s \<Longrightarrow> t \<in> set (a_tokens s) \<Longrightarrow> rt_sessionId t \<in> se_id ` set (a_sessions s)"
  unfolding sessions_ok_def tokens_ok_def by (metis imageI)

lemma ok_token_create:
  assumes "fresh_rows E" and "sessions_ok s" and "r \<in> set (a_sessions s)" and "session_active r"
    and "se_id r = rt_sessionId row" and "se_userId r = rt_userId row" and "rt_tokenFamilyId row = rt_sessionId row"
    and "\<And>t. t \<in> set (a_tokens s) \<Longrightarrow> rt_sessionId t = rt_sessionId row \<Longrightarrow> \<not> live_token t"
  shows "sessions_ok (snd (token_create E row s))"
proof (cases "rt_tokenHash row \<in> rt_tokenHash ` set (a_tokens s)")
  case True
  with assms(2) show ?thesis by (simp add: token_create_run)
next
  case False
  have "ae_newid E s \<notin> rt_id ` set (a_tokens s)" using assms(1) by (simp add: fresh_rows_def)
  then have "sessions_ok (s\<lparr>a_tokens := a_tokens s @ [row\<lparr>rt_id := ae_newid E s\<rparr>]\<rparr>)"
    using ok_token_add [OF assms(2-4), of "row\<lparr>rt_id := ae_newid E s\<rparr>"] assms(5-8) False by simp
  with False show ?thesis by (simp add: token_create_run)
qed

text \<open>After the session row and its first token, a new session only writes to its user and the logs.\<close>

lemma ok_createSession:
  assumes "fresh_rows E" and "sessions_ok s"
  shows "sessions_ok (snd (createSession E userId mt opts s))"
proof -
  define r where "r = (new_session E (ae_now E s) userId mt opts)\<lparr>se_id := ae_newid E s\<rparr>"
  define s1 where "s1 = s\<lparr>a_sessions := a_sessions s @ [r]\<rparr>"
  define t where "t = new_token E mt (se_id r) userId (se_id r) None (ae_token E s1)
     (addSeconds (ae_now E s) (session_ttl E (so_rememberMe opts)))"
  define rest where "rest = seq_io (user_update userId (\<lambda>u. u\<lparr>us_lastLoginAt := Some (ae_now E s)\<rparr>))
     (bind_io (getSessionContext E (se_id r) True (Some (so_authProvider opts))) (\<lambda>cx.
        bind_io (buildEnvelope E cx None) (\<lambda>en.
          seq_io (logAudit SIGN_IN (Some userId) (Some (se_id r)))
            (ret (en\<lparr>en_refreshToken := ae_token E s1\<rparr>)))))"
  have run: "createSession E userId mt opts s = seq_io (token_create E t) rest s1"
    by (simp add: createSession_def bind_io_def auth_clock_def gets_def session_create_def Let_def
        r_def s1_def t_def rest_def)
  have row: "se_id r = ae_newid E s" "se_userId r = userId" "session_active r" "r \<in> set (a_sessions s1)"
    by (simp_all add: r_def s1_def new_session_def session_active_def Let_def)
  have new: "ae_newid E s \<notin> se_id ` set (a_sessions s)" using assms(1) by (simp add: fresh_rows_def)
  have "sessions_ok s1" unfolding s1_def by (rule ok_session_add [OF assms(2)]) (simp add: row new)
  moreover have "rt_sessionId t' \<noteq> rt_sessionId t" if "t' \<in> set (a_tokens s1)" for t'
    using token_session [OF assms(2), of t'] that new by (auto simp: s1_def t_def new_token_def row)
  ultimately have "sessions_ok (snd (token_create E t s1))"
    using ok_token_create [OF assms(1) _ row(4,3), of t] by (simp add: t_def new_token_def row)
  moreover have "keeps keep_ok rest" unfolding rest_def
    by (intro ok.r_intros ok_writes keeps_context frame_ok [OF frame_envelope])
  ultimately show ?thesis unfolding run seq_io_def by (rule ok_then)
qed

lemma session_update_run:
  "session_update i f s =
     (case find (\<lambda>r. se_id r = i) (a_sessions s) of
        None \<Rightarrow> (Inl PrismaP2025, s)
      | Some r \<Rightarrow> (Inr (f r), s\<lparr>a_sessions := upd_where (\<lambda>r. se_id r = i) f (a_sessions s)\<rparr>))"
  by (simp add: session_update_def row_update_def split: option.split)

lemma token_update_run:
  "token_update i f s =
     (case find (\<lambda>r. rt_id r = i) (a_tokens s) of
        None \<Rightarrow> (Inl PrismaP2025, s)
      | Some r \<Rightarrow> (Inr (f r), s\<lparr>a_tokens := upd_where (\<lambda>r. rt_id r = i) f (a_tokens s)\<rparr>))"
  by (simp add: token_update_def row_update_def split: option.split)

lemma keeps_session_update:
  assumes "\<And>r. se_id (f r) = se_id r \<and> se_userId (f r) = se_userId r \<and> session_active (f r) = session_active r"
  shows "keeps keep_ok (session_update i f)"
  by (rule ok_keeps) (auto simp: session_update_run ok_session_update [OF _ assms] split: option.split)

text \<open>The token a client presents and its session, found together.\<close>

lemma token_found:
  assumes "find_token E raw s = Some (record, r)"
  shows "record \<in> set (a_tokens s)" and "rt_tokenHash record = ae_hash E raw" and "r \<in> set (a_sessions s)"
    and "se_id r = rt_sessionId record" and "find (\<lambda>r. se_id r = rt_sessionId record) (a_sessions s) = Some r"
  using assms by (auto simp: find_token_def split: option.splits dest: find_Some_in)

lemma ok_token_row:
  assumes "sessions_ok s" and "record \<in> set (a_tokens s)"
  shows "find (\<lambda>t. rt_id t = rt_id record) (a_tokens s) = Some record"
    and "t \<in> set (a_tokens s) \<Longrightarrow> rt_id t = rt_id record \<Longrightarrow> t = record"
proof -
  have d: "distinct (map rt_id (a_tokens s))" using assms(1) by (simp add: sessions_defs)
  show "find (\<lambda>t. rt_id t = rt_id record) (a_tokens s) = Some record"
    by (rule find_unique_key [OF d assms(2)])
  show "t \<in> set (a_tokens s) \<Longrightarrow> rt_id t = rt_id record \<Longrightarrow> t = record"
    using d assms(2) by (simp add: distinct_map inj_on_def)
qed

lemma used_row_simps [simp]:
  "rt_id (used_row now mt t) = rt_id t" "rt_sessionId (used_row now mt t) = rt_sessionId t"
  "rt_userId (used_row now mt t) = rt_userId t" "rt_tokenFamilyId (used_row now mt t) = rt_tokenFamilyId t"
  "rt_tokenHash (used_row now mt t) = rt_tokenHash t" "rt_status (used_row now mt t) = TokenUsed"
  "\<not> live_token (used_row now mt t)"
  by (simp_all add: used_row_def live_token_def)

lemma seen_row_simps [simp]:
  "se_id (seen_row now mt r) = se_id r" "se_userId (seen_row now mt r) = se_userId r"
  "session_active (seen_row now mt r) = session_active r"
  "se_expiresAt (seen_row now mt r) = se_expiresAt r" "se_idleExpiresAt (seen_row now mt r) = se_idleExpiresAt r"
  by (simp_all add: seen_row_def session_active_def)

definition rotated_tokens :: "auth_env \<Rightarrow> request_meta \<Rightarrow> refresh_token \<Rightarrow> auth \<Rightarrow> refresh_token list" where
  "rotated_tokens E mt record s = upd_where (\<lambda>t. rt_id t = rt_id record) (used_row (ae_now E s) mt) (a_tokens s)"

definition next_token :: "auth_env \<Rightarrow> request_meta \<Rightarrow> refresh_token \<Rightarrow> auth \<Rightarrow> refresh_token" where
  "next_token E mt record s =
     (new_token E mt (rt_sessionId record) (rt_userId record) (rt_tokenFamilyId record) (Some (rt_id record))
        (ae_token E s) (rt_expiresAt record))\<lparr>rt_id := ae_newid E (s\<lparr>a_tokens := rotated_tokens E mt record s\<rparr>)\<rparr>"

lemma hashes_rotated: "rt_tokenHash ` set (rotated_tokens E mt record s) = rt_tokenHash ` set (a_tokens s)"
  unfolding rotated_tokens_def set_upd_where image_image by (rule image_cong) simp_all

lemma next_token_simps [simp]:
  "rt_sessionId (next_token E mt record s) = rt_sessionId record"
  "rt_userId (next_token E mt record s) = rt_userId record"
  "rt_tokenFamilyId (next_token E mt record s) = rt_tokenFamilyId record"
  "rt_previousTokenId (next_token E mt record s) = Some (rt_id record)"
  "rt_tokenHash (next_token E mt record s) = ae_hash E (ae_token E s)"
  "rt_expiresAt (next_token E mt record s) = rt_expiresAt record"
  "live_token (next_token E mt record s)"
  by (simp_all add: next_token_def new_token_def live_token_def)

lemma rotate_run:
  assumes "find (\<lambda>t. rt_id t = rt_id record) (a_tokens s) = Some x"
    and "find (\<lambda>r. se_id r = rt_sessionId record) (a_sessions s) = Some r"
  shows "rotate_token E mt record s =
    (if ae_hash E (ae_token E s) \<in> rt_tokenHash ` set (a_tokens s) then (Inl PrismaP2002, s)
     else (Inr (ae_token E s),
       s\<lparr>a_tokens := rotated_tokens E mt record s @ [next_token E mt record s],
         a_sessions := upd_where (\<lambda>r. se_id r = rt_sessionId record) (seen_row (ae_now E s) mt) (a_sessions s)\<rparr>))"
proof -
  define s1 where "s1 = s\<lparr>a_tokens := rotated_tokens E mt record s\<rparr>"
  define row where "row = new_token E mt (rt_sessionId record) (rt_userId record) (rt_tokenFamilyId record)
     (Some (rt_id record)) (ae_token E s) (rt_expiresAt record)"
  have used: "token_update (rt_id record) (used_row (ae_now E s) mt) s = (Inr (used_row (ae_now E s) mt x), s1)"
    by (simp add: token_update_run assms(1) s1_def rotated_tokens_def)
  have hash: "rt_tokenHash row = ae_hash E (ae_token E s)" by (simp add: row_def new_token_def)
  have create: "token_create E row s1 =
      (if ae_hash E (ae_token E s) \<in> rt_tokenHash ` set (a_tokens s) then (Inl PrismaP2002, s1)
       else (Inr (next_token E mt record s), s1\<lparr>a_tokens := a_tokens s1 @ [next_token E mt record s]\<rparr>))"
    unfolding token_create_run hash by (simp add: s1_def hashes_rotated next_token_def row_def)
  show ?thesis
    by (simp add: rotate_token_def bind_io_def seq_io_def gets_def transaction_def auth_clock_def used create
        flip: row_def)
       (simp add: session_update_run assms(2) s1_def ret_def)
qed

lemma ok_rotate:
  assumes "fresh_rows E" and "sessions_ok s" and "record \<in> set (a_tokens s)" and "live_token record"
    and "r \<in> set (a_sessions s)" and "se_id r = rt_sessionId record"
    and "find (\<lambda>r. se_id r = rt_sessionId record) (a_sessions s) = Some r"
  shows "sessions_ok (snd (rotate_token E mt record s))"
proof -
  define s1 where "s1 = s\<lparr>a_tokens := rotated_tokens E mt record s\<rparr>"
  have ok1: "sessions_ok s1" unfolding s1_def rotated_tokens_def by (rule ok_retire_tokens [OF assms(2)]) simp
  obtain q where q: "q \<in> set (a_sessions s)" "se_id q = rt_sessionId record" "se_userId q = rt_userId record"
      "session_active q" "rt_tokenFamilyId record = rt_sessionId record"
    using assms(2-4) unfolding sessions_ok_def tokens_ok_def by blast
  have dead: "\<not> live_token t" if "t \<in> set (a_tokens s1)" "rt_sessionId t = rt_sessionId record" for t
  proof
    assume l: "live_token t"
    then have t: "t \<in> set (a_tokens s)" "rt_id t \<noteq> rt_id record"
      using that(1) by (auto simp: s1_def rotated_tokens_def set_upd_where split: if_splits)
    have "t = record"
      using assms(2) t(1) assms(3) l assms(4) that(2) unfolding sessions_ok_def single_live_def by blast
    with t(2) show False by simp
  qed
  have "sessions_ok (s1\<lparr>a_tokens := a_tokens s1 @ [next_token E mt record s]\<rparr>)"
    if "ae_hash E (ae_token E s) \<notin> rt_tokenHash ` set (a_tokens s)"
  proof (rule ok_token_add [OF ok1])
    show "rt_id (next_token E mt record s) \<notin> rt_id ` set (a_tokens s1)"
      using assms(1) [unfolded fresh_rows_def, rule_format, of s1] by (simp add: next_token_def s1_def)
    show "rt_tokenHash (next_token E mt record s) \<notin> rt_tokenHash ` set (a_tokens s1)"
      using that by (simp add: s1_def hashes_rotated)
  qed (use q dead in \<open>simp_all add: s1_def\<close>)
  from ok_session_update [OF this, where f = "seen_row (ae_now E s) mt"]
  show ?thesis
    using assms(2) ok_token_row(1) [OF assms(2,3)] assms(7) by (simp add: rotate_run s1_def)
qed

lemma ok_refresh:
  assumes "fresh_rows E" and "sessions_ok s"
  shows "sessions_ok (snd (refreshSession E raw mt s))"
proof (cases "find_token E raw s")
  case None
  with assms(2) show ?thesis by (simp add: refreshSession_def bind_gets refresh_with_def throw_def)
next
  case (Some p)
  obtain rec r where p: "p = (rec, r)" by (cases p)
  note found = token_found [OF Some [unfolded p]]
  have rot: "sessions_ok (snd (rotate_token E mt rec s))" if "live_token rec"
    by (rule ok_rotate [OF assms found(1) that found(3,4,5)])
  have "sessions_ok (snd (bind_io (rotate_token E mt rec) (\<lambda>raw.
      bind_io (refreshCurrentSession E (rt_sessionId rec)) (\<lambda>en. ret (en\<lparr>en_refreshToken := raw\<rparr>))) s))"
    if "live_token rec"
  proof -
    have "keeps keep_ok (bind_io (refreshCurrentSession E (rt_sessionId rec))
        (\<lambda>en. ret (en\<lparr>en_refreshToken := raw\<rparr>)))" for raw
      by (intro ok.r_intros keeps_current)
    with rot [OF that] show ?thesis by (rule ok_then)
  qed
  moreover have "sessions_ok (snd (seq_io (handleRefreshTokenReuse E rec) (throw e) s))" for e
    using keepsD [OF ok.r_seq [OF keeps_reuse ok.r_throw], of s E rec e] assms(2) by (simp add: keep_ok_def)
  ultimately show ?thesis using assms(2)
    by (auto simp: refreshSession_def bind_gets refresh_with_def Some p bind_io_def [of "auth_clock E"]
        auth_clock_def gets_def throw_def live_token_def)
qed

lemma keeps_createSession: "fresh_rows E \<Longrightarrow> keeps keep_ok (createSession E userId mt opts)"
  by (rule ok_keeps) (rule ok_createSession)

lemma keeps_refresh: "fresh_rows E \<Longrightarrow> keeps keep_ok (refreshSession E raw mt)"
  by (rule ok_keeps) (rule ok_refresh)

lemma keeps_session_ends:
  "keeps keep_ok (revokeSession E userId sid)" "keeps keep_ok (revokeAllSessions E userId except)"
  unfolding revokeSession_def revokeAllSessions_def by (intro ok.r_intros keeps_revoke)+

lemma keeps_selectWorkspace: "keeps keep_ok (selectWorkspace E userId sid org ws)"
  unfolding selectWorkspace_def
  by (intro ok.r_intros keeps_context keeps_current keeps_session_update) (simp add: session_active_def)

lemma keeps_getSession: "fresh_rows E \<Longrightarrow> keeps keep_ok (getSession E access refresh mt)"
  unfolding getSession_def
  by (intro ok.r_intros keeps_context keeps_refresh ok_writes frame_ok [OF frame_envelope])

lemmas keeps_sessions = keeps_createSession keeps_refresh keeps_session_ends keeps_selectWorkspace
  keeps_getSession keeps_current

section \<open>Ended sessions\<close>

text \<open>
  Sessions are never deleted, never change their user and never become active again. An ended
  session serves no context and none of its tokens refreshes it.
\<close>

definition sessions_last :: "auth \<Rightarrow> auth \<Rightarrow> bool" where
  "sessions_last s t \<longleftrightarrow>
     (\<forall>r\<in>set (a_sessions s). \<exists>r'\<in>set (a_sessions t). se_id r' = se_id r \<and> se_userId r' = se_userId r
        \<and> (session_active r' \<longrightarrow> session_active r))"

definition ended :: "auth \<Rightarrow> string \<Rightarrow> bool" where
  "ended s sid \<longleftrightarrow> (\<exists>r\<in>set (a_sessions s). se_id r = sid \<and> \<not> session_active r)"

definition session_refused :: "auth_env \<Rightarrow> auth \<Rightarrow> string \<Rightarrow> bool" where
  "session_refused E s sid \<longleftrightarrow>
     (\<forall>force provider cx. fst (getSessionContext E sid force provider s) \<noteq> Inr cx)
     \<and> (\<forall>raw mt rec r en. find_token E raw s = Some (rec, r) \<longrightarrow> rt_sessionId rec = sid
          \<longrightarrow> fst (refreshSession E raw mt s) \<noteq> Inr en)"

interpretation lasting: step_order sessions_last
proof
  show "sessions_last s s" for s by (auto simp: sessions_last_def)
  show "sessions_last s u" if "sessions_last s t" "sessions_last t u" for s t u
    using that unfolding sessions_last_def by (metis (no_types, lifting))
qed

lemma last_same: "a_sessions t = a_sessions s \<Longrightarrow> sessions_last s t"
  by (auto simp: sessions_last_def)

lemma last_frame: "keeps same_sessions m \<Longrightarrow> keeps sessions_last m"
  by (auto simp: keeps_def same_sessions_def intro: last_same)

lemma last_upd:
  assumes "\<And>r. se_id (f r) = se_id r \<and> se_userId (f r) = se_userId r \<and> (session_active (f r) \<longrightarrow> session_active r)"
    and "a_sessions t = upd_where P f (a_sessions s)"
  shows "sessions_last s t"
  unfolding sessions_last_def assms(2) set_upd_where using assms(1) by auto

lemmas last_writes = frame_writes [THEN last_frame]

lemma last_revoke: "keeps sessions_last (revokeSessionInternal E sid reason)"
  by (rule keepsI, rule last_upd [where f = "revoke_session_row (ae_now E s) reason" for s])
     (simp_all add: revoke_run)

lemma last_session_update:
  assumes "\<And>r. se_id (f r) = se_id r \<and> se_userId (f r) = se_userId r \<and> session_active (f r) = session_active r"
  shows "keeps sessions_last (session_update i f)"
proof (rule keepsI)
  show "sessions_last s (snd (session_update i f s))" for s
    using assms last_upd [of f _ "\<lambda>r. se_id r = i" s]
    by (auto simp: session_update_run intro: last_same split: option.split)
qed

lemma last_tokens:
  "keeps sessions_last (token_updateMany P g)" "keeps sessions_last (token_update i g)"
  "keeps sessions_last (token_create E row)" "keeps sessions_last (cache_set E cx)"
  by (auto simp: keeps_def token_updateMany_def token_update_run token_create_run cache_set_def io_simps
      auth_clock_def Let_def intro!: last_same split: option.split)

lemma last_context:
  "keeps sessions_last (getSessionContext E sid force provider)"
  "keeps sessions_last (refreshCurrentSession E sid)"
proof -
  show *: "keeps sessions_last (getSessionContext E sid force provider)" for force provider
    unfolding getSessionContext_def load_context_def getSessionRecord_def
    by (intro lasting.r_intros last_writes last_revoke last_tokens)
  show "keeps sessions_last (refreshCurrentSession E sid)"
    unfolding refreshCurrentSession_def by (intro lasting.r_intros * last_frame [OF frame_envelope])
qed

lemma last_session_create: "keeps sessions_last (session_create E row)"
  by (auto simp: keeps_def session_create_def sessions_last_def Let_def)

lemma last_createSession: "keeps sessions_last (createSession E userId mt opts)"
  unfolding createSession_def
  by (intro lasting.r_intros last_session_create last_tokens last_writes last_context
      last_frame [OF frame_envelope])

lemma last_refresh: "keeps sessions_last (refreshSession E raw mt)"
  unfolding refreshSession_def refresh_with_def handleRefreshTokenReuse_def rotate_token_def
  by (intro lasting.r_intros last_tokens last_writes last_context last_revoke last_session_update
      keeps_transaction lasting.R_refl) simp

lemma last_ends:
  "keeps sessions_last (revokeSession E userId sid)" "keeps sessions_last (revokeAllSessions E userId except)"
  unfolding revokeSession_def revokeAllSessions_def by (intro lasting.r_intros last_revoke)+

lemma last_selectWorkspace: "keeps sessions_last (selectWorkspace E userId sid org ws)"
  unfolding selectWorkspace_def
  by (intro lasting.r_intros last_context last_session_update) (simp add: session_active_def)

lemma last_getSession: "keeps sessions_last (getSession E access refresh mt)"
  unfolding getSession_def
  by (intro lasting.r_intros last_context last_refresh last_writes last_frame [OF frame_envelope])

lemmas last_sessions = last_createSession last_refresh last_ends last_selectWorkspace last_getSession
  last_context

lemma ended_last: "sessions_last s t \<Longrightarrow> ended s sid \<Longrightarrow> ended t sid"
  unfolding sessions_last_def ended_def by (metis (no_types, lifting))

lemma revoke_ends:
  assumes "sid \<in> se_id ` set (a_sessions s)"
  shows "ended (snd (revokeSessionInternal E sid reason s)) sid"
proof -
  obtain r where r: "r \<in> set (a_sessions s)" "se_id r = sid" using assms by auto
  let ?f = "\<lambda>r. if se_id r = sid \<and> se_revokedAt r = None then revoke_session_row (ae_now E s) reason r else r"
  have "?f r \<in> set (a_sessions (snd (revokeSessionInternal E sid reason s)))"
    unfolding revoke_run using r(1) by (simp add: set_upd_where)
  moreover have "se_id (?f r) = sid" and "\<not> session_active (?f r)"
    using r(2) by (simp_all add: session_active_def revoke_session_row_def)
  ultimately show ?thesis unfolding ended_def by blast
qed

lemma session_row_unique:
  "sessions_ok s \<Longrightarrow> r \<in> set (a_sessions s) \<Longrightarrow> q \<in> set (a_sessions s) \<Longrightarrow> se_id r = se_id q \<Longrightarrow> r = q"
  by (auto simp: sessions_ok_def session_ids_ok_def distinct_map inj_on_def)

text \<open>Only an active session of the context's user is served, from the cache or from the table.\<close>

lemma served_active:
  assumes "sessions_ok s" and "getSessionContext E sid force provider s = (Inr cx, t)"
  shows "cx_sessionId cx = sid"
    and "\<exists>r\<in>set (a_sessions s). se_id r = sid \<and> se_userId r = cx_userId cx \<and> session_active r"
proof -
  have "cx_sessionId cx = sid
    \<and> (\<exists>r\<in>set (a_sessions s). se_id r = sid \<and> se_userId r = cx_userId cx \<and> session_active r)"
  proof (cases "force \<or> live (ae_now E s) (a_cache s) sid = None")
    case True
    then have l: "load_context E sid provider s = (Inr cx, t)"
      using assms(2) by (auto simp: getSessionContext_def cache_get_def io_simps split: if_splits)
    obtain found where f: "getSessionRecord sid s = (Inr found, s)"
      by (simp add: getSessionRecord_def io_simps)
    then obtain r u where ru: "found = Some (r, u)"
      using l by (cases found) (auto simp: load_context_def io_simps)
    note row = record_found [OF f [unfolded ru]]
    have "session_active r \<and> cx_sessionId cx = se_id r \<and> cx_userId cx = us_id u"
      using l unfolding load_context_def bind_io_def f ru
      by (auto simp: throw_def seq_io_def bind_io_def auth_clock_def gets_def revoke_run cache_set_def
          modify_def ret_def Let_def buildContextFromRecord_def split: if_splits)
    with row(2-4) show ?thesis by auto
  next
    case False
    then have "live (ae_now E s) (a_cache s) sid = Some cx"
      using assms(2) by (auto simp: getSessionContext_def cache_get_def io_simps)
    from live_in [OF this] obtain e where "(sid, cx, e) \<in> set (a_cache s)" ..
    with assms(1) show ?thesis unfolding sessions_ok_def cache_ok_def by blast
  qed
  then show "cx_sessionId cx = sid"
    and "\<exists>r\<in>set (a_sessions s). se_id r = sid \<and> se_userId r = cx_userId cx \<and> session_active r"
    by auto
qed

lemma reuse_run:
  "fst (handleRefreshTokenReuse E rec s) = Inr ()"
  by (simp add: handleRefreshTokenReuse_def auth_clock_def io_simps token_updateMany_def revoke_run logAudit_def)

lemma refresh_run:
  assumes "find_token E raw s = Some (rec, r)"
  shows "refreshSession E raw mt s =
    (if \<not> live_token rec \<or> rt_expiresAt rec \<le> ae_now E s
     then (Inl (UnauthorizedException ''Invalid refresh token''), snd (handleRefreshTokenReuse E rec s))
     else if \<not> session_active r \<or> se_expiresAt r \<le> ae_now E s
     then (Inl (UnauthorizedException ''Session has expired''), s)
     else bind_io (rotate_token E mt rec) (\<lambda>raw.
       bind_io (refreshCurrentSession E (rt_sessionId rec)) (\<lambda>en. ret (en\<lparr>en_refreshToken := raw\<rparr>))) s)"
proof -
  obtain t where "handleRefreshTokenReuse E rec s = (Inr (), t)"
    using reuse_run by (metis prod.collapse)
  then show ?thesis
    unfolding refreshSession_def bind_gets assms refresh_with_def option.case prod.case auth_clock_def
    by (simp add: live_token_def seq_io_def throw_def bind_io_def [of "handleRefreshTokenReuse E rec"])
qed

lemma refreshed_active:
  assumes "refreshSession E raw mt s = (Inr en, t)"
  obtains rec r where "find_token E raw s = Some (rec, r)" and "live_token rec" and "ae_now E s < rt_expiresAt rec"
    and "session_active r" and "ae_now E s < se_expiresAt r"
proof (cases "find_token E raw s")
  case None
  with assms show ?thesis by (simp add: refreshSession_def bind_gets refresh_with_def throw_def)
next
  case (Some p)
  then obtain rec r where f: "find_token E raw s = Some (rec, r)" by (cases p) simp
  with assms show ?thesis using that by (auto simp: refresh_run split: if_splits)
qed

lemma ended_refused:
  assumes "sessions_ok s" and "ended s sid"
  shows "session_refused E s sid"
proof -
  have inactive: "\<not> session_active q" if "q \<in> set (a_sessions s)" "se_id q = sid" for q
    using assms session_row_unique that unfolding ended_def by metis
  have "fst (getSessionContext E sid force provider s) \<noteq> Inr cx" for force provider cx
    using served_active(2) [OF assms(1)] inactive by (metis prod.collapse)
  moreover have "fst (refreshSession E raw mt s) \<noteq> Inr en"
    if "find_token E raw s = Some (rec, r)" "rt_sessionId rec = sid" for raw mt rec r en
  proof
    assume "fst (refreshSession E raw mt s) = Inr en"
    then obtain t where "refreshSession E raw mt s = (Inr en, t)" by (metis prod.collapse)
    then obtain rec' r' where "find_token E raw s = Some (rec', r')" and a: "session_active r'"
      by (rule refreshed_active)
    with that(1) have "r' = r" by simp
    with a inactive token_found(3,4) [OF that(1)] that(2) show False by auto
  qed
  ultimately show ?thesis by (simp add: session_refused_def)
qed

section \<open>A sample state\<close>

definition row_ids :: "auth \<Rightarrow> string list" where
  "row_ids s = map se_id (a_sessions s) @ map rt_id (a_tokens s)"

definition demo_env :: auth_env where
  "demo_env =
     \<lparr>ae_now = (\<lambda>_. 1000), ae_newid = (\<lambda>s. replicate (Suc (sum_list (map length (row_ids s)))) (CHR ''i'')),
      ae_token = (\<lambda>s. replicate (Suc (sum_list (map (length \<circ> rt_tokenHash) (a_tokens s)))) (CHR ''k'')),
      ae_random = (\<lambda>_. 23456), ae_secret = (\<lambda>_. replicate 20 0),
      ae_backup = (\<lambda>_ n. js_nat_str n), ae_hash = (\<lambda>x. x), ae_argon_hash = (\<lambda>_ x. x),
      ae_argon_verify = (\<lambda>h x. h = x), ae_encrypt = (\<lambda>_ x. x), ae_decrypt = Some,
      ae_hmac = (\<lambda>_ _. replicate 20 0), ae_sign = ac_sub, ae_verify = (\<lambda>_ _. None),
      ae_mail = (\<lambda>_ _. None), ae_var = (\<lambda>_. None), ae_number = (\<lambda>_. None),
      ae_google_tokens = (\<lambda>_ _. None), ae_google_profile = (\<lambda>_ _. None)\<rparr>"

lemma demo_simps:
  "ae_now demo_env s = 1000" "ae_hash demo_env x = x" "ae_argon_hash demo_env s x = x"
  "ae_newid demo_env s = replicate (Suc (sum_list (map length (row_ids s)))) (CHR ''i'')"
  "ae_token demo_env s = replicate (Suc (sum_list (map (length \<circ> rt_tokenHash) (a_tokens s)))) (CHR ''k'')"
  "ae_argon_verify demo_env h x = (h = x)" "ae_var demo_env v = None" "setting demo_env v d = d"
  "ae_encrypt demo_env s x = x" "ae_decrypt demo_env x = Some x" "ae_random demo_env s = 23456"
  "ae_secret demo_env s = replicate 20 0"
  by (simp_all add: demo_env_def setting_def)

definition empty_auth :: auth where
  "empty_auth = \<lparr>a_users = [], a_creds = [], a_sessions = [], a_tokens = [], a_otps = [], a_links = [],
     a_verifications = [], a_resets = [], a_secrets = [], a_backups = [], a_attempts = [], a_audit = [],
     a_oauth = [], a_orgMembers = [], a_wsMembers = [], a_rates = [], a_cache = [], a_states = [], a_mails = []\<rparr>"

definition sample_meta :: request_meta where
  "sample_meta = \<lparr>mt_ipAddress = None, mt_ipHash = None, mt_userAgent = None, mt_deviceId = None,
     mt_deviceName = None, mt_deviceFingerprint = None\<rparr>"

definition sample_options :: session_options where
  "sample_options = \<lparr>so_rememberMe = False, so_currentOrganizationId = None, so_currentWorkspaceId = None,
     so_authProvider = ByLocal\<rparr>"

definition sample_account :: user_row where
  "sample_account = \<lparr>us_id = ''u1'', us_email = ''ann@desk.io'', us_emailVerifiedAt = Some 1, us_firstName = None,
     us_lastName = None, us_avatarUrl = None, us_language = None, us_status = Some ''ACTIVE'', us_lastLoginAt = None\<rparr>"

definition sample_session :: auth_session where
  "sample_session = (new_session demo_env 1000 ''u1'' sample_meta sample_options)\<lparr>se_id := ''s1''\<rparr>"

definition sample_token :: refresh_token where
  "sample_token = (new_token demo_env sample_meta ''s1'' ''u1'' ''s1'' None ''raw'' 605000)\<lparr>rt_id := ''t1''\<rparr>"

definition sample_auth :: auth where
  "sample_auth = empty_auth\<lparr>a_users := [sample_account], a_sessions := [sample_session], a_tokens := [sample_token]\<rparr>"

lemmas sample_auth_defs = sample_auth_def empty_auth_def sample_account_def sample_session_def sample_token_def
  new_session_def new_token_def sample_meta_def sample_options_def

lemma length_in_sum: "x \<in> set xs \<Longrightarrow> length x \<le> sum_list (map length (xs :: string list))"
  by (intro member_le_sum_list) auto

lemma fresh_rows_sample: "fresh_rows demo_env"
proof -
  have "ae_newid demo_env s \<notin> set (row_ids s)" for s
    using length_in_sum [of "ae_newid demo_env s" "row_ids s"] by (auto simp: demo_env_def)
  then show ?thesis by (simp add: fresh_rows_def row_ids_def)
qed

lemma fresh_token_sample: "ae_hash demo_env (ae_token demo_env s) \<notin> rt_tokenHash ` set (a_tokens s)"
  using length_in_sum [of "ae_token demo_env s" "map rt_tokenHash (a_tokens s)"] by (auto simp: demo_env_def)

lemma sessions_ok_sample: "sessions_ok empty_auth" "sessions_ok sample_auth"
  by (simp_all add: sessions_defs sample_auth_defs Let_def session_active_def)

end
