(* ===== verification/Auth_TwoFactor.thy ===== *)
theory Auth_TwoFactor
  imports Auth_Sessions
begin

text \<open>
  Two-factor authentication (\<^verbatim>\<open>auth.service.ts\<close>, from \<^verbatim>\<open>startTotpSetup\<close> to
  \<^verbatim>\<open>regenerateBackupCodes\<close>, and \<^verbatim>\<open>verifyTwoFactorChallenge\<close>). A user has at most one secret;
  it counts at sign-in while it is enabled and not disabled. Backup codes are hashed and used once.
\<close>

section \<open>Rows\<close>

definition secret_of :: "auth \<Rightarrow> string \<Rightarrow> totp_row option" where
  "secret_of s userId = find (\<lambda>r. tf_userId r = userId) (a_secrets s)"

definition secret_update :: "(totp_row \<Rightarrow> bool) \<Rightarrow> (totp_row \<Rightarrow> totp_row) \<Rightarrow> totp_row authed" where
  "secret_update = row_update a_secrets (\<lambda>x. a_secrets_update (\<lambda>_. x))"

definition backup_update :: "string \<Rightarrow> (backup_row \<Rightarrow> backup_row) \<Rightarrow> backup_row authed" where
  "backup_update i = row_update a_backups (\<lambda>x. a_backups_update (\<lambda>_. x)) (\<lambda>r. bk_id r = i)"

definition backup_deleteMany :: "string \<Rightarrow> unit authed" where
  "backup_deleteMany userId = modify (\<lambda>s. s\<lparr>a_backups := filter (\<lambda>r. bk_userId r \<noteq> userId) (a_backups s)\<rparr>)"

text \<open>The code hash is unique over all users.\<close>

definition backup_create :: "auth_env \<Rightarrow> backup_row \<Rightarrow> unit authed" where
  "backup_create E row s =
     (if bk_codeHash row \<in> bk_codeHash ` set (a_backups s) then (Inl PrismaP2002, s)
      else (Inr (), s\<lparr>a_backups := a_backups s @ [row\<lparr>bk_id := ae_newid E s\<rparr>]\<rparr>))"

definition backup_createMany :: "auth_env \<Rightarrow> string \<Rightarrow> string \<Rightarrow> string list \<Rightarrow> unit authed" where
  "backup_createMany E userId secretId codes =
     for_io (\<lambda>c. backup_create E \<lparr>bk_id = [], bk_userId = userId, bk_twoFactorSecretId = secretId,
       bk_codeHash = ae_hash E c, bk_consumedAt = None\<rparr>) codes"

definition BACKUP_CODE_COUNT :: nat where
  "BACKUP_CODE_COUNT = 8"

definition generateBackupCodes :: "auth_env \<Rightarrow> auth \<Rightarrow> string list" where
  "generateBackupCodes E s = map (\<lambda>n. js_upper (ae_backup E s n)) [0..<BACKUP_CODE_COUNT]"

text \<open>The cipher's own error for a payload that does not authenticate.\<close>

definition decrypt :: "auth_env \<Rightarrow> string \<Rightarrow> string authed" where
  "decrypt E payload =
     (case ae_decrypt E payload of
        Some secret \<Rightarrow> ret secret
      | None \<Rightarrow> throw (PlainError ''Unsupported state or unable to authenticate data''))"

definition check_code :: "auth_env \<Rightarrow> string \<Rightarrow> string \<Rightarrow> bool authed" where
  "check_code E secret code =
     bind_io (auth_clock E) (\<lambda>now.
       case verifyCode (ae_hmac E) now secret code 1 of Inl e \<Rightarrow> throw e | Inr ok \<Rightarrow> ret ok)"

section \<open>The challenge\<close>

definition totp_challenge :: "auth_env \<Rightarrow> string \<Rightarrow> string \<Rightarrow> string option \<Rightarrow> bool authed" where
  "totp_challenge E userId encryptedSecret code =
     (if js_truthy code then
        bind_io (decrypt E encryptedSecret) (\<lambda>secret.
          bind_io (check_code E secret (the code)) (\<lambda>ok.
            if ok then
              bind_io (auth_clock E) (\<lambda>now.
                seq_io (secret_update (\<lambda>r. tf_userId r = userId) (\<lambda>r. r\<lparr>tf_lastUsedAt := Some now\<rparr>))
                  (ret True))
            else ret False))
      else ret False)"

definition backup_hash :: "auth_env \<Rightarrow> string \<Rightarrow> string" where
  "backup_hash E code = ae_hash E (js_upper (filter (\<lambda>c. \<not> js_space c) code))"

definition backup_challenge :: "auth_env \<Rightarrow> string \<Rightarrow> string option \<Rightarrow> bool authed" where
  "backup_challenge E userId backupCode =
     (if js_truthy backupCode then
        bind_io (gets (\<lambda>s. find (\<lambda>r. bk_userId r = userId \<and> bk_codeHash r = backup_hash E (the backupCode)
            \<and> bk_consumedAt r = None) (a_backups s))) (\<lambda>found.
          case found of
            None \<Rightarrow> ret False
          | Some r \<Rightarrow>
              bind_io (auth_clock E) (\<lambda>now.
                seq_io (backup_update (bk_id r) (\<lambda>r. r\<lparr>bk_consumedAt := Some now\<rparr>)) (ret True)))
      else ret False)"

definition verifyTwoFactorChallenge ::
  "auth_env \<Rightarrow> string \<Rightarrow> string \<Rightarrow> string option \<Rightarrow> string option \<Rightarrow> bool authed" where
  "verifyTwoFactorChallenge E userId encryptedSecret code backupCode =
     bind_io (totp_challenge E userId encryptedSecret code) (\<lambda>passed.
       if passed then ret True else backup_challenge E userId backupCode)"

section \<open>Setup\<close>

definition startTotpSetup :: "auth_env \<Rightarrow> string \<Rightarrow> string authed" where
  "startTotpSetup E userId =
     bind_io (gets (\<lambda>s. find (\<lambda>u. us_id u = userId) (a_users s))) (\<lambda>found.
       case found of
         None \<Rightarrow> throw (BadRequestException ''User not found'')
       | Some u \<Rightarrow>
           bind_io (gets (\<lambda>s. toBase32 (ae_secret E s))) (\<lambda>secret.
             bind_io (gets (\<lambda>s. ae_encrypt E s secret)) (\<lambda>encrypted.
               bind_io (gets (\<lambda>s. secret_of s userId)) (\<lambda>existing.
                 seq_io
                   (case existing of
                      Some _ \<Rightarrow>
                        seq_io (secret_update (\<lambda>r. tf_userId r = userId) (\<lambda>r. r\<lparr>tf_secretEncrypted := encrypted,
                          tf_disabledAt := None, tf_confirmedAt := None, tf_enabledAt := None\<rparr>)) (ret ())
                    | None \<Rightarrow>
                        modify (\<lambda>s. s\<lparr>a_secrets := a_secrets s @
                          [\<lparr>tf_id = ae_newid E s, tf_userId = userId, tf_secretEncrypted = encrypted,
                            tf_label = Some (us_email u), tf_confirmedAt = None, tf_enabledAt = None,
                            tf_disabledAt = None, tf_lastUsedAt = None\<rparr>]\<rparr>))
                   (ret secret)))))"

definition replace_backup_codes :: "auth_env \<Rightarrow> string \<Rightarrow> string \<Rightarrow> string list \<Rightarrow> unit authed" where
  "replace_backup_codes E userId secretId codes =
     seq_io (backup_deleteMany userId) (backup_createMany E userId secretId codes)"

definition enableTotp :: "auth_env \<Rightarrow> string \<Rightarrow> string \<Rightarrow> string list authed" where
  "enableTotp E userId code =
     bind_io (gets (\<lambda>s. secret_of s userId)) (\<lambda>found.
       case found of
         None \<Rightarrow> throw (BadRequestException ''TOTP has not been set up'')
       | Some secret \<Rightarrow>
           bind_io (decrypt E (tf_secretEncrypted secret)) (\<lambda>decrypted.
             bind_io (check_code E decrypted code) (\<lambda>ok.
               if \<not> ok then throw (UnauthorizedException ''Invalid authenticator code'')
               else bind_io (gets (generateBackupCodes E)) (\<lambda>codes.
                 seq_io
                   (transaction (bind_io (auth_clock E) (\<lambda>now.
                      seq_io (secret_update (\<lambda>r. tf_id r = tf_id secret) (\<lambda>r. r\<lparr>tf_confirmedAt := Some now,
                          tf_enabledAt := Some now, tf_disabledAt := None, tf_lastUsedAt := Some now\<rparr>))
                        (replace_backup_codes E userId (tf_id secret) codes))))
                   (seq_io (logAudit TWO_FACTOR_ENABLED (Some userId) None) (ret codes))))))"

definition disableTotp :: "auth_env \<Rightarrow> string \<Rightarrow> string option \<Rightarrow> string option \<Rightarrow> unit authed" where
  "disableTotp E userId code backupCode =
     bind_io (gets (\<lambda>s. secret_of s userId)) (\<lambda>found.
       case found of
         None \<Rightarrow> ret ()
       | Some secret \<Rightarrow>
           if tf_enabledAt secret = None then ret ()
           else bind_io (verifyTwoFactorChallenge E userId (tf_secretEncrypted secret) code backupCode) (\<lambda>verified.
             if \<not> verified then throw (UnauthorizedException ''Invalid authenticator challenge'')
             else seq_io
               (transaction (bind_io (auth_clock E) (\<lambda>now.
                  seq_io (secret_update (\<lambda>r. tf_id r = tf_id secret) (\<lambda>r. r\<lparr>tf_disabledAt := Some now\<rparr>))
                    (backup_deleteMany userId))))
               (logAudit TWO_FACTOR_DISABLED (Some userId) None)))"

definition regenerateBackupCodes :: "auth_env \<Rightarrow> string \<Rightarrow> string list authed" where
  "regenerateBackupCodes E userId =
     bind_io (gets (\<lambda>s. secret_of s userId)) (\<lambda>found.
       if (case found of None \<Rightarrow> True | Some secret \<Rightarrow> tf_enabledAt secret = None) then
         throw (BadRequestException ''Two-factor authentication is not enabled'')
       else bind_io (gets (generateBackupCodes E)) (\<lambda>codes.
         seq_io (transaction (replace_backup_codes E userId (tf_id (the found)) codes))
           (seq_io (logAudit BACKUP_CODES_REGENERATED (Some userId) None) (ret codes))))"

section \<open>Frames\<close>

lemma frame_two_factor_rows:
  "keeps same_sessions (secret_update P f)" "keeps same_sessions (backup_update i g)"
  "keeps same_sessions (backup_deleteMany userId)" "keeps same_sessions (backup_createMany E userId sid codes)"
  unfolding backup_createMany_def
  by (auto simp: secret_update_def backup_update_def backup_deleteMany_def same_sessions_def backup_create_def
      keeps_def modify_def split: if_splits
      intro!: frame_row_update [unfolded keeps_def same_sessions_def, rule_format]
        frame.r_for [unfolded keeps_def same_sessions_def, rule_format])

lemma frame_challenge: "keeps same_sessions (verifyTwoFactorChallenge E userId enc code backup)"
  unfolding verifyTwoFactorChallenge_def totp_challenge_def backup_challenge_def decrypt_def check_code_def
  by (intro frame.r_intros frame_writes frame_two_factor_rows) (auto intro: frame.r_intros split: sum.splits)

lemma frame_two_factor:
  "keeps same_sessions (startTotpSetup E userId)" "keeps same_sessions (enableTotp E userId code)"
  "keeps same_sessions (disableTotp E userId c bc)" "keeps same_sessions (regenerateBackupCodes E userId)"
proof -
  have check: "keeps same_sessions (check_code E secret code)" for secret code
    unfolding check_code_def
    by (intro frame.r_intros frame_writes) (auto intro: frame.r_intros split: sum.splits)
  have add: "keeps same_sessions (modify (\<lambda>s. s\<lparr>a_secrets := f s\<rparr>))" for f
    by (simp add: keeps_def modify_def same_sessions_def)
  note rules = frame.r_intros frame_writes frame_two_factor_rows frame_challenge check add
    keeps_transaction [of same_sessions, OF frame.R_refl]
  show "keeps same_sessions (startTotpSetup E userId)"
    unfolding startTotpSetup_def by (intro rules)
  show "keeps same_sessions (enableTotp E userId code)"
    unfolding enableTotp_def replace_backup_codes_def decrypt_def by (intro rules)
  show "keeps same_sessions (disableTotp E userId c bc)"
    unfolding disableTotp_def by (intro rules)
  show "keeps same_sessions (regenerateBackupCodes E userId)"
    unfolding regenerateBackupCodes_def replace_backup_codes_def by (intro rules)
qed

section \<open>What the challenge accepts\<close>

text \<open>The two ways through the challenge, and what each of them leaves behind.\<close>

definition totp_accepts :: "auth_env \<Rightarrow> int \<Rightarrow> string \<Rightarrow> string option \<Rightarrow> bool" where
  "totp_accepts E now encryptedSecret code \<longleftrightarrow>
     js_truthy code \<and> (\<exists>secret. ae_decrypt E encryptedSecret = Some secret
       \<and> verifyCode (ae_hmac E) now secret (the code) 1 = Inr True)"

definition unused_backup :: "auth_env \<Rightarrow> auth \<Rightarrow> string \<Rightarrow> string option \<Rightarrow> bool" where
  "unused_backup E s userId backupCode \<longleftrightarrow>
     js_truthy backupCode \<and> list_ex (\<lambda>r. bk_userId r = userId \<and> bk_codeHash r = backup_hash E (the backupCode)
       \<and> bk_consumedAt r = None) (a_backups s)"

lemma totp_challenge_result:
  assumes "totp_challenge E userId enc code s = (Inr b, t)"
  shows "b = totp_accepts E (ae_now E s) enc code" and "a_backups t = a_backups s"
    and "\<not> b \<Longrightarrow> t = s"
  using assms unfolding totp_challenge_def decrypt_def check_code_def totp_accepts_def secret_update_def row_update_def
  by (auto simp: io_simps auth_clock_def split: if_splits option.splits sum.splits prod.splits)

lemma backup_challenge_result:
  assumes "backup_challenge E userId backup s = (Inr b, t)" and "distinct (map bk_codeHash (a_backups s))"
    and "distinct (map bk_id (a_backups s))"
  shows "b = unused_backup E s userId backup"
    and "b \<Longrightarrow> \<not> unused_backup E t userId backup"
proof -
  let ?P = "\<lambda>r. bk_userId r = userId \<and> bk_codeHash r = backup_hash E (the backup) \<and> bk_consumedAt r = None"
  have "b = unused_backup E s userId backup \<and> (b \<longrightarrow> \<not> unused_backup E t userId backup)"
  proof (cases "js_truthy backup")
    case False
    with assms(1) show ?thesis by (simp add: backup_challenge_def unused_backup_def ret_def)
  next
    case True
    show ?thesis
    proof (cases "find ?P (a_backups s)")
      case None
      with assms(1) True show ?thesis
        by (auto simp: backup_challenge_def unused_backup_def io_simps list_ex_iff find_None_iff)
    next
      case (Some r)
      then have r: "r \<in> set (a_backups s)" "?P r" by (auto dest: find_Some_in)
      have "find (\<lambda>x. bk_id x = bk_id r) (a_backups s) = Some r"
        by (rule find_unique_key [OF assms(3) r(1)])
      then have t: "b" "a_backups t = upd_where (\<lambda>x. bk_id x = bk_id r)
          (\<lambda>x. x\<lparr>bk_consumedAt := Some (ae_now E s)\<rparr>) (a_backups s)"
        using assms(1) Some True
        by (auto simp: backup_challenge_def io_simps auth_clock_def backup_update_def row_update_def)
      have "bk_id x = bk_id r" if "x \<in> set (a_backups s)" "bk_codeHash x = backup_hash E (the backup)" for x
        using that r assms(2) by (auto simp: distinct_map inj_on_def)
      then have "\<not> list_ex ?P (a_backups t)"
        unfolding t(2) list_ex_iff set_upd_where by (auto split: if_splits)
      moreover have "list_ex ?P (a_backups s)" using r by (auto simp: list_ex_iff)
      ultimately show ?thesis using True t(1) by (simp add: unused_backup_def)
    qed
  qed
  then show "b = unused_backup E s userId backup" and "b \<Longrightarrow> \<not> unused_backup E t userId backup" by auto
qed

end
