(* ===== verification/Auth_Login.thy ===== *)
theory Auth_Login
  imports Auth_TwoFactor
begin

text \<open>
  The ways into a session (\<^verbatim>\<open>auth.service.ts\<close>): password, one-time code, magic link or
  invitation, and Google; with sign-up, the issue of verification and reset codes, and the change
  of a password. \<^verbatim>\<open>auth-password.service.ts\<close> and \<^verbatim>\<open>auth-mail.service.ts\<close> are included; the
  analytics call of \<^verbatim>\<open>signUp\<close> is not, nor is the text of the mails.
\<close>

section \<open>Requests\<close>

datatype header_value = HeaderString string | HeaderList "string list"

record http_request =
  hr_forwardedFor :: "header_value option"
  hr_ip :: "string option"
  hr_userAgent :: "header_value option"
  hr_deviceId :: "header_value option"
  hr_deviceName :: "header_value option"
  hr_deviceFingerprint :: "header_value option"
  hr_acceptLanguage :: "string option"

definition header_string :: "header_value option \<Rightarrow> string option" where
  "header_string h = (case h of Some (HeaderString v) \<Rightarrow> Some v | _ \<Rightarrow> None)"

definition buildRequestMeta :: "auth_env \<Rightarrow> http_request \<Rightarrow> request_meta" where
  "buildRequestMeta E q =
     (let ipAddress = (case hr_forwardedFor q of
            Some (HeaderList []) \<Rightarrow> None
          | Some (HeaderList (v # _)) \<Rightarrow> Some v
          | Some (HeaderString v) \<Rightarrow> Some (js_trim (hd (js_split (CHR '','') v)))
          | None \<Rightarrow> hr_ip q);
          userAgent = header_string (hr_userAgent q)
      in \<lparr>mt_ipAddress = ipAddress,
          mt_ipHash = (if js_truthy ipAddress then Some (ae_hash E (the ipAddress)) else None),
          mt_userAgent = userAgent, mt_deviceId = header_string (hr_deviceId q),
          mt_deviceName = header_string (hr_deviceName q),
          mt_deviceFingerprint =
            (case header_string (hr_deviceFingerprint q) of
               Some v \<Rightarrow> Some v
             | None \<Rightarrow> Some (js_join ''|'' [js_default userAgent ''unknown'', js_default (hr_acceptLanguage q) ''unknown'']))\<rparr>)"

section \<open>Passwords\<close>

definition char_between :: "char \<Rightarrow> char \<Rightarrow> char \<Rightarrow> bool" where
  "char_between a b c = ((of_char a :: nat) \<le> of_char c \<and> (of_char c :: nat) \<le> of_char b)"

definition is_upper :: "char \<Rightarrow> bool" where
  "is_upper = char_between (CHR ''A'') (CHR ''Z'')"

definition is_lower :: "char \<Rightarrow> bool" where
  "is_lower = char_between (CHR ''a'') (CHR ''z'')"

definition assertPasswordPolicy :: "auth_env \<Rightarrow> string \<Rightarrow> unit authed" where
  "assertPasswordPolicy E password =
     (if int (length password) < setting E ''AUTH_PASSWORD_MIN_LENGTH'' 12 then
        throw (BadRequestException (''Password must be at least '' @
          js_default (ae_var E ''AUTH_PASSWORD_MIN_LENGTH'') ''12'' @ '' characters''))
      else if \<not> list_ex is_upper password then
        throw (BadRequestException ''Password must contain at least one uppercase letter'')
      else if \<not> list_ex is_lower password then
        throw (BadRequestException ''Password must contain at least one lowercase letter'')
      else if \<not> list_ex js_digit password then
        throw (BadRequestException ''Password must contain at least one number'')
      else if \<not> list_ex (\<lambda>c. \<not> is_upper c \<and> \<not> is_lower c \<and> \<not> js_digit c) password then
        throw (BadRequestException ''Password must contain at least one symbol'')
      else ret ())"

definition hashPassword :: "auth_env \<Rightarrow> string \<Rightarrow> string authed" where
  "hashPassword E password = seq_io (assertPasswordPolicy E password) (gets (\<lambda>s. ae_argon_hash E s password))"

definition credential_of :: "auth \<Rightarrow> string \<Rightarrow> credential option" where
  "credential_of s userId = find (\<lambda>c. cd_userId c = userId) (a_creds s)"

definition set_password_row :: "int \<Rightarrow> string \<Rightarrow> credential \<Rightarrow> credential" where
  "set_password_row now hash c =
     c\<lparr>cd_passwordHash := Some hash, cd_passwordUpdatedAt := Some now, cd_mustRotatePassword := False,
       cd_failedPasswordAttempts := 0, cd_lockedUntil := None\<rparr>"

text \<open>The credential of a user is created or replaced by the same statement.\<close>

definition cred_upsert :: "auth_env \<Rightarrow> string \<Rightarrow> string \<Rightarrow> unit authed" where
  "cred_upsert E userId hash =
     bind_io (auth_clock E) (\<lambda>now.
       modify (\<lambda>s. case credential_of s userId of
           Some _ \<Rightarrow> s\<lparr>a_creds := upd_where (\<lambda>c. cd_userId c = userId) (set_password_row now hash) (a_creds s)\<rparr>
         | None \<Rightarrow> s\<lparr>a_creds := a_creds s @
             [\<lparr>cd_id = ae_newid E s, cd_userId = userId, cd_passwordHash = Some hash,
               cd_passwordUpdatedAt = Some now, cd_mustRotatePassword = False,
               cd_failedPasswordAttempts = 0, cd_lockedUntil = None\<rparr>]\<rparr>))"

section \<open>Mail\<close>

definition env_first :: "auth_env \<Rightarrow> string list \<Rightarrow> string option" where
  "env_first E names = foldr (\<lambda>n rest. js_nullish (ae_var E n) rest) names None"

definition mail_configured :: "auth_env \<Rightarrow> bool" where
  "mail_configured E \<longleftrightarrow>
     js_truthy (env_first E [''AUTH_SMTP_HOST'', ''NOTIFICATIONS_SMTP_HOST'', ''SMTP_HOST''])
     \<and> js_truthy (env_first E [''AUTH_SMTP_USER'', ''NOTIFICATIONS_SMTP_USER'', ''SMTP_USER''])
     \<and> js_truthy (env_first E [''AUTH_SMTP_PASS'', ''NOTIFICATIONS_SMTP_PASS'', ''SMTP_PASS''])
     \<and> js_truthy (env_first E [''AUTH_FROM_EMAIL'', ''NOTIFICATIONS_FROM_EMAIL'', ''SMTP_FROM_EMAIL'', ''SMTP_USER''])"

text \<open>Without a configured transport the mail is skipped and the caller goes on.\<close>

definition sendMail :: "auth_env \<Rightarrow> mail \<Rightarrow> unit authed" where
  "sendMail E m =
     (if \<not> mail_configured E then ret ()
      else bind_io (gets (\<lambda>s. ae_mail E s m)) (\<lambda>failure.
        case failure of
          Some e \<Rightarrow> throw e
        | None \<Rightarrow> modify (\<lambda>s. s\<lparr>a_mails := a_mails s @ [m]\<rparr>)))"

section \<open>Users, codes and links\<close>

definition user_by_email :: "auth \<Rightarrow> string \<Rightarrow> user_row option" where
  "user_by_email s email = find (\<lambda>u. us_email u = email) (a_users s)"

definition user_create :: "auth_env \<Rightarrow> user_row \<Rightarrow> user_row authed" where
  "user_create E row s =
     (if us_email row \<in> us_email ` set (a_users s) then (Inl PrismaP2002, s)
      else (Inr (row\<lparr>us_id := ae_newid E s\<rparr>), s\<lparr>a_users := a_users s @ [row\<lparr>us_id := ae_newid E s\<rparr>]\<rparr>))"

definition blank_user :: "string \<Rightarrow> string \<Rightarrow> user_row" where
  "blank_user email status =
     \<lparr>us_id = [], us_email = email, us_emailVerifiedAt = None, us_firstName = None, us_lastName = None,
      us_avatarUrl = None, us_language = None, us_status = Some status, us_lastLoginAt = None\<rparr>"

definition otp_create :: "auth_env \<Rightarrow> string \<Rightarrow> string \<Rightarrow> token_purpose \<Rightarrow> string \<Rightarrow> unit authed" where
  "otp_create E userId email purpose code =
     bind_io (auth_clock E) (\<lambda>now.
       modify (\<lambda>s. s\<lparr>a_otps := a_otps s @
         [\<lparr>ot_id = ae_newid E s, ot_userId = Some userId, ot_email = email, ot_purpose = purpose,
           ot_codeHash = ae_hash E code, ot_expiresAt = addMinutes now (setting E ''AUTH_OTP_TTL_MINUTES'' 10),
           ot_consumedAt = None, ot_attemptCount = 0, ot_maxAttempts = 5, ot_createdAt = now\<rparr>]\<rparr>))"

definition link_create :: "auth_env \<Rightarrow> link_row \<Rightarrow> unit authed" where
  "link_create E row s =
     (if ml_tokenHash row \<in> ml_tokenHash ` set (a_links s) then (Inl PrismaP2002, s)
      else (Inr (), s\<lparr>a_links := a_links s @ [row\<lparr>ml_id := ae_newid E s\<rparr>]\<rparr>))"

definition frontendBaseUrl :: "auth_env \<Rightarrow> string" where
  "frontendBaseUrl E = js_default (env_first E [''AUTH_FRONTEND_BASE_URL'', ''FRONTEND_URL'']) ''http://localhost:5173''"

definition new_link ::
  "auth_env \<Rightarrow> string \<Rightarrow> string \<Rightarrow> token_purpose \<Rightarrow> string \<Rightarrow> string \<Rightarrow> int \<Rightarrow> link_row" where
  "new_link E userId email purpose raw redirect expiry =
     \<lparr>ml_id = [], ml_userId = Some userId, ml_email = email, ml_tokenHash = ae_hash E raw, ml_purpose = purpose,
      ml_organizationId = None, ml_workspaceId = None, ml_redirectUri = Some redirect, ml_expiresAt = expiry,
      ml_consumedAt = None\<rparr>"

definition new_mirror :: "auth_env \<Rightarrow> auth \<Rightarrow> string \<Rightarrow> string \<Rightarrow> string \<Rightarrow> int \<Rightarrow> mirror_row" where
  "new_mirror E s userId email raw expiry =
     \<lparr>mi_id = ae_newid E s, mi_userId = userId, mi_email = email, mi_tokenHash = ae_hash E raw,
      mi_expiresAt = expiry, mi_consumedAt = None\<rparr>"

definition verification_create :: "auth_env \<Rightarrow> string \<Rightarrow> string \<Rightarrow> string \<Rightarrow> int \<Rightarrow> unit authed" where
  "verification_create E userId email raw expiry s =
     (if ae_hash E raw \<in> mi_tokenHash ` set (a_verifications s) then (Inl PrismaP2002, s)
      else (Inr (), s\<lparr>a_verifications := a_verifications s @ [new_mirror E s userId email raw expiry]\<rparr>))"

definition reset_create :: "auth_env \<Rightarrow> string \<Rightarrow> string \<Rightarrow> string \<Rightarrow> int \<Rightarrow> unit authed" where
  "reset_create E userId email raw expiry s =
     (if ae_hash E raw \<in> mi_tokenHash ` set (a_resets s) then (Inl PrismaP2002, s)
      else (Inr (), s\<lparr>a_resets := a_resets s @ [new_mirror E s userId email raw expiry]\<rparr>))"

definition issueEmailVerification :: "auth_env \<Rightarrow> string \<Rightarrow> string \<Rightarrow> unit authed" where
  "issueEmailVerification E userId email =
     bind_io (gets (ae_token E)) (\<lambda>raw.
       bind_io (gets (generateOtpCode E)) (\<lambda>code.
         seq_io
           (transaction (bind_io (auth_clock E) (\<lambda>now.
              let expiry = addMinutes now (setting E ''AUTH_EMAIL_VERIFICATION_TTL_MINUTES'' 15)
              in seq_io (verification_create E userId email raw expiry)
                   (seq_io (link_create E (new_link E userId email EMAIL_VERIFICATION raw
                        (frontendBaseUrl E @ ''/inbox'') expiry))
                      (otp_create E userId email EMAIL_OTP_VERIFY code)))))
           (seq_io (sendMail E (MailVerification email code raw))
              (logAudit EMAIL_VERIFICATION_SENT (Some userId) None))))"

definition issuePasswordReset :: "auth_env \<Rightarrow> string \<Rightarrow> string \<Rightarrow> unit authed" where
  "issuePasswordReset E userId email =
     bind_io (gets (ae_token E)) (\<lambda>raw.
       bind_io (gets (generateOtpCode E)) (\<lambda>code.
         seq_io
           (transaction (bind_io (auth_clock E) (\<lambda>now.
              let expiry = addMinutes now (setting E ''AUTH_PASSWORD_RESET_TTL_MINUTES'' 30)
              in seq_io (reset_create E userId email raw expiry)
                   (seq_io (link_create E (new_link E userId email PASSWORD_RESET raw
                        (frontendBaseUrl E @ ''/auth/reset-password'') expiry))
                      (otp_create E userId email EMAIL_OTP_RESET code)))))
           (seq_io (sendMail E (MailReset email code raw))
              (logAudit PASSWORD_RESET_REQUESTED (Some userId) None))))"

section \<open>Sign-up and sign-in\<close>

record sign_up_dto =
  su_name :: "string option"
  su_firstName :: "string option"
  su_lastName :: "string option"
  su_email :: string
  su_password :: string

text \<open>\<^verbatim>\<open>s.trim().split(/\s+/).filter(Boolean)\<close>\<close>

definition js_words :: "string \<Rightarrow> string list" where
  "js_words s = filter (\<lambda>w. w \<noteq> []) (js_split (CHR '' '') (map (\<lambda>c. if js_space c then CHR '' '' else c) s))"

text \<open>The first word of the name is taken only when there is no first name of its own.\<close>

definition signup_names :: "sign_up_dto \<Rightarrow> string option \<times> string option" where
  "signup_names dto =
     (let parts = js_words (js_default (su_name dto) []);
          given = map_option js_trim (su_firstName dto);
          (first, rest) = (if js_truthy given then (given, parts)
                           else case parts of [] \<Rightarrow> (None, []) | w # ws \<Rightarrow> (Some w, ws));
          joined = js_join '' '' rest
      in (first, js_or (map_option js_trim (su_lastName dto)) (if joined = [] then None else Some joined)))"

definition with_names :: "string option \<times> string option \<Rightarrow> user_row \<Rightarrow> user_row" where
  "with_names names u =
     u\<lparr>us_firstName := js_nullish (fst names) (us_firstName u), us_lastName := js_nullish (snd names) (us_lastName u)\<rparr>"

definition signUp :: "auth_env \<Rightarrow> sign_up_dto \<Rightarrow> request_meta \<Rightarrow> string authed" where
  "signUp E dto mt =
     (let email = normalizeEmail (su_email dto)
      in bind_io (gets (\<lambda>s. user_by_email s email)) (\<lambda>existing.
        bind_io (gets (\<lambda>s. case existing of None \<Rightarrow> False
            | Some u \<Rightarrow> us_emailVerifiedAt u \<noteq> None
                \<and> list_ex (\<lambda>c. cd_userId c = us_id u \<and> js_truthy (cd_passwordHash c)) (a_creds s))) (\<lambda>taken.
          if taken then throw (ConflictException ''An account with this email already exists'')
          else bind_io
            (case existing of
               Some u \<Rightarrow> user_update (us_id u) (\<lambda>r. with_names (signup_names dto)
                 (r\<lparr>us_status := Some (js_default (us_status u) ''PENDING'')\<rparr>))
             | None \<Rightarrow> user_create E (with_names (signup_names dto) (blank_user email ''PENDING''))) (\<lambda>user.
               bind_io (hashPassword E (su_password dto)) (\<lambda>hash.
                 seq_io (cred_upsert E (us_id user) hash)
                   (seq_io (issueEmailVerification E (us_id user) email)
                      (seq_io (logAudit SIGN_UP (Some (us_id user)) None) (ret email))))))))"

record sign_in_dto =
  si_email :: string
  si_password :: string
  si_rememberMe :: bool
  si_totpCode :: "string option"
  si_backupCode :: "string option"
  si_currentWorkspaceId :: "string option"
  si_currentOrganizationId :: "string option"

definition login_key :: "string \<Rightarrow> request_meta \<Rightarrow> string" where
  "login_key email mt = ''login:'' @ email @ '':'' @ js_default (mt_ipHash mt) ''unknown''"

text \<open>The first enabled-or-pending secret of the user that is not disabled, as the query includes it.\<close>

definition signin_secret :: "auth \<Rightarrow> string \<Rightarrow> totp_row option" where
  "signin_secret s userId = find (\<lambda>r. tf_userId r = userId \<and> tf_disabledAt r = None) (a_secrets s)"

definition failed_row :: "int \<Rightarrow> credential \<Rightarrow> credential \<Rightarrow> credential" where
  "failed_row now seen c =
     c\<lparr>cd_failedPasswordAttempts := Suc (cd_failedPasswordAttempts c),
       cd_lockedUntil := (if 10 \<le> cd_failedPasswordAttempts seen + 1 then Some (addMinutes now 15) else cd_lockedUntil c)\<rparr>"

text \<open>After the password: the email must be verified and the second factor passed.\<close>

definition signin_challenge ::
  "auth_env \<Rightarrow> sign_in_dto \<Rightarrow> request_meta \<Rightarrow> string \<Rightarrow> user_row \<Rightarrow> totp_row option \<Rightarrow> envelope authed" where
  "signin_challenge E dto mt email user secret =
     (if us_emailVerifiedAt user = None then
        seq_io (issueEmailVerification E (us_id user) email)
          (throw (ForbiddenException ''Email verification required''))
      else bind_io
        (case secret of
           Some r \<Rightarrow> (if tf_enabledAt r \<noteq> None then verifyTwoFactorChallenge E (us_id user) (tf_secretEncrypted r)
                        (si_totpCode dto) (si_backupCode dto) else ret True)
         | None \<Rightarrow> ret True) (\<lambda>passed.
           if \<not> passed then
             seq_io (recordLoginAttempt email (Some (us_id user)) AttemptChallengeRequired ''two-factor-required'')
               (throw (UnauthorizedException ''Two-factor authentication required''))
           else
             seq_io (recordLoginAttempt email (Some (us_id user)) AttemptSuccess ''password-login'')
               (seq_io (clear (login_key email mt))
                  (createSession E (us_id user) mt
                     \<lparr>so_rememberMe = si_rememberMe dto, so_currentOrganizationId = si_currentOrganizationId dto,
                      so_currentWorkspaceId = si_currentWorkspaceId dto, so_authProvider = ByLocal\<rparr>))))"

definition signin_password ::
  "auth_env \<Rightarrow> sign_in_dto \<Rightarrow> request_meta \<Rightarrow> string \<Rightarrow> user_row \<Rightarrow> credential \<Rightarrow> totp_row option \<Rightarrow> envelope authed" where
  "signin_password E dto mt email user cred secret =
     bind_io (auth_clock E) (\<lambda>now.
       if (case cd_lockedUntil cred of None \<Rightarrow> False | Some until \<Rightarrow> now < until) then
         seq_io (recordLoginAttempt email (Some (us_id user)) AttemptLocked ''credential-locked'')
           (throw (UnauthorizedException ''Invalid email or password''))
       else if \<not> ae_argon_verify E (the (cd_passwordHash cred)) (si_password dto) then
         seq_io (cred_update (\<lambda>c. cd_id c = cd_id cred) (failed_row now cred))
           (seq_io (recordLoginAttempt email (Some (us_id user)) AttemptFailure ''invalid-password'')
              (throw (UnauthorizedException ''Invalid email or password'')))
       else
         seq_io (cred_update (\<lambda>c. cd_id c = cd_id cred) (\<lambda>c. c\<lparr>cd_failedPasswordAttempts := 0, cd_lockedUntil := None\<rparr>))
           (signin_challenge E dto mt email user secret))"

definition signIn :: "auth_env \<Rightarrow> sign_in_dto \<Rightarrow> request_meta \<Rightarrow> envelope authed" where
  "signIn E dto mt =
     (let email = normalizeEmail (si_email dto)
      in bind_io (consume E (login_key email mt) (setting E ''AUTH_LOGIN_RATE_LIMIT_MAX_ATTEMPTS'' 10)
            (setting E ''AUTH_LOGIN_RATE_LIMIT_WINDOW_SECONDS'' (15 * 60))) (\<lambda>throttle.
        if \<not> rr_allowed throttle then
          seq_io (recordLoginAttempt email None AttemptLocked ''rate-limit'')
            (throw (UnauthorizedException ''Too many login attempts. Try again later''))
        else bind_io (gets (\<lambda>s. user_by_email s email)) (\<lambda>user.
          bind_io (gets (\<lambda>s. case user of None \<Rightarrow> None | Some u \<Rightarrow> credential_of s (us_id u))) (\<lambda>cred.
            bind_io (gets (\<lambda>s. case user of None \<Rightarrow> None | Some u \<Rightarrow> signin_secret s (us_id u))) (\<lambda>secret.
              case (user, cred) of
                (Some u, Some c) \<Rightarrow>
                  if js_truthy (cd_passwordHash c) then signin_password E dto mt email u c secret
                  else seq_io (recordLoginAttempt email (Some (us_id u)) AttemptFailure ''missing-credential'')
                         (throw (UnauthorizedException ''Invalid email or password''))
              | _ \<Rightarrow> seq_io (recordLoginAttempt email (map_option us_id user) AttemptFailure ''missing-credential'')
                       (throw (UnauthorizedException ''Invalid email or password'')))))))"

section \<open>One-time codes\<close>

definition requestPasswordReset :: "auth_env \<Rightarrow> string \<Rightarrow> request_meta \<Rightarrow> unit authed" where
  "requestPasswordReset E address mt =
     (let email = normalizeEmail address
      in bind_io (gets (\<lambda>s. user_by_email s email)) (\<lambda>found.
        case found of None \<Rightarrow> ret () | Some u \<Rightarrow> issuePasswordReset E (us_id u) email))"

definition otp_key :: "string \<Rightarrow> request_meta \<Rightarrow> string" where
  "otp_key email mt = ''otp:'' @ email @ '':'' @ js_default (mt_ipHash mt) ''unknown''"

definition requestEmailLoginOtp :: "auth_env \<Rightarrow> string \<Rightarrow> request_meta \<Rightarrow> unit authed" where
  "requestEmailLoginOtp E address mt =
     (let email = normalizeEmail address
      in bind_io (consume E (otp_key email mt) (setting E ''AUTH_OTP_RATE_LIMIT_MAX_ATTEMPTS'' 5)
            (setting E ''AUTH_OTP_RATE_LIMIT_WINDOW_SECONDS'' (10 * 60))) (\<lambda>throttle.
        if \<not> rr_allowed throttle then throw (UnauthorizedException ''Too many requests. Try again later'')
        else bind_io (gets (\<lambda>s. user_by_email s email)) (\<lambda>found.
          case found of
            None \<Rightarrow> ret ()
          | Some u \<Rightarrow>
              bind_io (gets (generateOtpCode E)) (\<lambda>code.
                seq_io (otp_create E (us_id u) email EMAIL_OTP_LOGIN code)
                  (seq_io (sendMail E (MailOtp email code))
                     (logAudit OTP_SENT (Some (us_id u)) None))))))"

datatype otp_flow = FlowSignup | FlowForgotPassword | FlowLogin

fun flow_purpose :: "otp_flow \<Rightarrow> token_purpose" where
  "flow_purpose FlowSignup = EMAIL_OTP_VERIFY"
| "flow_purpose FlowForgotPassword = EMAIL_OTP_RESET"
| "flow_purpose FlowLogin = EMAIL_OTP_LOGIN"

text \<open>The newest row; of rows created in the same millisecond, the one inserted last.\<close>

definition newest :: "otp_row list \<Rightarrow> otp_row option" where
  "newest rows = foldl (\<lambda>best r. case best of
       None \<Rightarrow> Some r
     | Some b \<Rightarrow> if ot_createdAt b \<le> ot_createdAt r then Some r else Some b) None rows"

definition current_otp :: "string \<Rightarrow> otp_flow \<Rightarrow> auth \<Rightarrow> otp_row option" where
  "current_otp email flow s =
     newest (filter (\<lambda>r. ot_email r = email \<and> ot_purpose r = flow_purpose flow \<and> ot_consumedAt r = None) (a_otps s))"

definition otp_update :: "string \<Rightarrow> (otp_row \<Rightarrow> otp_row) \<Rightarrow> otp_row authed" where
  "otp_update i = row_update a_otps (\<lambda>x. a_otps_update (\<lambda>_. x)) (\<lambda>r. ot_id r = i)"

definition otp_session :: "auth_env \<Rightarrow> otp_flow \<Rightarrow> request_meta \<Rightarrow> string \<Rightarrow> envelope authed" where
  "otp_session E flow mt email =
     bind_io (gets (\<lambda>s. user_by_email s email)) (\<lambda>found.
       case found of
         None \<Rightarrow> throw (UnauthorizedException ''Invalid or expired code'')
       | Some u \<Rightarrow>
           seq_io
             (if flow = FlowSignup then
                bind_io (auth_clock E) (\<lambda>now.
                  seq_io (user_update (us_id u) (\<lambda>r. r\<lparr>us_emailVerifiedAt := Some now, us_status := Some ''ACTIVE''\<rparr>))
                    (logAudit EMAIL_VERIFIED (Some (us_id u)) None))
              else ret ())
             (createSession E (us_id u) mt
                \<lparr>so_rememberMe = True, so_currentOrganizationId = None, so_currentWorkspaceId = None,
                 so_authProvider = (if flow = FlowLogin then ByOtp else ByLocal)\<rparr>))"

definition verifyOtp :: "auth_env \<Rightarrow> string \<Rightarrow> string \<Rightarrow> otp_flow \<Rightarrow> request_meta \<Rightarrow> envelope authed" where
  "verifyOtp E address code flow mt =
     (let email = normalizeEmail address
      in bind_io (gets (current_otp email flow)) (\<lambda>otp.
        bind_io (auth_clock E) (\<lambda>now.
          case otp of
            None \<Rightarrow> throw (UnauthorizedException ''Invalid or expired code'')
          | Some r \<Rightarrow>
              if ot_expiresAt r \<le> now then throw (UnauthorizedException ''Invalid or expired code'')
              else if ot_maxAttempts r \<le> ot_attemptCount r then throw (UnauthorizedException ''Invalid or expired code'')
              else if ot_codeHash r \<noteq> ae_hash E code then
                seq_io (otp_update (ot_id r) (\<lambda>r. r\<lparr>ot_attemptCount := Suc (ot_attemptCount r)\<rparr>))
                  (throw (UnauthorizedException ''Invalid or expired code''))
              else
                seq_io (otp_update (ot_id r) (\<lambda>r. r\<lparr>ot_consumedAt := Some now, ot_attemptCount := Suc (ot_attemptCount r)\<rparr>))
                  (otp_session E flow mt email))))"

definition resendCode :: "auth_env \<Rightarrow> string \<Rightarrow> otp_flow \<Rightarrow> request_meta \<Rightarrow> unit authed" where
  "resendCode E address flow mt =
     (if flow = FlowSignup then
        bind_io (gets (\<lambda>s. user_by_email s (normalizeEmail address))) (\<lambda>found.
          case found of None \<Rightarrow> ret () | Some u \<Rightarrow> issueEmailVerification E (us_id u) (normalizeEmail address))
      else requestPasswordReset E address mt)"

section \<open>Changing the password\<close>

definition resetPassword :: "auth_env \<Rightarrow> string \<Rightarrow> string \<Rightarrow> string option \<Rightarrow> envelope option authed" where
  "resetPassword E userId newPassword currentSessionId =
     bind_io (hashPassword E newPassword) (\<lambda>hash.
       seq_io (cred_upsert E userId hash)
         (bind_io (auth_clock E) (\<lambda>now.
            seq_io (user_update userId (\<lambda>u. u\<lparr>us_emailVerifiedAt := Some now, us_status := Some ''ACTIVE''\<rparr>))
              (seq_io (revokeAllSessions E userId currentSessionId)
                 (if js_truthy currentSessionId then
                    bind_io (refreshCurrentSession E (the currentSessionId)) (\<lambda>en. ret (Some en))
                  else ret None)))))"

definition changePassword ::
  "auth_env \<Rightarrow> string \<Rightarrow> string \<Rightarrow> string \<Rightarrow> string \<Rightarrow> envelope option authed" where
  "changePassword E userId currentPassword newPassword currentSessionId =
     bind_io (gets (\<lambda>s. credential_of s userId)) (\<lambda>found.
       case found of
         None \<Rightarrow> throw (BadRequestException ''Password authentication is not configured for this user'')
       | Some c \<Rightarrow>
           if \<not> js_truthy (cd_passwordHash c) then
             throw (BadRequestException ''Password authentication is not configured for this user'')
           else if \<not> ae_argon_verify E (the (cd_passwordHash c)) currentPassword then
             throw (UnauthorizedException ''Current password is incorrect'')
           else resetPassword E userId newPassword (Some currentSessionId))"

section \<open>Magic links and invitations\<close>

definition requestMagicLink ::
  "auth_env \<Rightarrow> string \<Rightarrow> string option \<Rightarrow> string option \<Rightarrow> request_meta \<Rightarrow> unit authed" where
  "requestMagicLink E address redirectTo purpose mt =
     (let email = normalizeEmail address
      in bind_io (gets (\<lambda>s. user_by_email s email)) (\<lambda>found.
        case found of
          None \<Rightarrow> ret ()
        | Some u \<Rightarrow>
            bind_io (gets (ae_token E)) (\<lambda>raw.
              bind_io (auth_clock E) (\<lambda>now.
                seq_io
                  (link_create E (new_link E (us_id u) email
                     (if purpose = Some ''invite'' then TEAM_INVITE else MAGIC_LINK_LOGIN) raw
                     (js_default redirectTo (frontendBaseUrl E @ ''/inbox''))
                     (addMinutes now (setting E ''AUTH_MAGIC_LINK_TTL_MINUTES'' 15))))
                  (seq_io (sendMail E (MailMagicLink email raw))
                     (logAudit MAGIC_LINK_SENT (Some (us_id u)) None))))))"

definition link_update :: "string \<Rightarrow> (link_row \<Rightarrow> link_row) \<Rightarrow> link_row authed" where
  "link_update i = row_update a_links (\<lambda>x. a_links_update (\<lambda>_. x)) (\<lambda>r. ml_id r = i)"

definition consume_mirror :: "int \<Rightarrow> string \<Rightarrow> string \<Rightarrow> mirror_row list \<Rightarrow> mirror_row list" where
  "consume_mirror now userId hash =
     upd_where (\<lambda>r. mi_userId r = userId \<and> mi_tokenHash r = hash \<and> mi_consumedAt r = None)
       (\<lambda>r. r\<lparr>mi_consumedAt := Some now\<rparr>)"

definition link_user :: "auth \<Rightarrow> link_row \<Rightarrow> user_row option" where
  "link_user s r =
     js_nullish (case ml_userId r of None \<Rightarrow> None | Some i \<Rightarrow> find (\<lambda>u. us_id u = i) (a_users s))
       (user_by_email s (ml_email r))"

fun link_event :: "token_purpose \<Rightarrow> audit_event" where
  "link_event TEAM_INVITE = TEAM_INVITE_ACCEPTED"
| "link_event EMAIL_VERIFICATION = EMAIL_VERIFIED"
| "link_event _ = MAGIC_LINK_CONSUMED"

fun link_flow :: "token_purpose \<Rightarrow> string" where
  "link_flow TEAM_INVITE = ''invite''"
| "link_flow PASSWORD_RESET = ''password-reset''"
| "link_flow EMAIL_VERIFICATION = ''verify-email''"
| "link_flow _ = ''magic-link''"

definition consume_writes :: "auth_env \<Rightarrow> link_row \<Rightarrow> user_row \<Rightarrow> unit authed" where
  "consume_writes E r u =
     bind_io (auth_clock E) (\<lambda>now.
       seq_io (if ml_consumedAt r = None then seq_io (link_update (ml_id r) (\<lambda>r. r\<lparr>ml_consumedAt := Some now\<rparr>)) (ret ())
               else ret ())
         (seq_io (if ml_purpose r = EMAIL_VERIFICATION then
              modify (\<lambda>s. s\<lparr>a_verifications := consume_mirror now (us_id u) (ml_tokenHash r) (a_verifications s)\<rparr>)
            else ret ())
           (seq_io (if ml_purpose r = PASSWORD_RESET then
                modify (\<lambda>s. s\<lparr>a_resets := consume_mirror now (us_id u) (ml_tokenHash r) (a_resets s)\<rparr>)
              else ret ())
             (seq_io (user_update (us_id u) (\<lambda>x. x\<lparr>us_emailVerifiedAt := Some (js_default (us_emailVerifiedAt u) now),
                  us_status := (if us_status u = Some ''PENDING'' \<or> us_status u = Some ''INVITED''
                                then Some ''ACTIVE'' else us_status u)\<rparr>))
               (if ml_purpose r \<noteq> TEAM_INVITE \<or> ml_consumedAt r = None
                then logAudit (link_event (ml_purpose r)) (Some (us_id u)) None else ret ())))))"

record link_result =
  lr_envelope :: envelope
  lr_redirectTo :: string
  lr_flow :: string

definition consumeMagicLink :: "auth_env \<Rightarrow> string \<Rightarrow> request_meta \<Rightarrow> link_result authed" where
  "consumeMagicLink E raw mt =
     bind_io (gets (\<lambda>s. find (\<lambda>r. ml_tokenHash r = ae_hash E raw) (a_links s))) (\<lambda>found.
       bind_io (auth_clock E) (\<lambda>now.
         case found of
           None \<Rightarrow> throw (UnauthorizedException ''Invalid or expired magic link'')
         | Some r \<Rightarrow>
             if ml_expiresAt r \<le> now then throw (UnauthorizedException ''Invalid or expired magic link'')
             else if ml_purpose r \<noteq> TEAM_INVITE \<and> ml_consumedAt r \<noteq> None then
               throw (UnauthorizedException ''Invalid or expired magic link'')
             else bind_io (gets (\<lambda>s. link_user s r)) (\<lambda>user.
               case user of
                 None \<Rightarrow> throw (UnauthorizedException ''Invalid or expired magic link'')
               | Some u \<Rightarrow>
                   seq_io (consume_writes E r u)
                     (bind_io (createSession E (us_id u) mt
                        \<lparr>so_rememberMe = True, so_currentOrganizationId = ml_organizationId r,
                         so_currentWorkspaceId = ml_workspaceId r,
                         so_authProvider = (if ml_purpose r = TEAM_INVITE then ByInvite else ByMagicLink)\<rparr>) (\<lambda>en.
                       ret \<lparr>lr_envelope = en,
                            lr_redirectTo = js_default (ml_redirectUri r) (frontendBaseUrl E @ ''/inbox''),
                            lr_flow = link_flow (ml_purpose r)\<rparr>)))))"

text \<open>The role snapshot of an invitation is stored and not read again.\<close>

definition inviteUser ::
  "auth_env \<Rightarrow> string \<Rightarrow> string option \<Rightarrow> string option \<Rightarrow> string option \<Rightarrow> unit authed" where
  "inviteUser E address organizationId workspaceId redirectTo =
     (let email = normalizeEmail address
      in bind_io (gets (\<lambda>s. user_by_email s email)) (\<lambda>found.
        bind_io (case found of Some u \<Rightarrow> ret u | None \<Rightarrow> user_create E (blank_user email ''INVITED'')) (\<lambda>user.
          bind_io (gets (ae_token E)) (\<lambda>raw.
            bind_io (auth_clock E) (\<lambda>now.
              seq_io
                (link_create E ((new_link E (us_id user) email TEAM_INVITE raw
                   (js_default redirectTo (frontendBaseUrl E @ ''/auth/set-password''))
                   (addMinutes now (setting E ''AUTH_INVITE_TTL_MINUTES'' 15)))
                     \<lparr>ml_organizationId := organizationId, ml_workspaceId := workspaceId\<rparr>))
                (seq_io (sendMail E (MailInvite email raw))
                   (logAudit TEAM_INVITE_SENT (Some (us_id user)) None)))))))"

section \<open>Google\<close>

definition state_key :: "string \<Rightarrow> string" where
  "state_key st = ''auth:google:state:'' @ st"

definition startGoogleOAuth :: "auth_env \<Rightarrow> string option \<Rightarrow> string authed" where
  "startGoogleOAuth E redirectTo =
     bind_io (gets (ae_token E)) (\<lambda>st.
       bind_io (auth_clock E) (\<lambda>now.
         seq_io (modify (\<lambda>s. s\<lparr>a_states := (state_key st, js_default redirectTo (frontendBaseUrl E @ ''/inbox''),
             addSeconds now (setting E ''AUTH_GOOGLE_STATE_TTL_SECONDS'' (10 * 60))) # drop_key (state_key st) (a_states s)\<rparr>))
           (ret st)))"

definition google_user :: "auth_env \<Rightarrow> google_profile \<Rightarrow> user_row authed" where
  "google_user E profile =
     (let email = normalizeEmail (gp_email profile)
      in bind_io (gets (\<lambda>s. user_by_email s email)) (\<lambda>found.
        bind_io (auth_clock E) (\<lambda>now.
          let verified = (if gp_email_verified profile then Some now else None)
          in case found of
               None \<Rightarrow> user_create E ((blank_user email ''ACTIVE'')\<lparr>
                 us_firstName := Some (js_default (js_nullish (gp_given_name profile) (gp_name profile))
                   (hd (js_split (CHR ''@'') email))),
                 us_lastName := gp_family_name profile, us_avatarUrl := gp_picture profile,
                 us_emailVerifiedAt := verified\<rparr>)
             | Some u \<Rightarrow> user_update (us_id u) (\<lambda>x. x\<lparr>
                 us_firstName := js_nullish (us_firstName u) (gp_given_name profile),
                 us_lastName := js_nullish (us_lastName u) (gp_family_name profile),
                 us_avatarUrl := js_nullish (us_avatarUrl u) (gp_picture profile),
                 us_emailVerifiedAt := js_nullish (us_emailVerifiedAt u) verified,
                 us_status := Some (js_default (us_status u) ''ACTIVE'')\<rparr>))))"

definition encrypted :: "auth_env \<Rightarrow> auth \<Rightarrow> string option \<Rightarrow> string option" where
  "encrypted E s token = (if js_truthy token then Some (ae_encrypt E s (the token)) else None)"

definition oauth_upsert :: "auth_env \<Rightarrow> user_row \<Rightarrow> google_profile \<Rightarrow> google_tokens \<Rightarrow> unit authed" where
  "oauth_upsert E user profile tokens =
     bind_io (auth_clock E) (\<lambda>now.
       modify (\<lambda>s.
         let expiry = (case gt_expires_in tokens of None \<Rightarrow> None
               | Some n \<Rightarrow> if n = 0 then None else Some (addSeconds now n));
             row = \<lparr>oa_id = ae_newid E s, oa_userId = us_id user, oa_providerAccountId = gp_sub profile,
               oa_email = normalizeEmail (gp_email profile),
               oa_accessTokenEncrypted = ae_encrypt E s (gt_access_token tokens),
               oa_refreshTokenEncrypted = encrypted E s (gt_refresh_token tokens),
               oa_idTokenEncrypted = encrypted E s (gt_id_token tokens), oa_expiresAt = expiry, oa_lastUsedAt = now\<rparr>
         in if list_ex (\<lambda>r. oa_providerAccountId r = gp_sub profile) (a_oauth s) then
              s\<lparr>a_oauth := upd_where (\<lambda>r. oa_providerAccountId r = gp_sub profile) (\<lambda>r. row\<lparr>oa_id := oa_id r,
                oa_refreshTokenEncrypted := js_nullish (oa_refreshTokenEncrypted row) (oa_refreshTokenEncrypted r),
                oa_idTokenEncrypted := js_nullish (oa_idTokenEncrypted row) (oa_idTokenEncrypted r),
                oa_expiresAt := js_nullish expiry (oa_expiresAt r)\<rparr>) (a_oauth s)\<rparr>
            else s\<lparr>a_oauth := a_oauth s @ [row]\<rparr>))"

definition finishGoogleOAuth :: "auth_env \<Rightarrow> string \<Rightarrow> string \<Rightarrow> request_meta \<Rightarrow> (envelope \<times> string) authed" where
  "finishGoogleOAuth E code st mt =
     bind_io (gets (\<lambda>s. live (ae_now E s) (a_states s) (state_key st))) (\<lambda>stored.
       case stored of
         None \<Rightarrow> throw (UnauthorizedException ''Invalid OAuth state'')
       | Some redirect \<Rightarrow>
           seq_io (modify (\<lambda>s. s\<lparr>a_states := drop_key (state_key st) (a_states s)\<rparr>))
             (bind_io (gets (\<lambda>s. ae_google_tokens E s code)) (\<lambda>tokens.
               case tokens of
                 None \<Rightarrow> throw (UnauthorizedException ''Google token exchange failed'')
               | Some tk \<Rightarrow>
                   bind_io (gets (\<lambda>s. ae_google_profile E s (gt_access_token tk))) (\<lambda>info.
                     case info of
                       None \<Rightarrow> throw (UnauthorizedException ''Google user info request failed'')
                     | Some profile \<Rightarrow>
                         bind_io (google_user E profile) (\<lambda>user.
                           seq_io (oauth_upsert E user profile tk)
                             (bind_io (createSession E (us_id user) mt
                                \<lparr>so_rememberMe = True, so_currentOrganizationId = None,
                                 so_currentWorkspaceId = None, so_authProvider = ByOauth\<rparr>) (\<lambda>en.
                               seq_io (logAudit OAUTH_SIGN_IN (Some (us_id user)) None)
                                 (ret (en, redirect)))))))))"

end
