(* ===== verification/Auth_Rotation.thy ===== *)
theory Auth_Rotation
  imports Auth_Sessions
begin

text \<open>
  What a refresh promises: it replaces the token it was given by one new token of the same family,
  and a second use of the old token ends the session. Two refreshes that read the same row before
  either of them writes both succeed, because the write is not conditional on the status.
\<close>

section \<open>A successful refresh\<close>

text \<open>The session does not expire while the request is handled.\<close>

definition unexpired :: "auth_env \<Rightarrow> auth_session \<Rightarrow> bool" where
  "unexpired E r \<longleftrightarrow> (\<forall>s. ae_now E s < se_expiresAt r \<and> ae_now E s < se_idleExpiresAt r)"

lemma unexpired_now: "unexpired E r \<Longrightarrow> \<not> se_expiresAt r \<le> ae_now E s \<and> \<not> se_idleExpiresAt r \<le> ae_now E s"
  by (simp add: unexpired_def not_le)

lemma find_sessions_upd:
  assumes "find (\<lambda>r. se_id r = i) rows = Some r" and "\<And>r. se_id (f r) = se_id r"
  shows "find (\<lambda>r. se_id r = i) (upd_where (\<lambda>r. se_id r = i) f rows) = Some (f r)"
  by (rule find_upd_where_same [OF assms(1)]) (simp add: assms(2))

lemma current_run:
  assumes "find (\<lambda>r. se_id r = sid) (a_sessions s) = Some r" and "find (\<lambda>u. us_id u = se_userId r) (a_users s) = Some u"
    and "session_active r" and "unexpired E r"
  shows "\<exists>en t. refreshCurrentSession E sid s = (Inr en, t) \<and> en_userId en = us_id u
    \<and> a_sessions t = a_sessions s \<and> a_tokens t = a_tokens s \<and> a_users t = a_users s"
proof -
  have rec: "getSessionRecord sid s = (Inr (Some (r, u)), s)"
    by (simp add: getSessionRecord_def gets_def assms(1,2))
  have "getSessionContext E sid True None s =
      (Inr (buildContextFromRecord E s r u None), snd (cache_set E (buildContextFromRecord E s r u None) s))"
    using load_run [OF rec] assms(3) unexpired_now [OF assms(4)] by (simp add: getSessionContext_def io_simps)
  then show ?thesis
    by (simp add: refreshCurrentSession_def bind_io_def buildEnvelope_def signAccessToken_def auth_clock_def
        gets_def ret_def cache_set_def modify_def Let_def buildSessionEnvelope_def buildContextFromRecord_def)
qed

lemma hash_found:
  assumes "sessions_ok s" and "t \<in> set (a_tokens s)" and "rt_tokenHash t = ae_hash E raw"
    and "find (\<lambda>r. se_id r = rt_sessionId t) (a_sessions s) = Some r"
  shows "find_token E raw s = Some (t, r)"
proof -
  have "find (\<lambda>x. rt_tokenHash x = rt_tokenHash t) (a_tokens s) = Some t"
    by (rule find_unique_key) (use assms in \<open>simp_all add: sessions_defs\<close>)
  with assms(3,4) show ?thesis by (simp add: find_token_def)
qed

lemma one_live:
  assumes "sessions_ok s" and "t \<in> set (a_tokens s)" and "live_token t"
  shows "filter (\<lambda>x. live_token x \<and> rt_sessionId x = rt_sessionId t) (a_tokens s) = [t]"
proof -
  have "filter (\<lambda>x. live_token x \<and> rt_sessionId x = rt_sessionId t) (a_tokens s) =
      filter (\<lambda>x. rt_id x = rt_id t) (a_tokens s)"
    using assms ok_token_row(2) [OF assms(1,2)] unfolding sessions_ok_def single_live_def
    by (intro filter_cong refl) metis
  also have "\<dots> = [t]" by (rule filter_unique_key) (use assms in \<open>simp_all add: sessions_defs\<close>)
  finally show ?thesis .
qed

lemma rotation_run:
  assumes "find (\<lambda>t. rt_id t = rt_id rec) (a_tokens s) = Some x"
    and q: "find (\<lambda>r. se_id r = rt_sessionId rec) (a_sessions s) = Some q" and "session_active q" and "unexpired E q"
    and u: "find (\<lambda>u. us_id u = se_userId q) (a_users s) = Some u"
    and new: "ae_hash E (ae_token E s) \<notin> rt_tokenHash ` set (a_tokens s)"
  obtains en t where "bind_io (rotate_token E mt rec) (\<lambda>raw.
      bind_io (refreshCurrentSession E (rt_sessionId rec)) (\<lambda>en. ret (en\<lparr>en_refreshToken := raw\<rparr>))) s = (Inr en, t)"
    and "en_refreshToken en = ae_token E s"
    and "en_userId en = us_id u" and "a_tokens t = rotated_tokens E mt rec s @ [next_token E mt rec s]"
    and "a_sessions t = upd_where (\<lambda>r. se_id r = rt_sessionId rec) (seen_row (ae_now E s) mt) (a_sessions s)"
    and "a_users t = a_users s"
proof -
  define s1 where "s1 = s\<lparr>a_tokens := rotated_tokens E mt rec s @ [next_token E mt rec s],
     a_sessions := upd_where (\<lambda>r. se_id r = rt_sessionId rec) (seen_row (ae_now E s) mt) (a_sessions s)\<rparr>"
  have rot: "rotate_token E mt rec s = (Inr (ae_token E s), s1)"
    using rotate_run [OF assms(1,2)] new by (simp add: s1_def)
  have "find (\<lambda>r. se_id r = rt_sessionId rec) (a_sessions s1) = Some (seen_row (ae_now E s) mt q)"
    using find_sessions_upd [OF q, of "seen_row (ae_now E s) mt"] by (simp add: s1_def)
  then obtain en t where cur: "refreshCurrentSession E (rt_sessionId rec) s1 = (Inr en, t)" "en_userId en = us_id u"
      "a_sessions t = a_sessions s1" "a_tokens t = a_tokens s1" "a_users t = a_users s1"
    using current_run [of "rt_sessionId rec" s1 "seen_row (ae_now E s) mt q" u E] u assms(3,4)
    by (auto simp: s1_def unexpired_def)
  have "bind_io (rotate_token E mt rec) (\<lambda>raw. bind_io (refreshCurrentSession E (rt_sessionId rec))
      (\<lambda>en. ret (en\<lparr>en_refreshToken := raw\<rparr>))) s = (Inr (en\<lparr>en_refreshToken := ae_token E s\<rparr>), t)"
    by (simp add: bind_io_def rot cur(1) ret_def)
  then show thesis by (rule that) (simp_all add: cur s1_def)
qed

lemma refresh_success:
  assumes ok: "sessions_ok s" and f: "find_token E raw s = Some (rec, r)" and "live_token rec"
    and "ae_now E s < rt_expiresAt rec" and "session_active r" and "unexpired E r"
    and u: "find (\<lambda>u. us_id u = se_userId r) (a_users s) = Some u"
    and new: "ae_hash E (ae_token E s) \<notin> rt_tokenHash ` set (a_tokens s)"
  obtains en t where "refreshSession E raw mt s = (Inr en, t)" and "en_refreshToken en = ae_token E s"
    and "en_userId en = us_id u" and "a_tokens t = rotated_tokens E mt rec s @ [next_token E mt rec s]"
    and "a_sessions t = upd_where (\<lambda>r. se_id r = rt_sessionId rec) (seen_row (ae_now E s) mt) (a_sessions s)"
    and "a_users t = a_users s"
proof -
  note found = token_found [OF f]
  have "refreshSession E raw mt s = bind_io (rotate_token E mt rec) (\<lambda>raw.
      bind_io (refreshCurrentSession E (rt_sessionId rec)) (\<lambda>en. ret (en\<lparr>en_refreshToken := raw\<rparr>))) s"
    using assms(3-5) unexpired_now [OF assms(6)] by (simp add: refresh_run [OF f])
  with rotation_run [OF ok_token_row(1) [OF ok found(1)] found(5) assms(5,6) u new, of mt] that
  show thesis by metis
qed

lemma reuse_ends:
  assumes "sessions_ok s" and "rt_sessionId rec \<in> se_id ` set (a_sessions s)"
  shows "ended (snd (handleRefreshTokenReuse E rec s)) (rt_sessionId rec)"
proof -
  let ?s = "snd (token_updateMany (\<lambda>r. rt_tokenFamilyId r = rt_tokenFamilyId rec \<and> rt_userId r = rt_userId rec)
     (revoke_token_row (ae_now E s) ''reuse-detected'' TokenReused) s)"
  have "ended (snd (revokeSessionInternal E (rt_sessionId rec) ''refresh-token-reuse'' ?s)) (rt_sessionId rec)"
    by (rule revoke_ends) (use assms in \<open>simp add: token_updateMany_def modify_def\<close>)
  then show ?thesis
    by (simp add: handleRefreshTokenReuse_def bind_io_def seq_io_def auth_clock_def gets_def token_updateMany_def
        modify_def revoke_run logAudit_def ended_def)
qed

text \<open>
  C5: A refresh with a live token of an active session returns a new token and the envelope of the
  token's user. Afterwards the new token is the only live one of the session, with the expiry of the
  old one. A second use of the old token, by anyone, is refused and ends the session: no later
  request gets a context of it and none of its tokens refreshes it, the new one included.
\<close>

theorem refresh_rotation:
  assumes "fresh_rows E" and "sessions_ok s" and "find_token E raw s = Some (rec, r)" and "live_token rec"
    and "ae_now E s < rt_expiresAt rec" and "session_active r" and "unexpired E r"
    and "find (\<lambda>u. us_id u = se_userId r) (a_users s) = Some u"
    and "ae_hash E (ae_token E s) \<notin> rt_tokenHash ` set (a_tokens s)"
  shows "\<exists>en t. refreshSession E raw mt s = (Inr en, t) \<and> en_refreshToken en = ae_token E s
    \<and> en_userId en = rt_userId rec \<and> sessions_ok t
    \<and> find_token E (ae_token E s) t = Some (next_token E mt rec s, seen_row (ae_now E s) mt r)
    \<and> filter (\<lambda>x. live_token x \<and> rt_sessionId x = rt_sessionId rec) (a_tokens t) = [next_token E mt rec s]
    \<and> (\<forall>mt'. \<exists>v. refreshSession E raw mt' t = (Inl (UnauthorizedException ''Invalid refresh token''), v)
         \<and> (\<forall>E'. session_refused E' v (rt_sessionId rec)))"
proof -
  note found = token_found [OF assms(3)]
  obtain en t where t: "refreshSession E raw mt s = (Inr en, t)" "en_refreshToken en = ae_token E s"
      "en_userId en = us_id u" "a_tokens t = rotated_tokens E mt rec s @ [next_token E mt rec s]"
      "a_sessions t = upd_where (\<lambda>r. se_id r = rt_sessionId rec) (seen_row (ae_now E s) mt) (a_sessions s)"
    using refresh_success [OF assms(2-9)] .
  have ok: "sessions_ok t" using ok_refresh [OF assms(1,2), of raw mt] by (simp add: t(1))
  have user: "us_id u = rt_userId rec"
  proof -
    obtain q where "q \<in> set (a_sessions s)" "se_id q = rt_sessionId rec" "se_userId q = rt_userId rec"
      using assms(2) found(1) unfolding sessions_ok_def tokens_ok_def by blast
    then show ?thesis using session_row_unique [OF assms(2) found(3)] found(4) find_Some_in [OF assms(8)] by metis
  qed
  have row: "find (\<lambda>r. se_id r = rt_sessionId rec) (a_sessions t) = Some (seen_row (ae_now E s) mt r)"
    unfolding t(5) by (rule find_sessions_upd [OF found(5)]) simp
  have next_in: "next_token E mt rec s \<in> set (a_tokens t)" by (simp add: t(4))
  have used_in: "used_row (ae_now E s) mt rec \<in> set (a_tokens t)"
    using found(1) by (auto simp: t(4) rotated_tokens_def set_upd_where)
  have old: "find_token E raw t = Some (used_row (ae_now E s) mt rec, seen_row (ae_now E s) mt r)"
    by (rule hash_found [OF ok used_in]) (simp_all add: found(2) row)
  have "find_token E (ae_token E s) t = Some (next_token E mt rec s, seen_row (ae_now E s) mt r)"
    by (rule hash_found [OF ok next_in]) (simp_all add: row)
  moreover have "filter (\<lambda>x. live_token x \<and> rt_sessionId x = rt_sessionId rec) (a_tokens t)
      = [next_token E mt rec s]"
    using one_live [OF ok next_in] by simp
  moreover have "\<exists>v. refreshSession E raw mt' t = (Inl (UnauthorizedException ''Invalid refresh token''), v)
      \<and> (\<forall>E'. session_refused E' v (rt_sessionId rec))" for mt'
  proof (intro exI conjI allI)
    let ?v = "snd (handleRefreshTokenReuse E (used_row (ae_now E s) mt rec) t)"
    show "refreshSession E raw mt' t = (Inl (UnauthorizedException ''Invalid refresh token''), ?v)"
      by (simp add: refresh_run [OF old])
    have "ended ?v (rt_sessionId rec)"
      using reuse_ends [OF ok, of "used_row (ae_now E s) mt rec" E] token_session [OF ok used_in] by simp
    moreover have "sessions_ok ?v" using keepsD [OF keeps_reuse] ok by (simp add: keep_ok_def)
    ultimately show "session_refused E' ?v (rt_sessionId rec)" for E' by (intro ended_refused)
  qed
  ultimately show ?thesis
    by - (rule exI [of _ en], rule exI [of _ t], simp add: t(1-3) ok user)
qed

lemma sample_found: "find_token demo_env ''raw'' sample_auth = Some (sample_token, sample_session)"
  by (simp add: find_token_def sample_auth_defs Let_def demo_env_def)

lemma sample_unexpired: "unexpired demo_env sample_session"
  by (simp add: unexpired_def sample_auth_defs Let_def session_ttl_def setting_def addSeconds_def)
     (simp add: demo_env_def)

theorem refresh_rotation_witness:
  "\<exists>en t v. refreshSession demo_env ''raw'' sample_meta sample_auth = (Inr en, t)
     \<and> refreshSession demo_env ''raw'' sample_meta t = (Inl (UnauthorizedException ''Invalid refresh token''), v)
     \<and> session_refused demo_env v ''s1''"
proof -
  have "live_token sample_token" "ae_now demo_env sample_auth < rt_expiresAt sample_token"
    "session_active sample_session" "find (\<lambda>u. us_id u = se_userId sample_session) (a_users sample_auth) = Some sample_account"
    "rt_sessionId sample_token = ''s1''"
    by (simp_all add: live_token_def session_active_def sample_auth_defs Let_def demo_env_def)
  note row = this
  from refresh_rotation [OF fresh_rows_sample sessions_ok_sample(2) sample_found row(1-3) sample_unexpired row(4)
      fresh_token_sample, of sample_meta]
  obtain en t where t: "refreshSession demo_env ''raw'' sample_meta sample_auth = (Inr en, t)"
    "\<forall>mt'. \<exists>v. refreshSession demo_env ''raw'' mt' t = (Inl (UnauthorizedException ''Invalid refresh token''), v)
         \<and> (\<forall>E'. session_refused E' v (rt_sessionId sample_token))"
    by (elim exE conjE)
  from t(2) [rule_format, of sample_meta] obtain v where
    "refreshSession demo_env ''raw'' sample_meta t = (Inl (UnauthorizedException ''Invalid refresh token''), v)"
    "session_refused demo_env v ''s1''"
    unfolding row(5) by blast
  with t(1) show ?thesis by (intro exI conjI)
qed

section \<open>Two refreshes that overlap\<close>

text \<open>The second of two requests that read the token row before either of them wrote.\<close>

lemma stale_run:
  assumes "live_token rec" and "ae_now E t < rt_expiresAt rec" and "session_active r" and "ae_now E t < se_expiresAt r"
  shows "refresh_with E mt (Some (rec, r)) t = bind_io (rotate_token E mt rec) (\<lambda>raw.
    bind_io (refreshCurrentSession E (rt_sessionId rec)) (\<lambda>en. ret (en\<lparr>en_refreshToken := raw\<rparr>))) t"
  using assms unfolding refresh_with_def option.case prod.case auth_clock_def bind_gets
  by (simp add: live_token_def)

text \<open>
  When two requests present the same token and both read its row before either writes, both
  succeed and each gets a token that is live afterwards: the family forks, and no reuse is detected.
\<close>

theorem overlapping_refresh_forks:
  assumes "fresh_rows E" and "sessions_ok s" and "find_token E raw s = Some (rec, r)" and "live_token rec"
    and now: "\<And>t. ae_now E t < rt_expiresAt rec" and "session_active r" and ue: "unexpired E r"
    and "find (\<lambda>u. us_id u = se_userId r) (a_users s) = Some u"
    and new: "\<And>t. ae_hash E (ae_token E t) \<notin> rt_tokenHash ` set (a_tokens t)"
  shows "\<exists>en t en' v. refreshSession E raw mt s = (Inr en, t) \<and> refresh_with E mt' (Some (rec, r)) t = (Inr en', v)
    \<and> en_refreshToken en \<noteq> en_refreshToken en'
    \<and> (\<forall>raw'\<in>{en_refreshToken en, en_refreshToken en'}.
         list_ex (\<lambda>x. live_token x \<and> rt_tokenHash x = ae_hash E raw' \<and> rt_sessionId x = rt_sessionId rec) (a_tokens v))"
proof -
  note found = token_found [OF assms(3)]
  obtain en t where t: "refreshSession E raw mt s = (Inr en, t)" "en_refreshToken en = ae_token E s"
      "a_tokens t = rotated_tokens E mt rec s @ [next_token E mt rec s]"
      "a_sessions t = upd_where (\<lambda>r. se_id r = rt_sessionId rec) (seen_row (ae_now E s) mt) (a_sessions s)"
      "a_users t = a_users s"
    using refresh_success [OF assms(2-4) now assms(6-8) new] .
  have ok: "sessions_ok t" using ok_refresh [OF assms(1,2), of raw mt] by (simp add: t(1))
  have used: "used_row (ae_now E s) mt rec \<in> set (a_tokens t)"
    using found(1) by (auto simp: t(3) rotated_tokens_def set_upd_where)
  have row: "find (\<lambda>r. se_id r = rt_sessionId rec) (a_sessions t) = Some (seen_row (ae_now E s) mt r)"
    unfolding t(4) by (rule find_sessions_upd [OF found(5)]) simp
  have seen: "session_active (seen_row (ae_now E s) mt r)" "unexpired E (seen_row (ae_now E s) mt r)"
      "find (\<lambda>u. us_id u = se_userId (seen_row (ae_now E s) mt r)) (a_users t) = Some u"
    using ue assms(6,8) by (simp_all add: unexpired_def t(5))
  have again: "refresh_with E mt' (Some (rec, r)) t = bind_io (rotate_token E mt' rec) (\<lambda>raw.
      bind_io (refreshCurrentSession E (rt_sessionId rec)) (\<lambda>en. ret (en\<lparr>en_refreshToken := raw\<rparr>))) t"
    using ue by (intro stale_run assms(4,6) now) (simp add: unexpired_def)
  obtain en' v where v: "refresh_with E mt' (Some (rec, r)) t = (Inr en', v)" "en_refreshToken en' = ae_token E t"
      "a_tokens v = rotated_tokens E mt' rec t @ [next_token E mt' rec t]"
    using rotation_run [OF ok_token_row(1) [OF ok used, simplified] row seen new, of mt'] unfolding again .
  let ?n = "next_token E mt rec s"
  have n: "?n \<in> set (a_tokens t)" by (simp add: t(3))
  have "rt_id ?n \<noteq> rt_id rec"
    using ok_token_row(2) [OF ok n used] by (auto simp: live_token_def) (metis next_token_simps(7) used_row_simps(7))
  with n have nv: "?n \<in> set (a_tokens v)"
    by (auto simp: v(3) rotated_tokens_def set_upd_where intro: rev_image_eqI)
  let ?L = "\<lambda>raw'. list_ex (\<lambda>x. live_token x \<and> rt_tokenHash x = ae_hash E raw' \<and> rt_sessionId x = rt_sessionId rec)
    (a_tokens v)"
  have "?L (en_refreshToken en)" unfolding list_ex_iff by (rule bexI [OF _ nv]) (simp add: t(2))
  moreover have "?L (en_refreshToken en')"
    unfolding list_ex_iff by (rule bexI [of _ "next_token E mt' rec t"]) (simp_all add: v(2,3))
  moreover have "en_refreshToken en \<noteq> en_refreshToken en'"
    using new [of t] n by (auto simp: t(2) v(2) rev_image_eqI)
  ultimately show ?thesis using t(1) v(1) by blast
qed

theorem overlapping_refresh_witness:
  "\<exists>en t en' v. refreshSession demo_env ''raw'' sample_meta sample_auth = (Inr en, t)
     \<and> refresh_with demo_env sample_meta (Some (sample_token, sample_session)) t = (Inr en', v)
     \<and> en_refreshToken en \<noteq> en_refreshToken en'"
proof -
  have row: "live_token sample_token" "ae_now demo_env t < rt_expiresAt sample_token"
    "session_active sample_session" "find (\<lambda>u. us_id u = se_userId sample_session) (a_users sample_auth) = Some sample_account" for t
    by (simp_all add: live_token_def session_active_def sample_auth_defs Let_def demo_env_def)
  from overlapping_refresh_forks [OF fresh_rows_sample sessions_ok_sample(2) sample_found row(1-3) sample_unexpired row(4)
      fresh_token_sample, of sample_meta sample_meta]
  show ?thesis by blast
qed

end
