(* ===== verification/Auth_System.thy ===== *)
theory Auth_System
  imports Auth_Login Auth_Rotation
begin

text \<open>
  The authentication module as a whole: what each operation leaves alone, the states it can reach
  through its endpoints, and the properties of sign-in, one-time codes, links, passwords and the
  second factor.
\<close>

section \<open>Frames of the login operations\<close>

lemma frame_modify: "(\<And>s. same_sessions s (f s)) \<Longrightarrow> keeps same_sessions (modify f)"
  by (rule frame.r_modify)

lemma frame_rows:
  "keeps same_sessions (cred_upsert E userId hash)" "keeps same_sessions (user_create E row)"
  "keeps same_sessions (otp_create E userId email purpose code)" "keeps same_sessions (link_create E link)"
  "keeps same_sessions (verification_create E userId email raw expiry)"
  "keeps same_sessions (reset_create E userId email raw expiry)" "keeps same_sessions (otp_update i f)"
  "keeps same_sessions (link_update i g)" "keeps same_sessions (oauth_upsert E user profile tk)"
proof -
  note defs = keeps_def same_sessions_def io_simps auth_clock_def
  show "keeps same_sessions (cred_upsert E userId hash)"
    by (auto simp: cred_upsert_def defs split: option.splits)
  show "keeps same_sessions (user_create E row)" by (simp add: user_create_def defs)
  show "keeps same_sessions (otp_create E userId email purpose code)" by (simp add: otp_create_def defs)
  show "keeps same_sessions (link_create E link)" by (simp add: link_create_def defs)
  show "keeps same_sessions (verification_create E userId email raw expiry)"
    by (simp add: verification_create_def defs)
  show "keeps same_sessions (reset_create E userId email raw expiry)" by (simp add: reset_create_def defs)
  show "keeps same_sessions (otp_update i f)"
    unfolding otp_update_def by (rule frame_row_update) (simp add: same_sessions_def)
  show "keeps same_sessions (link_update i g)"
    unfolding link_update_def by (rule frame_row_update) (simp add: same_sessions_def)
  show "keeps same_sessions (oauth_upsert E user profile tk)"
    by (simp add: oauth_upsert_def defs Let_def)
qed

lemma frame_mail: "keeps same_sessions (sendMail E m)"
  unfolding sendMail_def by (intro frame.r_intros frame_modify) (simp add: same_sessions_def)

lemma frame_hash: "keeps same_sessions (hashPassword E pw)"
  unfolding hashPassword_def assertPasswordPolicy_def by (intro frame.r_intros)

lemma frame_issue:
  "keeps same_sessions (issueEmailVerification E userId email)" "keeps same_sessions (issuePasswordReset E userId email)"
  unfolding issueEmailVerification_def issuePasswordReset_def Let_def
  by (intro frame.r_intros frame_rows frame_mail frame_writes keeps_transaction frame.R_refl)+

lemma frame_consume_writes: "keeps same_sessions (consume_writes E r u)"
  unfolding consume_writes_def
  by (intro frame.r_intros frame_rows frame_writes frame_modify) (simp_all add: same_sessions_def)

lemma frame_google_user: "keeps same_sessions (google_user E profile)"
  unfolding google_user_def Let_def by (intro frame.r_intros frame_rows frame_writes)

lemmas frame_all = frame_rows frame_mail frame_hash frame_issue frame_consume_writes frame_google_user
  frame_writes frame_two_factor frame_challenge

lemma frame_requests:
  "keeps same_sessions (signUp E dto mt)" "keeps same_sessions (requestPasswordReset E address mt)"
  "keeps same_sessions (requestEmailLoginOtp E address mt)" "keeps same_sessions (resendCode E address flow mt)"
  "keeps same_sessions (requestMagicLink E address redirect purpose mt)"
  "keeps same_sessions (inviteUser E address org ws redirect)" "keeps same_sessions (startGoogleOAuth E redirect)"
proof -
  note rules = frame.r_intros frame_all
  show "keeps same_sessions (signUp E dto mt)" unfolding signUp_def Let_def by (intro rules)
  show reset: "keeps same_sessions (requestPasswordReset E address mt)"
    unfolding requestPasswordReset_def Let_def by (intro rules)
  show "keeps same_sessions (requestEmailLoginOtp E address mt)"
    unfolding requestEmailLoginOtp_def Let_def by (intro rules)
  show "keeps same_sessions (resendCode E address flow mt)" unfolding resendCode_def by (intro rules reset)
  show "keeps same_sessions (requestMagicLink E address redirect purpose mt)"
    unfolding requestMagicLink_def Let_def by (intro rules)
  show "keeps same_sessions (inviteUser E address org ws redirect)"
    unfolding inviteUser_def Let_def by (intro rules)
  show "keeps same_sessions (startGoogleOAuth E redirect)"
    unfolding startGoogleOAuth_def by (intro rules frame_modify) (simp add: same_sessions_def)
qed

section \<open>Operations that touch sessions\<close>

text \<open>
  A relation between states that every frame, the creation and the end of sessions and the reading
  of contexts respect is respected by every way in.
\<close>

locale session_relation = step_order R for R :: "auth \<Rightarrow> auth \<Rightarrow> bool" +
  fixes E :: auth_env
  assumes unchanged: "same_sessions s t \<Longrightarrow> R s t"
    and of_create: "keeps R (createSession E userId mt opts)"
    and of_current: "keeps R (refreshCurrentSession E sid)"
    and of_revokeAll: "keeps R (revokeAllSessions E userId except)"
begin

lemma of_frame: "keeps same_sessions m \<Longrightarrow> keeps R m"
  by (simp add: keeps_def unchanged)

lemmas of_all = frame_all [THEN of_frame]

lemma of_signIn: "keeps R (signIn E dto mt)"
  unfolding signIn_def signin_password_def signin_challenge_def Let_def prod.case
  by (intro r_intros of_create of_all)

lemma of_verifyOtp: "keeps R (verifyOtp E address code flow mt)"
  unfolding verifyOtp_def otp_session_def Let_def by (intro r_intros of_create of_all)

lemma of_resetPassword: "keeps R (resetPassword E userId new sid)"
  unfolding resetPassword_def by (intro r_intros of_current of_revokeAll of_all)

lemma of_changePassword: "keeps R (changePassword E userId old new sid)"
  unfolding changePassword_def by (intro r_intros of_resetPassword)

lemma of_consumeMagicLink: "keeps R (consumeMagicLink E raw mt)"
  unfolding consumeMagicLink_def by (intro r_intros of_create of_all)

lemma of_google: "keeps R (finishGoogleOAuth E code st mt)"
proof -
  have "keeps R (modify (\<lambda>s. s\<lparr>a_states := f s\<rparr>))" for f
    by (rule of_frame, rule frame_modify) (simp add: same_sessions_def)
  then show ?thesis unfolding finishGoogleOAuth_def by (intro r_intros of_create of_all)
qed

lemmas of_login = of_signIn of_verifyOtp of_resetPassword of_changePassword of_consumeMagicLink of_google

end

interpretation last: session_relation sessions_last E for E
  by unfold_locales (auto intro: last_same last_createSession last_context last_ends simp: same_sessions_def)

text \<open>The consistency of sessions relies on fresh row ids.\<close>

definition keep_fresh :: "auth_env \<Rightarrow> auth \<Rightarrow> auth \<Rightarrow> bool" where
  "keep_fresh E s t \<longleftrightarrow> (fresh_rows E \<longrightarrow> keep_ok s t)"

lemma keeps_fresh: "keeps (keep_fresh E) m \<longleftrightarrow> (fresh_rows E \<longrightarrow> keeps keep_ok m)"
  by (auto simp: keeps_def keep_fresh_def)

interpretation fresh: session_relation "keep_fresh E" E for E
proof
  show "keep_fresh E s s" for s by (simp add: keep_fresh_def ok.R_refl)
  show "keep_fresh E s u" if "keep_fresh E s t" "keep_fresh E t u" for s t u
    using that ok.R_trans by (auto simp: keep_fresh_def)
  show "keep_fresh E s t" if "same_sessions s t" for s t
    using that sessions_ok_cong by (auto simp: keep_fresh_def keep_ok_def same_sessions_def)
  show "keeps (keep_fresh E) (createSession E userId mt opts)" for userId mt opts
    by (simp add: keeps_fresh keeps_createSession)
  show "keeps (keep_fresh E) (refreshCurrentSession E sid)" for sid
    by (simp add: keeps_fresh keeps_current)
  show "keeps (keep_fresh E) (revokeAllSessions E userId except)" for userId except
    by (simp add: keeps_fresh keeps_session_ends)
qed

section \<open>Reachable states\<close>

text \<open>
  One step is one request to an endpoint of the module; the membership tables and the users'
  profiles may be changed by other modules at any time.
\<close>

inductive auth_step :: "auth_env \<Rightarrow> auth \<Rightarrow> auth \<Rightarrow> bool" for E where
  sign_up: "auth_step E s (snd (signUp E dto mt s))"
| sign_in: "auth_step E s (snd (signIn E signin mt s))"
| sign_out: "auth_step E s (snd (revokeSession E userId sid s))"
| refresh: "auth_step E s (snd (refreshSession E raw mt s))"
| get_session: "auth_step E s (snd (getSession E access cookie meta s))"
| context_read: "auth_step E s (snd (getSessionContext E sid force provider s))"
| forgot: "auth_step E s (snd (requestPasswordReset E address mt s))"
| login_otp: "auth_step E s (snd (requestEmailLoginOtp E address mt s))"
| otp: "auth_step E s (snd (verifyOtp E address code flow mt s))"
| resend: "auth_step E s (snd (resendCode E address flow mt s))"
| reset: "auth_step E s (snd (resetPassword E userId new current s))"
| change: "auth_step E s (snd (changePassword E userId old new sid s))"
| magic_link: "auth_step E s (snd (requestMagicLink E address redirect purpose mt s))"
| consume_link: "auth_step E s (snd (consumeMagicLink E raw mt s))"
| google_start: "auth_step E s (snd (startGoogleOAuth E redirect s))"
| google_finish: "auth_step E s (snd (finishGoogleOAuth E code st mt s))"
| revoke_all: "auth_step E s (snd (revokeAllSessions E userId current s))"
| select: "auth_step E s (snd (selectWorkspace E userId sid org ws s))"
| totp_setup: "auth_step E s (snd (startTotpSetup E userId s))"
| totp_enable: "auth_step E s (snd (enableTotp E userId code s))"
| totp_disable: "auth_step E s (snd (disableTotp E userId totp backup s))"
| backup_codes: "auth_step E s (snd (regenerateBackupCodes E userId s))"
| invite: "auth_step E s (snd (inviteUser E address org ws redirect s))"
| elsewhere: "auth_step E s (s\<lparr>a_users := us, a_orgMembers := om, a_wsMembers := wm\<rparr>)"

inductive auth_reachable :: "auth_env \<Rightarrow> auth \<Rightarrow> auth \<Rightarrow> bool" for E s where
  here: "auth_reachable E s s"
| step: "auth_reachable E s t \<Longrightarrow> auth_step E t u \<Longrightarrow> auth_reachable E s u"

lemma step_last: "auth_step E s t \<Longrightarrow> sessions_last s t"
  by (cases rule: auth_step.cases, assumption)
     (auto intro!: keepsD [of sessions_last] last.of_login last_sessions
       frame_requests [THEN last_frame] frame_two_factor [THEN last_frame] intro: last_same)

lemma ok_elsewhere: "keep_ok s (s\<lparr>a_users := us, a_orgMembers := om, a_wsMembers := wm\<rparr>)"
  unfolding keep_ok_def by (intro impI) (rule sessions_ok_cong, simp_all)

lemma step_ok:
  assumes "fresh_rows E" and "auth_step E s t" and "sessions_ok s"
  shows "sessions_ok t"
proof -
  note login = fresh.of_login [unfolded keeps_fresh, rule_format, OF assms(1)]
  have "keep_ok s t"
    using assms(2)
    by (cases rule: auth_step.cases)
       (auto intro!: keepsD [of keep_ok] login keeps_refresh [OF assms(1)]
         keeps_getSession [OF assms(1)] keeps_session_ends keeps_selectWorkspace
         keeps_context frame_requests [THEN frame_ok] frame_two_factor [THEN frame_ok]
         ok_elsewhere)
  with assms(3) show ?thesis by (simp add: keep_ok_def)
qed

lemma reachable_last: "auth_reachable E s t \<Longrightarrow> sessions_last s t"
  by (induction rule: auth_reachable.induct) (auto intro: lasting.R_refl lasting.R_trans step_last)

lemma reachable_sessions_ok: "auth_reachable E s t \<Longrightarrow> fresh_rows E \<Longrightarrow> sessions_ok s \<Longrightarrow> sessions_ok t"
  by (induction rule: auth_reachable.induct) (auto intro: step_ok)

text \<open>An ended session stays refused, whatever happens afterwards.\<close>

lemma ended_stays:
  assumes "fresh_rows E" and "sessions_ok s" and "ended s sid" and "auth_reachable E s t"
  shows "session_refused E' t sid"
  using assms reachable_sessions_ok reachable_last ended_last ended_refused by metis

text \<open>
  C4: From the empty tables, every sequence of requests keeps the sessions consistent: ids and
  token hashes are unique; a token belongs to the session that names its family and to the user of
  that session; a session has at most one live token, and one that is revoked or expired has none;
  and every cached context is that of an active session of the same user.
\<close>

theorem auth_sessions_consistent:
  assumes "auth_reachable E empty_auth s" and "fresh_rows E"
  shows "session_ids_ok s \<and> tokens_ok s \<and> single_live s \<and> cache_ok s"
  using reachable_sessions_ok [OF assms sessions_ok_sample(1)] by (simp add: sessions_ok_def)

theorem auth_sessions_witness:
  "cache_ok (snd (requestEmailLoginOtp demo_env ''a'' sample_meta empty_auth))"
proof -
  have "auth_reachable demo_env empty_auth (snd (requestEmailLoginOtp demo_env ''a'' sample_meta empty_auth))"
    by (rule auth_reachable.step [OF auth_reachable.here auth_step.login_otp])
  from auth_sessions_consistent [OF this fresh_rows_sample] show ?thesis by blast
qed

text \<open>
  C6: After a sign-out, and after the refusal of a reused or expired refresh token, the session is
  over in every later state: no request is served with a context of it, and none of its refresh
  tokens yields a new one.
\<close>

theorem sign_out_is_final:
  assumes "fresh_rows E" and "sessions_ok s" and "auth_reachable E t u"
    and "revokeSession E userId sid s = (Inr (), t)
      \<or> (\<exists>raw mt rec r. find_token E raw s = Some (rec, r) \<and> rt_sessionId rec = sid
           \<and> (\<not> live_token rec \<or> rt_expiresAt rec \<le> ae_now E s) \<and> t = snd (refreshSession E raw mt s))"
  shows "session_refused E' u sid"
proof -
  have "ended t sid"
    using assms(4)
  proof
    assume run: "revokeSession E userId sid s = (Inr (), t)"
    then have "sid \<in> se_id ` set (a_sessions s)"
      by (auto simp: revokeSession_def bind_gets throw_def split: option.splits dest: find_Some_in)
    moreover have "t = snd (revokeSessionInternal E sid ''user-revoked'' s)"
      using run by (auto simp: revokeSession_def bind_gets throw_def split: option.splits)
    ultimately show ?thesis by (simp add: revoke_ends)
  next
    assume "\<exists>raw mt rec r. find_token E raw s = Some (rec, r) \<and> rt_sessionId rec = sid
      \<and> (\<not> live_token rec \<or> rt_expiresAt rec \<le> ae_now E s) \<and> t = snd (refreshSession E raw mt s)"
    then obtain raw mt rec r where f: "find_token E raw s = Some (rec, r)" and sid: "rt_sessionId rec = sid"
      and "\<not> live_token rec \<or> rt_expiresAt rec \<le> ae_now E s" "t = snd (refreshSession E raw mt s)" by blast
    then have "t = snd (handleRefreshTokenReuse E rec s)" by (simp add: refresh_run [OF f])
    with reuse_ends [OF assms(2), of rec E] token_session [OF assms(2) token_found(1) [OF f]] sid
    show ?thesis by simp
  qed
  moreover have "sessions_ok t"
    using assms(4) keepsD [OF keeps_session_ends(1), of s E userId sid] ok_refresh [OF assms(1,2)] assms(2)
    by (auto simp: keep_ok_def)
  ultimately show ?thesis using ended_stays assms(1,3) by blast
qed

theorem sign_out_witness:
  "session_refused demo_env (snd (refreshSession demo_env ''raw'' sample_meta
     (snd (revokeSession demo_env ''u1'' ''s1'' sample_auth)))) ''s1''"
proof -
  have "revokeSession demo_env ''u1'' ''s1'' sample_auth = (Inr (), snd (revokeSession demo_env ''u1'' ''s1'' sample_auth))"
    by (simp add: revokeSession_def bind_gets revoke_run sample_auth_defs Let_def)
  moreover have "auth_reachable demo_env (snd (revokeSession demo_env ''u1'' ''s1'' sample_auth))
      (snd (refreshSession demo_env ''raw'' sample_meta (snd (revokeSession demo_env ''u1'' ''s1'' sample_auth))))"
    by (rule auth_reachable.step [OF auth_reachable.here auth_step.refresh])
  ultimately show ?thesis
    using sign_out_is_final [OF fresh_rows_sample sessions_ok_sample(2)] by blast
qed

end
