(* ===== verification/Auth_Codes.thy ===== *)
theory Auth_Codes
  imports Auth_System
begin

text \<open>
  One-time codes, links, password changes, sign-up and the setup of the second factor: how many
  guesses a code allows, how often a link works, which sessions a new password ends, and two places
  where an account is left less protected than before.
\<close>

section \<open>Creating a session leaves the login tables alone\<close>

definition same_login :: "auth \<Rightarrow> auth \<Rightarrow> bool" where
  "same_login s t \<longleftrightarrow> a_otps t = a_otps s \<and> a_links t = a_links s \<and> a_creds t = a_creds s
     \<and> a_secrets t = a_secrets s"

interpretation login: step_order same_login
  by unfold_locales (auto simp: same_login_def)

lemma login_rows:
  "keeps same_login (session_create E row)" "keeps same_login (token_create E tok)"
  "keeps same_login (user_update i f)" "keeps same_login (logAudit ev u sid)" "keeps same_login (cache_set E cx)"
  "keeps same_login (revokeSessionInternal E ses why)" "keeps same_login (auth_clock E)"
  by (auto simp: keeps_def same_login_def session_create_def token_create_run user_update_def row_update_def
      logAudit_def cache_set_def revoke_run io_simps auth_clock_def Let_def split: option.splits)

lemma login_context: "keeps same_login (getSessionContext E sid force provider)"
  unfolding getSessionContext_def load_context_def getSessionRecord_def cache_get_def
  by (intro login.r_intros login_rows)

lemma login_envelope: "keeps same_login (buildEnvelope E cx raw)"
  unfolding buildEnvelope_def signAccessToken_def Let_def by (intro login.r_intros login_rows)

lemma login_create: "keeps same_login (createSession E userId mt opts)"
  unfolding createSession_def by (intro login.r_intros login_rows login_context login_envelope)

lemma login_current: "keeps same_login (refreshCurrentSession E sid)"
  unfolding refreshCurrentSession_def by (intro login.r_intros login_context login_envelope)

lemma login_revokeAll: "keeps same_login (revokeAllSessions E userId except)"
  unfolding revokeAllSessions_def by (intro login.r_intros login_rows)

section \<open>One-time codes\<close>

lemma newest_upd:
  assumes "\<And>r. ot_createdAt (f r) = ot_createdAt r"
  shows "newest (upd_where P f rows) = map_option (\<lambda>r. if P r then f r else r) (newest rows)"
proof -
  let ?g = "\<lambda>r. if P r then f r else r"
  have "foldl (\<lambda>best r. case best of None \<Rightarrow> Some r | Some b \<Rightarrow> if ot_createdAt b \<le> ot_createdAt r then Some r else Some b)
      (map_option ?g acc) (upd_where P f rows) =
    map_option ?g (foldl (\<lambda>best r. case best of None \<Rightarrow> Some r
      | Some b \<Rightarrow> if ot_createdAt b \<le> ot_createdAt r then Some r else Some b) acc rows)" for acc
  proof (induction rows arbitrary: acc)
    case Nil
    then show ?case by simp
  next
    case (Cons r rows)
    have "(case map_option ?g acc of None \<Rightarrow> Some (?g r)
        | Some b \<Rightarrow> if ot_createdAt b \<le> ot_createdAt (?g r) then Some (?g r) else Some b) =
      map_option ?g (case acc of None \<Rightarrow> Some r | Some b \<Rightarrow> if ot_createdAt b \<le> ot_createdAt r then Some r else Some b)"
      by (cases acc) (auto simp: assms)
    then show ?case using Cons.IH by simp
  qed
  from this [of None] show ?thesis by (simp add: newest_def)
qed

lemma newest_in: "newest rows = Some r \<Longrightarrow> r \<in> set rows"
proof -
  have "foldl (\<lambda>best r. case best of None \<Rightarrow> Some r
      | Some b \<Rightarrow> if ot_createdAt b \<le> ot_createdAt r then Some r else Some b) acc rows = Some r
    \<Longrightarrow> r \<in> set rows \<or> acc = Some r" for acc
    by (induction rows arbitrary: acc) (fastforce split: option.splits if_splits)+
  then show "newest rows = Some r \<Longrightarrow> r \<in> set rows" unfolding newest_def by blast
qed

lemma current_found:
  assumes "current_otp email flow s = Some r"
  shows "r \<in> set (a_otps s)" and "ot_email r = email" and "ot_purpose r = flow_purpose flow" and "ot_consumedAt r = None"
  using newest_in assms unfolding current_otp_def by force+

lemma current_upd:
  assumes "\<And>r. ot_createdAt (f r) = ot_createdAt r \<and> ot_email (f r) = ot_email r \<and> ot_purpose (f r) = ot_purpose r
      \<and> ot_consumedAt (f r) = ot_consumedAt r"
    and "a_otps t = upd_where P f (a_otps s)"
  shows "current_otp email flow t = map_option (\<lambda>r. if P r then f r else r) (current_otp email flow s)"
proof -
  let ?Q = "\<lambda>r. ot_email r = email \<and> ot_purpose r = flow_purpose flow \<and> ot_consumedAt r = None"
  have "filter ?Q (upd_where P f rows) = upd_where P f (filter ?Q rows)" for rows
    by (induction rows) (auto simp: assms(1))
  then show ?thesis by (simp add: current_otp_def assms newest_upd)
qed

lemma otp_update_run:
  "otp_update i f s =
     (case find (\<lambda>r. ot_id r = i) (a_otps s) of
        None \<Rightarrow> (Inl PrismaP2025, s)
      | Some r \<Rightarrow> (Inr (f r), s\<lparr>a_otps := upd_where (\<lambda>r. ot_id r = i) f (a_otps s)\<rparr>))"
  by (simp add: otp_update_def row_update_def split: option.split)

lemma otp_row: "r \<in> set (a_otps s) \<Longrightarrow> \<exists>x. find (\<lambda>x. ot_id x = ot_id r) (a_otps s) = Some x"
  by (cases "find (\<lambda>x. ot_id x = ot_id r) (a_otps s)") (auto simp: find_None_iff)

text \<open>A wrong code is counted; a dead row refuses every code and changes nothing.\<close>

lemma wrong_code_run:
  assumes "current_otp (normalizeEmail address) flow s = Some r" and "ae_now E s < ot_expiresAt r"
    and "ot_attemptCount r < ot_maxAttempts r" and "ot_codeHash r \<noteq> ae_hash E code"
  shows "\<exists>t. verifyOtp E address code flow mt s = (Inl (UnauthorizedException ''Invalid or expired code''), t)
    \<and> current_otp (normalizeEmail address) flow t = Some (r\<lparr>ot_attemptCount := Suc (ot_attemptCount r)\<rparr>)"
proof -
  let ?f = "\<lambda>r. r\<lparr>ot_attemptCount := Suc (ot_attemptCount r)\<rparr>"
  let ?t = "s\<lparr>a_otps := upd_where (\<lambda>x. ot_id x = ot_id r) ?f (a_otps s)\<rparr>"
  obtain x where "find (\<lambda>x. ot_id x = ot_id r) (a_otps s) = Some x"
    using otp_row current_found(1) [OF assms(1)] by blast
  then have "verifyOtp E address code flow mt s = (Inl (UnauthorizedException ''Invalid or expired code''), ?t)"
    using assms unfolding verifyOtp_def Let_def bind_gets auth_clock_def
    by (simp add: seq_io_def bind_io_def otp_update_run throw_def)
  moreover have "current_otp (normalizeEmail address) flow ?t = Some (?f r)"
    using current_upd [of ?f ?t "\<lambda>x. ot_id x = ot_id r" s] assms(1) by simp
  ultimately show ?thesis by blast
qed

lemma dead_code_run:
  assumes "current_otp (normalizeEmail address) flow s = Some r"
    and "ot_expiresAt r \<le> ae_now E s \<or> ot_maxAttempts r \<le> ot_attemptCount r"
  shows "verifyOtp E address code flow mt s = (Inl (UnauthorizedException ''Invalid or expired code''), s)"
  using assms unfolding verifyOtp_def Let_def bind_gets auth_clock_def by (auto simp: throw_def)

definition after_guesses :: "auth_env \<Rightarrow> string \<Rightarrow> otp_flow \<Rightarrow> request_meta \<Rightarrow> string list \<Rightarrow> auth \<Rightarrow> auth" where
  "after_guesses E address flow mt codes s = foldl (\<lambda>s code. snd (verifyOtp E address code flow mt s)) s codes"

text \<open>
  C30: Once as many wrong codes have been tried as a one-time code has attempts left (five for a new
  one), every further code is refused without effect, the right one included.
\<close>

theorem otp_guess_bound:
  assumes "current_otp (normalizeEmail address) flow s = Some r"
    and "\<And>code. code \<in> set codes \<Longrightarrow> ae_hash E code \<noteq> ot_codeHash r"
    and "ot_maxAttempts r - ot_attemptCount r \<le> length codes" and clock: "\<And>x. ae_now E x = now"
  shows "verifyOtp E address code flow mt' (after_guesses E address flow mt codes s)
    = (Inl (UnauthorizedException ''Invalid or expired code''), after_guesses E address flow mt codes s)"
  using assms(1-3)
proof (induction codes arbitrary: s r)
  case Nil
  then show ?case by (simp add: after_guesses_def dead_code_run)
next
  case (Cons c codes)
  show ?case
  proof (cases "ot_expiresAt r \<le> now \<or> ot_maxAttempts r \<le> ot_attemptCount r")
    case True
    have "snd (verifyOtp E address x flow mt s) = s" for x
      using dead_code_run [OF Cons.prems(1)] True clock by simp
    then have "after_guesses E address flow mt cs s = s" for cs
      unfolding after_guesses_def by (induction cs) simp_all
    then show ?thesis using dead_code_run [OF Cons.prems(1)] True clock by simp
  next
    case False
    have "ot_codeHash r \<noteq> ae_hash E c" using Cons.prems(2) by force
    from wrong_code_run [OF Cons.prems(1) _ _ this, of mt] False clock
    obtain t where t: "snd (verifyOtp E address c flow mt s) = t"
      "current_otp (normalizeEmail address) flow t = Some (r\<lparr>ot_attemptCount := Suc (ot_attemptCount r)\<rparr>)"
      by auto
    have "after_guesses E address flow mt (c # codes) s = after_guesses E address flow mt codes t"
      by (simp add: after_guesses_def t(1))
    then show ?thesis using Cons.IH [OF t(2)] Cons.prems(2,3) by simp
  qed
qed

definition sample_otp :: otp_row where
  "sample_otp = \<lparr>ot_id = ''o1'', ot_userId = Some ''u1'', ot_email = ''a'', ot_purpose = EMAIL_OTP_LOGIN,
     ot_codeHash = ''123456'', ot_expiresAt = 601000, ot_consumedAt = None, ot_attemptCount = 3, ot_maxAttempts = 5,
     ot_createdAt = 1000\<rparr>"

theorem otp_guess_witness:
  "verifyOtp demo_env ''a'' ''123456'' FlowLogin sample_meta
     (after_guesses demo_env ''a'' FlowLogin sample_meta [''000000'', ''111111''] (sample_auth\<lparr>a_otps := [sample_otp]\<rparr>))
   = (Inl (UnauthorizedException ''Invalid or expired code''),
      after_guesses demo_env ''a'' FlowLogin sample_meta [''000000'', ''111111''] (sample_auth\<lparr>a_otps := [sample_otp]\<rparr>))"
proof (rule otp_guess_bound)
  have "normalizeEmail ''a'' = ''a''" by code_simp
  then show "current_otp (normalizeEmail ''a'') FlowLogin (sample_auth\<lparr>a_otps := [sample_otp]\<rparr>) = Some sample_otp"
    by (simp add: current_otp_def sample_otp_def newest_def)
qed (auto simp: sample_otp_def demo_simps)

section \<open>Links\<close>

lemma link_update_run:
  "link_update i f s =
     (case find (\<lambda>r. ml_id r = i) (a_links s) of
        None \<Rightarrow> (Inl PrismaP2025, s)
      | Some r \<Rightarrow> (Inr (f r), s\<lparr>a_links := upd_where (\<lambda>r. ml_id r = i) f (a_links s)\<rparr>))"
  by (simp add: link_update_def row_update_def split: option.split)

lemma consume_writes_links:
  assumes "consume_writes E r u s = (Inr x, t)"
  shows "a_links t = (if ml_consumedAt r = None
    then upd_where (\<lambda>x. ml_id x = ml_id r) (\<lambda>x. x\<lparr>ml_consumedAt := Some (ae_now E s)\<rparr>) (a_links s) else a_links s)"
proof -
  have user: "a_links z = a_links y" if "user_update i f y = (Inr w, z)" for i f y z w
    using that by (auto simp: user_update_def row_update_def split: option.splits)
  show ?thesis
    using assms unfolding consume_writes_def auth_clock_def bind_gets
    by (auto elim!: seq_Inr simp: link_update_run ret_def modify_def logAudit_def dest!: user
        split: if_splits option.splits)
qed

lemma link_found:
  assumes "consumeMagicLink E raw mt s = (Inr res, t)"
  obtains r u s' where "find (\<lambda>r. ml_tokenHash r = ae_hash E raw) (a_links s) = Some r"
    and "ae_now E s < ml_expiresAt r" and "ml_purpose r = TEAM_INVITE \<or> ml_consumedAt r = None"
    and "link_user s r = Some u" and "consume_writes E r u s = (Inr (), s')" and "same_login s' t"
    and "lr_flow res = link_flow (ml_purpose r)"
proof -
  obtain r where r: "find (\<lambda>r. ml_tokenHash r = ae_hash E raw) (a_links s) = Some r"
    using assms by (auto simp: consumeMagicLink_def bind_gets auth_clock_def split: option.splits)
  have live: "ae_now E s < ml_expiresAt r" "ml_purpose r = TEAM_INVITE \<or> ml_consumedAt r = None"
    using assms r by (auto simp: consumeMagicLink_def bind_gets auth_clock_def split: if_splits)
  obtain u where u: "link_user s r = Some u"
    using assms r live by (auto simp: consumeMagicLink_def bind_gets auth_clock_def split: if_splits option.splits)
  obtain s' where "consume_writes E r u s = (Inr (), s')"
    and cs: "bind_io (createSession E (us_id u) mt
        \<lparr>so_rememberMe = True, so_currentOrganizationId = ml_organizationId r,
         so_currentWorkspaceId = ml_workspaceId r,
         so_authProvider = (if ml_purpose r = TEAM_INVITE then ByInvite else ByMagicLink)\<rparr>) (\<lambda>en.
       ret \<lparr>lr_envelope = en, lr_redirectTo = js_default (ml_redirectUri r) (frontendBaseUrl E @ ''/inbox''),
            lr_flow = link_flow (ml_purpose r)\<rparr>) s' = (Inr res, t)"
    using assms r live u unfolding consumeMagicLink_def bind_gets auth_clock_def
    by (auto elim!: seq_Inr simp: bind_gets split: if_splits)
  moreover have "same_login s' t" and "lr_flow res = link_flow (ml_purpose r)"
    using cs keeps_result [OF login_create] by (auto elim!: bind_Inr simp: ret_def)
  ultimately show thesis using that r live u by blast
qed

text \<open>
  A magic link, a verification link and a reset link work once: the use that succeeds finds the
  link unexpired and unused, and every later use is refused and changes nothing. Only the link of an
  invitation works again.
\<close>

theorem magic_link_once:
  assumes run: "consumeMagicLink E raw mt s = (Inr res, t)"
    and "lr_flow res \<noteq> ''invite''"
  shows "\<exists>r. find (\<lambda>r. ml_tokenHash r = ae_hash E raw) (a_links s) = Some r \<and> ml_consumedAt r = None
    \<and> ae_now E s < ml_expiresAt r
    \<and> (\<forall>mt'. consumeMagicLink E raw mt' t = (Inl (UnauthorizedException ''Invalid or expired magic link''), t))"
proof -
  obtain r u s' where r: "find (\<lambda>r. ml_tokenHash r = ae_hash E raw) (a_links s) = Some r"
    and live: "ae_now E s < ml_expiresAt r" "ml_purpose r = TEAM_INVITE \<or> ml_consumedAt r = None"
    and w: "consume_writes E r u s = (Inr (), s')" and same: "same_login s' t"
    and flow: "lr_flow res = link_flow (ml_purpose r)"
    using link_found [OF run] by metis
  have p: "ml_purpose r \<noteq> TEAM_INVITE" using assms(2) flow by auto
  with live have fresh: "ml_consumedAt r = None" by simp
  let ?f = "\<lambda>x. x\<lparr>ml_consumedAt := Some (ae_now E s)\<rparr>"
  have links: "a_links t = upd_where (\<lambda>x. ml_id x = ml_id r) ?f (a_links s)"
    using consume_writes_links [OF w] fresh same by (simp add: same_login_def)
  have "find (\<lambda>x. ml_tokenHash x = ae_hash E raw) (a_links t) = Some (?f r)"
    unfolding links by (subst find_upd_where) (simp_all add: r)
  then have "consumeMagicLink E raw mt' t = (Inl (UnauthorizedException ''Invalid or expired magic link''), t)" for mt'
    using p by (simp add: consumeMagicLink_def bind_gets auth_clock_def throw_def)
  with r fresh live(1) show ?thesis by blast
qed

definition sample_link :: link_row where
  "sample_link = \<lparr>ml_id = ''l1'', ml_userId = Some ''u1'', ml_email = ''ann@desk.io'', ml_tokenHash = ''link'',
     ml_purpose = MAGIC_LINK_LOGIN, ml_organizationId = None, ml_workspaceId = None, ml_redirectUri = None,
     ml_expiresAt = 901000, ml_consumedAt = None\<rparr>"

lemmas create_eval = createSession_def session_create_def token_create_def getSessionContext_def load_context_def
  getSessionRecord_def cache_set_def logAudit_def buildEnvelope_def signAccessToken_def io_simps auth_clock_def
  Let_def new_session_def new_token_def session_ttl_def session_active_def addSeconds_def row_ids_def
  user_update_def row_update_def demo_simps

theorem magic_link_witness:
  "\<exists>res t. consumeMagicLink demo_env ''link'' sample_meta (sample_auth\<lparr>a_links := [sample_link]\<rparr>) = (Inr res, t)
     \<and> consumeMagicLink demo_env ''link'' sample_meta t = (Inl (UnauthorizedException ''Invalid or expired magic link''), t)"
proof -
  let ?s = "sample_auth\<lparr>a_links := [sample_link]\<rparr>"
  have "\<not> isl (fst (consumeMagicLink demo_env ''link'' sample_meta ?s))"
    by (simp add: consumeMagicLink_def consume_writes_def link_user_def user_by_email_def link_update_def sample_link_def
        sample_auth_defs create_eval)
  then obtain res t where run: "consumeMagicLink demo_env ''link'' sample_meta ?s = (Inr res, t)"
    by (metis prod.collapse sum.collapse(2))
  then have "lr_flow res = ''magic-link''"
    by (elim link_found) (auto simp: sample_link_def demo_simps)
  with magic_link_once [OF run] run show ?thesis by auto
qed

end
