(* ===== verification/Auth_Properties.thy ===== *)
theory Auth_Properties
  imports Auth_Codes
begin

text \<open>
  The properties of the ways in: what a password sign-in requires, how failures lock a credential
  and exhaust a one-time code, how often a link works, what a password change ends, and what the
  setup of the second factor does to a factor that is in use.
\<close>

section \<open>Password sign-in\<close>

text \<open>The tables that sign-in reads before it decides are not changed by the rate counter.\<close>

lemma consume_run:
  "\<exists>rr s'. consume E key n w s = (Inr rr, s') \<and> a_users s' = a_users s \<and> a_creds s' = a_creds s
     \<and> a_secrets s' = a_secrets s \<and> a_backups s' = a_backups s
     \<and> rr_allowed rr = (int (rr_current rr) \<le> n)
     \<and> rr_current rr = (case map_of (a_rates s) (rate_key key) of
          Some (k, e) \<Rightarrow> if ae_now E s < e then Suc k else 1 | None \<Rightarrow> 1)"
  by (cases "map_of (a_rates s) (rate_key key)")
     (auto simp: consume_def io_simps auth_clock_def Let_def)

definition rate_count :: "auth_env \<Rightarrow> auth \<Rightarrow> string \<Rightarrow> nat" where
  "rate_count E s key = (case map_of (a_rates s) (rate_key key) of
     Some (n, e) \<Rightarrow> if ae_now E s < e then n else 0 | None \<Rightarrow> 0)"

lemma challenge_sound:
  assumes "signin_challenge E dto mt email user secret s = (Inr en, t)" and clock: "\<And>x. ae_now E x = now"
    and "distinct (map bk_codeHash (a_backups s))" and "distinct (map bk_id (a_backups s))"
  shows "us_emailVerifiedAt user \<noteq> None"
    and "secret = Some r \<Longrightarrow> tf_enabledAt r \<noteq> None \<Longrightarrow> totp_accepts E now (tf_secretEncrypted r) (si_totpCode dto)
      \<or> unused_backup E s (us_id user) (si_backupCode dto)"
proof -
  show verified: "us_emailVerifiedAt user \<noteq> None"
    using assms(1) by (auto simp: signin_challenge_def split: if_splits)
  assume r: "secret = Some r" "tf_enabledAt r \<noteq> None"
  obtain y where c: "verifyTwoFactorChallenge E (us_id user) (tf_secretEncrypted r) (si_totpCode dto)
      (si_backupCode dto) s = (Inr True, y)"
    using assms(1) verified r
    by (auto simp: signin_challenge_def elim!: bind_Inr split: if_splits)
  then obtain b u where b: "totp_challenge E (us_id user) (tf_secretEncrypted r) (si_totpCode dto) s = (Inr b, u)"
    and rest: "(if b then ret True else backup_challenge E (us_id user) (si_backupCode dto)) u = (Inr True, y)"
    unfolding verifyTwoFactorChallenge_def by (elim bind_Inr)
  note res = totp_challenge_result [OF b]
  show "totp_accepts E now (tf_secretEncrypted r) (si_totpCode dto) \<or> unused_backup E s (us_id user) (si_backupCode dto)"
  proof (cases b)
    case True
    with res(1) clock show ?thesis by simp
  next
    case False
    with res(3) have "u = s" by simp
    with rest False have "backup_challenge E (us_id user) (si_backupCode dto) s = (Inr True, y)" by simp
    from backup_challenge_result(1) [OF this assms(3,4)] show ?thesis by simp
  qed
qed

text \<open>What every successful sign-in went through before the password was checked.\<close>

lemma signin_steps:
  assumes run: "signIn E dto mt s = (Inr en, t)"
  obtains u cr s' where "user_by_email s (normalizeEmail (si_email dto)) = Some u"
    and "credential_of s (us_id u) = Some cr" and "js_truthy (cd_passwordHash cr)"
    and "signin_password E dto mt (normalizeEmail (si_email dto)) u cr (signin_secret s (us_id u)) s' = (Inr en, t)"
    and "a_backups s' = a_backups s"
    and "int (rate_count E s (login_key (normalizeEmail (si_email dto)) mt))
        < setting E ''AUTH_LOGIN_RATE_LIMIT_MAX_ATTEMPTS'' 10"
proof -
  let ?email = "normalizeEmail (si_email dto)"
  let ?max = "setting E ''AUTH_LOGIN_RATE_LIMIT_MAX_ATTEMPTS'' 10"
  obtain rr s' where c: "consume E (login_key ?email mt) ?max
      (setting E ''AUTH_LOGIN_RATE_LIMIT_WINDOW_SECONDS'' (15 * 60)) s = (Inr rr, s')"
    and same: "a_users s' = a_users s" "a_creds s' = a_creds s" "a_secrets s' = a_secrets s" "a_backups s' = a_backups s"
    and rate: "rr_allowed rr = (int (rr_current rr) \<le> ?max)" "rr_current rr = Suc (rate_count E s (login_key ?email mt))"
    using consume_run [of E "login_key ?email mt" ?max _ s]
    by (force simp: rate_count_def split: option.splits if_splits)
  have allowed: "rr_allowed rr" using run c by (auto simp: signIn_def Let_def bind_io_def split: if_splits)
  obtain u cr where "user_by_email s ?email = Some u" "credential_of s (us_id u) = Some cr"
    "js_truthy (cd_passwordHash cr)"
    "signin_password E dto mt ?email u cr (signin_secret s (us_id u)) s' = (Inr en, t)"
    using run c allowed same unfolding signIn_def Let_def bind_io_def [of "consume _ _ _ _"]
    by (auto simp: bind_gets user_by_email_def credential_of_def signin_secret_def
        split: option.splits if_splits)
  with same(4) rate allowed that show thesis by simp
qed

text \<open>
  C19: A password sign-in succeeds only for a user whose stored hash verifies the password, whose
  credential is not locked, whose email is verified and, where a second factor is enabled, with a
  current authenticator code or an unused backup code of that user; and only while the sign-ins
  counted for this email and address are fewer than the limit.
\<close>

theorem signin_sound:
  assumes run: "signIn E dto mt s = (Inr en, t)" and clock: "\<And>x. ae_now E x = now"
    and "distinct (map bk_codeHash (a_backups s))" and "distinct (map bk_id (a_backups s))"
  shows "\<exists>u c hash. user_by_email s (normalizeEmail (si_email dto)) = Some u \<and> credential_of s (us_id u) = Some c
    \<and> cd_passwordHash c = Some hash \<and> ae_argon_verify E hash (si_password dto)
    \<and> (case cd_lockedUntil c of None \<Rightarrow> True | Some until \<Rightarrow> until \<le> now)
    \<and> us_emailVerifiedAt u \<noteq> None
    \<and> (case signin_secret s (us_id u) of None \<Rightarrow> True
       | Some r \<Rightarrow> tf_enabledAt r = None \<or> totp_accepts E now (tf_secretEncrypted r) (si_totpCode dto)
           \<or> unused_backup E s (us_id u) (si_backupCode dto))
    \<and> int (rate_count E s (login_key (normalizeEmail (si_email dto)) mt))
        < setting E ''AUTH_LOGIN_RATE_LIMIT_MAX_ATTEMPTS'' 10"
proof -
  let ?email = "normalizeEmail (si_email dto)"
  obtain u cr s' where u: "user_by_email s ?email = Some u" and cr: "credential_of s (us_id u) = Some cr"
    and truthy: "js_truthy (cd_passwordHash cr)"
    and p: "signin_password E dto mt ?email u cr (signin_secret s (us_id u)) s' = (Inr en, t)"
    and same: "a_backups s' = a_backups s"
    and rate: "int (rate_count E s (login_key ?email mt)) < setting E ''AUTH_LOGIN_RATE_LIMIT_MAX_ATTEMPTS'' 10"
    using signin_steps [OF run] .
  have unlocked: "case cd_lockedUntil cr of None \<Rightarrow> True | Some until \<Rightarrow> until \<le> now"
    and verified: "ae_argon_verify E (the (cd_passwordHash cr)) (si_password dto)"
    and "\<exists>x y. cred_update (\<lambda>c. cd_id c = cd_id cr)
      (\<lambda>c. c\<lparr>cd_failedPasswordAttempts := 0, cd_lockedUntil := None\<rparr>) s' = (Inr x, y)
      \<and> signin_challenge E dto mt ?email u (signin_secret s (us_id u)) y = (Inr en, t)"
    using p clock unfolding signin_password_def auth_clock_def bind_gets
    by (auto split: if_splits option.splits elim!: seq_Inr)
  then obtain x y where upd: "cred_update (\<lambda>c. cd_id c = cd_id cr)
      (\<lambda>c. c\<lparr>cd_failedPasswordAttempts := 0, cd_lockedUntil := None\<rparr>) s' = (Inr x, y)"
    and ch: "signin_challenge E dto mt ?email u (signin_secret s (us_id u)) y = (Inr en, t)" by blast
  have codes: "a_backups y = a_backups s"
    using upd same by (auto simp: cred_update_def row_update_def split: option.splits)
  note sound = challenge_sound [OF ch clock]
  have "case signin_secret s (us_id u) of None \<Rightarrow> True
    | Some r \<Rightarrow> tf_enabledAt r = None \<or> totp_accepts E now (tf_secretEncrypted r) (si_totpCode dto)
        \<or> unused_backup E s (us_id u) (si_backupCode dto)"
    using sound(2) assms(3,4) codes by (auto simp: unused_backup_def split: option.split)
  moreover obtain hash where "cd_passwordHash cr = Some hash" using truthy by (cases "cd_passwordHash cr") auto
  moreover have "us_emailVerifiedAt u \<noteq> None" using sound(1) assms(3,4) codes by simp
  ultimately show ?thesis
    using u cr verified unlocked rate
    by (intro exI [of _ u] exI [of _ cr] exI [of _ hash]) simp
qed

definition sample_credential :: credential where
  "sample_credential = \<lparr>cd_id = ''c1'', cd_userId = ''u1'', cd_passwordHash = Some ''Correct-Horse-1'',
     cd_passwordUpdatedAt = Some 0, cd_mustRotatePassword = False, cd_failedPasswordAttempts = 9, cd_lockedUntil = None\<rparr>"

definition sample_login :: auth where
  "sample_login = sample_auth\<lparr>a_creds := [sample_credential]\<rparr>"

lemmas login_eval = signin_password_def signin_challenge_def consume_def clear_def recordLoginAttempt_def
  cred_update_def user_by_email_def credential_of_def signin_secret_def login_key_def rate_key_def
  sample_login_def sample_auth_defs sample_credential_def

definition sample_signin :: "string \<Rightarrow> sign_in_dto" where
  "sample_signin pw = \<lparr>si_email = '' Ann@desk.io'', si_password = pw, si_rememberMe = False, si_totpCode = None,
     si_backupCode = None, si_currentWorkspaceId = None, si_currentOrganizationId = None\<rparr>"

lemma sample_email: "normalizeEmail (si_email (sample_signin pw)) = ''ann@desk.io''"
proof -
  have "normalizeEmail '' Ann@desk.io'' = ''ann@desk.io''" by code_simp
  then show ?thesis by (simp add: sample_signin_def)
qed

text \<open>Nine failures, then the right password.\<close>

theorem signin_sound_witness:
  "\<exists>en t. signIn demo_env (sample_signin ''Correct-Horse-1'') sample_meta sample_login = (Inr en, t)
     \<and> int (rate_count demo_env sample_login (login_key ''ann@desk.io'' sample_meta))
         < setting demo_env ''AUTH_LOGIN_RATE_LIMIT_MAX_ATTEMPTS'' 10"
proof -
  have "\<not> isl (fst (signIn demo_env (sample_signin ''Correct-Horse-1'') sample_meta sample_login))"
    unfolding signIn_def Let_def sample_email by (simp add: login_eval create_eval sample_signin_def)
  then obtain en t where run: "signIn demo_env (sample_signin ''Correct-Horse-1'') sample_meta sample_login = (Inr en, t)"
    by (metis prod.collapse sum.collapse(2))
  have "ae_now demo_env x = 1000" for x by (simp add: demo_env_def)
  moreover have "a_backups sample_login = []" by (simp add: sample_login_def sample_auth_def empty_auth_def)
  ultimately show ?thesis using signin_sound [OF run] run unfolding sample_email by fastforce
qed

section \<open>Lockout\<close>

lemma locked_refused:
  assumes "user_by_email s (normalizeEmail (si_email dto)) = Some u" and "credential_of s (us_id u) = Some c"
    and "cd_lockedUntil c = Some until" and "\<And>x. ae_now E x < until"
  shows "fst (signIn E dto mt s) \<noteq> Inr en"
proof
  assume "fst (signIn E dto mt s) = Inr en"
  then obtain t where "signIn E dto mt s = (Inr en, t)" by (metis prod.collapse)
  then obtain u' c' s' where "user_by_email s (normalizeEmail (si_email dto)) = Some u'"
    "credential_of s (us_id u') = Some c'" and p:
    "signin_password E dto mt (normalizeEmail (si_email dto)) u' c' (signin_secret s (us_id u')) s' = (Inr en, t)"
    by (rule signin_steps)
  with assms(1,2) have "u' = u" "c' = c" by simp_all
  with p assms(3,4) show False by (simp add: signin_password_def auth_clock_def bind_gets)
qed

text \<open>A wrong password on an unlocked credential, the counter below its limit.\<close>

lemma wrong_password_run:
  assumes u: "user_by_email s (normalizeEmail (si_email dto)) = Some u" and c: "credential_of s (us_id u) = Some c"
    and "js_truthy (cd_passwordHash c)" and "cd_lockedUntil c = None"
    and "\<not> ae_argon_verify E (the (cd_passwordHash c)) (si_password dto)" and clock: "\<And>x. ae_now E x = now"
    and rate: "int (rate_count E s (login_key (normalizeEmail (si_email dto)) mt))
        < setting E ''AUTH_LOGIN_RATE_LIMIT_MAX_ATTEMPTS'' 10"
    and ids: "distinct (map cd_id (a_creds s))"
  obtains t where "signIn E dto mt s = (Inl (UnauthorizedException ''Invalid email or password''), t)"
    and "a_users t = a_users s" and "a_creds t = upd_where (\<lambda>x. cd_id x = cd_id c) (failed_row now c) (a_creds s)"
proof -
  let ?email = "normalizeEmail (si_email dto)"
  let ?max = "setting E ''AUTH_LOGIN_RATE_LIMIT_MAX_ATTEMPTS'' 10"
  obtain rr s' where co: "consume E (login_key ?email mt) ?max
      (setting E ''AUTH_LOGIN_RATE_LIMIT_WINDOW_SECONDS'' (15 * 60)) s = (Inr rr, s')"
    and same: "a_users s' = a_users s" "a_creds s' = a_creds s" "a_secrets s' = a_secrets s"
    and allowed: "rr_allowed rr"
    using consume_run [of E "login_key ?email mt" ?max _ s] rate
    by (force simp: rate_count_def split: option.splits if_splits)
  have "c \<in> set (a_creds s)" using c by (auto simp: credential_of_def dest: find_Some_in)
  then have row: "find (\<lambda>x. cd_id x = cd_id c) (a_creds s') = Some c"
    unfolding same(2) by (rule find_unique_key [OF ids])
  have "user_by_email s' ?email = Some u" "credential_of s' (us_id u) = Some c"
    using u c by (simp_all add: user_by_email_def credential_of_def same)
  then have "signIn E dto mt s = signin_password E dto mt ?email u c (signin_secret s' (us_id u)) s'"
    using assms(3) allowed unfolding signIn_def Let_def bind_io_def [of "consume _ _ _ _"] co
    by (simp add: bind_gets)
  also have "\<dots> = (Inl (UnauthorizedException ''Invalid email or password''),
      snd (recordLoginAttempt ?email (Some (us_id u)) AttemptFailure ''invalid-password''
        (s'\<lparr>a_creds := upd_where (\<lambda>x. cd_id x = cd_id c) (failed_row now c) (a_creds s')\<rparr>)))"
    using assms(4,5) clock row
    by (simp add: signin_password_def auth_clock_def io_simps cred_update_def row_update_def recordLoginAttempt_def)
  finally show thesis by (rule that) (simp_all add: recordLoginAttempt_def modify_def same)
qed



end
