(* ===== verification/Auth_Accounts.thy ===== *)
theory Auth_Accounts
  imports Auth_Codes
begin

text \<open>
  What happens to an account when its password, its sign-up or its second factor changes: a new
  password ends the other sessions, a sign-up on an account without a password sets one, and the
  setup of the second factor switches off the one in use.
\<close>

section \<open>A new password\<close>

lemma revoke_loop_ends:
  assumes "r \<in> set (a_sessions s)" and "se_id r \<in> set ids"
  shows "ended (snd (for_io (\<lambda>i. revokeSessionInternal E i why) ids s)) (se_id r)"
  using assms
proof (induction ids arbitrary: s r)
  case Nil
  then show ?case by simp
next
  case (Cons i ids)
  let ?t = "snd (revokeSessionInternal E i why s)"
  have run: "snd (for_io (\<lambda>i. revokeSessionInternal E i why) (i # ids) s)
      = snd (for_io (\<lambda>i. revokeSessionInternal E i why) ids ?t)"
    by (simp add: io_simps revoke_run)
  have rest: "sessions_last ?t (snd (for_io (\<lambda>i. revokeSessionInternal E i why) ids ?t))"
    by (rule keepsD) (intro lasting.r_for last_revoke)
  show ?case
  proof (cases "se_id r = i")
    case True
    with Cons.prems(1) have "ended ?t (se_id r)" using revoke_ends [of i s E why] by force
    then show ?thesis unfolding run by (rule ended_last [OF rest])
  next
    case False
    have "sessions_last s ?t" by (rule keepsD [OF last_revoke])
    then obtain r' where "r' \<in> set (a_sessions ?t)" "se_id r' = se_id r"
      using Cons.prems(1) unfolding sessions_last_def by blast
    with Cons.IH [of r' ?t] False Cons.prems(2) show ?thesis unfolding run by simp
  qed
qed

lemma revokeAll_ends:
  assumes "r \<in> set (a_sessions s)" and "se_userId r = userId" and "Some (se_id r) \<noteq> except"
  shows "ended (snd (revokeAllSessions E userId except s)) (se_id r)"
proof -
  let ?ids = "map se_id (filter (\<lambda>r. se_userId r = userId
     \<and> (js_truthy except \<longrightarrow> Some (se_id r) \<noteq> except) \<and> se_revokedAt r = None) (a_sessions s))"
  have run: "snd (revokeAllSessions E userId except s) =
      snd (for_io (\<lambda>i. revokeSessionInternal E i ''revoke-all'') ?ids s)"
    unfolding revokeAllSessions_def bind_gets by (auto simp: io_simps split: prod.splits sum.splits)
  show ?thesis
  proof (cases "se_revokedAt r = None")
    case True
    with assms have "se_id r \<in> set ?ids" by auto
    then show ?thesis unfolding run by (rule revoke_loop_ends [OF assms(1)])
  next
    case False
    with assms(1) have "ended s (se_id r)" by (auto simp: ended_def session_active_def)
    then show ?thesis by (rule ended_last [OF keepsD [OF last_ends(2)]])
  qed
qed

lemma hash_run:
  assumes "hashPassword E pw s = (Inr hash, t)"
  shows "t = s" and "hash = ae_argon_hash E s pw" and "setting E ''AUTH_PASSWORD_MIN_LENGTH'' 12 \<le> int (length pw)"
  using assms by (auto simp: hashPassword_def assertPasswordPolicy_def io_simps split: if_splits)

lemma policy_passes:
  assumes "list_ex is_upper pw \<and> list_ex is_lower pw \<and> list_ex js_digit pw
      \<and> list_ex (\<lambda>c. \<not> is_upper c \<and> \<not> is_lower c \<and> \<not> js_digit c) pw"
    and "setting E ''AUTH_PASSWORD_MIN_LENGTH'' 12 \<le> int (length pw)"
  shows "hashPassword E pw s = (Inr (ae_argon_hash E s pw), s)"
  using assms by (simp add: hashPassword_def assertPasswordPolicy_def io_simps)

lemma cred_upsert_run:
  "\<exists>t c. cred_upsert E userId hash s = (Inr (), t) \<and> credential_of t userId = Some c \<and> cd_passwordHash c = Some hash
     \<and> cd_lockedUntil c = None \<and> a_sessions t = a_sessions s \<and> a_users t = a_users s"
proof (cases "credential_of s userId")
  case None
  then have "find (\<lambda>c. cd_userId c = userId) (a_creds s @ [c]) = (if cd_userId c = userId then Some c else None)" for c
    unfolding credential_of_def by (induction "a_creds s") (auto simp: find_None_iff find_Some_iff nth_append)
  with None show ?thesis by (simp add: cred_upsert_def io_simps auth_clock_def credential_of_def)
next
  case (Some c)
  then have "find (\<lambda>c. cd_userId c = userId) (upd_where (\<lambda>c. cd_userId c = userId)
      (set_password_row now hash) (a_creds s)) = Some (set_password_row now hash c)" for now
    unfolding credential_of_def by (rule find_upd_where_same) (simp add: set_password_row_def)
  with Some show ?thesis
    by (simp add: cred_upsert_def io_simps auth_clock_def credential_of_def set_password_row_def)
qed



section \<open>Sign-up on an account without a password\<close>

text \<open>The verification mail and the audit row do not change users or credentials.\<close>

definition same_accounts :: "auth \<Rightarrow> auth \<Rightarrow> bool" where
  "same_accounts s t \<longleftrightarrow> a_users t = a_users s \<and> a_creds t = a_creds s"

interpretation accounts: step_order same_accounts
  by unfold_locales (auto simp: same_accounts_def)

lemma accounts_issue: "keeps same_accounts (issueEmailVerification E userId email)"
proof -
  have "keeps same_accounts (verification_create E userId email raw expiry)" "keeps same_accounts (link_create E link)"
    "keeps same_accounts (otp_create E userId email purpose code)" "keeps same_accounts (sendMail E m)"
    "keeps same_accounts (logAudit ev u sid)" "keeps same_accounts (auth_clock E)" for raw expiry link purpose code m ev u sid
    by (auto simp: keeps_def same_accounts_def verification_create_def link_create_def otp_create_def sendMail_def
        logAudit_def auth_clock_def io_simps split: option.splits)
  then show ?thesis unfolding issueEmailVerification_def Let_def
    by (intro accounts.r_intros keeps_transaction accounts.R_refl)
qed

text \<open>
  A sign-up with the email of a verified account that has no password yet (one that came
  through Google or an invitation) succeeds without any proof of that email, keeps the account
  verified and stores the password of the request: the next sign-in with it meets the account's
  password check.
\<close>

theorem signup_claims_account:
  assumes u: "user_by_email s (normalizeEmail (su_email dto)) = Some u" and "us_emailVerifiedAt u = Some v"
    and "credential_of s (us_id u) = None" and "distinct (map us_id (a_users s))"
    and run: "signUp E dto mt s = (Inr email, t)"
    and argon: "\<And>x p. ae_argon_verify E (ae_argon_hash E x p) p"
  shows "\<exists>u' c h. user_by_email t (normalizeEmail (su_email dto)) = Some u' \<and> us_id u' = us_id u
    \<and> us_emailVerifiedAt u' = Some v \<and> credential_of t (us_id u) = Some c \<and> cd_passwordHash c = Some h
    \<and> cd_lockedUntil c = None \<and> ae_argon_verify E h (su_password dto)"
proof -
  let ?email = "normalizeEmail (su_email dto)"
  let ?f = "\<lambda>r. with_names (signup_names dto) (r\<lparr>us_status := Some (js_default (us_status u) ''PENDING'')\<rparr>)"
  have in_u: "u \<in> set (a_users s)" "us_email u = ?email" using u by (auto simp: user_by_email_def dest: find_Some_in)
  have "\<not> list_ex (\<lambda>c. cd_userId c = us_id u \<and> js_truthy (cd_passwordHash c)) (a_creds s)"
    using assms(3) by (auto simp: credential_of_def list_ex_iff find_None_iff)
  then have "bind_io (user_update (us_id u) ?f) (\<lambda>user.
      bind_io (hashPassword E (su_password dto)) (\<lambda>hash. seq_io (cred_upsert E (us_id user) hash)
        (seq_io (issueEmailVerification E (us_id user) ?email)
          (seq_io (logAudit SIGN_UP (Some (us_id user)) None) (ret ?email))))) s = (Inr email, t)"
    using run u by (simp add: signUp_def Let_def bind_gets)
  then obtain user s1 where s1: "user_update (us_id u) ?f s = (Inr user, s1)"
    and a: "bind_io (hashPassword E (su_password dto)) (\<lambda>hash. seq_io (cred_upsert E (us_id user) hash)
        (seq_io (issueEmailVerification E (us_id user) ?email)
          (seq_io (logAudit SIGN_UP (Some (us_id user)) None) (ret ?email)))) s1 = (Inr email, t)"
    by (rule bind_Inr)
  have "find (\<lambda>r. us_id r = us_id u) (a_users s) = Some u" by (rule find_unique_key [OF assms(4) in_u(1)])
  then have user: "user = ?f u" "a_users s1 = upd_where (\<lambda>r. us_id r = us_id u) ?f (a_users s)"
    using s1 by (auto simp: user_update_def row_update_def)
  from a obtain hash x where h: "hashPassword E (su_password dto) s1 = (Inr hash, x)"
    and b: "seq_io (cred_upsert E (us_id user) hash) (seq_io (issueEmailVerification E (us_id user) ?email)
        (seq_io (logAudit SIGN_UP (Some (us_id user)) None) (ret ?email))) x = (Inr email, t)"
    by (rule bind_Inr)
  have x: "x = s1" "hash = ae_argon_hash E s1 (su_password dto)" using hash_run(1,2) [OF h] .
  obtain s2 c where c: "cred_upsert E (us_id u) hash s1 = (Inr (), s2)" "credential_of s2 (us_id u) = Some c"
      "cd_passwordHash c = Some hash" "cd_lockedUntil c = None" "a_users s2 = a_users s1"
    using cred_upsert_run by blast
  have id: "us_id user = us_id u" by (simp add: user(1) with_names_def)
  have keep: "keeps same_accounts (seq_io (issueEmailVerification E (us_id user) ?email)
        (seq_io (logAudit SIGN_UP (Some (us_id user)) None) (ret ?email)))"
    by (intro accounts.r_intros accounts_issue)
       (simp add: keeps_def logAudit_def modify_def same_accounts_def)
  have "seq_io (issueEmailVerification E (us_id user) ?email)
        (seq_io (logAudit SIGN_UP (Some (us_id user)) None) (ret ?email)) s2 = (Inr email, t)"
    using b c(1) unfolding x(1) id by (simp add: seq_run)
  with keepsD [OF keep, of s2] have same: "a_users t = a_users s1" "a_creds t = a_creds s2"
    using c(5) by (simp_all add: same_accounts_def)
  have "user_by_email t ?email = Some (?f u)"
    unfolding user_by_email_def same(1) user(2) using u
    by (subst find_upd_where) (simp_all add: with_names_def user_by_email_def)
  moreover have "credential_of t (us_id u) = Some c" using c(2) same(2) by (simp add: credential_of_def)
  moreover have "ae_argon_verify E hash (su_password dto)" using argon x(2) by simp
  ultimately show ?thesis using c(3,4) assms(2)
    by (intro exI [of _ "?f u"] exI [of _ c] exI [of _ hash]) (simp add: with_names_def)
qed

definition sample_signup :: sign_up_dto where
  "sample_signup = \<lparr>su_name = None, su_firstName = None, su_lastName = None, su_email = ''ann@desk.io'',
     su_password = ''Correct-Horse-1''\<rparr>"

theorem signup_claims_witness:
  "\<exists>c. credential_of (snd (signUp demo_env sample_signup sample_meta sample_auth)) ''u1'' = Some c
     \<and> cd_passwordHash c = Some ''Correct-Horse-1''"
proof -
  have email: "normalizeEmail ''ann@desk.io'' = ''ann@desk.io''" by code_simp
  have policy: "list_ex is_upper ''Correct-Horse-1'' \<and> list_ex is_lower ''Correct-Horse-1''
      \<and> list_ex js_digit ''Correct-Horse-1''
      \<and> list_ex (\<lambda>c. \<not> is_upper c \<and> \<not> is_lower c \<and> \<not> js_digit c) ''Correct-Horse-1''"
    by code_simp
  have hash: "hashPassword demo_env ''Correct-Horse-1'' x = (Inr ''Correct-Horse-1'', x)" for x
    using policy_passes [OF policy, of demo_env x] by (simp add: demo_simps)
  have "\<not> isl (fst (signUp demo_env sample_signup sample_meta sample_auth))"
    by (simp add: signUp_def sample_signup_def email user_by_email_def sample_auth_defs hash cred_upsert_def
        credential_of_def signup_names_def js_words_def with_names_def issueEmailVerification_def transaction_def
        verification_create_def link_create_def otp_create_def sendMail_def mail_configured_def env_first_def
        new_link_def new_mirror_def create_eval)
  then obtain e t where run: "signUp demo_env sample_signup sample_meta sample_auth = (Inr e, t)"
    by (metis prod.collapse sum.collapse(2))
  have "user_by_email sample_auth (normalizeEmail (su_email sample_signup)) = Some sample_account"
    "us_emailVerifiedAt sample_account = Some 1" "credential_of sample_auth (us_id sample_account) = None"
    "distinct (map us_id (a_users sample_auth))" "us_id sample_account = ''u1''"
    "su_password sample_signup = ''Correct-Horse-1''"
    by (simp_all add: sample_signup_def email user_by_email_def credential_of_def sample_auth_defs)
  with signup_claims_account [OF _ _ _ _ run, of sample_account 1] show ?thesis
    by (auto simp: run demo_simps)
qed

section \<open>The second factor\<close>

text \<open>
  Starting the setup of an authenticator replaces a secret that is already enabled and switches
  it off, without a code: every later sign-in of the user, with the secrets as they then are, is
  handled exactly as if there were no second factor.
\<close>

theorem totp_setup_disarms:
  assumes "startTotpSetup E userId s = (Inr secret, t)"
  shows "(case signin_secret t userId of None \<Rightarrow> True | Some r \<Rightarrow> tf_enabledAt r = None)
    \<and> (\<forall>E' dto mt email u. signin_challenge E' dto mt email u (signin_secret t userId) = signin_challenge E' dto mt email u None)"
proof -
  have off: "tf_enabledAt r = None" if "signin_secret t userId = Some r" for r
  proof -
    have r: "r \<in> set (a_secrets t)" "tf_userId r = userId" using that by (auto simp: signin_secret_def dest: find_Some_in)
    obtain u where u: "find (\<lambda>u. us_id u = userId) (a_users s) = Some u"
      using assms by (auto simp: startTotpSetup_def bind_gets split: option.splits)
    show ?thesis
    proof (cases "secret_of s userId")
      case None
      with assms u have "\<exists>x. a_secrets t = a_secrets s @ [x] \<and> tf_enabledAt x = None"
        by (auto simp: startTotpSetup_def io_simps)
      moreover have "r \<notin> set (a_secrets s)" using None r(2) by (auto simp: secret_of_def find_None_iff)
      ultimately show ?thesis using r(1) by auto
    next
      case (Some x)
      let ?enc = "ae_encrypt E s (toBase32 (ae_secret E s))"
      let ?f = "\<lambda>r. r\<lparr>tf_secretEncrypted := ?enc, tf_disabledAt := None, tf_confirmedAt := None, tf_enabledAt := None\<rparr>"
      have "startTotpSetup E userId s = (Inr (toBase32 (ae_secret E s)),
          s\<lparr>a_secrets := upd_where (\<lambda>r. tf_userId r = userId) ?f (a_secrets s)\<rparr>)"
        using u Some by (simp add: startTotpSetup_def io_simps secret_update_def row_update_def secret_of_def)
      with assms have "a_secrets t = upd_where (\<lambda>r. tf_userId r = userId) ?f (a_secrets s)" by auto
      with r(1) obtain x where "r = (if tf_userId x = userId then ?f x else x)"
        by (simp only: set_upd_where) (elim imageE, rule that)
      with r(2) show ?thesis by (cases "tf_userId x = userId") simp_all
    qed
  qed
  then have "signin_challenge E' dto mt email u (signin_secret t userId) = signin_challenge E' dto mt email u None"
    for E' dto mt email u
    by (cases "signin_secret t userId") (simp_all add: signin_challenge_def)
  with off show ?thesis by (simp split: option.split)
qed

definition sample_secret :: totp_row where
  "sample_secret = \<lparr>tf_id = ''f1'', tf_userId = ''u1'', tf_secretEncrypted = ''MFRGG'', tf_label = None,
     tf_confirmedAt = Some 1, tf_enabledAt = Some 1, tf_disabledAt = None, tf_lastUsedAt = None\<rparr>"

theorem totp_setup_witness:
  "signin_secret (sample_auth\<lparr>a_secrets := [sample_secret]\<rparr>) ''u1'' = Some sample_secret
   \<and> (case signin_secret (snd (startTotpSetup demo_env ''u1'' (sample_auth\<lparr>a_secrets := [sample_secret]\<rparr>))) ''u1'' of
        None \<Rightarrow> True | Some r \<Rightarrow> tf_enabledAt r = None)"
proof -
  let ?s = "sample_auth\<lparr>a_secrets := [sample_secret]\<rparr>"
  have "\<not> isl (fst (startTotpSetup demo_env ''u1'' ?s))"
    by (simp add: startTotpSetup_def bind_gets secret_of_def secret_update_def sample_secret_def sample_auth_defs create_eval)
  then obtain x t where run: "startTotpSetup demo_env ''u1'' ?s = (Inr x, t)"
    by (metis prod.collapse sum.collapse(2))
  have "signin_secret ?s ''u1'' = Some sample_secret" by (simp add: signin_secret_def sample_secret_def)
  with totp_setup_disarms [OF run] show ?thesis by (simp add: run)
qed

end
