(* ===== verification/Auth_Guard.thy ===== *)
theory Auth_Guard
  imports Auth_System
begin

text \<open>
  \<^verbatim>\<open>common/guards/jwt.guard.ts\<close>, the guard in front of every route that is not public, and its
  composition with the route guard of the access-control component: the access token names a
  session, the session gives the user with its roles, and the roles decide.
\<close>

section \<open>The guard\<close>

text \<open>
  The verification of a Supabase token is code of another service; what the guard reads of its
  payload is an argument. \<open>HeaderAbsent\<close> and a header without the prefix are refused alike.
\<close>

record supabase_payload =
  sp_email :: string
  sp_sub :: string
  sp_avatar_url :: "string option"

record jwt_user =
  ju_id :: string
  ju_email :: string
  ju_firstName :: "string option"
  ju_lastName :: "string option"
  ju_status :: "string option"
  ju_sessionId :: "string option"
  ju_currentWorkspaceId :: "string option"
  ju_currentOrganizationId :: "string option"
  ju_workspaceRoles :: "(string \<times> string) list"
  ju_orgRoles :: "(string \<times> string) list"

definition context_user :: "session_context \<Rightarrow> jwt_user" where
  "context_user cx =
     \<lparr>ju_id = cx_userId cx, ju_email = us_email (cx_user cx), ju_firstName = us_firstName (cx_user cx),
      ju_lastName = us_lastName (cx_user cx), ju_status = us_status (cx_user cx), ju_sessionId = Some (cx_sessionId cx),
      ju_currentWorkspaceId = cx_currentWorkspaceId cx, ju_currentOrganizationId = cx_currentOrganizationId cx,
      ju_workspaceRoles = cx_workspaceRoles cx, ju_orgRoles = cx_orgRoles cx\<rparr>"

definition row_user :: "auth \<Rightarrow> user_row \<Rightarrow> jwt_user" where
  "row_user s u =
     \<lparr>ju_id = us_id u, ju_email = us_email u, ju_firstName = us_firstName u, ju_lastName = us_lastName u,
      ju_status = us_status u, ju_sessionId = None, ju_currentWorkspaceId = None, ju_currentOrganizationId = None,
      ju_workspaceRoles = memberships (a_wsMembers s) (us_id u), ju_orgRoles = memberships (a_orgMembers s) (us_id u)\<rparr>"

definition session_user :: "auth_env \<Rightarrow> string \<Rightarrow> jwt_user authed" where
  "session_user E token =
     bind_io (verifyAccessToken E token) (\<lambda>sid.
       bind_io (getSessionContext E sid False None) (\<lambda>cx. ret (context_user cx)))"

text \<open>The user of a Supabase token is created or activated by its email.\<close>

definition supabase_user :: "auth_env \<Rightarrow> supabase_payload \<Rightarrow> jwt_user authed" where
  "supabase_user E p =
     bind_io (auth_clock E) (\<lambda>now.
       bind_io (gets (\<lambda>s. user_by_email s (sp_email p))) (\<lambda>found.
         seq_io
           (modify (\<lambda>s. case found of
              Some _ \<Rightarrow> s\<lparr>a_users := upd_where (\<lambda>u. us_email u = sp_email p)
                (\<lambda>u. u\<lparr>us_status := Some ''ACTIVE'', us_emailVerifiedAt := Some now\<rparr>) (a_users s)\<rparr>
            | None \<Rightarrow> s\<lparr>a_users := a_users s @ [(blank_user (sp_email p) ''ACTIVE'')\<lparr>us_id := sp_sub p,
                us_firstName := Some (hd (js_split (CHR ''@'') (sp_email p))),
                us_avatarUrl := Some (js_default (sp_avatar_url p) []), us_emailVerifiedAt := Some now\<rparr>]\<rparr>))
           (gets (\<lambda>s. case user_by_email s (sp_email p) of
              Some u \<Rightarrow> row_user s u
            | None \<Rightarrow> row_user s (blank_user (sp_email p) ''ACTIVE'')))))"

definition legacy_user ::
  "auth_env \<Rightarrow> (string \<Rightarrow> supabase_payload option) \<Rightarrow> string \<Rightarrow> jwt_user authed" where
  "legacy_user E supabase token =
     (if js_default (ae_var E ''AUTH_ACCEPT_SUPABASE_TOKENS'') ''false'' \<noteq> ''true'' then
        throw (UnauthorizedException ''Invalid token'')
      else case supabase token of
        None \<Rightarrow> throw (UnauthorizedException ''Invalid token'')
      | Some p \<Rightarrow> supabase_user E p)"

text \<open>The user of an admitted request; a public route is admitted without one.\<close>

definition jwt_canActivate ::
  "auth_env \<Rightarrow> (string \<Rightarrow> supabase_payload option) \<Rightarrow> route_access option \<Rightarrow> string option \<Rightarrow> jwt_user option authed" where
  "jwt_canActivate E supabase access header =
     (if access = Some Public then ret None
      else if \<not> js_truthy header \<or> \<not> js_starts_with (the header) ''Bearer '' then
        throw (UnauthorizedException ''Missing token'')
      else let token = drop 7 (the header)
        in bind_io (catch_io (session_user E token) (\<lambda>_. legacy_user E supabase token)) (\<lambda>user.
             if ju_status user \<noteq> Some ''ACTIVE'' then
               throw (ForbiddenException ''Account not activated. Please set your password.'')
             else ret (Some user)))"

section \<open>Both guards\<close>

definition guard_user_of :: "jwt_user \<Rightarrow> guard_user" where
  "guard_user_of u =
     \<lparr>gu_id = Some (ju_id u), gu_email = Some (ju_email u), gu_firstName = ju_firstName u, gu_lastName = ju_lastName u,
      gu_orgRoles = Some (ju_orgRoles u), gu_workspaceRoles = Some (ju_workspaceRoles u)\<rparr>"

text \<open>The two global guards in the order of \<^verbatim>\<open>app.module.ts\<close>; the first fills in the user of the request.\<close>

definition guarded_request ::
  "auth_env \<Rightarrow> (string \<Rightarrow> supabase_payload option) \<Rightarrow> route_access option \<Rightarrow> route_access option \<Rightarrow> string option
     \<Rightarrow> request \<Rightarrow> request authed" where
  "guarded_request E supabase handler cls header rq =
     bind_io (jwt_canActivate E supabase (getAllAndOverride handler cls) header) (\<lambda>user.
       let rq' = (case user of None \<Rightarrow> rq | Some u \<Rightarrow> rq\<lparr>rq_user := Some (guard_user_of u)\<rparr>)
       in case canActivate handler cls rq' of
            (Inl e, _) \<Rightarrow> throw e
          | (Inr ok, rq'') \<Rightarrow> if ok then ret rq'' else throw (ForbiddenException ''Forbidden resource''))"

section \<open>Who is admitted\<close>

lemma starts_with_rest: "js_starts_with s p \<Longrightarrow> s = p @ drop (length p) s"
  unfolding js_starts_with_def by (metis append_take_drop_id)

lemma session_user_run:
  assumes "session_user E token s = (Inr user, t)" and "sessions_ok s"
  shows "\<exists>claims sid r. ae_verify E (ae_now E s) token = Some claims \<and> ac_type claims = ''access'' \<and> ac_sid claims = Some sid
    \<and> ju_sessionId user = Some sid \<and> r \<in> set (a_sessions s) \<and> se_id r = sid \<and> se_userId r = ju_id user \<and> session_active r"
proof -
  obtain sid x where v: "verifyAccessToken E token s = (Inr sid, x)"
    and a: "bind_io (getSessionContext E sid False None) (\<lambda>cx. ret (context_user cx)) x = (Inr user, t)"
    using assms(1) unfolding session_user_def by (rule bind_Inr)
  from a obtain cx y where cx: "getSessionContext E sid False None x = (Inr cx, y)" and u: "user = context_user cx"
    by (elim bind_Inr) (auto simp: ret_def)
  have "x = s" "\<exists>claims. ae_verify E (ae_now E s) token = Some claims \<and> ac_type claims = ''access'' \<and> ac_sid claims = Some sid"
    using v by (auto simp: verifyAccessToken_def auth_clock_def bind_gets ret_def split: option.splits if_splits)
  moreover from served_active [OF assms(2) cx [unfolded \<open>x = s\<close>]]
  obtain r where "cx_sessionId cx = sid" "r \<in> set (a_sessions s)" "se_id r = sid" "se_userId r = cx_userId cx" "session_active r"
    by blast
  ultimately show ?thesis using u by (auto simp: context_user_def)
qed


definition sample_claims :: access_claims where
  "sample_claims = \<lparr>ac_type = ''access'', ac_sid = Some ''s1'', ac_ver = 1, ac_email = ''ann@desk.io'',
     ac_workspaceId = None, ac_orgId = None, ac_provider = ByLocal, ac_sub = ''u1'', ac_iat = 1, ac_exp = 901\<rparr>"

definition token_env :: auth_env where
  "token_env = demo_env\<lparr>ae_verify := (\<lambda>now token. if token = ''abc'' then Some sample_claims else None)\<rparr>"


end
