(* ===== verification/Js_Values.thy ===== *)
theory Js_Values
  imports Prelude Complex_Main
begin

text \<open>
  The dynamically typed values that the workflow module computes with: a workflow's configuration,
  a trigger's data, a run's variables and a contact are JSON in the source (\<^verbatim>\<open>any\<close>,
  \<^verbatim>\<open>Record<string, any>\<close>). The theory has the values, the language's operations on them that
  the module uses (truthiness, optional property access, strict equality, \<^verbatim>\<open>String\<close>,
  \<^verbatim>\<open>Number\<close>, \<^verbatim>\<open>parseFloat\<close>, \<^verbatim>\<open>parseInt\<close>) and the template renderer of
  \<^verbatim>\<open>src/src/common/variables/variable-metadata.ts\<close>. Numbers are exact rationals with the two
  infinities and \<^verbatim>\<open>NaN\<close>; the rounding of doubles and the exponent notation of
  \<^verbatim>\<open>String\<close> beyond \<open>10\<^sup>21\<close> are left out. Parsing and printing of dates, time zones and
  URLs are functions of the runtime.
\<close>

named_theorems js_eval \<open>definitions that evaluate on concrete JSON values\<close>

section \<open>Numbers\<close>

datatype jsnum = Fin rat | PosInf | NegInf | NaN

fun num_lt :: "jsnum \<Rightarrow> jsnum \<Rightarrow> bool" where
  "num_lt (Fin a) (Fin b) = (a < b)"
| "num_lt (Fin a) PosInf = True"
| "num_lt NegInf (Fin b) = True"
| "num_lt NegInf PosInf = True"
| "num_lt _ _ = False"

definition num_eq :: "jsnum \<Rightarrow> jsnum \<Rightarrow> bool" where
  "num_eq a b = (a = b \<and> a \<noteq> NaN)"

definition num_le :: "jsnum \<Rightarrow> jsnum \<Rightarrow> bool" where
  "num_le a b = (num_lt a b \<or> num_eq a b)"

fun num_mul :: "jsnum \<Rightarrow> jsnum \<Rightarrow> jsnum" where
  "num_mul (Fin a) (Fin b) = Fin (a * b)"
| "num_mul NaN _ = NaN"
| "num_mul _ NaN = NaN"
| "num_mul (Fin a) PosInf = (if a = 0 then NaN else if a < 0 then NegInf else PosInf)"
| "num_mul (Fin a) NegInf = (if a = 0 then NaN else if a < 0 then PosInf else NegInf)"
| "num_mul PosInf (Fin a) = (if a = 0 then NaN else if a < 0 then NegInf else PosInf)"
| "num_mul NegInf (Fin a) = (if a = 0 then NaN else if a < 0 then PosInf else NegInf)"
| "num_mul PosInf PosInf = PosInf"
| "num_mul PosInf NegInf = NegInf"
| "num_mul NegInf PosInf = NegInf"
| "num_mul NegInf NegInf = PosInf"

text \<open>\<^verbatim>\<open>Number.isFinite\<close>, \<^verbatim>\<open>Number.isInteger\<close> and the test \<^verbatim>\<open>n > 0\<close>.\<close>

definition num_finite :: "jsnum \<Rightarrow> bool" where
  "num_finite n = (case n of Fin _ \<Rightarrow> True | _ \<Rightarrow> False)"

definition num_integer :: "jsnum \<Rightarrow> bool" where
  "num_integer n = (case n of Fin q \<Rightarrow> of_int \<lfloor>q\<rfloor> = q | _ \<Rightarrow> False)"

definition num_pos :: "jsnum \<Rightarrow> bool" where
  "num_pos n = num_lt (Fin 0) n"

lemma num_lt_irrefl [simp]: "\<not> num_lt a a"
  by (cases a) simp_all

lemma num_lt_trans: "num_lt a b \<Longrightarrow> num_lt b c \<Longrightarrow> num_lt a c"
  by (cases a; cases b; cases c) simp_all

lemma num_le_Fin [simp]: "num_le (Fin a) (Fin b) = (a \<le> b)"
  by (auto simp: num_le_def num_eq_def)

lemma num_eq_Fin [simp]: "num_eq (Fin a) (Fin b) = (a = b)"
  by (simp add: num_eq_def)

lemma num_le_NaN [simp]: "\<not> num_le NaN b" "\<not> num_le a NaN"
  by (auto simp: num_le_def num_eq_def)

section \<open>Decimal numerals\<close>

definition is_digit :: "char \<Rightarrow> bool" where
  "is_digit c = (let n = (of_char c :: nat) in 48 \<le> n \<and> n \<le> 57)"

definition digits_value :: "string \<Rightarrow> nat" where
  "digits_value = foldl (\<lambda>a c. a * 10 + (of_char c - 48)) 0"

definition split_digits :: "string \<Rightarrow> string \<times> string" where
  "split_digits s = (takeWhile is_digit s, dropWhile is_digit s)"

text \<open>An optional sign: whether it was a minus, and the rest.\<close>

definition split_sign :: "string \<Rightarrow> bool \<times> string" where
  "split_sign s =
     (case s of [] \<Rightarrow> (False, []) | c # cs \<Rightarrow> if c = CHR ''-'' then (True, cs) else if c = CHR ''+'' then (False, cs) else (False, s))"

definition power_ten :: "rat \<Rightarrow> bool \<Rightarrow> nat \<Rightarrow> rat" where
  "power_ten q neg k = (if neg then q / 10 ^ k else q * 10 ^ k)"

definition exponent_part :: "rat \<Rightarrow> string \<Rightarrow> rat \<times> string" where
  "exponent_part q s =
     (case s of [] \<Rightarrow> (q, s)
      | c # cs \<Rightarrow>
          if c = CHR ''e'' \<or> c = CHR ''E'' then
            (let (neg, ds) = split_sign cs; (d, rest) = split_digits ds
             in if d = [] then (q, s) else (power_ten q neg (digits_value d), rest))
          else (q, s))"

text \<open>The longest prefix that is an unsigned decimal literal, with its value and the rest.\<close>

definition decimal_prefix :: "string \<Rightarrow> (rat \<times> string) option" where
  "decimal_prefix s =
     (let (whole, r) = split_digits s;
          (frac, r') = (case r of [] \<Rightarrow> ([], r) | c # cs \<Rightarrow> if c = CHR ''.'' then split_digits cs else ([], r))
      in if whole = [] \<and> frac = [] then None
         else Some (exponent_part (of_nat (digits_value (whole @ frac)) / 10 ^ length frac) r'))"

definition signed :: "bool \<Rightarrow> rat \<Rightarrow> jsnum" where
  "signed neg q = Fin (if neg then - q else q)"

definition parseFloat :: "string \<Rightarrow> jsnum" where
  "parseFloat s =
     (let (neg, r) = split_sign (dropWhile js_space s)
      in if js_starts_with r ''Infinity'' then (if neg then NegInf else PosInf)
         else (case decimal_prefix r of None \<Rightarrow> NaN | Some (q, _) \<Rightarrow> signed neg q))"

text \<open>Literals with a radix prefix: \<^verbatim>\<open>0x\<close>, \<^verbatim>\<open>0o\<close>, \<^verbatim>\<open>0b\<close>.\<close>

definition digit_in :: "nat \<Rightarrow> char \<Rightarrow> nat option" where
  "digit_in radix c =
     (let n = (of_char (js_lower_char c) :: nat);
          v = (if 48 \<le> n \<and> n \<le> 57 then n - 48 else if 97 \<le> n \<and> n \<le> 122 then n - 87 else 99)
      in if v < radix then Some v else None)"

definition radix_value :: "nat \<Rightarrow> string \<Rightarrow> nat" where
  "radix_value radix = foldl (\<lambda>a c. a * radix + the (digit_in radix c)) 0"

definition radix_of :: "string \<Rightarrow> nat option" where
  "radix_of s =
     (if js_starts_with s ''0x'' \<or> js_starts_with s ''0X'' then Some 16
      else if js_starts_with s ''0o'' \<or> js_starts_with s ''0O'' then Some 8
      else if js_starts_with s ''0b'' \<or> js_starts_with s ''0B'' then Some 2 else None)"

definition number_of_string :: "string \<Rightarrow> jsnum" where
  "number_of_string s =
     (let t = js_trim s in
      if t = [] then Fin 0
      else case radix_of t of
        Some radix \<Rightarrow>
          (let ds = drop 2 t in if ds \<noteq> [] \<and> list_all (\<lambda>c. digit_in radix c \<noteq> None) ds
             then Fin (of_nat (radix_value radix ds)) else NaN)
      | None \<Rightarrow>
          (let (neg, r) = split_sign t
           in if r = ''Infinity'' then (if neg then NegInf else PosInf)
              else case decimal_prefix r of
                None \<Rightarrow> NaN
              | Some (q, rest) \<Rightarrow> if rest = [] then signed neg q else NaN))"

definition parseInt :: "string \<Rightarrow> jsnum" where
  "parseInt s =
     (let (neg, r) = split_sign (dropWhile js_space s);
          hex = (js_starts_with r ''0x'' \<or> js_starts_with r ''0X'');
          radix = (if hex then 16 else 10);
          ds = takeWhile (\<lambda>c. digit_in radix c \<noteq> None) (if hex then drop 2 r else r)
      in if ds = [] then NaN else signed neg (of_nat (radix_value radix ds)))"

text \<open>The fraction digits of a remainder \<open>r\<close> over \<open>d\<close>, up to the seventeen that a double has.\<close>

fun fraction_digits :: "nat \<Rightarrow> nat \<Rightarrow> nat \<Rightarrow> string" where
  "fraction_digits 0 r d = []"
| "fraction_digits (Suc k) r d =
     (if r = 0 then [] else js_nat_str (r * 10 div d) @ fraction_digits k (r * 10 mod d) d)"

fun num_str :: "jsnum \<Rightarrow> string" where
  "num_str NaN = ''NaN''"
| "num_str PosInf = ''Infinity''"
| "num_str NegInf = ''-Infinity''"
| "num_str (Fin q) =
     (let (n, d) = quotient_of q; m = nat \<bar>n\<bar>; e = nat d; ds = fraction_digits 17 (m mod e) e
      in (if n < 0 then ''-'' else []) @ js_nat_str (m div e) @ (if ds = [] then [] else CHR ''.'' # ds))"

section \<open>Values\<close>

datatype jsv =
    JUndef
  | JNull
  | JBool bool
  | JNum jsnum
  | JStr string
  | JDate int
  | JArr "jsv list"
  | JObj "(string \<times> jsv) list"

type_synonym jsobj = "(string \<times> jsv) list"

abbreviation JInt :: "int \<Rightarrow> jsv" where
  "JInt n \<equiv> JNum (Fin (of_int n))"

record js_runtime =
  js_date_parse :: "string \<Rightarrow> jsnum"
  js_date_string :: "int \<Rightarrow> string"
  js_date_iso :: "int \<Rightarrow> string"
  js_valid_zone :: "string \<Rightarrow> bool"
  js_weekday :: "string \<Rightarrow> int \<Rightarrow> string"
  js_time :: "string \<Rightarrow> int \<Rightarrow> string"
  js_ymd :: "string \<Rightarrow> int \<Rightarrow> string \<times> string \<times> string"
  js_url_ok :: "string \<Rightarrow> bool"
  js_star :: string
  js_star_count :: "string \<Rightarrow> nat option"

definition v_truthy :: "jsv \<Rightarrow> bool" where
  "v_truthy v =
     (case v of JUndef \<Rightarrow> False | JNull \<Rightarrow> False | JBool b \<Rightarrow> b
      | JNum n \<Rightarrow> n \<noteq> NaN \<and> n \<noteq> Fin 0 | JStr s \<Rightarrow> s \<noteq> [] | _ \<Rightarrow> True)"

definition v_nullish :: "jsv \<Rightarrow> bool" where
  "v_nullish v = (v = JUndef \<or> v = JNull)"

text \<open>\<^verbatim>\<open>a ?? b\<close>\<close>

definition v_or :: "jsv \<Rightarrow> jsv \<Rightarrow> jsv" where
  "v_or a b = (if v_nullish a then b else a)"

text \<open>
  \<^verbatim>\<open>a === b\<close>. Two objects that come out of different parses are different objects, so
  only primitive values are ever equal.
\<close>

definition v_eq :: "jsv \<Rightarrow> jsv \<Rightarrow> bool" where
  "v_eq a b =
     (case a of JNum n \<Rightarrow> (case b of JNum m \<Rightarrow> num_eq n m | _ \<Rightarrow> False)
      | JDate _ \<Rightarrow> False | JArr _ \<Rightarrow> False | JObj _ \<Rightarrow> False | _ \<Rightarrow> a = b)"

definition v_same_zero :: "jsv \<Rightarrow> jsv \<Rightarrow> bool" where
  "v_same_zero a b = (v_eq a b \<or> (a = JNum NaN \<and> b = JNum NaN))"

text \<open>\<^verbatim>\<open>xs.includes(v)\<close> on an array\<close>

definition v_member :: "jsv \<Rightarrow> jsv list \<Rightarrow> bool" where
  "v_member v xs = list_ex (v_same_zero v) xs"

text \<open>\<^verbatim>\<open>v?.k\<close>, \<^verbatim>\<open>o[k] = v\<close>, \<^verbatim>\<open>delete o[k]\<close> and \<^verbatim>\<open>{...o, ...p}\<close>.\<close>

definition o_get :: "jsobj \<Rightarrow> string \<Rightarrow> jsv" where
  "o_get ob k = (case map_of ob k of None \<Rightarrow> JUndef | Some v \<Rightarrow> v)"

definition v_fld :: "jsv \<Rightarrow> string \<Rightarrow> jsv" where
  "v_fld v k = (case v of JObj ob \<Rightarrow> o_get ob k | _ \<Rightarrow> JUndef)"

fun o_set :: "string \<Rightarrow> jsv \<Rightarrow> jsobj \<Rightarrow> jsobj" where
  "o_set k v [] = [(k, v)]"
| "o_set k v ((k', v') # ob) = (if k' = k then (k, v) # ob else (k', v') # o_set k v ob)"

definition o_del :: "string \<Rightarrow> jsobj \<Rightarrow> jsobj" where
  "o_del k ob = filter (\<lambda>(k', _). k' \<noteq> k) ob"

definition o_merge :: "jsobj \<Rightarrow> jsobj \<Rightarrow> jsobj" where
  "o_merge ob p = foldl (\<lambda>a (k, v). o_set k v a) ob p"

definition v_obj :: "jsv \<Rightarrow> jsobj" where
  "v_obj v = (case v of JObj ob \<Rightarrow> ob | _ \<Rightarrow> [])"

definition v_arr :: "jsv \<Rightarrow> jsv list" where
  "v_arr v = (case v of JArr xs \<Rightarrow> xs | _ \<Rightarrow> [])"

definition is_arr :: "jsv \<Rightarrow> bool" where
  "is_arr v = (case v of JArr _ \<Rightarrow> True | _ \<Rightarrow> False)"

definition is_str :: "jsv \<Rightarrow> bool" where
  "is_str v = (case v of JStr _ \<Rightarrow> True | _ \<Rightarrow> False)"

definition v_str :: "jsv \<Rightarrow> string" where
  "v_str v = (case v of JStr s \<Rightarrow> s | _ \<Rightarrow> [])"

text \<open>\<^verbatim>\<open>v?.length ?? 0\<close> and \<^verbatim>\<open>v.includes(x)\<close> on an array or a string.\<close>

definition v_length :: "jsv \<Rightarrow> nat" where
  "v_length v = (case v of JArr xs \<Rightarrow> length xs | JStr s \<Rightarrow> length s | _ \<Rightarrow> 0)"

definition v_includes :: "jsv \<Rightarrow> jsv \<Rightarrow> bool" where
  "v_includes v x =
     (case v of JArr xs \<Rightarrow> v_member x xs | JStr s \<Rightarrow> (case x of JStr p \<Rightarrow> js_includes s p | _ \<Rightarrow> False) | _ \<Rightarrow> False)"

text \<open>\<^verbatim>\<open>typeof value === 'string' && value.trim()\<close>\<close>

definition nonempty_str :: "jsv \<Rightarrow> bool" where
  "nonempty_str v = (case v of JStr s \<Rightarrow> js_trim s \<noteq> [] | _ \<Rightarrow> False)"

text \<open>\<^verbatim>\<open>typeof value === 'object' && value !== null && !Array.isArray(value)\<close>\<close>

definition isRecord :: "jsv \<Rightarrow> bool" where
  "isRecord v = (case v of JObj _ \<Rightarrow> True | JDate _ \<Rightarrow> True | _ \<Rightarrow> False)"

fun js_String :: "js_runtime \<Rightarrow> jsv \<Rightarrow> string" where
  "js_String R JUndef = ''undefined''"
| "js_String R JNull = ''null''"
| "js_String R (JBool b) = (if b then ''true'' else ''false'')"
| "js_String R (JNum n) = num_str n"
| "js_String R (JStr s) = s"
| "js_String R (JDate d) = js_date_string R d"
| "js_String R (JArr xs) = js_join '','' (map (\<lambda>x. if v_nullish x then [] else js_String R x) xs)"
| "js_String R (JObj ob) = ''[object Object]''"

definition js_Number :: "js_runtime \<Rightarrow> jsv \<Rightarrow> jsnum" where
  "js_Number R v =
     (case v of JUndef \<Rightarrow> NaN | JNull \<Rightarrow> Fin 0 | JBool b \<Rightarrow> Fin (if b then 1 else 0) | JNum n \<Rightarrow> n
      | JStr s \<Rightarrow> number_of_string s | JDate d \<Rightarrow> Fin (of_int d)
      | _ \<Rightarrow> number_of_string (js_String R v))"

text \<open>\<^verbatim>\<open>new Date(v).getTime()\<close>\<close>

definition js_date_ms :: "js_runtime \<Rightarrow> jsv \<Rightarrow> jsnum" where
  "js_date_ms R v =
     (case v of JUndef \<Rightarrow> NaN | JNull \<Rightarrow> Fin 0 | JBool b \<Rightarrow> Fin (if b then 1 else 0)
      | JNum n \<Rightarrow> (if num_finite n then n else NaN)
      | JDate d \<Rightarrow> Fin (of_int d) | JStr s \<Rightarrow> js_date_parse R s | _ \<Rightarrow> js_date_parse R (js_String R v))"

lemmas js_value_defs [js_eval] =
  v_truthy_def v_nullish_def v_or_def v_eq_def v_same_zero_def v_member_def o_get_def v_fld_def o_del_def
  o_merge_def v_obj_def v_arr_def is_arr_def is_str_def v_str_def v_length_def v_includes_def nonempty_str_def isRecord_def

lemma v_truthy_simps [simp]:
  "\<not> v_truthy JUndef" "\<not> v_truthy JNull" "v_truthy (JBool b) = b" "v_truthy (JStr s) = (s \<noteq> [])"
  "v_truthy (JArr xs)" "v_truthy (JObj ob)" "v_truthy (JDate d)"
  by (simp_all add: v_truthy_def)

lemma v_or_simps [simp]:
  "v_or JUndef b = b" "v_or JNull b = b" "v_or (JStr s) b = JStr s" "v_or (JBool x) b = JBool x"
  "v_or (JNum n) b = JNum n" "v_or (JArr xs) b = JArr xs" "v_or (JObj ob) b = JObj ob"
  by (simp_all add: v_or_def v_nullish_def)

lemma v_eq_str [simp]: "v_eq v (JStr s) = (v = JStr s)" "v_eq (JStr s) v = (v = JStr s)"
  by (auto simp: v_eq_def split: jsv.splits)

lemma v_fld_simps [simp]:
  "v_fld JUndef k = JUndef" "v_fld JNull k = JUndef" "v_fld (JObj ob) k = o_get ob k"
  by (simp_all add: v_fld_def)

lemma o_get_simps [simp]:
  "o_get [] k = JUndef" "o_get ((k', v) # ob) k = (if k' = k then v else o_get ob k)"
  by (simp_all add: o_get_def)

lemma o_get_set [simp]: "o_get (o_set k v ob) k' = (if k' = k then v else o_get ob k')"
  by (induction ob) auto

lemma o_get_del [simp]: "o_get (o_del k ob) k' = (if k' = k then JUndef else o_get ob k')"
  by (induction ob) (auto simp: o_del_def)

lemma is_arr_simps [simp]: "is_arr (JArr xs)" "\<not> is_arr JUndef" "\<not> is_arr JNull" "\<not> is_arr (JStr s)" "\<not> is_arr (JObj ob)"
  by (simp_all add: is_arr_def)

lemma nonempty_strE:
  assumes "nonempty_str v"
  obtains s where "v = JStr s" and "js_trim s \<noteq> []"
  using assms by (cases v) (auto simp: nonempty_str_def)

section \<open>Templates\<close>

text \<open>
  The regular expression of a token: two opening braces, white space, an optional dollar sign, a
  key, white space, two closing braces. Its parts start with different characters, so it matches
  in one way at most.
\<close>

definition key_char :: "char \<Rightarrow> bool" where
  "key_char c =
     (let n = (of_char c :: nat) in (48 \<le> n \<and> n \<le> 57) \<or> (65 \<le> n \<and> n \<le> 90) \<or> (97 \<le> n \<and> n \<le> 122)
        \<or> c = CHR ''.'' \<or> c = CHR ''_'' \<or> c = CHR ''-'')"

definition match_token :: "string \<Rightarrow> (string \<times> string) option" where
  "match_token s =
     (if \<not> js_starts_with s ''{{'' then None
      else let a = dropWhile js_space (drop 2 s);
               b = (if js_starts_with a ''$'' then drop 1 a else a);
               k = takeWhile key_char b;
               c = dropWhile js_space (dropWhile key_char b)
           in if k \<noteq> [] \<and> js_starts_with c ''}}'' then Some (k, drop 2 c) else None)"

lemma match_token_shorter: "match_token s = Some (k, rest) \<Longrightarrow> length rest < length s"
proof -
  assume m: "match_token s = Some (k, rest)"
  have two: "2 \<le> length s"
    using m by (auto simp: match_token_def js_starts_with_def split: if_splits dest!: arg_cong [where f = length])
  let ?a = "dropWhile js_space (drop 2 s)"
  let ?b = "if js_starts_with ?a ''$'' then drop 1 ?a else ?a"
  let ?c = "dropWhile js_space (dropWhile key_char ?b)"
  have "rest = drop 2 ?c"
    using m by (simp add: match_token_def Let_def split: if_splits)
  moreover have "length ?c \<le> length ?b" "length ?b \<le> length ?a" "length ?a \<le> length s - 2"
    using length_dropWhile_le [of js_space "dropWhile key_char ?b"] length_dropWhile_le [of key_char ?b]
      length_dropWhile_le [of js_space "drop 2 s"] by auto
  ultimately show ?thesis using two by auto
qed

function replace_tokens :: "(string \<Rightarrow> string) \<Rightarrow> string \<Rightarrow> string" where
  "replace_tokens f [] = []"
| "replace_tokens f (c # cs) =
     (case match_token (c # cs) of
        Some (k, rest) \<Rightarrow> f k @ replace_tokens f rest
      | None \<Rightarrow> c # replace_tokens f cs)"
  by pat_completeness auto
termination
  by (relation "measure (\<lambda>(f, s). length s)") (auto dest: match_token_shorter)

declare replace_tokens.simps [simp del]

definition normalizeVariableKey :: "string \<Rightarrow> string" where
  "normalizeVariableKey k = (let t = js_trim k in if js_starts_with t ''$'' then drop 1 t else t)"

fun lookup_path :: "jsv \<Rightarrow> string list \<Rightarrow> jsv" where
  "lookup_path v [] = v"
| "lookup_path v (k # ks) = (if isRecord v then lookup_path (v_fld v k) ks else lookup_path JUndef ks)"

definition getVariableValue :: "jsobj \<Rightarrow> string \<Rightarrow> jsv" where
  "getVariableValue context rawKey =
     (let key = normalizeVariableKey rawKey in
      if map_of context key \<noteq> None then o_get context key
      else lookup_path (JObj context) (js_split CHR ''.'' key))"

definition renderValue :: "js_runtime \<Rightarrow> jsv \<Rightarrow> string" where
  "renderValue R v =
     (case v of JUndef \<Rightarrow> [] | JNull \<Rightarrow> [] | JDate d \<Rightarrow> js_date_iso R d | _ \<Rightarrow> js_String R v)"

definition renderVariableTemplate :: "js_runtime \<Rightarrow> string \<Rightarrow> jsobj \<Rightarrow> string" where
  "renderVariableTemplate R s context = replace_tokens (\<lambda>k. renderValue R (getVariableValue context k)) s"

text \<open>A text without an opening brace is rendered as it is.\<close>

lemma replace_tokens_plain: "CHR ''{'' \<notin> set s \<Longrightarrow> replace_tokens f s = s"
proof (induction s)
  case Nil
  then show ?case by (simp add: replace_tokens.simps)
next
  case (Cons c cs)
  then have "match_token (c # cs) = None"
    by (cases cs) (auto simp: match_token_def js_starts_with_def)
  with Cons show ?case by (simp add: replace_tokens.simps)
qed

end
