(* ===== verification/Workflow_Config.thy ===== *)
theory Workflow_Config
  imports Js_Values
begin

text \<open>
  The configuration of a workflow: a trigger and a list of steps, each with the id of its parent.
  The theory models the validation of \<^verbatim>\<open>src/src/modules/workflows/workflows.service.ts\<close>, which
  every configuration passes before it is stored, and proves that it accepts exactly the
  configurations whose steps form a forest below the trigger.
\<close>

section \<open>Steps\<close>

record step_payload =
  pl_id :: string
  pl_type :: string
  pl_parentId :: string

record wf_step =
  st_id :: string
  st_type :: string
  st_parentId :: "string option"
  st_name :: "string option"
  st_data :: jsv

definition opt_str :: "jsv \<Rightarrow> string option" where
  "opt_str v = (case v of JStr s \<Rightarrow> Some s | _ \<Rightarrow> None)"

definition step_of_json :: "jsv \<Rightarrow> wf_step" where
  "step_of_json j =
     \<lparr>st_id = v_str (v_fld j ''id''), st_type = v_str (v_fld j ''type''),
      st_parentId = opt_str (v_fld j ''parentId''), st_name = opt_str (v_fld j ''name''),
      st_data = v_fld j ''data''\<rparr>"

text \<open>\<^verbatim>\<open>config.steps ?? []\<close> and \<^verbatim>\<open>config.trigger\<close>\<close>

definition config_steps :: "jsv \<Rightarrow> wf_step list" where
  "config_steps config = map step_of_json (v_arr (v_fld config ''steps''))"

definition config_trigger :: "jsv \<Rightarrow> jsv" where
  "config_trigger config = v_fld config ''trigger''"

section \<open>Validation\<close>

definition parseWorkflowStep :: "jsv \<Rightarrow> nat \<Rightarrow> exn + step_payload" where
  "parseWorkflowStep step index =
     (if \<not> isRecord step then
        Inl (BadRequestException (''Workflow step at index '' @ js_nat_str index @ '' must be an object''))
      else if \<not> nonempty_str (v_fld step ''id'') then
        Inl (BadRequestException (''Workflow step at index '' @ js_nat_str index @ '' is missing id''))
      else if \<not> nonempty_str (v_fld step ''type'') then
        Inl (BadRequestException (''Workflow step '' @ v_str (v_fld step ''id'') @ '' is missing type''))
      else if \<not> nonempty_str (v_fld step ''parentId'') then
        Inl (BadRequestException (''Workflow step '' @ v_str (v_fld step ''id'') @ '' is missing parentId''))
      else Inr \<lparr>pl_id = v_str (v_fld step ''id''), pl_type = v_str (v_fld step ''type''),
                pl_parentId = v_str (v_fld step ''parentId'')\<rparr>)"

text \<open>\<^verbatim>\<open>stepsValue.map((step, index) => this.parseWorkflowStep(step, index))\<close>\<close>

fun parse_steps :: "nat \<Rightarrow> jsv list \<Rightarrow> exn + step_payload list" where
  "parse_steps i [] = Inr []"
| "parse_steps i (j # js) =
     (case parseWorkflowStep j i of
        Inl e \<Rightarrow> Inl e
      | Inr p \<Rightarrow> (case parse_steps (Suc i) js of Inl e \<Rightarrow> Inl e | Inr ps \<Rightarrow> Inr (p # ps)))"

text \<open>The first step whose id was already seen.\<close>

fun first_duplicate :: "string list \<Rightarrow> step_payload list \<Rightarrow> step_payload option" where
  "first_duplicate seen [] = None"
| "first_duplicate seen (s # ss) =
     (if pl_id s \<in> set seen then Some s else first_duplicate (pl_id s # seen) ss)"

definition orphan :: "step_payload list \<Rightarrow> step_payload \<Rightarrow> bool" where
  "orphan steps s = (pl_parentId s \<noteq> ''trigger'' \<and> pl_parentId s \<notin> pl_id ` set steps)"

definition children_of :: "step_payload list \<Rightarrow> string \<Rightarrow> step_payload list" where
  "children_of steps p = filter (\<lambda>s. pl_parentId s = p) steps"

definition open_ids :: "step_payload list \<Rightarrow> string list \<Rightarrow> step_payload list \<Rightarrow> string set" where
  "open_ids steps seen stack = (pl_id ` set steps \<union> pl_id ` set stack) - set seen"

text \<open>
  The loop with an explicit stack. The head of the list is the top of the stack; pushing the
  children in order leaves the last child on top.
\<close>

function reach :: "step_payload list \<Rightarrow> string list \<Rightarrow> step_payload list \<Rightarrow> string list" where
  "reach steps seen [] = seen"
| "reach steps seen (s # stack) =
     (if pl_id s \<in> set seen then reach steps seen stack
      else reach steps (pl_id s # seen) (rev (children_of steps (pl_id s)) @ stack))"
  by pat_completeness auto

termination
proof (relation "measures [\<lambda>(steps, seen, stack). card (open_ids steps seen stack), \<lambda>(_, _, stack). length stack]", goal_cases)
  case 1
  then show ?case by simp
next
  case (2 steps seen s stack)
  have "open_ids steps seen stack = open_ids steps seen (s # stack)" if "pl_id s \<in> set seen"
    using that by (auto simp: open_ids_def)
  with 2 show ?case by (auto simp: card_mono open_ids_def)
next
  case (3 steps seen s stack)
  then have "open_ids steps (pl_id s # seen) (rev (children_of steps (pl_id s)) @ stack) \<subset> open_ids steps seen (s # stack)"
    by (auto simp: open_ids_def children_of_def)
  then have "card (open_ids steps (pl_id s # seen) (rev (children_of steps (pl_id s)) @ stack)) < card (open_ids steps seen (s # stack))"
    by (intro psubset_card_mono) (auto simp: open_ids_def)
  then show ?case by simp
qed

declare reach.simps [simp del]

definition unreachable_steps :: "step_payload list \<Rightarrow> step_payload list" where
  "unreachable_steps steps =
     (let reachable = reach steps [] (rev (children_of steps ''trigger''))
      in filter (\<lambda>s. pl_id s \<notin> set reachable) steps)"

definition check_steps :: "step_payload list \<Rightarrow> exn + unit" where
  "check_steps steps =
     (case first_duplicate [] steps of
        Some s \<Rightarrow> Inl (BadRequestException (''Duplicate workflow step id: '' @ pl_id s))
      | None \<Rightarrow>
          (case find (orphan steps) steps of
             Some s \<Rightarrow> Inl (BadRequestException
               (''Workflow step '' @ pl_id s @ '' references missing parent '' @ pl_parentId s))
           | None \<Rightarrow>
               (if unreachable_steps steps \<noteq> [] then
                  Inl (BadRequestException (''Workflow contains unreachable steps: ''
                    @ js_join '', '' (map pl_id (unreachable_steps steps))))
                else Inr ())))"

definition validateWorkflowConfig :: "jsv \<Rightarrow> exn + unit" where
  "validateWorkflowConfig config =
     (if v_nullish config then Inr ()
      else if \<not> isRecord config then Inl (BadRequestException ''Workflow config must be an object'')
      else let stepsValue = v_fld config ''steps'' in
        if v_nullish stepsValue then Inr ()
        else if \<not> is_arr stepsValue then Inl (BadRequestException ''Workflow config steps must be an array'')
        else (case parse_steps 0 (v_arr stepsValue) of Inl e \<Rightarrow> Inl e | Inr steps \<Rightarrow> check_steps steps))"

section \<open>What the validation accepts\<close>

text \<open>A step is attached when the chain of its parents ends at the trigger.\<close>

inductive attached :: "step_payload list \<Rightarrow> string \<Rightarrow> bool" for steps where
  root: "s \<in> set steps \<Longrightarrow> pl_parentId s = ''trigger'' \<Longrightarrow> attached steps (pl_id s)"
| below: "s \<in> set steps \<Longrightarrow> attached steps (pl_parentId s) \<Longrightarrow> attached steps (pl_id s)"

definition forest :: "step_payload list \<Rightarrow> bool" where
  "forest steps \<longleftrightarrow> distinct (map pl_id steps) \<and> (\<forall>s \<in> set steps. attached steps (pl_id s))"

lemma first_duplicate_None: "first_duplicate seen ss = None \<longleftrightarrow> distinct (map pl_id ss) \<and> pl_id ` set ss \<inter> set seen = {}"
  by (induction seen ss rule: first_duplicate.induct) auto

lemma reach_sound:
  assumes "\<forall>i \<in> set seen. attached steps i" and "\<forall>s \<in> set stack. s \<in> set steps \<and> attached steps (pl_id s)"
  shows "\<forall>i \<in> set (reach steps seen stack). attached steps i"
  using assms
proof (induction steps seen stack rule: reach.induct)
  case (1 steps seen)
  then show ?case by (simp add: reach.simps)
next
  case (2 steps seen s stack)
  have "\<forall>t \<in> set (rev (children_of steps (pl_id s)) @ stack). t \<in> set steps \<and> attached steps (pl_id t)"
    using "2.prems"(2) by (auto simp: children_of_def intro: attached.below)
  with 2 show ?case by (simp add: reach.simps)
qed

text \<open>The children of a visited step are visited or still on the stack.\<close>

definition covered :: "step_payload list \<Rightarrow> string list \<Rightarrow> step_payload list \<Rightarrow> bool" where
  "covered steps seen stack \<longleftrightarrow> (\<forall>t \<in> set steps. pl_parentId t \<in> set seen \<longrightarrow> pl_id t \<in> set seen \<union> pl_id ` set stack)"

lemma reach_closed:
  assumes "covered steps seen stack"
  shows "covered steps (reach steps seen stack) [] \<and> set seen \<union> pl_id ` set stack \<subseteq> set (reach steps seen stack)"
  using assms
proof (induction steps seen stack rule: reach.induct)
  case (1 steps seen)
  then show ?case by (simp add: reach.simps)
next
  case (2 steps seen s stack)
  show ?case
  proof (cases "pl_id s \<in> set seen")
    case True
    then have "covered steps seen stack"
      using "2.prems" by (auto simp: covered_def)
    with True 2 show ?thesis by (auto simp: reach.simps)
  next
    case False
    have "covered steps (pl_id s # seen) (rev (children_of steps (pl_id s)) @ stack)"
      using "2.prems" by (auto simp: covered_def children_of_def)
    with False 2 show ?thesis by (auto simp: reach.simps)
  qed
qed

lemma reach_exact:
  "set (reach steps [] (rev (children_of steps ''trigger''))) = {i. attached steps i}"
proof
  show "set (reach steps [] (rev (children_of steps ''trigger''))) \<subseteq> {i. attached steps i}"
    using reach_sound [of "[]" steps "rev (children_of steps ''trigger'')"]
    by (auto simp: children_of_def intro: attached.root)
next
  let ?r = "reach steps [] (rev (children_of steps ''trigger''))"
  have cov: "covered steps ?r []" and start: "pl_id ` set (children_of steps ''trigger'') \<subseteq> set ?r"
    using reach_closed [of steps "[]" "rev (children_of steps ''trigger'')"] by (auto simp: covered_def)
  have "i \<in> set ?r" if "attached steps i" for i
    using that
  proof (induction rule: attached.induct)
    case (root s)
    with start show ?case by (auto simp: children_of_def)
  next
    case (below s)
    with cov show ?case by (auto simp: covered_def)
  qed
  then show "{i. attached steps i} \<subseteq> set ?r" by auto
qed

lemma attached_parent:
  assumes "attached steps (pl_id s)" and "distinct (map pl_id steps)" and "s \<in> set steps"
  shows "pl_parentId s = ''trigger'' \<or> attached steps (pl_parentId s)"
  using assms(1)
proof cases
  case (root t)
  with assms(2,3) have "t = s" by (auto simp: distinct_map dest: inj_onD)
  with root show ?thesis by simp
next
  case (below t)
  with assms(2,3) have "t = s" by (auto simp: distinct_map dest: inj_onD)
  with below show ?thesis by simp
qed

lemma attached_id: "attached steps i \<Longrightarrow> i \<in> pl_id ` set steps"
  by (induction rule: attached.induct) auto

lemma check_steps_exact: "check_steps steps = Inr () \<longleftrightarrow> forest steps"
proof -
  have miss: "unreachable_steps steps = [] \<longleftrightarrow> (\<forall>s \<in> set steps. attached steps (pl_id s))"
    by (auto simp: unreachable_steps_def reach_exact filter_empty_conv Let_def)
  have "find (orphan steps) steps = None" if "forest steps"
  proof -
    have "\<not> orphan steps s" if "s \<in> set steps" for s
      using attached_parent [of steps s] attached_id [of steps "pl_parentId s"] that \<open>forest steps\<close>
      by (auto simp: forest_def orphan_def)
    then show ?thesis by (simp add: find_None_iff)
  qed
  moreover have "first_duplicate [] steps = None \<longleftrightarrow> distinct (map pl_id steps)"
    by (simp add: first_duplicate_None)
  ultimately show ?thesis
    using miss by (cases "first_duplicate [] steps"; cases "find (orphan steps) steps")
      (auto simp: check_steps_def forest_def)
qed

text \<open>What a parsed step is: the three strings of the JSON object.\<close>

definition well_typed_step :: "jsv \<Rightarrow> bool" where
  "well_typed_step j \<longleftrightarrow> isRecord j \<and> nonempty_str (v_fld j ''id'') \<and> nonempty_str (v_fld j ''type'') \<and> nonempty_str (v_fld j ''parentId'')"

definition payload_of :: "wf_step \<Rightarrow> step_payload" where
  "payload_of s = \<lparr>pl_id = st_id s, pl_type = st_type s, pl_parentId = js_default (st_parentId s) []\<rparr>"

lemma parse_step_ok: "parseWorkflowStep j i = Inr p \<longleftrightarrow> well_typed_step j \<and> p = payload_of (step_of_json j)"
  by (auto simp: parseWorkflowStep_def well_typed_step_def payload_of_def step_of_json_def opt_str_def v_str_def
      split: jsv.splits elim!: nonempty_strE)

lemma parse_step_total: "(\<exists>e. parseWorkflowStep j i = Inl e) \<longleftrightarrow> \<not> well_typed_step j"
  by (auto simp: parseWorkflowStep_def well_typed_step_def)

lemma parse_steps_ok:
  "parse_steps i js = Inr ps \<longleftrightarrow> list_all well_typed_step js \<and> ps = map (payload_of \<circ> step_of_json) js"
proof (induction js arbitrary: i ps)
  case Nil
  then show ?case by auto
next
  case (Cons j js)
  show ?case
  proof (cases "parseWorkflowStep j i")
    case (Inl e)
    then have "\<not> well_typed_step j" using parse_step_total by blast
    with Inl show ?thesis by simp
  next
    case (Inr p)
    then have "well_typed_step j" "p = payload_of (step_of_json j)" by (auto simp: parse_step_ok)
    with Inr Cons.IH [of "Suc i"] show ?thesis by (cases "parse_steps (Suc i) js") auto
  qed
qed

lemma validate_iff:
  "validateWorkflowConfig config = Inr () \<longleftrightarrow>
     v_nullish config \<or>
     (isRecord config \<and>
       (v_nullish (v_fld config ''steps'') \<or>
         (is_arr (v_fld config ''steps'') \<and> list_all well_typed_step (v_arr (v_fld config ''steps''))
           \<and> forest (map payload_of (config_steps config)))))"
proof -
  have "(case parse_steps 0 js of Inl e \<Rightarrow> Inl e | Inr steps \<Rightarrow> check_steps steps) = Inr () \<longleftrightarrow>
      list_all well_typed_step js \<and> forest (map (payload_of \<circ> step_of_json) js)" for js
  proof (cases "parse_steps 0 js")
    case (Inl e)
    then have "\<not> list_all well_typed_step js" using parse_steps_ok [of 0 js] by (metis sum.distinct(1))
    with Inl show ?thesis by simp
  next
    case (Inr ps)
    with parse_steps_ok [of 0 js ps] show ?thesis by (simp add: check_steps_exact)
  qed
  note parsed = this [of "v_arr (v_fld config ''steps'')"]
  have "map payload_of (config_steps config) = map (payload_of \<circ> step_of_json) (v_arr (v_fld config ''steps''))"
    by (simp add: config_steps_def)
  with parsed show ?thesis
    unfolding validateWorkflowConfig_def Let_def
    by (cases "v_nullish config"; cases "isRecord config"; cases "v_nullish (v_fld config ''steps'')";
        cases "is_arr (v_fld config ''steps'')") (simp_all only: if_True if_False simp_thms sum.simps)
qed

text \<open>
  C23: A configuration is stored only if its steps are well-typed objects with distinct ids that
  form a forest below the trigger, and every such configuration is accepted: the traversal with an
  explicit stack finds exactly the steps whose chain of parents ends at the trigger.
\<close>

theorem validateWorkflowConfig_exact:
  "validateWorkflowConfig config = Inr () \<longleftrightarrow>
     v_nullish config \<or>
     (isRecord config \<and>
       (v_nullish (v_fld config ''steps'') \<or>
         (is_arr (v_fld config ''steps'') \<and> list_all well_typed_step (v_arr (v_fld config ''steps''))
           \<and> forest (map payload_of (config_steps config)))))"
  by (rule validate_iff)

section \<open>Descendants\<close>

text \<open>
  The number of steps below a step. In a forest without a step of the id \<^verbatim>\<open>trigger\<close> no step
  is below itself, so a child has fewer steps below it than its parent.
\<close>

definition child_rel :: "step_payload list \<Rightarrow> (string \<times> string) set" where
  "child_rel steps = (\<lambda>s. (pl_id s, pl_parentId s)) ` set steps"

definition descendants :: "step_payload list \<Rightarrow> string \<Rightarrow> string set" where
  "descendants steps i = {j \<in> pl_id ` set steps. (j, i) \<in> (child_rel steps)\<^sup>+}"

lemma child_rel_fun:
  assumes "distinct (map pl_id steps)" and "s \<in> set steps" and "(pl_id s, j) \<in> child_rel steps"
  shows "j = pl_parentId s"
  using assms by (auto simp: child_rel_def distinct_map dest: inj_onD)

lemma trancl_from_id: "(i, j) \<in> (child_rel steps)\<^sup>+ \<Longrightarrow> i \<in> pl_id ` set steps"
  by (induction rule: trancl_induct) (auto simp: child_rel_def)

lemma attached_acyclic:
  assumes "attached steps i" and d: "distinct (map pl_id steps)" and t: "''trigger'' \<notin> pl_id ` set steps"
  shows "(i, i) \<notin> (child_rel steps)\<^sup>+"
  using assms(1)
proof (induction rule: attached.induct)
  case (root s)
  show ?case
  proof
    assume "(pl_id s, pl_id s) \<in> (child_rel steps)\<^sup>+"
    then obtain j where j: "(pl_id s, j) \<in> child_rel steps" and rest: "(j, pl_id s) \<in> (child_rel steps)\<^sup>*"
      by (blast dest: tranclD)
    have "j = ''trigger''" using child_rel_fun [OF d root(1) j] root(2) by simp
    with rest t root(1) show False
      by (metis image_eqI rtranclD trancl_from_id)
  qed
next
  case (below s)
  show ?case
  proof
    assume "(pl_id s, pl_id s) \<in> (child_rel steps)\<^sup>+"
    then obtain j where j: "(pl_id s, j) \<in> child_rel steps" and rest: "(j, pl_id s) \<in> (child_rel steps)\<^sup>*"
      by (blast dest: tranclD)
    have "j = pl_parentId s" using child_rel_fun [OF d below(1) j] .
    with rest j have "(pl_parentId s, pl_parentId s) \<in> (child_rel steps)\<^sup>+"
      by (simp add: rtrancl_into_trancl1)
    with below.IH show False by contradiction
  qed
qed

lemma descendants_child:
  assumes f: "forest steps" and t: "''trigger'' \<notin> pl_id ` set steps" and s: "s \<in> set steps"
  shows "card (descendants steps (pl_id s)) < card (descendants steps (pl_parentId s))"
proof (rule psubset_card_mono)
  show "finite (descendants steps (pl_parentId s))" by (simp add: descendants_def)
  have edge: "(pl_id s, pl_parentId s) \<in> child_rel steps" using s by (auto simp: child_rel_def)
  then have "descendants steps (pl_id s) \<subseteq> descendants steps (pl_parentId s)"
    by (auto simp: descendants_def)
  moreover have "pl_id s \<in> descendants steps (pl_parentId s)"
    using edge s by (auto simp: descendants_def)
  moreover have "pl_id s \<notin> descendants steps (pl_id s)"
    using attached_acyclic [of steps "pl_id s"] f t s by (auto simp: descendants_def forest_def)
  ultimately show "descendants steps (pl_id s) \<subset> descendants steps (pl_parentId s)" by blast
qed

lemma descendants_bound: "card (descendants steps i) \<le> length steps"
proof -
  have "card (descendants steps i) \<le> card (pl_id ` set steps)"
    by (intro card_mono) (auto simp: descendants_def)
  also have "\<dots> \<le> length steps"
    by (metis card_image_le card_length le_trans finite_set)
  finally show ?thesis .
qed

end
