(* ===== verification/Workflow_Rulebook.thy ===== *)
theory Workflow_Rulebook
  imports Workflow_Config
begin

text \<open>
  The delivery rulebook, \<^verbatim>\<open>src/src/modules/workflows/workflow-delivery-rulebook.ts\<close>: which
  channels can carry which messages, when a customer's reply has opened a chat, and the issues
  that keep a workflow from being published. The computation of the open reply windows along the
  path to a step is proved equal to its description: a reply branch above the step whose waits
  since then are shorter than the channel's window.
\<close>

section \<open>Channels\<close>

datatype channel_strategy = Trigger_channel | Specific_channel
datatype message_mode = ModeText | ModeMedia | ModeTemplate
datatype trigger_family = FamChat | FamCommerce | FamContact | FamManual | FamMeta | FamGeneral
datatype composer = ComposeChat | ComposeEmail | ComposeSms

record channel_facts =
  cf_id :: string
  cf_type :: string
  cf_status :: "string option"

record delivery_issue =
  di_stepId :: string
  di_message :: string

record channel_capability =
  cap_key :: string
  cap_label :: string
  canSendMessage :: bool
  canStartOutbound :: bool
  needsExistingChatForOutbound :: bool
  requiresTemplateForNewConversation :: bool
  supportedModes :: "message_mode list"
  cap_composer :: composer
  customerReplyWindowMinutes :: "nat option"

record open_window =
  ow_channelId :: string
  ow_channelType :: string
  ow_elapsedMinutes :: rat
  ow_remainingMinutes :: rat
  ow_expiresAfterMinutes :: rat
  ow_openedByStepId :: string

definition chat_modes :: "message_mode list" where
  "chat_modes = [ModeText, ModeMedia]"

definition template_modes :: "message_mode list" where
  "template_modes = [ModeText, ModeMedia, ModeTemplate]"

definition capability :: "string \<Rightarrow> string \<Rightarrow> bool \<Rightarrow> bool \<Rightarrow> bool \<Rightarrow> bool \<Rightarrow> message_mode list \<Rightarrow> composer \<Rightarrow> nat option \<Rightarrow> channel_capability" where
  "capability key label send start needs req modes cmp w =
     \<lparr>cap_key = key, cap_label = label, canSendMessage = send, canStartOutbound = start,
      needsExistingChatForOutbound = needs, requiresTemplateForNewConversation = req,
      supportedModes = modes, cap_composer = cmp, customerReplyWindowMinutes = w\<rparr>"

definition CHANNEL_CAPABILITIES_BY_KEY :: "(string \<times> channel_capability) list" where
  "CHANNEL_CAPABILITIES_BY_KEY =
     [(''whatsapp'', capability ''whatsapp'' ''WhatsApp'' True True False True template_modes ComposeChat (Some (24 * 60))),
      (''messenger'', capability ''messenger'' ''Messenger'' True False True False template_modes ComposeChat (Some (24 * 60))),
      (''instagram'', capability ''instagram'' ''Instagram'' True False True False chat_modes ComposeChat (Some (24 * 60))),
      (''webchat'', capability ''webchat'' ''Website chat'' True False True False chat_modes ComposeChat None),
      (''email'', capability ''email'' ''Email'' True True False False chat_modes ComposeEmail None),
      (''gmail'', capability ''gmail'' ''Gmail'' True True False False chat_modes ComposeEmail None),
      (''sms'', capability ''sms'' ''SMS'' True True False False [ModeText] ComposeSms None),
      (''telegram'', capability ''telegram'' ''Telegram'' True False True False chat_modes ComposeChat (Some (24 * 60))),
      (''viber'', capability ''viber'' ''Viber'' True False True False chat_modes ComposeChat (Some (24 * 60))),
      (''line'', capability ''line'' ''LINE'' True False True False chat_modes ComposeChat (Some (24 * 60))),
      (''wechat'', capability ''wechat'' ''WeChat'' True False True False chat_modes ComposeChat (Some (24 * 60))),
      (''exotel_call'', capability ''exotel_call'' ''Call'' False False False False [] ComposeChat None)]"

definition UNKNOWN_CHANNEL_CAPABILITY :: channel_capability where
  "UNKNOWN_CHANNEL_CAPABILITY = capability ''unknown'' ''This channel'' False False True False [] ComposeChat None"

definition normalizeWorkflowChannelType :: "string \<Rightarrow> string" where
  "normalizeWorkflowChannelType t = js_lower (js_trim t)"

definition getWorkflowChannelCapability :: "string \<Rightarrow> channel_capability" where
  "getWorkflowChannelCapability t =
     js_default (map_of CHANNEL_CAPABILITIES_BY_KEY (normalizeWorkflowChannelType t)) UNKNOWN_CHANNEL_CAPABILITY"

section \<open>Triggers and strategies\<close>

definition CONTACT_TRIGGER_TYPES :: "string list" where
  "CONTACT_TRIGGER_TYPES = [''contact_tag_updated'', ''contact_field_updated'', ''contact_assigned'', ''lifecycle_updated'']"

definition CHAT_TRIGGER_TYPES :: "string list" where
  "CHAT_TRIGGER_TYPES = [''conversation_opened'', ''conversation_closed'', ''menu_click'', ''story_reply'', ''template_send'']"

text \<open>The trigger's type is a string or absent.\<close>

definition getWorkflowTriggerFamily :: "string option \<Rightarrow> trigger_family" where
  "getWorkflowTriggerFamily triggerType =
     (let normalized = js_default triggerType [] in
      if js_starts_with normalized ''commerce.'' then FamCommerce
      else if normalized = ''meta_ad_click'' then FamMeta
      else if normalized \<in> set CONTACT_TRIGGER_TYPES then FamContact
      else if normalized = ''manual_trigger'' \<or> normalized = ''shortcut'' then FamManual
      else if normalized \<in> set CHAT_TRIGGER_TYPES then FamChat
      else FamGeneral)"

definition workflowTriggerHasConversation :: "string option \<Rightarrow> bool" where
  "workflowTriggerHasConversation triggerType =
     (let family = getWorkflowTriggerFamily triggerType in family = FamChat \<or> family = FamMeta)"

definition isWorkflowChannelStrategy :: "jsv \<Rightarrow> channel_strategy option" where
  "isWorkflowChannelStrategy v =
     (if v = JStr ''trigger_channel'' then Some Trigger_channel
      else if v = JStr ''specific_channel'' then Some Specific_channel else None)"

definition isSpecificWorkflowChannel :: "jsv \<Rightarrow> bool" where
  "isSpecificWorkflowChannel v =
     (case v of JStr s \<Rightarrow> js_trim s \<noteq> [] \<and> js_trim s \<notin> {''trigger_channel'', ''last_interacted''} | _ \<Rightarrow> False)"

definition resolveWorkflowChannelStrategy :: "jsv \<Rightarrow> jsv \<Rightarrow> channel_strategy" where
  "resolveWorkflowChannelStrategy strategy channel =
     (case isWorkflowChannelStrategy strategy of
        Some x \<Rightarrow> x
      | None \<Rightarrow>
          if isSpecificWorkflowChannel channel then Specific_channel
          else if channel = JStr ''trigger_channel'' \<or> channel = JStr ''last_interacted'' then Trigger_channel
          else Specific_channel)"

definition isWorkflowStrategyAllowedForTrigger :: "string option \<Rightarrow> channel_strategy \<Rightarrow> bool" where
  "isWorkflowStrategyAllowedForTrigger triggerType strategy =
     (if strategy = Trigger_channel then workflowTriggerHasConversation triggerType
      else strategy = Specific_channel)"

definition getWorkflowStrategyIssue :: "string option \<Rightarrow> channel_strategy \<Rightarrow> string option" where
  "getWorkflowStrategyIssue triggerType strategy =
     (if isWorkflowStrategyAllowedForTrigger triggerType strategy then None
      else Some ''This workflow does not start from a chat. Choose one channel.'')"

section \<open>Messages\<close>

definition asRecord :: "jsv \<Rightarrow> jsv" where
  "asRecord v = (case v of JObj _ \<Rightarrow> v | JDate _ \<Rightarrow> v | _ \<Rightarrow> JNull)"

definition inferWorkflowMessageMode :: "jsv \<Rightarrow> message_mode" where
  "inferWorkflowMessageMode data =
     (let template = asRecord (v_fld (asRecord (v_fld data ''metadata'')) ''template'');
          attachments = v_fld data ''attachments''
      in if v_truthy (v_fld template ''name'') \<and> v_truthy (v_fld template ''language'') then ModeTemplate
         else if is_arr attachments \<and> v_arr attachments \<noteq> [] then ModeMedia else ModeText)"

definition workflowMessageHasTemplate :: "jsv \<Rightarrow> bool" where
  "workflowMessageHasTemplate data = (inferWorkflowMessageMode data = ModeTemplate)"

definition resolveStepStrategy :: "string \<Rightarrow> jsv \<Rightarrow> channel_strategy" where
  "resolveStepStrategy stepType data =
     (let fallback = (if stepType = ''ask_question'' then v_or (v_fld data ''channel'') (JStr ''trigger_channel'')
                      else v_fld data ''channel'')
      in resolveWorkflowChannelStrategy (v_fld data ''deliveryStrategy'') fallback)"

definition getSpecificChannelId :: "jsv \<Rightarrow> string option" where
  "getSpecificChannelId v = (if isSpecificWorkflowChannel v then Some (js_trim (v_str v)) else None)"

section \<open>The path to a step\<close>

text \<open>\<^verbatim>\<open>new Map(xs.map((x) => [x.id, x]))\<close>: of two entries with one key the later one counts.\<close>

definition step_by_id :: "wf_step list \<Rightarrow> string \<Rightarrow> wf_step option" where
  "step_by_id steps i = find (\<lambda>s. st_id s = i) (rev steps)"

definition channel_by_id :: "channel_facts list \<Rightarrow> string \<Rightarrow> channel_facts option" where
  "channel_by_id channels i = find (\<lambda>c. cf_id c = i) (rev channels)"

lemma step_by_id_in: "step_by_id steps i = Some s \<Longrightarrow> s \<in> set steps \<and> st_id s = i"
  by (auto simp: step_by_id_def dest: find_Some_in)

lemma step_by_id_unique: "distinct (map st_id steps) \<Longrightarrow> s \<in> set steps \<Longrightarrow> step_by_id steps (st_id s) = Some s"
  using find_unique_key [of st_id "rev steps" s] by (simp add: step_by_id_def rev_map [symmetric])

text \<open>The \<^verbatim>\<open>while\<close> loop of \<^verbatim>\<open>getStepLineage\<close>, nearest ancestor first.\<close>

function lineage_loop :: "wf_step list \<Rightarrow> string list \<Rightarrow> wf_step \<Rightarrow> wf_step list" where
  "lineage_loop steps visited current =
     (case st_parentId current of
        None \<Rightarrow> []
      | Some p \<Rightarrow>
          if p = [] \<or> p = ''trigger'' then []
          else (case step_by_id steps p of
                  None \<Rightarrow> []
                | Some parent \<Rightarrow>
                    if st_id parent \<in> set visited then []
                    else parent # lineage_loop steps (st_id parent # visited) parent))"
  by pat_completeness auto
termination
proof (relation "measure (\<lambda>(steps, visited, _). card (st_id ` set steps - set visited))", goal_cases)
  case 1
  then show ?case by simp
next
  case (2 steps visited current p parent)
  then have "st_id parent \<in> st_id ` set steps - set visited" by (auto dest: step_by_id_in)
  then have "card (st_id ` set steps - set (st_id parent # visited)) < card (st_id ` set steps - set visited)"
    by (intro psubset_card_mono) auto
  then show ?case by simp
qed

declare lineage_loop.simps [simp del]

definition getStepLineage :: "wf_step list \<Rightarrow> string \<Rightarrow> wf_step list" where
  "getStepLineage steps stepId =
     (case step_by_id steps stepId of None \<Rightarrow> [] | Some current \<Rightarrow> rev (lineage_loop steps [] current))"

definition normalizeConnectorName :: "string option \<Rightarrow> string" where
  "normalizeConnectorName name = js_lower (js_trim (js_default name []))"

definition isCustomerReplyConnector :: "wf_step \<Rightarrow> bool" where
  "isCustomerReplyConnector connector =
     (let name = normalizeConnectorName (st_name connector)
      in name \<noteq> ''failure'' \<and> name \<noteq> ''message failure'' \<and> name \<noteq> ''timeout'')"

definition buildOpenWindow :: "string \<Rightarrow> string \<Rightarrow> channel_facts list \<Rightarrow> open_window option" where
  "buildOpenWindow openedByStepId channelId channels =
     (case channel_by_id channels channelId of
        None \<Rightarrow> None
      | Some channel \<Rightarrow>
          (case customerReplyWindowMinutes (getWorkflowChannelCapability (cf_type channel)) of
             None \<Rightarrow> None
           | Some m \<Rightarrow>
               if m = 0 then None
               else Some \<lparr>ow_channelId = channelId, ow_channelType = cf_type channel, ow_elapsedMinutes = 0,
                 ow_remainingMinutes = of_nat m, ow_expiresAfterMinutes = of_nat m, ow_openedByStepId = openedByStepId\<rparr>))"

definition getWindowFromSendMessageConnector :: "wf_step \<Rightarrow> wf_step \<Rightarrow> channel_facts list \<Rightarrow> open_window option" where
  "getWindowFromSendMessageConnector connector parent channels =
     (if st_type parent \<noteq> ''send_message'' \<or> \<not> isCustomerReplyConnector connector then None
      else let data = asRecord (st_data parent) in
        if \<not> v_truthy (v_fld data ''templateButtonBranching'') \<or> \<not> workflowMessageHasTemplate data then None
        else (case getSpecificChannelId (v_fld data ''channel'') of
                None \<Rightarrow> None | Some channelId \<Rightarrow> buildOpenWindow (st_id parent) channelId channels))"

definition getWindowFromAskQuestionConnector :: "wf_step \<Rightarrow> wf_step \<Rightarrow> channel_facts list \<Rightarrow> open_window option" where
  "getWindowFromAskQuestionConnector connector parent channels =
     (if st_type parent \<noteq> ''ask_question'' \<or> normalizeConnectorName (st_name connector) \<noteq> ''success'' then None
      else (case getSpecificChannelId (v_fld (asRecord (st_data parent)) ''channel'') of
              None \<Rightarrow> None | Some channelId \<Rightarrow> buildOpenWindow (st_id parent) channelId channels))"

definition getWindowFromConnector :: "wf_step \<Rightarrow> wf_step list \<Rightarrow> channel_facts list \<Rightarrow> open_window option" where
  "getWindowFromConnector connector steps channels =
     (if st_type connector \<noteq> ''branch_connector'' \<or> \<not> js_truthy (st_parentId connector) then None
      else (case step_by_id steps (the (st_parentId connector)) of
              None \<Rightarrow> None
            | Some parent \<Rightarrow> js_nullish (getWindowFromSendMessageConnector connector parent channels)
                                       (getWindowFromAskQuestionConnector connector parent channels)))"

definition replaceWindow :: "open_window list \<Rightarrow> open_window \<Rightarrow> open_window list" where
  "replaceWindow windows w = filter (\<lambda>x. ow_channelId x \<noteq> ow_channelId w) windows @ [w]"

definition age_window :: "rat \<Rightarrow> open_window \<Rightarrow> open_window" where
  "age_window minutes w =
     (let elapsed = ow_elapsedMinutes w + minutes
      in w\<lparr>ow_elapsedMinutes := elapsed, ow_remainingMinutes := ow_expiresAfterMinutes w - elapsed\<rparr>)"

definition ageWindows :: "open_window list \<Rightarrow> rat \<Rightarrow> open_window list" where
  "ageWindows windows minutes =
     (if minutes \<le> 0 then windows
      else filter (\<lambda>w. 0 < ow_remainingMinutes w) (map (age_window minutes) windows))"

definition waitToMinutes :: "jsv \<Rightarrow> rat" where
  "waitToMinutes data =
     (let value = (case v_fld data ''value'' of JNum (Fin q) \<Rightarrow> q | _ \<Rightarrow> 0); unit = v_fld data ''unit''
      in if unit = JStr ''seconds'' then value / 60
         else if unit = JStr ''minutes'' then value
         else if unit = JStr ''hours'' then value * 60
         else if unit = JStr ''days'' then value * 24 * 60
         else 0)"

definition path_step :: "wf_step list \<Rightarrow> channel_facts list \<Rightarrow> open_window list \<Rightarrow> wf_step \<Rightarrow> open_window list" where
  "path_step steps channels windows s =
     (if st_type s = ''branch_connector'' then
        (case getWindowFromConnector s steps channels of None \<Rightarrow> windows | Some w \<Rightarrow> replaceWindow windows w)
      else if st_type s = ''wait'' then ageWindows windows (waitToMinutes (asRecord (st_data s)))
      else windows)"

definition getPathContext :: "wf_step list \<Rightarrow> string \<Rightarrow> channel_facts list \<Rightarrow> open_window list" where
  "getPathContext steps stepId channels = foldl (path_step steps channels) [] (getStepLineage steps stepId)"

section \<open>Publishing\<close>

definition validateMessageContent :: "wf_step \<Rightarrow> jsv \<Rightarrow> delivery_issue list" where
  "validateMessageContent step data =
     (let text = js_trim (v_str (v_fld (asRecord (v_fld data ''defaultMessage'')) ''text''));
          attachments = v_fld data ''attachments'';
          hasAttachments = (is_arr attachments \<and> v_arr attachments \<noteq> []);
          hasTemplate = workflowMessageHasTemplate data
      in (if text = [] \<and> \<not> hasAttachments \<and> \<not> hasTemplate
          then [\<lparr>di_stepId = st_id step, di_message = ''Add message content.''\<rparr>] else []) @
         (if v_truthy (v_fld data ''templateButtonBranching'') \<and> \<not> hasTemplate
          then [\<lparr>di_stepId = st_id step, di_message = ''Quick reply branching needs an approved template.''\<rparr>] else []))"

definition validateQuestionContent :: "wf_step \<Rightarrow> jsv \<Rightarrow> delivery_issue list" where
  "validateQuestionContent step data =
     (if js_trim (v_str (v_fld data ''questionText'')) = []
      then [\<lparr>di_stepId = st_id step, di_message = ''Add question text.''\<rparr>] else [])"

definition mode_name :: "message_mode \<Rightarrow> string" where
  "mode_name m = (case m of ModeText \<Rightarrow> ''text'' | ModeMedia \<Rightarrow> ''media'' | ModeTemplate \<Rightarrow> ''template'')"

definition validateSendMessageChannelRules :: "wf_step \<Rightarrow> jsv \<Rightarrow> channel_capability \<Rightarrow> bool \<Rightarrow> delivery_issue list" where
  "validateSendMessageChannelRules step data cap hasOpenWindow =
     (let mode = inferWorkflowMessageMode data in
      if mode \<notin> set (supportedModes cap) then
        [\<lparr>di_stepId = st_id step, di_message = cap_label cap @ '' does not support '' @ mode_name mode @ '' messages.''\<rparr>]
      else if hasOpenWindow then []
      else if requiresTemplateForNewConversation cap \<and> mode \<noteq> ModeTemplate then
        [\<lparr>di_stepId = st_id step, di_message = ''Use an approved '' @ cap_label cap @ '' template for the first message.''\<rparr>]
      else if \<not> canStartOutbound cap \<or> needsExistingChatForOutbound cap then
        [\<lparr>di_stepId = st_id step, di_message = cap_label cap @ '' can reply only after the contact has chatted there.''\<rparr>]
      else [])"

definition validateAskQuestionChannelRules :: "wf_step \<Rightarrow> channel_capability \<Rightarrow> bool \<Rightarrow> delivery_issue list" where
  "validateAskQuestionChannelRules step cap hasOpenWindow =
     (if hasOpenWindow then []
      else if cap_composer cap = ComposeEmail \<or> cap_composer cap = ComposeSms then []
      else [\<lparr>di_stepId = st_id step, di_message = cap_label cap @
        '' questions need an open chat. Ask by Email/SMS or place it after a contact reply branch.''\<rparr>])"

definition validateTriggerChannelStep :: "wf_step \<Rightarrow> jsv \<Rightarrow> delivery_issue list" where
  "validateTriggerChannelStep step data =
     (if st_type step = ''send_message'' then validateMessageContent step data else validateQuestionContent step data)"

definition validateSpecificChannelStep :: "wf_step \<Rightarrow> jsv \<Rightarrow> channel_facts list \<Rightarrow> open_window list \<Rightarrow> delivery_issue list" where
  "validateSpecificChannelStep step data channels windows =
     (case getSpecificChannelId (v_fld data ''channel'') of
        None \<Rightarrow> [\<lparr>di_stepId = st_id step, di_message = ''Choose one channel.''\<rparr>]
      | Some channelId \<Rightarrow>
          (case channel_by_id channels channelId of
             None \<Rightarrow> [\<lparr>di_stepId = st_id step, di_message = ''Selected channel was not found in this workspace.''\<rparr>]
           | Some channel \<Rightarrow>
               let cap = getWorkflowChannelCapability (cf_type channel);
                   hasOpenWindow = list_ex (\<lambda>w. ow_channelId w = channelId) windows
               in if js_truthy (cf_status channel) \<and> cf_status channel \<noteq> Some ''connected'' then
                    [\<lparr>di_stepId = st_id step, di_message = cap_label cap @ '' is disconnected.''\<rparr>]
                  else if \<not> canSendMessage cap then
                    [\<lparr>di_stepId = st_id step, di_message = cap_label cap @ '' cannot send workflow messages.''\<rparr>]
                  else if st_type step = ''send_message'' then
                    validateMessageContent step data @ validateSendMessageChannelRules step data cap hasOpenWindow
                  else
                    validateQuestionContent step data @ validateAskQuestionChannelRules step cap hasOpenWindow))"

definition step_issues :: "string option \<Rightarrow> wf_step list \<Rightarrow> channel_facts list \<Rightarrow> wf_step \<Rightarrow> delivery_issue list" where
  "step_issues triggerType steps channels step =
     (if st_type step \<noteq> ''send_message'' \<and> st_type step \<noteq> ''ask_question'' then []
      else let data = asRecord (st_data step); strategy = resolveStepStrategy (st_type step) data in
        case getWorkflowStrategyIssue triggerType strategy of
          Some message \<Rightarrow> [\<lparr>di_stepId = st_id step, di_message = message\<rparr>]
        | None \<Rightarrow>
            (case strategy of
               Trigger_channel \<Rightarrow> validateTriggerChannelStep step data
             | Specific_channel \<Rightarrow>
                 validateSpecificChannelStep step data channels (getPathContext steps (st_id step) channels)))"

definition validateWorkflowDeliveryForPublish :: "jsv \<Rightarrow> channel_facts list \<Rightarrow> delivery_issue list" where
  "validateWorkflowDeliveryForPublish config channels =
     (let steps = config_steps config; triggerType = opt_str (v_fld (config_trigger config) ''type'')
      in concat (map (step_issues triggerType steps channels) steps))"

definition assertWorkflowDeliveryForPublish :: "jsv \<Rightarrow> channel_facts list \<Rightarrow> exn + unit" where
  "assertWorkflowDeliveryForPublish config channels =
     (let issues = validateWorkflowDeliveryForPublish config channels in
      if issues = [] then Inr ()
      else Inl (BadRequestException (''Workflow delivery rules failed: '' @
        js_join ''; '' (map (\<lambda>i. di_stepId i @ '': '' @ di_message i) issues))))"

end
