(* ===== verification/Workflow_Model.thy ===== *)
theory Workflow_Model
  imports Workflow_Rulebook
begin

text \<open>
  The state of the workflow engine (\<^verbatim>\<open>src/src/modules/workflows\<close>): the tables of the schema it
  reads and writes, the Redis keys of a run's context, of a contact's active run, of the jump and
  round-robin counters, and the job queue. The worker handles one job at a time
  (\<^verbatim>\<open>concurrency: 1\<close>), so the context object of the job in progress is a component of the state,
  \<open>f_cur\<close>: handlers change it in place, and the error handler sees the changes. The clock, fresh
  ids, the outbound message worker, the HTTP endpoint of a request step and the JavaScript runtime
  are parameters.
\<close>

section \<open>Rows\<close>

datatype run_status = RunRunning | RunWaiting | RunCompleted | RunFailed | RunCancelled
datatype run_step_status = StepRunning | StepCompleted | StepFailed

record wf_row =
  wk_id :: string
  wk_workspaceId :: string
  wk_name :: string
  wk_description :: "string option"
  wk_createBy :: string
  wk_publishedAt :: "int option"
  wk_publishedBy :: "string option"
  wk_config :: jsv
  wk_status :: string

record wf_run =
  wr_id :: string
  wr_workspaceId :: string
  wr_workflowId :: string
  wr_contactId :: string
  wr_status :: run_status
  wr_currentStepId :: "string option"
  wr_triggerData :: jsobj
  wr_startedAt :: int
  wr_completedAt :: "int option"
  wr_failedAt :: "int option"
  wr_error :: "string option"

record wf_run_step =
  ws_id :: string
  ws_runId :: string
  ws_stepId :: string
  ws_stepType :: string
  ws_status :: run_step_status
  ws_input :: jsv
  ws_output :: jsv
  ws_error :: "string option"
  ws_attempts :: nat
  ws_startedAt :: int
  ws_completedAt :: "int option"

record wf_ctx =
  rc_runId :: string
  rc_workflowId :: string
  rc_workflowName :: "string option"
  rc_workspaceId :: string
  rc_contactId :: string
  rc_conversationId :: "string option"
  rc_contact :: jsobj
  rc_trigger :: jsobj
  rc_steps :: "(string \<times> jsv \<times> string) list"
  rc_vars :: jsobj

text \<open>A contact's columns are read and written by name.\<close>

record wf_contact =
  ct_id :: string
  ct_workspaceId :: string
  ct_cols :: jsobj

record wf_conv =
  cv_id :: string
  cv_workspaceId :: string
  cv_contactId :: string
  cv_lastChannelId :: "string option"
  cv_updatedAt :: int
  cv_resolvedAt :: "int option"

record wf_tag =
  tg_id :: string
  tg_workspaceId :: string
  tg_name :: string
  tg_createdBy :: string

record wf_member =
  wm_workspaceId :: string
  wm_userId :: string
  wm_role :: string
  wm_status :: string
  wm_availability :: string

record wf_activity =
  wa_id :: string
  wa_workspaceId :: string
  wa_conversationId :: string
  wa_eventType :: string
  wa_subjectUserId :: "string option"
  wa_subjectTeamId :: "string option"
  wa_metadata :: jsv

record wf_note =
  wn_workspaceId :: string
  wn_conversationId :: string
  wn_text :: string
  wn_category :: jsv

record wf_notice =
  nt_userId :: string
  nt_workspaceId :: string
  nt_body :: string
  nt_dedupeKey :: string

record out_message =
  om_workspaceId :: string
  om_conversationId :: string
  om_channelId :: string
  om_text :: "string option"
  om_attachments :: "jsv list"
  om_metadata :: jsv

datatype wf_job =
    JobTrigger string string string "string option" jsobj
  | JobResume string jsobj
  | JobExecute string string
  | JobTimeout string string

record queued =
  qd_job :: wf_job
  qd_delay :: jsnum
  qd_jobId :: "string option"

record http_call =
  hc_method :: jsv
  hc_url :: string
  hc_headers :: "(string \<times> string) list"
  hc_body :: "string option"

section \<open>State and environment\<close>

record wf =
  f_workflows :: "wf_row list"
  f_runs :: "wf_run list"
  f_runSteps :: "wf_run_step list"
  f_ctx :: "string \<Rightarrow> (wf_ctx \<times> int) option"
  f_active :: "string \<times> string \<Rightarrow> ((string \<times> string) \<times> int) option"
  f_jumps :: "string \<times> string \<Rightarrow> nat"
  f_rr :: "string \<Rightarrow> nat"
  f_queue :: "queued list"
  f_jobIds :: "string list"
  f_contacts :: "wf_contact list"
  f_contactTags :: "(string \<times> string) list"
  f_tags :: "wf_tag list"
  f_convs :: "wf_conv list"
  f_members :: "wf_member list"
  f_teamMembers :: "(string \<times> string) list"
  f_lifecycles :: "(string \<times> string) list"
  f_teams :: "(string \<times> string) list"
  f_channels :: "(string \<times> channel_facts) list"
  f_activities :: "wf_activity list"
  f_notes :: "wf_note list"
  f_notices :: "wf_notice list"
  f_sent :: "out_message list"
  f_cur :: wf_ctx

type_synonym 'a wfd = "(wf, 'a) io"

text \<open>
  \<open>we_outbound\<close> is the outcome of waiting for the outbound job: \<open>None\<close> when it finished, the
  message of the error otherwise. \<open>we_fetch\<close> returns the error of \<^verbatim>\<open>fetch\<close>, or the status and
  the body, where a body that is not JSON is the empty object. \<open>we_activity\<close> and \<open>we_notices\<close> say
  whether the optional services are injected, and \<open>we_activity_ok\<close> whether the write succeeds.
  \<open>we_nullJson\<close> says whether the database client takes a plain null for a JSON column or rejects it.
\<close>

record wf_env =
  we_js :: js_runtime
  we_now :: "wf \<Rightarrow> int"
  we_newid :: "wf \<Rightarrow> string"
  we_outbound :: "wf \<Rightarrow> out_message \<Rightarrow> string option"
  we_fetch :: "wf \<Rightarrow> http_call \<Rightarrow> string + (int \<times> jsv)"
  we_activity :: bool
  we_activity_ok :: "wf \<Rightarrow> bool"
  we_notices :: bool
  we_nullJson :: bool

definition wf_clock :: "wf_env \<Rightarrow> int wfd" where
  "wf_clock E = gets (we_now E)"

definition cur :: "wf_ctx wfd" where
  "cur = gets f_cur"

definition upd_cur :: "(wf_ctx \<Rightarrow> wf_ctx) \<Rightarrow> unit wfd" where
  "upd_cur f = modify (\<lambda>s. s\<lparr>f_cur := f (f_cur s)\<rparr>)"

definition set_var :: "string \<Rightarrow> jsv \<Rightarrow> unit wfd" where
  "set_var k v = upd_cur (\<lambda>c. c\<lparr>rc_vars := o_set k v (rc_vars c)\<rparr>)"

definition del_var :: "string \<Rightarrow> unit wfd" where
  "del_var k = upd_cur (\<lambda>c. c\<lparr>rc_vars := o_del k (rc_vars c)\<rparr>)"

section \<open>JSON\<close>

text \<open>
  What a value is after \<^verbatim>\<open>JSON.parse(JSON.stringify(v))\<close>: dates become strings, numbers
  that are not finite and missing array elements become null, missing members disappear.
\<close>

fun json_value :: "js_runtime \<Rightarrow> jsv \<Rightarrow> jsv" where
  "json_value R JUndef = JNull"
| "json_value R JNull = JNull"
| "json_value R (JBool b) = JBool b"
| "json_value R (JNum n) = (if num_finite n then JNum n else JNull)"
| "json_value R (JStr t) = JStr t"
| "json_value R (JDate d) = JStr (js_date_iso R d)"
| "json_value R (JArr xs) = JArr (map (json_value R) xs)"
| "json_value R (JObj ob) =
     JObj (map (\<lambda>p. (fst p, json_value R (snd p))) (filter (\<lambda>p. snd p \<noteq> JUndef) ob))"

definition json_obj :: "js_runtime \<Rightarrow> jsobj \<Rightarrow> jsobj" where
  "json_obj R ob = map (\<lambda>p. (fst p, json_value R (snd p))) (filter (\<lambda>p. snd p \<noteq> JUndef) ob)"

definition json_ctx :: "js_runtime \<Rightarrow> wf_ctx \<Rightarrow> wf_ctx" where
  "json_ctx R c =
     c\<lparr>rc_contact := json_obj R (rc_contact c), rc_trigger := json_obj R (rc_trigger c),
       rc_steps := map (\<lambda>(i, v, st). (i, json_value R v, st)) (rc_steps c), rc_vars := json_obj R (rc_vars c)\<rparr>"

section \<open>Redis and the queue\<close>

definition RUN_CTX_TTL :: int where
  "RUN_CTX_TTL = 60 * 60 * 24"

definition ttl_get :: "int \<Rightarrow> ('v \<times> int) option \<Rightarrow> 'v option" where
  "ttl_get now entry = (case entry of None \<Rightarrow> None | Some (v, e) \<Rightarrow> if now < e then Some v else None)"

definition saveContext_of :: "wf_env \<Rightarrow> wf_ctx \<Rightarrow> unit wfd" where
  "saveContext_of E c =
     modify (\<lambda>s. s\<lparr>f_ctx := (f_ctx s)(rc_runId c \<mapsto> (json_ctx (we_js E) c, we_now E s + RUN_CTX_TTL * 1000))\<rparr>)"

definition saveContext :: "wf_env \<Rightarrow> unit wfd" where
  "saveContext E = bind_io cur (saveContext_of E)"

definition loadContext :: "wf_env \<Rightarrow> string \<Rightarrow> wf_ctx option wfd" where
  "loadContext E runId = gets (\<lambda>s. ttl_get (we_now E s) (f_ctx s runId))"

definition active_run :: "wf_env \<Rightarrow> string \<Rightarrow> string \<Rightarrow> (string \<times> string) option wfd" where
  "active_run E workspaceId contactId = gets (\<lambda>s. ttl_get (we_now E s) (f_active s (workspaceId, contactId)))"

definition markActiveRun :: "wf_env \<Rightarrow> unit wfd" where
  "markActiveRun E =
     modify (\<lambda>s. let c = f_cur s in
       s\<lparr>f_active := (f_active s)((rc_workspaceId c, rc_contactId c) \<mapsto>
           ((rc_runId c, rc_workflowId c), we_now E s + RUN_CTX_TTL * 1000))\<rparr>)"

text \<open>A job whose id the queue still knows is not added again.\<close>

definition job_add :: "queued \<Rightarrow> unit wfd" where
  "job_add q =
     modify (\<lambda>s. case qd_jobId q of
         None \<Rightarrow> s\<lparr>f_queue := f_queue s @ [q]\<rparr>
       | Some i \<Rightarrow> if i \<in> set (f_jobIds s) then s
                   else s\<lparr>f_queue := f_queue s @ [q], f_jobIds := i # f_jobIds s\<rparr>)"

definition plain_job :: "wf_job \<Rightarrow> queued" where
  "plain_job j = \<lparr>qd_job = j, qd_delay = Fin 0, qd_jobId = None\<rparr>"

definition enqueueStep :: "wf_env \<Rightarrow> string \<Rightarrow> string \<Rightarrow> unit wfd" where
  "enqueueStep E runId stepId =
     bind_io (wf_clock E) (\<lambda>now. job_add \<lparr>qd_job = JobExecute runId stepId, qd_delay = Fin 0,
       qd_jobId = Some (''step-'' @ runId @ ''-'' @ stepId @ ''-'' @ js_int_str now)\<rparr>)"

section \<open>Tables\<close>

definition wf_update :: "(wf \<Rightarrow> 'r list) \<Rightarrow> ('r list \<Rightarrow> wf \<Rightarrow> wf) \<Rightarrow> ('r \<Rightarrow> bool) \<Rightarrow> ('r \<Rightarrow> 'r) \<Rightarrow> unit wfd" where
  "wf_update get put P f s =
     (case find P (get s) of
        None \<Rightarrow> (Inl PrismaP2025, s)
      | Some r \<Rightarrow> (Inr (), put (upd_where P f (get s)) s))"

definition find_run :: "wf \<Rightarrow> string \<Rightarrow> wf_run option" where
  "find_run s i = find (\<lambda>r. wr_id r = i) (f_runs s)"

definition find_workflow :: "wf \<Rightarrow> string \<Rightarrow> wf_row option" where
  "find_workflow s i = find (\<lambda>w. wk_id w = i) (f_workflows s)"

definition find_contact :: "wf \<Rightarrow> string \<Rightarrow> wf_contact option" where
  "find_contact s i = find (\<lambda>c. ct_id c = i) (f_contacts s)"

definition run_update :: "string \<Rightarrow> (wf_run \<Rightarrow> wf_run) \<Rightarrow> unit wfd" where
  "run_update i = wf_update f_runs (\<lambda>x. f_runs_update (\<lambda>_. x)) (\<lambda>r. wr_id r = i)"

definition runStep_update :: "string \<Rightarrow> (wf_run_step \<Rightarrow> wf_run_step) \<Rightarrow> unit wfd" where
  "runStep_update i = wf_update f_runSteps (\<lambda>x. f_runSteps_update (\<lambda>_. x)) (\<lambda>r. ws_id r = i)"

text \<open>The columns of the contact table; a write to another column is rejected by the client.\<close>

definition CONTACT_COLUMNS :: "string list" where
  "CONTACT_COLUMNS = [''firstName'', ''lastName'', ''email'', ''phone'', ''company'', ''avatarUrl'', ''createdAt'',
     ''updatedAt'', ''lifecycleId'', ''status'', ''marketingOptOut'', ''mergedIntoContactId'', ''mergedAt'',
     ''mergedByUserId'', ''assigneeId'', ''teamId'', ''workspaceMemberId'']"

definition set_cols :: "jsobj \<Rightarrow> wf_contact \<Rightarrow> wf_contact" where
  "set_cols cols c = c\<lparr>ct_cols := o_merge (ct_cols c) cols\<rparr>"

definition contact_update :: "string \<Rightarrow> jsobj \<Rightarrow> unit wfd" where
  "contact_update i cols =
     (if list_all (\<lambda>p. fst p \<in> set CONTACT_COLUMNS) cols
      then wf_update f_contacts (\<lambda>x. f_contacts_update (\<lambda>_. x)) (\<lambda>c. ct_id c = i) (set_cols cols)
      else throw PrismaValidation)"

text \<open>\<^verbatim>\<open>updateMany\<close> with the contact's id and workspace; the number of rows it changed.\<close>

definition contact_updateMany :: "string \<Rightarrow> string \<Rightarrow> jsobj \<Rightarrow> nat wfd" where
  "contact_updateMany i workspaceId cols =
     bind_io (gets (\<lambda>s. length (filter (\<lambda>c. ct_id c = i \<and> ct_workspaceId c = workspaceId) (f_contacts s)))) (\<lambda>n.
     seq_io (modify (\<lambda>s. s\<lparr>f_contacts := upd_where (\<lambda>c. ct_id c = i \<and> ct_workspaceId c = workspaceId) (set_cols cols) (f_contacts s)\<rparr>))
       (ret n))"

definition activity_create :: "wf_env \<Rightarrow> string \<Rightarrow> string \<Rightarrow> string \<Rightarrow> string option \<Rightarrow> string option \<Rightarrow> jsv \<Rightarrow> string wfd" where
  "activity_create E workspaceId conversationId eventType user team metadata =
     bind_io (gets (we_newid E)) (\<lambda>i.
     seq_io (modify (\<lambda>s. s\<lparr>f_activities := f_activities s @ [\<lparr>wa_id = i, wa_workspaceId = workspaceId,
        wa_conversationId = conversationId, wa_eventType = eventType, wa_subjectUserId = user,
        wa_subjectTeamId = team, wa_metadata = metadata\<rparr>]\<rparr>))
       (ret i))"

text \<open>Options as JSON: a missing string is null in a row and in an output.\<close>

definition j_opt :: "string option \<Rightarrow> jsv" where
  "j_opt v = (case v of None \<Rightarrow> JNull | Some t \<Rightarrow> JStr t)"

definition j_undef :: "string option \<Rightarrow> jsv" where
  "j_undef v = (case v of None \<Rightarrow> JUndef | Some t \<Rightarrow> JStr t)"

text \<open>\<^verbatim>\<open>step.data.x\<close> where the object is missing is a \<^verbatim>\<open>TypeError\<close>.\<close>

definition need :: "jsv \<Rightarrow> jsv wfd" where
  "need v = (if v_nullish v then throw (TypeErrorException ''Cannot read properties of undefined'') else ret v)"

definition exn_message :: "exn \<Rightarrow> string" where
  "exn_message e =
     (case e of BadRequestException m \<Rightarrow> m | NotFoundException m \<Rightarrow> m | ForbiddenException m \<Rightarrow> m
      | UnauthorizedException m \<Rightarrow> m | InternalServerErrorException m \<Rightarrow> m | ConflictException m \<Rightarrow> m
      | PlainError m \<Rightarrow> m | PrismaP2002 \<Rightarrow> ''Unique constraint failed'' | PrismaP2025 \<Rightarrow> ''Record to update not found.''
      | PrismaValidation \<Rightarrow> ''Unknown argument'' | TypeErrorException m \<Rightarrow> m
      | SdkException se \<Rightarrow> js_default (se_message se) [])"

lemma need_bind: "bind_io (need v) f s = (if v_nullish v then (Inl (TypeErrorException ''Cannot read properties of undefined''), s) else f v s)"
  by (simp add: need_def io_simps)

lemma need_then: "seq_io (need v) m s = (if v_nullish v then (Inl (TypeErrorException ''Cannot read properties of undefined''), s) else m s)"
  by (simp add: seq_io_def need_bind)

end
