(* ===== verification/Workflow_Conditions.thy ===== *)
theory Workflow_Conditions
  imports Workflow_Model
begin

text \<open>
  The pure decisions of \<^verbatim>\<open>workflow-engine.service.ts\<close> and \<^verbatim>\<open>branch-routing.util.ts\<close>: the
  conditions of triggers and branches, the data a trigger filters by, the choice of a branch, and
  the validation of an answer. The tables that the source writes as object literals are looked up
  by their own keys.
\<close>

section \<open>Fields\<close>

definition CONTACT_FIELD_ALIASES :: "(string \<times> string) list" where
  "CONTACT_FIELD_ALIASES =
     [(''firstName'', ''firstName''), (''first_name'', ''firstName''), (''lastName'', ''lastName''),
      (''last_name'', ''lastName''), (''email'', ''email''), (''phone'', ''phone''), (''company'', ''company''),
      (''status'', ''status'')]"

definition BRANCH_CONTACT_FIELD_ALIASES :: "(string \<times> string) list" where
  "BRANCH_CONTACT_FIELD_ALIASES = CONTACT_FIELD_ALIASES @
     [(''createdAt'', ''createdAt''), (''created_at'', ''createdAt''), (''updatedAt'', ''updatedAt''),
      (''updated_at'', ''updatedAt''), (''lifecycle'', ''lifecycleId''), (''lifecycleId'', ''lifecycleId''),
      (''lifecycle_id'', ''lifecycleId''), (''lifecycleName'', ''lifecycleName''), (''lifecycle_name'', ''lifecycleName''),
      (''assignee'', ''assigneeId''), (''assigneeId'', ''assigneeId''), (''assignee_id'', ''assigneeId''),
      (''team'', ''teamId''), (''teamId'', ''teamId''), (''team_id'', ''teamId'')]"

definition resolveContactWorkflowField :: "string \<Rightarrow> string option" where
  "resolveContactWorkflowField fieldId = map_of CONTACT_FIELD_ALIASES fieldId"

definition resolveBranchContactWorkflowField :: "string \<Rightarrow> string option" where
  "resolveBranchContactWorkflowField fieldId = map_of BRANCH_CONTACT_FIELD_ALIASES fieldId"

definition resolveTriggerField :: "string \<Rightarrow> jsobj \<Rightarrow> jsobj \<Rightarrow> jsv" where
  "resolveTriggerField field contact triggerData =
     (case resolveContactWorkflowField field of
        Some cf \<Rightarrow> v_or (o_get contact cf) (v_or (o_get contact field) (v_or (o_get triggerData cf) (o_get triggerData field)))
      | None \<Rightarrow> v_or (o_get contact field) (o_get triggerData field))"

definition compactBranchValues :: "jsv list \<Rightarrow> jsv list" where
  "compactBranchValues = filter (\<lambda>v. nonempty_str v \<or> (case v of JNum _ \<Rightarrow> True | _ \<Rightarrow> False))"

text \<open>\<^verbatim>\<open>Date.now() - new Date(at).getTime()\<close>, or null when there is no date\<close>

definition elapsed_ms :: "js_runtime \<Rightarrow> int \<Rightarrow> jsv \<Rightarrow> jsv" where
  "elapsed_ms R now since =
     (if \<not> v_truthy since then JNull
      else JNum (case js_date_ms R since of Fin q \<Rightarrow> Fin (of_int now - q) | _ \<Rightarrow> NaN))"

definition resolveBranchField :: "js_runtime \<Rightarrow> int \<Rightarrow> jsv \<Rightarrow> wf_ctx \<Rightarrow> jsv" where
  "resolveBranchField R now cond c =
     (let category = v_fld cond ''category''; field = v_fld cond ''field''; key = js_String R field;
          contact = rc_contact c; trigger = rc_trigger c
      in if category = JStr ''contact_field'' then
           (case resolveBranchContactWorkflowField (js_String R (v_or field (JStr []))) of
              Some cf \<Rightarrow> v_or (o_get contact cf) (o_get contact key)
            | None \<Rightarrow> o_get contact key)
         else if category = JStr ''contact_tags'' then v_or (o_get contact ''tags'') (JArr [])
         else if category = JStr ''variable'' then v_or (o_get (rc_vars c) key) (o_get trigger key)
         else if category = JStr ''assignee_status'' then v_or (o_get contact ''assigneeAvailability'') JNull
         else if category = JStr ''last_interacted_channel'' then
           JArr (compactBranchValues [o_get trigger ''channelId'', o_get trigger ''channel'',
             o_get contact ''lastInteractedChannelId'', o_get contact ''lastInteractedChannelType''])
         else if category = JStr ''last_incoming_message'' then
           v_or (o_get trigger ''lastIncomingMessage'') (v_or (o_get contact ''lastIncomingMessage'') JNull)
         else if category = JStr ''last_outgoing_message'' then
           v_or (o_get trigger ''lastOutgoingMessage'') (v_or (o_get contact ''lastOutgoingMessage'') JNull)
         else if category = JStr ''last_outgoing_message_source'' then
           v_or (o_get trigger ''lastOutgoingMessageSource'') (v_or (o_get contact ''lastOutgoingMessageSource'') JNull)
         else if category = JStr ''time_since_last_incoming'' then
           elapsed_ms R now (v_or (o_get trigger ''lastIncomingAt'') (o_get contact ''lastIncomingAt''))
         else if category = JStr ''time_since_last_outgoing'' then
           elapsed_ms R now (v_or (o_get trigger ''lastOutgoingAt'') (o_get contact ''lastOutgoingAt''))
         else JUndef)"

section \<open>One condition\<close>

text \<open>\<^verbatim>\<open>parts[i]\<close>: undefined beyond the end\<close>

definition part :: "string list \<Rightarrow> nat \<Rightarrow> jsv" where
  "part ps i = (if i < length ps then JStr (ps ! i) else JUndef)"

definition time_unit :: "jsv \<Rightarrow> jsnum" where
  "time_unit u =
     Fin (if u = JStr ''minutes'' then 60000 else if u = JStr ''hours'' then 3600000
          else if u = JStr ''days'' then 86400000 else 60000)"

definition as_list :: "jsv \<Rightarrow> jsv list" where
  "as_list v = (if is_arr v then v_arr v else [v])"

definition set_operator :: "js_runtime \<Rightarrow> string \<Rightarrow> jsv \<Rightarrow> jsv \<Rightarrow> bool" where
  "set_operator R operator value condValue =
     (let arr = as_list value;
          vals = filter (\<lambda>x. \<not> v_nullish x \<and> js_trim (js_String R x) \<noteq> []) (as_list condValue)
      in vals \<noteq> [] \<and>
         (if operator = ''has_any_of'' then list_ex (\<lambda>a. v_member a vals) arr
          else if operator = ''has_all_of'' then list_all (\<lambda>v. v_member v arr) vals
          else \<not> list_ex (\<lambda>a. v_member a vals) arr))"

definition v_empty :: "jsv \<Rightarrow> bool" where
  "v_empty v = (if is_arr v then v_arr v = [] else v_nullish v \<or> v = JStr [])"

definition timestamp_operator :: "js_runtime \<Rightarrow> string \<Rightarrow> jsv \<Rightarrow> jsv \<Rightarrow> bool" where
  "timestamp_operator R operator value condValue =
     (let ts = js_date_ms R value in
      if operator = ''is_timestamp_after'' then num_lt (js_date_ms R condValue) ts
      else if operator = ''is_timestamp_before'' then num_lt ts (js_date_ms R condValue)
      else let ps = js_split CHR ''|'' (js_String R condValue)
           in num_le (js_date_ms R (part ps 0)) ts \<and> num_le ts (js_date_ms R (part ps 1)))"

definition duration_operator :: "js_runtime \<Rightarrow> string \<Rightarrow> jsv \<Rightarrow> jsv \<Rightarrow> bool" where
  "duration_operator R operator value condValue =
     (let ms = js_Number R value; ps = js_split CHR ''|'' (js_String R condValue) in
      if operator = ''is_greater_than_time'' then
        num_lt (num_mul (js_Number R (part ps 0)) (time_unit (part ps 1))) ms
      else if operator = ''is_less_than_time'' then
        num_lt ms (num_mul (js_Number R (part ps 0)) (time_unit (part ps 1)))
      else let unit = time_unit (part ps 2)
           in num_le (num_mul (js_Number R (part ps 0)) unit) ms \<and> num_le ms (num_mul (js_Number R (part ps 1)) unit))"

definition numeric_operator :: "js_runtime \<Rightarrow> string \<Rightarrow> jsv \<Rightarrow> jsv \<Rightarrow> bool" where
  "numeric_operator R operator value condValue =
     (let num = parseFloat (js_String R value) in
      if operator = ''is_greater_than'' then num_lt (parseFloat (js_String R condValue)) num
      else if operator = ''is_less_than'' then num_lt num (parseFloat (js_String R condValue))
      else let ns = map parseFloat (js_split CHR ''|'' (js_String R condValue))
           in 2 \<le> length ns \<and> num_le (ns ! 0) num \<and> num_le num (ns ! 1))"

definition string_operator :: "js_runtime \<Rightarrow> string \<Rightarrow> jsv \<Rightarrow> jsv \<Rightarrow> bool" where
  "string_operator R operator value condValue =
     (let cv = js_lower (js_String R condValue);
          stringValues = map (\<lambda>x. js_lower (js_String R x)) (as_list value)
      in if operator = ''is_equal_to'' then list_ex (\<lambda>x. x = cv) stringValues
         else if operator = ''is_not_equal_to'' then list_all (\<lambda>x. x \<noteq> cv) stringValues
         else if operator = ''contains'' then list_ex (\<lambda>x. js_includes x cv) stringValues
         else if operator = ''does_not_contain'' then list_all (\<lambda>x. \<not> js_includes x cv) stringValues
         else False)"

definition evaluateSingle :: "js_runtime \<Rightarrow> string \<Rightarrow> jsv \<Rightarrow> jsv \<Rightarrow> bool" where
  "evaluateSingle R operator value condValue =
     (if operator \<in> {''has_any_of'', ''has_all_of'', ''has_none_of''} then set_operator R operator value condValue
      else if operator = ''exists'' then \<not> v_empty value
      else if operator = ''does_not_exist'' then v_empty value
      else if v_empty value then False
      else if operator \<in> {''is_timestamp_after'', ''is_timestamp_before'', ''is_timestamp_between''} then
        timestamp_operator R operator value condValue
      else if operator \<in> {''is_greater_than_time'', ''is_less_than_time'', ''is_between_time''} then
        duration_operator R operator value condValue
      else if operator \<in> {''is_greater_than'', ''is_less_than'', ''is_between''} then
        numeric_operator R operator value condValue
      else string_operator R operator value condValue)"

section \<open>Lists of conditions\<close>

text \<open>The loop: each condition joins the result so far by the operator of the condition before it.\<close>

definition joined_by :: "jsv \<Rightarrow> bool \<Rightarrow> bool \<Rightarrow> bool" where
  "joined_by prev result m =
     (if v_or (v_fld prev ''logicalOperator'') (JStr ''AND'') = JStr ''AND'' then result \<and> m else result \<or> m)"

fun combine_rest :: "(jsv \<Rightarrow> bool) \<Rightarrow> bool \<Rightarrow> jsv \<Rightarrow> jsv list \<Rightarrow> bool" where
  "combine_rest m result prev [] = result"
| "combine_rest m result prev (c # cs) = combine_rest m (joined_by prev result (m c)) c cs"

fun combine_conditions :: "(jsv \<Rightarrow> bool) \<Rightarrow> jsv list \<Rightarrow> bool" where
  "combine_conditions m [] = True"
| "combine_conditions m (c # cs) = combine_rest m (m c) c cs"

definition evaluateConditions :: "js_runtime \<Rightarrow> jsv list \<Rightarrow> jsobj \<Rightarrow> jsobj \<Rightarrow> bool" where
  "evaluateConditions R conditions contact triggerData =
     combine_conditions (\<lambda>cond. evaluateSingle R (v_str (v_fld cond ''operator''))
       (resolveTriggerField (js_String R (v_fld cond ''field'')) contact triggerData) (v_fld cond ''value'')) conditions"

definition evaluateBranchConditions :: "js_runtime \<Rightarrow> int \<Rightarrow> jsv list \<Rightarrow> wf_ctx \<Rightarrow> bool" where
  "evaluateBranchConditions R now conditions c =
     combine_conditions (\<lambda>cond. evaluateSingle R (v_str (v_fld cond ''operator''))
       (resolveBranchField R now cond c) (v_fld cond ''value'')) conditions"

section \<open>Choosing a branch\<close>

definition isElseBranchConnector :: "wf_step \<Rightarrow> nat \<Rightarrow> wf_step list \<Rightarrow> bool" where
  "isElseBranchConnector connector index connectors =
     (let name = normalizeConnectorName (st_name connector) in
      v_fld (st_data connector) ''isElse'' = JBool True \<or> name = ''else'' \<or>
      (1 < length connectors \<and> index = length connectors - 1 \<and> name = ''branch path'' \<and>
        v_length (v_fld (st_data connector) ''conditions'') = 0))"

definition findElseBranchConnector :: "wf_step list \<Rightarrow> wf_step option" where
  "findElseBranchConnector connectors =
     map_option fst (find (\<lambda>(c, i). isElseBranchConnector c i connectors) (zip connectors [0..<length connectors]))"

definition child_connectors :: "wf_step list \<Rightarrow> wf_step \<Rightarrow> wf_step list" where
  "child_connectors steps step = filter (\<lambda>s. st_parentId s = Some (st_id step) \<and> st_type s = ''branch_connector'') steps"

text \<open>The first connector that is not the else branch and whose conditions hold.\<close>

definition matching_connector :: "js_runtime \<Rightarrow> int \<Rightarrow> wf_ctx \<Rightarrow> wf_step list \<Rightarrow> wf_step option" where
  "matching_connector R now c connectors =
     map_option fst (find (\<lambda>(k, i). \<not> isElseBranchConnector k i connectors \<and>
        evaluateBranchConditions R now (v_arr (v_fld (st_data k) ''conditions'')) c) (zip connectors [0..<length connectors]))"

section \<open>The data of a trigger\<close>

definition filter_ok :: "jsv \<Rightarrow> jsv \<Rightarrow> bool" where
  "filter_ok options v = (0 < v_length options \<longrightarrow> v_includes options v)"

definition validateTriggerData :: "jsv \<Rightarrow> jsobj \<Rightarrow> bool" where
  "validateTriggerData trigger td =
     (let data = v_fld trigger ''data''; t = v_fld trigger ''type'' in
      if t = JStr ''conversation_opened'' then filter_ok (v_fld data ''sources'') (o_get td ''source'')
      else if t = JStr ''conversation_closed'' then
        filter_ok (v_fld data ''sources'') (o_get td ''source'') \<and> filter_ok (v_fld data ''categories'') (o_get td ''category'')
      else if t = JStr ''contact_tag_updated'' then
        filter_ok (v_fld data ''tags'') (o_get td ''tagId'') \<and>
        \<not> (v_truthy (v_fld data ''action'') \<and> \<not> v_eq (v_fld data ''action'') (o_get td ''action''))
      else if t = JStr ''contact_field_updated'' then
        \<not> (v_truthy (v_fld data ''fieldId'') \<and>
          v_fld data ''fieldId'' \<notin> (\<lambda>p. JStr (fst p)) ` set (v_obj (v_or (o_get td ''fields'') (JObj []))))
      else if t = JStr ''lifecycle_updated'' then
        (if v_fld data ''stageSelection'' = JStr ''specific'' \<and> 0 < v_length (v_fld data ''stages'') then
           (v_truthy (v_fld data ''triggerWhenCleared'') \<and> o_get td ''lifecycleId'' = JNull) \<or>
           v_includes (v_fld data ''stages'') (o_get td ''lifecycleId'')
         else True)
      else True)"

section \<open>Answers\<close>

definition email_ok :: "string \<Rightarrow> bool" where
  "email_ok s =
     (case js_split CHR ''@'' s of
        [local, domain] \<Rightarrow>
          local \<noteq> [] \<and> list_all (\<lambda>c. \<not> js_space c) s \<and>
          list_ex (\<lambda>i. 0 < i \<and> Suc i < length domain \<and> domain ! i = CHR ''.'') [0..<length domain]
      | _ \<Rightarrow> False)"

definition phone_char :: "char \<Rightarrow> bool" where
  "phone_char c = (is_digit c \<or> js_space c \<or> c \<in> {CHR ''-'', CHR ''('', CHR '')'', CHR ''.''})"

definition phone_ok :: "string \<Rightarrow> bool" where
  "phone_ok s =
     (let t = (if js_starts_with s ''+'' then drop 1 s else s)
      in 7 \<le> length t \<and> length t \<le> 20 \<and> list_all phone_char t)"

text \<open>\<^verbatim>\<open>label?.trim()\<close>\<close>

definition option_label :: "jsv \<Rightarrow> string option" where
  "option_label o1 = map_option js_trim (opt_str (v_fld o1 ''label''))"

definition resolveRatingAnswer :: "js_runtime \<Rightarrow> string \<Rightarrow> string option" where
  "resolveRatingAnswer R answer =
     (case js_star_count R answer of
        None \<Rightarrow> None
      | Some rating \<Rightarrow> if 1 \<le> rating \<and> rating \<le> 5 then Some (js_nat_str rating) else None)"

definition non_empty :: "string option \<Rightarrow> string option" where
  "non_empty v = (if js_truthy v then v else None)"

definition resolveMultipleChoiceAnswer :: "string \<Rightarrow> jsv \<Rightarrow> string option" where
  "resolveMultipleChoiceAnswer answer stepData =
     (let options = v_arr (v_fld stepData ''multipleChoiceOptions''); val = js_trim answer; n = number_of_string val in
      if options = [] then None
      else if num_integer n \<and> num_le (Fin 1) n \<and> num_le n (Fin (of_nat (length options))) then
        non_empty (option_label (options ! (case n of Fin q \<Rightarrow> nat \<lfloor>q\<rfloor> - 1 | _ \<Rightarrow> 0)))
      else (case find (\<lambda>o1. map_option js_lower (option_label o1) = Some (js_lower val)) options of
              None \<Rightarrow> None | Some o1 \<Rightarrow> non_empty (option_label o1)))"

definition normaliseQuestionAnswer :: "js_runtime \<Rightarrow> jsv \<Rightarrow> jsv \<Rightarrow> jsv \<Rightarrow> string" where
  "normaliseQuestionAnswer R answer questionType stepData =
     (let val = js_trim (js_String R (v_or answer (JStr []))) in
      if questionType = JStr ''rating'' then js_default (resolveRatingAnswer R val) val
      else if questionType \<noteq> JStr ''multiple_choice'' then val
      else js_default (resolveMultipleChoiceAnswer val stepData) val)"

text \<open>The reason an answer is not valid, or none.\<close>

definition validateAnswer :: "js_runtime \<Rightarrow> string \<Rightarrow> jsv \<Rightarrow> jsv \<Rightarrow> string option" where
  "validateAnswer R answer questionType stepData =
     (let val = js_trim answer in
      if val = [] then Some ''empty answer''
      else if questionType = JStr ''number'' then
        (let num = parseFloat val; lo = v_fld stepData ''numberMin''; hi = v_fld stepData ''numberMax'' in
         if num = NaN then Some ''not a valid number''
         else if lo \<noteq> JUndef \<and> num_lt num (js_Number R lo) then Some (''number must be at least '' @ js_String R lo)
         else if hi \<noteq> JUndef \<and> num_lt (js_Number R hi) num then Some (''number must be at most '' @ js_String R hi)
         else None)
      else if questionType = JStr ''email'' then (if email_ok val then None else Some ''not a valid email address'')
      else if questionType = JStr ''phone'' then (if phone_ok val then None else Some ''not a valid phone number'')
      else if questionType = JStr ''url'' then
        (if js_url_ok R (if js_starts_with val ''http'' then val else ''https://'' @ val) then None else Some ''not a valid URL'')
      else if questionType = JStr ''date'' then
        (if js_date_parse R val = NaN then Some ''not a valid date'' else None)
      else if questionType = JStr ''rating'' then
        (let rating = parseInt val in
         if rating = NaN \<or> num_lt rating (Fin 1) \<or> num_lt (Fin 5) rating then Some ''rating must be between 1 and 5'' else None)
      else if questionType = JStr ''multiple_choice'' then
        (let options = v_arr (v_or (v_fld stepData ''multipleChoiceOptions'') (JArr [])) in
         if options = [] then None
         else if resolveMultipleChoiceAnswer val stepData = None then
           Some (''answer must be one of: '' @ js_join '', '' (map (\<lambda>o1. v_str (v_fld o1 ''label'')) options))
         else None)
      else None)"

definition buildQuestionQuickReplies :: "js_runtime \<Rightarrow> jsv \<Rightarrow> (string \<times> string) list" where
  "buildQuestionQuickReplies R stepData =
     (if v_fld stepData ''questionType'' = JStr ''rating'' then
        map (\<lambda>i. (concat (replicate i (js_star R)), js_nat_str i)) [1..<6]
      else if v_fld stepData ''questionType'' \<noteq> JStr ''multiple_choice'' then []
      else take 13 (map (\<lambda>label. (take 20 label, label))
        (filter (\<lambda>label. label \<noteq> []) (map (\<lambda>o1. js_default (option_label o1) []) (v_arr (v_fld stepData ''multipleChoiceOptions''))))))"

section \<open>Delays\<close>

definition unit_ms :: "jsv \<Rightarrow> rat option" where
  "unit_ms u =
     (if u = JStr ''seconds'' then Some 1000 else if u = JStr ''minutes'' then Some 60000
      else if u = JStr ''hours'' then Some 3600000 else if u = JStr ''days'' then Some 86400000 else None)"

definition toMs :: "js_runtime \<Rightarrow> jsv \<Rightarrow> jsv \<Rightarrow> jsnum" where
  "toMs R value unit = num_mul (js_Number R value) (Fin (js_default (unit_ms unit) 3600000))"

definition askQuestionTimeoutDelayMs :: "js_runtime \<Rightarrow> jsv \<Rightarrow> rat option" where
  "askQuestionTimeoutDelayMs R stepData =
     (case js_Number R (v_fld stepData ''timeoutValue'') of
        Fin value \<Rightarrow>
          if value \<le> 0 then None
          else Some (min (value * js_default (unit_ms (v_fld stepData ''timeoutUnit'')) 86400000) (7 * 86400000))
      | _ \<Rightarrow> None)"

end
