(* ===== verification/Workflow_Steps.thy ===== *)
theory Workflow_Steps
  imports Workflow_Conditions
begin

text \<open>
  The handlers of the engine's steps: messages and questions, assignment, contact updates,
  branches, waits, HTTP requests, jumps, conversations, comments, opening hours and sub-workflows.
  A handler works on the context of the job in progress and returns what the engine needs to go on.
\<close>

record step_result =
  sr_output :: jsobj
  sr_branch :: "string option"
  sr_next :: "string option"
  sr_suspend :: bool
  sr_waitFor :: "string option"

definition plain_result :: "jsobj \<Rightarrow> step_result" where
  "plain_result out = \<lparr>sr_output = out, sr_branch = None, sr_next = None, sr_suspend = False, sr_waitFor = None\<rparr>"

definition skipped :: "string \<Rightarrow> step_result" where
  "skipped reason = plain_result [(''skipped'', JBool True), (''reason'', JStr reason)]"

section \<open>Navigation\<close>

definition first_child :: "wf_step list \<Rightarrow> string \<Rightarrow> string option" where
  "first_child steps p =
     map_option st_id (find (\<lambda>s. st_parentId s = Some p \<and> st_type s \<noteq> ''branch_connector'') steps)"

definition findNextStep :: "string \<Rightarrow> wf_step list \<Rightarrow> string option \<Rightarrow> string option" where
  "findNextStep currentStepId steps branch =
     (if js_truthy branch then first_child steps (the branch) else first_child steps currentStepId)"

definition is_connector_of :: "wf_step \<Rightarrow> wf_step \<Rightarrow> bool" where
  "is_connector_of step candidate =
     (st_parentId candidate = Some (st_id step) \<and> st_type candidate = ''branch_connector'')"

definition v_nth :: "jsv list \<Rightarrow> nat \<Rightarrow> jsv" where
  "v_nth xs i = (if i < length xs then xs ! i else JUndef)"

definition findSendMessageConnector :: "wf_step \<Rightarrow> wf_step list \<Rightarrow> string \<Rightarrow> wf_step option" where
  "findSendMessageConnector step steps name =
     (if \<not> v_truthy (v_fld (st_data step) ''addMessageFailureBranch'') then None
      else let ids = v_arr (v_fld (st_data step) ''connectors'');
               i = (if v_truthy (v_fld (st_data step) ''templateButtonBranching'') then JUndef
                    else if name = ''Success'' then v_nth ids 0 else v_nth ids 1)
           in js_nullish (find (\<lambda>k. is_connector_of step k \<and> st_name k = Some name) steps)
                (if v_truthy i then find (\<lambda>k. is_connector_of step k \<and> JStr (st_id k) = i) steps else None))"

definition ask_connector_index :: "string \<Rightarrow> nat" where
  "ask_connector_index name =
     (if name = ''Success'' then 0 else if name = ''Failure'' then 1 else if name = ''Timeout'' then 2 else 3)"

definition findAskQuestionConnector :: "wf_step \<Rightarrow> wf_step list \<Rightarrow> string \<Rightarrow> wf_step option" where
  "findAskQuestionConnector step steps name =
     (let i = v_nth (v_arr (v_fld (st_data step) ''connectors'')) (ask_connector_index name)
      in find (\<lambda>k. is_connector_of step k \<and> (st_name k = Some name \<or> JStr (st_id k) = i)) steps)"

section \<open>Rendering\<close>

definition workflowInterpolationContact :: "jsobj \<Rightarrow> jsobj" where
  "workflowInterpolationContact contact =
     (let rest = o_del ''lastName'' (o_del ''firstName'' contact)
      in o_set ''last_name'' (v_or (o_get rest ''last_name'') (v_or (o_get contact ''lastName'') (JStr [])))
          (o_set ''first_name'' (v_or (o_get rest ''first_name'') (v_or (o_get contact ''firstName'') (JStr []))) rest))"

definition interpolate_str :: "js_runtime \<Rightarrow> wf_ctx \<Rightarrow> string \<Rightarrow> string" where
  "interpolate_str R c t =
     renderVariableTemplate R t
       [(''contact'', JObj (workflowInterpolationContact (rc_contact c))), (''vars'', JObj (rc_vars c)),
        (''trigger'', JObj (rc_trigger c))]"

definition interpolate :: "wf_env \<Rightarrow> jsv \<Rightarrow> string wfd" where
  "interpolate E template =
     (if \<not> v_truthy template then ret []
      else (case template of
              JStr t \<Rightarrow> bind_io cur (\<lambda>c. ret (interpolate_str (we_js E) c t))
            | _ \<Rightarrow> throw (TypeErrorException ''value.replace is not a function'')))"

fun renderWorkflowTemplateVariables :: "(string \<Rightarrow> string) \<Rightarrow> jsv \<Rightarrow> jsv" where
  "renderWorkflowTemplateVariables f (JStr t) = JStr (if t = [] then [] else f t)"
| "renderWorkflowTemplateVariables f (JArr xs) = JArr (map (renderWorkflowTemplateVariables f) xs)"
| "renderWorkflowTemplateVariables f (JObj ob) = JObj (map (\<lambda>p. (fst p, renderWorkflowTemplateVariables f (snd p))) ob)"
| "renderWorkflowTemplateVariables f v = v_or v (JObj [])"

definition renderWorkflowSendMetadata :: "js_runtime \<Rightarrow> wf_ctx \<Rightarrow> jsv \<Rightarrow> jsobj" where
  "renderWorkflowSendMetadata R c metadata =
     (case metadata of
        JObj ob \<Rightarrow>
          (case o_get ob ''template'' of
             JObj t \<Rightarrow>
               (let rendered = o_set ''variables'' (renderWorkflowTemplateVariables (interpolate_str R c) (o_get t ''variables'')) t
                in if v_truthy (o_get rendered ''name'') \<and> v_truthy (o_get rendered ''language'')
                   then o_set ''template'' (JObj rendered) ob else o_del ''template'' ob)
           | _ \<Rightarrow> o_del ''template'' ob)
      | _ \<Rightarrow> [])"

section \<open>Conversations\<close>

definition updatedAt_order :: "wf_conv list \<Rightarrow> wf_conv option" where
  "updatedAt_order convs = (case sort_key (\<lambda>c. - cv_updatedAt c) convs of [] \<Rightarrow> None | c # _ \<Rightarrow> Some c)"

definition resolveWorkflowConversation :: "wf_conv option wfd" where
  "resolveWorkflowConversation =
     gets (\<lambda>s. let c = f_cur s;
                   mine = (\<lambda>v. cv_workspaceId v = rc_workspaceId c \<and> cv_contactId v = rc_contactId c) in
       js_nullish
         (if js_truthy (rc_conversationId c) then find (\<lambda>v. cv_id v = the (rc_conversationId c) \<and> mine v) (f_convs s) else None)
         (updatedAt_order (filter mine (f_convs s))))"

definition conversation_create :: "wf_env \<Rightarrow> wf_conv wfd" where
  "conversation_create E =
     bind_io (gets (\<lambda>s. \<lparr>cv_id = we_newid E s, cv_workspaceId = rc_workspaceId (f_cur s), cv_contactId = rc_contactId (f_cur s),
        cv_lastChannelId = None, cv_updatedAt = we_now E s, cv_resolvedAt = None\<rparr>)) (\<lambda>v.
     seq_io (modify (\<lambda>s. s\<lparr>f_convs := f_convs s @ [v]\<rparr>)) (ret v))"

definition ensureWorkflowConversation :: "wf_env \<Rightarrow> bool \<Rightarrow> bool \<Rightarrow> wf_conv wfd" where
  "ensureWorkflowConversation E openContact save =
     bind_io resolveWorkflowConversation (\<lambda>found.
     bind_io (case found of Some v \<Rightarrow> ret v | None \<Rightarrow> conversation_create E) (\<lambda>v.
     bind_io cur (\<lambda>c.
       let moved = (rc_conversationId c \<noteq> Some (cv_id v));
           opening = (openContact \<and> o_get (rc_contact c) ''status'' \<noteq> JStr ''open'')
       in seq_io (upd_cur (\<lambda>x. x\<lparr>rc_conversationId := Some (cv_id v)\<rparr>))
         (seq_io (if opening then
             seq_io (contact_updateMany (rc_contactId c) (rc_workspaceId c) [(''status'', JStr ''open'')])
               (upd_cur (\<lambda>x. x\<lparr>rc_contact := o_set ''status'' (JStr ''open'') (rc_contact x)\<rparr>))
           else ret ())
         (seq_io (if (moved \<or> opening) \<and> save then saveContext E else ret ())
           (ret v))))))"

definition ensureRunConversation :: "wf_env \<Rightarrow> jsv \<Rightarrow> unit wfd" where
  "ensureRunConversation E triggerType =
     bind_io cur (\<lambda>c.
       if js_truthy (rc_conversationId c) then ret ()
       else seq_io (ensureWorkflowConversation E (triggerType \<noteq> JStr ''conversation_closed'') False) (ret ()))"

section \<open>The target of a message\<close>

definition trimmed :: "jsv \<Rightarrow> string option" where
  "trimmed v = (if nonempty_str v then Some (js_trim (v_str v)) else None)"

definition resolveTriggerChannelTarget :: "wf_env \<Rightarrow> (string \<times> wf_conv) wfd" where
  "resolveTriggerChannelTarget E =
     bind_io resolveWorkflowConversation (\<lambda>conv.
     bind_io cur (\<lambda>c.
       case (conv, js_nullish (trimmed (o_get (rc_trigger c) ''channelId''))
                     (case conv of None \<Rightarrow> None | Some v \<Rightarrow> trimmed (j_opt (cv_lastChannelId v)))) of
         (Some v, Some channelId) \<Rightarrow>
           seq_io (if rc_conversationId c \<noteq> Some (cv_id v) then
               seq_io (upd_cur (\<lambda>x. x\<lparr>rc_conversationId := Some (cv_id v)\<rparr>)) (saveContext E)
             else ret ())
           (ret (channelId, v))
       | _ \<Rightarrow> throw (PlainError ''This workflow did not start from a chat channel.'')))"

definition getWorkflowTriggerType :: "jsv \<Rightarrow> string option" where
  "getWorkflowTriggerType config =
     (let t = v_fld (config_trigger config) ''type'' in if nonempty_str t then Some (v_str t) else None)"

definition resolveWorkflowMessageTarget :: "wf_env \<Rightarrow> jsv \<Rightarrow> jsv \<Rightarrow> string \<Rightarrow> (string \<times> wf_conv) wfd" where
  "resolveWorkflowMessageTarget E config data kind =
     (let strategy = resolveStepStrategy kind data;
          issue = (case getWorkflowTriggerType config of None \<Rightarrow> None | Some t \<Rightarrow> getWorkflowStrategyIssue (Some t) strategy)
      in case issue of
        Some message \<Rightarrow> throw (PlainError message)
      | None \<Rightarrow>
          (if strategy = Trigger_channel then resolveTriggerChannelTarget E
           else if \<not> isSpecificWorkflowChannel (v_fld data ''channel'') then throw (PlainError ''Choose one channel.'')
           else bind_io (ensureWorkflowConversation E True True) (\<lambda>v. ret (js_trim (v_str (v_fld data ''channel'')), v))))"

section \<open>Processed answers\<close>

definition PROCESSED_KEY :: string where
  "PROCESSED_KEY = ''__processedAnswerMessageIds''"

definition MAX_PROCESSED :: nat where
  "MAX_PROCESSED = 100"

definition getProcessedAnswerMessageIds :: "wf_ctx \<Rightarrow> string list" where
  "getProcessedAnswerMessageIds c =
     (let v = o_get (rc_vars c) PROCESSED_KEY in if is_arr v then map v_str (filter nonempty_str (v_arr v)) else [])"

definition hasProcessedAnswerMessage :: "wf_ctx \<Rightarrow> jsv \<Rightarrow> bool" where
  "hasProcessedAnswerMessage c messageId =
     (nonempty_str messageId \<and> v_str messageId \<in> set (getProcessedAnswerMessageIds c))"

definition take_last :: "nat \<Rightarrow> 'a list \<Rightarrow> 'a list" where
  "take_last n xs = drop (length xs - n) xs"

definition mark_processed :: "jsv \<Rightarrow> wf_ctx \<Rightarrow> wf_ctx" where
  "mark_processed messageId c =
     (if \<not> nonempty_str messageId then c
      else let i = v_str messageId;
               processed = filter (\<lambda>x. x \<noteq> i) (getProcessedAnswerMessageIds c) @ [i]
           in c\<lparr>rc_vars := o_set PROCESSED_KEY (JArr (map JStr (take_last MAX_PROCESSED processed))) (rc_vars c)\<rparr>)"

definition markProcessedAnswerMessage :: "jsv \<Rightarrow> unit wfd" where
  "markProcessedAnswerMessage messageId = upd_cur (mark_processed messageId)"

section \<open>Messages\<close>

definition isTemplateButtonBranchingStep :: "wf_step \<Rightarrow> bool" where
  "isTemplateButtonBranchingStep step =
     (st_type step = ''send_message'' \<and> v_truthy (v_fld (st_data step) ''templateButtonBranching''))"

definition templateButtonConnectorCount :: "wf_step \<Rightarrow> wf_step list \<Rightarrow> nat" where
  "templateButtonConnectorCount step steps =
     length (filter (\<lambda>k. is_connector_of step k \<and> st_name k \<noteq> Some ''Failure'') steps)"

definition templateButtonReplyCandidates :: "jsobj \<Rightarrow> string list" where
  "templateButtonReplyCandidates vars =
     map (\<lambda>v. js_trim (v_str v)) (filter nonempty_str
       [o_get vars ''templateButtonReplyTitle'', o_get vars ''templateButtonReply'', o_get vars ''templateButtonReplyId''])"

text \<open>\<^verbatim>\<open>value.trim().toLowerCase().replace(/\s+/g, ' ')\<close>\<close>

fun squeeze_spaces :: "bool \<Rightarrow> string \<Rightarrow> string" where
  "squeeze_spaces inside [] = []"
| "squeeze_spaces inside (c # cs) =
     (if js_space c then (if inside then squeeze_spaces True cs else CHR '' '' # squeeze_spaces True cs)
      else c # squeeze_spaces False cs)"

definition normalizeButtonReply :: "string \<Rightarrow> string" where
  "normalizeButtonReply value = squeeze_spaces False (js_lower (js_trim value))"

text \<open>A connector without a name reached by the search is a \<^verbatim>\<open>TypeError\<close>.\<close>

fun findTemplateButtonConnector :: "wf_step \<Rightarrow> string list \<Rightarrow> wf_step list \<Rightarrow> exn + wf_step option" where
  "findTemplateButtonConnector step replies [] = Inr None"
| "findTemplateButtonConnector step replies (k # ks) =
     (if \<not> is_connector_of step k \<or> st_name k = Some ''Failure'' then findTemplateButtonConnector step replies ks
      else case st_name k of
        None \<Rightarrow> Inl (TypeErrorException ''Cannot read properties of undefined'')
      | Some n \<Rightarrow>
          if normalizeButtonReply n \<in> normalizeButtonReply ` set replies then Inr (Some k)
          else findTemplateButtonConnector step replies ks)"

definition lift_sum :: "exn + 'a \<Rightarrow> 'a wfd" where
  "lift_sum r = (case r of Inl e \<Rightarrow> throw e | Inr x \<Rightarrow> ret x)"

definition first_str :: "string list \<Rightarrow> string \<Rightarrow> jsv" where
  "first_str xs d = (case xs of [] \<Rightarrow> JStr d | x # _ \<Rightarrow> JStr x)"

definition handleTemplateButtonReply :: "wf_step \<Rightarrow> wf_step list \<Rightarrow> step_result wfd" where
  "handleTemplateButtonReply step steps =
     bind_io cur (\<lambda>c. let candidates = templateButtonReplyCandidates (rc_vars c) in
     bind_io (lift_sum (findTemplateButtonConnector step candidates steps)) (\<lambda>connector.
     seq_io (markProcessedAnswerMessage (o_get (rc_vars c) ''templateButtonReplyMessageId''))
     (seq_io (del_var ''templateButtonReply'') (seq_io (del_var ''templateButtonReplyTitle'')
     (seq_io (del_var ''templateButtonReplyId'') (seq_io (del_var ''templateButtonReplyMessageId'')
     (seq_io (del_var ''templateButtonReplyStepId'')
       (ret (case connector of
          None \<Rightarrow> (plain_result [(''waiting'', JBool True), (''unmatchedReply'', first_str candidates []),
                      (''reason'', JStr ''No template button branch matched'')])\<lparr>sr_suspend := True, sr_waitFor := Some ''template_button''\<rparr>
        | Some k \<Rightarrow> (plain_result [(''button'', j_undef (st_name k)), (''reply'', first_str candidates (js_default (st_name k) [])),
                      (''valid'', JBool True)])\<lparr>sr_branch := Some (st_id k)\<rparr>)))))))))"

definition sendMessageSuccessResult :: "wf_step \<Rightarrow> wf_step list \<Rightarrow> jsobj \<Rightarrow> step_result" where
  "sendMessageSuccessResult step steps out =
     (plain_result out)\<lparr>sr_branch := map_option st_id (findSendMessageConnector step steps ''Success'')\<rparr>"

definition sendMessageFailureResult :: "wf_step \<Rightarrow> wf_step list \<Rightarrow> string \<Rightarrow> step_result" where
  "sendMessageFailureResult step steps reason =
     (case findSendMessageConnector step steps ''Failure'' of
        None \<Rightarrow> skipped reason
      | Some k \<Rightarrow> (plain_result [(''failed'', JBool True), (''reason'', JStr reason)])\<lparr>sr_branch := Some (st_id k)\<rparr>)"

definition attachment_of :: "jsv \<Rightarrow> jsv" where
  "attachment_of att = JObj (map (\<lambda>k. (k, v_fld att k)) [''url'', ''type'', ''filename'', ''mimeType'', ''size''])"

definition send_outbound :: "wf_env \<Rightarrow> wf_step \<Rightarrow> wf_step list \<Rightarrow> string \<Rightarrow> jsv list \<Rightarrow> jsobj \<Rightarrow> (string \<times> wf_conv) \<Rightarrow> step_result wfd" where
  "send_outbound E step steps text attachments metadata target =
     bind_io cur (\<lambda>c.
       let m = \<lparr>om_workspaceId = rc_workspaceId c, om_conversationId = cv_id (snd target), om_channelId = fst target,
                om_text = (if text = [] then None else Some text), om_attachments = map attachment_of attachments,
                om_metadata = JObj metadata\<rparr>;
           hasTemplate = (v_truthy (v_fld (o_get metadata ''template'') ''name'') \<and> v_truthy (v_fld (o_get metadata ''template'') ''language''));
           n = JInt (int (length attachments))
       in seq_io (modify (\<lambda>s. s\<lparr>f_sent := f_sent s @ [m]\<rparr>))
         (bind_io (gets (\<lambda>s. we_outbound E s m)) (\<lambda>outcome.
          case outcome of
            Some message \<Rightarrow>
              (if js_includes (js_lower message) ''timed out'' then
                 ret (plain_result [(''queued'', JBool True), (''text'', JStr text), (''attachments'', n),
                   (''warning'', JStr ''outbound message still processing'')])
               else let failure = sendMessageFailureResult step steps message in
                 if js_truthy (sr_branch failure) then ret failure else throw (PlainError message))
          | None \<Rightarrow>
              (let out = [(''sent'', JBool True), (''text'', JStr text), (''attachments'', n)]
                     @ (if hasTemplate then [(''template'', v_fld (o_get metadata ''template'') ''name'')] else [])
               in if isTemplateButtonBranchingStep step \<and> 0 < templateButtonConnectorCount step steps then
                    ret ((plain_result (out @ [(''waiting'', JBool True), (''waitFor'', JStr ''template_button'')]))
                      \<lparr>sr_suspend := True, sr_waitFor := Some ''template_button''\<rparr>)
                  else ret (sendMessageSuccessResult step steps out)))))"

definition handleSendMessage :: "wf_env \<Rightarrow> jsv \<Rightarrow> wf_step list \<Rightarrow> wf_step \<Rightarrow> step_result wfd" where
  "handleSendMessage E config steps step =
     bind_io (need (st_data step)) (\<lambda>data.
     bind_io cur (\<lambda>c.
       if isTemplateButtonBranchingStep step \<and> o_get (rc_vars c) ''templateButtonReplyStepId'' = JStr (st_id step)
       then handleTemplateButtonReply step steps
       else
         let metadata = renderWorkflowSendMetadata (we_js E) c (v_fld data ''metadata'');
             hasTemplate = (v_truthy (v_fld (o_get metadata ''template'') ''name'') \<and> v_truthy (v_fld (o_get metadata ''template'') ''language''));
             body = v_fld (v_fld data ''defaultMessage'') ''text'';
             given = (if v_fld data ''attachments'' = JUndef then JArr [] else v_fld data ''attachments'')
         in seq_io (if v_truthy body then ret JUndef else need given)
           (if \<not> v_truthy body \<and> v_arr given = [] \<and> \<not> hasTemplate then
              ret (sendMessageFailureResult step steps ''no message content'')
            else
              bind_io (interpolate E body) (\<lambda>text.
              bind_io (catch_io (bind_io (resolveWorkflowMessageTarget E config data ''send_message'') (\<lambda>t. ret (Inr t)))
                        (\<lambda>e. ret (Inl (exn_message e)))) (\<lambda>target.
              case target of
                Inl reason \<Rightarrow> ret (sendMessageFailureResult step steps reason)
              | Inr t \<Rightarrow> seq_io (need given) (send_outbound E step steps text (v_arr given) metadata t))))))"

section \<open>Questions\<close>

definition askQuestionMessageFailureResult :: "wf_step \<Rightarrow> wf_step list \<Rightarrow> string \<Rightarrow> step_result wfd" where
  "askQuestionMessageFailureResult step steps reason =
     (case (if v_truthy (v_fld (st_data step) ''addMessageFailureBranch'')
            then findAskQuestionConnector step steps ''Message Failure'' else None) of
        None \<Rightarrow> throw (PlainError reason)
      | Some k \<Rightarrow> ret ((plain_result [(''messageFailed'', JBool True), (''reason'', JStr reason)])\<lparr>sr_branch := Some (st_id k)\<rparr>))"

definition scheduleAskQuestionTimeout :: "wf_env \<Rightarrow> wf_step \<Rightarrow> unit wfd" where
  "scheduleAskQuestionTimeout E step =
     (if \<not> v_truthy (v_fld (st_data step) ''addTimeoutBranch'') then ret ()
      else case askQuestionTimeoutDelayMs (we_js E) (st_data step) of
        None \<Rightarrow> ret ()
      | Some delay \<Rightarrow>
          bind_io cur (\<lambda>c. job_add \<lparr>qd_job = JobTimeout (rc_runId c) (st_id step), qd_delay = Fin delay,
            qd_jobId = Some (''ask-timeout-'' @ rc_runId c @ ''-'' @ st_id step)\<rparr>))"

definition question_message :: "js_runtime \<Rightarrow> wf_step \<Rightarrow> wf_step" where
  "question_message R step =
     (let data = st_data step; replies = buildQuestionQuickReplies R data in
      \<lparr>st_id = st_id step, st_type = ''send_message'', st_parentId = None, st_name = None,
       st_data = JObj [(''channel'', v_or (v_fld data ''channel'') (JStr ''trigger_channel'')),
         (''deliveryStrategy'', v_or (v_fld data ''deliveryStrategy'')
            (if v_truthy (v_fld data ''channel'') then JUndef else JStr ''trigger_channel'')),
         (''defaultMessage'', JObj [(''text'', v_fld data ''questionText'')]),
         (''metadata'', JObj (if replies = [] then []
            else [(''quickReplies'', JArr (map (\<lambda>(t, p). JObj [(''title'', JStr t), (''payload'', JStr p)]) replies))]))]\<rparr>)"

definition ask_now :: "wf_env \<Rightarrow> jsv \<Rightarrow> wf_step list \<Rightarrow> wf_step \<Rightarrow> step_result wfd" where
  "ask_now E config steps step =
     bind_io (catch_io
       (bind_io (need (st_data step)) (\<lambda>_.
        bind_io (handleSendMessage E config steps (question_message (we_js E) step)) (\<lambda>sent.
          ret (if v_truthy (o_get (sr_output sent) ''skipped'') \<or> v_truthy (o_get (sr_output sent) ''failed'')
               then Some (js_String (we_js E) (v_or (o_get (sr_output sent) ''reason'') (JStr ''question message failed'')))
               else None))))
       (\<lambda>e. ret (Some (exn_message e)))) (\<lambda>failure.
     case failure of
       Some reason \<Rightarrow> askQuestionMessageFailureResult step steps reason
     | None \<Rightarrow>
         seq_io (scheduleAskQuestionTimeout E step)
           (ret ((plain_result [(''waiting'', JBool True),
              (''quickReplies'', JInt (int (length (buildQuestionQuickReplies (we_js E) (st_data step)))))])\<lparr>sr_suspend := True\<rparr>)))"

definition findOrCreateWorkflowTag :: "wf_env \<Rightarrow> string \<Rightarrow> string \<Rightarrow> wf_tag wfd" where
  "findOrCreateWorkflowTag E workspaceId name =
     (let tagName = js_trim name in
      bind_io (gets (\<lambda>s. find (\<lambda>t. tg_workspaceId t = workspaceId \<and> js_lower (tg_name t) = js_lower tagName) (f_tags s))) (\<lambda>existing.
      case existing of
        Some t \<Rightarrow> ret t
      | None \<Rightarrow>
          bind_io (gets (\<lambda>s. \<lparr>tg_id = we_newid E s, tg_workspaceId = workspaceId, tg_name = tagName, tg_createdBy = ''workflow''\<rparr>)) (\<lambda>t.
          seq_io (modify (\<lambda>s. s\<lparr>f_tags := f_tags s @ [t]\<rparr>)) (ret t))))"

text \<open>An insert into the join table needs both rows.\<close>

definition contactTag_add :: "string \<Rightarrow> string list \<Rightarrow> unit wfd" where
  "contactTag_add contactId tagIds =
     bind_io (gets (\<lambda>s. find_contact s contactId \<noteq> None \<and> set tagIds \<subseteq> tg_id ` set (f_tags s))) (\<lambda>ok.
       if ok then modify (\<lambda>s. s\<lparr>f_contactTags := f_contactTags s @
           filter (\<lambda>p. p \<notin> set (f_contactTags s)) (remdups (map (\<lambda>t. (contactId, t)) tagIds))\<rparr>)
       else throw (PlainError ''Foreign key constraint violated''))"

definition save_answer :: "wf_env \<Rightarrow> wf_step \<Rightarrow> string \<Rightarrow> jsobj wfd" where
  "save_answer E step answer =
     (let data = st_data step in
      seq_io (set_var ''lastAnswer'' (JStr answer))
      (seq_io (if v_truthy (v_fld data ''saveAsVariable'') \<and> v_truthy (v_fld data ''variableName'')
          then set_var (js_String (we_js E) (v_fld data ''variableName'')) (JStr answer) else ret ())
      (seq_io (if v_truthy (v_fld data ''saveAsContactField'') \<and> v_truthy (v_fld data ''contactFieldId'')
          then let k = js_String (we_js E) (v_fld data ''contactFieldId'') in
            bind_io cur (\<lambda>c. seq_io (contact_update (rc_contactId c) [(k, JStr answer)])
              (upd_cur (\<lambda>x. x\<lparr>rc_contact := o_set k (JStr answer) (rc_contact x)\<rparr>)))
          else ret ())
      (if v_truthy (v_fld data ''saveAsTag'') \<and> v_fld data ''questionType'' = JStr ''multiple_choice''
       then bind_io cur (\<lambda>c. bind_io (findOrCreateWorkflowTag E (rc_workspaceId c) answer) (\<lambda>t.
          seq_io (contactTag_add (rc_contactId c) [tg_id t])
            (ret [(''answer'', JStr answer), (''valid'', JBool True), (''tagId'', JStr (tg_id t)), (''tagName'', JStr (tg_name t))])))
       else ret [(''answer'', JStr answer), (''valid'', JBool True)]))))"

definition forget_answer :: "wf_env \<Rightarrow> unit wfd" where
  "forget_answer E =
     bind_io cur (\<lambda>c. seq_io (markProcessedAnswerMessage (o_get (rc_vars c) ''lastAnswerMessageId''))
       (seq_io (del_var ''lastAnswer'') (seq_io (del_var ''lastAnswerMessageId'') (saveContext E))))"

definition handleAskQuestion :: "wf_env \<Rightarrow> jsv \<Rightarrow> wf_step list \<Rightarrow> wf_step \<Rightarrow> step_result wfd" where
  "handleAskQuestion E config steps step =
     bind_io cur (\<lambda>c. let rawAnswer = o_get (rc_vars c) ''lastAnswer''; connector = findAskQuestionConnector step steps in
       if rawAnswer = JUndef then ask_now E config steps step
       else bind_io (need (st_data step)) (\<lambda>data.
         let answer = normaliseQuestionAnswer (we_js E) rawAnswer (v_fld data ''questionType'') data in
         case validateAnswer (we_js E) answer (v_fld data ''questionType'') data of
           Some reason \<Rightarrow>
             seq_io (forget_answer E)
               (ret ((plain_result [(''answer'', JStr answer), (''valid'', JBool False), (''reason'', JStr reason)])
                 \<lparr>sr_branch := map_option st_id (connector ''Failure'')\<rparr>))
         | None \<Rightarrow>
             bind_io (save_answer E step answer) (\<lambda>out.
             seq_io (forget_answer E)
               (ret ((plain_result out)\<lparr>sr_branch := map_option st_id (connector ''Success'')\<rparr>)))))"

end
