(* ===== verification/Workflow_Actions.thy ===== *)
theory Workflow_Actions
  imports Workflow_Steps
begin

text \<open>
  The rest of the step handlers: assignment, contact updates, branches, waits, HTTP requests, jumps,
  conversations, comments, opening hours and sub-workflows, and the router that chooses among all of
  them.
\<close>

section \<open>Assignment\<close>

definition countAssignedOpenContacts :: "wf \<Rightarrow> string \<Rightarrow> string \<Rightarrow> nat" where
  "countAssignedOpenContacts s workspaceId assigneeId =
     length (filter (\<lambda>c. ct_workspaceId c = workspaceId \<and> o_get (ct_cols c) ''assigneeId'' = JStr assigneeId
        \<and> o_get (ct_cols c) ''status'' = JStr ''open'') (f_contacts s))"

definition getEligibleAgents :: "wf_env \<Rightarrow> string \<Rightarrow> string option \<Rightarrow> jsv \<Rightarrow> jsv \<Rightarrow> string list wfd" where
  "getEligibleAgents E workspaceId teamId onlyOnline maxOpenContacts =
     gets (\<lambda>s.
       let members = filter (\<lambda>m. wm_workspaceId m = workspaceId \<and> wm_role m = ''agent'' \<and> wm_status m = ''active''
              \<and> (v_truthy onlyOnline \<longrightarrow> wm_availability m = ''online'')
              \<and> (js_truthy teamId \<longrightarrow> (the teamId, wm_userId m) \<in> set (f_teamMembers s))) (f_members s);
           ids = map wm_userId members; maxOpen = js_Number (we_js E) maxOpenContacts
       in if \<not> num_finite maxOpen \<or> \<not> num_pos maxOpen then ids
          else filter (\<lambda>i. num_lt (Fin (of_nat (countAssignedOpenContacts s workspaceId i))) maxOpen) ids)"

definition pickAgent :: "string list \<Rightarrow> string \<Rightarrow> jsv \<Rightarrow> string option wfd" where
  "pickAgent agentIds workspaceId logic =
     (if agentIds = [] then ret None
      else if logic = JStr ''round_robin'' then
        seq_io (modify (\<lambda>s. s\<lparr>f_rr := (f_rr s)(workspaceId := Suc (f_rr s workspaceId))\<rparr>))
          (gets (\<lambda>s. Some (agentIds ! (f_rr s workspaceId mod length agentIds))))
      else gets (\<lambda>s. Some (hd (sort_key (countAssignedOpenContacts s workspaceId) agentIds))))"

definition assign_skipped :: "string \<Rightarrow> string \<Rightarrow> step_result" where
  "assign_skipped action reason =
     plain_result [(''skipped'', JBool True), (''reason'', JStr reason), (''action'', JStr action)]"

definition assign_contact :: "wf_env \<Rightarrow> string \<Rightarrow> string option \<Rightarrow> string option \<Rightarrow> wf_conv option \<Rightarrow> step_result wfd" where
  "assign_contact E action assigneeId teamId conversation =
     (if action \<noteq> ''unassign'' \<and> \<not> js_truthy assigneeId then ret (assign_skipped action ''no eligible assignee found'')
      else bind_io cur (\<lambda>c.
        seq_io (contact_update (rc_contactId c) [(''assigneeId'', j_opt assigneeId), (''teamId'', j_opt teamId)])
        (seq_io (case conversation of
            None \<Rightarrow> ret []
          | Some v \<Rightarrow> activity_create E (rc_workspaceId c) (cv_id v)
              (if action = ''unassign'' then ''unassigned'' else ''assigned'') assigneeId teamId JUndef)
        (ret (plain_result [(''assigned'', JBool (assigneeId \<noteq> None)), (''assigneeId'', j_opt assigneeId),
           (''teamId'', j_opt teamId), (''action'', JStr action)])))))"

definition handleAssignTo :: "wf_env \<Rightarrow> wf_step \<Rightarrow> step_result wfd" where
  "handleAssignTo E step =
     (let data = st_data step; action = v_fld data ''action'';
          logic = (if v_fld data ''assignmentLogic'' = JUndef then JStr ''round_robin'' else v_fld data ''assignmentLogic'');
          online = v_fld data ''onlyOnlineUsers''; most = v_fld data ''maxOpenContacts''
      in if action \<notin> {JStr ''specific_user'', JStr ''user_in_team'', JStr ''user_in_workspace'', JStr ''unassign''} then
           ret (skipped ''no assignment action configured'')
         else bind_io cur (\<lambda>c.
           bind_io (gets (\<lambda>s. find (\<lambda>v. cv_contactId v = rc_contactId c) (f_convs s))) (\<lambda>conversation.
           if action = JStr ''specific_user'' then
             (if \<not> v_truthy (v_fld data ''userId'') then ret (assign_skipped (v_str action) ''no user selected'')
              else bind_io (gets (\<lambda>s. list_ex (\<lambda>m. wm_workspaceId m = rc_workspaceId c \<and> JStr (wm_userId m) = v_fld data ''userId''
                       \<and> wm_status m = ''active'') (f_members s))) (\<lambda>isMember.
                if \<not> isMember then ret (assign_skipped (v_str action) ''selected user is not an active workspace member'')
                else assign_contact E (v_str action) (Some (v_str (v_fld data ''userId''))) None conversation))
           else if action = JStr ''user_in_team'' then
             (if \<not> v_truthy (v_fld data ''teamId'') then ret (assign_skipped (v_str action) ''no team selected'')
              else let team = Some (v_str (v_fld data ''teamId'')) in
                bind_io (getEligibleAgents E (rc_workspaceId c) team online most) (\<lambda>members.
                bind_io (pickAgent members (rc_workspaceId c) logic) (\<lambda>agent.
                  assign_contact E (v_str action) agent team conversation)))
           else if action = JStr ''user_in_workspace'' then
             bind_io (getEligibleAgents E (rc_workspaceId c) None online most) (\<lambda>members.
             bind_io (pickAgent members (rc_workspaceId c) logic) (\<lambda>agent.
               assign_contact E (v_str action) agent None conversation))
           else assign_contact E (v_str action) None None conversation)))"

section \<open>Contact updates\<close>

definition handleUpdateContactTag :: "wf_step \<Rightarrow> step_result wfd" where
  "handleUpdateContactTag step =
     bind_io (need (st_data step)) (\<lambda>data.
       let tags = v_fld data ''tags''; ids = map v_str (v_arr tags) in
       if v_length tags = 0 then ret (skipped ''no tags configured'')
       else bind_io cur (\<lambda>c.
         seq_io (if v_fld data ''action'' = JStr ''add'' then contactTag_add (rc_contactId c) ids
            else modify (\<lambda>s. s\<lparr>f_contactTags := filter (\<lambda>(k, t). \<not> (k = rc_contactId c \<and> t \<in> set ids)) (f_contactTags s)\<rparr>))
         (bind_io (gets (\<lambda>s. map snd (filter (\<lambda>(k, _). k = rc_contactId c) (f_contactTags s)))) (\<lambda>now.
          seq_io (upd_cur (\<lambda>x. x\<lparr>rc_contact := o_set ''tags'' (JArr (map JStr now)) (rc_contact x)\<rparr>))
            (ret (plain_result [(''action'', v_fld data ''action''), (''tags'', tags)]))))))"

definition handleUpdateContactField :: "wf_env \<Rightarrow> wf_step \<Rightarrow> step_result wfd" where
  "handleUpdateContactField E step =
     bind_io (need (st_data step)) (\<lambda>data. let fieldId = v_fld data ''fieldId''; key = js_String (we_js E) fieldId in
       if \<not> v_truthy fieldId then ret (skipped ''no fieldId'')
       else case resolveContactWorkflowField key of
         None \<Rightarrow> throw (PlainError (''Unsupported contact field: '' @ key))
       | Some contactField \<Rightarrow>
           bind_io (interpolate E (JStr (js_String (we_js E) (v_or (v_fld data ''value'') (JStr []))))) (\<lambda>value.
           bind_io cur (\<lambda>c.
           bind_io (contact_updateMany (rc_contactId c) (rc_workspaceId c) [(contactField, JStr value)]) (\<lambda>n.
             if n = 0 then throw (PlainError (''Contact '' @ rc_contactId c @ '' not found in workspace '' @ rc_workspaceId c))
             else seq_io (upd_cur (\<lambda>x. x\<lparr>rc_contact := o_set key (JStr value) (o_set contactField (JStr value) (rc_contact x))\<rparr>))
               (ret (plain_result [(''fieldId'', fieldId), (''contactField'', JStr contactField), (''value'', JStr value)]))))))"

section \<open>Control flow\<close>

definition handleBranch :: "wf_env \<Rightarrow> wf_step list \<Rightarrow> wf_step \<Rightarrow> step_result wfd" where
  "handleBranch E steps step =
     bind_io (wf_clock E) (\<lambda>now. bind_io cur (\<lambda>c.
       let connectors = child_connectors steps step in
       case matching_connector (we_js E) now c connectors of
         Some k \<Rightarrow> ret ((plain_result [(''matchedBranch'', j_undef (st_name k))])\<lparr>sr_branch := Some (st_id k)\<rparr>)
       | None \<Rightarrow> ret ((plain_result [(''matchedBranch'', JStr ''Else'')])
           \<lparr>sr_branch := map_option st_id (findElseBranchConnector connectors)\<rparr>)))"

definition handleBranchConnector :: "wf_step list \<Rightarrow> wf_step \<Rightarrow> step_result wfd" where
  "handleBranchConnector steps step = ret ((plain_result [])\<lparr>sr_next := first_child steps (st_id step)\<rparr>)"

definition handleWait :: "wf_env \<Rightarrow> wf_step list \<Rightarrow> wf_step \<Rightarrow> step_result wfd" where
  "handleWait E steps step =
     bind_io (need (st_data step)) (\<lambda>data.
       let ms = toMs (we_js E) (v_fld data ''value'') (v_fld data ''unit''); next = findNextStep (st_id step) steps None in
       bind_io cur (\<lambda>c.
         seq_io (job_add \<lparr>qd_job = JobResume (rc_runId c) (case next of
               Some i \<Rightarrow> [(''nextStepId'', JStr i)] | None \<Rightarrow> [(''completeAfterWait'', JBool True)]),
             qd_delay = ms, qd_jobId = None\<rparr>)
         (ret ((plain_result [(''waitMs'', JNum ms), (''unit'', v_fld data ''unit''), (''value'', v_fld data ''value''),
            (''nextStepId'', j_opt next)])\<lparr>sr_suspend := True\<rparr>))))"

definition v_at :: "jsv \<Rightarrow> string \<Rightarrow> jsv" where
  "v_at v k =
     (case v of
        JObj ob \<Rightarrow> o_get ob k
      | JArr xs \<Rightarrow> (if k = ''length'' then JInt (int (length xs))
          else case find (\<lambda>i. js_nat_str i = k) [0..<length xs] of None \<Rightarrow> JUndef | Some i \<Rightarrow> xs ! i)
      | JStr t \<Rightarrow> (if k = ''length'' then JInt (int (length t))
          else case find (\<lambda>i. js_nat_str i = k) [0..<length t] of None \<Rightarrow> JUndef | Some i \<Rightarrow> JStr [t ! i])
      | _ \<Rightarrow> JUndef)"

definition getNestedValue :: "jsv \<Rightarrow> string \<Rightarrow> jsv" where
  "getNestedValue ob path =
     (if path = [] \<or> \<not> v_truthy ob then JUndef else foldl v_at ob (js_split CHR ''.'' path))"

definition resolve_headers :: "wf_env \<Rightarrow> wf_ctx \<Rightarrow> jsv list \<Rightarrow> (string \<times> string) list" where
  "resolve_headers E c headers =
     map (\<lambda>h. (js_String (we_js E) (v_fld h ''key''), (let v = v_fld h ''value'' in
        if v_truthy v then interpolate_str (we_js E) c (v_str v) else [])))
       (filter (\<lambda>h. v_truthy (v_fld h ''key'')) headers)"

definition apply_mapping :: "wf_env \<Rightarrow> jsv \<Rightarrow> jsv \<Rightarrow> unit wfd" where
  "apply_mapping E body m =
     (if v_truthy (v_fld m ''jsonKey'') \<and> v_truthy (v_fld m ''variableName'')
      then set_var (js_String (we_js E) (v_fld m ''variableName''))
        (getNestedValue body (js_String (we_js E) (v_fld m ''jsonKey'')))
      else ret ())"

definition handleHttpRequest :: "wf_env \<Rightarrow> wf_step \<Rightarrow> step_result wfd" where
  "handleHttpRequest E step =
     bind_io (need (st_data step)) (\<lambda>data.
     bind_io (interpolate E (v_or (v_fld data ''url'') (JStr []))) (\<lambda>url.
       if url = [] then ret (skipped ''no URL'')
       else bind_io (if v_fld data ''method'' \<noteq> JStr ''GET'' then bind_io (interpolate E (v_or (v_fld data ''body'') (JStr []))) (\<lambda>b. ret (Some b))
                     else ret None) (\<lambda>body.
         bind_io cur (\<lambda>c.
         bind_io (gets (\<lambda>s. we_fetch E s \<lparr>hc_method = v_fld data ''method'', hc_url = url,
             hc_headers = resolve_headers E c (v_arr (v_fld data ''headers'')), hc_body = body\<rparr>)) (\<lambda>res.
         case res of
           Inl message \<Rightarrow> throw (PlainError message)
         | Inr (status, json) \<Rightarrow>
             seq_io (for_io (apply_mapping E json) (v_arr (v_fld data ''responseMappings'')))
             (seq_io (if v_truthy (v_fld data ''saveResponseStatus'') \<and> v_truthy (v_fld data ''responseStatusVariableName'')
                then set_var (js_String (we_js E) (v_fld data ''responseStatusVariableName'')) (JInt status) else ret ())
             (ret (plain_result [(''status'', JInt status), (''body'', json)]))))))))"

definition jump_limit :: "wf_env \<Rightarrow> wf_step \<Rightarrow> jsnum" where
  "jump_limit E step = js_Number (we_js E) (v_or (v_fld (st_data step) ''maxJumps'') (JInt 3))"

definition handleJumpTo :: "wf_env \<Rightarrow> wf_step \<Rightarrow> step_result wfd" where
  "handleJumpTo E step =
     bind_io (need (st_data step)) (\<lambda>data. let target = v_fld data ''targetStepId'' in
       if \<not> v_truthy target then ret (skipped ''no targetStepId'')
       else bind_io cur (\<lambda>c.
         bind_io (gets (\<lambda>s. f_jumps s (rc_runId c, st_id step))) (\<lambda>jumps.
           if num_le (jump_limit E step) (Fin (of_nat jumps)) then ret (skipped ''max jumps reached'')
           else
             seq_io (modify (\<lambda>s. s\<lparr>f_jumps := (f_jumps s)((rc_runId c, st_id step) := Suc (f_jumps s (rc_runId c, st_id step)))\<rparr>))
             (seq_io (del_var ''lastAnswer'') (seq_io (del_var ''lastAnswerMessageId'')
               (ret ((plain_result [(''jumped'', JBool True), (''to'', target)])\<lparr>sr_next := Some (js_String (we_js E) target)\<rparr>)))))))"

section \<open>Conversations and comments\<close>

definition handleOpenConversation :: "wf_env \<Rightarrow> step_result wfd" where
  "handleOpenConversation E =
     seq_io (ensureWorkflowConversation E True True) (ret (plain_result [(''opened'', JBool True)]))"

definition category_metadata :: "jsv \<Rightarrow> jsv" where
  "category_metadata category = (if v_truthy category then JObj [(''category'', category)] else JUndef)"

text \<open>The two updates of the transaction; the conversation exists, so only the contact's can fail.\<close>

definition close_rows :: "wf_env \<Rightarrow> wf_conv \<Rightarrow> unit wfd" where
  "close_rows E v =
     bind_io cur (\<lambda>c. seq_io (contact_update (rc_contactId c) [(''status'', JStr ''closed'')])
       (modify (\<lambda>s. s\<lparr>f_convs := upd_where (\<lambda>x. cv_id x = cv_id v) (\<lambda>x. x\<lparr>cv_resolvedAt := Some (we_now E s)\<rparr>) (f_convs s)\<rparr>)))"

definition handleCloseConversation :: "wf_env \<Rightarrow> wf_step \<Rightarrow> step_result wfd" where
  "handleCloseConversation E step =
     bind_io (need (st_data step)) (\<lambda>data.
     bind_io (ensureWorkflowConversation E False True) (\<lambda>v.
     seq_io (close_rows E v)
     (bind_io cur (\<lambda>c.
      seq_io (if v_truthy (v_fld data ''addClosingNotes'') \<and> v_truthy (v_fld data ''notes'') then
          bind_io (interpolate E (v_fld data ''notes'')) (\<lambda>text.
            modify (\<lambda>s. s\<lparr>f_notes := f_notes s @ [\<lparr>wn_workspaceId = rc_workspaceId c, wn_conversationId = cv_id v,
              wn_text = text, wn_category = category_metadata (v_fld data ''category'')\<rparr>]\<rparr>))
        else ret ())
      (seq_io (activity_create E (rc_workspaceId c) (cv_id v) ''closed'' None None (category_metadata (v_fld data ''category'')))
        (ret (plain_result [(''closed'', JBool True), (''category'', v_fld data ''category'')])))))))"

text \<open>
  A mention in a text: an at sign, an opening bracket, an id without bar and bracket, a bar, a label
  without bracket, a closing bracket.
\<close>

definition match_mention :: "string \<Rightarrow> (string \<times> string \<times> string) option" where
  "match_mention s =
     (if \<not> js_starts_with s ''@['' then None
      else let a = drop 2 s; i = takeWhile (\<lambda>c. c \<noteq> CHR ''|'' \<and> c \<noteq> CHR '']'') a; b = drop (length i) a in
        if i = [] \<or> \<not> js_starts_with b ''|'' then None
        else let label = takeWhile (\<lambda>c. c \<noteq> CHR '']'') (drop 1 b); r = drop (length label) (drop 1 b)
             in if label = [] \<or> r = [] then None else Some (i, label, drop 1 r))"

lemma match_mention_shorter: "match_mention s = Some (i, label, rest) \<Longrightarrow> length rest < length s"
  by (auto simp: match_mention_def js_starts_with_def Let_def split: if_splits)

function mentions :: "string \<Rightarrow> string list" where
  "mentions [] = []"
| "mentions (c # cs) =
     (case match_mention (c # cs) of Some (i, _, rest) \<Rightarrow> i # mentions rest | None \<Rightarrow> mentions cs)"
  by pat_completeness auto
termination
  by (relation "measure length") (auto dest: match_mention_shorter)

function mention_preview :: "string \<Rightarrow> string" where
  "mention_preview [] = []"
| "mention_preview (c # cs) =
     (case match_mention (c # cs) of
        Some (_, label, rest) \<Rightarrow> CHR ''@'' # label @ mention_preview rest
      | None \<Rightarrow> c # mention_preview cs)"
  by pat_completeness auto
termination
  by (relation "measure length") (auto dest: match_mention_shorter)

declare mentions.simps [simp del] mention_preview.simps [simp del]

definition resolveMentionedUserIds :: "string \<Rightarrow> string \<Rightarrow> jsv \<Rightarrow> string list wfd" where
  "resolveMentionedUserIds workspaceId text explicit =
     (let ids = filter (\<lambda>i. i \<noteq> []) (map js_trim (mentions text)) @ map v_str (filter v_truthy (v_arr explicit))
      in gets (\<lambda>s. map wm_userId (filter (\<lambda>m. wm_workspaceId m = workspaceId \<and> wm_userId m \<in> set ids) (f_members s))))"

definition notifyMentionedUsers :: "wf_env \<Rightarrow> string \<Rightarrow> string \<Rightarrow> string \<Rightarrow> string list \<Rightarrow> unit wfd" where
  "notifyMentionedUsers E workspaceId noteId text users =
     (if \<not> we_notices E \<or> users = [] then ret ()
      else let preview = js_trim (mention_preview text);
               body = (if preview \<noteq> [] then ''Automation mentioned you in a workflow note: '' @ take 180 preview
                       else ''Automation mentioned you in a workflow note.'')
           in modify (\<lambda>s. s\<lparr>f_notices := f_notices s @ map (\<lambda>u. \<lparr>nt_userId = u, nt_workspaceId = workspaceId, nt_body = body,
                nt_dedupeKey = ''workflow-note-mention:'' @ noteId @ '':'' @ u\<rparr>) users\<rparr>))"

definition handleAddComment :: "wf_env \<Rightarrow> wf_step \<Rightarrow> step_result wfd" where
  "handleAddComment E step =
     bind_io (need (st_data step)) (\<lambda>data.
     bind_io (interpolate E (v_or (v_fld data ''comment'') (JStr []))) (\<lambda>text.
       if text = [] then ret (skipped ''empty comment'')
       else bind_io cur (\<lambda>c.
         bind_io (ensureWorkflowConversation E (\<not> js_truthy (rc_conversationId c)) True) (\<lambda>v.
         bind_io (resolveMentionedUserIds (rc_workspaceId c) text (v_fld data ''mentionedUserIds'')) (\<lambda>users.
         bind_io (activity_create E (rc_workspaceId c) (cv_id v) ''note'' None None
             (JObj [(''text'', JStr text), (''mentionedUserIds'', JArr (map JStr users))])) (\<lambda>noteId.
         seq_io (notifyMentionedUsers E (rc_workspaceId c) noteId text users)
           (ret (plain_result [(''commented'', JBool True), (''text'', JStr text), (''mentionedUserIds'', JArr (map JStr users))]))))))))"

section \<open>Opening hours\<close>

text \<open>\<^verbatim>\<open>a <= b\<close> on strings: by code units\<close>

fun str_le :: "string \<Rightarrow> string \<Rightarrow> bool" where
  "str_le [] b = True"
| "str_le (x # xs) [] = False"
| "str_le (x # xs) (y # ys) = ((of_char x :: nat) < of_char y \<or> (x = y \<and> str_le xs ys))"

definition getSafeTimeZone :: "js_runtime \<Rightarrow> jsv \<Rightarrow> string" where
  "getSafeTimeZone R tz = (if nonempty_str tz \<and> js_valid_zone R (v_str tz) then v_str tz else ''UTC'')"

definition formatDateInTimeZone :: "js_runtime \<Rightarrow> int \<Rightarrow> string \<Rightarrow> string" where
  "formatDateInTimeZone R now tz = (case js_ymd R tz now of (y, m, d) \<Rightarrow> y @ ''-'' @ m @ ''-'' @ d)"

definition isDateOnly :: "string \<Rightarrow> bool" where
  "isDateOnly s =
     (length s = 10 \<and> list_all (\<lambda>i. if i = 4 \<or> i = 7 then s ! i = CHR ''-'' else is_digit (s ! i)) [0..<10])"

definition isNowInDateRange :: "js_runtime \<Rightarrow> int \<Rightarrow> string \<Rightarrow> jsv \<Rightarrow> jsv \<Rightarrow> bool" where
  "isNowInDateRange R now tz start end' =
     (if is_str start \<and> is_str end' \<and> isDateOnly (v_str start) \<and> isDateOnly (v_str end') then
        (let today = formatDateInTimeZone R now tz in str_le (v_str start) today \<and> str_le today (v_str end'))
      else let a = js_date_ms R start; b = js_date_ms R end' in
        num_le a (Fin (of_int now)) \<and> num_le (Fin (of_int now)) b)"

definition findDateTimeConnector :: "wf_step \<Rightarrow> wf_step list \<Rightarrow> bool \<Rightarrow> wf_step option" where
  "findDateTimeConnector step connectors inRange =
     (let i = v_nth (v_arr (v_fld (st_data step) ''connectors'')) (if inRange then 0 else 1);
          name = (if inRange then ''In Range'' else ''Out of Range'')
      in js_nullish (find (\<lambda>k. JStr (st_id k) = i) connectors) (find (\<lambda>k. st_name k = Some name) connectors))"

definition in_business_hours :: "js_runtime \<Rightarrow> int \<Rightarrow> string \<Rightarrow> jsv \<Rightarrow> bool" where
  "in_business_hours R now tz businessHours =
     (let hours = v_fld businessHours (js_lower (js_weekday R tz now)); time = js_time R tz now in
      v_truthy (v_fld hours ''enabled'') \<and> v_truthy (v_fld hours ''startTime'') \<and> v_truthy (v_fld hours ''endTime'') \<and>
      str_le (v_str (v_fld hours ''startTime'')) time \<and> str_le time (v_str (v_fld hours ''endTime'')))"

definition handleDateTime :: "wf_env \<Rightarrow> wf_step list \<Rightarrow> wf_step \<Rightarrow> step_result wfd" where
  "handleDateTime E steps step =
     bind_io (need (st_data step)) (\<lambda>data. bind_io (wf_clock E) (\<lambda>now.
       let R = we_js E; tz = getSafeTimeZone R (v_fld data ''timezone''); mode = v_fld data ''mode'';
           business = (mode = JStr ''business_hours'' \<and> v_truthy (v_fld data ''businessHours''));
           range = (mode = JStr ''date_range'' \<and> v_truthy (v_fld data ''dateRangeStart'') \<and> v_truthy (v_fld data ''dateRangeEnd''));
           inRange = (if business then in_business_hours R now tz (v_fld data ''businessHours'')
                      else range \<and> isNowInDateRange R now tz (v_fld data ''dateRangeStart'') (v_fld data ''dateRangeEnd''))
       in ret ((plain_result [(''inRange'', JBool inRange),
           (''targetName'', JStr (if inRange then ''In Range'' else ''Out of Range'')), (''timezone'', JStr tz), (''mode'', mode),
           (''currentDate'', if \<not> business \<and> range then JStr (formatDateInTimeZone R now tz) else JUndef),
           (''currentDay'', if business then JStr (js_lower (js_weekday R tz now)) else JUndef),
           (''currentTime'', if business then JStr (js_time R tz now) else JUndef)])
         \<lparr>sr_branch := map_option st_id (findDateTimeConnector step (child_connectors steps step) inRange)\<rparr>)))"

section \<open>Sub-workflows and the router\<close>

definition sub_trigger :: "wf_ctx \<Rightarrow> wf_step \<Rightarrow> string option \<Rightarrow> jsv \<Rightarrow> jsv \<Rightarrow> jsobj" where
  "sub_trigger c step next startFrom target =
     o_merge (rc_trigger c)
       [(''triggeredByWorkflow'', JStr (rc_workflowId c)), (''triggeredByRunId'', JStr (rc_runId c)),
        (''triggeredByStepId'', JStr (st_id step)), (''resumeParentStepId'', j_opt next), (''startFrom'', startFrom),
        (''targetStepId'', if startFrom = JStr ''specific_step'' then target else JUndef)]"

definition handleTriggerAnotherWorkflow :: "wf_env \<Rightarrow> wf_step list \<Rightarrow> wf_step \<Rightarrow> step_result wfd" where
  "handleTriggerAnotherWorkflow E steps step =
     bind_io (need (st_data step)) (\<lambda>data.
       let target = v_fld data ''targetWorkflowId''; startFrom = v_fld data ''startFrom''; targetStep = v_fld data ''targetStepId'' in
       if \<not> v_truthy target then ret (skipped ''no targetWorkflowId'')
       else bind_io cur (\<lambda>c.
         bind_io (gets (\<lambda>s. find (\<lambda>w. JStr (wk_id w) = target \<and> wk_workspaceId w = rc_workspaceId c) (f_workflows s))) (\<lambda>found.
         case found of
           None \<Rightarrow> ret (skipped ''target workflow not published'')
         | Some w \<Rightarrow>
             (if wk_status w \<noteq> ''published'' then ret (skipped ''target workflow not published'')
              else if v_fld (config_trigger (wk_config w)) ''type'' \<noteq> JStr ''manual_trigger'' then
                ret (skipped ''target workflow must use manual trigger'')
              else if startFrom = JStr ''specific_step'' \<and>
                  find (\<lambda>k. JStr (st_id k) = targetStep \<and> st_type k \<noteq> ''branch_connector'') (config_steps (wk_config w)) = None then
                ret (skipped ''target step not found'')
              else let next = findNextStep (st_id step) steps None in
                seq_io (job_add (plain_job (JobTrigger (rc_workspaceId c) (wk_id w) (rc_contactId c) (rc_conversationId c)
                  (json_obj (we_js E) (sub_trigger c step next startFrom targetStep)))))
                (ret ((plain_result [(''triggered'', JBool True), (''waitForCompletion'', JBool True), (''targetWorkflowId'', target),
                   (''targetStepId'', if startFrom = JStr ''specific_step'' then targetStep else JUndef),
                   (''resumeParentStepId'', j_opt next)])\<lparr>sr_suspend := True\<rparr>))))))"

definition runStepHandler :: "wf_env \<Rightarrow> jsv \<Rightarrow> wf_step list \<Rightarrow> wf_step \<Rightarrow> step_result wfd" where
  "runStepHandler E config steps step =
     (let t = st_type step in
      if t = ''send_message'' then handleSendMessage E config steps step
      else if t = ''ask_question'' then handleAskQuestion E config steps step
      else if t = ''assign_to'' then handleAssignTo E step
      else if t = ''update_contact_tag'' then handleUpdateContactTag step
      else if t = ''update_contact_field'' then handleUpdateContactField E step
      else if t = ''branch'' then handleBranch E steps step
      else if t = ''wait'' then handleWait E steps step
      else if t = ''http_request'' then handleHttpRequest E step
      else if t = ''jump_to'' then handleJumpTo E step
      else if t = ''open_conversation'' then handleOpenConversation E
      else if t = ''close_conversation'' then handleCloseConversation E step
      else if t = ''add_comment'' then handleAddComment E step
      else if t = ''date_time'' then handleDateTime E steps step
      else if t = ''trigger_another_workflow'' then handleTriggerAnotherWorkflow E steps step
      else if t = ''branch_connector'' then handleBranchConnector steps step
      else ret (plain_result []))"

end
