(* ===== verification/Workflow_Engine.thy ===== *)
theory Workflow_Engine
  imports Workflow_Actions
begin

text \<open>
  The life of a run: the entry points of the worker (start, execute a step, resume, time out), the
  end of a run with the resumption of the run that waits for it, and the triggers that enqueue runs.
  Ending a run may end its parent, and so on; the recursion is proved to terminate because every run
  it ends was waiting before.
\<close>

section \<open>The end of a run\<close>

definition recordWorkflowLifecycleActivity :: "wf_env \<Rightarrow> wf_ctx \<Rightarrow> string \<Rightarrow> string option \<Rightarrow> unit wfd" where
  "recordWorkflowLifecycleActivity E c eventType err =
     bind_io (gets (we_activity_ok E)) (\<lambda>ok.
       if \<not> js_truthy (rc_conversationId c) \<or> \<not> we_activity E \<or> \<not> ok then ret ()
       else seq_io (activity_create E (rc_workspaceId c) (the (rc_conversationId c)) eventType None None
           (JObj ([(''workflowId'', JStr (rc_workflowId c)), (''workflowName'', JStr (js_default (rc_workflowName c) ''Workflow'')),
             (''runId'', JStr (rc_runId c))] @ (if js_truthy err then [(''error'', JStr (the err))] else []))))
         (ret ()))"

definition cleanupRun :: "wf_env \<Rightarrow> string \<Rightarrow> wf_ctx \<Rightarrow> unit wfd" where
  "cleanupRun E runId c =
     seq_io (modify (\<lambda>s. s\<lparr>f_ctx := (f_ctx s)(runId := None)\<rparr>))
     (bind_io (active_run E (rc_workspaceId c) (rc_contactId c)) (\<lambda>active.
       if map_option fst active = Some runId then
         modify (\<lambda>s. s\<lparr>f_active := (f_active s)((rc_workspaceId c, rc_contactId c) := None)\<rparr>)
       else ret ()))"

text \<open>What happens to the parent of a run that ended.\<close>

datatype parent_fate = LeaveParent | WakeParent string jsobj | EndParent string wf_ctx

definition child_data :: "wf_ctx \<Rightarrow> string \<Rightarrow> string option \<Rightarrow> jsobj" where
  "child_data c childStatus err =
     [(''triggeredWorkflowId'', JStr (rc_workflowId c)), (''triggeredWorkflowRunId'', JStr (rc_runId c)),
      (''triggeredWorkflowStatus'', JStr childStatus)] @
     (if js_truthy err then [(''triggeredWorkflowError'', JStr (the err))] else [])"

definition parent_fate_of :: "wf_env \<Rightarrow> wf_ctx \<Rightarrow> string \<Rightarrow> string option \<Rightarrow> wf \<Rightarrow> parent_fate" where
  "parent_fate_of E c childStatus err s =
     (let parentRunId = o_get (rc_trigger c) ''triggeredByRunId''; resumeStep = o_get (rc_trigger c) ''resumeParentStepId''; p = v_str parentRunId in
      if \<not> nonempty_str parentRunId then LeaveParent
      else case find_run s p of
        None \<Rightarrow> LeaveParent
      | Some run \<Rightarrow>
          if wr_status run \<noteq> RunWaiting then LeaveParent
          else if nonempty_str resumeStep then
            WakeParent p (child_data c childStatus err @ [(''nextStepId'', resumeStep)])
          else (case ttl_get (we_now E s) (f_ctx s p) of
                  None \<Rightarrow> LeaveParent
                | Some pc \<Rightarrow> EndParent p (pc\<lparr>rc_vars := o_merge (rc_vars pc) (child_data c childStatus err)\<rparr>)))"

definition completed_row :: "int \<Rightarrow> wf_run \<Rightarrow> wf_run" where
  "completed_row now r = r\<lparr>wr_status := RunCompleted, wr_completedAt := Some now\<rparr>"

definition failed_run_row :: "int \<Rightarrow> string \<Rightarrow> wf_run \<Rightarrow> wf_run" where
  "failed_run_row now err r = r\<lparr>wr_status := RunFailed, wr_failedAt := Some now, wr_error := Some err\<rparr>"

text \<open>The writes that end one run: its row, the timeline entry and its keys.\<close>

definition end_run :: "wf_env \<Rightarrow> string \<Rightarrow> wf_ctx \<Rightarrow> (int \<Rightarrow> wf_run \<Rightarrow> wf_run) \<Rightarrow> string \<Rightarrow> string option \<Rightarrow> unit wfd" where
  "end_run E runId c f eventType err =
     bind_io (wf_clock E) (\<lambda>now.
     seq_io (run_update runId (f now))
     (seq_io (recordWorkflowLifecycleActivity E c eventType err)
       (cleanupRun E runId c)))"

definition waiting_others :: "wf \<Rightarrow> string \<Rightarrow> string set" where
  "waiting_others s i = {wr_id r | r. r \<in> set (f_runs s) \<and> wr_status r = RunWaiting \<and> wr_id r \<noteq> i}"

lemma run_update_runs:
  "run_update i f s = (Inr (), t) \<Longrightarrow> t = s\<lparr>f_runs := upd_where (\<lambda>r. wr_id r = i) f (f_runs s)\<rparr>"
  by (auto simp: run_update_def wf_update_def split: option.splits)

lemma lifecycle_runs: "f_runs (snd (recordWorkflowLifecycleActivity E c ev err s)) = f_runs s"
  by (simp add: recordWorkflowLifecycleActivity_def activity_create_def io_simps)

lemma cleanup_runs: "f_runs (snd (cleanupRun E i c s)) = f_runs s"
  by (simp add: cleanupRun_def active_run_def io_simps)

lemma lifecycle_Inr: "\<exists>t. recordWorkflowLifecycleActivity E c ev err s = (Inr (), t)"
  by (simp add: recordWorkflowLifecycleActivity_def activity_create_def io_simps)

lemma cleanup_Inr: "\<exists>t. cleanupRun E i c s = (Inr (), t)"
  by (simp add: cleanupRun_def active_run_def io_simps)

lemma end_run_runs:
  assumes "end_run E i c f ev err s = (Inr (), t)"
  shows "f_runs t = upd_where (\<lambda>r. wr_id r = i) (f (we_now E s)) (f_runs s)"
proof -
  obtain u where u: "run_update i (f (we_now E s)) s = (Inr (), u)"
    using assms by (cases "run_update i (f (we_now E s)) s")
      (auto simp: end_run_def wf_clock_def io_simps split: sum.splits)
  obtain v where v: "recordWorkflowLifecycleActivity E c ev err u = (Inr (), v)" using lifecycle_Inr by blast
  have "f_runs t = f_runs v"
    using assms u v cleanup_runs [of E i c v] by (simp add: end_run_def wf_clock_def io_simps)
  also have "f_runs v = f_runs u" using v lifecycle_runs [of E c ev err u] by simp
  finally show ?thesis using run_update_runs [OF u] by simp
qed

lemma waiting_shrinks:
  assumes "end_run E i c completed_row ev err s = (Inr (), t)"
    and "parent_fate_of E c cs er t = EndParent p pc"
  shows "waiting_others t p \<subset> waiting_others s i"
proof -
  have runs: "f_runs t = upd_where (\<lambda>r. wr_id r = i) (completed_row (we_now E s)) (f_runs s)"
    using end_run_runs [OF assms(1)] .
  obtain run where run: "find_run t p = Some run" "wr_status run = RunWaiting"
    using assms(2) by (auto simp: parent_fate_of_def Let_def split: if_splits option.splits)
  then have p: "run \<in> set (f_runs t)" "wr_id run = p"
    by (auto simp: find_run_def dest: find_Some_in)
  have old: "r \<in> set (f_runs s) \<and> wr_id r \<noteq> i" if "r \<in> set (f_runs t)" "wr_status r = RunWaiting" for r
    using that unfolding runs by (auto simp: set_upd_where completed_row_def split: if_splits)
  have "waiting_others t p \<subseteq> waiting_others s i"
    using old by (auto simp: waiting_others_def)
  moreover have "p \<in> waiting_others s i" "p \<notin> waiting_others t p"
    using old [OF p(1) run(2)] p run(2) by (auto simp: waiting_others_def)
  ultimately show ?thesis by blast
qed

text \<open>
  \<^verbatim>\<open>completeRun\<close> and the completion of the parent in \<^verbatim>\<open>resumeParentWorkflowAfterChild\<close>
  call each other; the pair is one function on the state.
\<close>

function completeRun :: "wf_env \<Rightarrow> string \<Rightarrow> wf_ctx \<Rightarrow> wf \<Rightarrow> (exn + unit) \<times> wf" where
  "completeRun E runId c s =
     (case end_run E runId c completed_row ''workflow_ended'' None s of
        (Inl e, t) \<Rightarrow> (Inl e, t)
      | (Inr _, t) \<Rightarrow>
          (case parent_fate_of E c ''completed'' None t of
             LeaveParent \<Rightarrow> (Inr (), t)
           | WakeParent p data \<Rightarrow> job_add (plain_job (JobResume p (json_obj (we_js E) data))) t
           | EndParent p pc \<Rightarrow> completeRun E p pc (snd (saveContext_of E pc t))))"
  by pat_completeness auto
termination
proof (relation "measure (\<lambda>(E, i, c, s). card (waiting_others s i))", goal_cases)
  case 1
  then show ?case by simp
next
  case (2 E runId c s r t v p pc)
  have "waiting_others (snd (saveContext_of E pc t)) p = waiting_others t p" for t
    by (simp add: waiting_others_def saveContext_of_def io_simps)
  moreover have "waiting_others t p \<subset> waiting_others s runId"
    using waiting_shrinks [of E runId c "''workflow_ended''" None s t "''completed''" None p pc] 2 by (cases r) auto
  moreover have "finite (waiting_others s runId)"
    by (rule finite_subset [of _ "wr_id ` set (f_runs s)"]) (auto simp: waiting_others_def)
  ultimately show ?case using 2 by (auto intro: psubset_card_mono)
qed

declare completeRun.simps [simp del]

definition resumeParentWorkflowAfterChild :: "wf_env \<Rightarrow> wf_ctx \<Rightarrow> string \<Rightarrow> string option \<Rightarrow> unit wfd" where
  "resumeParentWorkflowAfterChild E c childStatus err s =
     (case parent_fate_of E c childStatus err s of
        LeaveParent \<Rightarrow> (Inr (), s)
      | WakeParent p data \<Rightarrow> job_add (plain_job (JobResume p (json_obj (we_js E) data))) s
      | EndParent p pc \<Rightarrow> completeRun E p pc (snd (saveContext_of E pc s)))"

definition failRun :: "wf_env \<Rightarrow> string \<Rightarrow> wf_ctx \<Rightarrow> string \<Rightarrow> unit wfd" where
  "failRun E runId c err =
     seq_io (end_run E runId c (\<lambda>now. failed_run_row now err) ''workflow_failed'' (Some err))
       (resumeParentWorkflowAfterChild E c ''failed'' (Some err))"

lemma completeRun_steps:
  "completeRun E runId c =
     seq_io (end_run E runId c completed_row ''workflow_ended'' None) (resumeParentWorkflowAfterChild E c ''completed'' None)"
proof
  fix s
  show "completeRun E runId c s = seq_io (end_run E runId c completed_row ''workflow_ended'' None)
     (resumeParentWorkflowAfterChild E c ''completed'' None) s"
    by (simp add: completeRun.simps [of E runId c s] io_simps resumeParentWorkflowAfterChild_def split: prod.split sum.split)
qed

section \<open>Starting a run\<close>

definition find_for :: "string \<Rightarrow> string \<Rightarrow> wf \<Rightarrow> wf_row option" where
  "find_for i workspaceId s = find (\<lambda>w. wk_id w = i \<and> wk_workspaceId w = workspaceId) (f_workflows s)"

definition contact_tags :: "wf \<Rightarrow> string \<Rightarrow> jsv" where
  "contact_tags s contactId = JArr (map (\<lambda>p. JStr (snd p)) (filter (\<lambda>p. fst p = contactId) (f_contactTags s)))"

definition contact_object :: "wf_contact \<Rightarrow> jsobj" where
  "contact_object k = o_set ''workspaceId'' (JStr (ct_workspaceId k)) (o_set ''id'' (JStr (ct_id k)) (ct_cols k))"

definition truthy_or :: "jsv \<Rightarrow> jsv \<Rightarrow> jsv" where
  "truthy_or a b = (if v_truthy a then a else b)"

definition loadContactData :: "wf \<Rightarrow> string \<Rightarrow> jsobj" where
  "loadContactData s contactId =
     (case find_contact s contactId of
        None \<Rightarrow> []
      | Some k \<Rightarrow>
          let cols = ct_cols k; get = o_get cols;
              full = js_trim (js_join '' '' (map v_str (filter v_truthy [get ''firstName'', get ''lastName''])));
              assignee = get ''assigneeId''; team = get ''teamId''; lifecycle = get ''lifecycleId'';
              availability = (if v_truthy assignee then
                (case find (\<lambda>m. wm_workspaceId m = ct_workspaceId k \<and> JStr (wm_userId m) = assignee) (f_members s) of
                   None \<Rightarrow> JNull | Some m \<Rightarrow> JStr (wm_availability m)) else JNull);
              stage = map_of (f_lifecycles s) (v_str lifecycle); teamName = map_of (f_teams s) (v_str team)
          in o_merge (contact_object k)
               [(''assignee'', if v_truthy assignee then JObj [(''id'', assignee)] else JNull),
                (''team'', case teamName of None \<Rightarrow> JNull | Some n \<Rightarrow> JObj [(''id'', team), (''name'', JStr n)]),
                (''lifecycle'', case stage of None \<Rightarrow> JNull | Some n \<Rightarrow> JObj [(''id'', lifecycle), (''name'', JStr n)]),
                (''name'', truthy_or (JStr full) (truthy_or (get ''email'') (truthy_or (get ''phone'') (JStr [])))),
                (''first_name'', get ''firstName''), (''last_name'', get ''lastName''),
                (''tags'', contact_tags s contactId), (''assigneeId'', assignee), (''assigneeAvailability'', availability),
                (''teamId'', team), (''lifecycleId'', lifecycle), (''lifecycleName'', j_undef stage)])"

definition isTriggeredSubWorkflow :: "jsobj \<Rightarrow> bool" where
  "isTriggeredSubWorkflow td = (v_truthy (o_get td ''triggeredByWorkflow'') \<or> v_truthy (o_get td ''triggeredByRunId''))"

definition resolveInitialStep :: "wf_step list \<Rightarrow> jsobj \<Rightarrow> wf_step option" where
  "resolveInitialStep steps td =
     (if o_get td ''startFrom'' = JStr ''specific_step'' \<and> v_truthy (o_get td ''targetStepId'') then
        find (\<lambda>s. JStr (st_id s) = o_get td ''targetStepId'' \<and> st_type s \<noteq> ''branch_connector'') steps
      else find (\<lambda>s. st_parentId s = Some ''trigger'') steps)"

definition new_run :: "string \<Rightarrow> int \<Rightarrow> string \<Rightarrow> string \<Rightarrow> string \<Rightarrow> jsobj \<Rightarrow> wf_run" where
  "new_run i now workspaceId workflowId contactId td =
     \<lparr>wr_id = i, wr_workspaceId = workspaceId, wr_workflowId = workflowId, wr_contactId = contactId,
      wr_status = RunRunning, wr_currentStepId = None, wr_triggerData = td, wr_startedAt = now,
      wr_completedAt = None, wr_failedAt = None, wr_error = None\<rparr>"

definition new_ctx :: "wf \<Rightarrow> string \<Rightarrow> wf_row \<Rightarrow> string \<Rightarrow> string \<Rightarrow> string option \<Rightarrow> jsobj \<Rightarrow> wf_ctx" where
  "new_ctx s i w workspaceId contactId conversationId td =
     \<lparr>rc_runId = i, rc_workflowId = wk_id w, rc_workflowName = Some (wk_name w), rc_workspaceId = workspaceId,
      rc_contactId = contactId, rc_conversationId = conversationId, rc_contact = loadContactData s contactId,
      rc_trigger = td, rc_steps = [], rc_vars = []\<rparr>"

definition startRun :: "wf_env \<Rightarrow> string \<Rightarrow> string \<Rightarrow> string \<Rightarrow> string option \<Rightarrow> jsobj \<Rightarrow> unit wfd" where
  "startRun E workspaceId workflowId contactId conversationId td =
     bind_io (gets (find_for workflowId workspaceId)) (\<lambda>found.
     case found of
       None \<Rightarrow> ret ()
     | Some w \<Rightarrow>
         if wk_status w \<noteq> ''published'' then ret ()
         else
           bind_io (gets (\<lambda>s. (we_newid E s, we_now E s, new_ctx s (we_newid E s) w workspaceId contactId conversationId td))) (\<lambda>(i, now, c).
           seq_io (modify (\<lambda>s. s\<lparr>f_runs := f_runs s @ [new_run i now workspaceId (wk_id w) contactId td], f_cur := c\<rparr>))
           (seq_io (need (wk_config w))
           (seq_io (ensureRunConversation E (v_fld (config_trigger (wk_config w)) ''type''))
           (seq_io (saveContext E)
           (bind_io cur (\<lambda>c1.
            seq_io (recordWorkflowLifecycleActivity E c1 ''workflow_started'' None)
            (seq_io (if isTriggeredSubWorkflow td then ret () else markActiveRun E)
            (case resolveInitialStep (config_steps (wk_config w)) td of
               None \<Rightarrow> completeRun E i c1
             | Some first \<Rightarrow> enqueueStep E i (st_id first))))))))))"

section \<open>Executing a step\<close>

definition runStep_create :: "wf_env \<Rightarrow> string \<Rightarrow> wf_step \<Rightarrow> string wfd" where
  "runStep_create E runId step =
     bind_io (gets (\<lambda>s. (we_newid E s, we_now E s))) (\<lambda>(i, now).
     seq_io (modify (\<lambda>s. s\<lparr>f_runSteps := f_runSteps s @ [\<lparr>ws_id = i, ws_runId = runId, ws_stepId = st_id step,
        ws_stepType = st_type step, ws_status = StepRunning, ws_input = v_or (st_data step) (JObj []), ws_output = JUndef,
        ws_error = None, ws_attempts = 0, ws_startedAt = now, ws_completedAt = None\<rparr>]\<rparr>))
       (ret i))"

definition handleStepError :: "wf_env \<Rightarrow> string \<Rightarrow> string \<Rightarrow> wf_step \<Rightarrow> wf_step list \<Rightarrow> exn \<Rightarrow> unit wfd" where
  "handleStepError E stepRunId runId step steps e =
     (let message = exn_message e in
      bind_io (wf_clock E) (\<lambda>now.
      seq_io (runStep_update stepRunId (\<lambda>r. r\<lparr>ws_status := StepFailed, ws_error := Some message,
         ws_completedAt := Some now, ws_attempts := Suc (ws_attempts r)\<rparr>))
      (case find (\<lambda>k. is_connector_of step k \<and> st_name k = Some ''Error'') steps of
         Some k \<Rightarrow> enqueueStep E runId (st_id k)
       | None \<Rightarrow> bind_io cur (\<lambda>c. failRun E runId c message))))"

definition after_handler :: "wf_env \<Rightarrow> string \<Rightarrow> string \<Rightarrow> wf_step \<Rightarrow> wf_step list \<Rightarrow> step_result \<Rightarrow> unit wfd" where
  "after_handler E runId stepRunId step steps res =
     bind_io (wf_clock E) (\<lambda>now.
     seq_io (runStep_update stepRunId (\<lambda>r. r\<lparr>ws_status := StepCompleted, ws_output := JObj (sr_output res),
        ws_completedAt := Some now, ws_attempts := Suc (ws_attempts r)\<rparr>))
     (seq_io (upd_cur (\<lambda>c. c\<lparr>rc_steps := (st_id step, JObj (sr_output res), ''completed'') #
        filter (\<lambda>p. fst p \<noteq> st_id step) (rc_steps c)\<rparr>))
     (seq_io (saveContext E)
     (if sr_suspend res then
        seq_io (run_update runId (\<lambda>r. r\<lparr>wr_status := RunWaiting\<rparr>))
          (if st_type step = ''ask_question'' \<or> sr_waitFor res = Some ''template_button'' then markActiveRun E else ret ())
      else case js_nullish (sr_next res) (findNextStep (st_id step) steps (sr_branch res)) of
        None \<Rightarrow> bind_io cur (completeRun E runId)
      | Some next \<Rightarrow> if next = [] then bind_io cur (completeRun E runId) else enqueueStep E runId next))))"

definition run_step :: "wf_env \<Rightarrow> string \<Rightarrow> jsv \<Rightarrow> wf_step \<Rightarrow> unit wfd" where
  "run_step E runId config step =
     (let steps = config_steps config in
      bind_io (runStep_create E runId step) (\<lambda>stepRunId.
      seq_io (run_update runId (\<lambda>r. r\<lparr>wr_currentStepId := Some (st_id step)\<rparr>))
      (catch_io (bind_io (runStepHandler E config steps step) (after_handler E runId stepRunId step steps))
        (handleStepError E stepRunId runId step steps))))"

definition executeStep :: "wf_env \<Rightarrow> string \<Rightarrow> string \<Rightarrow> unit wfd" where
  "executeStep E runId stepId =
     bind_io (gets (\<lambda>s. find_run s runId)) (\<lambda>found.
     case found of
       None \<Rightarrow> ret ()
     | Some run \<Rightarrow>
         if wr_status run \<noteq> RunRunning \<and> wr_status run \<noteq> RunWaiting then ret ()
         else bind_io (loadContext E runId) (\<lambda>ctx.
           case ctx of
             None \<Rightarrow> ret ()
           | Some c \<Rightarrow>
               bind_io (gets (\<lambda>s. find_workflow s (wr_workflowId run))) (\<lambda>w.
               case w of
                 None \<Rightarrow> ret ()
               | Some wk \<Rightarrow>
                   seq_io (need (wk_config wk))
                   (seq_io (upd_cur (\<lambda>_. c))
                   (case find (\<lambda>s. st_id s = stepId) (config_steps (wk_config wk)) of
                      None \<Rightarrow> completeRun E runId c
                    | Some step \<Rightarrow> run_step E runId (wk_config wk) step)))))"

section \<open>Resuming a run\<close>

definition resume_id :: "jsobj \<Rightarrow> jsv" where
  "resume_id data = v_or (o_get data ''lastAnswerMessageId'') (o_get data ''templateButtonReplyMessageId'')"

definition resume_vars :: "jsobj \<Rightarrow> jsobj" where
  "resume_vars data = o_del ''completeAfterWait'' (o_del ''nextStepId'' data)"

definition resumeRun :: "wf_env \<Rightarrow> string \<Rightarrow> jsobj \<Rightarrow> unit wfd" where
  "resumeRun E runId data =
     bind_io (gets (\<lambda>s. find_run s runId)) (\<lambda>found.
     case found of
       None \<Rightarrow> ret ()
     | Some run \<Rightarrow>
         if wr_status run \<noteq> RunWaiting then ret ()
         else bind_io (loadContext E runId) (\<lambda>ctx.
           case ctx of
             None \<Rightarrow> ret ()
           | Some c \<Rightarrow>
               if hasProcessedAnswerMessage c (resume_id data) then ret ()
               else
                 let c1 = c\<lparr>rc_vars := o_merge (rc_vars c) (resume_vars data)\<rparr> in
                 seq_io (upd_cur (\<lambda>_. c1))
                 (seq_io (saveContext E)
                 (seq_io (run_update runId (\<lambda>r. r\<lparr>wr_status := RunRunning\<rparr>))
                 (if o_get data ''completeAfterWait'' = JBool True then completeRun E runId c1
                  else let next = o_get data ''nextStepId'';
                           target = (if nonempty_str next then Some (v_str next) else wr_currentStepId run)
                       in if js_truthy target then enqueueStep E runId (the target) else ret ())))))"

definition handleAskQuestionTimeout :: "wf_env \<Rightarrow> string \<Rightarrow> string \<Rightarrow> unit wfd" where
  "handleAskQuestionTimeout E runId stepId =
     bind_io (gets (\<lambda>s. find_run s runId)) (\<lambda>found.
     case found of
       None \<Rightarrow> ret ()
     | Some run \<Rightarrow>
         if wr_status run \<noteq> RunWaiting \<or> wr_currentStepId run \<noteq> Some stepId then ret ()
         else bind_io (loadContext E runId) (\<lambda>ctx.
           case ctx of
             None \<Rightarrow> ret ()
           | Some c \<Rightarrow>
               bind_io (gets (\<lambda>s. find_workflow s (wr_workflowId run))) (\<lambda>w.
               case w of
                 None \<Rightarrow> ret ()
               | Some wk \<Rightarrow>
                   seq_io (need (wk_config wk))
                   (let steps = config_steps (wk_config wk) in
                   case find (\<lambda>k. st_id k = stepId \<and> st_type k = ''ask_question'') steps of
                     None \<Rightarrow> ret ()
                   | Some step \<Rightarrow>
                       if \<not> v_truthy (v_fld (st_data step) ''addTimeoutBranch'') then ret ()
                       else case findAskQuestionConnector step steps ''Timeout'' of
                         None \<Rightarrow> ret ()
                       | Some k \<Rightarrow>
                           let c1 = c\<lparr>rc_vars := o_del ''lastAnswerMessageId'' (o_del ''lastAnswer'' (rc_vars c)),
                                 rc_steps := (stepId, JObj [(''timedOut'', JBool True)], ''completed'') #
                                   filter (\<lambda>p. fst p \<noteq> stepId) (rc_steps c)\<rparr> in
                           seq_io (upd_cur (\<lambda>_. c1))
                           (seq_io (saveContext E)
                           (seq_io (run_update runId (\<lambda>r. r\<lparr>wr_status := RunRunning\<rparr>))
                           (case findNextStep stepId steps (Some (st_id k)) of
                              None \<Rightarrow> completeRun E runId c1
                            | Some next \<Rightarrow> if next = [] then completeRun E runId c1 else enqueueStep E runId next)))))))"

text \<open>The dispatch of the worker, \<^verbatim>\<open>src/src/workers/workflow.worker.ts\<close>.\<close>

definition run_job :: "wf_env \<Rightarrow> wf_job \<Rightarrow> unit wfd" where
  "run_job E job =
     (case job of
        JobTrigger ws w contact conv td \<Rightarrow> startRun E ws w contact conv td
      | JobExecute runId stepId \<Rightarrow> executeStep E runId stepId
      | JobResume runId data \<Rightarrow> resumeRun E runId data
      | JobTimeout runId stepId \<Rightarrow> handleAskQuestionTimeout E runId stepId)"

end
