(* ===== verification/Workflow_Frames.thy ===== *)
theory Workflow_Frames
  imports Workflow_Engine
begin

text \<open>
  What the step handlers leave alone: no handler changes a run, a workflow or the steps that are
  queued for execution, a context is stored under the id of its run, and only a jump changes a jump
  counter.
\<close>

definition exec_jobs :: "wf \<Rightarrow> (string \<times> string) list" where
  "exec_jobs s = concat (map (\<lambda>q. case qd_job q of JobExecute r i \<Rightarrow> [(r, i)] | _ \<Rightarrow> []) (f_queue s))"

definition ctx_keys :: "wf \<Rightarrow> bool" where
  "ctx_keys s \<longleftrightarrow> (\<forall>i c e. f_ctx s i = Some (c, e) \<longrightarrow> rc_runId c = i)"

definition calm :: "wf \<Rightarrow> wf \<Rightarrow> bool" where
  "calm s t \<longleftrightarrow> f_runs t = f_runs s \<and> f_workflows t = f_workflows s \<and> exec_jobs t = exec_jobs s
     \<and> (ctx_keys s \<longrightarrow> ctx_keys t)"

definition quiet :: "wf \<Rightarrow> wf \<Rightarrow> bool" where
  "quiet s t \<longleftrightarrow> calm s t \<and> f_jumps t = f_jumps s"

interpretation quiet: step_order quiet
  by unfold_locales (auto simp: quiet_def calm_def)

interpretation calm: step_order calm
  by unfold_locales (auto simp: calm_def)

lemma quiet_calm: "keeps quiet m \<Longrightarrow> keeps calm m"
  by (simp add: keeps_def quiet_def)

lemma quiet_modify:
  "(\<And>s. f_runs (f s) = f_runs s \<and> f_workflows (f s) = f_workflows s \<and> f_queue (f s) = f_queue s \<and> f_jumps (f s) = f_jumps s
      \<and> f_ctx (f s) = f_ctx s) \<Longrightarrow>
    keeps quiet (modify f)"
  by (rule quiet.r_modify) (simp add: quiet_def calm_def exec_jobs_def ctx_keys_def)

lemma quiet_job:
  "(\<And>r i. qd_job q \<noteq> JobExecute r i) \<Longrightarrow> keeps quiet (job_add q)"
  unfolding job_add_def
  by (rule quiet.r_modify) (cases "qd_job q"; auto simp: quiet_def calm_def exec_jobs_def ctx_keys_def split: option.split)

lemma quiet_need [simp]: "keeps quiet (need v)"
  by (simp add: need_def quiet.r_intros)

lemma quiet_lift [simp]: "keeps quiet (lift_sum r)"
  by (cases r) (simp_all add: lift_sum_def quiet.r_intros)

lemma quiet_reads [simp]: "keeps quiet cur" "keeps quiet (wf_clock E)" "keeps quiet (loadContext E i)"
  "keeps quiet (active_run E w k)" "keeps quiet resolveWorkflowConversation" "keeps quiet (interpolate E v)"
  by (auto simp: cur_def wf_clock_def loadContext_def active_run_def resolveWorkflowConversation_def interpolate_def
      intro!: quiet.r_intros split: jsv.split)

lemma quiet_cur [simp]: "keeps quiet (upd_cur f)" "keeps quiet (set_var k v)" "keeps quiet (del_var k)"
  by (auto simp: upd_cur_def set_var_def del_var_def intro!: quiet_modify)

lemma quiet_save [simp]: "keeps quiet (saveContext_of E c)" "keeps quiet (saveContext E)" "keeps quiet (markActiveRun E)"
proof -
  show "keeps quiet (saveContext_of E c)" for c
    unfolding saveContext_of_def
    by (rule quiet.r_modify) (simp add: quiet_def calm_def exec_jobs_def ctx_keys_def json_ctx_def)
  then show "keeps quiet (saveContext E)" unfolding saveContext_def by (intro quiet.r_bind quiet_reads)
  show "keeps quiet (markActiveRun E)" unfolding markActiveRun_def Let_def by (rule quiet_modify) simp
qed

lemma quiet_contact [simp]: "keeps quiet (contact_update i cols)" "keeps quiet (contact_updateMany i w cols)"
proof -
  have "keeps quiet (wf_update f_contacts (\<lambda>x. f_contacts_update (\<lambda>_. x)) P f)" for P f
    by (rule keepsI) (simp add: wf_update_def quiet_def calm_def exec_jobs_def ctx_keys_def split: option.split)
  then show "keeps quiet (contact_update i cols)"
    by (simp add: contact_update_def quiet.r_throw)
  show "keeps quiet (contact_updateMany i w cols)"
    unfolding contact_updateMany_def by (intro quiet.r_intros quiet_modify) simp
qed

lemma quiet_activity [simp]: "keeps quiet (activity_create E w v ev u t m)"
  unfolding activity_create_def by (intro quiet.r_intros quiet_modify) simp

lemma quiet_conversation [simp]: "keeps quiet (conversation_create E)" "keeps quiet (ensureWorkflowConversation E b save)"
  "keeps quiet (ensureRunConversation E t)"
proof -
  show create: "keeps quiet (conversation_create E)" for E
    unfolding conversation_create_def by (intro quiet.r_intros quiet_modify) simp
  show ensure: "keeps quiet (ensureWorkflowConversation E b save)" for E b save
    unfolding ensureWorkflowConversation_def Let_def
    by (intro quiet.r_intros quiet_reads quiet_cur quiet_contact quiet_save create)
  show "keeps quiet (ensureRunConversation E t)"
    unfolding ensureRunConversation_def by (intro quiet.r_intros quiet_reads ensure)
qed

lemmas quiet_rules = quiet.r_intros quiet_reads quiet_cur quiet_save quiet_contact quiet_activity quiet_conversation quiet_need quiet_lift

lemma quiet_target [simp]: "keeps quiet (resolveWorkflowMessageTarget E config data kind)"
proof -
  have "keeps quiet (resolveTriggerChannelTarget E)"
    unfolding resolveTriggerChannelTarget_def
    by (intro quiet_rules)
  then show ?thesis
    unfolding resolveWorkflowMessageTarget_def Let_def
    by (intro quiet_rules)
qed

lemma quiet_reply [simp]: "keeps quiet (handleTemplateButtonReply step steps)"
  unfolding handleTemplateButtonReply_def markProcessedAnswerMessage_def Let_def by (intro quiet_rules)

lemma quiet_outbound [simp]: "keeps quiet (send_outbound E step steps text atts metadata target)"
  unfolding send_outbound_def Let_def
  by (intro quiet_rules quiet_modify) simp

lemma quiet_send [simp]: "keeps quiet (handleSendMessage E config steps step)"
  unfolding handleSendMessage_def Let_def
  by (intro quiet_rules quiet_reply) (auto split: sum.split intro!: quiet_rules quiet_target quiet_outbound)

lemma quiet_ask [simp]: "keeps quiet (handleAskQuestion E config steps step)"
proof -
  have fail: "keeps quiet (askQuestionMessageFailureResult step steps reason)" for reason
    unfolding askQuestionMessageFailureResult_def by (intro quiet_rules)
  have timeout: "keeps quiet (scheduleAskQuestionTimeout E step)"
    unfolding scheduleAskQuestionTimeout_def by (intro quiet_rules quiet_job) simp
  have ask: "keeps quiet (ask_now E config steps step)"
    unfolding ask_now_def by (intro quiet_rules quiet_send fail timeout)
  have tag: "keeps quiet (findOrCreateWorkflowTag E w n)" for w n
    unfolding findOrCreateWorkflowTag_def Let_def by (intro quiet_rules quiet_modify) simp
  have add: "keeps quiet (contactTag_add k ts)" for k ts
    unfolding contactTag_add_def by (intro quiet_rules quiet_modify) simp
  have save: "keeps quiet (save_answer E step a)" for a
    unfolding save_answer_def Let_def by (intro quiet_rules tag add)
  have forget: "keeps quiet (forget_answer E)"
    unfolding forget_answer_def markProcessedAnswerMessage_def by (intro quiet_rules)
  show ?thesis
    unfolding handleAskQuestion_def Let_def by (intro quiet_rules ask save forget)
qed

lemma quiet_assign [simp]: "keeps quiet (handleAssignTo E step)"
proof -
  have agents: "keeps quiet (getEligibleAgents E w t b m)" for w t b m
    unfolding getEligibleAgents_def by (rule quiet.r_gets)
  have pick: "keeps quiet (pickAgent ids w l)" for ids w l
    unfolding pickAgent_def by (intro quiet_rules quiet_modify) simp
  have assign: "keeps quiet (assign_contact E a i t v)" for a i t v
    unfolding assign_contact_def by (intro quiet_rules)
  show ?thesis
    unfolding handleAssignTo_def Let_def by (intro quiet_rules agents pick assign)
qed

lemma quiet_contact_steps [simp]: "keeps quiet (handleUpdateContactTag step)" "keeps quiet (handleUpdateContactField E step)"
proof -
  have add: "keeps quiet (contactTag_add k ts)" for k ts
    unfolding contactTag_add_def by (intro quiet_rules quiet_modify) simp
  show "keeps quiet (handleUpdateContactTag step)"
    unfolding handleUpdateContactTag_def Let_def by (intro quiet_rules quiet_modify add) simp
  show "keeps quiet (handleUpdateContactField E step)"
    unfolding handleUpdateContactField_def Let_def by (intro quiet_rules)
qed

lemma quiet_flow [simp]: "keeps quiet (handleBranch E steps step)" "keeps quiet (handleBranchConnector steps step)"
  "keeps quiet (handleWait E steps step)" "keeps quiet (handleDateTime E steps step)"
  "keeps quiet (handleTriggerAnotherWorkflow E steps step)"
  by (auto simp: handleBranch_def handleBranchConnector_def handleWait_def handleDateTime_def handleTriggerAnotherWorkflow_def
      Let_def plain_job_def intro!: quiet_rules quiet_job)

lemma quiet_http [simp]: "keeps quiet (handleHttpRequest E step)"
  unfolding handleHttpRequest_def
  by (intro quiet_rules) (auto simp: apply_mapping_def split: sum.split intro!: quiet_rules)

lemma quiet_talk [simp]: "keeps quiet (handleOpenConversation E)" "keeps quiet (handleCloseConversation E step)"
  "keeps quiet (handleAddComment E step)"
proof -
  show "keeps quiet (handleOpenConversation E)"
    unfolding handleOpenConversation_def by (intro quiet_rules)
  have rows: "keeps quiet (close_rows E v)" for v
    unfolding close_rows_def by (intro quiet_rules quiet_modify) simp
  show "keeps quiet (handleCloseConversation E step)"
    unfolding handleCloseConversation_def by (intro quiet_rules rows quiet_modify) simp
  have users: "keeps quiet (resolveMentionedUserIds w t x)" for w t x
    unfolding resolveMentionedUserIds_def Let_def by (rule quiet.r_gets)
  have notify: "keeps quiet (notifyMentionedUsers E w n t us)" for w n t us
    unfolding notifyMentionedUsers_def Let_def by (intro quiet_rules quiet_modify) simp
  show "keeps quiet (handleAddComment E step)"
    unfolding handleAddComment_def by (intro quiet_rules users notify)
qed

lemma quiet_handler:
  "st_type step \<noteq> ''jump_to'' \<Longrightarrow> keeps quiet (runStepHandler E config steps step)"
  unfolding runStepHandler_def Let_def by (simp add: quiet.r_ret)

lemma calm_jump: "keeps calm (handleJumpTo E step)"
proof -
  have "keeps calm (modify (\<lambda>s. s\<lparr>f_jumps := g s\<rparr>))" for g
    by (rule calm.r_modify) (simp add: calm_def exec_jobs_def ctx_keys_def)
  then show ?thesis
    unfolding handleJumpTo_def Let_def
    by (intro calm.r_intros quiet_calm [OF quiet_need] quiet_calm [OF quiet_reads(1)] quiet_calm [OF quiet_cur(3)])
qed

lemma calm_handler: "keeps calm (runStepHandler E config steps step)"
proof (cases "st_type step = ''jump_to''")
  case True
  then show ?thesis by (simp add: runStepHandler_def calm_jump)
next
  case False
  then show ?thesis by (rule quiet_calm [OF quiet_handler])
qed

lemma quiet_lifecycle [simp]: "keeps quiet (recordWorkflowLifecycleActivity E c ev err)" "keeps quiet (cleanupRun E i c)"
proof -
  show "keeps quiet (recordWorkflowLifecycleActivity E c ev err)"
    unfolding recordWorkflowLifecycleActivity_def by (intro quiet_rules)
  have ctx: "keeps quiet (modify (\<lambda>s. s\<lparr>f_ctx := (f_ctx s)(i := None)\<rparr>))"
    by (rule quiet.r_modify) (simp add: quiet_def calm_def exec_jobs_def ctx_keys_def)
  have active: "keeps quiet (modify (\<lambda>s. s\<lparr>f_active := g s\<rparr>))" for g
    by (rule quiet_modify) simp
  show "keeps quiet (cleanupRun E i c)"
    unfolding cleanupRun_def by (intro quiet_rules ctx active)
qed

lemma quiet_runSteps [simp]: "keeps quiet (runStep_create E i step)" "keeps quiet (runStep_update j f)"
proof -
  show "keeps quiet (runStep_create E i step)"
    unfolding runStep_create_def by (intro quiet_rules quiet_modify) simp
  show "keeps quiet (runStep_update j f)"
    by (rule keepsI) (simp add: runStep_update_def wf_update_def quiet_def calm_def exec_jobs_def ctx_keys_def split: option.split)
qed

end
