(* ===== verification/Workflow_Runs.thy ===== *)
theory Workflow_Runs
  imports Workflow_Frames
begin

text \<open>
  A run that has ended is never written again by the engine. The proof follows the code: every job
  reads the run first, works only on one that is running or waiting, and the handler of a step can
  fail only before the run has ended.
\<close>

definition ended :: "wf_run \<Rightarrow> bool" where
  "ended r \<longleftrightarrow> wr_status r \<noteq> RunRunning \<and> wr_status r \<noteq> RunWaiting"

definition unique_runs :: "wf \<Rightarrow> bool" where
  "unique_runs s \<longleftrightarrow> distinct (map wr_id (f_runs s))"

definition open_run :: "wf \<Rightarrow> string \<Rightarrow> bool" where
  "open_run s i \<longleftrightarrow> (\<forall>r \<in> set (f_runs s). wr_id r = i \<longrightarrow> \<not> ended r)"

definition finals :: "wf \<Rightarrow> wf \<Rightarrow> bool" where
  "finals s t \<longleftrightarrow> (\<forall>r \<in> set (f_runs s). ended r \<longrightarrow> r \<in> set (f_runs t))"

definition final_step :: "wf \<Rightarrow> wf \<Rightarrow> bool" where
  "final_step s t \<longleftrightarrow> (unique_runs s \<longrightarrow> unique_runs t \<and> finals s t)"

interpretation final_step: step_order final_step
  by unfold_locales (auto simp: final_step_def finals_def)

section \<open>Two kinds of programs on one run\<close>

text \<open>
  \<open>stays i m\<close>: on an open run \<open>i\<close>, \<open>m\<close> writes no ended run and leaves \<open>i\<close> open. \<open>ends i m\<close>: it may
  end \<open>i\<close>, but then it does not throw.
\<close>

definition stays :: "string \<Rightarrow> 'a wfd \<Rightarrow> bool" where
  "stays i m \<longleftrightarrow> (\<forall>s r t. unique_runs s \<longrightarrow> open_run s i \<longrightarrow> m s = (r, t) \<longrightarrow> unique_runs t \<and> finals s t \<and> open_run t i)"

definition ends :: "string \<Rightarrow> 'a wfd \<Rightarrow> bool" where
  "ends i m \<longleftrightarrow> (\<forall>s r t. unique_runs s \<longrightarrow> open_run s i \<longrightarrow> m s = (r, t) \<longrightarrow>
     unique_runs t \<and> finals s t \<and> (\<forall>e. r = Inl e \<longrightarrow> open_run t i))"

lemma staysI: "(\<And>s r t. unique_runs s \<Longrightarrow> open_run s i \<Longrightarrow> m s = (r, t) \<Longrightarrow> unique_runs t \<and> finals s t \<and> open_run t i) \<Longrightarrow> stays i m"
  unfolding stays_def by blast

lemma staysD: "stays i m \<Longrightarrow> unique_runs s \<Longrightarrow> open_run s i \<Longrightarrow> m s = (r, t) \<Longrightarrow> unique_runs t \<and> finals s t \<and> open_run t i"
  unfolding stays_def by blast

lemma endsI: "(\<And>s r t. unique_runs s \<Longrightarrow> open_run s i \<Longrightarrow> m s = (r, t) \<Longrightarrow>
    unique_runs t \<and> finals s t \<and> (\<forall>e. r = Inl e \<longrightarrow> open_run t i)) \<Longrightarrow> ends i m"
  unfolding ends_def by blast

lemma endsD: "ends i m \<Longrightarrow> unique_runs s \<Longrightarrow> open_run s i \<Longrightarrow> m s = (r, t) \<Longrightarrow>
    unique_runs t \<and> finals s t \<and> (\<forall>e. r = Inl e \<longrightarrow> open_run t i)"
  unfolding ends_def by blast

lemma stays_ends: "stays i m \<Longrightarrow> ends i m"
  by (rule endsI) (blast dest: staysD)

lemma finals_trans: "finals s t \<Longrightarrow> finals t u \<Longrightarrow> finals s u"
  by (auto simp: finals_def)

lemma ends_bind:
  assumes m: "stays i m" and f: "\<And>x. ends i (f x)"
  shows "ends i (bind_io m f)"
proof (rule endsI)
  fix s r u
  assume s: "unique_runs s" "open_run s i" and run: "bind_io m f s = (r, u)"
  obtain q t where mt: "m s = (q, t)" by (cases "m s")
  note t = staysD [OF m s mt]
  show "unique_runs u \<and> finals s u \<and> (\<forall>e. r = Inl e \<longrightarrow> open_run u i)"
  proof (cases q)
    case (Inl e)
    with run mt t show ?thesis by (auto simp: io_simps)
  next
    case (Inr x)
    with run mt have "f x t = (r, u)" by (simp add: io_simps)
    with endsD [OF f, of t x r u] t show ?thesis by (blast intro: finals_trans)
  qed
qed

lemma ends_seq: "stays i m \<Longrightarrow> ends i n \<Longrightarrow> ends i (seq_io m n)"
  unfolding seq_io_def by (rule ends_bind)

lemma ends_catch:
  assumes m: "ends i m" and h: "\<And>e. ends i (h e)"
  shows "ends i (catch_io m h)"
proof (rule endsI)
  fix s r u
  assume s: "unique_runs s" "open_run s i" and run: "catch_io m h s = (r, u)"
  obtain q t where mt: "m s = (q, t)" by (cases "m s")
  note t = endsD [OF m s mt]
  show "unique_runs u \<and> finals s u \<and> (\<forall>e. r = Inl e \<longrightarrow> open_run u i)"
  proof (cases q)
    case (Inl e)
    with run mt have "h e t = (r, u)" by (simp add: io_simps)
    with endsD [OF h, of t e r u] t Inl show ?thesis by (blast intro: finals_trans)
  next
    case (Inr x)
    with run mt t show ?thesis by (auto simp: io_simps)
  qed
qed

lemma ends_cases:
  "ends i m \<Longrightarrow> ends i n \<Longrightarrow> ends i (if b then m else n)"
  "ends i m \<Longrightarrow> (\<And>x. ends i (f x)) \<Longrightarrow> ends i (case v of None \<Rightarrow> m | Some x \<Rightarrow> f x)"
  by (simp_all split: option.split)

lemma calm_stays: "keeps calm m \<Longrightarrow> stays i m"
  by (rule staysI) (auto simp: unique_runs_def open_run_def finals_def calm_def dest: keeps_result)

lemma quiet_stays: "keeps quiet m \<Longrightarrow> stays i m"
  by (rule calm_stays [OF quiet_calm])

lemma enqueue_runs: "f_runs (snd (enqueueStep E j k s)) = f_runs s"
  by (simp add: enqueueStep_def wf_clock_def job_add_def io_simps split: option.split)

lemma enqueue_stays: "stays i (enqueueStep E j k)"
  by (rule staysI) (metis enqueue_runs finals_def open_run_def snd_conv unique_runs_def)

section \<open>Writes to a run\<close>

lemma run_update_writes:
  assumes "run_update i f s = (r, t)"
  shows "(\<exists>e. r = Inl e \<and> t = s \<and> find_run s i = None) \<or>
    (r = Inr () \<and> t = s\<lparr>f_runs := upd_where (\<lambda>x. wr_id x = i) f (f_runs s)\<rparr>)"
  using assms by (auto simp: run_update_def wf_update_def find_run_def split: option.splits)

lemma upd_finals:
  assumes "unique_runs s" and "open_run s i" and "\<And>r. wr_id (f r) = wr_id r"
    and "f_runs t = upd_where (\<lambda>x. wr_id x = i) f (f_runs s)"
  shows "unique_runs t \<and> finals s t"
proof
  show "unique_runs t"
    using assms(1,3,4) map_upd_where [of wr_id f "\<lambda>x. wr_id x = i" "f_runs s"] by (simp add: unique_runs_def)
  have "r \<in> set (f_runs t)" if "r \<in> set (f_runs s)" "ended r" for r
  proof -
    have "wr_id r \<noteq> i" using that assms(2) by (auto simp: open_run_def)
    with that(1) show ?thesis unfolding assms(4) set_upd_where by (simp add: rev_image_eqI)
  qed
  then show "finals s t" by (simp add: finals_def)
qed

lemma run_update_stays:
  assumes "\<And>r. wr_id (f r) = wr_id r" and "\<And>r. \<not> ended r \<Longrightarrow> \<not> ended (f r)"
  shows "stays i (run_update i f)"
proof (rule staysI)
  fix s r t
  assume s: "unique_runs s" "open_run s i" and run: "run_update i f s = (r, t)"
  show "unique_runs t \<and> finals s t \<and> open_run t i"
  proof (cases r)
    case (Inl e)
    with run_update_writes [OF run] s show ?thesis by (auto simp: finals_def)
  next
    case (Inr u)
    with run_update_writes [OF run] have t: "f_runs t = upd_where (\<lambda>x. wr_id x = i) f (f_runs s)" by auto
    moreover have "open_run t i" using s(2) assms unfolding open_run_def t set_upd_where by auto
    ultimately show ?thesis using upd_finals [OF s assms(1) t] by blast
  qed
qed

lemma end_run_result:
  assumes "end_run E i c f ev err s = (r, t)"
  shows "(\<exists>e. r = Inl e \<and> t = s \<and> find_run s i = None) \<or>
    (r = Inr () \<and> f_runs t = upd_where (\<lambda>x. wr_id x = i) (f (we_now E s)) (f_runs s))"
proof (cases "run_update i (f (we_now E s)) s")
  case (Pair q u)
  show ?thesis
  proof (cases q)
    case (Inl e)
    with Pair assms run_update_writes [OF Pair] show ?thesis
      by (auto simp: end_run_def wf_clock_def io_simps)
  next
    case (Inr x)
    obtain v where v: "recordWorkflowLifecycleActivity E c ev err u = (Inr (), v)" using lifecycle_Inr by blast
    obtain w where w: "cleanupRun E i c v = (Inr (), w)" using cleanup_Inr by blast
    have "r = Inr ()" using assms Pair Inr v w by (simp add: end_run_def wf_clock_def io_simps)
    with end_run_runs [of E i c f ev err s t] assms show ?thesis by simp
  qed
qed

lemma find_open:
  "unique_runs s \<Longrightarrow> find_run s i = Some r \<Longrightarrow> \<not> ended r \<Longrightarrow> open_run s i"
  unfolding open_run_def unique_runs_def find_run_def
  by (metis find_Some_in find_unique_key option.inject)

lemma fate_end_open:
  assumes "unique_runs s" and "parent_fate_of E c cs er s = EndParent p pc"
  shows "find_run s p \<noteq> None" and "open_run s p"
proof -
  obtain run where "find_run s p = Some run" "wr_status run = RunWaiting"
    using assms(2) by (auto simp: parent_fate_of_def Let_def split: if_splits option.splits)
  then show "find_run s p \<noteq> None" and "open_run s p"
    using find_open [OF assms(1), of p run] by (auto simp: ended_def)
qed

lemma completeRun_final:
  "unique_runs s \<Longrightarrow> open_run s i \<Longrightarrow> completeRun E i c s = (r, u) \<Longrightarrow>
    unique_runs u \<and> finals s u \<and> (\<forall>e. r = Inl e \<longrightarrow> u = s \<and> find_run s i = None)"
proof (induction E i c s arbitrary: r u rule: completeRun.induct)
  case (1 E i c s)
  obtain q t where et: "end_run E i c completed_row ''workflow_ended'' None s = (q, t)"
    by (cases "end_run E i c completed_row ''workflow_ended'' None s")
  show ?case
  proof (cases q)
    case (Inl e)
    with et 1 end_run_result [OF et] show ?thesis
      by (auto simp: completeRun.simps [of E i c s] finals_def)
  next
    case (Inr x)
    with end_run_result [OF et] have runs: "f_runs t = upd_where (\<lambda>x. wr_id x = i) (completed_row (we_now E s)) (f_runs s)"
      by auto
    have t: "unique_runs t \<and> finals s t"
      by (rule upd_finals [OF "1.prems"(1,2) _ runs]) (simp add: completed_row_def)
    note run = "1.prems"(3) [unfolded completeRun.simps [of E i c s] et Inr, simplified]
    show ?thesis
    proof (cases "parent_fate_of E c ''completed'' None t")
      case LeaveParent
      with run t show ?thesis by auto
    next
      case (WakeParent p data)
      with run have "r = Inr ()" and "f_runs u = f_runs t"
        by (auto simp: job_add_def io_simps plain_job_def)
      with t show ?thesis by (auto simp: unique_runs_def finals_def)
    next
      case (EndParent p pc)
      let ?v = "snd (saveContext_of E pc t)"
      have same: "f_runs ?v = f_runs t" by (simp add: saveContext_of_def io_simps)
      have p: "find_run ?v p \<noteq> None" "unique_runs ?v" "open_run ?v p"
        using fate_end_open [of t, OF _ EndParent] t same by (simp_all add: find_run_def unique_runs_def open_run_def)
      have "completeRun E p pc ?v = (r, u)" using run EndParent by simp
      from "1.IH" [OF et [symmetric, unfolded Inr] _ EndParent p(2,3) this] p(1)
      have "unique_runs u \<and> finals ?v u \<and> (\<forall>e. r \<noteq> Inl e)" using Inr by auto
      with t same show ?thesis by (auto simp: finals_def)
    qed
  qed
qed

lemma completeRun_ends: "ends i (completeRun E i c)"
  by (rule endsI) (use completeRun_final in blast)

lemma parent_final:
  assumes t: "unique_runs t" and rest: "resumeParentWorkflowAfterChild E c cs er t = (r, u)"
  shows "r = Inr () \<and> unique_runs u \<and> finals t u"
proof (cases "parent_fate_of E c cs er t")
  case LeaveParent
  with rest t show ?thesis by (auto simp: resumeParentWorkflowAfterChild_def finals_def)
next
  case (WakeParent p data)
  with rest have "r = Inr ()" and "f_runs u = f_runs t"
    by (auto simp: resumeParentWorkflowAfterChild_def job_add_def io_simps plain_job_def)
  with t show ?thesis by (auto simp: unique_runs_def finals_def)
next
  case (EndParent p pc)
  let ?v = "snd (saveContext_of E pc t)"
  have same: "f_runs ?v = f_runs t" by (simp add: saveContext_of_def io_simps)
  have p: "find_run ?v p \<noteq> None" "unique_runs ?v" "open_run ?v p"
    using fate_end_open [OF t EndParent] t same by (simp_all add: find_run_def unique_runs_def open_run_def)
  have "completeRun E p pc ?v = (r, u)"
    using rest EndParent by (simp add: resumeParentWorkflowAfterChild_def)
  from completeRun_final [OF p(2,3) this] p(1) have "unique_runs u \<and> finals ?v u \<and> r = Inr ()" by (cases r) auto
  with same show ?thesis by (auto simp: finals_def)
qed

lemma failRun_ends: "ends i (failRun E i c err)"
proof (rule endsI)
  fix s r u
  assume s: "unique_runs s" "open_run s i" and run: "failRun E i c err s = (r, u)"
  let ?row = "\<lambda>now. failed_run_row now err"
  obtain q t where et: "end_run E i c ?row ''workflow_failed'' (Some err) s = (q, t)"
    by (cases "end_run E i c ?row ''workflow_failed'' (Some err) s")
  show "unique_runs u \<and> finals s u \<and> (\<forall>e. r = Inl e \<longrightarrow> open_run u i)"
  proof (cases q)
    case (Inl e)
    with et run end_run_result [OF et] s show ?thesis by (auto simp: failRun_def io_simps finals_def)
  next
    case (Inr x)
    with end_run_result [OF et] have runs: "f_runs t = upd_where (\<lambda>x. wr_id x = i) (failed_run_row (we_now E s) err) (f_runs s)"
      by auto
    have t: "unique_runs t \<and> finals s t"
      by (rule upd_finals [OF s _ runs]) (simp add: failed_run_row_def)
    have rest: "resumeParentWorkflowAfterChild E c ''failed'' (Some err) t = (r, u)"
      using run et Inr by (simp add: failRun_def io_simps)
    from parent_final [OF _ rest] t show ?thesis by (auto intro: finals_trans)
  qed
qed

section \<open>The jobs\<close>

lemma handleStepError_ends: "ends i (handleStepError E j i step steps e)"
  unfolding handleStepError_def Let_def
  by (intro ends_bind ends_seq ends_cases quiet_stays quiet_reads quiet_runSteps stays_ends [OF enqueue_stays] failRun_ends)

lemma after_handler_ends: "ends i (after_handler E i j step steps res)"
proof -
  have wait: "stays i (run_update i (\<lambda>r. r\<lparr>wr_status := RunWaiting\<rparr>))"
    by (rule run_update_stays) (simp_all add: ended_def)
  have idle: "ends i (ret ())" by (rule stays_ends [OF quiet_stays [OF quiet.r_ret]])
  show ?thesis
    unfolding after_handler_def
    by (intro ends_bind ends_seq ends_cases quiet_stays quiet_reads quiet_runSteps quiet_cur quiet_save wait
        stays_ends [OF enqueue_stays] completeRun_ends stays_ends [OF quiet_stays [OF quiet_save(3)]] idle)
qed

lemma run_step_ends: "ends i (run_step E i config step)"
proof -
  have at_step: "stays i (run_update i (\<lambda>r. r\<lparr>wr_currentStepId := Some k\<rparr>))" for k
    by (rule run_update_stays) (simp_all add: ended_def)
  show ?thesis
    unfolding run_step_def Let_def
    by (intro ends_bind ends_seq ends_catch quiet_stays quiet_runSteps at_step calm_stays calm_handler after_handler_ends
        handleStepError_ends)
qed

lemma ends_final:
  assumes "ends i m" and "find_run s i = Some r" and "\<not> ended r"
  shows "final_step s (snd (m s))"
proof -
  obtain q t where mt: "m s = (q, t)" by (cases "m s")
  have "unique_runs t \<and> finals s t" if u: "unique_runs s"
    using endsD [OF assms(1) u find_open [OF u assms(2,3)] mt] by blast
  with mt show ?thesis by (simp add: final_step_def)
qed

lemma idle_final: "final_step s (snd (ret () s))"
  by (simp add: ret_def final_step.R_refl)

lemma find_append_None: "find P xs = None \<Longrightarrow> find P (xs @ ys) = find P ys"
  by (induction xs) (auto split: if_splits)

lemma executeStep_final: "keeps final_step (executeStep E i k)"
proof (rule keepsI)
  fix s
  have body: "ends i (seq_io (need cfg) (seq_io (upd_cur (\<lambda>_. c)) (case find (\<lambda>s. st_id s = k) (config_steps cfg) of
      None \<Rightarrow> completeRun E i c | Some step \<Rightarrow> run_step E i cfg step)))" for c cfg
    by (intro ends_seq ends_cases quiet_stays quiet_cur quiet_need completeRun_ends run_step_ends)
  show "final_step s (snd (executeStep E i k s))"
  proof (cases "find_run s i")
    case None
    then show ?thesis by (simp add: executeStep_def bind_gets idle_final)
  next
    case (Some run)
    show ?thesis
    proof (cases "ended run")
      case True
      with Some show ?thesis by (simp add: executeStep_def bind_gets idle_final ended_def)
    next
      case False
      with Some ends_final [OF body Some False] show ?thesis
        by (auto simp: executeStep_def bind_gets idle_final ended_def loadContext_def split: option.split)
    qed
  qed
qed

lemma to_running: "stays i (run_update i (\<lambda>r. r\<lparr>wr_status := RunRunning\<rparr>))"
  by (rule run_update_stays) (simp_all add: ended_def)

lemma resumed_final:
  assumes "find_run s i = Some run" and "\<not> ended run" and "ends i m"
  shows "final_step s (snd (seq_io (upd_cur (\<lambda>_. c)) (seq_io (saveContext E)
      (seq_io (run_update i (\<lambda>r. r\<lparr>wr_status := RunRunning\<rparr>)) m)) s))"
  by (rule ends_final [OF _ assms(1,2)]) (intro ends_seq quiet_stays quiet_cur quiet_save to_running assms(3))

lemma resumeRun_final: "keeps final_step (resumeRun E i data)"
proof (rule keepsI)
  fix s
  have idle: "ends i (ret ())" by (rule stays_ends [OF quiet_stays [OF quiet.r_ret]])
  show "final_step s (snd (resumeRun E i data s))"
  proof (cases "find_run s i")
    case None
    then show ?thesis by (simp add: resumeRun_def bind_gets idle_final)
  next
    case (Some run)
    show ?thesis
    proof (cases "wr_status run = RunWaiting")
      case True
      then have "\<not> ended run" by (simp add: ended_def)
      with Some True show ?thesis
        by (auto simp: resumeRun_def bind_gets idle_final loadContext_def Let_def split: option.split
            intro!: resumed_final [OF Some] completeRun_ends stays_ends [OF enqueue_stays] idle)
    next
      case False
      with Some show ?thesis by (simp add: resumeRun_def bind_gets idle_final)
    qed
  qed
qed

lemma timeout_final: "keeps final_step (handleAskQuestionTimeout E i k)"
proof (rule keepsI)
  fix s
  show "final_step s (snd (handleAskQuestionTimeout E i k s))"
  proof (cases "find_run s i")
    case None
    then show ?thesis by (simp add: handleAskQuestionTimeout_def bind_gets idle_final)
  next
    case (Some run)
    show ?thesis
    proof (cases "wr_status run = RunWaiting")
      case True
      then have "\<not> ended run" by (simp add: ended_def)
      with Some True show ?thesis
        by (auto simp: handleAskQuestionTimeout_def bind_gets idle_final loadContext_def Let_def need_then final_step.R_refl split: option.split
            intro!: resumed_final [OF Some] completeRun_ends stays_ends [OF enqueue_stays])
    next
      case False
      with Some show ?thesis by (simp add: handleAskQuestionTimeout_def bind_gets idle_final)
    qed
  qed
qed

text \<open>The ids that the database gives to new runs are not in use.\<close>

definition fresh_runs :: "wf_env \<Rightarrow> bool" where
  "fresh_runs E \<longleftrightarrow> (\<forall>s. we_newid E s \<notin> wr_id ` set (f_runs s))"

lemma startRun_final:
  assumes "fresh_runs E"
  shows "keeps final_step (startRun E w k contact conv td)"
proof (rule keepsI)
  fix s
  let ?i = "we_newid E s"
  have idle: "stays ?i (ret ())" by (rule quiet_stays [OF quiet.r_ret])
  have mark: "stays ?i (if isTriggeredSubWorkflow td then ret () else markActiveRun E)"
    using idle quiet_stays [OF quiet_save(3)] by simp
  let ?rest = "\<lambda>cfg. seq_io (need cfg) (seq_io (ensureRunConversation E (v_fld (config_trigger cfg) ''type'')) (seq_io (saveContext E) (bind_io cur (\<lambda>c1.
      seq_io (recordWorkflowLifecycleActivity E c1 ''workflow_started'' None)
      (seq_io (if isTriggeredSubWorkflow td then ret () else markActiveRun E)
      (case resolveInitialStep (config_steps cfg) td of None \<Rightarrow> completeRun E ?i c1 | Some first \<Rightarrow> enqueueStep E ?i (st_id first)))))))"
  have rest: "ends ?i (?rest cfg)" for cfg
    by (intro ends_seq ends_bind ends_cases quiet_stays quiet_need quiet_reads quiet_save quiet_conversation quiet_lifecycle mark
        completeRun_ends stays_ends [OF enqueue_stays])
  show "final_step s (snd (startRun E w k contact conv td s))"
  proof (cases "find_for k w s")
    case None
    then show ?thesis by (simp add: startRun_def bind_gets idle_final)
  next
    case (Some wk)
    define row c where "row = new_run ?i (we_now E s) w (wk_id wk) contact td"
      and "c = new_ctx s ?i wk w contact conv td"
    let ?t = "s\<lparr>f_runs := f_runs s @ [row], f_cur := c\<rparr>"
    have new: "?i \<notin> wr_id ` set (f_runs s)" using assms by (simp add: fresh_runs_def)
    have one: "final_step s ?t"
      using new by (auto simp: final_step_def unique_runs_def finals_def row_def new_run_def)
    have "find_run ?t ?i = Some row"
    proof -
      have "find (\<lambda>r. wr_id r = ?i) (f_runs s) = None" using new by (auto simp: find_None_iff rev_image_eqI)
      then show ?thesis
        by (simp add: find_run_def row_def new_run_def find_append_None)
    qed
    then have "final_step ?t (snd (?rest (wk_config wk) ?t))"
      by (rule ends_final [OF rest]) (simp add: row_def new_run_def ended_def)
    with one have "final_step s (snd (?rest (wk_config wk) ?t))"
      by (rule final_step.R_trans)
    with Some show ?thesis
      by (simp add: startRun_def bind_gets idle_final row_def c_def seq_io_def [of "modify _"] bind_io_def [of "modify _"] modify_def)
  qed
qed

lemma run_job_final: "fresh_runs E \<Longrightarrow> keeps final_step (run_job E job)"
  by (cases job) (simp_all add: run_job_def startRun_final executeStep_final resumeRun_final timeout_final)

end
