(* ===== verification/Workflow_Triggers.thy ===== *)
theory Workflow_Triggers
  imports Workflow_Runs
begin

text \<open>
  What starts and resumes runs: the events of the application, the filters of a workflow's trigger
  (an active run, once per contact, the cooldown, the conditions, the data of the event), and the
  inbound messages that answer a question or press a button.
\<close>

section \<open>Triggers\<close>

definition once_blocked :: "wf \<Rightarrow> string \<Rightarrow> string \<Rightarrow> bool" where
  "once_blocked s workflowId contactId =
     list_ex (\<lambda>r. wr_workflowId r = workflowId \<and> wr_contactId r = contactId \<and>
        wr_status r \<in> {RunCompleted, RunRunning, RunWaiting}) (f_runs s)"

text \<open>A run that started within the cooldown; a cooldown that is no number makes the query fail.\<close>

definition cooling :: "wf_env \<Rightarrow> wf \<Rightarrow> string \<Rightarrow> string \<Rightarrow> jsv \<Rightarrow> exn + bool" where
  "cooling E s workflowId contactId hours =
     (case js_Number (we_js E) hours of
        Fin h \<Rightarrow> Inr (list_ex (\<lambda>r. wr_workflowId r = workflowId \<and> wr_contactId r = contactId \<and>
            of_int (we_now E s) - h * 3600000 \<le> of_int (wr_startedAt r)) (f_runs s))
      | _ \<Rightarrow> Inl PrismaValidation)"

definition trigger_contact :: "wf \<Rightarrow> wf_contact \<Rightarrow> jsobj" where
  "trigger_contact s k = o_set ''tags'' (contact_tags s (ct_id k)) (contact_object k)"

definition enqueue_trigger :: "wf_env \<Rightarrow> wf_row \<Rightarrow> string \<Rightarrow> string option \<Rightarrow> jsobj \<Rightarrow> unit wfd" where
  "enqueue_trigger E w contactId conversationId td =
     bind_io (wf_clock E) (\<lambda>now.
       job_add \<lparr>qd_job = JobTrigger (wk_workspaceId w) (wk_id w) contactId conversationId (json_obj (we_js E) td), qd_delay = Fin 0,
         qd_jobId = Some (''trigger-'' @ wk_id w @ ''-'' @ contactId @ ''-'' @ js_int_str now)\<rparr>)"

definition evaluateAndEnqueue :: "wf_env \<Rightarrow> wf_row \<Rightarrow> string \<Rightarrow> string option \<Rightarrow> jsobj \<Rightarrow> unit wfd" where
  "evaluateAndEnqueue E w contactId conversationId td =
     (let trigger = config_trigger (wk_config w); settings = v_fld trigger ''advancedSettings'' in
      bind_io (active_run E (wk_workspaceId w) contactId) (\<lambda>active.
      if map_option snd active = Some (wk_id w) then ret ()
      else bind_io (gets (\<lambda>s. v_truthy (v_fld settings ''triggerOncePerContact'') \<and> once_blocked s (wk_id w) contactId)) (\<lambda>once.
        if once then ret ()
        else bind_io (if v_truthy (v_fld settings ''cooldownHours'')
                      then bind_io (gets (\<lambda>s. cooling E s (wk_id w) contactId (v_fld settings ''cooldownHours''))) lift_sum
                      else ret False) (\<lambda>recent.
          if recent then ret ()
          else bind_io (gets (\<lambda>s. map_option (trigger_contact s) (find_contact s contactId))) (\<lambda>contact.
            case contact of
              None \<Rightarrow> ret ()
            | Some data \<Rightarrow>
                if \<not> evaluateConditions (we_js E) (v_arr (v_fld trigger ''conditions'')) data td then ret ()
                else if \<not> validateTriggerData trigger td then ret ()
                else enqueue_trigger E w contactId conversationId td)))))"

definition fires_on :: "string \<Rightarrow> string \<Rightarrow> wf_row \<Rightarrow> bool" where
  "fires_on workspaceId eventType w =
     (wk_workspaceId w = workspaceId \<and> wk_status w = ''published'' \<and> v_fld (config_trigger (wk_config w)) ''type'' = JStr eventType)"

definition trigger :: "wf_env \<Rightarrow> string \<Rightarrow> string \<Rightarrow> string \<Rightarrow> string option \<Rightarrow> jsobj \<Rightarrow> unit wfd" where
  "trigger E workspaceId eventType contactId conversationId td =
     bind_io (gets (\<lambda>s. filter (fires_on workspaceId eventType) (f_workflows s))) (\<lambda>workflows.
       for_io (\<lambda>w. catch_io (evaluateAndEnqueue E w contactId conversationId td) (\<lambda>_. ret ())) workflows)"

text \<open>The events of the application that the engine listens to.\<close>

datatype wf_event =
    TagUpdated string string "string list"
  | LifecycleUpdated jsv
  | FieldUpdated jsobj
  | Assigned "string option" "string option"
  | ConversationOpened string string string "string option"
  | ConversationClosed string string string "string option"
  | MetaAdClick "string option" jsobj
  | CommerceEvent string "string option" jsobj

definition onEvent :: "wf_env \<Rightarrow> string \<Rightarrow> string \<Rightarrow> wf_event \<Rightarrow> unit wfd" where
  "onEvent E workspaceId contactId ev =
     (case ev of
        TagUpdated action tagId tags \<Rightarrow>
          trigger E workspaceId ''contact_tag_updated'' contactId None
            [(''action'', JStr action), (''tagId'', JStr tagId), (''tags'', JArr (map JStr tags))]
      | LifecycleUpdated lifecycleId \<Rightarrow>
          trigger E workspaceId ''lifecycle_updated'' contactId None [(''lifecycleId'', lifecycleId)]
      | FieldUpdated changed \<Rightarrow>
          trigger E workspaceId ''contact_field_updated'' contactId None [(''fields'', JObj changed)]
      | Assigned assigneeId teamId \<Rightarrow>
          trigger E workspaceId ''contact_assigned'' contactId None [(''assigneeId'', j_opt assigneeId), (''teamId'', j_opt teamId)]
      | ConversationOpened conv source channel channelId \<Rightarrow>
          trigger E workspaceId ''conversation_opened'' contactId (Some conv)
            [(''source'', JStr source), (''channel'', JStr channel), (''channelId'', j_undef channelId)]
      | ConversationClosed conv source channel channelId \<Rightarrow>
          trigger E workspaceId ''conversation_closed'' contactId (Some conv)
            [(''source'', JStr source), (''channel'', JStr channel), (''channelId'', j_undef channelId)]
      | MetaAdClick conv td \<Rightarrow> trigger E workspaceId ''meta_ad_click'' contactId conv td
      | CommerceEvent eventType conv td \<Rightarrow> trigger E workspaceId eventType contactId conv td)"

section \<open>Inbound messages\<close>

definition resolveInboundButtonReply :: "jsv \<Rightarrow> jsv \<times> jsv \<times> jsv" where
  "resolveInboundButtonReply message =
     (let metadata = v_fld message ''metadata''; reply = v_fld metadata ''interactiveReply''; button = v_fld metadata ''buttonReply'';
          title = (if is_str (v_fld reply ''title'') then v_fld reply ''title''
                   else if is_str (v_fld button ''text'') then v_fld button ''text'' else JUndef);
          i = (if is_str (v_fld reply ''id'') then v_fld reply ''id''
               else if is_str (v_fld button ''payload'') then v_fld button ''payload'' else JUndef)
      in (if is_str (v_fld message ''text'') then v_fld message ''text'' else v_or title (v_or i (JStr [])), title, i))"

definition onInboundMessage :: "wf_env \<Rightarrow> string \<Rightarrow> string \<Rightarrow> jsv \<Rightarrow> unit wfd" where
  "onInboundMessage E workspaceId conversationId message =
     (if v_fld message ''direction'' \<noteq> JStr ''incoming'' then ret ()
      else bind_io (gets (\<lambda>s. find (\<lambda>v. cv_id v = conversationId) (f_convs s))) (\<lambda>conv.
        case conv of
          None \<Rightarrow> ret ()
        | Some v \<Rightarrow>
            bind_io (active_run E workspaceId (cv_contactId v)) (\<lambda>active.
            case active of
              None \<Rightarrow> ret ()
            | Some (runId, _) \<Rightarrow>
                bind_io (gets (\<lambda>s. case find_run s runId of None \<Rightarrow> None
                    | Some run \<Rightarrow> if wr_status run \<noteq> RunWaiting then None
                        else map_option (\<lambda>w. (wr_currentStepId run, wk_config w)) (find_workflow s (wr_workflowId run)))) (\<lambda>waiting.
                case waiting of None \<Rightarrow> ret () | Some (stepId, config) \<Rightarrow>
                seq_io (need config)
                (case find (\<lambda>k. Some (st_id k) = stepId) (config_steps config) of
                  None \<Rightarrow> ret ()
                | Some k \<Rightarrow>
                    if st_type k = ''send_message'' \<and> v_truthy (v_fld (st_data k) ''templateButtonBranching'') then
                      (case resolveInboundButtonReply message of (body, title, i) \<Rightarrow>
                        job_add (plain_job (JobResume runId (json_obj (we_js E)
                          [(''templateButtonReply'', body), (''templateButtonReplyTitle'', title), (''templateButtonReplyId'', i),
                           (''templateButtonReplyMessageId'', v_fld message ''id''), (''templateButtonReplyStepId'', JStr (st_id k))]))))
                    else if st_type k \<noteq> ''ask_question'' then ret ()
                    else job_add (plain_job (JobResume runId (json_obj (we_js E)
                      [(''lastAnswer'', v_or (v_fld message ''text'') (JStr [])), (''lastAnswerMessageId'', v_fld message ''id'')]))))))))"

section \<open>Triggers only add jobs\<close>

text \<open>
  The specification of a trigger: the contact exists, no run of the workflow is active for it, and
  the settings, conditions and filters hold. An evaluation queues exactly one start then, unless the
  queue already has a job of that id, and changes nothing otherwise.
\<close>

definition may_start :: "wf_env \<Rightarrow> wf_row \<Rightarrow> string \<Rightarrow> jsobj \<Rightarrow> wf \<Rightarrow> bool" where
  "may_start E w contactId td s \<longleftrightarrow>
     (let trigger = config_trigger (wk_config w); settings = v_fld trigger ''advancedSettings''; hours = v_fld settings ''cooldownHours'' in
      (\<forall>r. ttl_get (we_now E s) (f_active s (wk_workspaceId w, contactId)) \<noteq> Some (r, wk_id w)) \<and>
      (v_truthy (v_fld settings ''triggerOncePerContact'') \<longrightarrow>
        (\<forall>r \<in> set (f_runs s). wr_workflowId r = wk_id w \<and> wr_contactId r = contactId \<longrightarrow> wr_status r \<in> {RunFailed, RunCancelled})) \<and>
      (v_truthy hours \<longrightarrow> (\<exists>h. js_Number (we_js E) hours = Fin h \<and>
        (\<forall>r \<in> set (f_runs s). wr_workflowId r = wk_id w \<and> wr_contactId r = contactId \<longrightarrow>
           of_int (wr_startedAt r) < of_int (we_now E s) - h * 3600000))) \<and>
      (\<exists>k. find_contact s contactId = Some k \<and>
        evaluateConditions (we_js E) (v_arr (v_fld trigger ''conditions'')) (trigger_contact s k) td) \<and>
      validateTriggerData trigger td)"

lemma once_blocked_iff:
  "once_blocked s w k \<longleftrightarrow> \<not> (\<forall>r \<in> set (f_runs s). wr_workflowId r = w \<and> wr_contactId r = k \<longrightarrow> wr_status r \<in> {RunFailed, RunCancelled})"
proof -
  have "st \<in> {RunCompleted, RunRunning, RunWaiting} \<longleftrightarrow> st \<notin> {RunFailed, RunCancelled}" for st by (cases st) auto
  then show ?thesis by (auto simp: once_blocked_def list_ex_iff)
qed

lemma cooling_iff:
  "cooling E s w k hours = Inr False \<longleftrightarrow> (\<exists>h. js_Number (we_js E) hours = Fin h \<and>
     (\<forall>r \<in> set (f_runs s). wr_workflowId r = w \<and> wr_contactId r = k \<longrightarrow> of_int (wr_startedAt r) < of_int (we_now E s) - h * 3600000))"
  by (cases "js_Number (we_js E) hours") (auto simp: cooling_def list_ex_iff not_le)


end
