(* ===== verification/Workflow_Service.thy ===== *)
theory Workflow_Service
  imports Workflow_Triggers
begin

text \<open>
  The operations of \<^verbatim>\<open>src/src/modules/workflows/workflows.service.ts\<close> that change stored workflows.
\<close>

section \<open>Changing workflows\<close>

text \<open>The name, the description and the configuration of a request body.\<close>

record wf_dto =
  wd_name :: jsv
  wd_description :: jsv
  wd_config :: jsv

definition validateWorkflow :: "bool \<Rightarrow> wf_dto \<Rightarrow> exn + unit" where
  "validateWorkflow requireName dto =
     (if requireName \<and> \<not> nonempty_str (wd_name dto) then Inl (BadRequestException ''Workflow name is required'')
      else if \<not> requireName \<and> wd_name dto \<noteq> JUndef \<and> \<not> nonempty_str (wd_name dto) then
        Inl (BadRequestException ''Workflow name is required'')
      else validateWorkflowConfig (wd_config dto))"

definition getRequiredString :: "jsv \<Rightarrow> string \<Rightarrow> exn + string" where
  "getRequiredString v message = (if nonempty_str v then Inr (v_str v) else Inl (BadRequestException message))"

text \<open>A configuration that is a plain null may be rejected by the client.\<close>

definition json_column :: "wf_env \<Rightarrow> jsv \<Rightarrow> unit wfd" where
  "json_column E v = (if v = JNull \<and> \<not> we_nullJson E then throw PrismaValidation else ret ())"

definition workflow_create :: "wf_env \<Rightarrow> wf_row \<Rightarrow> wf_row wfd" where
  "workflow_create E row =
     seq_io (json_column E (wk_config row))
     (bind_io (gets (we_newid E)) (\<lambda>i. let w = row\<lparr>wk_id := i\<rparr> in
       seq_io (modify (\<lambda>s. s\<lparr>f_workflows := f_workflows s @ [w]\<rparr>)) (ret w)))"

definition new_workflow :: "string \<Rightarrow> string \<Rightarrow> string \<Rightarrow> string option \<Rightarrow> jsv \<Rightarrow> wf_row" where
  "new_workflow workspaceId userId name description config =
     \<lparr>wk_id = [], wk_workspaceId = workspaceId, wk_name = name, wk_description = description, wk_createBy = userId,
      wk_publishedAt = None, wk_publishedBy = None, wk_config = config, wk_status = ''draft''\<rparr>"

definition create :: "wf_env \<Rightarrow> string \<Rightarrow> wf_dto \<Rightarrow> string \<Rightarrow> wf_row wfd" where
  "create E workspaceId dto userId =
     seq_io (lift_sum (validateWorkflow True dto))
     (bind_io (lift_sum (getRequiredString (wd_name dto) ''Workflow name is required'')) (\<lambda>name.
      workflow_create E (new_workflow workspaceId userId name
        (if is_str (wd_description dto) then Some (v_str (wd_description dto)) else None)
        (if wd_config dto = JUndef then JNull else wd_config dto))))"

definition workflow_update :: "string \<Rightarrow> (wf_row \<Rightarrow> wf_row) \<Rightarrow> unit wfd" where
  "workflow_update i = wf_update f_workflows (\<lambda>x. f_workflows_update (\<lambda>_. x)) (\<lambda>w. wk_id w = i)"

definition get_workflow :: "string \<Rightarrow> string \<Rightarrow> wf_row wfd" where
  "get_workflow workspaceId i =
     bind_io (gets (find_for i workspaceId)) (\<lambda>found.
       case found of None \<Rightarrow> throw (NotFoundException ''Workflow not found'') | Some w \<Rightarrow> ret w)"

definition updated_row :: "wf_dto \<Rightarrow> wf_row \<Rightarrow> wf_row" where
  "updated_row dto w =
     w\<lparr>wk_config := (if wd_config dto = JUndef then wk_config w else wd_config dto),
       wk_name := (if wd_name dto = JUndef then wk_name w else v_str (wd_name dto)),
       wk_description := (if wd_description dto = JUndef then wk_description w
          else if nonempty_str (wd_description dto) then Some (js_trim (v_str (wd_description dto))) else None)\<rparr>"

definition update :: "wf_env \<Rightarrow> string \<Rightarrow> string \<Rightarrow> wf_dto \<Rightarrow> unit wfd" where
  "update E workspaceId i dto =
     seq_io (get_workflow workspaceId i)
     (seq_io (lift_sum (validateWorkflow False dto))
     (seq_io (json_column E (wd_config dto))
       (workflow_update i (updated_row dto))))"

text \<open>A name that is missing leaves the column as it is; one that is no string is rejected.\<close>

definition rename :: "string \<Rightarrow> string \<Rightarrow> jsv \<Rightarrow> unit wfd" where
  "rename workspaceId i name =
     seq_io (get_workflow workspaceId i)
       (case name of
          JUndef \<Rightarrow> workflow_update i (\<lambda>w. w)
        | JStr n \<Rightarrow> workflow_update i (\<lambda>w. w\<lparr>wk_name := n\<rparr>)
        | _ \<Rightarrow> throw PrismaValidation)"

definition publish :: "wf_env \<Rightarrow> string \<Rightarrow> string \<Rightarrow> string \<Rightarrow> unit wfd" where
  "publish E workspaceId i userId =
     bind_io (get_workflow workspaceId i) (\<lambda>w.
     seq_io (lift_sum (validateWorkflow False \<lparr>wd_name = JUndef, wd_description = JUndef, wd_config = wk_config w\<rparr>))
     (seq_io (if \<not> isRecord (wk_config w) then ret ()
        else bind_io (gets (\<lambda>s. map snd (filter (\<lambda>p. fst p = workspaceId) (f_channels s)))) (\<lambda>channels.
          lift_sum (assertWorkflowDeliveryForPublish (wk_config w) channels)))
     (bind_io (wf_clock E) (\<lambda>now.
       workflow_update i (\<lambda>x. x\<lparr>wk_status := ''published'', wk_publishedAt := Some now, wk_publishedBy := Some userId\<rparr>)))))"

definition stop :: "string \<Rightarrow> string \<Rightarrow> unit wfd" where
  "stop workspaceId i = workflow_update i (\<lambda>w. w\<lparr>wk_status := ''stopped''\<rparr>)"

definition clone :: "wf_env \<Rightarrow> string \<Rightarrow> string \<Rightarrow> jsv \<Rightarrow> string \<Rightarrow> wf_row wfd" where
  "clone E workspaceId i name userId =
     bind_io (get_workflow workspaceId i) (\<lambda>w.
       let n = truthy_or name (JStr (wk_name w @ '' (Clone)'')) in
       if is_str n then workflow_create E (new_workflow workspaceId userId (v_str n) None (wk_config w))
       else throw PrismaValidation)"

text \<open>The runs and their steps go with the workflow.\<close>

definition delete :: "string \<Rightarrow> string \<Rightarrow> unit wfd" where
  "delete workspaceId i =
     seq_io (get_workflow workspaceId i)
       (modify (\<lambda>s. s\<lparr>f_workflows := filter (\<lambda>w. wk_id w \<noteq> i) (f_workflows s),
          f_runs := filter (\<lambda>r. wr_workflowId r \<noteq> i) (f_runs s),
          f_runSteps := filter (\<lambda>x. ws_runId x \<notin> wr_id ` set (filter (\<lambda>r. wr_workflowId r = i) (f_runs s))) (f_runSteps s)\<rparr>))"

end
