(* ===== verification/Workflow_Pages.thy ===== *)
theory Workflow_Pages
  imports Workflow_Service "HOL-Library.AList"
begin

text \<open>
  The reading side of \<^verbatim>\<open>src/src/modules/workflows/workflows.service.ts\<close>: the list of workflows, the list
  and the page of runs, the summary, the progress of a run and the masking of the values shown.
  Percentages are rounded as exact fractions. The engine never writes the column
  \<^verbatim>\<open>variables\<close> of a run, which keeps its default, the empty object.
\<close>

section \<open>The list of workflows\<close>

definition contains_insensitive :: "string \<Rightarrow> string \<Rightarrow> bool" where
  "contains_insensitive t term = js_includes (js_lower t) (js_lower term)"

definition listed :: "string \<Rightarrow> string option \<Rightarrow> string option \<Rightarrow> wf_row \<Rightarrow> bool" where
  "listed workspaceId status search w =
     (wk_workspaceId w = workspaceId \<and>
      (js_truthy status \<and> status \<noteq> Some ''all'' \<longrightarrow> wk_status w = the status) \<and>
      (let term = js_trim (js_default search []) in
       term \<noteq> [] \<longrightarrow> contains_insensitive (wk_name w) term \<or>
         (case wk_description w of None \<Rightarrow> False | Some d \<Rightarrow> contains_insensitive d term)))"

record page_info =
  pg_total :: nat
  pg_page :: int
  pg_limit :: int
  pg_totalPages :: int
  pg_hasNextPage :: bool
  pg_hasPrevPage :: bool

definition clamp_page :: "int option \<Rightarrow> int" where
  "clamp_page page = max 1 (js_default page 1)"

definition clamp_limit :: "int option \<Rightarrow> int \<Rightarrow> int \<Rightarrow> int" where
  "clamp_limit limit d most = min (max 1 (js_default limit d)) most"

definition page_of :: "int \<Rightarrow> int \<Rightarrow> 'a list \<Rightarrow> 'a list \<times> page_info" where
  "page_of page limit rows =
     (take (nat limit) (drop (nat ((page - 1) * limit)) rows),
      \<lparr>pg_total = length rows, pg_page = page, pg_limit = limit,
       pg_totalPages = (int (length rows) + limit - 1) div limit,
       pg_hasNextPage = page * limit < int (length rows), pg_hasPrevPage = 1 < page\<rparr>)"

text \<open>Workflows in the order of creation, newest first; paging only when one of the two is given.\<close>

definition list_workflows :: "string \<Rightarrow> string option \<Rightarrow> string option \<Rightarrow> int option \<Rightarrow> int option \<Rightarrow> (wf_row list \<times> page_info option) wfd" where
  "list_workflows workspaceId status search page limit =
     gets (\<lambda>s. let rows = rev (filter (listed workspaceId status search) (f_workflows s)) in
       if page = None \<and> limit = None then (rows, None)
       else case page_of (clamp_page page) (clamp_limit limit 10 100) rows of (items, info) \<Rightarrow> (items, Some info))"

definition isSensitiveAiBuilderKey :: "string \<Rightarrow> bool" where
  "isSensitiveAiBuilderKey key =
     (let normalized = js_lower key in
      list_ex (js_includes normalized) [''secret'', ''token'', ''password'', ''apikey'', ''api_key'', ''cookie'', ''authorization''])"

section \<open>The pages of runs\<close>

function sanitizeWorkflowRunValue :: "nat \<Rightarrow> jsv \<Rightarrow> jsv" where
  "sanitizeWorkflowRunValue depth v =
     (if 4 < depth then JStr ''[omitted]''
      else case v of
        JUndef \<Rightarrow> JNull
      | JNull \<Rightarrow> JNull
      | JStr t \<Rightarrow> JStr (if 800 < length t then take 800 t @ ''...'' else t)
      | JNum n \<Rightarrow> JNum n
      | JBool b \<Rightarrow> JBool b
      | JDate d \<Rightarrow> JObj []
      | JArr xs \<Rightarrow> JArr (map (sanitizeWorkflowRunValue (Suc depth)) (take 30 xs))
      | JObj ob \<Rightarrow> JObj (map (\<lambda>p. (fst p, if isSensitiveAiBuilderKey (fst p) then JStr ''[redacted]''
                    else sanitizeWorkflowRunValue (Suc depth) (snd p))) (take 50 ob)))"
  by pat_completeness auto
termination by (relation "measure (\<lambda>(depth, v). 5 - depth)") auto

declare sanitizeWorkflowRunValue.simps [simp del]

record run_summary =
  su_total :: nat
  su_running :: nat
  su_waiting :: nat
  su_completed :: nat
  su_failed :: nat
  su_cancelled :: nat
  su_active :: nat
  su_attention :: nat
  su_successRate :: "int option"

definition count_status :: "wf_run list \<Rightarrow> run_status \<Rightarrow> nat" where
  "count_status runs st = length (filter (\<lambda>r. wr_status r = st) runs)"

text \<open>\<^verbatim>\<open>Math.round(x)\<close> is \<open>\<lfloor>x + 1/2\<rfloor>\<close>.\<close>

definition buildWorkflowRunSummary :: "wf_run list \<Rightarrow> run_summary" where
  "buildWorkflowRunSummary runs =
     (let n = count_status runs; good = n RunCompleted; bad = n RunFailed in
      \<lparr>su_total = n RunRunning + n RunWaiting + good + bad + n RunCancelled, su_running = n RunRunning, su_waiting = n RunWaiting,
       su_completed = good, su_failed = bad, su_cancelled = n RunCancelled, su_active = n RunRunning + n RunWaiting,
       su_attention = bad + n RunWaiting,
       su_successRate = (if 0 < good + bad then Some \<lfloor>of_nat good / of_nat (good + bad) * 100 + (1 / 2 :: rat)\<rfloor> else None)\<rparr>)"


definition hex_digit :: "char \<Rightarrow> bool" where
  "hex_digit c = (digit_in 16 c \<noteq> None)"

text \<open>The pattern of a UUID: groups of 8, 4, 4, 4 and 12 hexadecimal digits, a version of 1 to 5, a variant of 8, 9, a or b.\<close>

definition UUID_RE :: "string \<Rightarrow> bool" where
  "UUID_RE v =
     (let gs = js_split (CHR ''-'') v in
      map length gs = [8, 4, 4, 4, 12] \<and> list_all (list_all hex_digit) gs \<and>
      hd (gs ! 2) \<in> set ''12345'' \<and> js_lower_char (hd (gs ! 3)) \<in> set ''89ab'')"

definition normalizeWorkflowRunStatus :: "string option \<Rightarrow> exn + run_status option" where
  "normalizeWorkflowRunStatus status =
     (if \<not> js_truthy status \<or> status = Some ''all'' then Inr None
      else case map_of [(''running'', RunRunning), (''waiting'', RunWaiting), (''completed'', RunCompleted),
             (''failed'', RunFailed), (''cancelled'', RunCancelled)] (js_lower (js_trim (the status))) of
        None \<Rightarrow> Inl (BadRequestException ''Unsupported workflow run status'')
      | Some st \<Rightarrow> Inr (Some st))"

definition normalizeOptionalUuid :: "string option \<Rightarrow> string \<Rightarrow> exn + string option" where
  "normalizeOptionalUuid value label =
     (if \<not> js_truthy value then Inr None
      else if \<not> UUID_RE (js_trim (the value)) then Inl (BadRequestException (label @ '' must be a valid UUID''))
      else Inr (Some (js_trim (the value))))"

definition col_contains :: "string \<Rightarrow> jsv \<Rightarrow> bool" where
  "col_contains term v = (is_str v \<and> contains_insensitive (v_str v) term)"

definition findWorkflowRunContactSearchIds :: "wf \<Rightarrow> string \<Rightarrow> string \<Rightarrow> string list" where
  "findWorkflowRunContactSearchIds s workspaceId search =
     (let term = js_trim search in
      if term = [] then []
      else map ct_id (take 100 (filter (\<lambda>k. ct_workspaceId k = workspaceId \<and>
        list_ex (\<lambda>col. col_contains term (o_get (ct_cols k) col)) [''firstName'', ''lastName'', ''email'', ''phone'', ''company''])
        (f_contacts s))))"

definition buildWorkflowRunWhere :: "wf \<Rightarrow> string \<Rightarrow> string option \<Rightarrow> run_status option \<Rightarrow> string option \<Rightarrow> string list \<Rightarrow> wf_run \<Rightarrow> bool" where
  "buildWorkflowRunWhere s workspaceId workflowId status search contactIds r =
     (wr_workspaceId r = workspaceId \<and>
      (js_truthy workflowId \<longrightarrow> Some (wr_workflowId r) = workflowId) \<and>
      (case status of None \<Rightarrow> True | Some st \<Rightarrow> wr_status r = st) \<and>
      (let term = js_trim (js_default search []) in
       term = [] \<or>
       (case find_workflow s (wr_workflowId r) of None \<Rightarrow> False | Some w \<Rightarrow> contains_insensitive (wk_name w) term) \<or>
       (case wr_error r of None \<Rightarrow> False | Some e \<Rightarrow> contains_insensitive e term) \<or>
       (UUID_RE term \<and> term \<in> {wr_id r, wr_workflowId r, wr_contactId r}) \<or>
       wr_contactId r \<in> set contactIds))"

definition word_char :: "char \<Rightarrow> bool" where
  "word_char c = (let n = (of_char c :: nat) in
     (48 \<le> n \<and> n \<le> 57) \<or> (65 \<le> n \<and> n \<le> 90) \<or> (97 \<le> n \<and> n \<le> 122) \<or> c = CHR ''_'')"

fun separators_to_space :: "bool \<Rightarrow> string \<Rightarrow> string" where
  "separators_to_space inside [] = []"
| "separators_to_space inside (c # cs) =
     (if c \<in> set ''._-'' then (if inside then separators_to_space True cs else CHR '' '' # separators_to_space True cs)
      else c # separators_to_space False cs)"

fun capitalize_words :: "bool \<Rightarrow> string \<Rightarrow> string" where
  "capitalize_words inside [] = []"
| "capitalize_words inside (c # cs) =
     (if word_char c \<and> \<not> inside then js_upper_char c else c) # capitalize_words (word_char c) cs"

definition humanizeStepType :: "string \<Rightarrow> string" where
  "humanizeStepType value =
     capitalize_words False (js_trim (squeeze_spaces False (separators_to_space False value)))"

record step_metadata =
  sm_type :: string
  sm_name :: string

text \<open>The last step with an id wins.\<close>

definition getWorkflowStepMetadata :: "jsv \<Rightarrow> (string \<times> step_metadata) list" where
  "getWorkflowStepMetadata config =
     (if \<not> isRecord config \<or> \<not> is_arr (v_fld config ''steps'') then []
      else fold (\<lambda>st m. AList.update (v_str (v_fld st ''id''))
              \<lparr>sm_type = v_str (v_fld st ''type''),
               sm_name = (if nonempty_str (v_fld st ''name'') then v_str (v_fld st ''name'')
                          else humanizeStepType (v_str (v_fld st ''type'')))\<rparr> m)
            (filter (\<lambda>st. isRecord st \<and> nonempty_str (v_fld st ''id'') \<and> nonempty_str (v_fld st ''type''))
              (v_arr (v_fld config ''steps''))) [])"

record run_trigger =
  rg_type :: string
  rg_label :: string
  rg_event :: string
  rg_reference :: "string option"

fun first_some :: "'a option list \<Rightarrow> 'a option" where
  "first_some [] = None"
| "first_some (x # xs) = (case x of None \<Rightarrow> first_some xs | Some v \<Rightarrow> Some v)"

definition describeWorkflowRunTrigger :: "jsv \<Rightarrow> jsobj \<Rightarrow> run_trigger" where
  "describeWorkflowRunTrigger config data =
     (let ty = v_fld (v_fld config ''trigger'') ''type'';
          triggerType = (if isRecord config \<and> isRecord (v_fld config ''trigger'') \<and> is_str ty then v_str ty else ''workflow'');
          get = (\<lambda>k. trimmed (o_get data k))
      in \<lparr>rg_type = triggerType, rg_label = humanizeStepType triggerType,
          rg_event = js_default (first_some (map get [''topic'', ''event'', ''type''])) (humanizeStepType triggerType),
          rg_reference = map_option (take 120)
            (first_some (map get [''name'', ''orderName'', ''orderId'', ''externalOrderId'', ''messageText'']))\<rparr>)"

record step_event =
  se_stepId :: string
  se_name :: string
  se_type :: string
  se_status :: run_step_status
  se_attempts :: nat
  se_durationMs :: int
  se_error :: "string option"
  se_input :: "jsv option"
  se_output :: "jsv option"

definition getStepDurationMs :: "int \<Rightarrow> int \<Rightarrow> int option \<Rightarrow> int" where
  "getStepDurationMs now startedAt completedAt = max 0 (js_default completedAt now - startedAt)"

definition getWorkflowRunDurationMs :: "int \<Rightarrow> wf_run \<Rightarrow> int" where
  "getWorkflowRunDurationMs now r =
     max 0 (js_default (js_nullish (wr_completedAt r) (wr_failedAt r)) now - wr_startedAt r)"

definition toWorkflowRunStepDto :: "int \<Rightarrow> (string \<times> step_metadata) list \<Rightarrow> bool \<Rightarrow> wf_run_step \<Rightarrow> step_event" where
  "toWorkflowRunStepDto now metadata detail x =
     (let m = map_of metadata (ws_stepId x) in
      \<lparr>se_stepId = ws_stepId x, se_name = (case m of None \<Rightarrow> humanizeStepType (ws_stepType x) | Some d \<Rightarrow> sm_name d),
       se_type = (case m of None \<Rightarrow> ws_stepType x | Some d \<Rightarrow> sm_type d), se_status = ws_status x, se_attempts = ws_attempts x,
       se_durationMs = getStepDurationMs now (ws_startedAt x) (ws_completedAt x), se_error = ws_error x,
       se_input = (if detail then Some (sanitizeWorkflowRunValue 0 (ws_input x)) else None),
       se_output = (if detail then Some (sanitizeWorkflowRunValue 0 (ws_output x)) else None)\<rparr>)"

record run_progress =
  pr_completed :: nat
  pr_failed :: nat
  pr_running :: nat
  pr_pending :: nat
  pr_total :: nat
  pr_percent :: int

definition run_progress_of :: "(string \<times> step_metadata) list \<Rightarrow> step_event list \<Rightarrow> run_progress" where
  "run_progress_of metadata events =
     (let shown = filter (\<lambda>x. se_type x \<noteq> ''branch_connector'') events;
          total = max 1 (length (filter (\<lambda>p. sm_type (snd p) \<noteq> ''branch_connector'') metadata));
          completed = length (remdups (map se_stepId (filter (\<lambda>x. se_status x = StepCompleted) shown)));
          failed = length (filter (\<lambda>x. se_status x = StepFailed) shown);
          running = length (filter (\<lambda>x. se_status x = StepRunning) shown);
          executed = min total (completed + failed + running)
      in \<lparr>pr_completed = completed, pr_failed = failed, pr_running = running, pr_pending = total - executed, pr_total = total,
          pr_percent = min 100 \<lfloor>of_nat executed / of_nat total * 100 + (1 / 2 :: rat)\<rfloor>\<rparr>)"

definition formatRunContactName :: "wf_contact option \<Rightarrow> string" where
  "formatRunContactName contact =
     (case contact of
        None \<Rightarrow> ''Unknown contact''
      | Some k \<Rightarrow> js_or_str (Some (js_trim (js_join '' '' (map v_str (filter v_truthy
          [o_get (ct_cols k) ''firstName'', o_get (ct_cols k) ''lastName'']))))) ''Unnamed contact'')"

record run_dto =
  rd_run :: wf_run
  rd_workflowName :: string
  rd_workflowStatus :: string
  rd_contactName :: string
  rd_currentStep :: "step_metadata option"
  rd_trigger :: run_trigger
  rd_durationMs :: int
  rd_progress :: run_progress
  rd_stepTrail :: "step_event list"
  rd_steps :: "step_event list option"
  rd_triggerData :: "jsv option"
  rd_variables :: "jsv option"

definition event_metadata :: "step_event \<Rightarrow> step_metadata" where
  "event_metadata x = \<lparr>sm_type = se_type x, sm_name = se_name x\<rparr>"

definition current_metadata :: "(string \<times> step_metadata) list \<Rightarrow> step_event list \<Rightarrow> wf_run \<Rightarrow> step_metadata option" where
  "current_metadata metadata events r =
     js_nullish (if js_truthy (wr_currentStepId r) then map_of metadata (the (wr_currentStepId r)) else None)
       (map_option event_metadata (find (\<lambda>x. se_type x \<noteq> ''branch_connector'') (rev events)))"

definition toWorkflowRunDto :: "int \<Rightarrow> wf_row \<Rightarrow> wf_run_step list \<Rightarrow> wf_contact option \<Rightarrow> bool \<Rightarrow> wf_run \<Rightarrow> run_dto" where
  "toWorkflowRunDto now w steps contact detail r =
     (let metadata = getWorkflowStepMetadata (wk_config w); events = map (toWorkflowRunStepDto now metadata detail) steps in
      \<lparr>rd_run = r, rd_workflowName = wk_name w, rd_workflowStatus = wk_status w, rd_contactName = formatRunContactName contact,
       rd_currentStep = current_metadata metadata events r, rd_trigger = describeWorkflowRunTrigger (wk_config w) (wr_triggerData r),
       rd_durationMs = getWorkflowRunDurationMs now r, rd_progress = run_progress_of metadata events,
       rd_stepTrail = take_last 6 events, rd_steps = (if detail then Some events else None),
       rd_triggerData = (if detail then Some (sanitizeWorkflowRunValue 0 (JObj (wr_triggerData r))) else None),
       rd_variables = (if detail then Some (sanitizeWorkflowRunValue 0 (JObj [])) else None)\<rparr>)"

text \<open>Steps by their start, then by their completion; an open step comes last.\<close>

definition run_steps_of :: "wf \<Rightarrow> string \<Rightarrow> wf_run_step list" where
  "run_steps_of s runId =
     (let xs = filter (\<lambda>x. ws_runId x = runId) (f_runSteps s) in
      sort_key ws_startedAt (sort_key (\<lambda>x. the (ws_completedAt x)) (filter (\<lambda>x. ws_completedAt x \<noteq> None) xs)
        @ filter (\<lambda>x. ws_completedAt x = None) xs))"

definition run_dto_of :: "wf_env \<Rightarrow> wf \<Rightarrow> string \<Rightarrow> bool \<Rightarrow> wf_run \<Rightarrow> run_dto option" where
  "run_dto_of E s workspaceId detail r =
     map_option (\<lambda>w. toWorkflowRunDto (we_now E s) w (run_steps_of s (wr_id r))
         (find (\<lambda>k. ct_workspaceId k = workspaceId \<and> ct_id k = wr_contactId r) (f_contacts s)) detail r)
       (find_workflow s (wr_workflowId r))"

definition listRuns :: "wf_env \<Rightarrow> string \<Rightarrow> string option \<Rightarrow> string option \<Rightarrow> string option \<Rightarrow> int option \<Rightarrow> int option
    \<Rightarrow> (run_dto list \<times> run_summary \<times> page_info) wfd" where
  "listRuns E workspaceId workflowId status search page limit =
     bind_io (lift_sum (normalizeWorkflowRunStatus status)) (\<lambda>st.
     bind_io (lift_sum (normalizeOptionalUuid workflowId ''Workflow ID'')) (\<lambda>w.
     gets (\<lambda>s. let term = map_option js_trim search;
                  ids = (if js_truthy term then findWorkflowRunContactSearchIds s workspaceId (the term) else []);
                  found = (\<lambda>x. filter (buildWorkflowRunWhere s workspaceId w x term ids) (f_runs s))
              in case page_of (clamp_page page) (clamp_limit limit 12 50) (rev (sort_key wr_startedAt (found st))) of
                   (rows, info) \<Rightarrow> (List.map_filter (run_dto_of E s workspaceId False) rows,
                     buildWorkflowRunSummary (found None), info))))"

definition getRun :: "wf_env \<Rightarrow> string \<Rightarrow> string option \<Rightarrow> run_dto wfd" where
  "getRun E workspaceId runId =
     bind_io (lift_sum (normalizeOptionalUuid runId ''Run ID'')) (\<lambda>i.
     case i of
       None \<Rightarrow> throw (BadRequestException ''Run ID is required'')
     | Some k \<Rightarrow>
         bind_io (gets (\<lambda>s. case find (\<lambda>r. wr_id r = k \<and> wr_workspaceId r = workspaceId) (f_runs s) of
             None \<Rightarrow> None | Some r \<Rightarrow> run_dto_of E s workspaceId True r)) (\<lambda>found.
           case found of None \<Rightarrow> throw (NotFoundException ''Workflow run not found'') | Some d \<Rightarrow> ret d))"

section \<open>What a run page shows\<close>

text \<open>
  A masked value has no sensitive key with its value, no string, array or object beyond the limits
  and no value nested more than \<open>n\<close> deep.
\<close>

fun masked :: "nat \<Rightarrow> jsv \<Rightarrow> bool" where
  "masked n (JStr t) = (length t \<le> 803)"
| "masked n (JArr xs) = (length xs \<le> 30 \<and> 0 < n \<and> list_all (masked (n - 1)) xs)"
| "masked n (JObj ob) = (length ob \<le> 50 \<and> list_all (\<lambda>p. if isSensitiveAiBuilderKey (fst p) then snd p = JStr ''[redacted]''
      else 0 < n \<and> masked (n - 1) (snd p)) ob)"
| "masked n v = True"

lemma sanitize_masks: "depth \<le> 5 \<Longrightarrow> masked (5 - depth) (sanitizeWorkflowRunValue depth v)"
proof (induction depth v rule: sanitizeWorkflowRunValue.induct)
  case (1 depth v)
  show ?case
  proof (cases "4 < depth")
    case True
    then show ?thesis by (simp add: sanitizeWorkflowRunValue.simps)
  next
    case False
    have less: "5 - depth - Suc 0 = 5 - Suc depth" "0 < 5 - depth" using False by auto
    show ?thesis
    proof (cases v)
      case (JArr xs)
      have "masked (5 - Suc depth) (sanitizeWorkflowRunValue (Suc depth) x)" if "x \<in> set (take 30 xs)" for x
        using "1.IH"(1) [OF False JArr that] False by simp
      with False JArr less show ?thesis
        by (auto simp: sanitizeWorkflowRunValue.simps [of depth] list_all_iff)
    next
      case (JObj ob)
      have "masked (5 - Suc depth) (sanitizeWorkflowRunValue (Suc depth) (snd p))"
        if "p \<in> set (take 50 ob)" "\<not> isSensitiveAiBuilderKey (fst p)" for p
        using "1.IH"(2) [OF False JObj that] False by simp
      with False JObj less show ?thesis
        by (auto simp: sanitizeWorkflowRunValue.simps [of depth] list_all_iff)
    qed (use False in \<open>simp_all add: sanitizeWorkflowRunValue.simps [of depth]\<close>)
  qed
qed

lemma progress_bounds:
  "let p = run_progress_of metadata events in
   0 \<le> pr_percent p \<and> pr_percent p \<le> 100 \<and> pr_pending p \<le> pr_total p \<and> 0 < pr_total p"
  by (simp add: run_progress_of_def Let_def)

lemma find_some_where: "find P xs = Some x \<Longrightarrow> P x \<and> x \<in> set xs"
  by (auto simp: find_Some_iff)

text \<open>
  The page of a run shows only a run of the caller's workspace and changes nothing. In its
  trigger data, its variables and the inputs and outputs of its steps the value of every key that
  names a secret is masked and the size is bounded, and its progress is a percentage.
\<close>

theorem run_page_masked:
  "case getRun E workspaceId runId s of (res, t) \<Rightarrow> t = s \<and>
     (case res of
        Inl e \<Rightarrow> True
      | Inr d \<Rightarrow> rd_run d \<in> set (f_runs s) \<and> wr_workspaceId (rd_run d) = workspaceId \<and>
          (\<exists>td vs xs. rd_triggerData d = Some td \<and> rd_variables d = Some vs \<and> rd_steps d = Some xs \<and> masked 5 td \<and> masked 5 vs
             \<and> list_all (\<lambda>x. \<exists>i out. se_input x = Some i \<and> se_output x = Some out \<and> masked 5 i \<and> masked 5 out) xs)
          \<and> 0 \<le> pr_percent (rd_progress d) \<and> pr_percent (rd_progress d) \<le> 100)"
proof -
  have dto: "rd_run d = r \<and> (\<exists>td vs xs. rd_triggerData d = Some td \<and> rd_variables d = Some vs \<and> rd_steps d = Some xs
      \<and> masked 5 td \<and> masked 5 vs \<and> list_all (\<lambda>x. \<exists>i out. se_input x = Some i \<and> se_output x = Some out \<and> masked 5 i \<and> masked 5 out) xs)
      \<and> 0 \<le> pr_percent (rd_progress d) \<and> pr_percent (rd_progress d) \<le> 100"
    if "run_dto_of E s workspaceId True r = Some d" for r d
    using that sanitize_masks [of 0] progress_bounds
    by (auto simp: run_dto_of_def toWorkflowRunDto_def Let_def toWorkflowRunStepDto_def list_all_iff)
  show ?thesis
    using dto
    by (auto simp: getRun_def lift_sum_def io_simps dest!: find_some_where split: sum.split option.splits)
qed

end
