(* ===== verification/Workflow_Delivery.thy ===== *)
theory Workflow_Delivery
  imports Workflow_Rulebook
begin

text \<open>
  What the rulebook computes. The loop that collects the ancestors of a step returns the one path
  from the trigger to it, and a reply window is open at a step exactly if a reply branch of that
  channel lies on the path and the waits since then are shorter than the window. A published
  workflow therefore never opens a chat on a channel that only allows replies.
\<close>

section \<open>The path to a step\<close>

fun linked :: "string \<Rightarrow> wf_step list \<Rightarrow> bool" where
  "linked p [] = True"
| "linked p (s # ss) = (st_parentId s = Some p \<and> linked (st_id s) ss)"

definition trigger_path :: "wf_step list \<Rightarrow> wf_step list \<Rightarrow> bool" where
  "trigger_path steps xs \<longleftrightarrow> set xs \<subseteq> set steps \<and> linked ''trigger'' xs"

definition good_steps :: "wf_step list \<Rightarrow> bool" where
  "good_steps steps \<longleftrightarrow> forest (map payload_of steps) \<and> ''trigger'' \<notin> st_id ` set steps
     \<and> (\<forall>s \<in> set steps. js_truthy (Some (st_id s)) \<and> js_truthy (st_parentId s))"

lemma linked_snoc:
  "linked p (xs @ [s]) \<longleftrightarrow> linked p xs \<and> st_parentId s = Some (if xs = [] then p else st_id (last xs))"
  by (induction xs arbitrary: p) auto

lemma payload_ids: "map pl_id (map payload_of steps) = map st_id steps"
  by (simp add: payload_of_def)

lemma payload_sel [simp]: "pl_id (payload_of s) = st_id s" "st_parentId s = Some p \<Longrightarrow> pl_parentId (payload_of s) = p"
  by (simp_all add: payload_of_def)

lemma good_distinct: "good_steps steps \<Longrightarrow> distinct (map st_id steps)"
  by (simp add: good_steps_def forest_def comp_def)

lemma good_unique:
  "good_steps steps \<Longrightarrow> s \<in> set steps \<Longrightarrow> t \<in> set steps \<Longrightarrow> st_id s = st_id t \<Longrightarrow> s = t"
  using good_distinct [of steps] by (auto simp: distinct_map dest: inj_onD)

lemma good_payload:
  assumes "good_steps steps" and "s \<in> set steps" and "t \<in> set (map payload_of steps)" and "st_id s = pl_id t"
  shows "payload_of s = t"
proof -
  obtain u where u: "u \<in> set steps" "t = payload_of u" using assms(3) by auto
  then have "s = u" using good_unique [OF assms(1,2) u(1)] assms(4) by simp
  with u show ?thesis by simp
qed

lemma good_parent:
  "good_steps steps \<Longrightarrow> s \<in> set steps \<Longrightarrow> pl_parentId (payload_of s) = p \<Longrightarrow> st_parentId s = Some p"
  by (cases "st_parentId s") (auto simp: good_steps_def payload_of_def)

lemma good_id: "good_steps steps \<Longrightarrow> s \<in> set steps \<Longrightarrow> st_id s \<noteq> [] \<and> st_id s \<noteq> ''trigger''"
  by (auto simp: good_steps_def rev_image_eqI)

lemma linked_descendants:
  assumes good: "good_steps steps" and "set xs \<subseteq> set steps" and "linked p xs" and "x \<in> set xs"
  shows "card (descendants (map payload_of steps) (st_id x)) < card (descendants (map payload_of steps) p)"
  using assms(2-4)
proof (induction xs arbitrary: p)
  case Nil
  then show ?case by simp
next
  case (Cons s ss)
  have "card (descendants (map payload_of steps) (st_id s)) < card (descendants (map payload_of steps) p)"
    using descendants_child [of "map payload_of steps" "payload_of s"] good Cons.prems
    by (auto simp: good_steps_def image_image)
  moreover have "card (descendants (map payload_of steps) (st_id x)) < card (descendants (map payload_of steps) (st_id s))" if "x \<noteq> s"
    using Cons.IH [of "st_id s"] Cons.prems that by auto
  ultimately show ?case by (cases "x = s") auto
qed

lemma linked_distinct:
  assumes "good_steps steps" and "set xs \<subseteq> set steps" and "linked p xs"
  shows "distinct (map st_id xs)"
  using assms(2,3)
proof (induction xs arbitrary: p)
  case Nil
  then show ?case by simp
next
  case (Cons s ss)
  then have "st_id s \<noteq> st_id x" if "x \<in> set ss" for x
    using linked_descendants [OF assms(1), of ss "st_id s" x] that by auto
  with Cons show ?case by auto
qed

lemma lineage_loop_path:
  assumes good: "good_steps steps" and "trigger_path steps (p @ [s])" and "st_id ` set p \<inter> set visited = {}"
  shows "lineage_loop steps visited s = rev p"
  using assms(2,3)
proof (induction p arbitrary: s visited rule: rev_induct)
  case Nil
  then have "st_parentId s = Some ''trigger''" by (simp add: trigger_path_def)
  then show ?case by (simp add: lineage_loop.simps [of steps visited s])
next
  case (snoc par q)
  have path: "trigger_path steps (q @ [par])" and parent: "st_parentId s = Some (st_id par)" and "par \<in> set steps"
    using snoc.prems(1) linked_snoc [of "''trigger''" "q @ [par]" s] by (simp_all add: trigger_path_def)
  have found: "step_by_id steps (st_id par) = Some par"
    using step_by_id_unique [OF good_distinct [OF good] \<open>par \<in> set steps\<close>] .
  have "st_id par \<noteq> []" "st_id par \<noteq> ''trigger''"
    using good_id [OF good \<open>par \<in> set steps\<close>] by auto
  moreover have "st_id ` set q \<inter> set (st_id par # visited) = {}"
    using linked_distinct [OF good, of "q @ [par]"] path snoc.prems(2) by (auto simp: trigger_path_def)
  then have "lineage_loop steps (st_id par # visited) par = rev q"
    using snoc.IH path by blast
  ultimately show ?case
    using parent found snoc.prems(2) by (simp add: lineage_loop.simps [of steps visited s])
qed

lemma path_exists:
  assumes good: "good_steps steps" and "s \<in> set steps"
  shows "\<exists>p. trigger_path steps (p @ [s])"
proof -
  have "\<forall>s \<in> set steps. st_id s = i \<longrightarrow> (\<exists>p. trigger_path steps (p @ [s]))" if "attached (map payload_of steps) i" for i
    using that
  proof (induction rule: attached.induct)
    case (root t)
    have "trigger_path steps ([] @ [s])" if "s \<in> set steps" "st_id s = pl_id t" for s
    proof -
      have "payload_of s = t"
        using good_payload [OF good that(1) root(1) that(2)] .
      with root(2) good_parent [OF good that(1)] that show ?thesis by (simp add: trigger_path_def)
    qed
    then show ?case by blast
  next
    case (below t)
    have "\<exists>p. trigger_path steps (p @ [s])" if s: "s \<in> set steps" "st_id s = pl_id t" for s
    proof -
      have "payload_of s = t"
        using good_payload [OF good s(1) below(1) s(2)] .
      moreover obtain par where par: "par \<in> set steps" "st_id par = pl_parentId t"
        using attached_id [OF below(2)] by auto
      ultimately have link: "st_parentId s = Some (st_id par)"
        using good_parent [OF good s(1)] by simp
      obtain q where "trigger_path steps (q @ [par])" using below.IH par by blast
      with link s have "trigger_path steps ((q @ [par]) @ [s])"
        unfolding trigger_path_def linked_snoc [of _ "q @ [par]"] by simp
      then show ?thesis by blast
    qed
    then show ?case by blast
  qed
  with good assms(2) show ?thesis by (auto simp: good_steps_def forest_def)
qed

text \<open>
  In a validated workflow the ancestor loop of the rulebook, which guards against cycles with
  a set of visited steps, returns the path from the trigger to the step, and there is no other.
\<close>

theorem lineage_exact:
  assumes "good_steps steps" and "s \<in> set steps"
  shows "trigger_path steps (p @ [s]) \<longleftrightarrow> p = getStepLineage steps (st_id s)"
proof -
  have "q = getStepLineage steps (st_id s)" if "trigger_path steps (q @ [s])" for q
    using lineage_loop_path [OF assms(1) that, of "[]"] step_by_id_unique [OF good_distinct [OF assms(1)] assms(2)]
    by (simp add: getStepLineage_def)
  with path_exists [OF assms] show ?thesis by blast
qed

section \<open>Reply windows\<close>

definition opens :: "wf_step list \<Rightarrow> channel_facts list \<Rightarrow> wf_step \<Rightarrow> open_window \<Rightarrow> bool" where
  "opens steps channels c w \<longleftrightarrow> getWindowFromConnector c steps channels = Some w"

definition waited :: "wf_step list \<Rightarrow> rat" where
  "waited xs = sum_list (map (\<lambda>s. if st_type s = ''wait'' then max 0 (waitToMinutes (asRecord (st_data s))) else 0) xs)"

lemma waited_simps [simp]:
  "waited [] = 0"
  "waited (xs @ ys) = waited xs + waited ys"
  "waited [s] = (if st_type s = ''wait'' then max 0 (waitToMinutes (asRecord (st_data s))) else 0)"
  by (simp_all add: waited_def)

lemma waited_Cons: "waited (s # xs) = waited [s] + waited xs"
  by (simp add: waited_def)

lemma waited_nonneg: "0 \<le> waited xs"
  by (induction xs) (auto simp: waited_def)

lemma buildOpenWindow_fresh:
  assumes "buildOpenWindow b ch channels = Some w"
  shows "ow_channelId w = ch \<and> ow_elapsedMinutes w = 0 \<and> ow_remainingMinutes w = ow_expiresAfterMinutes w
    \<and> 0 < ow_expiresAfterMinutes w
    \<and> (\<exists>f m. channel_by_id channels ch = Some f \<and> customerReplyWindowMinutes (getWorkflowChannelCapability (cf_type f)) = Some m
          \<and> ow_expiresAfterMinutes w = of_nat m)"
  using assms by (auto simp: buildOpenWindow_def split: option.splits if_splits)

lemma opens_built:
  assumes "opens steps channels c w"
  shows "st_type c = ''branch_connector'' \<and> (\<exists>b. buildOpenWindow b (ow_channelId w) channels = Some w)"
proof -
  obtain par where "st_type c = ''branch_connector''"
    and "js_nullish (getWindowFromSendMessageConnector c par channels) (getWindowFromAskQuestionConnector c par channels) = Some w"
    using assms by (auto simp: opens_def getWindowFromConnector_def split: if_splits option.splits)
  then obtain b ch where "st_type c = ''branch_connector''" "buildOpenWindow b ch channels = Some w"
    by (cases "getWindowFromSendMessageConnector c par channels")
      (auto simp: getWindowFromSendMessageConnector_def getWindowFromAskQuestionConnector_def Let_def
        split: if_splits option.splits)
  with buildOpenWindow_fresh show ?thesis by blast
qed

lemma opens_expires:
  "opens steps channels c w \<Longrightarrow> opens steps channels d v \<Longrightarrow> ow_channelId w = ow_channelId v \<Longrightarrow>
    ow_expiresAfterMinutes w = ow_expiresAfterMinutes v"
  using opens_built [of steps channels c w] opens_built [of steps channels d v]
  by (auto dest!: buildOpenWindow_fresh)

definition live_window :: "wf_step list \<Rightarrow> channel_facts list \<Rightarrow> wf_step list \<Rightarrow> open_window \<Rightarrow> bool" where
  "live_window steps channels xs w \<longleftrightarrow>
     (\<exists>pre c post w0. xs = pre @ c # post \<and> opens steps channels c w0
        \<and> (\<forall>x \<in> set post. \<forall>w1. opens steps channels x w1 \<longrightarrow> ow_channelId w1 \<noteq> ow_channelId w0)
        \<and> waited post < ow_expiresAfterMinutes w0 \<and> w = age_window (waited post) w0)"

lemma age_sel [simp]:
  "ow_channelId (age_window m w) = ow_channelId w" "ow_expiresAfterMinutes (age_window m w) = ow_expiresAfterMinutes w"
  "ow_remainingMinutes (age_window m w) = ow_expiresAfterMinutes w - (ow_elapsedMinutes w + m)"
  "ow_elapsedMinutes (age_window m w) = ow_elapsedMinutes w + m"
  by (simp_all add: age_window_def Let_def)

lemma age_age: "age_window m (age_window n w) = age_window (n + m) w"
  by (simp add: age_window_def Let_def add.assoc)

lemma age_fresh: "opens steps channels c w \<Longrightarrow> age_window 0 w = w"
  using opens_built [of steps channels c w] by (auto simp: age_window_def Let_def dest!: buildOpenWindow_fresh)

lemma live_window_snoc:
  "live_window steps channels (xs @ [x]) w \<longleftrightarrow>
     (opens steps channels x w) \<or>
     (\<exists>pre c post w0. xs = pre @ c # post \<and> opens steps channels c w0
        \<and> (\<forall>y \<in> set (post @ [x]). \<forall>w1. opens steps channels y w1 \<longrightarrow> ow_channelId w1 \<noteq> ow_channelId w0)
        \<and> waited (post @ [x]) < ow_expiresAfterMinutes w0 \<and> w = age_window (waited (post @ [x])) w0)"
    (is "?L \<longleftrightarrow> ?A \<or> ?B")
proof
  assume ?L
  then obtain pre c post w0 where split: "xs @ [x] = pre @ c # post" and rest: "opens steps channels c w0"
    "\<forall>y \<in> set post. \<forall>w1. opens steps channels y w1 \<longrightarrow> ow_channelId w1 \<noteq> ow_channelId w0"
    "waited post < ow_expiresAfterMinutes w0" "w = age_window (waited post) w0"
    by (auto simp: live_window_def)
  show "?A \<or> ?B"
  proof (cases post rule: rev_cases)
    case Nil
    with split rest show ?thesis by (auto simp: age_fresh)
  next
    case (snoc post' y)
    with split have "xs = pre @ c # post'" "y = x" by auto
    with rest snoc show ?thesis by blast
  qed
next
  assume "?A \<or> ?B"
  then show ?L
  proof
    assume ?A
    then have "0 < ow_expiresAfterMinutes w" using opens_built [of steps channels x w] by (auto dest: buildOpenWindow_fresh)
    then show ?L unfolding live_window_def using \<open>?A\<close> age_fresh [of steps channels x w]
      by (intro exI [of _ xs] exI [of _ x] exI [of _ "[]"] exI [of _ w]) auto
  next
    assume ?B
    then obtain pre c post w0 where "xs = pre @ c # post" and rest: "opens steps channels c w0"
      "\<forall>y \<in> set (post @ [x]). \<forall>w1. opens steps channels y w1 \<longrightarrow> ow_channelId w1 \<noteq> ow_channelId w0"
      "waited (post @ [x]) < ow_expiresAfterMinutes w0" "w = age_window (waited (post @ [x])) w0"
      by blast
    then have "xs @ [x] = pre @ c # (post @ [x])" by simp
    with rest show ?L unfolding live_window_def by blast
  qed
qed

lemma live_window_still:
  assumes "waited [x] = 0"
  shows "live_window steps channels (xs @ [x]) w \<longleftrightarrow>
    opens steps channels x w \<or>
    live_window steps channels xs w \<and> (\<forall>w1. opens steps channels x w1 \<longrightarrow> ow_channelId w1 \<noteq> ow_channelId w)"
proof -
  have same: "waited (post @ [x]) = waited post" for post using assms waited_simps(2) [of post "[x]"] by linarith
  have set: "(\<forall>y \<in> set (post @ [x]). P y) \<longleftrightarrow> (\<forall>y \<in> set post. P y) \<and> P x" for post and P :: "wf_step \<Rightarrow> bool" by auto
  show ?thesis
    unfolding live_window_snoc unfolding live_window_def same set
    by (intro disj_cong refl iffI; elim exE conjE; simp; blast)
qed

lemma path_context_live:
  "w \<in> set (foldl (path_step steps channels) [] xs) \<longleftrightarrow> live_window steps channels xs w"
proof (induction xs arbitrary: w rule: rev_induct)
  case Nil
  then show ?case by (simp add: live_window_def)
next
  case (snoc x xs)
  let ?W = "foldl (path_step steps channels) [] xs"
  have step: "foldl (path_step steps channels) [] (xs @ [x]) = path_step steps channels ?W x" by simp
  consider (opener) v where "opens steps channels x v" | (wait) "st_type x = ''wait''" "\<And>v. \<not> opens steps channels x v"
    | (other) "st_type x \<noteq> ''wait''" "\<And>v. \<not> opens steps channels x v" by blast
  then show ?case
  proof cases
    case (opener v)
    then have "st_type x = ''branch_connector''" using opens_built by blast
    with opener have ctx: "path_step steps channels ?W x = filter (\<lambda>y. ow_channelId y \<noteq> ow_channelId v) ?W @ [v]"
      and "waited [x] = 0" and only: "opens steps channels x w1 \<longleftrightarrow> w1 = v" for w1
      by (auto simp: path_step_def opens_def replaceWindow_def)
    then show ?thesis
      unfolding step ctx live_window_still [OF \<open>waited [x] = 0\<close>] using snoc.IH [of w] by (auto simp: only)
  next
    case wait
    let ?m = "waitToMinutes (asRecord (st_data x))"
    have ctx: "path_step steps channels ?W x = ageWindows ?W ?m"
      using wait by (simp add: path_step_def)
    show ?thesis
    proof (cases "?m \<le> 0")
      case True
      then have "waited [x] = 0" using wait by simp
      with True wait show ?thesis
        unfolding step ctx live_window_still [OF \<open>waited [x] = 0\<close>] by (simp add: ageWindows_def snoc.IH)
    next
      case False
      then have m: "waited [x] = ?m" "0 < ?m" using wait by auto
      have "w \<in> set (ageWindows ?W ?m) \<longleftrightarrow> (\<exists>v \<in> set ?W. w = age_window ?m v \<and> 0 < ow_remainingMinutes w)"
        using False by (auto simp: ageWindows_def)
      also have "\<dots> \<longleftrightarrow> (\<exists>v. live_window steps channels xs v \<and> w = age_window ?m v \<and> 0 < ow_remainingMinutes w)"
        using snoc.IH by blast
      also have "\<dots> \<longleftrightarrow> live_window steps channels (xs @ [x]) w"
      proof
        assume "\<exists>v. live_window steps channels xs v \<and> w = age_window ?m v \<and> 0 < ow_remainingMinutes w"
        then obtain pre c post w0 where s: "xs = pre @ c # post" and o: "opens steps channels c w0"
          and l: "\<forall>y \<in> set post. \<forall>w1. opens steps channels y w1 \<longrightarrow> ow_channelId w1 \<noteq> ow_channelId w0"
          and w: "w = age_window ?m (age_window (waited post) w0)" and r: "0 < ow_remainingMinutes w"
          by (auto simp: live_window_def)
        have "ow_elapsedMinutes w0 = 0" using opens_built [OF o] by (auto dest: buildOpenWindow_fresh)
        then have "waited (post @ [x]) < ow_expiresAfterMinutes w0" and "w = age_window (waited (post @ [x])) w0"
          using w r m(1) by (simp_all add: age_age)
        moreover have "\<forall>y \<in> set (post @ [x]). \<forall>w1. opens steps channels y w1 \<longrightarrow> ow_channelId w1 \<noteq> ow_channelId w0"
          using l wait by auto
        ultimately show "live_window steps channels (xs @ [x]) w"
          unfolding live_window_snoc using s o by blast
      next
        assume "live_window steps channels (xs @ [x]) w"
        then obtain pre c post w0 where s: "xs = pre @ c # post" and o: "opens steps channels c w0"
          and l: "\<forall>y \<in> set (post @ [x]). \<forall>w1. opens steps channels y w1 \<longrightarrow> ow_channelId w1 \<noteq> ow_channelId w0"
          and r: "waited (post @ [x]) < ow_expiresAfterMinutes w0" and w: "w = age_window (waited (post @ [x])) w0"
          unfolding live_window_snoc using wait by blast
        have e: "ow_elapsedMinutes w0 = 0" using opens_built [OF o] by (auto dest: buildOpenWindow_fresh)
        have sum: "waited (post @ [x]) = waited post + ?m" using m(1) by simp
        have "live_window steps channels xs (age_window (waited post) w0)"
          unfolding live_window_def using s o l r sum m(2)
          by (intro exI [of _ pre] exI [of _ c] exI [of _ post] exI [of _ w0]) auto
        moreover have "w = age_window ?m (age_window (waited post) w0)" and "0 < ow_remainingMinutes w"
          using w r e unfolding sum age_age by simp_all
        ultimately show "\<exists>v. live_window steps channels xs v \<and> w = age_window ?m v \<and> 0 < ow_remainingMinutes w"
          by blast
      qed
      finally show ?thesis unfolding step ctx .
    qed
  next
    case other
    then have "path_step steps channels ?W x = ?W" and "waited [x] = 0"
      by (auto simp: path_step_def opens_def split: option.splits)
    with other show ?thesis
      unfolding step live_window_still [OF \<open>waited [x] = 0\<close>] by (simp add: snoc.IH)
  qed
qed

text \<open>A reply branch of the channel on the path, with less waiting since then than its window.\<close>

definition reply_above :: "wf_step list \<Rightarrow> channel_facts list \<Rightarrow> wf_step list \<Rightarrow> string \<Rightarrow> bool" where
  "reply_above steps channels path ch \<longleftrightarrow>
     (\<exists>pre c post w. path = pre @ c # post \<and> opens steps channels c w \<and> ow_channelId w = ch
        \<and> waited post < ow_expiresAfterMinutes w)"

lemma last_opening:
  assumes "path = pre @ c # post" and "opens steps channels c w"
  shows "\<exists>pre' c' post' w'. path = pre' @ c' # post' \<and> opens steps channels c' w' \<and> ow_channelId w' = ow_channelId w
    \<and> (\<forall>x \<in> set post'. \<forall>w1. opens steps channels x w1 \<longrightarrow> ow_channelId w1 \<noteq> ow_channelId w)
    \<and> waited post' \<le> waited post"
  using assms
proof (induction "length post" arbitrary: pre c post w rule: less_induct)
  case less
  show ?case
  proof (cases "\<exists>x \<in> set post. \<exists>w1. opens steps channels x w1 \<and> ow_channelId w1 = ow_channelId w")
    case True
    then obtain x w1 where x: "x \<in> set post" "opens steps channels x w1" "ow_channelId w1 = ow_channelId w" by blast
    then obtain a b where ab: "post = a @ x # b" by (auto simp: in_set_conv_decomp)
    with less.prems(1) have path: "path = (pre @ c # a) @ x # b" by simp
    have "length b < length post" using ab by simp
    from less.hyps [OF this path x(2)] x(3)
    obtain pre' c' post' w' where *: "path = pre' @ c' # post'" "opens steps channels c' w'" "ow_channelId w' = ow_channelId w"
      "\<forall>x \<in> set post'. \<forall>w1. opens steps channels x w1 \<longrightarrow> ow_channelId w1 \<noteq> ow_channelId w" "waited post' \<le> waited b"
      by auto
    moreover have "waited b \<le> waited post"
      using waited_nonneg [of "a @ [x]"] ab waited_simps(2) [of "a @ [x]" b] by simp
    ultimately have "waited post' \<le> waited post" by simp
    with * show ?thesis by blast
  next
    case False
    with less.prems show ?thesis by blast
  qed
qed

text \<open>
  The rulebook holds a reply window open at a step exactly if a reply branch of that channel
  lies on the path to the step and the waits between them are shorter than the channel's window;
  an expired window, a later reply and a wait of zero or less are all accounted for.
\<close>

theorem reply_window_exact:
  "list_ex (\<lambda>w. ow_channelId w = ch) (getPathContext steps i channels) \<longleftrightarrow>
     reply_above steps channels (getStepLineage steps i) ch"
proof -
  let ?p = "getStepLineage steps i"
  have "(\<exists>w. live_window steps channels ?p w \<and> ow_channelId w = ch) \<longleftrightarrow> reply_above steps channels ?p ch"
  proof
    assume "\<exists>w. live_window steps channels ?p w \<and> ow_channelId w = ch"
    then show "reply_above steps channels ?p ch"
      unfolding live_window_def reply_above_def by (elim exE conjE) (metis age_sel(1))
  next
    assume "reply_above steps channels ?p ch"
    then obtain pre c post w where s: "?p = pre @ c # post" and o: "opens steps channels c w" and ch: "ow_channelId w = ch"
      and lt: "waited post < ow_expiresAfterMinutes w" unfolding reply_above_def by blast
    from last_opening [OF s o] obtain pre' c' post' w' where *: "?p = pre' @ c' # post'" "opens steps channels c' w'"
      "ow_channelId w' = ow_channelId w" "waited post' \<le> waited post"
      "\<forall>x \<in> set post'. \<forall>w1. opens steps channels x w1 \<longrightarrow> ow_channelId w1 \<noteq> ow_channelId w" by blast
    with lt opens_expires [OF *(2) o *(3)] have "waited post' < ow_expiresAfterMinutes w'" by simp
    with * have "live_window steps channels ?p (age_window (waited post') w')"
      unfolding live_window_def by metis
    with *(3) ch show "\<exists>w. live_window steps channels ?p w \<and> ow_channelId w = ch" by (metis age_sel(1))
  qed
  then show ?thesis
    by (auto simp: list_ex_iff getPathContext_def path_context_live)
qed

section \<open>Published workflows\<close>

lemma reply_window_day:
  assumes "customerReplyWindowMinutes (getWorkflowChannelCapability t) = Some m"
  shows "m = 24 * 60"
proof -
  have "list_all (\<lambda>(_, cap). customerReplyWindowMinutes cap \<in> {None, Some (24 * 60)}) CHANNEL_CAPABILITIES_BY_KEY"
    by (simp add: CHANNEL_CAPABILITIES_BY_KEY_def capability_def)
  then have day: "customerReplyWindowMinutes cap \<in> {None, Some (24 * 60)}" if "map_of CHANNEL_CAPABILITIES_BY_KEY k = Some cap" for k cap
    using map_of_SomeD [OF that] by (auto simp: list_all_iff)
  show ?thesis
  proof (cases "map_of CHANNEL_CAPABILITIES_BY_KEY (normalizeWorkflowChannelType t)")
    case None
    with assms show ?thesis
      by (simp add: getWorkflowChannelCapability_def UNKNOWN_CHANNEL_CAPABILITY_def capability_def)
  next
    case (Some cap)
    with assms day [OF Some] show ?thesis by (simp add: getWorkflowChannelCapability_def)
  qed
qed

lemma opens_day: "opens steps channels c w \<Longrightarrow> ow_expiresAfterMinutes w = 24 * 60"
  using opens_built [of steps channels c w] by (auto dest!: buildOpenWindow_fresh reply_window_day)

text \<open>A message that its channel only carries in a chat the contact has opened.\<close>

definition needs_open_chat :: "channel_capability \<Rightarrow> wf_step \<Rightarrow> bool" where
  "needs_open_chat cap s \<longleftrightarrow>
     (if st_type s = ''send_message'' then
        (requiresTemplateForNewConversation cap \<and> inferWorkflowMessageMode (asRecord (st_data s)) \<noteq> ModeTemplate)
        \<or> \<not> canStartOutbound cap \<or> needsExistingChatForOutbound cap
      else cap_composer cap = ComposeChat)"

definition reply_within_day :: "wf_step list \<Rightarrow> channel_facts list \<Rightarrow> wf_step list \<Rightarrow> string \<Rightarrow> bool" where
  "reply_within_day steps channels path ch \<longleftrightarrow>
     (\<exists>pre c post w. path = pre @ c # post \<and> opens steps channels c w \<and> ow_channelId w = ch \<and> waited post < 24 * 60)"

lemma reply_above_day: "reply_above steps channels path ch \<longleftrightarrow> reply_within_day steps channels path ch"
  unfolding reply_above_def reply_within_day_def by (metis opens_day)

lemma specific_step_ok:
  assumes "validateSpecificChannelStep s (asRecord (st_data s)) channels (getPathContext steps (st_id s) channels) = []"
    and "st_type s = ''send_message'' \<or> st_type s = ''ask_question''"
  shows "\<exists>ch f. getSpecificChannelId (v_fld (asRecord (st_data s)) ''channel'') = Some ch \<and> channel_by_id channels ch = Some f
    \<and> cf_status f \<in> {None, Some [], Some ''connected''} \<and> canSendMessage (getWorkflowChannelCapability (cf_type f))
    \<and> (st_type s = ''send_message'' \<longrightarrow>
         inferWorkflowMessageMode (asRecord (st_data s)) \<in> set (supportedModes (getWorkflowChannelCapability (cf_type f))))
    \<and> (needs_open_chat (getWorkflowChannelCapability (cf_type f)) s \<longrightarrow>
         reply_above steps channels (getStepLineage steps (st_id s)) ch)"
proof -
  obtain ch where ch: "getSpecificChannelId (v_fld (asRecord (st_data s)) ''channel'') = Some ch"
    using assms(1) by (cases "getSpecificChannelId (v_fld (asRecord (st_data s)) ''channel'')")
      (auto simp: validateSpecificChannelStep_def)
  then obtain f where f: "channel_by_id channels ch = Some f"
    using assms(1) by (cases "channel_by_id channels ch") (auto simp: validateSpecificChannelStep_def)
  let ?cap = "getWorkflowChannelCapability (cf_type f)"
  let ?open = "list_ex (\<lambda>w. ow_channelId w = ch) (getPathContext steps (st_id s) channels)"
  have ok: "\<not> (js_truthy (cf_status f) \<and> cf_status f \<noteq> Some ''connected'')" "canSendMessage ?cap"
    and send: "st_type s = ''send_message'' \<Longrightarrow> validateSendMessageChannelRules s (asRecord (st_data s)) ?cap ?open = []"
    and ask: "st_type s \<noteq> ''send_message'' \<Longrightarrow> validateAskQuestionChannelRules s ?cap ?open = []"
    using assms(1) ch f by (auto simp: validateSpecificChannelStep_def Let_def split: if_splits)
  have "cf_status f \<in> {None, Some [], Some ''connected''}" using ok(1) by (cases "cf_status f") auto
  moreover have "?open" if "needs_open_chat ?cap s"
    using that send ask assms(2)
    by (cases "cap_composer ?cap") (auto simp: needs_open_chat_def validateSendMessageChannelRules_def validateAskQuestionChannelRules_def
        Let_def split: if_splits)
  moreover have "inferWorkflowMessageMode (asRecord (st_data s)) \<in> set (supportedModes ?cap)" if "st_type s = ''send_message''"
    using send [OF that] by (auto simp: validateSendMessageChannelRules_def Let_def split: if_splits)
  ultimately show ?thesis
    using ch f ok(2) reply_window_exact [of ch steps "st_id s" channels] by auto
qed


definition demo_step :: "string \<Rightarrow> string \<Rightarrow> string \<Rightarrow> jsobj \<Rightarrow> jsobj \<Rightarrow> jsv" where
  "demo_step i t p extra data =
     JObj ([(''id'', JStr i), (''type'', JStr t), (''parentId'', JStr p)] @ extra @ [(''data'', JObj data)])"

definition demo_config :: jsv where
  "demo_config =
     JObj [(''trigger'', JObj [(''type'', JStr ''contact_tag_updated'')]),
       (''steps'', JArr
         [demo_step ''offer'' ''send_message'' ''trigger'' []
            [(''channel'', JStr ''wa''), (''templateButtonBranching'', JBool True),
             (''metadata'', JObj [(''template'', JObj [(''name'', JStr ''sale''), (''language'', JStr ''en'')])])],
          demo_step ''yes'' ''branch_connector'' ''offer'' [(''name'', JStr ''Yes'')] [],
          demo_step ''pause'' ''wait'' ''yes'' [] [(''value'', JInt 2), (''unit'', JStr ''hours'')],
          demo_step ''thanks'' ''send_message'' ''pause'' []
            [(''channel'', JStr ''wa''), (''defaultMessage'', JObj [(''text'', JStr ''Thanks'')])]])]"

definition demo_channels :: "channel_facts list" where
  "demo_channels = [\<lparr>cf_id = ''wa'', cf_type = ''whatsapp'', cf_status = Some ''connected''\<rparr>]"

lemmas demo_eval = js_eval demo_config_def demo_step_def config_steps_def opt_str_def step_of_json_def config_trigger_def

lemma demo_steps: "config_steps demo_config =
  [\<lparr>st_id = ''offer'', st_type = ''send_message'', st_parentId = Some ''trigger'', st_name = None,
     st_data = JObj [(''channel'', JStr ''wa''), (''templateButtonBranching'', JBool True),
             (''metadata'', JObj [(''template'', JObj [(''name'', JStr ''sale''), (''language'', JStr ''en'')])])]\<rparr>,
   \<lparr>st_id = ''yes'', st_type = ''branch_connector'', st_parentId = Some ''offer'', st_name = Some ''Yes'', st_data = JObj []\<rparr>,
   \<lparr>st_id = ''pause'', st_type = ''wait'', st_parentId = Some ''yes'', st_name = None, st_data = JObj [(''value'', JInt 2), (''unit'', JStr ''hours'')]\<rparr>,
   \<lparr>st_id = ''thanks'', st_type = ''send_message'', st_parentId = Some ''pause'', st_name = None,
     st_data = JObj [(''channel'', JStr ''wa''), (''defaultMessage'', JObj [(''text'', JStr ''Thanks'')])]\<rparr>]"
  by (simp add: demo_eval)

lemma demo_trim: "js_trim ''wa'' = ''wa''" "js_trim ''Thanks'' = ''Thanks''" "js_trim ''Yes'' = ''Yes''" "js_lower ''Yes'' = ''yes''"
  "js_trim ''whatsapp'' = ''whatsapp''" "js_lower ''whatsapp'' = ''whatsapp''"
  by code_simp+

lemma demo_cap: "getWorkflowChannelCapability ''whatsapp'' = capability ''whatsapp'' ''WhatsApp'' True True False True template_modes ComposeChat (Some (24 * 60))"
  by (simp add: getWorkflowChannelCapability_def normalizeWorkflowChannelType_def demo_trim CHANNEL_CAPABILITIES_BY_KEY_def)

lemma demo_lineage: "getStepLineage (config_steps demo_config) ''thanks'' = take 3 (config_steps demo_config)" "getStepLineage (config_steps demo_config) ''offer'' = []"
  unfolding demo_steps by (simp_all add: getStepLineage_def step_by_id_def lineage_loop.simps)

lemma demo_publish: "assertWorkflowDeliveryForPublish demo_config demo_channels = Inr ()"
  unfolding assertWorkflowDeliveryForPublish_def validateWorkflowDeliveryForPublish_def Let_def
  unfolding step_issues_def getPathContext_def Let_def
  by (simp add: Let_def demo_steps demo_lineage [unfolded demo_steps, simplified] resolveStepStrategy_def resolveWorkflowChannelStrategy_def isWorkflowChannelStrategy_def isSpecificWorkflowChannel_def demo_trim
     getWorkflowStrategyIssue_def isWorkflowStrategyAllowedForTrigger_def validateSpecificChannelStep_def getSpecificChannelId_def channel_by_id_def demo_channels_def
     asRecord_def js_eval demo_cap capability_def validateMessageContent_def validateSendMessageChannelRules_def inferWorkflowMessageMode_def workflowMessageHasTemplate_def
     path_step_def template_modes_def getWindowFromConnector_def step_by_id_def getWindowFromSendMessageConnector_def isCustomerReplyConnector_def normalizeConnectorName_def
     buildOpenWindow_def replaceWindow_def ageWindows_def age_window_def
     waitToMinutes_def)

lemma demo_good: "good_steps (config_steps demo_config)"
proof -
  have "check_steps (map payload_of (config_steps demo_config)) = Inr ()" by code_simp
  then show ?thesis unfolding good_steps_def check_steps_exact by (simp add: demo_steps)
qed


text \<open>
  The website chat has no reply window, so a step that names it can never be published, although the
  message of the rule says that it may follow a chat.
\<close>

theorem webchat_never_publishable:
  assumes "st_type s = ''send_message'' \<or> st_type s = ''ask_question''"
    and "getSpecificChannelId (v_fld (asRecord (st_data s)) ''channel'') = Some ch"
    and "channel_by_id channels ch = Some f" and "cf_type f = ''webchat''"
  shows "validateSpecificChannelStep s (asRecord (st_data s)) channels (getPathContext steps (st_id s) channels) \<noteq> []"
proof
  assume "validateSpecificChannelStep s (asRecord (st_data s)) channels (getPathContext steps (st_id s) channels) = []"
  note ok = specific_step_ok [OF this assms(1)]
  have cap: "getWorkflowChannelCapability ''webchat'' = capability ''webchat'' ''Website chat'' True False True False chat_modes ComposeChat None"
    by (simp add: getWorkflowChannelCapability_def normalizeWorkflowChannelType_def CHANNEL_CAPABILITIES_BY_KEY_def
        js_trim_def js_space_def js_lower_def js_lower_char_def)
  then have "needs_open_chat (getWorkflowChannelCapability (cf_type f)) s"
    by (simp add: assms(4) needs_open_chat_def capability_def)
  then have "reply_above steps channels (getStepLineage steps (st_id s)) ch"
    using ok assms(2,3) by simp
  then obtain c w where "opens steps channels c w" "ow_channelId w = ch" unfolding reply_above_def by blast
  then obtain b where "buildOpenWindow b ch channels = Some w" using opens_built by blast
  with assms(3,4) cap show False by (simp add: buildOpenWindow_def capability_def)
qed

end
