(* ===== verification/Workflow_Termination.thy ===== *)
theory Workflow_Termination
  imports Workflow_Runs Workflow_Delivery
begin

text \<open>
  A run of a validated workflow does not go on forever by itself. Every executed step queues at most
  one step of its run: one further down the tree, or the target of a jump whose counter it
  increments. The measure is the number of jumps left, then the number of steps below.
\<close>

section \<open>What a handler returns\<close>

definition gives :: "('a \<Rightarrow> bool) \<Rightarrow> 'a wfd \<Rightarrow> bool" where
  "gives P m \<longleftrightarrow> (\<forall>s x t. m s = (Inr x, t) \<longrightarrow> P x)"

lemma gives_bind: "(\<And>x. gives P (f x)) \<Longrightarrow> gives P (bind_io m f)"
  by (auto simp: gives_def io_simps split: prod.splits sum.splits)

lemma gives_seq: "gives P n \<Longrightarrow> gives P (seq_io m n)"
  unfolding seq_io_def by (rule gives_bind)

lemma gives_base: "P x \<Longrightarrow> gives P (ret x)" "gives P (throw e)"
  by (auto simp: gives_def io_simps)

lemma gives_cases:
  "gives P m \<Longrightarrow> gives P n \<Longrightarrow> gives P (if b then m else n)"
  "gives P m \<Longrightarrow> (\<And>x. gives P (f x)) \<Longrightarrow> gives P (case v of None \<Rightarrow> m | Some x \<Rightarrow> f x)"
  "(\<And>x. gives P (g x)) \<Longrightarrow> (\<And>x. gives P (h x)) \<Longrightarrow> gives P (case w of Inl x \<Rightarrow> g x | Inr x \<Rightarrow> h x)"
  "(\<And>x y. gives P (q x y)) \<Longrightarrow> gives P (case p of (x, y) \<Rightarrow> q x y)"
  by (simp_all split: option.split sum.split prod.split)

lemmas gives_rules = gives_bind gives_seq gives_base gives_cases

text \<open>The branch a result names is a connector of the step.\<close>

definition names_connector :: "wf_step \<Rightarrow> wf_step list \<Rightarrow> step_result \<Rightarrow> bool" where
  "names_connector step steps res \<longleftrightarrow>
     sr_next res = None \<and> (\<forall>b. sr_branch res = Some b \<longrightarrow> (\<exists>k \<in> set steps. is_connector_of step k \<and> st_id k = b))"

lemma names_plain [simp]: "names_connector step steps (plain_result out)" "names_connector step steps (skipped r)"
  "names_connector step steps (assign_skipped a r)"
  by (simp_all add: names_connector_def plain_result_def skipped_def assign_skipped_def)

lemma names_suspend [simp]:
  "names_connector step steps (res\<lparr>sr_suspend := b\<rparr>) = names_connector step steps res"
  "names_connector step steps (res\<lparr>sr_waitFor := w\<rparr>) = names_connector step steps res"
  by (simp_all add: names_connector_def)

lemma names_branch:
  "(\<And>k. v = Some k \<Longrightarrow> k \<in> set steps \<and> is_connector_of step k) \<Longrightarrow>
    names_connector step steps ((plain_result out)\<lparr>sr_branch := map_option st_id v\<rparr>)"
  by (auto simp: names_connector_def plain_result_def)

lemma found_connector: "find (\<lambda>k. is_connector_of step k \<and> Q k) steps = Some k \<Longrightarrow> k \<in> set steps \<and> is_connector_of step k"
  by (auto dest: find_Some_in)

lemma send_connector: "findSendMessageConnector step steps n = Some k \<Longrightarrow> k \<in> set steps \<and> is_connector_of step k"
  unfolding findSendMessageConnector_def Let_def
  by (cases "find (\<lambda>k. is_connector_of step k \<and> st_name k = Some n) steps")
    (auto split: if_splits dest: found_connector)

lemma ask_connector: "findAskQuestionConnector step steps n = Some k \<Longrightarrow> k \<in> set steps \<and> is_connector_of step k"
  unfolding findAskQuestionConnector_def Let_def by (rule found_connector)

lemma button_connector: "findTemplateButtonConnector step rs ks = Inr (Some k) \<Longrightarrow> k \<in> set ks \<and> is_connector_of step k"
  by (induction step rs ks rule: findTemplateButtonConnector.induct) (auto split: if_splits option.splits)

lemma child_connector: "k \<in> set (child_connectors steps step) \<Longrightarrow> k \<in> set steps \<and> is_connector_of step k"
  by (simp add: child_connectors_def is_connector_of_def)

lemma names_send:
  "names_connector step steps (sendMessageFailureResult step steps r)"
  "names_connector step steps (sendMessageSuccessResult step steps out)"
proof -
  show "names_connector step steps (sendMessageSuccessResult step steps out)"
    unfolding sendMessageSuccessResult_def by (rule names_branch) (rule send_connector)
  show "names_connector step steps (sendMessageFailureResult step steps r)"
    using send_connector [of step steps "''Failure''"]
    by (auto simp: sendMessageFailureResult_def names_connector_def plain_result_def skipped_def split: option.split)
qed

lemma gives_reply: "gives (names_connector step steps) (handleTemplateButtonReply step steps)"
proof -
  have "names_connector step steps ((plain_result out)\<lparr>sr_branch := Some (st_id k)\<rparr>)"
    if "findTemplateButtonConnector step rs steps = Inr (Some k)" for out k rs
    using names_branch [of "Some k" steps step out] button_connector [OF that] by simp
  then show ?thesis
    unfolding handleTemplateButtonReply_def Let_def lift_sum_def
    by (auto simp: gives_def io_simps split: sum.splits prod.splits option.splits)
qed

lemma gives_send: "gives (names_connector step steps) (handleSendMessage E config steps step)"
proof -
  have out: "gives (names_connector step steps) (send_outbound E step steps body atts md target)" for body atts md target
    unfolding send_outbound_def Let_def by (intro gives_rules) (simp_all add: names_send)
  show ?thesis
    unfolding handleSendMessage_def Let_def by (intro gives_rules gives_reply out names_send)
qed

lemma gives_ask: "gives (names_connector step steps) (handleAskQuestion E config steps step)"
proof -
  have "names_connector step steps ((plain_result out)\<lparr>sr_branch := Some (st_id k)\<rparr>)"
    if "findAskQuestionConnector step steps n = Some k" for out k n
    using names_branch [of "Some k" steps step out] ask_connector [OF that] by simp
  then have fail: "gives (names_connector step steps) (askQuestionMessageFailureResult step steps r)" for r
    unfolding askQuestionMessageFailureResult_def by (auto split: option.splits if_splits intro!: gives_rules)
  have now: "gives (names_connector step steps) (ask_now E config steps step)"
    unfolding ask_now_def by (intro gives_rules fail) simp
  have named: "names_connector step steps ((plain_result out)\<lparr>sr_branch := map_option st_id (findAskQuestionConnector step steps n)\<rparr>)" for out n
    by (rule names_branch) (rule ask_connector)
  show ?thesis
    unfolding handleAskQuestion_def Let_def by (intro gives_rules now named)
qed

lemma gives_branch: "gives (names_connector step steps) (handleBranch E steps step)"
proof -
  have chosen: "k \<in> set (child_connectors steps step)" if "matching_connector R now c (child_connectors steps step) = Some k" for R now c k
    using that by (auto simp: matching_connector_def dest!: find_Some_in set_zip_leftD)
  have elsewise: "k \<in> set (child_connectors steps step)" if "findElseBranchConnector (child_connectors steps step) = Some k" for k
    using that by (auto simp: findElseBranchConnector_def dest!: find_Some_in set_zip_leftD)
  show ?thesis
    unfolding handleBranch_def Let_def
    by (intro gives_bind) (auto split: option.split intro!: gives_base names_branch [of "Some _", simplified] names_branch
        dest!: chosen elsewise dest: child_connector)
qed

lemma gives_hours: "gives (names_connector step steps) (handleDateTime E steps step)"
proof -
  have "k \<in> set (child_connectors steps step)" if "findDateTimeConnector step (child_connectors steps step) b = Some k" for b k
    using that unfolding findDateTimeConnector_def Let_def
    by (cases "find (\<lambda>k. JStr (st_id k) = v_nth (v_arr (v_fld (st_data step) ''connectors'')) (if b then 0 else 1)) (child_connectors steps step)")
      (auto dest: find_Some_in)
  then show ?thesis
    unfolding handleDateTime_def Let_def
    by (intro gives_rules names_branch) (blast dest: child_connector)
qed

lemma gives_others:
  "gives (names_connector step steps) (handleAssignTo E step)" "gives (names_connector step steps) (handleUpdateContactTag step)"
  "gives (names_connector step steps) (handleUpdateContactField E step)" "gives (names_connector step steps) (handleWait E steps step)"
  "gives (names_connector step steps) (handleHttpRequest E step)" "gives (names_connector step steps) (handleOpenConversation E)"
  "gives (names_connector step steps) (handleCloseConversation E step)" "gives (names_connector step steps) (handleAddComment E step)"
  "gives (names_connector step steps) (handleTriggerAnotherWorkflow E steps step)"
proof -
  have assign: "gives (names_connector step steps) (assign_contact E a i t v)" for a i t v
    unfolding assign_contact_def by (intro gives_rules) simp_all
  show "gives (names_connector step steps) (handleAssignTo E step)"
    unfolding handleAssignTo_def Let_def by (intro gives_rules assign) simp_all
qed (unfold handleUpdateContactTag_def handleUpdateContactField_def handleWait_def handleHttpRequest_def handleOpenConversation_def
     handleCloseConversation_def handleAddComment_def handleTriggerAnotherWorkflow_def Let_def, (intro gives_rules; simp)+)

lemma gives_handler:
  assumes "st_type step \<noteq> ''jump_to''" and "st_type step \<noteq> ''branch_connector''"
  shows "gives (names_connector step steps) (runStepHandler E config steps step)"
  unfolding runStepHandler_def Let_def using assms
  by (simp add: gives_send gives_ask gives_others gives_branch gives_hours gives_base)

section \<open>What a job leaves alone\<close>

text \<open>
  \<open>steady\<close>: the workflows, the workflow of every run and the keys of the contexts stay as they are.
  \<open>silent\<close>: besides, no step is queued and no jump is counted.
\<close>

definition steady :: "wf \<Rightarrow> wf \<Rightarrow> bool" where
  "steady s t \<longleftrightarrow> f_workflows t = f_workflows s \<and> (ctx_keys s \<longrightarrow> ctx_keys t)
     \<and> map (\<lambda>r. (wr_id r, wr_workflowId r)) (f_runs t) = map (\<lambda>r. (wr_id r, wr_workflowId r)) (f_runs s)"

definition silent :: "wf \<Rightarrow> wf \<Rightarrow> bool" where
  "silent s t \<longleftrightarrow> steady s t \<and> exec_jobs t = exec_jobs s \<and> f_jumps t = f_jumps s"

interpretation steady: step_order steady
  by unfold_locales (auto simp: steady_def)

interpretation silent: step_order silent
  by unfold_locales (auto simp: silent_def steady_def)

lemma quiet_silent: "keeps quiet m \<Longrightarrow> keeps silent m"
  by (auto simp: keeps_def quiet_def calm_def silent_def steady_def)

lemma silent_run_update:
  assumes "\<And>r. wr_id (f r) = wr_id r \<and> wr_workflowId (f r) = wr_workflowId r"
  shows "keeps silent (run_update i f)"
proof (rule keepsI)
  fix s
  obtain r t where "run_update i f s = (r, t)" by (cases "run_update i f s")
  with run_update_writes [OF this] assms show "silent s (snd (run_update i f s))"
    by (auto simp: silent_def steady_def exec_jobs_def ctx_keys_def map_upd_where)
qed

lemma silent_end_run:
  assumes "\<And>now r. wr_id (f now r) = wr_id r \<and> wr_workflowId (f now r) = wr_workflowId r"
  shows "keeps silent (end_run E i c f ev err)"
  unfolding end_run_def
  by (intro silent.r_intros quiet_silent [OF quiet_reads(2)] quiet_silent [OF quiet_lifecycle(1)] quiet_silent [OF quiet_lifecycle(2)]
      silent_run_update) (use assms in simp)

lemma silent_wake: "silent s (snd (job_add (plain_job (JobResume p data)) s))"
  by (simp add: silent_def steady_def exec_jobs_def job_add_def plain_job_def io_simps ctx_keys_def)

lemma silent_completeRun: "silent s (snd (completeRun E i c s))"
proof (induction E i c s rule: completeRun.induct)
  case (1 E i c s)
  obtain q t where et: "end_run E i c completed_row ''workflow_ended'' None s = (q, t)"
    by (cases "end_run E i c completed_row ''workflow_ended'' None s")
  have st: "silent s t"
    by (rule keeps_result [OF silent_end_run et]) (simp add: completed_row_def)
  show ?case
  proof (cases q)
    case (Inl e)
    with et st show ?thesis by (simp add: completeRun.simps [of E i c s])
  next
    case (Inr x)
    show ?thesis
    proof (cases "parent_fate_of E c ''completed'' None t")
      case LeaveParent
      with et Inr st show ?thesis by (simp add: completeRun.simps [of E i c s])
    next
      case (WakeParent p data)
      with et Inr st silent_wake [of t] show ?thesis
        by (simp add: completeRun.simps [of E i c s]) (blast intro: silent.R_trans)
    next
      case (EndParent p pc)
      have "silent t (snd (saveContext_of E pc t))" by (rule keepsD [OF quiet_silent [OF quiet_save(1)]])
      moreover note "1.IH" [OF et [symmetric] Inr EndParent]
      ultimately have "silent s (snd (completeRun E p pc (snd (saveContext_of E pc t))))"
        using st by (blast intro: silent.R_trans)
      with et Inr EndParent show ?thesis by (simp add: completeRun.simps [of E i c s])
    qed
  qed
qed

lemma silent_failRun: "keeps silent (failRun E i c err)"
proof -
  have "keeps silent (resumeParentWorkflowAfterChild E c cs er)" for cs er
  proof (rule keepsI)
    fix s
    have "silent s (snd (completeRun E p pc (snd (saveContext_of E pc s))))" for p pc
      using silent_completeRun keepsD [OF quiet_silent [OF quiet_save(1)], of s] by (blast intro: silent.R_trans)
    then show "silent s (snd (resumeParentWorkflowAfterChild E c cs er s))"
      by (simp add: resumeParentWorkflowAfterChild_def silent.R_refl silent_wake split: parent_fate.split)
  qed
  moreover have "keeps silent (end_run E i c (\<lambda>now. failed_run_row now err) ev er)" for ev er
    by (rule silent_end_run) (simp add: failed_run_row_def)
  ultimately show ?thesis
    unfolding failRun_def by (intro silent.r_seq)
qed

section \<open>What a step queues\<close>

text \<open>
  \<open>queues i N m\<close>: the program counts no jump, and it queues nothing or one step of run \<open>i\<close>, whose id
  satisfies \<open>N\<close>.
\<close>

definition queued_at_most :: "string \<Rightarrow> (string \<Rightarrow> bool) \<Rightarrow> wf \<Rightarrow> wf \<Rightarrow> bool" where
  "queued_at_most i N s t \<longleftrightarrow> steady s t \<and> f_jumps t = f_jumps s \<and>
     (exec_jobs t = exec_jobs s \<or> (\<exists>n. N n \<and> exec_jobs t = exec_jobs s @ [(i, n)]))"

lemma silent_queued: "silent s t \<Longrightarrow> queued_at_most i N s t"
  by (simp add: silent_def queued_at_most_def)

lemma silent_then: "silent s t \<Longrightarrow> queued_at_most i N t u \<Longrightarrow> queued_at_most i N s u"
  by (auto simp: silent_def queued_at_most_def steady_def)

lemma queued_then: "queued_at_most i N s t \<Longrightarrow> silent t u \<Longrightarrow> queued_at_most i N s u"
  by (auto simp: silent_def queued_at_most_def steady_def)

lemma enqueue_queued: "N n \<Longrightarrow> queued_at_most i N s (snd (enqueueStep E i n s))"
  by (auto simp: queued_at_most_def steady_def enqueueStep_def wf_clock_def job_add_def io_simps exec_jobs_def ctx_keys_def)

definition queues :: "string \<Rightarrow> (string \<Rightarrow> bool) \<Rightarrow> 'a wfd \<Rightarrow> bool" where
  "queues i N m \<longleftrightarrow> (\<forall>s r t. m s = (r, t) \<longrightarrow> queued_at_most i N s t \<and> (\<forall>e. r = Inl e \<longrightarrow> silent s t))"

lemma queuesD: "queues i N m \<Longrightarrow> m s = (r, t) \<Longrightarrow> queued_at_most i N s t \<and> (\<forall>e. r = Inl e \<longrightarrow> silent s t)"
  by (simp add: queues_def)

lemma queues_silent: "keeps silent m \<Longrightarrow> queues i N m"
  by (auto simp: queues_def silent_queued dest: keeps_result)

lemma queues_enqueue: "N n \<Longrightarrow> queues i N (enqueueStep E i n)"
  unfolding queues_def
proof (intro allI impI conjI)
  fix s and r :: "exn + unit" and t e
  assume "N n" and run: "enqueueStep E i n s = (r, t)"
  then show "queued_at_most i N s t" using enqueue_queued [of N n i s E] by simp
  assume "r = Inl e"
  with run show "silent s t" by (simp add: enqueueStep_def wf_clock_def job_add_def io_simps)
qed

lemma queues_bind:
  assumes "keeps silent m" and "\<And>x. queues i N (f x)"
  shows "queues i N (bind_io m f)"
  unfolding queues_def
proof (intro allI impI)
  fix s r u
  assume run: "bind_io m f s = (r, u)"
  obtain q t where mt: "m s = (q, t)" by (cases "m s")
  have st: "silent s t" using keeps_result [OF assms(1) mt] .
  show "queued_at_most i N s u \<and> (\<forall>e. r = Inl e \<longrightarrow> silent s u)"
  proof (cases q)
    case (Inl e)
    with run mt st show ?thesis by (auto simp: io_simps silent_queued)
  next
    case (Inr x)
    with run mt have "f x t = (r, u)" by (simp add: io_simps)
    from queuesD [OF assms(2) this] st show ?thesis by (blast intro: silent_then silent.R_trans)
  qed
qed

lemma queues_seq: "keeps silent m \<Longrightarrow> queues i N n \<Longrightarrow> queues i N (seq_io m n)"
  unfolding seq_io_def by (rule queues_bind)

lemma queues_catch:
  assumes "queues i N m" and "\<And>e. queues i N (h e)"
  shows "queues i N (catch_io m h)"
  unfolding queues_def
proof (intro allI impI)
  fix s r u
  assume run: "catch_io m h s = (r, u)"
  obtain q t where mt: "m s = (q, t)" by (cases "m s")
  note st = queuesD [OF assms(1) mt]
  show "queued_at_most i N s u \<and> (\<forall>e. r = Inl e \<longrightarrow> silent s u)"
  proof (cases q)
    case (Inl e)
    with run mt have "h e t = (r, u)" by (simp add: io_simps)
    from queuesD [OF assms(2) this] st Inl show ?thesis by (blast intro: silent_then silent.R_trans)
  next
    case (Inr x)
    with run mt st show ?thesis by (auto simp: io_simps)
  qed
qed

lemma queues_cases:
  "queues i N m \<Longrightarrow> queues i N n \<Longrightarrow> queues i N (if b then m else n)"
  "queues i N m \<Longrightarrow> (\<And>x. v = Some x \<Longrightarrow> queues i N (f x)) \<Longrightarrow> queues i N (case v of None \<Rightarrow> m | Some x \<Rightarrow> f x)"
  by (simp_all split: option.split)

lemma queues_complete: "queues i N (completeRun E j c)"
  by (rule queues_silent) (rule keepsI, rule silent_completeRun)

lemmas silent_rules = quiet_silent [OF quiet_reads(1)] quiet_silent [OF quiet_reads(2)] quiet_silent [OF quiet_runSteps(1)]
  quiet_silent [OF quiet_runSteps(2)] quiet_silent [OF quiet_cur(1)] quiet_silent [OF quiet_save(2)]

lemma after_handler_queues:
  assumes "\<And>n. js_nullish (sr_next res) (findNextStep (st_id step) steps (sr_branch res)) = Some n \<Longrightarrow> N n"
  shows "queues i N (after_handler E i j step steps res)"
proof -
  have "keeps silent (seq_io (run_update i (\<lambda>r. r\<lparr>wr_status := RunWaiting\<rparr>)) (if b then markActiveRun E else ret ()))" for b
    by (intro silent.r_seq silent.r_if silent.r_ret quiet_silent [OF quiet_save(3)] silent_run_update) simp
  note parked = queues_silent [OF this]
  show ?thesis
    unfolding after_handler_def
    by (intro queues_bind queues_seq silent_rules queues_cases parked queues_complete queues_enqueue assms)
qed

lemma handleStepError_queues:
  assumes "\<And>k. k \<in> set steps \<Longrightarrow> is_connector_of step k \<Longrightarrow> N (st_id k)"
  shows "queues i N (handleStepError E j i step steps e)"
proof -
  have "N (st_id k)" if "find (\<lambda>k. is_connector_of step k \<and> st_name k = Some ''Error'') steps = Some k" for k
    using assms found_connector [OF that] by blast
  then show ?thesis
    unfolding handleStepError_def Let_def
    by (intro queues_bind queues_seq silent_rules queues_cases queues_silent [OF silent_failRun] queues_enqueue)
qed

section \<open>One step\<close>

text \<open>The steps that follow a step without a jump: its connectors, its children, and the children of its connectors.\<close>

definition follows :: "wf_step list \<Rightarrow> wf_step \<Rightarrow> string \<Rightarrow> bool" where
  "follows steps step n \<longleftrightarrow>
     (\<exists>k \<in> set steps. st_id k = n \<and> (st_parentId k = Some (st_id step) \<or>
        (\<exists>b \<in> set steps. is_connector_of step b \<and> st_parentId k = Some (st_id b))))"

lemma first_child_in: "first_child steps p = Some n \<Longrightarrow> \<exists>k \<in> set steps. st_id k = n \<and> st_parentId k = Some p"
  by (auto simp: first_child_def dest: find_Some_in)

lemma next_follows:
  assumes "names_connector step steps res" and "js_nullish (sr_next res) (findNextStep (st_id step) steps (sr_branch res)) = Some n"
  shows "follows steps step n"
proof (cases "js_truthy (sr_branch res)")
  case True
  then obtain b where b: "sr_branch res = Some b" by (auto elim: js_truthyE)
  with assms(1) obtain k where k: "k \<in> set steps" "is_connector_of step k" "st_id k = b"
    by (auto simp: names_connector_def)
  have "first_child steps b = Some n" using assms b True by (simp add: names_connector_def findNextStep_def)
  from first_child_in [OF this] k show ?thesis by (auto simp: follows_def)
next
  case False
  then have "first_child steps (st_id step) = Some n" using assms by (simp add: names_connector_def findNextStep_def)
  from first_child_in [OF this] show ?thesis by (auto simp: follows_def)
qed

lemma follows_connector: "k \<in> set steps \<Longrightarrow> is_connector_of step k \<Longrightarrow> follows steps step (st_id k)"
  by (auto simp: follows_def is_connector_of_def)

lemma follows_fewer:
  assumes good: "good_steps steps" and "follows steps step n"
  shows "card (descendants (map payload_of steps) n) < card (descendants (map payload_of steps) (st_id step))"
proof -
  obtain k where k: "k \<in> set steps" "st_id k = n"
    and way: "st_parentId k = Some (st_id step) \<or> (\<exists>b \<in> set steps. is_connector_of step b \<and> st_parentId k = Some (st_id b))"
    using assms(2) by (auto simp: follows_def)
  from way show ?thesis
  proof
    assume "st_parentId k = Some (st_id step)"
    with linked_descendants [OF good, of "[k]" "st_id step" k] k show ?thesis by simp
  next
    assume "\<exists>b \<in> set steps. is_connector_of step b \<and> st_parentId k = Some (st_id b)"
    then obtain b where "b \<in> set steps" "is_connector_of step b" "st_parentId k = Some (st_id b)" by blast
    with linked_descendants [OF good, of "[b, k]" "st_id step" k] k show ?thesis by (simp add: is_connector_of_def)
  qed
qed

definition jumped :: "wf_env \<Rightarrow> string \<Rightarrow> wf_step \<Rightarrow> wf \<Rightarrow> wf \<Rightarrow> bool" where
  "jumped E i step s t \<longleftrightarrow> st_type step = ''jump_to'' \<and>
     \<not> num_le (jump_limit E step) (Fin (of_nat (f_jumps s (i, st_id step)))) \<and>
     f_jumps t = (f_jumps s)((i, st_id step) := Suc (f_jumps s (i, st_id step)))"

definition one_step :: "wf_env \<Rightarrow> string \<Rightarrow> wf_step list \<Rightarrow> wf_step \<Rightarrow> wf \<Rightarrow> wf \<Rightarrow> bool" where
  "one_step E i steps step s t \<longleftrightarrow> queued_at_most i (follows steps step) s t \<or>
     (steady s t \<and> jumped E i step s t \<and> (exec_jobs t = exec_jobs s \<or> (\<exists>n. exec_jobs t = exec_jobs s @ [(i, n)])))"

lemma jump_outcome:
  assumes "handleJumpTo E step s = (q, t)" and "rc_runId (f_cur s) = i" and "st_type step = ''jump_to''"
  shows "(silent s t \<and> (\<forall>res. q = Inr res \<longrightarrow> names_connector step steps res)) \<or>
    (steady s t \<and> exec_jobs t = exec_jobs s \<and> jumped E i step s t \<and> (\<exists>res. q = Inr res))"
proof -
  have cur: "cur s = (Inr (f_cur s), s)" by (simp add: cur_def io_simps)
  have need: "need v s = (if v_nullish v then (Inl (TypeErrorException ''Cannot read properties of undefined''), s) else (Inr v, s))" for v
    by (simp add: need_def io_simps)
  consider (null) "v_nullish (st_data step)" | (none) "\<not> v_nullish (st_data step)" "\<not> v_truthy (v_fld (st_data step) ''targetStepId'')"
    | (full) "\<not> v_nullish (st_data step)" "v_truthy (v_fld (st_data step) ''targetStepId'')"
        "num_le (jump_limit E step) (Fin (of_nat (f_jumps s (i, st_id step))))"
    | (jump) "\<not> v_nullish (st_data step)" "v_truthy (v_fld (st_data step) ''targetStepId'')"
        "\<not> num_le (jump_limit E step) (Fin (of_nat (f_jumps s (i, st_id step))))" by blast
  then show ?thesis
  proof cases
    case null
    with assms show ?thesis by (auto simp: handleJumpTo_def bind_io_def need silent.R_refl)
  next
    case none
    with assms show ?thesis by (auto simp: handleJumpTo_def bind_io_def need Let_def ret_def silent.R_refl)
  next
    case full
    with assms show ?thesis by (auto simp: handleJumpTo_def bind_io_def need cur gets_def Let_def ret_def silent.R_refl)
  next
    case jump
    with assms have "q = Inr ((plain_result [(''jumped'', JBool True), (''to'', v_fld (st_data step) ''targetStepId'')])
        \<lparr>sr_next := Some (js_String (we_js E) (v_fld (st_data step) ''targetStepId''))\<rparr>)"
      and "f_jumps t = (f_jumps s)((i, st_id step) := Suc (f_jumps s (i, st_id step)))"
      and "f_runs t = f_runs s" "f_workflows t = f_workflows s" "f_queue t = f_queue s" "f_ctx t = f_ctx s"
      by (auto simp: handleJumpTo_def bind_io_def seq_io_def need cur gets_def Let_def ret_def del_var_def upd_cur_def modify_def)
    with jump assms(3) show ?thesis
      by (simp add: jumped_def steady_def exec_jobs_def ctx_keys_def)
  qed
qed

lemma caught:
  assumes "queues i N m" and "\<And>e. queues i N (h e)"
  shows "queued_at_most i N t (snd (case m t of (Inl e, u) \<Rightarrow> h e u | (Inr y, u) \<Rightarrow> (Inr y, u)))"
proof -
  obtain r u where "catch_io m h t = (r, u)" by (cases "catch_io m h t")
  with queuesD [OF queues_catch [OF assms] this] show ?thesis by (simp add: catch_io_def)
qed

lemma run_step_once:
  assumes "rc_runId (f_cur s) = i" and "run_step E i config step s = (r, t)"
  shows "one_step E i (config_steps config) step s t"
proof (cases "st_type step = ''jump_to''")
  case False
  let ?steps = "config_steps config"
  have err: "queues i (follows ?steps step) (handleStepError E j i step ?steps e)" for j e
    by (rule handleStepError_queues) (rule follows_connector)
  have res: "js_nullish (sr_next x) (findNextStep (st_id step) ?steps (sr_branch x)) = Some n \<Longrightarrow> follows ?steps step n"
    if "runStepHandler E config ?steps step u = (Inr x, v)" for x n u v
  proof (cases "st_type step = ''branch_connector''")
    case True
    have "x = (plain_result [])\<lparr>sr_next := first_child ?steps (st_id step)\<rparr>"
      using that True by (simp add: runStepHandler_def handleBranchConnector_def io_simps)
    moreover assume "js_nullish (sr_next x) (findNextStep (st_id step) ?steps (sr_branch x)) = Some n"
    ultimately have "first_child ?steps (st_id step) = Some n"
      by (cases "first_child ?steps (st_id step)") (simp_all add: plain_result_def findNextStep_def)
    from first_child_in [OF this] show ?thesis by (auto simp: follows_def)
  next
    case conn: False
    have "names_connector step ?steps x"
      using gives_handler [OF False conn, of ?steps E config] that by (auto simp: gives_def)
    moreover assume "js_nullish (sr_next x) (findNextStep (st_id step) ?steps (sr_branch x)) = Some n"
    ultimately show ?thesis by (rule next_follows)
  qed
  have handled: "queues i (follows ?steps step) (bind_io (runStepHandler E config ?steps step) (after_handler E i j step ?steps))" for j
    unfolding queues_def
  proof (intro allI impI)
    fix s r u
    assume run: "bind_io (runStepHandler E config ?steps step) (after_handler E i j step ?steps) s = (r, u)"
    obtain q t where mt: "runStepHandler E config ?steps step s = (q, t)" by (cases "runStepHandler E config ?steps step s")
    have st: "silent s t" using keeps_result [OF quiet_silent [OF quiet_handler [OF False]] mt] .
    show "queued_at_most i (follows ?steps step) s u \<and> (\<forall>e. r = Inl e \<longrightarrow> silent s u)"
    proof (cases q)
      case (Inl e)
      with run mt st show ?thesis by (auto simp: io_simps silent_queued)
    next
      case (Inr x)
      with run mt have "after_handler E i j step ?steps x t = (r, u)" by (simp add: io_simps)
      from queuesD [OF after_handler_queues this, of "follows ?steps step"] res [OF mt [unfolded Inr]] st
      show ?thesis by (blast intro: silent_then silent.R_trans)
    qed
  qed
  have at_step: "keeps silent (run_update i (\<lambda>r. r\<lparr>wr_currentStepId := Some k\<rparr>))" for k
    by (rule silent_run_update) simp
  have "queues i (follows ?steps step) (run_step E i config step)"
    unfolding run_step_def Let_def by (intro queues_bind queues_seq queues_catch silent_rules at_step handled err)
  from queuesD [OF this assms(2)] show ?thesis by (simp add: one_step_def)
next
  case True
  let ?steps = "config_steps config"
  obtain j s1 where s1: "runStep_create E i step s = (Inr j, s1)" "silent s s1" "f_cur s1 = f_cur s"
    using keepsD [OF quiet_silent [OF quiet_runSteps(1)], of s E i step] by (simp add: runStep_create_def io_simps)
  let ?up = "run_update i (\<lambda>r. r\<lparr>wr_currentStepId := Some (st_id step)\<rparr>)"
  obtain q2 s2 where s2: "?up s1 = (q2, s2)" by (cases "?up s1")
  have "keeps silent ?up" by (rule silent_run_update) simp
  from keepsD [OF this, of s1] s2 have "silent s1 s2" by simp
  with s1(2) have s12: "silent s s2" by (rule silent.R_trans)
  have cur2: "rc_runId (f_cur s2) = i"
    using run_update_writes [OF s2] s1(3) assms(1) by auto
  let ?all = "\<lambda>_ :: string. True"
  have after: "queues i ?all (after_handler E i j step ?steps res)" for res
    by (rule after_handler_queues) simp
  have err: "queues i (follows ?steps step) (handleStepError E j i step ?steps e)" for e
    by (rule handleStepError_queues) (rule follows_connector)
  have err_all: "queues i ?all (handleStepError E j i step ?steps e)" for e
    by (rule handleStepError_queues) simp
  show ?thesis
  proof (cases q2)
    case (Inl e)
    with assms(2) s1(1) s2 have "t = s2" by (simp add: run_step_def io_simps Let_def)
    with s12 show ?thesis by (simp add: one_step_def silent_queued)
  next
    case (Inr x)
    obtain q3 s3 where s3: "handleJumpTo E step s2 = (q3, s3)" by (cases "handleJumpTo E step s2")
    let ?m = "bind_io (\<lambda>_. (q3, s3)) (after_handler E i j step ?steps)"
    have t: "t = snd (catch_io (bind_io (handleJumpTo E step) (after_handler E i j step ?steps)) (handleStepError E j i step ?steps) s2)"
      using assms(2) s1(1) s2 Inr True by (simp add: run_step_def io_simps Let_def runStepHandler_def)
    then have t: "t = snd (case (case q3 of Inl e \<Rightarrow> (Inl e, s3) | Inr res \<Rightarrow> after_handler E i j step ?steps res s3) of
        (Inl e, u) \<Rightarrow> handleStepError E j i step ?steps e u | (Inr y, u) \<Rightarrow> (Inr y, u))"
      using s3 by (simp add: io_simps split: sum.split)
    from jump_outcome [OF s3 cur2 True, of ?steps] show ?thesis
    proof
      assume calm: "silent s2 s3 \<and> (\<forall>res. q3 = Inr res \<longrightarrow> names_connector step ?steps res)"
      have "queued_at_most i (follows ?steps step) s3 t"
      proof (cases q3)
        case (Inl e)
        have "queued_at_most i (follows ?steps step) s3 (snd (handleStepError E j i step ?steps e s3))"
          using queuesD [OF err] by (metis prod.collapse)
        with t Inl show ?thesis by simp
      next
        case (Inr res)
        with calm have "queues i (follows ?steps step) (after_handler E i j step ?steps res)"
          by (intro after_handler_queues) (blast intro: next_follows)
        from caught [OF this err, of s3] t Inr show ?thesis by simp
      qed
      with calm s12 have "queued_at_most i (follows ?steps step) s t" by (blast intro: silent_then)
      then show ?thesis by (simp add: one_step_def)
    next
      assume j: "steady s2 s3 \<and> exec_jobs s3 = exec_jobs s2 \<and> jumped E i step s2 s3 \<and> (\<exists>res. q3 = Inr res)"
      then obtain res where res: "q3 = Inr res" by blast
      from caught [OF after [of res] err_all, of s3] t res have "queued_at_most i ?all s3 t" by simp
      with j s12 show ?thesis
        by (auto simp: one_step_def queued_at_most_def silent_def steady_def jumped_def)
    qed
  qed
qed

section \<open>The chain of steps of a run\<close>

text \<open>
  The worker's loop on one run: execute a step, then the step that it queued, until none is queued.
  The first argument bounds the number of steps.
\<close>

fun drive :: "nat \<Rightarrow> wf_env \<Rightarrow> string \<Rightarrow> string \<Rightarrow> wf \<Rightarrow> wf option" where
  "drive 0 E i k s = None"
| "drive (Suc n) E i k s =
     (let t = snd (executeStep E i k s) in
      case drop (length (exec_jobs s)) (exec_jobs t) of [] \<Rightarrow> Some t | (j, m) # _ \<Rightarrow> drive n E j m t)"

text \<open>The jumps a step may make, and those that are left in a state.\<close>

definition jump_cap :: "wf_env \<Rightarrow> wf_step \<Rightarrow> nat" where
  "jump_cap E k = (if st_type k = ''jump_to'' then (case jump_limit E k of Fin q \<Rightarrow> nat \<lceil>q\<rceil> | _ \<Rightarrow> 0) else 0)"

definition jumps_left :: "wf_env \<Rightarrow> wf_step list \<Rightarrow> string \<Rightarrow> wf \<Rightarrow> nat" where
  "jumps_left E steps i s = sum_list (map (\<lambda>k. jump_cap E k - f_jumps s (i, st_id k)) steps)"

definition finite_jumps :: "wf_env \<Rightarrow> wf_step list \<Rightarrow> bool" where
  "finite_jumps E steps \<longleftrightarrow> (\<forall>k \<in> set steps. st_type k = ''jump_to'' \<longrightarrow> num_finite (jump_limit E k))"

definition chain_measure :: "wf_env \<Rightarrow> wf_step list \<Rightarrow> string \<Rightarrow> string \<Rightarrow> wf \<Rightarrow> nat" where
  "chain_measure E steps i k s =
     jumps_left E steps i s * Suc (length steps) + card (descendants (map payload_of steps) k)"

lemma sum_list_less:
  fixes f g :: "'a \<Rightarrow> nat"
  assumes "\<And>x. x \<in> set xs \<Longrightarrow> f x \<le> g x" and "y \<in> set xs" and "f y < g y"
  shows "sum_list (map f xs) < sum_list (map g xs)"
  using assms
proof (induction xs)
  case Nil
  then show ?case by simp
next
  case (Cons x xs)
  have le: "sum_list (map f xs) \<le> sum_list (map g xs)" using Cons.prems(1) by (intro sum_list_mono) simp
  show ?case
  proof (cases "y = x")
    case True
    with Cons.prems(3) le show ?thesis by simp
  next
    case False
    with Cons have "sum_list (map f xs) < sum_list (map g xs)" by simp
    moreover have "f x \<le> g x" using Cons.prems(1) by simp
    ultimately show ?thesis by simp
  qed
qed

lemma jump_uses:
  assumes fin: "finite_jumps E steps" and step: "step \<in> set steps" and "jumped E i step s t"
  shows "jumps_left E steps i t < jumps_left E steps i s"
  unfolding jumps_left_def
proof (rule sum_list_less [OF _ step])
  have t: "f_jumps t = (f_jumps s)((i, st_id step) := Suc (f_jumps s (i, st_id step)))"
    and jump: "st_type step = ''jump_to''" and less: "\<not> num_le (jump_limit E step) (Fin (of_nat (f_jumps s (i, st_id step))))"
    using assms(3) by (auto simp: jumped_def)
  then show "jump_cap E k - f_jumps t (i, st_id k) \<le> jump_cap E k - f_jumps s (i, st_id k)" for k
    by (cases "st_id k = st_id step") (simp_all add: diff_le_mono2)
  obtain q where q: "jump_limit E step = Fin q"
    using fin step jump by (cases "jump_limit E step") (auto simp: finite_jumps_def num_finite_def)
  with less have "of_nat (f_jumps s (i, st_id step)) < q" by simp
  then have "int (f_jumps s (i, st_id step)) < \<lceil>q\<rceil>" by (simp add: less_ceiling_iff)
  then have "f_jumps s (i, st_id step) < jump_cap E step" using q jump by (simp add: jump_cap_def)
  with t show "jump_cap E step - f_jumps t (i, st_id step) < jump_cap E step - f_jumps s (i, st_id step)" by simp
qed

definition steps_of_run :: "wf \<Rightarrow> string \<Rightarrow> wf_step list" where
  "steps_of_run s i =
     (case find_run s i of
        None \<Rightarrow> []
      | Some r \<Rightarrow> (case find_workflow s (wr_workflowId r) of None \<Rightarrow> [] | Some w \<Rightarrow> config_steps (wk_config w)))"

lemma steady_steps:
  assumes "steady s t"
  shows "steps_of_run t i = steps_of_run s i"
proof -
  have "map_option wr_workflowId (find (\<lambda>r. wr_id r = i) xs) = map_of (map (\<lambda>r. (wr_id r, wr_workflowId r)) xs) i" for xs
    by (induction xs) auto
  note this [of "f_runs t"] this [of "f_runs s"]
  then have "map_option wr_workflowId (find_run t i) = map_option wr_workflowId (find_run s i)"
    using assms unfolding find_run_def steady_def by argo
  then show ?thesis
    using assms by (auto simp: steps_of_run_def steady_def find_workflow_def split: option.splits)
qed

lemma upd_cur_then: "seq_io (upd_cur f) m s = m (s\<lparr>f_cur := f (f_cur s)\<rparr>)"
  by (simp add: upd_cur_def io_simps)

lemma execute_once:
  assumes "ctx_keys s" and "executeStep E i k s = (r, t)"
  shows "silent s t \<or> (\<exists>step \<in> set (steps_of_run s i). st_id step = k \<and> one_step E i (steps_of_run s i) step s t)"
proof (cases "find_run s i")
  case None
  with assms show ?thesis by (auto simp: executeStep_def bind_gets ret_def silent.R_refl)
next
  case (Some run)
  show ?thesis
  proof (cases "wr_status run \<noteq> RunRunning \<and> wr_status run \<noteq> RunWaiting \<or> ttl_get (we_now E s) (f_ctx s i) = None
      \<or> find_workflow s (wr_workflowId run) = None \<or> v_nullish (wk_config (the (find_workflow s (wr_workflowId run))))")
    case True
    with assms Some have "t = s"
      by (cases "ttl_get (we_now E s) (f_ctx s i)"; cases "find_workflow s (wr_workflowId run)")
        (auto simp: executeStep_def bind_gets ret_def loadContext_def need_then split: if_splits)
    then show ?thesis by (simp add: silent.R_refl)
  next
    case False
    then obtain c w where c: "ttl_get (we_now E s) (f_ctx s i) = Some c" and w: "find_workflow s (wr_workflowId run) = Some w"
      and live: "wr_status run = RunRunning \<or> wr_status run = RunWaiting" and conf: "\<not> v_nullish (wk_config w)" by auto
    obtain e where "f_ctx s i = Some (c, e)" using c by (auto simp: ttl_get_def split: option.splits if_splits)
    with assms(1) have ci: "rc_runId c = i" by (auto simp: ctx_keys_def)
    let ?s = "s\<lparr>f_cur := c\<rparr>" and ?steps = "config_steps (wk_config w)"
    have same: "silent s ?s" by (simp add: silent_def steady_def exec_jobs_def ctx_keys_def)
    have steps: "steps_of_run s i = ?steps" using Some w by (simp add: steps_of_run_def)
    have run: "(case find (\<lambda>s. st_id s = k) ?steps of None \<Rightarrow> completeRun E i c | Some step \<Rightarrow> run_step E i (wk_config w) step) ?s = (r, t)"
      using assms(2) Some live c w conf
      by (auto simp: executeStep_def bind_gets loadContext_def need_then upd_cur_then)
    show ?thesis
    proof (cases "find (\<lambda>s. st_id s = k) ?steps")
      case None
      with run have "t = snd (completeRun E i c ?s)" by simp
      with same silent_completeRun [of ?s E i c] show ?thesis by (blast intro: silent.R_trans)
    next
      case (Some step)
      with run have "run_step E i (wk_config w) step ?s = (r, t)" by simp
      from run_step_once [OF _ this] ci have "one_step E i ?steps step ?s t" by simp
      then have "one_step E i ?steps step s t"
        using same by (auto simp: one_step_def jumped_def steady_def silent_def queued_at_most_def)
      with Some steps show ?thesis by (auto dest: find_Some_in)
    qed
  qed
qed

lemma execute_measure:
  assumes "ctx_keys s" and good: "good_steps (steps_of_run s i)" and fin: "finite_jumps E (steps_of_run s i)"
    and run: "executeStep E i k s = (r, t)"
  shows "exec_jobs t = exec_jobs s \<or>
    (\<exists>n. exec_jobs t = exec_jobs s @ [(i, n)] \<and> steady s t \<and>
      chain_measure E (steps_of_run s i) i n t < chain_measure E (steps_of_run s i) i k s)"
proof -
  let ?steps = "steps_of_run s i"
  have "exec_jobs t = exec_jobs s" if "silent s t" using that by (simp add: silent_def)
  moreover have ?thesis if step: "step \<in> set ?steps" "st_id step = k" and one: "one_step E i ?steps step s t" for step
  proof -
    from one [unfolded one_step_def] show ?thesis
    proof
      assume q: "queued_at_most i (follows ?steps step) s t"
      then have "jumps_left E ?steps i t = jumps_left E ?steps i s" by (simp add: queued_at_most_def jumps_left_def)
      with q follows_fewer [OF good, of step] step(2) show ?thesis by (auto simp: queued_at_most_def chain_measure_def)
    next
      assume j: "steady s t \<and> jumped E i step s t \<and> (exec_jobs t = exec_jobs s \<or> (\<exists>n. exec_jobs t = exec_jobs s @ [(i, n)]))"
      then have "jumps_left E ?steps i t < jumps_left E ?steps i s" using jump_uses [OF fin step(1)] by blast
      then have "Suc (jumps_left E ?steps i t) * Suc (length ?steps) \<le> jumps_left E ?steps i s * Suc (length ?steps)"
        by (intro mult_le_mono1) simp
      moreover have "chain_measure E ?steps i n t < Suc (jumps_left E ?steps i t) * Suc (length ?steps)" for n
        using descendants_bound [of "map payload_of ?steps" n] by (simp add: chain_measure_def)
      moreover have "jumps_left E ?steps i s * Suc (length ?steps) \<le> chain_measure E ?steps i k s"
        by (simp add: chain_measure_def)
      ultimately have "chain_measure E ?steps i n t < chain_measure E ?steps i k s" for n
        by (meson le_trans less_le_trans)
      with j show ?thesis by blast
    qed
  qed
  ultimately show ?thesis using execute_once [OF assms(1) run] by blast
qed

lemma drive_ends:
  "ctx_keys s \<Longrightarrow> good_steps (steps_of_run s i) \<Longrightarrow> finite_jumps E (steps_of_run s i) \<Longrightarrow>
    chain_measure E (steps_of_run s i) i k s < n \<Longrightarrow> \<exists>t. drive n E i k s = Some t"
proof (induction n arbitrary: k s)
  case 0
  then show ?case by simp
next
  case (Suc n)
  obtain r t where run: "executeStep E i k s = (r, t)" by (cases "executeStep E i k s")
  from execute_measure [OF Suc.prems(1-3) run] show ?case
  proof
    assume "exec_jobs t = exec_jobs s"
    with run show ?thesis by simp
  next
    assume "\<exists>m. exec_jobs t = exec_jobs s @ [(i, m)] \<and> steady s t \<and>
      chain_measure E (steps_of_run s i) i m t < chain_measure E (steps_of_run s i) i k s"
    then obtain m where m: "exec_jobs t = exec_jobs s @ [(i, m)]" "steady s t"
      "chain_measure E (steps_of_run s i) i m t < chain_measure E (steps_of_run s i) i k s" by blast
    have "ctx_keys t" using m(2) Suc.prems(1) by (simp add: steady_def)
    moreover have "chain_measure E (steps_of_run t i) i m t < n"
      using m(3) Suc.prems(4) steady_steps [OF m(2)] by simp
    ultimately have "\<exists>u. drive n E i m t = Some u"
      using Suc.IH [of t m] Suc.prems(2,3) steady_steps [OF m(2)] by simp
    with run m(1) show ?thesis by simp
  qed
qed

lemma validated_good:
  assumes "validateWorkflowConfig config = Inr ()" and "''trigger'' \<notin> st_id ` set (config_steps config)"
  shows "good_steps (config_steps config)"
proof (cases "v_arr (v_fld config ''steps'')")
  case Nil
  then show ?thesis by (simp add: config_steps_def good_steps_def forest_def)
next
  case (Cons a list)
  then have "is_arr (v_fld config ''steps'')" "\<not> v_nullish config" "\<not> v_nullish (v_fld config ''steps'')"
    by (auto simp: v_arr_def is_arr_def v_nullish_def split: jsv.splits)
  then have typed: "list_all well_typed_step (v_arr (v_fld config ''steps''))" and "forest (map payload_of (config_steps config))"
    using assms(1) unfolding validate_iff by auto
  moreover have "js_truthy (Some (st_id s)) \<and> js_truthy (st_parentId s)" if mem: "s \<in> set (config_steps config)" for s
  proof -
    obtain j where j: "j \<in> set (v_arr (v_fld config ''steps''))" "s = step_of_json j"
      using mem by (auto simp: config_steps_def)
    with typed obtain a b where "v_fld j ''id'' = JStr a" "js_trim a \<noteq> []" "v_fld j ''parentId'' = JStr b" "js_trim b \<noteq> []"
      by (auto simp: list_all_iff well_typed_step_def elim!: nonempty_strE)
    with j show ?thesis by (auto simp: step_of_json_def opt_str_def v_str_def)
  qed
  ultimately show ?thesis using assms(2) by (simp add: good_steps_def)
qed

text \<open>
  C7: A run of a stored workflow does not loop on its own: if the configuration passed the validation,
  no step has the id \<^verbatim>\<open>trigger\<close> and every jump has a numeric limit, then from any step the chain of
  executed steps ends, whatever the messages, requests, branches and errors do, after at most as
  many steps as the jumps and the size of the tree allow. Every further step needs a new event: an
  answer, the end of a wait or of a sub-workflow.
\<close>

theorem run_chain_terminates:
  assumes "find_run s i = Some run" and "find_workflow s (wr_workflowId run) = Some w"
    and "validateWorkflowConfig (wk_config w) = Inr ()" and "''trigger'' \<notin> st_id ` set (config_steps (wk_config w))"
    and "finite_jumps E (config_steps (wk_config w))" and "ctx_keys s"
  shows "\<exists>t. drive (Suc (sum_list (map (jump_cap E) (config_steps (wk_config w))) * Suc (length (config_steps (wk_config w)))
      + length (config_steps (wk_config w)))) E i k s = Some t"
proof -
  have steps: "steps_of_run s i = config_steps (wk_config w)" using assms(1,2) by (simp add: steps_of_run_def)
  have "jumps_left E (steps_of_run s i) i s \<le> sum_list (map (jump_cap E) (steps_of_run s i))"
    unfolding jumps_left_def by (rule sum_list_mono) simp
  then have "jumps_left E (steps_of_run s i) i s * Suc (length (steps_of_run s i))
      \<le> sum_list (map (jump_cap E) (steps_of_run s i)) * Suc (length (steps_of_run s i))"
    by (rule mult_le_mono1)
  then have "chain_measure E (steps_of_run s i) i k s
      < Suc (sum_list (map (jump_cap E) (steps_of_run s i)) * Suc (length (steps_of_run s i)) + length (steps_of_run s i))"
    using descendants_bound [of "map payload_of (steps_of_run s i)" k] unfolding chain_measure_def by simp
  from drive_ends [OF assms(6) _ _ this] validated_good [OF assms(3,4)] assms(5) show ?thesis by (simp add: steps)
qed

section \<open>A workflow with a loop\<close>

definition sample_js :: js_runtime where
  "sample_js = \<lparr>js_date_parse = (\<lambda>_. NaN), js_date_string = (\<lambda>_. []), js_date_iso = (\<lambda>_. []), js_valid_zone = (\<lambda>_. False),
     js_weekday = (\<lambda>_ _. []), js_time = (\<lambda>_ _. []), js_ymd = (\<lambda>_ _. ([], [], [])), js_url_ok = (\<lambda>_. True),
     js_star = ''*'', js_star_count = (\<lambda>_. None)\<rparr>"

definition sample_wf_env :: wf_env where
  "sample_wf_env = \<lparr>we_js = sample_js, we_now = (\<lambda>s. int (length (f_runSteps s))), we_newid = (\<lambda>s. concat (map wr_id (f_runs s)) @ ''n''),
     we_outbound = (\<lambda>_ _. None), we_fetch = (\<lambda>_ _. Inl ''no network''), we_activity = True, we_activity_ok = (\<lambda>_. True),
     we_notices = False, we_nullJson = True\<rparr>"

definition loop_config :: jsv where
  "loop_config = JObj [(''trigger'', JObj [(''type'', JStr ''manual_trigger'')]),
     (''steps'', JArr [demo_step ''a'' ''open_conversation'' ''trigger'' [] [],
       demo_step ''b'' ''jump_to'' ''a'' [] [(''targetStepId'', JStr ''a'')]])]"

definition sample_workflow :: wf_row where
  "sample_workflow = \<lparr>wk_id = ''w'', wk_workspaceId = ''ws'', wk_name = ''Loop'', wk_description = None, wk_createBy = ''u'',
     wk_publishedAt = None, wk_publishedBy = None, wk_config = loop_config, wk_status = ''published''\<rparr>"

definition sample_ctx :: wf_ctx where
  "sample_ctx = \<lparr>rc_runId = ''r'', rc_workflowId = ''w'', rc_workflowName = Some ''Loop'', rc_workspaceId = ''ws'', rc_contactId = ''c'',
     rc_conversationId = None, rc_contact = [], rc_trigger = [], rc_steps = [], rc_vars = []\<rparr>"

definition sample_run :: wf_run where
  "sample_run = new_run ''r'' 0 ''ws'' ''w'' ''c'' []"

definition sample_wf :: wf where
  "sample_wf = \<lparr>f_workflows = [sample_workflow], f_runs = [sample_run], f_runSteps = [], f_ctx = [''r'' \<mapsto> (sample_ctx, 86400000)],
     f_active = Map.empty, f_jumps = (\<lambda>_. 0), f_rr = (\<lambda>_. 0), f_queue = [], f_jobIds = [], f_contacts = [], f_contactTags = [],
     f_tags = [], f_convs = [], f_members = [], f_teamMembers = [], f_lifecycles = [], f_teams = [], f_channels = [],
     f_activities = [], f_notes = [], f_notices = [], f_sent = [], f_cur = sample_ctx\<rparr>"

lemma loop_steps: "config_steps loop_config =
  [\<lparr>st_id = ''a'', st_type = ''open_conversation'', st_parentId = Some ''trigger'', st_name = None, st_data = JObj []\<rparr>,
   \<lparr>st_id = ''b'', st_type = ''jump_to'', st_parentId = Some ''a'', st_name = None, st_data = JObj [(''targetStepId'', JStr ''a'')]\<rparr>]"
  by (simp add: loop_config_def demo_step_def config_steps_def step_of_json_def opt_str_def v_arr_def v_str_def)

theorem run_chain_terminates_witness:
  "\<exists>t. drive 12 sample_wf_env ''r'' ''a'' sample_wf = Some t"
proof -
  have valid: "validateWorkflowConfig (wk_config sample_workflow) = Inr ()" by code_simp
  have limit: "jump_limit sample_wf_env k = Fin 3" if "v_fld (st_data k) ''maxJumps'' = JUndef" for k
    using that by (simp add: jump_limit_def js_Number_def)
  have "\<exists>t. drive (Suc (sum_list (map (jump_cap sample_wf_env) (config_steps (wk_config sample_workflow)))
      * Suc (length (config_steps (wk_config sample_workflow))) + length (config_steps (wk_config sample_workflow))))
      sample_wf_env ''r'' ''a'' sample_wf = Some t"
  proof (rule run_chain_terminates [where run = sample_run])
    show "find_run sample_wf ''r'' = Some sample_run" by (simp add: find_run_def sample_wf_def sample_run_def new_run_def)
    show "find_workflow sample_wf (wr_workflowId sample_run) = Some sample_workflow"
      by (simp add: find_workflow_def sample_wf_def sample_run_def new_run_def sample_workflow_def)
    show "''trigger'' \<notin> st_id ` set (config_steps (wk_config sample_workflow))" by (simp add: sample_workflow_def loop_steps)
    show "finite_jumps sample_wf_env (config_steps (wk_config sample_workflow))"
      by (simp add: sample_workflow_def loop_steps finite_jumps_def limit num_finite_def)
    show "ctx_keys sample_wf" by (simp add: ctx_keys_def sample_wf_def sample_ctx_def)
  qed (rule valid)
  then show ?thesis by (simp add: sample_workflow_def loop_steps jump_cap_def limit)
qed

text \<open>
  Without the condition on the id the claim is false: the validation accepts a step with the id
  \<^verbatim>\<open>trigger\<close>, and that step is its own successor.
\<close>

theorem trigger_id_loops:
  "validateWorkflowConfig (JObj [(''steps'', JArr [demo_step ''trigger'' ''open_conversation'' ''trigger'' [] []])]) = Inr ()
   \<and> findNextStep ''trigger'' (config_steps (JObj [(''steps'', JArr [demo_step ''trigger'' ''open_conversation'' ''trigger'' [] []])])) None
       = Some ''trigger''"
proof
  show "validateWorkflowConfig (JObj [(''steps'', JArr [demo_step ''trigger'' ''open_conversation'' ''trigger'' [] []])]) = Inr ()"
    by code_simp
  show "findNextStep ''trigger'' (config_steps (JObj [(''steps'', JArr [demo_step ''trigger'' ''open_conversation'' ''trigger'' [] []])])) None
      = Some ''trigger''"
    by (simp add: findNextStep_def first_child_def config_steps_def demo_step_def step_of_json_def opt_str_def v_arr_def v_str_def)
qed

end
