(* ===== verification/Workflow_System.thy ===== *)
theory Workflow_System
  imports Workflow_Pages Workflow_Termination
begin

text \<open>
  The workflow module as a whole: the worker that takes jobs from the queue in any order and may
  retry one that failed, the events and inbound messages, the requests of users and the changes that
  other modules make. What holds of every sequence of these steps.
\<close>

section \<open>Requests\<close>

datatype wf_request =
    ReqCreate wf_dto
  | ReqUpdate string wf_dto
  | ReqRename string jsv
  | ReqPublish string
  | ReqStop string
  | ReqClone string jsv
  | ReqDelete string

definition perform :: "wf_env \<Rightarrow> string \<Rightarrow> string \<Rightarrow> wf_request \<Rightarrow> unit wfd" where
  "perform E workspaceId userId req =
     (case req of
        ReqCreate dto \<Rightarrow> seq_io (create E workspaceId dto userId) (ret ())
      | ReqUpdate i dto \<Rightarrow> update E workspaceId i dto
      | ReqRename i name \<Rightarrow> rename workspaceId i name
      | ReqPublish i \<Rightarrow> publish E workspaceId i userId
      | ReqStop i \<Rightarrow> stop workspaceId i
      | ReqClone i name \<Rightarrow> seq_io (clone E workspaceId i name userId) (ret ())
      | ReqDelete i \<Rightarrow> delete workspaceId i)"

section \<open>The engine leaves the workflows alone\<close>

definition same_wfs :: "wf \<Rightarrow> wf \<Rightarrow> bool" where
  "same_wfs s t \<longleftrightarrow> f_workflows t = f_workflows s"

interpretation same_wfs: step_order same_wfs
  by unfold_locales (auto simp: same_wfs_def)

lemma calm_wfs: "keeps calm m \<Longrightarrow> keeps same_wfs m"
  by (simp add: keeps_def calm_def same_wfs_def)

lemma quiet_wfs: "keeps quiet m \<Longrightarrow> keeps same_wfs m"
  by (rule calm_wfs [OF quiet_calm])

lemma silent_wfs: "keeps silent m \<Longrightarrow> keeps same_wfs m"
  by (simp add: keeps_def silent_def steady_def same_wfs_def)

lemma ends_wfs: "keeps same_wfs (completeRun E i c)" "keeps same_wfs (failRun E i c err)"
  by (rule silent_wfs, rule keepsI, rule silent_completeRun) (rule silent_wfs [OF silent_failRun])

lemma queue_wfs: "keeps same_wfs (job_add q)" "keeps same_wfs (enqueueStep E i k)"
proof -
  show add: "keeps same_wfs (job_add q)" for q
    unfolding job_add_def by (rule same_wfs.r_modify) (simp add: same_wfs_def split: option.split)
  show "keeps same_wfs (enqueueStep E i k)"
    unfolding enqueueStep_def by (intro same_wfs.r_intros quiet_wfs [OF quiet_reads(2)] add)
qed

lemma run_update_wfs: "keeps same_wfs (run_update i f)"
  by (rule keepsI) (simp add: run_update_def wf_update_def same_wfs_def split: option.split)

lemmas wfs_rules = same_wfs.r_intros ends_wfs queue_wfs run_update_wfs calm_wfs [OF calm_handler]
  quiet_wfs [OF quiet_reads(1)] quiet_wfs [OF quiet_reads(2)] quiet_wfs [OF quiet_reads(3)] quiet_wfs [OF quiet_reads(4)]
  quiet_wfs [OF quiet_cur(1)] quiet_wfs [OF quiet_save(2)] quiet_wfs [OF quiet_save(3)]
  quiet_wfs [OF quiet_runSteps(1)] quiet_wfs [OF quiet_runSteps(2)] quiet_wfs [OF quiet_lifecycle(1)]
  quiet_wfs [OF quiet_conversation(3)] quiet_wfs [OF quiet_lift] quiet_wfs [OF quiet_need]

lemma run_job_wfs: "keeps same_wfs (run_job E job)"
proof -
  have start: "keeps same_wfs (startRun E ws w k conv td)" for ws w k conv td
  proof -
    have "keeps same_wfs (modify (\<lambda>s. s\<lparr>f_runs := f_runs s @ [r], f_cur := c\<rparr>))" for r c
      by (rule same_wfs.r_modify) (simp add: same_wfs_def)
    then show ?thesis unfolding startRun_def by (intro wfs_rules)
  qed
  have err: "keeps same_wfs (handleStepError E j i step steps e)" for j i step steps e
    unfolding handleStepError_def Let_def by (intro wfs_rules)
  have step: "keeps same_wfs (run_step E i config step)" for i config step
    unfolding run_step_def after_handler_def Let_def by (intro wfs_rules err)
  have "keeps same_wfs (executeStep E i k)" for i k
    unfolding executeStep_def by (intro wfs_rules step)
  moreover have "keeps same_wfs (resumeRun E i data)" for i data
    unfolding resumeRun_def Let_def by (intro wfs_rules)
  moreover have "keeps same_wfs (handleAskQuestionTimeout E i k)" for i k
    unfolding handleAskQuestionTimeout_def Let_def by (intro wfs_rules)
  ultimately show ?thesis by (cases job) (simp_all add: run_job_def start)
qed

text \<open>Events and inbound messages only add jobs.\<close>

definition only_jobs :: "wf \<Rightarrow> wf \<Rightarrow> bool" where
  "only_jobs s t \<longleftrightarrow> t = s\<lparr>f_queue := f_queue t, f_jobIds := f_jobIds t\<rparr>"

interpretation only_jobs: step_order only_jobs
proof unfold_locales
  show "only_jobs s s" for s by (simp add: only_jobs_def)
  show "only_jobs s u" if "only_jobs s t" "only_jobs t u" for s t u
  proof -
    have "u = s\<lparr>f_queue := f_queue t, f_jobIds := f_jobIds t\<rparr>\<lparr>f_queue := f_queue u, f_jobIds := f_jobIds u\<rparr>"
      using that unfolding only_jobs_def by metis
    then show ?thesis by (simp add: only_jobs_def)
  qed
qed

lemma only_jobs_add: "keeps only_jobs (job_add q)"
  unfolding job_add_def by (rule only_jobs.r_modify) (simp add: only_jobs_def split: option.split)

lemma only_jobs_same: "only_jobs s t \<Longrightarrow> f_runs t = f_runs s" "only_jobs s t \<Longrightarrow> same_wfs s t"
  by (simp_all add: only_jobs_def same_wfs_def) (metis wf.select_convs wf.surjective wf.update_convs)+

lemma only_jobs_events: "keeps only_jobs (onEvent E ws k ev)" "keeps only_jobs (onInboundMessage E ws conv message)"
proof -
  have reads: "keeps only_jobs (active_run E w k)" "keeps only_jobs (wf_clock E)" for w k
    by (simp_all add: active_run_def wf_clock_def only_jobs.r_gets)
  have sum: "keeps only_jobs (lift_sum r)" "keeps only_jobs (need v)" for r v
    by (cases r) (simp_all add: lift_sum_def need_def only_jobs.r_intros)
  have "keeps only_jobs (evaluateAndEnqueue E w k conv td)" for w k conv td
    unfolding evaluateAndEnqueue_def enqueue_trigger_def Let_def by (intro only_jobs.r_intros reads sum only_jobs_add)
  then have "keeps only_jobs (trigger E ws ty k conv td)" for ty conv td
    unfolding trigger_def by (intro only_jobs.r_intros)
  then show "keeps only_jobs (onEvent E ws k ev)" by (cases ev) (simp_all add: onEvent_def)
  show "keeps only_jobs (onInboundMessage E ws conv message)"
    unfolding onInboundMessage_def by (intro only_jobs.r_intros reads sum only_jobs_add)
qed

section \<open>The steps of the system\<close>

text \<open>
  \<open>D\<close> is the set of workflows that users delete. A job that throws may be left in the queue for
  another attempt. Other modules write contacts, tags, conversations, members, channels and the like,
  and time passes, but the tables of the engine and its keys are its own.
\<close>

definition others :: "wf \<Rightarrow> wf \<Rightarrow> bool" where
  "others s t \<longleftrightarrow> f_workflows t = f_workflows s \<and> f_runs t = f_runs s \<and> f_runSteps t = f_runSteps s \<and> f_jumps t = f_jumps s
     \<and> f_rr t = f_rr s \<and> f_queue t = f_queue s \<and> set (f_jobIds t) \<subseteq> set (f_jobIds s) \<and> f_ctx t = f_ctx s \<and> f_active t = f_active s"

definition deletes :: "wf_request \<Rightarrow> string set" where
  "deletes req = (case req of ReqDelete i \<Rightarrow> {i} | _ \<Rightarrow> {})"

inductive engine_step :: "wf_env \<Rightarrow> string set \<Rightarrow> wf \<Rightarrow> wf \<Rightarrow> bool" for E D where
  Job: "q \<in> set (f_queue s) \<Longrightarrow> engine_step E D s (snd (run_job E (qd_job q) (s\<lparr>f_queue := remove1 q (f_queue s)\<rparr>)))"
| Retry: "q \<in> set (f_queue s) \<Longrightarrow> run_job E (qd_job q) s = (Inl e, t) \<Longrightarrow> engine_step E D s t"
| Event: "engine_step E D s (snd (onEvent E ws k ev s))"
| Message: "engine_step E D s (snd (onInboundMessage E ws conv message s))"
| Request: "deletes req \<subseteq> D \<Longrightarrow> engine_step E D s (snd (perform E ws user req s))"
| Others: "others s t \<Longrightarrow> engine_step E D s t"

text \<open>Induction over the steps for a relation that is reflexive and transitive.\<close>

context step_order
begin

lemma along_steps:
  assumes "(step)\<^sup>*\<^sup>* s t" and "\<And>x y. step x y \<Longrightarrow> R x y"
  shows "R s t"
  using assms(1) by (induction rule: rtranclp_induct) (auto intro: R_refl R_trans assms(2))

end

section \<open>Requests and runs\<close>

lemma workflow_update_result:
  "snd (workflow_update i f s) = s \<or> snd (workflow_update i f s) = s\<lparr>f_workflows := upd_where (\<lambda>w. wk_id w = i) f (f_workflows s)\<rparr>"
  by (simp add: workflow_update_def wf_update_def split: option.split)

text \<open>Runs stay as they are, but for those of deleted workflows, which disappear.\<close>

definition runs_but :: "string set \<Rightarrow> wf \<Rightarrow> wf \<Rightarrow> bool" where
  "runs_but D s t \<longleftrightarrow> (\<exists>P. f_runs t = filter P (f_runs s) \<and> (\<forall>r. wr_workflowId r \<notin> D \<longrightarrow> P r))"

interpretation runs_but: step_order "runs_but D" for D
proof unfold_locales
  show "runs_but D s s" for s unfolding runs_but_def by (rule exI [of _ "\<lambda>_. True"]) simp
  show "runs_but D s u" if "runs_but D s t" "runs_but D t u" for s t u
  proof -
    from that obtain P Q where "f_runs t = filter P (f_runs s)" "\<And>r. wr_workflowId r \<notin> D \<Longrightarrow> P r"
      "f_runs u = filter Q (f_runs t)" "\<And>r. wr_workflowId r \<notin> D \<Longrightarrow> Q r"
      unfolding runs_but_def by blast
    then show ?thesis unfolding runs_but_def by (intro exI [of _ "\<lambda>r. P r \<and> Q r"]) auto
  qed
qed

lemma runs_but_same: "f_runs t = f_runs s \<Longrightarrow> runs_but D s t"
  using runs_but.R_refl [of D s] by (simp add: runs_but_def)

lemma reads_keep:
  assumes "\<And>s. R s s"
  shows "keeps R (get_workflow ws i)" "keeps R (lift_sum v)" "keeps R (wf_clock E)" "keeps R (json_column E c)"
  using assms
  by (auto simp: keeps_def get_workflow_def lift_sum_def wf_clock_def json_column_def io_simps split: sum.split option.split)

lemma perform_runs: "keeps (runs_but (deletes req)) (perform E ws user req)"
proof -
  note rules = runs_but.r_intros reads_keep [OF runs_but.R_refl]
  have upd: "keeps (runs_but D) (workflow_update i f)" for D i f
    by (rule keepsI, rule runs_but_same) (simp add: workflow_update_def wf_update_def split: option.split)
  have new: "keeps (runs_but D) (workflow_create E row)" for D row
    unfolding workflow_create_def Let_def by (intro rules runs_but.r_modify) (simp add: runs_but_same)
  have "keeps (runs_but D) (create E ws dto user)" "keeps (runs_but D) (update E ws i dto)" "keeps (runs_but D) (publish E ws i user)"
    "keeps (runs_but D) (stop ws i)" "keeps (runs_but D) (clone E ws i name user)" for D i dto name
    by (simp_all only: create_def update_def publish_def stop_def clone_def Let_def) (intro rules upd new)+
  moreover have "keeps (runs_but D) (rename ws i name)" for D i name
    unfolding rename_def by (cases name) (simp_all, (intro rules upd)+)
  moreover have "keeps (runs_but {i}) (delete ws i)" for i
    unfolding delete_def by (intro rules runs_but.r_modify) (auto simp: runs_but_def)
  ultimately show ?thesis
    by (cases req) (simp_all add: perform_def deletes_def runs_but.r_seq runs_but.r_ret)
qed

definition final_but :: "string set \<Rightarrow> wf \<Rightarrow> wf \<Rightarrow> bool" where
  "final_but D s t \<longleftrightarrow>
     (unique_runs s \<longrightarrow> unique_runs t \<and> (\<forall>r \<in> set (f_runs s). ended r \<and> wr_workflowId r \<notin> D \<longrightarrow> r \<in> set (f_runs t)))"

interpretation final_but: step_order "final_but D" for D
  by unfold_locales (auto simp: final_but_def)

lemma final_but_step: "final_step s t \<Longrightarrow> final_but D s t"
  by (auto simp: final_step_def final_but_def finals_def)

lemma final_but_jobs: "only_jobs s t \<Longrightarrow> final_but D s t"
proof (rule final_but_step)
  assume "only_jobs s t"
  then have "f_runs t = f_runs s" by (rule only_jobs_same)
  then show "final_step s t" by (simp add: final_step_def unique_runs_def finals_def)
qed

lemma final_but_runs: "runs_but X s t \<Longrightarrow> X \<subseteq> D \<Longrightarrow> final_but D s t"
  by (auto simp: runs_but_def final_but_def unique_runs_def distinct_map_filter)


lemma sample_fresh: "fresh_runs sample_wf_env"
proof -
  have "length x \<le> length (concat xs)" if "x \<in> set xs" for x :: string and xs
    using that by (induction xs) auto
  then have "concat (map wr_id (f_runs s)) @ ''n'' \<notin> wr_id ` set (f_runs s)" for s :: wf
    by (metis length_append length_append_singleton list.set_map not_less_eq_eq append_is_Nil_conv order_refl)
  then show ?thesis by (simp add: fresh_runs_def sample_wf_env_def)
qed

definition ended_run :: wf_run where
  "ended_run = completed_row 5 (new_run ''old'' 0 ''ws'' ''w'' ''c'' [])"

definition busy_wf :: wf where
  "busy_wf = sample_wf\<lparr>f_runs := [ended_run, sample_run], f_queue := [plain_job (JobExecute ''r'' ''a''), plain_job (JobResume ''old'' [])]\<rparr>"


section \<open>Stored configurations\<close>

definition all_valid :: "wf \<Rightarrow> bool" where
  "all_valid s \<longleftrightarrow> (\<forall>w \<in> set (f_workflows s). validateWorkflowConfig (wk_config w) = Inr ())"

definition valid_step :: "wf \<Rightarrow> wf \<Rightarrow> bool" where
  "valid_step s t \<longleftrightarrow> (all_valid s \<longrightarrow> all_valid t)"

interpretation valid_step: step_order valid_step
  by unfold_locales (auto simp: valid_step_def)

lemma same_valid: "same_wfs s t \<Longrightarrow> valid_step s t"
  by (simp add: same_wfs_def valid_step_def all_valid_def)

lemma validateWorkflow_config: "validateWorkflow b dto = Inr () \<Longrightarrow> validateWorkflowConfig (wd_config dto) = Inr ()"
  by (auto simp: validateWorkflow_def split: if_splits)

lemma valid_update:
  assumes "\<And>w. validateWorkflowConfig (wk_config w) = Inr () \<Longrightarrow> validateWorkflowConfig (wk_config (f w)) = Inr ()"
  shows "keeps valid_step (workflow_update i f)"
proof (rule keepsI)
  fix s
  show "valid_step s (snd (workflow_update i f s))"
    using workflow_update_result [of i f s] assms
    by (auto simp: valid_step_def all_valid_def set_upd_where)
qed

lemma valid_null: "validateWorkflowConfig JUndef = Inr ()" "validateWorkflowConfig JNull = Inr ()"
  by (simp_all add: validateWorkflowConfig_def v_nullish_def)

lemma valid_create:
  assumes "validateWorkflowConfig (wk_config row) = Inr ()"
  shows "keeps valid_step (workflow_create E row)"
  unfolding workflow_create_def Let_def
  by (intro valid_step.r_intros reads_keep [OF valid_step.R_refl] valid_step.r_modify)
    (use assms in \<open>auto simp: valid_step_def all_valid_def\<close>)

lemma valid_perform: "keeps valid_step (perform E ws user req)"
proof -
  note rules = valid_step.r_intros reads_keep [OF valid_step.R_refl]
  have checked: "keeps valid_step (seq_io (lift_sum (validateWorkflow b dto)) m)"
    if "validateWorkflowConfig (wd_config dto) = Inr () \<Longrightarrow> keeps valid_step m" for b dto and m :: "'z wfd"
  proof (cases "validateWorkflow b dto")
    case (Inl e)
    then show ?thesis by (simp add: keeps_def lift_sum_def io_simps valid_step.R_refl)
  next
    case (Inr u)
    with that validateWorkflow_config [of b dto] show ?thesis by (intro rules) simp
  qed
  have "keeps valid_step (create E ws dto user)" for dto
    unfolding create_def
    by (rule checked, intro rules valid_create) (simp add: new_workflow_def valid_null)
  moreover have "keeps valid_step (update E ws i dto)" for i dto
    unfolding update_def
    by (rule valid_step.r_seq, rule reads_keep [OF valid_step.R_refl], rule checked, intro rules valid_update)
      (simp add: updated_row_def)
  moreover have "keeps valid_step (publish E ws i user)" "keeps valid_step (stop ws i)" for i
    by (simp_all only: publish_def stop_def) (intro rules valid_update, simp)+
  moreover have "keeps valid_step (rename ws i name)" for i name
    unfolding rename_def by (cases name) (auto intro!: rules valid_update)
  moreover have "keeps valid_step (clone E ws i name user)" for i name
  proof (rule keepsI)
    fix s
    show "valid_step s (snd (clone E ws i name user s))"
    proof (cases "find_for i ws s")
      case None
      then show ?thesis by (simp add: clone_def get_workflow_def io_simps valid_step.R_refl)
    next
      case (Some w)
      then have "w \<in> set (f_workflows s)" by (auto simp: find_for_def dest: find_Some_in)
      then have "all_valid s \<Longrightarrow> validateWorkflowConfig (wk_config w) = Inr ()" by (simp add: all_valid_def)
      with keepsD [OF valid_create [of "new_workflow ws user (v_str (truthy_or name (JStr (wk_name w @ '' (Clone)'')))) None (wk_config w)"], of s]
      show ?thesis using Some by (auto simp: clone_def get_workflow_def Let_def bind_gets io_simps valid_step_def new_workflow_def)
    qed
  qed
  moreover have "keeps valid_step (delete ws i)" for i
    unfolding delete_def by (intro rules valid_step.r_modify) (auto simp: valid_step_def all_valid_def)
  ultimately show ?thesis by (cases req) (simp_all add: perform_def valid_step.r_seq valid_step.r_ret)
qed

text \<open>
  C21: The configuration of a stored workflow is well formed: whatever the users, the jobs, the events
  and the other modules do, every stored configuration passes the validation, if those that were
  stored at the beginning did.
\<close>

theorem stored_configs_valid:
  assumes "(engine_step E D)\<^sup>*\<^sup>* s t" and "all_valid s"
  shows "all_valid t"
proof -
  have step: "valid_step x y" if "engine_step E D x y" for x y
    using that
  proof cases
    case (Job q)
    have "same_wfs x (x\<lparr>f_queue := remove1 q (f_queue x)\<rparr>)" by (simp add: same_wfs_def)
    with Job keepsD [OF run_job_wfs] show ?thesis by (blast intro: same_valid same_wfs.R_trans)
  next
    case (Retry q e)
    with keepsD [OF run_job_wfs [of E "qd_job q"], of x] show ?thesis by (simp add: same_valid)
  next
    case (Event ws k ev)
    with keepsD [OF only_jobs_events(1) [of E ws k ev], of x] show ?thesis by (simp add: same_valid only_jobs_same)
  next
    case (Message ws conv message)
    with keepsD [OF only_jobs_events(2) [of E ws conv message], of x] show ?thesis by (simp add: same_valid only_jobs_same)
  next
    case (Request req ws user)
    with keepsD [OF valid_perform [of E ws user req], of x] show ?thesis by simp
  next
    case Others
    then show ?thesis by (simp add: others_def same_valid same_wfs_def)
  qed
  have "valid_step s t" by (rule valid_step.along_steps [OF assms(1) step])
  with assms(2) show ?thesis by (simp add: valid_step_def)
qed

theorem stored_configs_valid_witness:
  "all_valid (snd (perform sample_wf_env ''ws'' ''u'' (ReqClone ''w'' (JStr ''Copy'')) sample_wf))"
proof (rule stored_configs_valid)
  show "(engine_step sample_wf_env {})\<^sup>*\<^sup>* sample_wf (snd (perform sample_wf_env ''ws'' ''u'' (ReqClone ''w'' (JStr ''Copy'')) sample_wf))"
    by (rule r_into_rtranclp, rule engine_step.Request) (simp add: deletes_def)
  have "validateWorkflowConfig (wk_config sample_workflow) = Inr ()" by code_simp
  then show "all_valid sample_wf" by (simp add: all_valid_def sample_wf_def)
qed

section \<open>Workspaces\<close>

text \<open>The workflows of other workspaces and the runs of those workflows.\<close>

definition foreign :: "string \<Rightarrow> wf \<Rightarrow> wf_row list" where
  "foreign ws s = filter (\<lambda>w. wk_workspaceId w \<noteq> ws) (f_workflows s)"

definition owned :: "string \<Rightarrow> string \<Rightarrow> wf \<Rightarrow> bool" where
  "owned ws i s \<longleftrightarrow> (\<forall>w \<in> set (f_workflows s). wk_id w = i \<longrightarrow> wk_workspaceId w = ws)"

definition aside :: "string \<Rightarrow> string \<Rightarrow> wf \<Rightarrow> wf \<Rightarrow> bool" where
  "aside ws i s t \<longleftrightarrow> (owned ws i s \<longrightarrow> owned ws i t \<and> foreign ws t = foreign ws s \<and> runs_but {i} s t)"

interpretation aside: step_order "aside ws i" for ws i
  by unfold_locales (auto simp: aside_def runs_but.R_refl intro: runs_but.R_trans)

lemma aside_update:
  assumes "\<And>w. wk_id (f w) = wk_id w \<and> wk_workspaceId (f w) = wk_workspaceId w"
  shows "keeps (aside ws i) (workflow_update i f)"
proof (rule keepsI)
  fix s
  have "filter (\<lambda>w. wk_workspaceId w \<noteq> ws) (upd_where (\<lambda>w. wk_id w = i) f xs) = filter (\<lambda>w. wk_workspaceId w \<noteq> ws) xs"
    if "\<forall>w \<in> set xs. wk_id w = i \<longrightarrow> wk_workspaceId w = ws" for xs
    using that assms by (induction xs) (auto simp: upd_where_def)
  then have rows: "foreign ws (s\<lparr>f_workflows := upd_where (\<lambda>w. wk_id w = i) f (f_workflows s)\<rparr>) = foreign ws s" if "owned ws i s"
    using that by (simp add: foreign_def owned_def)
  have own: "owned ws i (s\<lparr>f_workflows := upd_where (\<lambda>w. wk_id w = i) f (f_workflows s)\<rparr>)" if "owned ws i s"
    using that assms unfolding owned_def by (auto simp: set_upd_where)
  from workflow_update_result [of i f s] show "aside ws i s (snd (workflow_update i f s))"
  proof
    assume "snd (workflow_update i f s) = s"
    then show ?thesis by (simp add: aside.R_refl)
  next
    assume "snd (workflow_update i f s) = s\<lparr>f_workflows := upd_where (\<lambda>w. wk_id w = i) f (f_workflows s)\<rparr>"
    then show ?thesis by (simp only: aside_def) (simp add: rows own runs_but_same)
  qed
qed

lemma aside_create: "wk_workspaceId row = ws \<Longrightarrow> keeps (aside ws i) (workflow_create E row)"
  unfolding workflow_create_def Let_def
  by (intro aside.r_intros reads_keep [OF aside.R_refl] aside.r_modify)
    (auto simp: aside_def foreign_def owned_def runs_but_same)

definition adds :: "string \<Rightarrow> wf \<Rightarrow> wf \<Rightarrow> bool" where
  "adds ws s t \<longleftrightarrow> foreign ws t = foreign ws s \<and> f_runs t = f_runs s"

interpretation adds: step_order "adds ws" for ws
  by unfold_locales (auto simp: adds_def)

lemma create_adds: "keeps (adds ws) (create E ws dto user)"
  unfolding create_def workflow_create_def Let_def
  by (intro adds.r_intros reads_keep [OF adds.R_refl] adds.r_modify) (simp add: adds_def foreign_def new_workflow_def)

lemma owned_found:
  assumes "distinct (map wk_id (f_workflows s))" and "find_for i ws s = Some w"
  shows "owned ws i s"
proof -
  have "w \<in> set (f_workflows s)" "wk_id w = i" "wk_workspaceId w = ws"
    using assms(2) by (auto simp: find_for_def dest: find_Some_in)
  with assms(1) have "x = w" if "x \<in> set (f_workflows s)" "wk_id x = i" for x
    using that unfolding distinct_map by (metis inj_onD)
  with \<open>wk_workspaceId w = ws\<close> show ?thesis by (auto simp: owned_def)
qed

lemma aside_get:
  assumes "distinct (map wk_id (f_workflows s))" and "\<And>w. keeps (aside ws i) (m w)"
  shows "foreign ws (snd (bind_io (get_workflow ws i) m s)) = foreign ws s \<and>
    (snd (bind_io (get_workflow ws i) m s) = s \<or> owned ws i s \<and> runs_but {i} s (snd (bind_io (get_workflow ws i) m s)))"
proof (cases "find_for i ws s")
  case None
  then show ?thesis by (simp add: get_workflow_def io_simps)
next
  case (Some w)
  with owned_found [OF assms(1) Some] keepsD [OF assms(2) [of w], of s] show ?thesis
    by (simp add: get_workflow_def io_simps aside_def)
qed

lemma bind_assoc: "bind_io (bind_io m f) g = bind_io m (\<lambda>x. bind_io (f x) g)"
  by (rule ext) (simp add: bind_io_def split: prod.split sum.split)

text \<open>A request on one workflow.\<close>

fun request_id :: "wf_request \<Rightarrow> string option" where
  "request_id (ReqCreate dto) = None"
| "request_id (ReqUpdate i dto) = Some i"
| "request_id (ReqRename i name) = Some i"
| "request_id (ReqPublish i) = Some i"
| "request_id (ReqStop i) = Some i"
| "request_id (ReqClone i name) = Some i"
| "request_id (ReqDelete i) = Some i"

lemma perform_aside:
  assumes "distinct (map wk_id (f_workflows s))" and "request_id req = Some i" and "req \<noteq> ReqStop i"
  shows "foreign ws (snd (perform E ws user req s)) = foreign ws s \<and>
    (snd (perform E ws user req s) = s \<or> owned ws i s \<and> runs_but {i} s (snd (perform E ws user req s)))"
proof -
  note rules = aside.r_intros reads_keep [OF aside.R_refl] aside_update
  have del: "keeps (aside ws i) (modify (\<lambda>s. s\<lparr>f_workflows := filter (\<lambda>w. wk_id w \<noteq> i) (f_workflows s),
      f_runs := filter (\<lambda>r. wr_workflowId r \<noteq> i) (f_runs s), f_runSteps := g s\<rparr>))" for g
    by (rule aside.r_modify) (auto simp: aside_def foreign_def owned_def runs_but_def intro!: filter_cong)
  have go: "\<exists>m. perform E ws user req = bind_io (get_workflow ws i) m \<and> (\<forall>w. keeps (aside ws i) (m w))"
  proof (cases req)
    case (ReqUpdate j dto)
    then show ?thesis using assms
      by (auto simp: perform_def update_def seq_io_def [of "get_workflow ws i"] updated_row_def intro!: exI rules)
  next
    case (ReqRename j name)
    then show ?thesis using assms
      by (cases name) (auto simp: perform_def rename_def seq_io_def [of "get_workflow ws i"] intro!: exI rules)
  next
    case (ReqPublish j)
    then show ?thesis using assms
      by (auto simp: perform_def publish_def intro!: exI rules)
  next
    case (ReqClone j name)
    let ?m = "\<lambda>w. let n = truthy_or name (JStr (wk_name w @ '' (Clone)'')) in
       if is_str n then workflow_create E (new_workflow ws user (v_str n) None (wk_config w)) else throw PrismaValidation"
    have "keeps (aside ws i) (seq_io (?m w) (ret ()))" for w
      unfolding Let_def by (intro rules aside_create) (simp add: new_workflow_def)
    moreover have "perform E ws user req = bind_io (get_workflow ws i) (\<lambda>w. seq_io (?m w) (ret ()))"
      using ReqClone assms(2) unfolding perform_def clone_def by (simp add: seq_io_def bind_assoc)
    ultimately show ?thesis by blast
  next
    case (ReqDelete j)
    then show ?thesis using assms
      by (auto simp: perform_def delete_def seq_io_def [of "get_workflow ws i"] intro!: exI del)
  qed (use assms in auto)
  then show ?thesis using aside_get [OF assms(1)] by metis
qed

text \<open>
  C33: A request changes only the workflows of its own workspace: creating, updating, renaming,
  publishing, cloning or deleting a workflow leaves the workflows of every other workspace and their
  runs as they are. Stopping is the exception: it does not look at the workspace.
\<close>

theorem workflow_requests_isolated:
  assumes "distinct (map wk_id (f_workflows s))" and "\<forall>i. req \<noteq> ReqStop i"
  shows "foreign ws (snd (perform E ws user req s)) = foreign ws s \<and>
    (\<forall>r \<in> set (f_runs s). wr_workflowId r \<in> wk_id ` set (foreign ws s) \<longrightarrow> r \<in> set (f_runs (snd (perform E ws user req s))))"
proof (cases "request_id req")
  case None
  then obtain dto where req: "req = ReqCreate dto" by (cases req) auto
  from keepsD [OF adds.r_seq [OF create_adds [of ws E dto user] adds.r_ret], of s "()"] show ?thesis
    by (simp add: req perform_def adds_def)
next
  case (Some i)
  note kept = perform_aside [OF assms(1) Some, of ws E user]
  have "r \<in> set (f_runs (snd (perform E ws user req s)))"
    if r: "r \<in> set (f_runs s)" "wr_workflowId r \<in> wk_id ` set (foreign ws s)" for r
  proof (cases "snd (perform E ws user req s) = s")
    case False
    with kept assms(2) have "owned ws i s" and "runs_but {i} s (snd (perform E ws user req s))" by auto
    with r show ?thesis by (auto simp: owned_def foreign_def runs_but_def)
  qed (use r in simp)
  with kept assms(2) show ?thesis by auto
qed

theorem workflow_requests_isolated_witness:
  "foreign ''ws2'' (snd (perform sample_wf_env ''ws2'' ''u'' (ReqDelete ''w'') sample_wf)) = [sample_workflow]"
  using workflow_requests_isolated [of sample_wf "ReqDelete ''w''" "''ws2''" sample_wf_env "''u''"]
  by (simp add: sample_wf_def foreign_def sample_workflow_def)

theorem stop_crosses_workspaces:
  "f_workflows (snd (perform E ''another workspace'' user (ReqStop ''w'') sample_wf)) = [sample_workflow\<lparr>wk_status := ''stopped''\<rparr>]"
  by (simp add: perform_def stop_def workflow_update_def wf_update_def sample_wf_def upd_where_def sample_workflow_def)

text \<open>
  The delivery rules are checked only when a workflow is published: an update may give a published
  workflow a configuration that could not be published, and it stays published.
\<close>

definition silent_config :: jsv where
  "silent_config = JObj [(''trigger'', JObj [(''type'', JStr ''conversation_opened'')]),
     (''steps'', JArr [demo_step ''a'' ''send_message'' ''trigger'' [] []])]"

theorem update_skips_delivery:
  "\<exists>t w. update sample_wf_env ''ws'' ''w'' \<lparr>wd_name = JUndef, wd_description = JUndef, wd_config = silent_config\<rparr> sample_wf = (Inr (), t)
     \<and> f_workflows t = [w] \<and> wk_status w = ''published'' \<and> assertWorkflowDeliveryForPublish (wk_config w) channels \<noteq> Inr ()"
proof -
  let ?dto = "\<lparr>wd_name = JUndef, wd_description = JUndef, wd_config = silent_config\<rparr>"
  have "validateWorkflowConfig silent_config = Inr ()" by code_simp
  then have valid: "validateWorkflow False ?dto = Inr ()" by (simp add: validateWorkflow_def)
  have some: "silent_config \<noteq> JNull" "silent_config \<noteq> JUndef" by (simp_all add: silent_config_def)
  have run: "update sample_wf_env ''ws'' ''w'' ?dto sample_wf = (Inr (), sample_wf\<lparr>f_workflows := [sample_workflow\<lparr>wk_config := silent_config\<rparr>]\<rparr>)"
    by (simp add: update_def get_workflow_def find_for_def valid lift_sum_def json_column_def some workflow_update_def
        wf_update_def sample_wf_def sample_workflow_def updated_row_def upd_where_def io_simps)
  have "\<not> workflowMessageHasTemplate (JObj [])" "getSpecificChannelId JUndef = None" by code_simp+
  then have "assertWorkflowDeliveryForPublish silent_config channels \<noteq> Inr ()"
    by (auto simp: assertWorkflowDeliveryForPublish_def validateWorkflowDeliveryForPublish_def silent_config_def demo_step_def config_steps_def
        step_of_json_def step_issues_def validateTriggerChannelStep_def validateMessageContent_def
        validateSpecificChannelStep_def v_arr_def v_str_def js_trim_def asRecord_def is_arr_def
        opt_str_def Let_def split: option.split channel_strategy.split)
  with run show ?thesis by (simp add: sample_workflow_def)
qed

text \<open>A numeric label of a multiple-choice option is read as the position of an option.\<close>

theorem numeric_label_misread:
  "resolveMultipleChoiceAnswer ''2'' (JObj [(''multipleChoiceOptions'',
     JArr [JObj [(''label'', JStr ''2'')], JObj [(''label'', JStr ''1'')]])]) = Some ''1''"
  by code_simp

text \<open>A limit that is no number is no limit: the jump is taken however often it was taken before.\<close>

theorem no_number_no_limit:
  "num_le (jump_limit E \<lparr>st_id = i, st_type = ''jump_to'', st_parentId = p, st_name = n,
     st_data = JObj [(''maxJumps'', JStr ''five'')]\<rparr>) (Fin (of_nat jumps)) = False"
proof -
  have "number_of_string ''five'' = NaN" by code_simp
  then show ?thesis by (simp add: jump_limit_def js_Number_def v_or_def v_nullish_def num_le_def num_eq_def)
qed

end
