(* ===== verification/Workflow_Answers.thy ===== *)
theory Workflow_Answers
  imports Workflow_Termination
begin

text \<open>
  An inbound message answers a question once: the ids of the consumed messages are kept in the
  context of the run, the last hundred of them, and a resumption for one of them does nothing. And
  the end of a sub-workflow frees the run that waits for it.
\<close>

section \<open>Consumed answers\<close>

lemma o_get_json: "o_get ob k \<noteq> JUndef \<Longrightarrow> o_get (json_obj R ob) k = json_value R (o_get ob k)"
  by (induction ob) (auto simp: json_obj_def o_get_def)

lemma json_strings: "json_value R (JArr (map JStr xs)) = JArr (map JStr xs)"
  by simp

lemma take_last_in: "0 < n \<Longrightarrow> x \<in> set (take_last n (xs @ [x]))"
  by (simp add: take_last_def)

lemma processed_list:
  assumes "o_get (rc_vars c) PROCESSED_KEY = JArr (map JStr xs)"
  shows "getProcessedAnswerMessageIds c = filter (\<lambda>x. nonempty_str (JStr x)) xs"
proof -
  have "map v_str (filter nonempty_str (map JStr xs)) = filter (\<lambda>x. nonempty_str (JStr x)) xs"
    by (induction xs) (simp_all add: v_str_def)
  then show ?thesis using assms by (simp add: getProcessedAnswerMessageIds_def Let_def is_arr_def v_arr_def)
qed

text \<open>The message whose answer is being handled and the run stay the same.\<close>

definition msg_kept :: "wf \<Rightarrow> wf \<Rightarrow> bool" where
  "msg_kept s t \<longleftrightarrow> o_get (rc_vars (f_cur t)) ''lastAnswerMessageId'' = o_get (rc_vars (f_cur s)) ''lastAnswerMessageId''
     \<and> rc_runId (f_cur t) = rc_runId (f_cur s)"

interpretation msg_kept: step_order msg_kept
  by unfold_locales (auto simp: msg_kept_def)

lemma save_answer_kept:
  assumes "js_String (we_js E) (v_fld (st_data step) ''variableName'') \<noteq> ''lastAnswerMessageId''"
  shows "keeps msg_kept (save_answer E step answer)"
proof -
  have set: "keeps msg_kept (set_var k v)" if "k \<noteq> ''lastAnswerMessageId''" for k v
    unfolding set_var_def upd_cur_def by (rule msg_kept.r_modify) (use that in \<open>simp add: msg_kept_def\<close>)
  have contact: "keeps msg_kept (upd_cur (\<lambda>x. x\<lparr>rc_contact := f x\<rparr>))" for f
    unfolding upd_cur_def by (rule msg_kept.r_modify) (simp add: msg_kept_def)
  have row: "keeps msg_kept (contact_update i cols)" for i cols
    by (rule keepsI) (simp add: contact_update_def wf_update_def throw_def msg_kept_def split: option.split)
  have tag: "keeps msg_kept (findOrCreateWorkflowTag E w n)" for w n
    unfolding findOrCreateWorkflowTag_def Let_def
    by (intro msg_kept.r_intros msg_kept.r_modify) (simp add: msg_kept_def)
  have add: "keeps msg_kept (contactTag_add i ts)" for i ts
    unfolding contactTag_add_def by (intro msg_kept.r_intros msg_kept.r_modify) (simp add: msg_kept_def)
  have cur: "keeps msg_kept cur" by (simp add: cur_def msg_kept.r_gets)
  show ?thesis
    unfolding save_answer_def Let_def by (intro msg_kept.r_intros set contact row tag add cur) (use assms in simp_all)
qed

lemma forget_answer_result:
  assumes "forget_answer E s = (r, t)" and "o_get (rc_vars (f_cur s)) ''lastAnswerMessageId'' = m" and "nonempty_str m"
  shows "\<exists>c e. f_ctx t (rc_runId (f_cur s)) = Some (c, e) \<and> hasProcessedAnswerMessage c m
    \<and> length (getProcessedAnswerMessageIds c) \<le> MAX_PROCESSED"
proof -
  let ?ids = "take_last MAX_PROCESSED (filter (\<lambda>x. x \<noteq> v_str m) (getProcessedAnswerMessageIds (f_cur s)) @ [v_str m])"
  define c where "c = (f_cur s)\<lparr>rc_vars := o_del ''lastAnswerMessageId'' (o_del ''lastAnswer''
      (o_set PROCESSED_KEY (JArr (map JStr ?ids)) (rc_vars (f_cur s))))\<rparr>"
  have ctx: "f_ctx t (rc_runId (f_cur s)) = Some (json_ctx (we_js E) c, we_now E (s\<lparr>f_cur := c\<rparr>) + RUN_CTX_TTL * 1000)"
    using assms by (auto simp: forget_answer_def cur_def markProcessedAnswerMessage_def mark_processed_def Let_def del_var_def
        upd_cur_def saveContext_def saveContext_of_def io_simps c_def)
  have "o_get (rc_vars c) PROCESSED_KEY = JArr (map JStr ?ids)" by (simp add: c_def PROCESSED_KEY_def)
  then have "o_get (rc_vars (json_ctx (we_js E) c)) PROCESSED_KEY = JArr (map JStr ?ids)"
    using o_get_json [of "rc_vars c" PROCESSED_KEY "we_js E"] by (simp add: json_ctx_def)
  note ids = processed_list [OF this]
  have "nonempty_str (JStr (v_str m))" using assms(3) by (cases m) (auto simp: nonempty_str_def v_str_def)
  then have "hasProcessedAnswerMessage (json_ctx (we_js E) c) m"
    using assms(3) take_last_in [of MAX_PROCESSED] by (simp add: hasProcessedAnswerMessage_def ids MAX_PROCESSED_def)
  moreover have "length ?ids \<le> MAX_PROCESSED" by (simp add: take_last_def)
  ultimately show ?thesis using ctx unfolding ids by (metis (no_types, lifting) ids le_trans length_filter_le)
qed

lemma resume_processed:
  assumes "f_ctx s i = Some (c, e)" and "hasProcessedAnswerMessage c (resume_id data)"
  shows "resumeRun E i data s = (Inr (), s)"
  using assms
  by (auto simp: resumeRun_def bind_gets loadContext_def ttl_get_def ret_def split: option.split)


definition sample_question :: wf_step where
  "sample_question = \<lparr>st_id = ''q'', st_type = ''ask_question'', st_parentId = Some ''trigger'', st_name = None,
     st_data = JObj [(''questionType'', JStr ''text'')]\<rparr>"

definition answered_wf :: wf where
  "answered_wf = sample_wf\<lparr>f_cur := sample_ctx\<lparr>rc_vars := [(''lastAnswer'', JStr ''hi''), (''lastAnswerMessageId'', JStr ''m1'')]\<rparr>\<rparr>"


section \<open>The end of a sub-workflow\<close>

lemma find_run_in: "find_run s i = Some r \<Longrightarrow> r \<in> set (f_runs s) \<and> wr_id r = i"
  by (auto simp: find_run_def dest: find_Some_in)

lemma completeRun_completes:
  assumes "unique_runs s" and "find_run s i = Some run" and "\<not> ended run" and "completeRun E i c s = (r, t)"
  shows "r = Inr () \<and> (\<exists>x \<in> set (f_runs t). wr_id x = i \<and> wr_status x = RunCompleted)"
proof -
  obtain q u where eu: "end_run E i c completed_row ''workflow_ended'' None s = (q, u)"
    by (cases "end_run E i c completed_row ''workflow_ended'' None s")
  note open_i = find_open [OF assms(1-3)]
  have q: "q = Inr ()" and runs: "f_runs u = upd_where (\<lambda>x. wr_id x = i) (completed_row (we_now E s)) (f_runs s)"
    using end_run_result [OF eu] assms(2) by auto
  have "completed_row (we_now E s) run \<in> set (f_runs u)"
    using find_run_in [OF assms(2)] unfolding runs set_upd_where by (simp add: rev_image_eqI)
  moreover have "unique_runs u"
    using upd_finals [OF assms(1) open_i _ runs] by (simp add: completed_row_def)
  moreover have "resumeParentWorkflowAfterChild E c ''completed'' None u = (r, t)"
    using assms(4) eu q by (simp add: completeRun_steps io_simps)
  ultimately have "r = Inr () \<and> completed_row (we_now E s) run \<in> set (f_runs t)"
    using parent_final [of u E c "''completed''" None r t] by (auto simp: finals_def ended_def completed_row_def)
  with find_run_in [OF assms(2)] show ?thesis by (auto simp: completed_row_def intro!: bexI [of _ "completed_row (we_now E s) run"])
qed

lemma end_run_keeps:
  assumes "end_run E i c f ev err s = (Inr (), t)" and "p \<noteq> i" and "\<And>now r. wr_id (f now r) = wr_id r"
  shows "find_run t p = find_run s p" and "f_ctx t p = f_ctx s p"
proof -
  have "find (\<lambda>r. wr_id r = p) (upd_where (\<lambda>x. wr_id x = i) (f now) xs) = find (\<lambda>r. wr_id r = p) xs" for now xs
    using assms(2,3) by (induction xs) (auto simp: upd_where_def)
  then show "find_run t p = find_run s p" using end_run_runs [OF assms(1)] by (simp add: find_run_def)
  have "keeps (\<lambda>x y. f_ctx y p = f_ctx x p) (end_run E i c f ev err)"
    using assms(2)
    by (simp add: keeps_def end_run_def wf_clock_def run_update_def wf_update_def recordWorkflowLifecycleActivity_def
        activity_create_def cleanupRun_def active_run_def io_simps split: option.split)
  from keeps_result [OF this assms(1)] show "f_ctx t p = f_ctx s p" .
qed

text \<open>The job that wakes the parent with the step to go on with.\<close>

definition wakes :: "string \<Rightarrow> jsv \<Rightarrow> queued \<Rightarrow> bool" where
  "wakes p resumeStep q \<longleftrightarrow> (\<exists>data. qd_job q = JobResume p data \<and> o_get data ''nextStepId'' = resumeStep)"

lemma parent_freed:
  assumes "unique_runs s" and "find_run s p = Some run" and "wr_status run = RunWaiting"
    and "o_get (rc_trigger c) ''triggeredByRunId'' = JStr p" and "nonempty_str (JStr p)"
    and "resumeParentWorkflowAfterChild E c cs err s = (r, t)"
    and "nonempty_str (o_get (rc_trigger c) ''resumeParentStepId'') \<or> (\<exists>pc. ttl_get (we_now E s) (f_ctx s p) = Some pc)"
  shows "(\<exists>q \<in> set (f_queue t). wakes p (o_get (rc_trigger c) ''resumeParentStepId'') q) \<or>
    (\<exists>x \<in> set (f_runs t). wr_id x = p \<and> wr_status x = RunCompleted)"
proof (cases "nonempty_str (o_get (rc_trigger c) ''resumeParentStepId'')")
  case True
  let ?next = "o_get (rc_trigger c) ''resumeParentStepId''"
  let ?data = "child_data c cs err @ [(''nextStepId'', ?next)]"
  have "parent_fate_of E c cs err s = WakeParent p ?data"
    using assms(2-5) True by (simp add: parent_fate_of_def v_str_def)
  then have t: "f_queue t = f_queue s @ [plain_job (JobResume p (json_obj (we_js E) ?data))]"
    using assms(6) by (auto simp: resumeParentWorkflowAfterChild_def job_add_def plain_job_def io_simps)
  obtain k where k: "?next = JStr k" using True by (cases ?next) (auto simp: nonempty_str_def)
  have "o_get ?data ''nextStepId'' = JStr k" using k by (simp add: child_data_def o_get_def)
  then have "o_get (json_obj (we_js E) ?data) ''nextStepId'' = ?next"
    using o_get_json [of ?data "''nextStepId''" "we_js E"] k by simp
  with t show ?thesis by (auto simp: wakes_def plain_job_def)
next
  case False
  with assms(7) obtain pc where "ttl_get (we_now E s) (f_ctx s p) = Some pc" by blast
  then obtain pc' where "parent_fate_of E c cs err s = EndParent p pc'"
    using assms(2-5) False by (simp add: parent_fate_of_def v_str_def)
  then have go: "completeRun E p pc' (snd (saveContext_of E pc' s)) = (r, t)"
    using assms(6) by (simp add: resumeParentWorkflowAfterChild_def)
  have "unique_runs (snd (saveContext_of E pc' s))" "find_run (snd (saveContext_of E pc' s)) p = Some run"
    using assms(1,2) by (simp_all add: saveContext_of_def io_simps unique_runs_def find_run_def)
  from completeRun_completes [OF this _ go] assms(3) show ?thesis by (simp add: ended_def)
qed

text \<open>
  C20: A run that waits for a sub-workflow does not wait for ever: when the run that it started
  completes or fails, either a job is queued that resumes the waiting run at the step that its
  configuration names, or the waiting run is completed as well, as long as its stored context
  has not expired.
\<close>

theorem child_end_frees_parent:
  assumes "unique_runs s" and "find_run s i \<noteq> None" and "open_run s i" and "p \<noteq> i"
    and "find_run s p = Some run" and "wr_status run = RunWaiting"
    and "o_get (rc_trigger c) ''triggeredByRunId'' = JStr p" and "nonempty_str (JStr p)"
    and "nonempty_str (o_get (rc_trigger c) ''resumeParentStepId'') \<or> (\<exists>pc e. f_ctx s p = Some (pc, e) \<and>
      we_now E (snd (end_run E i c completed_row ''workflow_ended'' None s)) < e \<and>
      we_now E (snd (end_run E i c (\<lambda>now. failed_run_row now err) ''workflow_failed'' (Some err) s)) < e)"
    and "t = snd (completeRun E i c s) \<or> t = snd (failRun E i c err s)"
  shows "(\<exists>q \<in> set (f_queue t). wakes p (o_get (rc_trigger c) ''resumeParentStepId'') q) \<or>
    (\<exists>x \<in> set (f_runs t). wr_id x = p \<and> wr_status x = RunCompleted)"
proof -
  have go: ?thesis
    if f: "\<And>now r. wr_id (f now r) = wr_id r"
      and alive: "nonempty_str (o_get (rc_trigger c) ''resumeParentStepId'') \<or>
        (\<exists>pc e. f_ctx s p = Some (pc, e) \<and> we_now E (snd (end_run E i c f ev er s)) < e)"
      and t: "t = snd (seq_io (end_run E i c f ev er) (resumeParentWorkflowAfterChild E c cs er') s)" for f ev er cs er'
  proof -
    obtain q u where eu: "end_run E i c f ev er s = (q, u)" by (cases "end_run E i c f ev er s")
    have q: "q = Inr ()" and runs: "f_runs u = upd_where (\<lambda>x. wr_id x = i) (f (we_now E s)) (f_runs s)"
      using end_run_result [OF eu] assms(2) by auto
    note kept = end_run_keeps [OF eu [unfolded q] assms(4) f]
    obtain r t' where rest: "resumeParentWorkflowAfterChild E c cs er' u = (r, t')"
      by (cases "resumeParentWorkflowAfterChild E c cs er' u")
    have "t' = t" using t eu q rest by (simp add: io_simps)
    moreover have "unique_runs u" using upd_finals [OF assms(1,3) f runs] by blast
    moreover have "nonempty_str (o_get (rc_trigger c) ''resumeParentStepId'') \<or> (\<exists>pc. ttl_get (we_now E u) (f_ctx u p) = Some pc)"
      using alive kept(2) eu by (auto simp: ttl_get_def)
    ultimately show ?thesis
      using parent_freed [OF _ _ assms(6-8), of u E cs er' r t'] rest assms(5) kept by auto
  qed
  from assms(10) show ?thesis
  proof
    assume "t = snd (completeRun E i c s)"
    then show ?thesis unfolding completeRun_steps
      by (rule go [rotated 2]) (use assms(9) in \<open>auto simp: completed_row_def\<close>)
  next
    assume "t = snd (failRun E i c err s)"
    then show ?thesis unfolding failRun_def
      by (rule go [rotated 2]) (use assms(9) in \<open>auto simp: failed_run_row_def\<close>)
  qed
qed

definition parent_wf :: wf where
  "parent_wf = sample_wf\<lparr>f_runs := [(new_run ''p'' 0 ''ws'' ''w'' ''c'' [])\<lparr>wr_status := RunWaiting\<rparr>, sample_run]\<rparr>"

definition child_ctx :: wf_ctx where
  "child_ctx = sample_ctx\<lparr>rc_trigger := [(''triggeredByRunId'', JStr ''p''), (''resumeParentStepId'', JStr ''b'')]\<rparr>"

theorem child_end_frees_parent_witness:
  "(\<exists>q \<in> set (f_queue (snd (failRun sample_wf_env ''r'' child_ctx ''lost'' parent_wf))). wakes ''p'' (JStr ''b'') q) \<or>
   (\<exists>x \<in> set (f_runs (snd (failRun sample_wf_env ''r'' child_ctx ''lost'' parent_wf))). wr_id x = ''p'' \<and> wr_status x = RunCompleted)"
proof -
  have trim: "js_trim ''p'' = ''p''" "js_trim ''b'' = ''b''" by (simp_all add: js_trim_def js_space_def)
  note defs = parent_wf_def child_ctx_def sample_run_def new_run_def
  from child_end_frees_parent [of parent_wf "''r''" "''p''" "(new_run ''p'' 0 ''ws'' ''w'' ''c'' [])\<lparr>wr_status := RunWaiting\<rparr>"
      child_ctx sample_wf_env "''lost''" "snd (failRun sample_wf_env ''r'' child_ctx ''lost'' parent_wf)"]
  show ?thesis
    by (simp add: defs unique_runs_def find_run_def open_run_def ended_def nonempty_str_def trim)
qed

end
