(* ===== verification/Notify_Model.thy ===== *)
theory Notify_Model
  imports Js_Values
begin

text \<open>
  The notification module's rows (\<^verbatim>\<open>src/prisma/schema.prisma\<close>), the tables of defaults of
  \<^verbatim>\<open>notification.types.ts\<close>, its links (\<^verbatim>\<open>notification-routing.ts\<close>) and the state its
  services, its worker and the socket gateway share. A queued job is an entry of \<open>n_jobs\<close>; a queue
  ignores a job whose identifier it already holds. The database and the socket server are the state;
  identifiers, mail addresses of users, the texts of library errors and the runtime's date functions are
  fields of the environment.
  Users, workspaces and contacts that a row refers to exist: the module never creates or deletes them.
\<close>

section \<open>Enumerations\<close>

datatype notification_type =
    NEW_INCOMING_MESSAGE | CONTACT_ASSIGNED | COMMENT_MENTION | CUSTOM_NOTIFICATION
  | CONTACTS_IMPORT_COMPLETED | DATA_EXPORT_READY | NEW_INCOMING_CALL

datatype notification_channel = IN_APP | DESKTOP | MOBILE_PUSH | EMAIL | SOUND | CALL_SOUND

datatype delivery_status = PENDING | SENT | SKIPPED | FAILED | SUPPRESSED

datatype contact_scope = ALL_CONTACTS | ASSIGNED_AND_UNASSIGNED | ASSIGNED_ONLY | MENTIONS_ONLY | NO_CONTACTS

datatype sound_scope = SOUND_ASSIGNED_AND_UNASSIGNED | SOUND_ASSIGNED_ONLY | SOUND_NONE

datatype call_sound_scope = CALL_ASSIGNED_AND_UNASSIGNED | CALL_ASSIGNED_ONLY | CALL_ALL | CALL_MUTE_ALL

datatype presence = ACTIVE | OFFLINE | AWAY | BUSY | DND

section \<open>Rows\<close>

record notification =
  nt_id :: string
  nt_userId :: string
  nt_workspaceId :: "string option"
  nt_organizationId :: "string option"
  nt_type :: notification_type
  nt_title :: string
  nt_body :: "string option"
  nt_metadata :: jsv
  nt_sourceEntityType :: "string option"
  nt_sourceEntityId :: "string option"
  nt_dedupeKey :: "string option"
  nt_readAt :: "int option"
  nt_archivedAt :: "int option"
  nt_createdAt :: int

text \<open>The counts that a push run leaves in the delivery's \<^verbatim>\<open>details\<close>.\<close>

record push_summary =
  ps_targetCount :: nat
  ps_sentCount :: nat
  ps_failedCount :: nat
  ps_invalidatedCount :: nat
  ps_skippedCount :: nat

record delivery =
  nd_id :: string
  nd_notificationId :: string
  nd_userId :: string
  nd_channel :: notification_channel
  nd_status :: delivery_status
  nd_attemptCount :: nat
  nd_providerMessageId :: "string option"
  nd_lastError :: "string option"
  nd_lastAttemptAt :: "int option"
  nd_details :: "push_summary option"
  nd_completedAt :: "int option"

record preference =
  np_userId :: string
  np_workspaceId :: string
  np_soundScope :: sound_scope
  np_callSoundScope :: call_sound_scope
  np_desktopScope :: contact_scope
  np_mobileScope :: contact_scope
  np_emailScope :: contact_scope

record user_activity =
  ua_userId :: string
  ua_activityStatus :: presence
  ua_lastSeenAt :: "int option"
  ua_lastActivityAt :: "int option"
  ua_lastWorkspaceId :: "string option"
  ua_inactivitySessionId :: string

record device =
  dv_id :: string
  dv_userId :: string
  dv_workspaceId :: "string option"
  dv_deviceKey :: "string option"
  dv_platform :: string
  dv_token :: string
  dv_authSecret :: "string option"
  dv_p256dhKey :: "string option"
  dv_expirationTime :: "int option"
  dv_pushPermission :: "string option"
  dv_deviceName :: "string option"
  dv_metadata :: jsv
  dv_lastSeenAt :: "int option"
  dv_lastSuccessfulDeliveryAt :: "int option"
  dv_lastFailureAt :: "int option"
  dv_failureCount :: nat
  dv_invalidatedAt :: "int option"
  dv_disabledAt :: "int option"
  dv_disabledReason :: "string option"
  dv_lastSubscriptionChangeAt :: "int option"
  dv_createdAt :: int

record attempt =
  at_id :: string
  at_deliveryId :: string
  at_deviceId :: "string option"
  at_targetIdentifier :: string
  at_status :: delivery_status
  at_attemptCount :: nat
  at_providerStatusCode :: "int option"
  at_lastError :: "string option"
  at_lastAttemptAt :: "int option"
  at_deliveredAt :: "int option"
  at_invalidatedAt :: "int option"

record email_history =
  eh_notificationId :: "string option"
  eh_userId :: string
  eh_workspaceId :: string
  eh_contactId :: string
  eh_type :: notification_type
  eh_inactivitySessionId :: string
  eh_sentAt :: int

record notify_member =
  mb_workspaceId :: string
  mb_userId :: string
  mb_role :: "string option"

record contact_info =
  ct_id :: string
  ct_firstName :: "string option"
  ct_lastName :: "string option"
  ct_email :: "string option"
  ct_phone :: "string option"
  ct_assigneeId :: "string option"
  ct_teamId :: "string option"

section \<open>Inputs and results\<close>

record actor_target =
  tg_assigneeId :: "string option"
  tg_contactId :: "string option"
  tg_conversationId :: "string option"
  tg_mentionedUserIds :: "string list option"

record event_input =
  ei_userId :: string
  ei_workspaceId :: string
  ei_organizationId :: "string option"
  ei_type :: notification_type
  ei_title :: string
  ei_body :: "string option"
  ei_metadata :: "jsobj option"
  ei_sourceEntityType :: "string option"
  ei_sourceEntityId :: "string option"
  ei_dedupeKey :: "string option"
  ei_target :: "actor_target option"

record decision =
  dc_channel :: notification_channel
  dc_shouldSend :: bool
  dc_reason :: string

record effective_status =
  ef_status :: presence
  ef_inactivitySessionId :: "string option"
  ef_timeoutSec :: int

section \<open>Defaults\<close>

fun NOTIFICATION_CENTER_DEFAULTS :: "notification_type \<Rightarrow> bool" where
  "NOTIFICATION_CENTER_DEFAULTS NEW_INCOMING_MESSAGE = True"
| "NOTIFICATION_CENTER_DEFAULTS CONTACT_ASSIGNED = True"
| "NOTIFICATION_CENTER_DEFAULTS COMMENT_MENTION = True"
| "NOTIFICATION_CENTER_DEFAULTS CUSTOM_NOTIFICATION = True"
| "NOTIFICATION_CENTER_DEFAULTS CONTACTS_IMPORT_COMPLETED = True"
| "NOTIFICATION_CENTER_DEFAULTS DATA_EXPORT_READY = True"
| "NOTIFICATION_CENTER_DEFAULTS NEW_INCOMING_CALL = True"

fun DESKTOP_DEFAULTS :: "notification_type \<Rightarrow> bool" where
  "DESKTOP_DEFAULTS NEW_INCOMING_MESSAGE = True"
| "DESKTOP_DEFAULTS CONTACT_ASSIGNED = True"
| "DESKTOP_DEFAULTS COMMENT_MENTION = True"
| "DESKTOP_DEFAULTS CUSTOM_NOTIFICATION = True"
| "DESKTOP_DEFAULTS CONTACTS_IMPORT_COMPLETED = False"
| "DESKTOP_DEFAULTS DATA_EXPORT_READY = False"
| "DESKTOP_DEFAULTS NEW_INCOMING_CALL = True"

definition MOBILE_DEFAULTS :: "notification_type \<Rightarrow> bool" where
  "MOBILE_DEFAULTS = DESKTOP_DEFAULTS"

fun EMAIL_DEFAULTS :: "notification_type \<Rightarrow> bool" where
  "EMAIL_DEFAULTS NEW_INCOMING_MESSAGE = True"
| "EMAIL_DEFAULTS CONTACT_ASSIGNED = True"
| "EMAIL_DEFAULTS COMMENT_MENTION = True"
| "EMAIL_DEFAULTS CUSTOM_NOTIFICATION = False"
| "EMAIL_DEFAULTS CONTACTS_IMPORT_COMPLETED = True"
| "EMAIL_DEFAULTS DATA_EXPORT_READY = True"
| "EMAIL_DEFAULTS NEW_INCOMING_CALL = False"

section \<open>Links\<close>

text \<open>\<^verbatim>\<open>URLSearchParams.toString\<close>: the form encoding of the bytes of the UTF-8 text.\<close>

definition upper_hex :: "nat \<Rightarrow> char" where
  "upper_hex n = (if n < 10 then char_of (n + 48) else char_of (n + 55))"

definition percent_byte :: "nat \<Rightarrow> string" where
  "percent_byte n = [CHR ''%'', upper_hex (n div 16), upper_hex (n mod 16)]"

definition form_char :: "char \<Rightarrow> string" where
  "form_char c =
     (let n = (of_char c :: nat) in
      if (48 \<le> n \<and> n \<le> 57) \<or> (65 \<le> n \<and> n \<le> 90) \<or> (97 \<le> n \<and> n \<le> 122) \<or> c \<in> set ''*-._'' then [c]
      else if n = 32 then ''+''
      else if n < 128 then percent_byte n
      else percent_byte (192 + n div 64) @ percent_byte (128 + n mod 64))"

definition form_encode :: "string \<Rightarrow> string" where
  "form_encode s = concat (map form_char s)"

definition queryString :: "(string \<times> string) list \<Rightarrow> string" where
  "queryString ps =
     (let v = js_join ''&'' (map (\<lambda>(k, v). form_encode k @ ''='' @ form_encode v) ps)
      in if v \<noteq> [] then ''?'' @ v else [])"

definition readString :: "jsv \<Rightarrow> string option" where
  "readString v = (if nonempty_str v then Some (v_str v) else None)"

definition DEFAULT_NOTIFICATION_ROUTE :: string where
  "DEFAULT_NOTIFICATION_ROUTE = ''/user/settings/notifications''"

definition DEFAULT_BADGE_ICON :: string where
  "DEFAULT_BADGE_ICON = ''/pwa/icon-192.png''"

definition resolveNotificationDeepLink ::
  "notification_type \<Rightarrow> string option \<Rightarrow> string option \<Rightarrow> jsobj \<Rightarrow> string" where
  "resolveNotificationDeepLink type workspaceId sourceEntityType metadata =
     (if nonempty_str (o_get metadata ''deepLink'') then v_str (o_get metadata ''deepLink'')
      else let query = (if js_truthy workspaceId then [(''workspaceId'', the workspaceId)] else []);
               jobId = readString (o_get metadata ''jobId'')
        in case readString (o_get metadata ''conversationId'') of
          Some conversationId \<Rightarrow>
            let msg = js_or (readString (o_get metadata ''targetMessageId'')) (readString (o_get metadata ''messageId''))
            in ''/inbox/'' @ conversationId
                 @ queryString (query @ (if js_truthy msg then [(''targetMessageId'', the msg)] else []))
        | None \<Rightarrow>
            if jobId \<noteq> None \<and> (sourceEntityType = Some ''import_export_job'' \<or> type = CONTACTS_IMPORT_COMPLETED \<or> type = DATA_EXPORT_READY)
            then ''/contacts/import-jobs'' @ queryString (query @ [(''jobId'', the jobId)])
            else DEFAULT_NOTIFICATION_ROUTE @ queryString query)"

definition decorateNotificationMetadata ::
  "jsobj option \<Rightarrow> notification_type \<Rightarrow> string option \<Rightarrow> string option \<Rightarrow> jsobj" where
  "decorateNotificationMetadata metadata type workspaceId sourceEntityType =
     (let ob = js_default metadata []
      in if v_truthy (o_get ob ''deepLink'') then ob
         else o_set ''deepLink'' (JStr (resolveNotificationDeepLink type workspaceId sourceEntityType ob)) ob)"

record push_payload =
  pp_title :: string
  pp_body :: string
  pp_icon :: string
  pp_badge :: string
  pp_tag :: string
  pp_requireInteraction :: bool
  pp_renotify :: bool
  pp_notificationId :: string
  pp_type :: notification_type
  pp_workspaceId :: "string option"
  pp_deepLink :: string
  pp_conversationId :: "string option"
  pp_jobId :: "string option"

definition buildNotificationPushPayload :: "notification \<Rightarrow> jsobj \<Rightarrow> push_payload" where
  "buildNotificationPushPayload n metadata =
     \<lparr>pp_title = nt_title n, pp_body = js_default (nt_body n) [],
      pp_icon = js_or_str (readString (o_get metadata ''iconUrl'')) DEFAULT_BADGE_ICON,
      pp_badge = js_or_str (readString (o_get metadata ''badgeUrl'')) DEFAULT_BADGE_ICON,
      pp_tag = ''notification:'' @ nt_id n,
      pp_requireInteraction = (nt_type n = NEW_INCOMING_CALL), pp_renotify = (nt_type n = NEW_INCOMING_CALL),
      pp_notificationId = nt_id n, pp_type = nt_type n, pp_workspaceId = nt_workspaceId n,
      pp_deepLink = resolveNotificationDeepLink (nt_type n) (nt_workspaceId n) (nt_sourceEntityType n) metadata,
      pp_conversationId = readString (o_get metadata ''conversationId''),
      pp_jobId = readString (o_get metadata ''jobId'')\<rparr>"

section \<open>State\<close>

datatype notify_job =
    SendEmail string "string option" string string string
  | SendPush string string "string option" string string jsv

text \<open>The identifiers that \<^verbatim>\<open>notification.queue.ts\<close> gives its jobs.\<close>

fun job_id :: "notify_job \<Rightarrow> string" where
  "job_id (SendEmail n w e su b) = ''notification:email:'' @ n"
| "job_id (SendPush n u w t b md) = ''notification:push:'' @ n"

datatype notify_event =
    NotificationNew string notification "delivery list" nat
  | NotificationUpdated string notification
  | NotificationBadge string nat string

record sent_mail =
  sm_notificationId :: string
  sm_to :: string
  sm_title :: string
  sm_body :: string

record sent_push =
  sp_deliveryId :: string
  sp_endpoint :: string

record nstate =
  n_now :: int
  n_seq :: nat
  n_notifications :: "notification list"
  n_deliveries :: "delivery list"
  n_prefs :: "preference list"
  n_activity :: "user_activity list"
  n_devices :: "device list"
  n_attempts :: "attempt list"
  n_history :: "email_history list"
  n_members :: "notify_member list"
  n_timeouts :: "(string \<times> int) list"
  n_convs :: "(string \<times> contact_info) list"
  n_teams :: "(string \<times> string) list"
  n_server :: bool
  n_sockets :: "(string \<times> string) list"
  n_socketCache :: "(string \<times> string) list"
  n_jobs :: "notify_job list"
  n_emitted :: "notify_event list"
  n_mails :: "sent_mail list"
  n_pushed :: "sent_push list"

type_synonym 'a notify = "(nstate, 'a) io"

record notify_env =
  ne_uuid :: "nat \<Rightarrow> string"
  ne_uuid_ok :: "string \<Rightarrow> bool"
  ne_email :: "string \<Rightarrow> string"
  ne_message :: "exn \<Rightarrow> string"
  ne_runtime :: js_runtime

section \<open>Table operations\<close>

text \<open>A row's generated identifier, the update of one row and the entry of a job.\<close>

definition new_id :: "notify_env \<Rightarrow> string notify" where
  "new_id E s = (Inr (ne_uuid E (n_seq s)), s\<lparr>n_seq := n_seq s + 1\<rparr>)"

definition update_one :: "(nstate \<Rightarrow> 'r list) \<Rightarrow> ('r list \<Rightarrow> nstate \<Rightarrow> nstate) \<Rightarrow> ('r \<Rightarrow> bool) \<Rightarrow> ('r \<Rightarrow> 'r) \<Rightarrow> 'r notify" where
  "update_one get put P f s =
     (case find P (get s) of None \<Rightarrow> (Inl PrismaP2025, s) | Some r \<Rightarrow> (Inr (f r), put (upd_where P f (get s)) s))"

definition activity_update :: "string \<Rightarrow> (user_activity \<Rightarrow> user_activity) \<Rightarrow> user_activity notify" where
  "activity_update u = update_one n_activity (\<lambda>x. n_activity_update (\<lambda>_. x)) (\<lambda>r. ua_userId r = u)"

definition userActivity_create :: "notify_env \<Rightarrow> user_activity \<Rightarrow> user_activity notify" where
  "userActivity_create E row =
     bind_io (new_id E) (\<lambda>i s.
       if ua_userId row \<in> ua_userId ` set (n_activity s) then (Inl PrismaP2002, s)
       else let r = row\<lparr>ua_inactivitySessionId := i\<rparr> in (Inr r, s\<lparr>n_activity := n_activity s @ [r]\<rparr>))"

definition delivery_update :: "(delivery \<Rightarrow> bool) \<Rightarrow> (delivery \<Rightarrow> delivery) \<Rightarrow> delivery notify" where
  "delivery_update = update_one n_deliveries (\<lambda>x. n_deliveries_update (\<lambda>_. x))"

definition device_update :: "string \<Rightarrow> (device \<Rightarrow> device) \<Rightarrow> device notify" where
  "device_update i = update_one n_devices (\<lambda>x. n_devices_update (\<lambda>_. x)) (\<lambda>r. dv_id r = i)"

definition attempt_update :: "string \<Rightarrow> (attempt \<Rightarrow> attempt) \<Rightarrow> attempt notify" where
  "attempt_update i = update_one n_attempts (\<lambda>x. n_attempts_update (\<lambda>_. x)) (\<lambda>r. at_id r = i)"

definition notification_update :: "string \<Rightarrow> (notification \<Rightarrow> notification) \<Rightarrow> notification notify" where
  "notification_update i = update_one n_notifications (\<lambda>x. n_notifications_update (\<lambda>_. x)) (\<lambda>r. nt_id r = i)"

definition queue_add :: "notify_job \<Rightarrow> unit notify" where
  "queue_add j = modify (\<lambda>s. if job_id j \<in> job_id ` set (n_jobs s) then s else s\<lparr>n_jobs := n_jobs s @ [j]\<rparr>)"

definition find_activity :: "string \<Rightarrow> nstate \<Rightarrow> user_activity option" where
  "find_activity u s = find (\<lambda>r. ua_userId r = u) (n_activity s)"

definition find_notification :: "string \<Rightarrow> nstate \<Rightarrow> notification option" where
  "find_notification i s = find (\<lambda>r. nt_id r = i) (n_notifications s)"

definition deliveries_of :: "string \<Rightarrow> nstate \<Rightarrow> delivery list" where
  "deliveries_of i s = filter (\<lambda>d. nd_notificationId d = i) (n_deliveries s)"

text \<open>
  \<^verbatim>\<open>emitToUser\<close> reads a property of the gateway's server, which is undefined in a process
  that has no gateway.
\<close>

definition emitToUser :: "notify_event \<Rightarrow> unit notify" where
  "emitToUser ev s =
     (if n_server s then (Inr (), s\<lparr>n_emitted := n_emitted s @ [ev]\<rparr>)
      else (Inl (TypeErrorException ''Cannot read properties of undefined''), s))"

section \<open>A sample\<close>

text \<open>An environment and a state to evaluate the definitions at: the clock of its runtime counts in unary.\<close>

definition notify_js :: js_runtime where
  "notify_js = \<lparr>js_date_parse = (\<lambda>s. case s of [] \<Rightarrow> NaN | c # cs \<Rightarrow> Fin (of_int (if c = CHR ''-'' then - int (length cs) else int (length cs)))),
     js_date_string = (\<lambda>_. ''date''),
     js_date_iso = (\<lambda>t. if t < 0 then CHR ''-'' # replicate (nat (- t)) (CHR ''i'') else CHR ''+'' # replicate (nat t) (CHR ''i'')),
     js_valid_zone = (\<lambda>_. True), js_weekday = (\<lambda>_ _. ''Monday''), js_time = (\<lambda>_ _. ''00:00''),
     js_ymd = (\<lambda>_ _. (''2024'', ''01'', ''01'')), js_url_ok = (\<lambda>_. True), js_star = ''*'', js_star_count = (\<lambda>_. None)\<rparr>"

definition notify_sample_env :: notify_env where
  "notify_sample_env = \<lparr>ne_uuid = (\<lambda>k. CHR ''u'' # replicate k (CHR ''i'')), ne_uuid_ok = (\<lambda>s. s \<noteq> ''null''),
     ne_email = (\<lambda>u. u @ ''@example.org''), ne_message = (\<lambda>_. ''error''), ne_runtime = notify_js\<rparr>"

lemma sample_uuid_inj: "inj (ne_uuid notify_sample_env)"
  by (rule injI) (simp add: notify_sample_env_def)

definition notify_empty :: nstate where
  "notify_empty = \<lparr>n_now = 1000, n_seq = 0, n_notifications = [], n_deliveries = [], n_prefs = [], n_activity = [], n_devices = [],
     n_attempts = [], n_history = [], n_members = [], n_timeouts = [], n_convs = [], n_teams = [], n_server = True,
     n_sockets = [], n_socketCache = [], n_jobs = [], n_emitted = [], n_mails = [], n_pushed = []\<rparr>"

definition sample_notification :: notification where
  "sample_notification = \<lparr>nt_id = ''n'', nt_userId = ''u'', nt_workspaceId = Some ''w'', nt_organizationId = None,
     nt_type = NEW_INCOMING_MESSAGE, nt_title = ''New message from Ann'', nt_body = Some ''hello'',
     nt_metadata = JObj [(''contactId'', JStr ''c'')], nt_sourceEntityType = Some ''message'', nt_sourceEntityId = Some ''m'',
     nt_dedupeKey = Some ''inbound-message:m:u'', nt_readAt = None, nt_archivedAt = None, nt_createdAt = 900\<rparr>"

definition sample_delivery :: "notification_channel \<Rightarrow> delivery" where
  "sample_delivery ch = \<lparr>nd_id = ''d'', nd_notificationId = ''n'', nd_userId = ''u'', nd_channel = ch, nd_status = PENDING,
     nd_attemptCount = 0, nd_providerMessageId = None, nd_lastError = None, nd_lastAttemptAt = None, nd_details = None,
     nd_completedAt = None\<rparr>"

definition sample_input :: event_input where
  "sample_input = \<lparr>ei_userId = ''u'', ei_workspaceId = ''w'', ei_organizationId = None, ei_type = NEW_INCOMING_MESSAGE,
     ei_title = ''New message from Ann'', ei_body = Some ''again'', ei_metadata = Some [(''contactId'', JStr ''c''), (''deepLink'', JStr ''/l'')],
     ei_sourceEntityType = Some ''message'', ei_sourceEntityId = Some ''m2'', ei_dedupeKey = Some ''inbound-message:m2:u'',
     ei_target = Some \<lparr>tg_assigneeId = Some ''u'', tg_contactId = Some ''c'', tg_conversationId = None, tg_mentionedUserIds = None\<rparr>\<rparr>"

definition sample_away :: user_activity where
  "sample_away = \<lparr>ua_userId = ''u'', ua_activityStatus = OFFLINE, ua_lastSeenAt = Some 10, ua_lastActivityAt = Some 10,
     ua_lastWorkspaceId = Some ''w'', ua_inactivitySessionId = ''session''\<rparr>"

definition away_state :: nstate where
  "away_state = notify_empty\<lparr>n_notifications := [sample_notification], n_deliveries := [sample_delivery EMAIL],
     n_activity := [sample_away]\<rparr>"

end
