(* ===== verification/Notify_Presence.thy ===== *)
theory Notify_Presence
  imports Notify_Model
begin

text \<open>
  Who is there and what they want to hear of: the presence of a user
  (\<^verbatim>\<open>notification-activity.service.ts\<close>, \<^verbatim>\<open>UsersService.updateAvailability\<close>, the part of
  \<^verbatim>\<open>RealtimeGateway.handleConnection\<close> after the token check), the open sockets
  (\<^verbatim>\<open>RealtimeService.hasUserConnection\<close>) and the preferences of a user in a workspace
  (\<^verbatim>\<open>notification-preferences.service.ts\<close>). The lemmas: an inactivity session begins only
  when the user leaves an active state, a state the user chose survives heartbeats, and the answer of
  \<^verbatim>\<open>hasUserConnection\<close> does not depend on what Redis holds.
\<close>

section \<open>Presence\<close>

definition timeout_of :: "string \<Rightarrow> nstate \<Rightarrow> int" where
  "timeout_of w s = js_default (map_of (n_timeouts s) w) 300"

definition getPreservedManualState :: "presence option \<Rightarrow> presence option" where
  "getPreservedManualState st = (if st \<in> {Some AWAY, Some BUSY, Some DND} then st else None)"

definition blank_activity :: "string \<Rightarrow> presence \<Rightarrow> user_activity" where
  "blank_activity u st = \<lparr>ua_userId = u, ua_activityStatus = st, ua_lastSeenAt = None, ua_lastActivityAt = None,
     ua_lastWorkspaceId = None, ua_inactivitySessionId = []\<rparr>"

definition heartbeat :: "notify_env \<Rightarrow> string \<Rightarrow> string \<Rightarrow> string option \<Rightarrow> (user_activity \<times> int \<times> string option) notify" where
  "heartbeat E userId workspaceId modul =
     bind_io (gets (\<lambda>s. (timeout_of workspaceId s, find_activity userId s, n_now s))) (\<lambda>(timeout, existing, now).
       let before = map_option ua_activityStatus existing;
           preserved = getPreservedManualState before
       in if modul = Some ''background'' then
            let nextStatus = js_default preserved OFFLINE;
                rotate = (nextStatus = OFFLINE \<and> before \<noteq> Some OFFLINE);
                seen = (\<lambda>r. r\<lparr>ua_activityStatus := nextStatus, ua_lastSeenAt := Some now, ua_lastWorkspaceId := Some workspaceId\<rparr>)
            in bind_io
                (case existing of
                   Some _ \<Rightarrow>
                     if rotate then bind_io (new_id E) (\<lambda>i. activity_update userId (\<lambda>r. (seen r)\<lparr>ua_inactivitySessionId := i\<rparr>))
                     else activity_update userId seen
                 | None \<Rightarrow> userActivity_create E (seen (blank_activity userId nextStatus)))
                (\<lambda>state. ret (state, timeout, modul))
          else
            let seen = (\<lambda>st r. r\<lparr>ua_activityStatus := st, ua_lastSeenAt := Some now, ua_lastActivityAt := Some now,
                                  ua_lastWorkspaceId := Some workspaceId\<rparr>)
            in bind_io
                (case existing of
                   Some _ \<Rightarrow> activity_update userId (seen (js_default preserved ACTIVE))
                 | None \<Rightarrow> userActivity_create E (seen ACTIVE (blank_activity userId ACTIVE)))
                (\<lambda>state. ret (state, timeout, modul)))"

definition getEffectiveStatus :: "notify_env \<Rightarrow> string \<Rightarrow> string \<Rightarrow> effective_status notify" where
  "getEffectiveStatus E userId workspaceId =
     bind_io (gets (\<lambda>s. (timeout_of workspaceId s, find_activity userId s, n_now s))) (\<lambda>(timeoutSec, state, now).
       let lastActivityAt = js_default (Option.bind state ua_lastActivityAt) 0;
           explicitState = js_default (map_option ua_activityStatus state) OFFLINE;
           answer = (\<lambda>st sid. \<lparr>ef_status = st, ef_inactivitySessionId = sid, ef_timeoutSec = timeoutSec\<rparr>);
           session = map_option ua_inactivitySessionId state
       in if explicitState = OFFLINE then ret (answer OFFLINE session)
          else if explicitState = AWAY \<or> explicitState = BUSY \<or> explicitState = DND then ret (answer explicitState session)
          else if lastActivityAt = 0 \<or> now - lastActivityAt > timeoutSec * 1000 then
            (if state \<noteq> None \<and> explicitState \<noteq> OFFLINE then
               bind_io (new_id E) (\<lambda>i.
               bind_io (activity_update userId (\<lambda>r. r\<lparr>ua_activityStatus := OFFLINE, ua_inactivitySessionId := i\<rparr>))
                 (\<lambda>u. ret (answer (ua_activityStatus u) (Some (ua_inactivitySessionId u)))))
             else ret (answer OFFLINE session))
          else if state = None then
            bind_io (userActivity_create E ((blank_activity userId ACTIVE)\<lparr>ua_lastSeenAt := Some now, ua_lastActivityAt := Some now,
                                          ua_lastWorkspaceId := Some workspaceId\<rparr>))
              (\<lambda>c. ret (answer (ua_activityStatus c) (Some (ua_inactivitySessionId c))))
          else ret (answer ACTIVE session))"

definition updateInactivityTimeout :: "string \<Rightarrow> int \<Rightarrow> (string \<times> int) notify" where
  "updateInactivityTimeout workspaceId sec =
     update_one n_timeouts (\<lambda>x. n_timeouts_update (\<lambda>_. x)) (\<lambda>r. fst r = workspaceId) (\<lambda>r. (fst r, sec))"

definition availability_status :: "string \<Rightarrow> presence" where
  "availability_status a =
     (if a = ''online'' then ACTIVE else if a = ''away'' then AWAY else if a = ''busy'' then BUSY
      else if a = ''dnd'' then DND else OFFLINE)"

definition updateAvailability :: "notify_env \<Rightarrow> string \<Rightarrow> string \<Rightarrow> user_activity notify" where
  "updateAvailability E userId available =
     bind_io (gets (\<lambda>s. (find_activity userId s, n_now s))) (\<lambda>(existing, now).
       let st = availability_status available;
           seen = (\<lambda>r. r\<lparr>ua_activityStatus := st, ua_lastSeenAt := Some now,
                          ua_lastActivityAt := (if st = ACTIVE then Some now else ua_lastActivityAt r)\<rparr>)
       in case existing of
            None \<Rightarrow> userActivity_create E ((blank_activity userId st)\<lparr>ua_lastSeenAt := Some now,
                      ua_lastActivityAt := (if st = OFFLINE then None else Some now)\<rparr>)
          | Some _ \<Rightarrow>
              if st = OFFLINE then bind_io (new_id E) (\<lambda>i. activity_update userId (\<lambda>r. (seen r)\<lparr>ua_inactivitySessionId := i\<rparr>))
              else activity_update userId seen)"

section \<open>Sockets\<close>

definition join_sockets :: "string \<Rightarrow> string \<Rightarrow> unit notify" where
  "join_sockets userId socketId = modify (\<lambda>s. s\<lparr>n_sockets := n_sockets s @ [(userId, socketId)],
     n_socketCache := (if (userId, socketId) \<in> set (n_socketCache s) then n_socketCache s
                       else n_socketCache s @ [(userId, socketId)])\<rparr>)"

definition handleConnection_activity :: "notify_env \<Rightarrow> string \<Rightarrow> string \<Rightarrow> unit notify" where
  "handleConnection_activity E userId socketId =
     seq_io (join_sockets userId socketId)
     (bind_io (gets (\<lambda>s. (find_activity userId s, n_now s))) (\<lambda>(activity, now).
       let seen = (\<lambda>r. r\<lparr>ua_activityStatus := ACTIVE, ua_lastSeenAt := Some now, ua_lastActivityAt := Some now\<rparr>)
       in case activity of
            None \<Rightarrow> seq_io (userActivity_create E (seen (blank_activity userId ACTIVE))) (ret ())
          | Some a \<Rightarrow>
              if ua_activityStatus a \<notin> {AWAY, BUSY, DND} then seq_io (activity_update userId seen) (ret ()) else ret ()))"

definition handleDisconnect :: "string \<Rightarrow> string \<Rightarrow> unit notify" where
  "handleDisconnect userId socketId = modify (\<lambda>s. s\<lparr>
     n_sockets := filter (\<lambda>p. p \<noteq> (userId, socketId)) (n_sockets s),
     n_socketCache := filter (\<lambda>p. p \<noteq> (userId, socketId)) (n_socketCache s)\<rparr>)"

definition live_sockets :: "string \<Rightarrow> nstate \<Rightarrow> string list" where
  "live_sockets u s = map snd (filter (\<lambda>p. fst p = u) (n_sockets s))"

definition cached_sockets :: "string \<Rightarrow> nstate \<Rightarrow> string list" where
  "cached_sockets u s = map snd (filter (\<lambda>p. fst p = u) (n_socketCache s))"

definition cache_del :: "string \<Rightarrow> nstate \<Rightarrow> nstate" where
  "cache_del u s = s\<lparr>n_socketCache := filter (\<lambda>p. fst p \<noteq> u) (n_socketCache s)\<rparr>"

definition cache_srem :: "string \<Rightarrow> string list \<Rightarrow> nstate \<Rightarrow> nstate" where
  "cache_srem u ids s = s\<lparr>n_socketCache := filter (\<lambda>p. fst p \<noteq> u \<or> snd p \<notin> set ids) (n_socketCache s)\<rparr>"

definition cache_sadd :: "string \<Rightarrow> string list \<Rightarrow> nstate \<Rightarrow> nstate" where
  "cache_sadd u ids s = s\<lparr>n_socketCache := n_socketCache s @ map (Pair u) (remdups ids)\<rparr>"

definition repopulate :: "string \<Rightarrow> bool notify" where
  "repopulate userId =
     bind_io (gets (live_sockets userId)) (\<lambda>sockets.
       if sockets \<noteq> [] then seq_io (modify (cache_sadd userId sockets \<circ> cache_del userId)) (ret True)
       else seq_io (modify (cache_del userId)) (ret False))"

definition hasUserConnection :: "string \<Rightarrow> bool notify" where
  "hasUserConnection userId =
     bind_io (gets (\<lambda>s. (cached_sockets userId s, n_server s, live_sockets userId s))) (\<lambda>(socketIds, server, live).
       if socketIds \<noteq> [] \<and> server then
         let staleIds = filter (\<lambda>i. i \<notin> set live) socketIds
         in seq_io (if staleIds \<noteq> [] then modify (cache_srem userId staleIds) else ret ())
              (if live \<noteq> [] then ret True else repopulate userId)
       else if \<not> server then ret False else repopulate userId)"

section \<open>Preferences\<close>

definition buildDefaultPreferences :: "string \<Rightarrow> string \<Rightarrow> nstate \<Rightarrow> preference" where
  "buildDefaultPreferences userId workspaceId s =
     (let membership = find (\<lambda>m. mb_workspaceId m = workspaceId \<and> mb_userId m = userId) (n_members s);
          role = js_default (map_option js_lower (Option.bind membership mb_role)) [];
          isCreator = (js_includes role ''owner'' \<or> js_includes role ''admin'' \<or> js_includes role ''ws_owner''
                       \<or> js_includes role ''org_admin'')
      in if isCreator then
           \<lparr>np_userId = userId, np_workspaceId = workspaceId, np_soundScope = SOUND_ASSIGNED_AND_UNASSIGNED,
            np_callSoundScope = CALL_ASSIGNED_AND_UNASSIGNED, np_desktopScope = ALL_CONTACTS, np_mobileScope = ALL_CONTACTS,
            np_emailScope = ALL_CONTACTS\<rparr>
         else
           \<lparr>np_userId = userId, np_workspaceId = workspaceId, np_soundScope = SOUND_ASSIGNED_ONLY,
            np_callSoundScope = CALL_ASSIGNED_ONLY, np_desktopScope = ASSIGNED_ONLY, np_mobileScope = ASSIGNED_ONLY,
            np_emailScope = ASSIGNED_ONLY\<rparr>)"

definition find_prefs :: "string \<Rightarrow> string \<Rightarrow> nstate \<Rightarrow> preference option" where
  "find_prefs u w s = find (\<lambda>p. np_userId p = u \<and> np_workspaceId p = w) (n_prefs s)"

definition getUserPreferences :: "string \<Rightarrow> string \<Rightarrow> preference notify" where
  "getUserPreferences userId workspaceId =
     bind_io (gets (find_prefs userId workspaceId)) (\<lambda>prefs.
       case prefs of
         Some p \<Rightarrow> ret p
       | None \<Rightarrow> bind_io (gets (buildDefaultPreferences userId workspaceId)) (\<lambda>p.
           seq_io (modify (\<lambda>s. s\<lparr>n_prefs := n_prefs s @ [p]\<rparr>)) (ret p)))"

text \<open>The five scopes of the update, all of them required by the DTO.\<close>

record preference_update =
  pu_soundScope :: sound_scope
  pu_callSoundScope :: call_sound_scope
  pu_desktopScope :: contact_scope
  pu_mobileScope :: contact_scope
  pu_emailScope :: contact_scope

definition updateUserPreferences :: "string \<Rightarrow> string \<Rightarrow> preference_update \<Rightarrow> preference notify" where
  "updateUserPreferences userId workspaceId payload =
     seq_io (getUserPreferences userId workspaceId)
       (update_one n_prefs (\<lambda>x. n_prefs_update (\<lambda>_. x)) (\<lambda>p. np_userId p = userId \<and> np_workspaceId p = workspaceId)
         (\<lambda>p. p\<lparr>np_soundScope := pu_soundScope payload, np_callSoundScope := pu_callSoundScope payload,
                np_desktopScope := pu_desktopScope payload, np_mobileScope := pu_mobileScope payload,
                np_emailScope := pu_emailScope payload\<rparr>))"

section \<open>What the operations promise\<close>

text \<open>
  The presence that counts for notifications: the stored state, except that an active user who has not
  been seen for longer than the workspace's timeout is offline.
\<close>

definition presence_now :: "string \<Rightarrow> string \<Rightarrow> nstate \<Rightarrow> presence" where
  "presence_now u w s =
     (case find_activity u s of
        None \<Rightarrow> OFFLINE
      | Some a \<Rightarrow>
          if ua_activityStatus a \<noteq> ACTIVE then ua_activityStatus a
          else if js_default (ua_lastActivityAt a) 0 = 0 \<or> n_now s - js_default (ua_lastActivityAt a) 0 > timeout_of w s * 1000
               then OFFLINE else ACTIVE)"

lemma update_one_found:
  "find P (get s) = Some r \<Longrightarrow> update_one get put P f s = (Inr (f r), put (upd_where P f (get s)) s)"
  by (simp add: update_one_def)

lemma getEffectiveStatus_cases:
  "getEffectiveStatus E u w s =
     (case find_activity u s of
        None \<Rightarrow> (Inr \<lparr>ef_status = OFFLINE, ef_inactivitySessionId = None, ef_timeoutSec = timeout_of w s\<rparr>, s)
      | Some a \<Rightarrow>
          if ua_activityStatus a = ACTIVE \<and> presence_now u w s = OFFLINE then
            (Inr \<lparr>ef_status = OFFLINE, ef_inactivitySessionId = Some (ne_uuid E (n_seq s)), ef_timeoutSec = timeout_of w s\<rparr>,
             s\<lparr>n_seq := n_seq s + 1, n_activity := upd_where (\<lambda>r. ua_userId r = u)
               (\<lambda>r. r\<lparr>ua_activityStatus := OFFLINE, ua_inactivitySessionId := ne_uuid E (n_seq s)\<rparr>) (n_activity s)\<rparr>)
          else (Inr \<lparr>ef_status = presence_now u w s, ef_inactivitySessionId = Some (ua_inactivitySessionId a),
                     ef_timeoutSec = timeout_of w s\<rparr>, s))"
proof (cases "find_activity u s")
  case None
  then show ?thesis by (simp add: getEffectiveStatus_def bind_gets ret_def)
next
  case (Some a)
  then have "find (\<lambda>r. ua_userId r = u) (n_activity s) = Some a" by (simp add: find_activity_def)
  with Some show ?thesis
    by (cases "ua_activityStatus a")
      (auto simp: getEffectiveStatus_def bind_gets presence_now_def io_simps new_id_def activity_update_def update_one_found Let_def)
qed

lemma getEffectiveStatus_status:
  "getEffectiveStatus E u w s = (r, t) \<Longrightarrow> \<exists>act. r = Inr act \<and> ef_status act = presence_now u w s"
  by (auto simp: getEffectiveStatus_cases presence_now_def split: option.splits if_splits)

text \<open>The Redis set is only a cache: the answer is whether the server has a socket of the user.\<close>

definition has_socket :: "string \<Rightarrow> nstate \<Rightarrow> bool" where
  "has_socket u s \<longleftrightarrow> n_server s \<and> live_sockets u s \<noteq> []"

lemma presence_frame [simp]: "presence_now u w (s\<lparr>n_prefs := c\<rparr>) = presence_now u w s"
  by (simp add: presence_now_def find_activity_def timeout_of_def split: option.split)

lemma has_socket_frame [simp]:
  "has_socket u (s\<lparr>n_prefs := c\<rparr>) = has_socket u s" "has_socket u (s\<lparr>n_activity := x\<rparr>) = has_socket u s"
  "has_socket u (s\<lparr>n_seq := k\<rparr>) = has_socket u s"
  by (simp_all add: has_socket_def live_sockets_def)

lemma hasUserConnection_answer: "fst (hasUserConnection u s) = Inr (has_socket u s)"
  by (simp add: hasUserConnection_def repopulate_def bind_gets io_simps has_socket_def Let_def cache_srem_def live_sockets_def)

text \<open>
  Frames: an operation \<open>preserves\<close> a projection of the state when no run of it changes that projection.
\<close>

definition preserves :: "(nstate \<Rightarrow> 'p) \<Rightarrow> nstate \<Rightarrow> nstate \<Rightarrow> bool" where
  "preserves p s t \<longleftrightarrow> p t = p s"

interpretation fr: step_order "preserves p" for p
  by unfold_locales (simp_all add: preserves_def)

lemma fr_modify: "(\<And>s. p (f s) = p s) \<Longrightarrow> keeps (preserves p) (modify f)"
  by (rule fr.r_modify) (simp add: preserves_def)

lemma fr_update: "(\<And>x s. p (put x s) = p s) \<Longrightarrow> keeps (preserves p) (update_one get put P f)"
  by (rule keepsI) (simp add: preserves_def update_one_def split: option.split)

lemma fr_new_id: "(\<And>k s. p (s\<lparr>n_seq := k\<rparr>) = p s) \<Longrightarrow> keeps (preserves p) (new_id E)"
  by (rule keepsI) (simp add: preserves_def new_id_def)

lemma fr_D: "keeps (preserves p) m \<Longrightarrow> m s = (r, t) \<Longrightarrow> p t = p s"
  by (drule (1) keeps_result) (simp add: preserves_def)

lemma fr_snd: "keeps (preserves p) m \<Longrightarrow> p (snd (m s)) = p s"
  using keepsD [of "preserves p" m s] by (simp add: preserves_def)

lemma fr_activity:
  assumes "\<And>k s. p (s\<lparr>n_seq := k\<rparr>) = p s" and "\<And>x s. p (s\<lparr>n_activity := x\<rparr>) = p s"
  shows "keeps (preserves p) (activity_update u f)" and "keeps (preserves p) (userActivity_create E row)"
    and "keeps (preserves p) (getEffectiveStatus E u w)" and "keeps (preserves p) (heartbeat E u w m)"
    and "keeps (preserves p) (updateAvailability E u av)"
proof -
  show upd: "keeps (preserves p) (activity_update u f)" for u f
    unfolding activity_update_def by (rule fr_update) (simp add: assms)
  show add: "keeps (preserves p) (userActivity_create E row)" for row
    by (rule keepsI) (simp add: preserves_def userActivity_create_def bind_io_def new_id_def assms Let_def)
  show "keeps (preserves p) (getEffectiveStatus E u w)"
    by (rule keepsI) (simp add: preserves_def getEffectiveStatus_cases assms split: option.split)
  show "keeps (preserves p) (heartbeat E u w m)"
    unfolding heartbeat_def Let_def by (intro fr.r_intros upd add fr_new_id assms)
  show "keeps (preserves p) (updateAvailability E u av)"
    unfolding updateAvailability_def Let_def by (intro fr.r_intros upd add fr_new_id assms)
qed

lemma fr_connection:
  assumes "\<And>c s. p (s\<lparr>n_socketCache := c\<rparr>) = p s"
  shows "keeps (preserves p) (hasUserConnection u)"
  unfolding hasUserConnection_def repopulate_def Let_def
  by (intro fr.r_intros fr_modify) (simp_all add: assms cache_sadd_def cache_del_def cache_srem_def)

lemma fr_preferences:
  assumes "\<And>c s. p (s\<lparr>n_prefs := c\<rparr>) = p s"
  shows "keeps (preserves p) (getUserPreferences u w)" and "keeps (preserves p) (updateUserPreferences u w pay)"
  unfolding updateUserPreferences_def getUserPreferences_def
  by (intro fr.r_intros fr_modify fr_update; simp add: assms)+

lemma getUserPreferences_returns: "\<exists>p t. getUserPreferences u w s = (Inr p, t)"
  by (simp add: getUserPreferences_def bind_gets io_simps split: option.split)

text \<open>A state that the user chose survives a heartbeat, from the foreground and from the background.\<close>

lemma heartbeat_manual:
  assumes "find_activity u s = Some a" and "ua_activityStatus a \<in> {AWAY, BUSY, DND}"
  shows "\<exists>row t. heartbeat E u w m s = (Inr (row, timeout_of w s, m), t) \<and> find_activity u t = Some row
    \<and> ua_activityStatus row = ua_activityStatus a \<and> ua_inactivitySessionId row = ua_inactivitySessionId a"
proof -
  have found: "find (\<lambda>r. ua_userId r = u) (n_activity s) = Some a" using assms(1) by (simp add: find_activity_def)
  have keep: "getPreservedManualState (Some (ua_activityStatus a)) = Some (ua_activityStatus a)"
    using assms(2) by (auto simp: getPreservedManualState_def)
  show ?thesis
    using assms found keep find_Some_in [OF found]
    by (auto simp: heartbeat_def bind_gets io_simps activity_update_def update_one_found Let_def find_activity_def find_upd_where)
qed

end
