(* ===== verification/Notify_Rules.thy ===== *)
theory Notify_Rules
  imports Notify_Presence
begin

text \<open>
  Which channels a notification takes: \<^verbatim>\<open>notification-rule-engine.service.ts\<close>. The channel
  decisions depend on the type's defaults, the user's preferences, the effective presence and whether a
  socket is open; the e-mail decision also on the history of the inactivity session.
\<close>

section \<open>Scopes\<close>

definition assignee_of :: "actor_target option \<Rightarrow> string option" where
  "assignee_of target = Option.bind target tg_assigneeId"

definition mentioned :: "actor_target option \<Rightarrow> string \<Rightarrow> bool" where
  "mentioned target userId = js_default (map_option (\<lambda>ids. userId \<in> set ids) (Option.bind target tg_mentionedUserIds)) False"

definition assigned_or_free :: "actor_target option \<Rightarrow> string \<Rightarrow> bool" where
  "assigned_or_free target userId = (\<not> js_truthy (assignee_of target) \<or> assignee_of target = Some userId)"

definition matchesEmailRules :: "notification_type \<Rightarrow> presence \<Rightarrow> bool" where
  "matchesEmailRules type st =
     (if type = NEW_INCOMING_MESSAGE \<or> type = CONTACT_ASSIGNED then st = OFFLINE else True)"

definition matchesPushRules :: "presence \<Rightarrow> bool" where
  "matchesPushRules st = (st \<noteq> DND \<and> st \<noteq> BUSY)"

definition matchesContactScope :: "contact_scope \<Rightarrow> notification_type \<Rightarrow> string \<Rightarrow> actor_target option \<Rightarrow> bool" where
  "matchesContactScope sc type userId target =
     (if type = COMMENT_MENTION \<or> sc = MENTIONS_ONLY then mentioned target userId
      else if type = CUSTOM_NOTIFICATION \<or> type = CONTACTS_IMPORT_COMPLETED \<or> type = DATA_EXPORT_READY then sc \<noteq> NO_CONTACTS
      else case sc of
          ALL_CONTACTS \<Rightarrow> True
        | ASSIGNED_AND_UNASSIGNED \<Rightarrow> assigned_or_free target userId
        | ASSIGNED_ONLY \<Rightarrow> assignee_of target = Some userId
        | _ \<Rightarrow> False)"

definition matchesSoundScope :: "sound_scope \<Rightarrow> string \<Rightarrow> actor_target option \<Rightarrow> bool" where
  "matchesSoundScope sc userId target =
     (if sc = SOUND_NONE then False
      else if sc = SOUND_ASSIGNED_ONLY then assignee_of target = Some userId
      else assigned_or_free target userId)"

definition matchesCallSoundScope :: "call_sound_scope \<Rightarrow> string \<Rightarrow> actor_target option \<Rightarrow> bool" where
  "matchesCallSoundScope sc userId target =
     (case sc of
        CALL_ALL \<Rightarrow> True
      | CALL_ASSIGNED_ONLY \<Rightarrow> assignee_of target = Some userId
      | CALL_ASSIGNED_AND_UNASSIGNED \<Rightarrow> assigned_or_free target userId
      | CALL_MUTE_ALL \<Rightarrow> False)"

section \<open>The decisions\<close>

definition decide :: "notification_channel \<Rightarrow> bool \<Rightarrow> string \<Rightarrow> decision" where
  "decide ch b r = \<lparr>dc_channel = ch, dc_shouldSend = b, dc_reason = r\<rparr>"

definition in_app_decision :: "notification_type \<Rightarrow> bool \<Rightarrow> decision" where
  "in_app_decision type foreground =
     (let inApp = NOTIFICATION_CENTER_DEFAULTS type
      in decide IN_APP (inApp \<and> foreground)
           (if \<not> inApp then ''matrix-disabled'' else if foreground then ''active-session'' else ''no-active-session''))"

definition desktop_decision :: "preference \<Rightarrow> notification_type \<Rightarrow> string \<Rightarrow> actor_target option \<Rightarrow> bool \<Rightarrow> decision" where
  "desktop_decision prefs type userId target foreground =
     (let desktop = DESKTOP_DEFAULTS type
      in decide DESKTOP (desktop \<and> foreground \<and> matchesContactScope (np_desktopScope prefs) type userId target)
           (if \<not> desktop then ''matrix-disabled'' else if foreground then ''preference-scope'' else ''no-active-session''))"

definition push_decision ::
  "preference \<Rightarrow> notification_type \<Rightarrow> string \<Rightarrow> actor_target option \<Rightarrow> presence \<Rightarrow> bool \<Rightarrow> decision" where
  "push_decision prefs type userId target st foreground =
     (let mobile = MOBILE_DEFAULTS type
      in decide MOBILE_PUSH
           (mobile \<and> \<not> foreground \<and> matchesPushRules st \<and> matchesContactScope (np_mobileScope prefs) type userId target)
           (if \<not> mobile then ''matrix-disabled'' else if foreground then ''active-session''
            else if st = DND \<or> st = BUSY then ''manual-presence-suppressed'' else ''background-preference-scope''))"

definition email_reason :: "notification_type \<Rightarrow> presence \<Rightarrow> string" where
  "email_reason type st =
     (if EMAIL_DEFAULTS type \<and> st \<noteq> OFFLINE then ''user-active''
      else if EMAIL_DEFAULTS type then ''preference-scope'' else ''matrix-disabled'')"

definition already_sent :: "string \<Rightarrow> string \<Rightarrow> notification_type \<Rightarrow> string \<Rightarrow> nstate \<Rightarrow> bool" where
  "already_sent userId contactId type sid s =
     (find (\<lambda>h. eh_userId h = userId \<and> eh_contactId h = contactId \<and> eh_type h = type \<and> eh_inactivitySessionId h = sid)
        (n_history s) \<noteq> None)"

definition email_decision ::
  "notify_env \<Rightarrow> preference \<Rightarrow> notification_type \<Rightarrow> string \<Rightarrow> actor_target option \<Rightarrow> effective_status \<Rightarrow> decision notify" where
  "email_decision E prefs type userId target act =
     (let eligible = (EMAIL_DEFAULTS type \<and> matchesContactScope (np_emailScope prefs) type userId target
                      \<and> matchesEmailRules type (ef_status act));
          contactId = Option.bind target tg_contactId
      in if eligible \<and> type = NEW_INCOMING_MESSAGE \<and> js_truthy contactId \<and> js_truthy (ef_inactivitySessionId act) then
           if ne_uuid_ok E (the contactId) then
             bind_io (gets (already_sent userId (the contactId) type (the (ef_inactivitySessionId act)))) (\<lambda>sent.
               ret (if sent then decide EMAIL False ''email-already-sent-for-inactivity-session''
                    else decide EMAIL True (email_reason type (ef_status act))))
           else throw PrismaValidation
         else ret (decide EMAIL eligible (email_reason type (ef_status act))))"

definition sound_decisions :: "preference \<Rightarrow> string \<Rightarrow> actor_target option \<Rightarrow> bool \<Rightarrow> decision list" where
  "sound_decisions prefs userId target foreground =
     (let reason = (if foreground then ''frontend-active-module-gates-final-playback'' else ''no-active-session'')
      in [decide SOUND (foreground \<and> matchesSoundScope (np_soundScope prefs) userId target) reason,
          decide CALL_SOUND (foreground \<and> matchesCallSoundScope (np_callSoundScope prefs) userId target) reason])"

definition evaluate ::
  "notify_env \<Rightarrow> string \<Rightarrow> string \<Rightarrow> notification_type \<Rightarrow> actor_target option \<Rightarrow> decision list notify" where
  "evaluate E userId workspaceId type target =
     bind_io (getUserPreferences userId workspaceId) (\<lambda>prefs.
     bind_io (getEffectiveStatus E userId workspaceId) (\<lambda>act.
     bind_io (hasUserConnection userId) (\<lambda>live.
     let foreground = (live \<and> ef_status act \<noteq> OFFLINE)
     in bind_io (email_decision E prefs type userId target act) (\<lambda>mail.
          ret ([in_app_decision type foreground, desktop_decision prefs type userId target foreground,
                push_decision prefs type userId target (ef_status act) foreground, mail]
               @ sound_decisions prefs userId target foreground)))))"

section \<open>What is decided\<close>

lemma decide_simps [simp]:
  "dc_channel (decide ch b r) = ch" "dc_shouldSend (decide ch b r) = b" "dc_reason (decide ch b r) = r"
  by (simp_all add: decide_def)

lemma email_decision_result:
  assumes "email_decision E prefs ty u target act s = (Inr d, t)"
  shows "t = s \<and> dc_channel d = EMAIL \<and> (dc_shouldSend d \<longrightarrow> EMAIL_DEFAULTS ty \<and> matchesEmailRules ty (ef_status act))"
  using assms by (auto simp: email_decision_def Let_def io_simps split: if_splits)

lemma fr_email_decision: "keeps (preserves p) (email_decision E prefs ty u target act)"
  unfolding email_decision_def Let_def by (intro fr.r_intros)

lemma fr_evaluate:
  assumes "\<And>k s. p (s\<lparr>n_seq := k\<rparr>) = p s" and "\<And>x s. p (s\<lparr>n_activity := x\<rparr>) = p s"
    and "\<And>c s. p (s\<lparr>n_prefs := c\<rparr>) = p s" and "\<And>c s. p (s\<lparr>n_socketCache := c\<rparr>) = p s"
  shows "keeps (preserves p) (evaluate E u w ty target)"
  unfolding evaluate_def Let_def
  by (intro fr.r_intros fr_activity fr_connection fr_preferences fr_email_decision assms)

text \<open>
  The run of \<^verbatim>\<open>evaluate\<close> in its parts: preferences, presence and connection of the starting
  state, and the e-mail decision taken last.
\<close>

lemma evaluate_parts:
  assumes "evaluate E u w ty target s = (Inr ds, t)"
  obtains prefs act mail s1 s2 where "getEffectiveStatus E u w s1 = (Inr act, s2)" and "ef_status act = presence_now u w s"
    and "n_activity s1 = n_activity s" and "n_history s2 = n_history s" and "n_seq s1 = n_seq s"
    and "email_decision E prefs ty u target act t = (Inr mail, t)"
    and "n_history t = n_history s" and "n_activity t = n_activity s2"
    and "ds = (let foreground = has_socket u s \<and> presence_now u w s \<noteq> OFFLINE in
           [in_app_decision ty foreground, desktop_decision prefs ty u target foreground,
            push_decision prefs ty u target (presence_now u w s) foreground, mail] @ sound_decisions prefs u target foreground)"
proof -
  obtain prefs s1 where p: "getUserPreferences u w s = (Inr prefs, s1)"
    using getUserPreferences_returns by blast
  obtain act s2 where g: "getEffectiveStatus E u w s1 = (Inr act, s2)" and st: "ef_status act = presence_now u w s1"
    using getEffectiveStatus_status [of E u w s1] by (metis surj_pair)
  obtain s3 where h: "hasUserConnection u s2 = (Inr (has_socket u s2), s3)"
    using hasUserConnection_answer [of u s2] by (cases "hasUserConnection u s2") auto
  have s1: "n_activity s1 = n_activity s" "n_history s1 = n_history s" "n_seq s1 = n_seq s"
    "presence_now u w s1 = presence_now u w s" "has_socket u s1 = has_socket u s"
    using fr_D [OF fr_preferences(1) p, of n_activity] fr_D [OF fr_preferences(1) p, of n_history]
      fr_D [OF fr_preferences(1) p, of n_seq] fr_D [OF fr_preferences(1) p, of "presence_now u w"]
      fr_D [OF fr_preferences(1) p, of "has_socket u"]
    by simp_all
  have s2: "n_history s2 = n_history s1" "has_socket u s2 = has_socket u s1"
    using fr_D [OF fr_activity(3) g, of n_history] fr_D [OF fr_activity(3) g, of "has_socket u"]
    by simp_all
  have s3: "n_history s3 = n_history s2" "n_activity s3 = n_activity s2"
    using fr_D [OF fr_connection h, of n_history] fr_D [OF fr_connection h, of n_activity] by simp_all
  let ?fg = "has_socket u s \<and> presence_now u w s \<noteq> OFFLINE"
  have "bind_io (email_decision E prefs ty u target act) (\<lambda>mail. ret ([in_app_decision ty ?fg,
      desktop_decision prefs ty u target ?fg, push_decision prefs ty u target (ef_status act) ?fg, mail]
      @ sound_decisions prefs u target ?fg)) s3 = (Inr ds, t)"
    using assms p g h s1 s2 st by (simp add: evaluate_def seq_run Let_def)
  then obtain mail where m: "email_decision E prefs ty u target act s3 = (Inr mail, t)" and ds: "ds = [in_app_decision ty ?fg,
      desktop_decision prefs ty u target ?fg, push_decision prefs ty u target (ef_status act) ?fg, mail]
      @ sound_decisions prefs u target ?fg"
    by (auto elim!: bind_Inr simp: ret_def)
  have "t = s3" using email_decision_result [OF m] by simp
  with m ds st s1 s2 s3 g show thesis
    by (intro that [OF g, where prefs = prefs and mail = mail]) (simp_all add: Let_def)
qed

text \<open>
  C35: The rule engine decides each of the six channels once. The channels of the foreground (the list, the
  desktop and the two sounds) need a socket of the user and a presence that is not offline, a push needs the
  opposite, and also that the user is neither busy nor on do-not-disturb, and a message or an assignment is
  mailed only to a user who is offline. Presence and connection are those of the state: an active user who was
  last seen before the workspace's timeout counts as offline, and Redis has no part in the connection.
\<close>

theorem channel_rules:
  assumes "evaluate E u w ty target s = (Inr ds, t)"
  shows "map dc_channel ds = [IN_APP, DESKTOP, MOBILE_PUSH, EMAIL, SOUND, CALL_SOUND]
    \<and> (\<forall>d \<in> set ds. dc_shouldSend d \<longrightarrow>
         (dc_channel d \<in> {IN_APP, DESKTOP, SOUND, CALL_SOUND} \<longrightarrow> has_socket u s \<and> presence_now u w s \<noteq> OFFLINE)
         \<and> (dc_channel d = MOBILE_PUSH \<longrightarrow> \<not> (has_socket u s \<and> presence_now u w s \<noteq> OFFLINE) \<and> presence_now u w s \<notin> {DND, BUSY})
         \<and> (dc_channel d = EMAIL \<and> ty \<in> {NEW_INCOMING_MESSAGE, CONTACT_ASSIGNED} \<longrightarrow> presence_now u w s = OFFLINE))
    \<and> (\<exists>d \<in> set ds. dc_channel d = IN_APP \<and> (dc_shouldSend d \<longleftrightarrow> has_socket u s \<and> presence_now u w s \<noteq> OFFLINE))"
proof -
  obtain prefs act mail where st: "ef_status act = presence_now u w s"
    and m: "email_decision E prefs ty u target act t = (Inr mail, t)"
    and ds: "ds = (let foreground = has_socket u s \<and> presence_now u w s \<noteq> OFFLINE in
           [in_app_decision ty foreground, desktop_decision prefs ty u target foreground,
            push_decision prefs ty u target (presence_now u w s) foreground, mail] @ sound_decisions prefs u target foreground)"
    using evaluate_parts [OF assms] by metis
  have "NOTIFICATION_CENTER_DEFAULTS ty" by (cases ty) simp_all
  with ds email_decision_result [OF m] st show ?thesis
    by (auto simp: Let_def in_app_decision_def desktop_decision_def push_decision_def sound_decisions_def
        matchesPushRules_def matchesEmailRules_def)
qed

lemma channel_rules_witness:
  "\<exists>ds t. evaluate notify_sample_env ''u'' ''w'' NEW_INCOMING_MESSAGE None away_state = (Inr ds, t)
    \<and> map dc_channel ds = [IN_APP, DESKTOP, MOBILE_PUSH, EMAIL, SOUND, CALL_SOUND]"
proof -
  have "isl (fst (evaluate notify_sample_env ''u'' ''w'' NEW_INCOMING_MESSAGE None away_state)) = False"
    by code_simp
  then obtain ds t where run: "evaluate notify_sample_env ''u'' ''w'' NEW_INCOMING_MESSAGE None away_state = (Inr ds, t)"
    by (cases "evaluate notify_sample_env ''u'' ''w'' NEW_INCOMING_MESSAGE None away_state"; cases "fst (evaluate notify_sample_env ''u'' ''w'' NEW_INCOMING_MESSAGE None away_state)") auto
  show ?thesis by (intro exI conjI, rule run, rule channel_rules [OF run, THEN conjunct1])
qed

end
