(* ===== verification/Notify_Service.thy ===== *)
theory Notify_Service
  imports Notify_Rules
begin

text \<open>
  \<^verbatim>\<open>notifications.service.ts\<close>, \<^verbatim>\<open>notification-device.service.ts\<close> and the listener of
  inbound messages: the creation of a notification with one delivery per channel, the dispatch of its
  deliveries, the user's list and its state, and the devices that take pushes. The tasks of a
  \<^verbatim>\<open>Promise.all\<close> run one after the other; a task that fails does not stop the others, and the
  first failure is the result.
\<close>

fun all_io :: "('a \<Rightarrow> ('s, 'b) io) \<Rightarrow> 'a list \<Rightarrow> ('s, 'b list) io" where
  "all_io f [] s = (Inr [], s)"
| "all_io f (x # xs) s =
     (case f x s of (r, t) \<Rightarrow> (case all_io f xs t of (q, u) \<Rightarrow>
        (case r of Inl e \<Rightarrow> Inl e | Inr y \<Rightarrow> (case q of Inl e \<Rightarrow> Inl e | Inr ys \<Rightarrow> Inr (y # ys)), u)))"

context step_order
begin

lemma r_all:
  assumes "\<And>x. keeps R (f x)"
  shows "keeps R (all_io f xs)"
proof (rule keepsI)
  fix s
  show "R s (snd (all_io f xs s))"
  proof (induction xs arbitrary: s)
    case Nil
    then show ?case by (simp add: R_refl)
  next
    case (Cons x xs)
    obtain r t where run: "f x s = (r, t)" by (cases "f x s")
    obtain q u where rest: "all_io f xs t = (q, u)" by (cases "all_io f xs t")
    have "R s t" using keeps_result [OF assms run] .
    moreover have "R t u" using Cons [of t] rest by simp
    ultimately have "R s u" by (rule R_trans)
    with run rest show ?case by simp
  qed
qed

end

lemma bind_fail: "m s = (Inl e, t) \<Longrightarrow> bind_io m f s = (Inl e, t)"
  by (simp add: bind_io_def)

section \<open>Creating a notification\<close>

definition new_delivery :: "notification \<Rightarrow> decision \<Rightarrow> string \<Rightarrow> delivery" where
  "new_delivery n d i =
     \<lparr>nd_id = i, nd_notificationId = nt_id n, nd_userId = nt_userId n, nd_channel = dc_channel d,
      nd_status = (if dc_shouldSend d then PENDING else SUPPRESSED), nd_attemptCount = 0, nd_providerMessageId = None,
      nd_lastError = Some (dc_reason d), nd_lastAttemptAt = None, nd_details = None, nd_completedAt = None\<rparr>"

definition create_delivery :: "notify_env \<Rightarrow> notification \<Rightarrow> decision \<Rightarrow> unit notify" where
  "create_delivery E n d =
     bind_io (new_id E) (\<lambda>i. modify (\<lambda>s. s\<lparr>n_deliveries := n_deliveries s @ [new_delivery n d i]\<rparr>))"

definition new_notification :: "event_input \<Rightarrow> jsobj \<Rightarrow> int \<Rightarrow> string \<Rightarrow> notification" where
  "new_notification inp metadata now i =
     \<lparr>nt_id = i, nt_userId = ei_userId inp, nt_workspaceId = Some (ei_workspaceId inp),
      nt_organizationId = ei_organizationId inp, nt_type = ei_type inp, nt_title = ei_title inp, nt_body = ei_body inp,
      nt_metadata = JObj metadata, nt_sourceEntityType = ei_sourceEntityType inp, nt_sourceEntityId = ei_sourceEntityId inp,
      nt_dedupeKey = ei_dedupeKey inp, nt_readAt = None, nt_archivedAt = None, nt_createdAt = now\<rparr>"

definition notification_create :: "notify_env \<Rightarrow> event_input \<Rightarrow> jsobj \<Rightarrow> decision list \<Rightarrow> notification notify" where
  "notification_create E inp metadata decisions =
     bind_io (new_id E) (\<lambda>i.
     bind_io (gets n_now) (\<lambda>now.
     let n = new_notification inp metadata now i
     in seq_io (modify (\<lambda>s. s\<lparr>n_notifications := n_notifications s @ [n]\<rparr>))
          (seq_io (for_io (create_delivery E n) decisions) (ret n))))"

section \<open>Dispatch\<close>

definition mark_sent :: "string \<Rightarrow> notification_channel \<Rightarrow> unit notify" where
  "mark_sent i ch =
     bind_io (gets n_now) (\<lambda>now.
       seq_io (delivery_update (\<lambda>d. nd_notificationId d = i \<and> nd_channel d = ch)
         (\<lambda>d. d\<lparr>nd_status := SENT, nd_attemptCount := nd_attemptCount d + 1, nd_lastAttemptAt := Some now\<rparr>)) (ret ()))"

definition dispatch_one :: "notify_env \<Rightarrow> notification \<Rightarrow> delivery \<Rightarrow> unit notify" where
  "dispatch_one E n d =
     (if nd_status d \<noteq> PENDING then ret ()
      else case nd_channel d of
          EMAIL \<Rightarrow> queue_add (SendEmail (nt_id n) (nt_workspaceId n) (ne_email E (nt_userId n)) (nt_title n) (js_default (nt_body n) []))
        | MOBILE_PUSH \<Rightarrow> queue_add (SendPush (nt_id n) (nt_userId n) (nt_workspaceId n) (nt_title n) (js_default (nt_body n) [])
                           (v_or (nt_metadata n) (JObj [])))
        | ch \<Rightarrow> mark_sent (nt_id n) ch)"

definition dispatchChannels :: "notify_env \<Rightarrow> string \<Rightarrow> unit notify" where
  "dispatchChannels E i =
     bind_io (gets (\<lambda>s. (find_notification i s, deliveries_of i s))) (\<lambda>(n, ds).
       case n of None \<Rightarrow> ret () | Some n \<Rightarrow> for_io (dispatch_one E n) ds)"

definition unread :: "notification \<Rightarrow> bool" where
  "unread n = (nt_readAt n = None \<and> nt_archivedAt n = None)"

definition dedupe_hit :: "event_input \<Rightarrow> nstate \<Rightarrow> notification option" where
  "dedupe_hit inp s =
     (if js_truthy (ei_dedupeKey inp)
      then find (\<lambda>n. nt_userId n = ei_userId inp \<and> nt_dedupeKey n = ei_dedupeKey inp) (n_notifications s) else None)"

definition announce :: "notify_env \<Rightarrow> event_input \<Rightarrow> notification \<Rightarrow> (notification \<times> delivery list) notify" where
  "announce E inp n =
     bind_io (gets (deliveries_of (nt_id n))) (\<lambda>ds.
       seq_io (dispatchChannels E (nt_id n))
      (bind_io (gets (\<lambda>s. length (filter (\<lambda>m. nt_userId m = ei_userId inp \<and> unread m) (n_notifications s)))) (\<lambda>unreadCount.
       seq_io (emitToUser (NotificationNew (ei_userId inp) n ds unreadCount)) (ret (n, ds)))))"

definition ingest_new :: "notify_env \<Rightarrow> event_input \<Rightarrow> (notification \<times> delivery list) notify" where
  "ingest_new E inp =
     bind_io (evaluate E (ei_userId inp) (ei_workspaceId inp) (ei_type inp) (ei_target inp)) (\<lambda>decisions.
     bind_io (notification_create E inp (decorateNotificationMetadata (ei_metadata inp) (ei_type inp)
                (Some (ei_workspaceId inp)) (ei_sourceEntityType inp)) decisions)
       (announce E inp))"

definition ingest :: "notify_env \<Rightarrow> event_input \<Rightarrow> (notification \<times> delivery list) notify" where
  "ingest E inp =
     bind_io (gets (dedupe_hit inp)) (\<lambda>existing.
       case existing of
         Some n \<Rightarrow> bind_io (gets (deliveries_of (nt_id n))) (\<lambda>ds. ret (n, ds))
       | None \<Rightarrow> ingest_new E inp)"

record ingest_dto =
  id_userId :: string
  id_type :: notification_type
  id_title :: string
  id_body :: "string option"
  id_metadata :: "jsobj option"
  id_sourceEntityType :: "string option"
  id_sourceEntityId :: "string option"
  id_dedupeKey :: "string option"
  id_contactId :: "string option"
  id_assigneeId :: "string option"
  id_conversationId :: "string option"

definition ingestFromDto :: "notify_env \<Rightarrow> ingest_dto \<Rightarrow> string \<Rightarrow> string option \<Rightarrow> (notification \<times> delivery list) notify" where
  "ingestFromDto E dto workspaceId organizationId =
     ingest E \<lparr>ei_userId = id_userId dto, ei_workspaceId = workspaceId, ei_organizationId = organizationId,
       ei_type = id_type dto, ei_title = id_title dto, ei_body = id_body dto, ei_metadata = id_metadata dto,
       ei_sourceEntityType = id_sourceEntityType dto, ei_sourceEntityId = id_sourceEntityId dto,
       ei_dedupeKey = id_dedupeKey dto,
       ei_target = Some \<lparr>tg_assigneeId = id_assigneeId dto, tg_contactId = id_contactId dto,
                         tg_conversationId = id_conversationId dto, tg_mentionedUserIds = None\<rparr>\<rparr>"

record custom_dto =
  cd_userIds :: "string list"
  cd_title :: string
  cd_body :: "string option"
  cd_metadata :: "jsobj option"
  cd_sourceEntityType :: "string option"
  cd_sourceEntityId :: "string option"
  cd_dedupeKey :: "string option"

definition createCustom :: "notify_env \<Rightarrow> custom_dto \<Rightarrow> string \<Rightarrow> string option \<Rightarrow> (notification \<times> delivery list) list notify" where
  "createCustom E dto workspaceId organizationId =
     all_io (\<lambda>userId. ingest E \<lparr>ei_userId = userId, ei_workspaceId = workspaceId, ei_organizationId = organizationId,
       ei_type = CUSTOM_NOTIFICATION, ei_title = cd_title dto, ei_body = cd_body dto, ei_metadata = cd_metadata dto,
       ei_sourceEntityType = cd_sourceEntityType dto, ei_sourceEntityId = cd_sourceEntityId dto,
       ei_dedupeKey = (if js_truthy (cd_dedupeKey dto) then Some (the (cd_dedupeKey dto) @ '':'' @ userId) else None),
       ei_target = None\<rparr>) (cd_userIds dto)"

section \<open>The user's list\<close>

datatype tab = TabNew | TabArchived | TabAll

definition tab_shows :: "tab \<Rightarrow> notification \<Rightarrow> bool" where
  "tab_shows tab n =
     (case tab of TabNew \<Rightarrow> unread n | TabArchived \<Rightarrow> nt_archivedAt n \<noteq> None | TabAll \<Rightarrow> True)"

definition page_items :: "string \<Rightarrow> string \<Rightarrow> tab \<Rightarrow> rat option \<Rightarrow> nstate \<Rightarrow> notification list" where
  "page_items userId workspaceId tab before s =
     sort_key (\<lambda>n. - nt_createdAt n)
       (filter (\<lambda>n. nt_userId n = userId \<and> nt_workspaceId n = Some workspaceId \<and> tab_shows tab n
                  \<and> (case before of None \<Rightarrow> True | Some q \<Rightarrow> of_int (nt_createdAt n) < q)) (n_notifications s))"

definition listForUser ::
  "notify_env \<Rightarrow> string \<Rightarrow> string \<Rightarrow> tab \<Rightarrow> nat \<Rightarrow> string option \<Rightarrow> (notification list \<times> string option) notify" where
  "listForUser E userId workspaceId tab limit cursor =
     bind_io (if js_truthy cursor then
                (case js_date_parse (ne_runtime E) (the cursor) of Fin q \<Rightarrow> ret (Some q) | _ \<Rightarrow> throw PrismaValidation)
              else ret None) (\<lambda>before.
     bind_io (gets (\<lambda>s. take (limit + 1) (page_items userId workspaceId tab before s))) (\<lambda>items.
       let hasMore = (length items > limit);
           page = (if hasMore then take limit items else items);
           nextCursor = (if hasMore \<and> page \<noteq> [] then Some (js_date_iso (ne_runtime E) (nt_createdAt (last page))) else None)
       in ret (page, nextCursor)))"

definition getUnreadCount :: "string \<Rightarrow> string \<Rightarrow> nat notify" where
  "getUnreadCount userId workspaceId =
     gets (\<lambda>s. length (filter (\<lambda>n. nt_userId n = userId \<and> nt_workspaceId n = Some workspaceId \<and> unread n) (n_notifications s)))"

definition broadcastBadge :: "string \<Rightarrow> string option \<Rightarrow> unit notify" where
  "broadcastBadge userId workspaceId =
     (if \<not> js_truthy workspaceId then ret ()
      else bind_io (getUnreadCount userId (the workspaceId)) (\<lambda>c. emitToUser (NotificationBadge userId c (the workspaceId))))"

definition stamp :: "bool option \<Rightarrow> int \<Rightarrow> int option \<Rightarrow> int option" where
  "stamp b now old = (case b of None \<Rightarrow> old | Some True \<Rightarrow> Some now | Some False \<Rightarrow> None)"

definition markState :: "string \<Rightarrow> string \<Rightarrow> bool option \<Rightarrow> bool option \<Rightarrow> notification notify" where
  "markState userId notificationId read archived =
     bind_io (gets (\<lambda>s. (find (\<lambda>n. nt_id n = notificationId \<and> nt_userId n = userId) (n_notifications s), n_now s))) (\<lambda>(n, now).
       case n of
         None \<Rightarrow> throw (NotFoundException ''Notification not found'')
       | Some n \<Rightarrow>
           bind_io (notification_update notificationId
             (\<lambda>r. r\<lparr>nt_readAt := stamp read now (nt_readAt r), nt_archivedAt := stamp archived now (nt_archivedAt r)\<rparr>)) (\<lambda>updated.
           seq_io (broadcastBadge userId (nt_workspaceId n))
          (seq_io (emitToUser (NotificationUpdated userId updated)) (ret updated))))"

definition updateMany_notifications :: "(notification \<Rightarrow> bool) \<Rightarrow> (int \<Rightarrow> notification \<Rightarrow> notification) \<Rightarrow> unit notify" where
  "updateMany_notifications P f = modify (\<lambda>s. s\<lparr>n_notifications := upd_where P (f (n_now s)) (n_notifications s)\<rparr>)"

definition markAllRead :: "string \<Rightarrow> string \<Rightarrow> unit notify" where
  "markAllRead userId workspaceId =
     seq_io (updateMany_notifications
       (\<lambda>n. nt_userId n = userId \<and> nt_workspaceId n = Some workspaceId \<and> nt_readAt n = None) (\<lambda>now n. n\<lparr>nt_readAt := Some now\<rparr>))
       (broadcastBadge userId (Some workspaceId))"

definition archiveAll :: "string \<Rightarrow> string \<Rightarrow> tab \<Rightarrow> unit notify" where
  "archiveAll userId workspaceId tab =
     seq_io (updateMany_notifications
       (\<lambda>n. nt_userId n = userId \<and> nt_workspaceId n = Some workspaceId
            \<and> (if tab = TabArchived then nt_archivedAt n \<noteq> None else nt_archivedAt n = None)
            \<and> (tab = TabNew \<longrightarrow> nt_readAt n = None))
       (\<lambda>now n. n\<lparr>nt_archivedAt := Some now\<rparr>))
       (broadcastBadge userId (Some workspaceId))"

section \<open>The history of e-mails\<close>

definition history_upsert :: "notify_env \<Rightarrow> email_history \<Rightarrow> (email_history \<Rightarrow> email_history) \<Rightarrow> unit notify" where
  "history_upsert E row f s =
     (let same = (\<lambda>h. eh_userId h = eh_userId row \<and> eh_contactId h = eh_contactId row \<and> eh_type h = eh_type row
                      \<and> eh_inactivitySessionId h = eh_inactivitySessionId row)
      in if \<not> ne_uuid_ok E (eh_contactId row) then (Inl PrismaValidation, s)
         else if find same (n_history s) \<noteq> None then (Inr (), s\<lparr>n_history := upd_where same f (n_history s)\<rparr>)
         else (Inr (), s\<lparr>n_history := n_history s @ [row]\<rparr>))"

definition history_row :: "notification \<Rightarrow> string \<Rightarrow> string \<Rightarrow> string \<Rightarrow> int \<Rightarrow> email_history" where
  "history_row n w contactId sid now =
     \<lparr>eh_notificationId = Some (nt_id n), eh_userId = nt_userId n, eh_workspaceId = w, eh_contactId = contactId,
      eh_type = nt_type n, eh_inactivitySessionId = sid, eh_sentAt = now\<rparr>"

definition registerEmailHistory :: "notify_env \<Rightarrow> string \<Rightarrow> unit notify" where
  "registerEmailHistory E notificationId =
     bind_io (gets (\<lambda>s. (find_notification notificationId s, n_now s))) (\<lambda>(found, now).
       case found of
         None \<Rightarrow> ret ()
       | Some n \<Rightarrow>
           if \<not> js_truthy (nt_workspaceId n) then ret ()
           else bind_io (getEffectiveStatus E (nt_userId n) (the (nt_workspaceId n))) (\<lambda>status.
             let contactId = v_fld (nt_metadata n) ''contactId''
             in if \<not> is_str contactId \<or> v_str contactId = [] \<or> \<not> js_truthy (ef_inactivitySessionId status) then ret ()
                else history_upsert E
                       (history_row n (the (nt_workspaceId n)) (v_str contactId) (the (ef_inactivitySessionId status)) now)
                       (\<lambda>h. h\<lparr>eh_notificationId := Some notificationId, eh_sentAt := now\<rparr>)))"

section \<open>Inbound messages\<close>

record inbound_event =
  ie_workspaceId :: string
  ie_conversationId :: string
  ie_messageId :: string
  ie_text :: "string option"
  ie_subject :: "string option"
  ie_type :: "string option"

definition distinct_ids :: "string list \<Rightarrow> string list" where
  "distinct_ids ids = rev (remdups (rev ids))"

definition recipientIds :: "contact_info \<Rightarrow> nstate \<Rightarrow> string list" where
  "recipientIds c s =
     (if js_truthy (ct_assigneeId c) then [the (ct_assigneeId c)]
      else if js_truthy (ct_teamId c) then map snd (filter (\<lambda>p. fst p = the (ct_teamId c)) (n_teams s)) else [])"

definition contact_name :: "contact_info \<Rightarrow> string" where
  "contact_name c =
     js_or_str (js_or (Some (js_trim (js_join '' '' (map the (filter js_truthy [ct_firstName c, ct_lastName c])))))
       (js_or (ct_email c) (ct_phone c))) ''a contact''"

definition message_preview :: "inbound_event \<Rightarrow> string" where
  "message_preview ev =
     (let p = js_trim (js_or_str (js_or (ie_text ev) (js_or (ie_subject ev) (ie_type ev))) ''New incoming message'')
      in if length p > 180 then take 180 p @ ''...'' else p)"

definition inbound_input :: "inbound_event \<Rightarrow> contact_info \<Rightarrow> string \<Rightarrow> event_input" where
  "inbound_input ev c userId =
     \<lparr>ei_userId = userId, ei_workspaceId = ie_workspaceId ev, ei_organizationId = None, ei_type = NEW_INCOMING_MESSAGE,
      ei_title = ''New message from '' @ contact_name c, ei_body = Some (message_preview ev),
      ei_metadata = Some [(''contactId'', JStr (ct_id c)), (''conversationId'', JStr (ie_conversationId ev)),
                          (''messageId'', JStr (ie_messageId ev))],
      ei_sourceEntityType = Some ''message'', ei_sourceEntityId = Some (ie_messageId ev),
      ei_dedupeKey = Some (''inbound-message:'' @ ie_messageId ev @ '':'' @ userId),
      ei_target = Some \<lparr>tg_assigneeId = ct_assigneeId c, tg_contactId = Some (ct_id c),
                        tg_conversationId = Some (ie_conversationId ev), tg_mentionedUserIds = None\<rparr>\<rparr>"

definition handleMessageInbound :: "notify_env \<Rightarrow> inbound_event \<Rightarrow> unit notify" where
  "handleMessageInbound E ev =
     bind_io (gets (\<lambda>s. map_option (\<lambda>c. (c, recipientIds c s)) (map_of (n_convs s) (ie_conversationId ev)))) (\<lambda>found.
       case found of
         None \<Rightarrow> ret ()
       | Some (c, ids) \<Rightarrow> if ids = [] then ret ()
                     else seq_io (all_io (\<lambda>u. ingest E (inbound_input ev c u)) (distinct_ids ids)) (ret ()))"

section \<open>Devices\<close>

record register_dto =
  rd_platform :: string
  rd_deviceKey :: "string option"
  rd_token :: "string option"
  rd_endpoint :: "string option"
  rd_expirationTime :: "int option"
  rd_p256dh :: "string option"
  rd_auth :: "string option"
  rd_deviceName :: "string option"
  rd_pushPermission :: "string option"
  rd_metadata :: jsv

definition findExistingDevice :: "string option \<Rightarrow> string option \<Rightarrow> nstate \<Rightarrow> device option" where
  "findExistingDevice deviceKey endpoint s =
     find (\<lambda>d. (js_truthy deviceKey \<and> dv_deviceKey d = deviceKey) \<or> (js_truthy endpoint \<and> Some (dv_token d) = endpoint))
       (n_devices s)"

definition registered :: "string \<Rightarrow> string \<Rightarrow> register_dto \<Rightarrow> string \<Rightarrow> int \<Rightarrow> device \<Rightarrow> device" where
  "registered userId workspaceId body endpoint now d =
     d\<lparr>dv_userId := userId, dv_workspaceId := Some workspaceId, dv_platform := rd_platform body,
       dv_deviceKey := js_nullish (rd_deviceKey body) (dv_deviceKey d), dv_token := endpoint,
       dv_authSecret := js_nullish (rd_auth body) (dv_authSecret d), dv_p256dhKey := js_nullish (rd_p256dh body) (dv_p256dhKey d),
       dv_expirationTime := rd_expirationTime body, dv_pushPermission := rd_pushPermission body,
       dv_deviceName := rd_deviceName body,
       dv_metadata := (if v_truthy (rd_metadata body) then rd_metadata body else dv_metadata d),
       dv_lastSeenAt := Some now, dv_lastFailureAt := None, dv_failureCount := 0, dv_disabledAt := None,
       dv_invalidatedAt := None, dv_disabledReason := None\<rparr>"

definition blank_device :: "string \<Rightarrow> int \<Rightarrow> device" where
  "blank_device i now =
     \<lparr>dv_id = i, dv_userId = [], dv_workspaceId = None, dv_deviceKey = None, dv_platform = [], dv_token = [],
      dv_authSecret = None, dv_p256dhKey = None, dv_expirationTime = None, dv_pushPermission = None, dv_deviceName = None,
      dv_metadata = JNull, dv_lastSeenAt = None, dv_lastSuccessfulDeliveryAt = None, dv_lastFailureAt = None,
      dv_failureCount = 0, dv_invalidatedAt = None, dv_disabledAt = None, dv_disabledReason = None,
      dv_lastSubscriptionChangeAt = None, dv_createdAt = now\<rparr>"

text \<open>The device key and the token are unique columns.\<close>

definition device_clash :: "device \<Rightarrow> nstate \<Rightarrow> bool" where
  "device_clash d s =
     list_ex (\<lambda>r. dv_id r \<noteq> dv_id d \<and> (dv_token r = dv_token d \<or> (dv_deviceKey d \<noteq> None \<and> dv_deviceKey r = dv_deviceKey d)))
       (n_devices s)"

definition register :: "notify_env \<Rightarrow> string \<Rightarrow> string \<Rightarrow> register_dto \<Rightarrow> device notify" where
  "register E userId workspaceId body =
     (case js_nullish (rd_endpoint body) (rd_token body) of
        Some (c # cs) \<Rightarrow>
          let endpoint = c # cs in
          bind_io (gets (\<lambda>s. (findExistingDevice (rd_deviceKey body) (Some endpoint) s, n_now s))) (\<lambda>(existing, now).
          case existing of
            Some d \<Rightarrow>
              let changed = (dv_token d \<noteq> endpoint \<or> rd_auth body = None \<or> dv_authSecret d \<noteq> rd_auth body
                             \<or> rd_p256dh body = None \<or> dv_p256dhKey d \<noteq> rd_p256dh body);
                  new = (\<lambda>r. (registered userId workspaceId body endpoint now r)\<lparr>
                           dv_lastSubscriptionChangeAt := (if changed then Some now else dv_lastSubscriptionChangeAt r)\<rparr>)
              in bind_io (gets (device_clash (new d))) (\<lambda>clash.
                   if clash then throw PrismaP2002 else device_update (dv_id d) new)
          | None \<Rightarrow>
              bind_io (new_id E) (\<lambda>i.
              let new = (registered userId workspaceId body endpoint now (blank_device i now))\<lparr>
                          dv_lastSubscriptionChangeAt := Some now\<rparr>
              in bind_io (gets (device_clash new)) (\<lambda>clash.
                   if clash then throw PrismaP2002
                   else seq_io (modify (\<lambda>s. s\<lparr>n_devices := n_devices s @ [new]\<rparr>)) (ret new))))
      | _ \<Rightarrow> throw (BadRequestException ''Device token or push subscription endpoint is required.''))"

definition disable_devices :: "(device \<Rightarrow> bool) \<Rightarrow> string \<Rightarrow> unit notify" where
  "disable_devices P reason = modify (\<lambda>s. s\<lparr>n_devices :=
     upd_where P (\<lambda>d. d\<lparr>dv_disabledAt := Some (n_now s), dv_disabledReason := Some reason\<rparr>) (n_devices s)\<rparr>)"

definition unregister :: "string \<Rightarrow> string option \<Rightarrow> string option \<Rightarrow> string option \<Rightarrow> string option \<Rightarrow> unit notify" where
  "unregister userId deviceId deviceKey token reason =
     (if \<not> js_truthy deviceId \<and> \<not> js_truthy deviceKey \<and> \<not> js_truthy token
      then throw (BadRequestException ''deviceId, deviceKey, or token is required.'')
      else disable_devices
        (\<lambda>d. dv_userId d = userId \<and> ((js_truthy deviceId \<and> Some (dv_id d) = deviceId)
             \<or> (js_truthy deviceKey \<and> dv_deviceKey d = deviceKey) \<or> (js_truthy token \<and> Some (dv_token d) = token)))
        (js_default reason ''user-unregistered''))"

definition disableById :: "string \<Rightarrow> string \<Rightarrow> unit notify" where
  "disableById userId deviceId = disable_devices (\<lambda>d. dv_id d = deviceId \<and> dv_userId d = userId) ''user-disabled''"

end
