(* ===== verification/Notify_Worker.thy ===== *)
theory Notify_Worker
  imports Notify_Service
begin

text \<open>
  \<^verbatim>\<open>src/src/workers/notification.worker.ts\<close>: the jobs that send a notification's e-mail and its
  pushes. What the mail server and the push services answer is an argument of a job's run: an error, or
  the message identifier, respectively the response per endpoint. A job is run again after a failure, so
  the theorems speak of any number of runs with any answers.
\<close>

section \<open>Bookkeeping\<close>

text \<open>\<^verbatim>\<open>error instanceof Error ? error.message : fallback\<close>\<close>

definition error_text :: "notify_env \<Rightarrow> string \<Rightarrow> exn \<Rightarrow> string" where
  "error_text E fallback e =
     (case e of PlainError m \<Rightarrow> m | SdkException se \<Rightarrow> (if se_isError se then ne_message E e else fallback)
      | _ \<Rightarrow> ne_message E e)"

definition markDelivery ::
  "string \<Rightarrow> notification_channel \<Rightarrow> delivery_status \<Rightarrow> string option \<Rightarrow> string option \<Rightarrow> unit notify" where
  "markDelivery notificationId channel status lastError providerMessageId =
     bind_io (gets n_now) (\<lambda>now.
       seq_io (delivery_update (\<lambda>d. nd_notificationId d = notificationId \<and> nd_channel d = channel)
         (\<lambda>d. d\<lparr>nd_status := status,
                nd_lastError := (if status = SENT then None else js_nullish lastError (nd_lastError d)),
                nd_providerMessageId := js_nullish providerMessageId (nd_providerMessageId d),
                nd_attemptCount := nd_attemptCount d + 1, nd_lastAttemptAt := Some now,
                nd_completedAt := (if status = SENT \<or> status = SKIPPED then Some now else nd_completedAt d)\<rparr>)) (ret ()))"

definition updateDeliverySummary ::
  "string \<Rightarrow> delivery_status \<Rightarrow> string option \<Rightarrow> push_summary \<Rightarrow> bool \<Rightarrow> unit notify" where
  "updateDeliverySummary deliveryId status lastError details completed =
     bind_io (gets n_now) (\<lambda>now.
       seq_io (delivery_update (\<lambda>d. nd_id d = deliveryId)
         (\<lambda>d. d\<lparr>nd_status := status, nd_lastError := lastError, nd_details := Some details,
                nd_attemptCount := nd_attemptCount d + 1, nd_lastAttemptAt := Some now,
                nd_completedAt := (if completed then Some now else nd_completedAt d)\<rparr>)) (ret ()))"

section \<open>E-mail\<close>

text \<open>The contact that the metadata names, as the worker reads it.\<close>

definition metadata_contact :: "notify_env \<Rightarrow> jsv \<Rightarrow> string option" where
  "metadata_contact E metadata =
     (case metadata of JObj ob \<Rightarrow> map_option (js_String (ne_runtime E)) (map_of ob ''contactId'') | _ \<Rightarrow> None)"

definition remember_email :: "notify_env \<Rightarrow> string \<Rightarrow> unit notify" where
  "remember_email E notificationId =
     bind_io (gets (\<lambda>s. (find_notification notificationId s, n_now s))) (\<lambda>(found, now).
       case found of
         None \<Rightarrow> ret ()
       | Some n \<Rightarrow>
           let contactId = metadata_contact E (nt_metadata n) in
           if js_truthy (nt_workspaceId n) \<and> js_truthy contactId then
             bind_io (gets (find_activity (nt_userId n))) (\<lambda>act.
               case act of
                 None \<Rightarrow> ret ()
               | Some a \<Rightarrow>
                   if ua_inactivitySessionId a = [] then ret ()
                   else history_upsert E
                     (history_row n (the (nt_workspaceId n)) (the contactId) (ua_inactivitySessionId a) now)
                     (\<lambda>h. h\<lparr>eh_sentAt := now\<rparr>))
           else ret ())"

definition sendEmail :: "notify_env \<Rightarrow> exn + string option \<Rightarrow> string \<Rightarrow> string \<Rightarrow> string \<Rightarrow> string \<Rightarrow> unit notify" where
  "sendEmail E answer notificationId email subject body =
     catch_io
       (case answer of
          Inl e \<Rightarrow> throw e
        | Inr messageId \<Rightarrow>
            seq_io (modify (\<lambda>s. s\<lparr>n_mails := n_mails s @
                      [\<lparr>sm_notificationId = notificationId, sm_to = email, sm_title = subject, sm_body = body\<rparr>]\<rparr>))
           (seq_io (markDelivery notificationId EMAIL SENT None messageId)
             (remember_email E notificationId)))
       (\<lambda>e. seq_io (markDelivery notificationId EMAIL FAILED (Some (error_text E ''Unknown delivery error'' e)) None) (throw e))"

section \<open>Pushes\<close>

record push_response =
  pr_ok :: bool
  pr_status :: int
  pr_body :: string

text \<open>\<^verbatim>\<open>await Promise.all([a, b])\<close>: both statements run.\<close>

definition both_io :: "('s, 'a) io \<Rightarrow> ('s, 'b) io \<Rightarrow> ('s, unit) io" where
  "both_io m n s =
     (case m s of (r, t) \<Rightarrow> (case n t of (q, u) \<Rightarrow>
        (case r of Inl e \<Rightarrow> Inl e | Inr _ \<Rightarrow> (case q of Inl e \<Rightarrow> Inl e | Inr _ \<Rightarrow> Inr ()), u)))"

definition worker_asRecord :: "jsv \<Rightarrow> jsobj" where
  "worker_asRecord v = (case v of JObj ob \<Rightarrow> ob | _ \<Rightarrow> [])"

fun resolvePushUrgency :: "notification_type \<Rightarrow> string" where
  "resolvePushUrgency NEW_INCOMING_CALL = ''high''"
| "resolvePushUrgency NEW_INCOMING_MESSAGE = ''high''"
| "resolvePushUrgency CONTACT_ASSIGNED = ''high''"
| "resolvePushUrgency COMMENT_MENTION = ''high''"
| "resolvePushUrgency CUSTOM_NOTIFICATION = ''normal''"
| "resolvePushUrgency _ = ''low''"

fun resolvePushTtlSeconds :: "notification_type \<Rightarrow> nat" where
  "resolvePushTtlSeconds NEW_INCOMING_CALL = 300"
| "resolvePushTtlSeconds NEW_INCOMING_MESSAGE = 900"
| "resolvePushTtlSeconds CONTACT_ASSIGNED = 900"
| "resolvePushTtlSeconds COMMENT_MENTION = 900"
| "resolvePushTtlSeconds CUSTOM_NOTIFICATION = 1800"
| "resolvePushTtlSeconds _ = 3600"

record push_subscription =
  su_endpoint :: string
  su_expirationTime :: "int option"
  su_auth :: string
  su_p256dh :: string

definition buildSubscription :: "device \<Rightarrow> exn + push_subscription" where
  "buildSubscription d =
     (if \<not> js_truthy (dv_authSecret d) \<or> \<not> js_truthy (dv_p256dhKey d)
      then Inl (PlainError ''Notification device is missing push subscription keys.'')
      else Inr \<lparr>su_endpoint = dv_token d, su_expirationTime = dv_expirationTime d, su_auth = the (dv_authSecret d),
                su_p256dh = the (dv_p256dhKey d)\<rparr>)"

record push_options =
  po_ttlSeconds :: nat
  po_urgency :: string
  po_topic :: string

text \<open>The push services: what \<^verbatim>\<open>NotificationPushService.sendNotification\<close> gives for a request.\<close>

type_synonym push_service = "push_subscription \<Rightarrow> push_payload \<Rightarrow> push_options \<Rightarrow> exn + push_response"

definition push_request :: "push_service \<Rightarrow> notification \<Rightarrow> push_payload \<Rightarrow> device \<Rightarrow> exn + push_response" where
  "push_request push n payload d =
     (case buildSubscription d of
        Inl e \<Rightarrow> Inl e
      | Inr sub \<Rightarrow> push sub payload \<lparr>po_ttlSeconds = resolvePushTtlSeconds (nt_type n),
          po_urgency = resolvePushUrgency (nt_type n), po_topic = ''notification-'' @ nt_id n\<rparr>)"

definition attempt_upsert :: "notify_env \<Rightarrow> delivery \<Rightarrow> device \<Rightarrow> attempt notify" where
  "attempt_upsert E del d =
     (let same = (\<lambda>a. at_deliveryId a = nd_id del \<and> at_targetIdentifier a = dv_token d) in
      bind_io (gets (\<lambda>s. find same (n_attempts s))) (\<lambda>found.
        case found of
          Some _ \<Rightarrow> update_one n_attempts (\<lambda>x. n_attempts_update (\<lambda>_. x)) same (\<lambda>a. a\<lparr>at_deviceId := Some (dv_id d)\<rparr>)
        | None \<Rightarrow>
            bind_io (new_id E) (\<lambda>i.
            let a = \<lparr>at_id = i, at_deliveryId = nd_id del, at_deviceId = Some (dv_id d), at_targetIdentifier = dv_token d,
                     at_status = PENDING, at_attemptCount = 0, at_providerStatusCode = None, at_lastError = None,
                     at_lastAttemptAt = None, at_deliveredAt = None, at_invalidatedAt = None\<rparr>
            in seq_io (modify (\<lambda>s. s\<lparr>n_attempts := n_attempts s @ [a]\<rparr>)) (ret a))))"

definition note_exception :: "notify_env \<Rightarrow> attempt \<Rightarrow> device \<Rightarrow> push_summary \<Rightarrow> exn \<Rightarrow> push_summary notify" where
  "note_exception E a d acc e =
     bind_io (gets n_now) (\<lambda>now.
       seq_io (both_io
         (attempt_update (at_id a) (\<lambda>r. r\<lparr>at_status := FAILED, at_attemptCount := at_attemptCount r + 1,
            at_lastError := Some (error_text E ''Unknown push delivery error'' e), at_lastAttemptAt := Some now\<rparr>))
         (device_update (dv_id d) (\<lambda>r. r\<lparr>dv_lastFailureAt := Some now, dv_failureCount := dv_failureCount r + 1\<rparr>)))
       (ret (acc\<lparr>ps_failedCount := ps_failedCount acc + 1\<rparr>)))"

definition note_success :: "attempt \<Rightarrow> device \<Rightarrow> push_response \<Rightarrow> unit notify" where
  "note_success a d res =
     bind_io (gets n_now) (\<lambda>now. both_io
       (attempt_update (at_id a) (\<lambda>r. r\<lparr>at_status := SENT, at_attemptCount := at_attemptCount r + 1,
          at_providerStatusCode := Some (pr_status res), at_lastError := None, at_lastAttemptAt := Some now,
          at_deliveredAt := Some now, at_invalidatedAt := None\<rparr>))
       (device_update (dv_id d) (\<lambda>r. r\<lparr>dv_lastSuccessfulDeliveryAt := Some now, dv_lastFailureAt := None,
          dv_failureCount := 0, dv_invalidatedAt := None, dv_disabledReason := None\<rparr>)))"

definition invalid_endpoint :: "push_response \<Rightarrow> bool" where
  "invalid_endpoint res = (pr_status res = 404 \<or> pr_status res = 410)"

definition note_refusal :: "attempt \<Rightarrow> device \<Rightarrow> push_response \<Rightarrow> unit notify" where
  "note_refusal a d res =
     bind_io (gets n_now) (\<lambda>now. both_io
       (attempt_update (at_id a) (\<lambda>r. r\<lparr>at_status := FAILED, at_attemptCount := at_attemptCount r + 1,
          at_providerStatusCode := Some (pr_status res),
          at_lastError := Some (if pr_body res \<noteq> [] then pr_body res
                                else ''Push service returned HTTP '' @ js_int_str (pr_status res)),
          at_lastAttemptAt := Some now, at_invalidatedAt := (if invalid_endpoint res then Some now else None)\<rparr>))
       (device_update (dv_id d) (\<lambda>r. r\<lparr>dv_lastFailureAt := Some now, dv_failureCount := dv_failureCount r + 1,
          dv_invalidatedAt := (if invalid_endpoint res then Some now else None),
          dv_disabledReason := (if invalid_endpoint res then Some ''push-endpoint-invalidated'' else dv_disabledReason r)\<rparr>)))"

definition push_device ::
  "notify_env \<Rightarrow> push_service \<Rightarrow> notification \<Rightarrow> delivery \<Rightarrow> push_payload \<Rightarrow> device \<Rightarrow> push_summary \<Rightarrow> push_summary notify" where
  "push_device E push n del payload d acc =
     bind_io (attempt_upsert E del d) (\<lambda>a.
       if at_status a = SENT then ret (acc\<lparr>ps_skippedCount := ps_skippedCount acc + 1\<rparr>)
       else case push_request push n payload d of
           Inl e \<Rightarrow> note_exception E a d acc e
         | Inr res \<Rightarrow>
             if pr_ok res then
               let acc' = acc\<lparr>ps_sentCount := ps_sentCount acc + 1\<rparr> in
               seq_io (modify (\<lambda>s. s\<lparr>n_pushed := n_pushed s @ [\<lparr>sp_deliveryId = nd_id del, sp_endpoint = dv_token d\<rparr>]\<rparr>))
                 (catch_io (seq_io (note_success a d res) (ret acc')) (note_exception E a d acc'))
             else
               let acc' = acc\<lparr>ps_failedCount := ps_failedCount acc + 1,
                              ps_invalidatedCount := ps_invalidatedCount acc + (if invalid_endpoint res then 1 else 0)\<rparr>
               in catch_io (seq_io (note_refusal a d res) (ret acc')) (note_exception E a d acc'))"

fun push_devices ::
  "notify_env \<Rightarrow> push_service \<Rightarrow> notification \<Rightarrow> delivery \<Rightarrow> push_payload \<Rightarrow> device list \<Rightarrow> push_summary \<Rightarrow> push_summary notify" where
  "push_devices E push n del payload [] acc = ret acc"
| "push_devices E push n del payload (d # ds) acc =
     bind_io (push_device E push n del payload d acc) (push_devices E push n del payload ds)"

definition push_target :: "notification \<Rightarrow> device \<Rightarrow> bool" where
  "push_target n d =
     (dv_userId d = nt_userId n \<and> dv_disabledAt d = None \<and> dv_invalidatedAt d = None \<and> dv_authSecret d \<noteq> None
      \<and> dv_p256dhKey d \<noteq> None \<and> (js_truthy (nt_workspaceId n) \<longrightarrow> dv_workspaceId d = nt_workspaceId n \<or> dv_workspaceId d = None))"

text \<open>The most recently seen devices first; the database puts null before every value in this order.\<close>

definition push_order :: "device list \<Rightarrow> device list" where
  "push_order ds =
     (let by_age = sort_key (\<lambda>d. - dv_createdAt d) ds
      in filter (\<lambda>d. dv_lastSeenAt d = None) by_age
         @ sort_key (\<lambda>d. - the (dv_lastSeenAt d)) (filter (\<lambda>d. dv_lastSeenAt d \<noteq> None) by_age))"

definition empty_summary :: "nat \<Rightarrow> push_summary" where
  "empty_summary n = \<lparr>ps_targetCount = n, ps_sentCount = 0, ps_failedCount = 0, ps_invalidatedCount = 0, ps_skippedCount = 0\<rparr>"

definition failed_text :: "nat \<Rightarrow> string" where
  "failed_text k = js_nat_str k @ '' push delivery target(s) failed.''"

definition push_all :: "notify_env \<Rightarrow> push_service \<Rightarrow> notification \<Rightarrow> delivery \<Rightarrow> device list \<Rightarrow> unit notify" where
  "push_all E push n del devices =
     bind_io (push_devices E push n del (buildNotificationPushPayload n (worker_asRecord (nt_metadata n))) devices
                (empty_summary (length devices))) (\<lambda>summary.
       if ps_failedCount summary > 0 then
         seq_io (updateDeliverySummary (nd_id del) FAILED (Some (failed_text (ps_failedCount summary))) summary False)
           (throw (PlainError (failed_text (ps_failedCount summary))))
       else updateDeliverySummary (nd_id del) SENT None summary True)"

definition sendPush :: "notify_env \<Rightarrow> bool \<Rightarrow> push_service \<Rightarrow> string \<Rightarrow> unit notify" where
  "sendPush E configured push notificationId =
     bind_io (gets (\<lambda>s. (find_notification notificationId s,
                         find (\<lambda>d. nd_channel d = MOBILE_PUSH) (deliveries_of notificationId s)))) (\<lambda>(found, target).
       case found of
         None \<Rightarrow> ret ()
       | Some n \<Rightarrow>
         (case target of
            None \<Rightarrow> ret ()
          | Some del \<Rightarrow>
              if \<not> configured then
                seq_io (markDelivery notificationId MOBILE_PUSH FAILED (Some ''Web Push is not configured on the server.'') None)
                  (throw (PlainError ''Web Push is not configured on the server.''))
              else bind_io (gets (\<lambda>s. push_order (filter (push_target n) (n_devices s)))) (\<lambda>devices.
                if devices = [] then
                  updateDeliverySummary (nd_id del) SKIPPED (Some ''No active push subscriptions found for this user.'')
                    (empty_summary 0) True
                else push_all E push n del devices)))"

section \<open>The worker\<close>

record job_answers =
  ja_mail :: "exn + string option"
  ja_configured :: bool
  ja_push :: push_service

definition run_notify_job :: "notify_env \<Rightarrow> job_answers \<Rightarrow> notify_job \<Rightarrow> unit notify" where
  "run_notify_job E ans job =
     (case job of
        SendEmail notificationId w email subject body \<Rightarrow> sendEmail E (ja_mail ans) notificationId email subject body
      | SendPush notificationId u w title body md \<Rightarrow> sendPush E (ja_configured ans) (ja_push ans) notificationId)"

end
