(* ===== verification/Notify_System.thy ===== *)
theory Notify_System
  imports Notify_Worker
begin

text \<open>
  The module as a whole: the requests, events and jobs that change its state, the states they lead to,
  and one locale \<open>notify_order\<close> with what has to be shown of a relation between states so that every
  operation keeps it. The locale is interpreted once for each of the module's invariants.
\<close>

section \<open>Operations and reachable states\<close>

datatype notify_op =
    Heartbeat string string "string option"
  | Availability string string
  | Connect string string
  | Disconnect string string
  | SetTimeout string int
  | ReadPreferences string string
  | UpdatePreferences string string preference_update
  | Ingest event_input
  | IngestDto ingest_dto string "string option"
  | Custom custom_dto string "string option"
  | Inbound inbound_event
  | MarkState string string "bool option" "bool option"
  | MarkAllRead string string
  | ArchiveAll string string tab
  | RegisterHistory string
  | RegisterDevice string string register_dto
  | Unregister string "string option" "string option" "string option" "string option"
  | Disable string string
  | RunJob job_answers notify_job
  | Tick nat
  | ExpireCache string

definition void :: "('s, 'a) io \<Rightarrow> ('s, unit) io" where
  "void m = seq_io m (ret ())"

fun perform_notify :: "notify_env \<Rightarrow> notify_op \<Rightarrow> unit notify" where
  "perform_notify E (Heartbeat u w m) = void (heartbeat E u w m)"
| "perform_notify E (Availability u a) = void (updateAvailability E u a)"
| "perform_notify E (Connect u i) = handleConnection_activity E u i"
| "perform_notify E (Disconnect u i) = handleDisconnect u i"
| "perform_notify E (SetTimeout w n) = void (updateInactivityTimeout w n)"
| "perform_notify E (ReadPreferences u w) = void (getUserPreferences u w)"
| "perform_notify E (UpdatePreferences u w x) = void (updateUserPreferences u w x)"
| "perform_notify E (Ingest inp) = void (ingest E inp)"
| "perform_notify E (IngestDto dto w org) = void (ingestFromDto E dto w org)"
| "perform_notify E (Custom dto w org) = void (createCustom E dto w org)"
| "perform_notify E (Inbound ev) = handleMessageInbound E ev"
| "perform_notify E (MarkState u i r a) = void (markState u i r a)"
| "perform_notify E (MarkAllRead u w) = markAllRead u w"
| "perform_notify E (ArchiveAll u w tab) = archiveAll u w tab"
| "perform_notify E (RegisterHistory i) = registerEmailHistory E i"
| "perform_notify E (RegisterDevice u w dto) = void (register E u w dto)"
| "perform_notify E (Unregister u i k t r) = unregister u i k t r"
| "perform_notify E (Disable u i) = disableById u i"
| "perform_notify E (RunJob ans j) = run_notify_job E ans j"
| "perform_notify E (Tick d) = modify (\<lambda>s. s\<lparr>n_now := n_now s + int d\<rparr>)"
| "perform_notify E (ExpireCache u) = modify (cache_del u)"

text \<open>A job runs when the queue holds it, any number of times and with any answers.\<close>

fun enabled :: "notify_op \<Rightarrow> nstate \<Rightarrow> bool" where
  "enabled (RunJob ans j) s = (j \<in> set (n_jobs s))"
| "enabled _ s = True"

inductive notify_reach :: "notify_env \<Rightarrow> (notify_op \<Rightarrow> bool) \<Rightarrow> nstate \<Rightarrow> nstate \<Rightarrow> bool"
  for E :: notify_env and allowed :: "notify_op \<Rightarrow> bool" where
  here: "notify_reach E allowed s s"
| step: "notify_reach E allowed s t \<Longrightarrow> allowed op \<Longrightarrow> enabled op t \<Longrightarrow> notify_reach E allowed s (snd (perform_notify E op t))"

lemma notify_reach_keeps:
  assumes "notify_reach E allowed s t" and "\<And>op. allowed op \<Longrightarrow> keeps R (perform_notify E op)" and "step_order R"
  shows "R s t"
  using assms(1)
proof induction
  case here
  show ?case using assms(3) by (rule step_order.R_refl)
next
  case (step s t op)
  have "R t (snd (perform_notify E op t))" using assms(2) [OF step.hyps(2)] by (rule keepsD)
  with step.IH show ?case using step_order.R_trans [OF assms(3)] by blast
qed

section \<open>The part of the state the invariants speak of\<close>

definition core ::
  "nstate \<Rightarrow> notification list \<times> user_activity list \<times> email_history list \<times> attempt list \<times> sent_push list \<times> device list" where
  "core s = (n_notifications s, n_activity s, n_history s, n_attempts s, n_pushed s, n_devices s)"

definition core_le :: "nstate \<Rightarrow> nstate \<Rightarrow> bool" where
  "core_le s t \<longleftrightarrow> core t = core s \<and> n_seq s \<le> n_seq t"

interpretation co: step_order core_le
  by unfold_locales (auto simp: core_le_def)

lemma co_preserves:
  assumes "keeps (preserves core) m" and "keeps (preserves n_seq) m"
  shows "keeps core_le m"
  using assms by (simp add: keeps_def core_le_def preserves_def)

lemma co_modify: "(\<And>s. core_le s (f s)) \<Longrightarrow> keeps core_le (modify f)"
  by (rule co.r_modify)

lemma co_update:
  assumes "\<And>x s. core (put x s) = core s" and "\<And>x s. n_seq (put x s) = n_seq s"
  shows "keeps core_le (update_one get put P f)"
  by (rule co_preserves; rule fr_update; simp add: assms)

lemma co_new_id: "keeps core_le (new_id E)"
  by (simp add: keeps_def core_le_def core_def new_id_def)

lemma co_preferences: "keeps core_le (getUserPreferences u w)" "keeps core_le (updateUserPreferences u w x)"
  by (rule co_preserves; rule fr_preferences; simp add: core_def)+

lemma co_connection: "keeps core_le (hasUserConnection u)"
  by (rule co_preserves; rule fr_connection; simp add: core_def)

lemma co_email_decision: "keeps core_le (email_decision E prefs ty u target act)"
  by (rule co_preserves; rule fr_email_decision)

lemma co_create_delivery: "keeps core_le (create_delivery E n d)"
  unfolding create_delivery_def
  by (intro co.r_intros co_new_id co_modify) (simp add: core_le_def core_def)

lemma co_delivery: "keeps core_le (delivery_update P f)"
  unfolding delivery_update_def by (rule co_update) (simp_all add: core_def)

lemma co_emit: "keeps core_le (emitToUser ev)"
  by (simp add: keeps_def emitToUser_def core_le_def core_def)

lemma co_dispatch: "keeps core_le (dispatchChannels E i)"
proof -
  have "keeps core_le (queue_add j)" for j
    unfolding queue_add_def by (rule co_modify) (simp add: core_le_def core_def)
  moreover have "keeps core_le (mark_sent i ch)" for i ch
    unfolding mark_sent_def by (intro co.r_intros co_delivery)
  ultimately have "keeps core_le (dispatch_one E n d)" for n d
    by (cases "nd_channel d") (simp_all add: dispatch_one_def co.r_ret)
  then show ?thesis unfolding dispatchChannels_def by (intro co.r_intros)
qed

lemma co_badge: "keeps core_le (broadcastBadge u w)"
  unfolding broadcastBadge_def getUnreadCount_def by (intro co.r_intros co_emit)

lemma co_announce: "keeps core_le (announce E inp n)"
  unfolding announce_def by (intro co.r_intros co_dispatch co_emit)

lemma co_marks:
  "keeps core_le (markDelivery i ch st er pid)" "keeps core_le (updateDeliverySummary i st er det b)"
  unfolding markDelivery_def updateDeliverySummary_def by (intro co.r_intros co_delivery)+

section \<open>Relations that every operation keeps\<close>

locale notify_base = step_order R
  for R :: "nstate \<Rightarrow> nstate \<Rightarrow> bool" +
  assumes k_core: "core_le s t \<Longrightarrow> R s t"
begin

lemma r_core: "keeps core_le m \<Longrightarrow> keeps R m"
  by (simp add: keeps_def k_core)

lemma r_evaluate:
  assumes "keeps R (getEffectiveStatus E u w)"
  shows "keeps R (evaluate E u w ty target)"
  unfolding evaluate_def Let_def
  by (intro r_intros assms r_core [OF co_preferences(1)] r_core [OF co_connection] r_core [OF co_email_decision])

lemma r_create:
  assumes "\<And>n s. R s (s\<lparr>n_notifications := n_notifications s @ [n]\<rparr>)"
  shows "keeps R (notification_create E inp md ds)"
  unfolding notification_create_def Let_def
  by (intro r_intros r_core [OF co_new_id] r_core [OF co_create_delivery] r_modify assms)

lemma r_ingest:
  assumes "\<And>u w. keeps R (getEffectiveStatus E u w)" and "\<And>n s. R s (s\<lparr>n_notifications := n_notifications s @ [n]\<rparr>)"
  shows "keeps R (ingest E inp)"
  unfolding ingest_def ingest_new_def
  by (intro r_intros r_evaluate assms r_create r_core [OF co_announce])

lemma r_void: "keeps R m \<Longrightarrow> keeps R (void m)"
  unfolding void_def by (intro r_intros)

end

text \<open>
  What is left to show of a relation, for the operations that are \<open>allowed\<close>: the operations on
  presence, the creation of a notification, the changes of its state, the history of e-mails, the devices
  and the run of a push.
\<close>

locale notify_order = notify_base R for R :: "nstate \<Rightarrow> nstate \<Rightarrow> bool" +
  fixes E :: notify_env and allowed :: "notify_op \<Rightarrow> bool"
  assumes k_status: "keeps R (getEffectiveStatus E u w)"
    and k_heartbeat: "allowed (Heartbeat u w m) \<Longrightarrow> keeps R (heartbeat E u w m)"
    and k_availability: "allowed (Availability u a) \<Longrightarrow> keeps R (updateAvailability E u a)"
    and k_connect: "allowed (Connect u i) \<Longrightarrow> keeps R (handleConnection_activity E u i)"
    and k_ingest: "keeps R (ingest E inp)"
    and k_notifications: "(\<And>n. nt_id (f n) = nt_id n) \<Longrightarrow> (\<And>n. nt_userId (f n) = nt_userId n)
      \<Longrightarrow> (\<And>n. nt_dedupeKey (f n) = nt_dedupeKey n) \<Longrightarrow> R s (s\<lparr>n_notifications := upd_where P f (n_notifications s)\<rparr>)"
    and k_history: "keeps R (history_upsert E row (\<lambda>h. h\<lparr>eh_sentAt := now\<rparr>))"
      "keeps R (history_upsert E row (\<lambda>h. h\<lparr>eh_notificationId := oi, eh_sentAt := now\<rparr>))"
    and k_register: "keeps R (register E u w dto)"
    and k_devices: "(\<And>d. dv_id (g d) = dv_id d) \<Longrightarrow> R s (s\<lparr>n_devices := upd_where Q g (n_devices s)\<rparr>)"
    and k_push: "keeps R (sendPush E c push j)"
begin

lemma r_register_history: "keeps R (registerEmailHistory E i)"
  unfolding registerEmailHistory_def Let_def by (intro r_intros k_status k_history)

lemma r_email: "keeps R (sendEmail E ans i to su b)"
proof -
  have "keeps R (remember_email E i)"
    unfolding remember_email_def Let_def by (intro r_intros k_history)
  moreover have "keeps R (modify (\<lambda>s. s\<lparr>n_mails := n_mails s @ xs\<rparr>))" for xs
    by (rule r_core, rule co_modify) (simp add: core_le_def core_def)
  ultimately show ?thesis
    unfolding sendEmail_def
    by (cases ans) (auto intro!: r_catch r_throw r_seq r_core [OF co_marks(1)])
qed

lemma r_many: "keeps R (updateMany_notifications P f)"
  if "\<And>now n. nt_id (f now n) = nt_id n" "\<And>now n. nt_userId (f now n) = nt_userId n" "\<And>now n. nt_dedupeKey (f now n) = nt_dedupeKey n"
  unfolding updateMany_notifications_def by (rule r_modify, rule k_notifications) (simp_all add: that)

lemma r_mark_state: "keeps R (markState u i r a)"
proof -
  have "keeps R (notification_update i f)"
    if "\<And>n. nt_id (f n) = nt_id n" "\<And>n. nt_userId (f n) = nt_userId n" "\<And>n. nt_dedupeKey (f n) = nt_dedupeKey n" for f
    by (rule keepsI) (auto simp: notification_update_def update_one_def R_refl that intro!: k_notifications split: option.split)
  then show ?thesis
    unfolding markState_def
    by (intro r_intros r_core [OF co_badge] r_core [OF co_emit]) simp_all
qed

lemma r_disable: "keeps R (disable_devices P reason)"
  unfolding disable_devices_def by (rule r_modify, rule k_devices) simp

lemma r_inbound: "keeps R (handleMessageInbound E ev)"
  unfolding handleMessageInbound_def by (auto intro!: r_intros r_all k_ingest)

theorem perform_keeps: "allowed op \<Longrightarrow> keeps R (perform_notify E op)"
proof (cases op)
  case (RunJob ans j)
  then show ?thesis
    by (cases j) (simp_all add: run_notify_job_def r_email k_push)
next
  case (Tick d)
  then show ?thesis
    by (auto intro!: r_core co_modify simp: core_le_def core_def)
next
  case (ExpireCache u)
  then show ?thesis
    by (auto intro!: r_core co_modify simp: core_le_def core_def cache_del_def)
next
  case (SetTimeout w n)
  have "keeps R (updateInactivityTimeout w n)"
    unfolding updateInactivityTimeout_def by (rule r_core, rule co_update) (simp_all add: core_def)
  with SetTimeout show ?thesis by (simp add: r_void)
next
  case (Disconnect u i)
  then show ?thesis
    by (auto intro!: r_core co_modify simp: core_le_def core_def handleDisconnect_def)
next
  case (MarkAllRead u w)
  then show ?thesis
    by (auto simp: markAllRead_def intro!: r_seq r_many r_core [OF co_badge])
next
  case (ArchiveAll u w tab)
  then show ?thesis
    by (auto simp: archiveAll_def intro!: r_seq r_many r_core [OF co_badge])
qed (auto simp: ingestFromDto_def createCustom_def unregister_def disableById_def
       intro!: r_void r_all k_ingest k_heartbeat k_availability k_connect r_core [OF co_preferences(1)]
         r_core [OF co_preferences(2)] r_inbound r_mark_state r_register_history k_register r_disable r_throw)

end

end
