(* ===== verification/Notify_Push.thy ===== *)
theory Notify_Push
  imports Notify_Once
begin

text \<open>
  Pushes over retries. The rows of \<open>NotificationDeliveryAttempt\<close> are the module's record of which
  endpoint has had which delivery; the invariant \<open>push_ok\<close> ties them to the log of accepted pushes.
\<close>

section \<open>The invariant\<close>

definition attempt_key :: "attempt \<Rightarrow> sent_push" where
  "attempt_key a = \<lparr>sp_deliveryId = at_deliveryId a, sp_endpoint = at_targetIdentifier a\<rparr>"

definition attempts_ok :: "(nat \<Rightarrow> string) \<Rightarrow> attempt list \<Rightarrow> nat \<Rightarrow> bool" where
  "attempts_ok f rows k \<longleftrightarrow> distinct (map at_id rows) \<and> distinct (map attempt_key rows) \<and> at_id ` set rows \<subseteq> f ` {..<k}"

definition push_ok :: "notify_env \<Rightarrow> nstate \<Rightarrow> bool" where
  "push_ok E s \<longleftrightarrow> attempts_ok (ne_uuid E) (n_attempts s) (n_seq s) \<and> distinct (n_pushed s)
     \<and> set (n_pushed s) \<subseteq> attempt_key ` {a \<in> set (n_attempts s). at_status a = SENT}"

definition keep_push :: "notify_env \<Rightarrow> nstate \<Rightarrow> nstate \<Rightarrow> bool" where
  "keep_push E s t \<longleftrightarrow> (push_ok E s \<longrightarrow> push_ok E t)"

text \<open>The run of a push also relies on the devices it has read: none of them goes away meanwhile.\<close>

definition push_run :: "notify_env \<Rightarrow> string set \<Rightarrow> nstate \<Rightarrow> bool" where
  "push_run E D s \<longleftrightarrow> push_ok E s \<and> D \<subseteq> dv_id ` set (n_devices s)"

lemma attempts_later: "attempts_ok f rows k \<Longrightarrow> k \<le> l \<Longrightarrow> attempts_ok f rows l"
  by (auto simp: attempts_ok_def)

lemma push_same:
  "n_attempts t = n_attempts s \<Longrightarrow> n_pushed t = n_pushed s \<Longrightarrow> n_seq s \<le> n_seq t \<Longrightarrow> keep_push E s t"
  by (auto simp: keep_push_def push_ok_def intro: attempts_later)

lemma attempts_update:
  assumes "attempts_ok f rows k" and "\<And>a. at_id (g a) = at_id a" and "\<And>a. attempt_key (g a) = attempt_key a"
  shows "attempts_ok f (upd_where P g rows) k"
  using assms by (simp add: attempts_ok_def map_upd_where flip: set_map)

text \<open>A change of an attempt that is not marked as sent leaves the record of sent ones.\<close>

lemma sent_rows_update:
  assumes "distinct (map at_id rows)" and "a \<in> set rows" and "at_status a \<noteq> SENT"
  shows "{b \<in> set rows. at_status b = SENT} \<subseteq> set (upd_where (\<lambda>b. at_id b = at_id a) g rows)"
proof
  fix b assume b: "b \<in> {b \<in> set rows. at_status b = SENT}"
  have "at_id b \<noteq> at_id a"
  proof
    assume "at_id b = at_id a"
    with assms(1,2) b have "b = a" by (auto simp: distinct_map dest: inj_onD)
    with b assms(3) show False by simp
  qed
  with b show "b \<in> set (upd_where (\<lambda>b. at_id b = at_id a) g rows)"
    by (auto simp: set_upd_where image_iff intro!: bexI [of _ b])
qed

lemma push_unsent:
  assumes ok: "push_ok E s" and a: "a \<in> set (n_attempts s)" "at_status a \<noteq> SENT"
    and g: "\<And>a. at_id (g a) = at_id a" "\<And>a. attempt_key (g a) = attempt_key a"
  shows "push_ok E (s\<lparr>n_attempts := upd_where (\<lambda>b. at_id b = at_id a) g (n_attempts s)\<rparr>)"
proof -
  let ?rows = "upd_where (\<lambda>b. at_id b = at_id a) g (n_attempts s)"
  have d: "distinct (map at_id (n_attempts s))" using ok by (simp add: push_ok_def attempts_ok_def)
  have "attempt_key ` {b \<in> set (n_attempts s). at_status b = SENT} \<subseteq> attempt_key ` {b \<in> set ?rows. at_status b = SENT}"
    using sent_rows_update [OF d a, of g] by (intro image_mono) auto
  with ok attempts_update [OF _ g] show ?thesis by (auto simp: push_ok_def)
qed

lemma push_sent:
  assumes ok: "push_ok E s" and a: "a \<in> set (n_attempts s)" "at_status a \<noteq> SENT"
    and g: "\<And>a. at_id (g a) = at_id a" "\<And>a. attempt_key (g a) = attempt_key a" "\<And>a. at_status (g a) = SENT"
  shows "push_ok E (s\<lparr>n_pushed := n_pushed s @ [attempt_key a],
                     n_attempts := upd_where (\<lambda>b. at_id b = at_id a) g (n_attempts s)\<rparr>)"
proof -
  let ?rows = "upd_where (\<lambda>b. at_id b = at_id a) g (n_attempts s)"
  have rows: "attempts_ok (ne_uuid E) (n_attempts s) (n_seq s)" using ok by (simp add: push_ok_def)
  then have d: "distinct (map at_id (n_attempts s))" "distinct (map attempt_key (n_attempts s))"
    by (simp_all add: attempts_ok_def)
  have old: "attempt_key ` {b \<in> set (n_attempts s). at_status b = SENT} \<subseteq> attempt_key ` {b \<in> set ?rows. at_status b = SENT}"
    using sent_rows_update [OF d(1) a, of g] by (intro image_mono) auto
  have "g a \<in> set ?rows" using a(1) by (auto simp: set_upd_where)
  then have new: "attempt_key a \<in> attempt_key ` {b \<in> set ?rows. at_status b = SENT}"
    using g(2,3) by (metis (mono_tags, lifting) image_eqI mem_Collect_eq)
  have "attempt_key a \<notin> set (n_pushed s)"
  proof
    assume "attempt_key a \<in> set (n_pushed s)"
    then obtain b where "b \<in> set (n_attempts s)" "at_status b = SENT" "attempt_key b = attempt_key a"
      using ok by (fastforce simp: push_ok_def)
    with d(2) a show False by (auto simp: distinct_map dest: inj_onD)
  qed
  with ok old new attempts_update [OF rows g(1,2)] show ?thesis by (auto simp: push_ok_def)
qed

section \<open>One device\<close>

lemma upsert_attempt:
  assumes ok: "push_run E D s" and inj: "inj (ne_uuid E)" and run: "attempt_upsert E del d s = (r, t)"
  obtains a where "r = Inr a" and "a \<in> set (n_attempts t)"
    and "attempt_key a = \<lparr>sp_deliveryId = nd_id del, sp_endpoint = dv_token d\<rparr>" and "push_run E D t"
    and "n_devices t = n_devices s" and "n_pushed t = n_pushed s"
proof -
  let ?same = "\<lambda>a. at_deliveryId a = nd_id del \<and> at_targetIdentifier a = dv_token d"
  have rows: "attempts_ok (ne_uuid E) (n_attempts s) (n_seq s)" using ok by (simp add: push_run_def push_ok_def)
  show thesis
  proof (cases "find ?same (n_attempts s)")
    case (Some a)
    let ?g = "\<lambda>a. a\<lparr>at_deviceId := Some (dv_id d)\<rparr>"
    let ?rows = "upd_where ?same ?g (n_attempts s)"
    from run Some have rt: "r = Inr (?g a)" "t = s\<lparr>n_attempts := ?rows\<rparr>"
      by (simp_all add: attempt_upsert_def bind_gets update_one_def Let_def)
    have a: "a \<in> set (n_attempts s)" "?same a" using find_Some_in [OF Some] by simp_all
    have "attempts_ok (ne_uuid E) ?rows (n_seq s)"
      by (rule attempts_update [OF rows]) (simp_all add: attempt_key_def)
    moreover have "attempt_key ` {b \<in> set (n_attempts s). at_status b = SENT} \<subseteq> attempt_key ` {b \<in> set ?rows. at_status b = SENT}"
    proof
      fix v assume "v \<in> attempt_key ` {b \<in> set (n_attempts s). at_status b = SENT}"
      then obtain b where b: "b \<in> set (n_attempts s)" "at_status b = SENT" "v = attempt_key b" by auto
      let ?b = "if ?same b then ?g b else b"
      have "?b \<in> set ?rows" "at_status ?b = SENT" "v = attempt_key ?b"
        using b by (auto simp: set_upd_where attempt_key_def)
      then show "v \<in> attempt_key ` {b \<in> set ?rows. at_status b = SENT}" by blast
    qed
    ultimately have "push_run E D t" using ok rt(2) by (auto simp: push_run_def push_ok_def)
    moreover have "?g a \<in> set (n_attempts t)" using a rt(2) by (auto simp: set_upd_where)
    ultimately show thesis
      using rt a(2) by (intro that [of "?g a"]) (auto simp: attempt_key_def)
  next
    case None
    then obtain a where rt: "r = Inr a" "t = s\<lparr>n_seq := n_seq s + 1, n_attempts := n_attempts s @ [a]\<rparr>"
      and a: "at_id a = ne_uuid E (n_seq s)" "at_status a = PENDING" "?same a"
      using run by (auto simp: attempt_upsert_def bind_gets bind_io_def [of "new_id E"] new_id_def io_simps Let_def)
    have "at_id a \<notin> at_id ` set (n_attempts s)"
      using rows a(1) inj by (auto simp: attempts_ok_def dest!: injD [of "ne_uuid E"] subsetD)
    moreover have "attempt_key a \<notin> attempt_key ` set (n_attempts s)"
      using None a(3) by (auto simp: find_None_iff attempt_key_def)
    ultimately have "attempts_ok (ne_uuid E) (n_attempts t) (n_seq t)"
      using rows a(1) rt(2) by (auto simp: attempts_ok_def lessThan_Suc)
    then have "push_run E D t" using ok rt(2) by (auto simp: push_run_def push_ok_def)
    with rt a show thesis by (intro that [of a]) (auto simp: attempt_key_def)
  qed
qed

text \<open>What the ending of an attempt leaves, with the changes of the attempt and of the device.\<close>

definition noted :: "attempt \<Rightarrow> device \<Rightarrow> (attempt \<Rightarrow> attempt) \<Rightarrow> (device \<Rightarrow> device) \<Rightarrow> nstate \<Rightarrow> nstate" where
  "noted a d f g s = s\<lparr>n_attempts := upd_where (\<lambda>b. at_id b = at_id a) f (n_attempts s),
                       n_devices := upd_where (\<lambda>x. dv_id x = dv_id d) g (n_devices s)\<rparr>"

lemma both_found:
  assumes "distinct (map at_id (n_attempts s))" and "a \<in> set (n_attempts s)" and "dv_id d \<in> dv_id ` set (n_devices s)"
  shows "both_io (attempt_update (at_id a) f) (device_update (dv_id d) g) s = (Inr (), noted a d f g s)"
proof -
  let ?s = "s\<lparr>n_attempts := upd_where (\<lambda>b. at_id b = at_id a) f (n_attempts s)\<rparr>"
  have "attempt_update (at_id a) f s = (Inr (f a), ?s)"
    using find_unique_key [OF assms(1,2)] by (simp add: attempt_update_def update_one_def)
  moreover obtain x where "find (\<lambda>x. dv_id x = dv_id d) (n_devices s) = Some x"
    using assms(3) by (cases "find (\<lambda>x. dv_id x = dv_id d) (n_devices s)") (auto simp: find_None_iff)
  ultimately show ?thesis
    by (simp add: both_io_def device_update_def update_one_def noted_def)
qed

lemma devices_kept:
  assumes "\<And>d. dv_id (g d) = dv_id d"
  shows "dv_id ` set (upd_where P g rows) = dv_id ` set rows"
  using map_upd_where [of dv_id g P rows] assms by (simp flip: set_map)

lemma noted_unsent:
  assumes "push_run E D s" and "a \<in> set (n_attempts s)" and "at_status a \<noteq> SENT"
    and "\<And>a. at_id (f a) = at_id a" "\<And>a. attempt_key (f a) = attempt_key a" "\<And>d. dv_id (g d) = dv_id d"
  shows "push_run E D (noted a d f g s)" and "n_pushed (noted a d f g s) = n_pushed s"
  using push_unsent [of E s a f] assms by (auto simp: push_run_def noted_def push_ok_def devices_kept)

lemma noted_sent:
  assumes "push_run E D s" and "a \<in> set (n_attempts s)" and "at_status a \<noteq> SENT"
    and "\<And>a. at_id (f a) = at_id a" "\<And>a. attempt_key (f a) = attempt_key a" "\<And>a. at_status (f a) = SENT"
    and "\<And>d. dv_id (g d) = dv_id d"
  shows "push_run E D (noted a d f g (s\<lparr>n_pushed := n_pushed s @ [attempt_key a]\<rparr>))"
    and "n_pushed (noted a d f g (s\<lparr>n_pushed := n_pushed s @ [attempt_key a]\<rparr>)) = n_pushed s @ [attempt_key a]"
  using push_sent [of E s a f] assms by (auto simp: push_run_def noted_def push_ok_def devices_kept)

text \<open>
  An attempt on a device ends in one of four ways: it was sent before, it raises, it is accepted, it is
  refused. In each of them the record stays right and exactly one of the counters goes up.
\<close>

definition progress :: "push_summary \<Rightarrow> push_summary \<Rightarrow> nat \<Rightarrow> bool" where
  "progress acc acc' k \<longleftrightarrow> ps_targetCount acc' = ps_targetCount acc
     \<and> ps_sentCount acc' + ps_failedCount acc' + ps_skippedCount acc'
       = ps_sentCount acc + ps_failedCount acc + ps_skippedCount acc + k
     \<and> ps_invalidatedCount acc' + ps_failedCount acc \<le> ps_invalidatedCount acc + ps_failedCount acc'
     \<and> ps_failedCount acc \<le> ps_failedCount acc'"

lemma note_exception_run:
  assumes "distinct (map at_id (n_attempts s))" and "a \<in> set (n_attempts s)" and "dv_id d \<in> dv_id ` set (n_devices s)"
  obtains f g where "note_exception E a d acc e s = (Inr (acc\<lparr>ps_failedCount := ps_failedCount acc + 1\<rparr>), noted a d f g s)"
    and "\<And>a. at_id (f a) = at_id a" "\<And>a. attempt_key (f a) = attempt_key a" "\<And>d. dv_id (g d) = dv_id d"
  using assms
  by (intro that [of "\<lambda>r. r\<lparr>at_status := FAILED, at_attemptCount := at_attemptCount r + 1,
            at_lastError := Some (error_text E ''Unknown push delivery error'' e), at_lastAttemptAt := Some (n_now s)\<rparr>"
        "\<lambda>r. r\<lparr>dv_lastFailureAt := Some (n_now s), dv_failureCount := dv_failureCount r + 1\<rparr>"])
    (simp_all add: note_exception_def bind_gets seq_run both_found ret_def attempt_key_def)

lemma note_refusal_run:
  assumes "distinct (map at_id (n_attempts s))" and "a \<in> set (n_attempts s)" and "dv_id d \<in> dv_id ` set (n_devices s)"
  shows "\<exists>f g. note_refusal a d res s = (Inr (), noted a d f g s) \<and> (\<forall>a. at_id (f a) = at_id a)
     \<and> (\<forall>a. attempt_key (f a) = attempt_key a) \<and> (\<forall>d. dv_id (g d) = dv_id d)"
  unfolding note_refusal_def bind_gets both_found [OF assms]
  by (intro exI conjI, rule refl) (simp_all add: attempt_key_def)

lemma note_success_run:
  assumes "distinct (map at_id (n_attempts s))" and "a \<in> set (n_attempts s)" and "dv_id d \<in> dv_id ` set (n_devices s)"
  shows "\<exists>f g. note_success a d res s = (Inr (), noted a d f g s) \<and> (\<forall>a. at_id (f a) = at_id a)
     \<and> (\<forall>a. attempt_key (f a) = attempt_key a) \<and> (\<forall>a. at_status (f a) = SENT) \<and> (\<forall>d. dv_id (g d) = dv_id d)"
  unfolding note_success_def bind_gets both_found [OF assms]
  by (intro exI conjI, rule refl) (simp_all add: attempt_key_def)

text \<open>What a device's turn promises: the record stays right, and who was sent to before stays so.\<close>

definition turn :: "notify_env \<Rightarrow> string set \<Rightarrow> nat \<Rightarrow> (push_summary \<times> nstate) \<Rightarrow> (push_summary \<times> nstate) \<Rightarrow> bool" where
  "turn E D k before after \<longleftrightarrow> push_run E D (snd after) \<and> progress (fst before) (fst after) k
     \<and> set (n_pushed (snd before)) \<subseteq> set (n_pushed (snd after))"

definition accepts :: "push_service \<Rightarrow> notification \<Rightarrow> push_payload \<Rightarrow> device \<Rightarrow> bool" where
  "accepts push n payload d \<longleftrightarrow> (\<exists>res. push_request push n payload d = Inr res \<and> pr_ok res)"

lemma push_device_ok:
  assumes ok: "push_run E D s" and inj: "inj (ne_uuid E)" and d: "dv_id d \<in> D"
  shows "\<exists>acc' t. push_device E push n del payload d acc s = (Inr acc', t) \<and> turn E D 1 (acc, s) (acc', t)
    \<and> (accepts push n payload d \<longrightarrow> ps_failedCount acc' = ps_failedCount acc)"
proof -
  obtain r s1 where up: "attempt_upsert E del d s = (r, s1)" by fastforce
  obtain a where a: "r = Inr a" "a \<in> set (n_attempts s1)" "attempt_key a = \<lparr>sp_deliveryId = nd_id del, sp_endpoint = dv_token d\<rparr>"
    and s1: "push_run E D s1" "n_devices s1 = n_devices s" "n_pushed s1 = n_pushed s"
    using upsert_attempt [OF ok inj up] .
  have di: "distinct (map at_id (n_attempts s1))" and dev: "dv_id d \<in> dv_id ` set (n_devices s1)"
    using s1 d by (auto simp: push_run_def push_ok_def attempts_ok_def)
  have start: "push_device E push n del payload d acc s = (case push_request push n payload d of
      Inl e \<Rightarrow> note_exception E a d acc e s1
    | Inr res \<Rightarrow> if pr_ok res then
         catch_io (seq_io (note_success a d res) (ret (acc\<lparr>ps_sentCount := ps_sentCount acc + 1\<rparr>)))
           (note_exception E a d (acc\<lparr>ps_sentCount := ps_sentCount acc + 1\<rparr>)) (s1\<lparr>n_pushed := n_pushed s1 @ [attempt_key a]\<rparr>)
       else let acc' = acc\<lparr>ps_failedCount := ps_failedCount acc + 1,
                  ps_invalidatedCount := ps_invalidatedCount acc + (if invalid_endpoint res then 1 else 0)\<rparr>
            in catch_io (seq_io (note_refusal a d res) (ret acc')) (note_exception E a d acc') s1)" if "at_status a \<noteq> SENT"
    using up a that by (simp add: push_device_def seq_run Let_def seq_io_def bind_io_def [of "modify f" for f] modify_def
        split: sum.split)
  consider "at_status a = SENT"
    | (raised) e where "at_status a \<noteq> SENT" "push_request push n payload d = Inl e"
    | (accepted) res where "at_status a \<noteq> SENT" "push_request push n payload d = Inr res" "pr_ok res"
    | (refused) res where "at_status a \<noteq> SENT" "push_request push n payload d = Inr res" "\<not> pr_ok res"
    by (cases "push_request push n payload d") blast+
  then show ?thesis
  proof cases
    case 1
    with up a s1 show ?thesis by (simp add: push_device_def seq_run ret_def turn_def progress_def accepts_def)
  next
    case raised
    from note_exception_run [OF di a(2) dev] obtain f g where
      "note_exception E a d acc e s1 = (Inr (acc\<lparr>ps_failedCount := ps_failedCount acc + 1\<rparr>), noted a d f g s1)"
      "\<And>a. at_id (f a) = at_id a" "\<And>a. attempt_key (f a) = attempt_key a" "\<And>d. dv_id (g d) = dv_id d"
      by metis
    with start raised noted_unsent [OF s1(1) a(2), of f g d] s1(3) show ?thesis
      by (simp add: turn_def progress_def accepts_def)
  next
    case accepted
    let ?s = "s1\<lparr>n_pushed := n_pushed s1 @ [attempt_key a]\<rparr>"
    from note_success_run [of ?s a d res] di a(2) dev obtain f g where
      "note_success a d res ?s = (Inr (), noted a d f g ?s)" "\<And>a. at_id (f a) = at_id a"
      "\<And>a. attempt_key (f a) = attempt_key a" "\<And>a. at_status (f a) = SENT" "\<And>d. dv_id (g d) = dv_id d"
      by auto
    with start accepted noted_sent [OF s1(1) a(2), of f g d] s1(3) show ?thesis
      by (simp add: turn_def progress_def accepts_def catch_io_def seq_run ret_def subset_insertI)
  next
    case refused
    from note_refusal_run [OF di a(2) dev, of res] obtain f g where
      "note_refusal a d res s1 = (Inr (), noted a d f g s1)" "\<And>a. at_id (f a) = at_id a"
      "\<And>a. attempt_key (f a) = attempt_key a" "\<And>d. dv_id (g d) = dv_id d"
      by auto
    with start refused noted_unsent [OF s1(1) a(2), of f g d] s1(3) show ?thesis
      by (simp add: turn_def progress_def accepts_def catch_io_def seq_run ret_def)
  qed
qed

section \<open>A run over the devices\<close>

lemma push_devices_ok:
  assumes "push_run E D s" and inj: "inj (ne_uuid E)" and "dv_id ` set ds \<subseteq> D"
  shows "\<exists>acc' t. push_devices E push n del payload ds acc s = (Inr acc', t) \<and> turn E D (length ds) (acc, s) (acc', t)
    \<and> ((\<forall>d \<in> set ds. accepts push n payload d) \<longrightarrow> ps_failedCount acc' = ps_failedCount acc)"
  using assms(1,3)
proof (induction ds arbitrary: acc s)
  case Nil
  then show ?case by (simp add: ret_def turn_def progress_def)
next
  case (Cons d ds)
  have d: "dv_id d \<in> D" using Cons.prems(2) by simp
  obtain acc1 s1 where one: "push_device E push n del payload d acc s = (Inr acc1, s1)" "turn E D 1 (acc, s) (acc1, s1)"
    "accepts push n payload d \<longrightarrow> ps_failedCount acc1 = ps_failedCount acc"
    using push_device_ok [OF Cons.prems(1) inj d, of push n del payload acc] by blast
  obtain acc2 s2 where rest: "push_devices E push n del payload ds acc1 s1 = (Inr acc2, s2)"
    "turn E D (length ds) (acc1, s1) (acc2, s2)"
    "(\<forall>d \<in> set ds. accepts push n payload d) \<longrightarrow> ps_failedCount acc2 = ps_failedCount acc1"
    using Cons.IH [of s1 acc1] one(2) Cons.prems(2) by (auto simp: turn_def)
  have "turn E D (length (d # ds)) (acc, s) (acc2, s2)"
    using one(2) rest(2) by (auto simp: turn_def progress_def)
  with one rest show ?case by (simp add: seq_run)
qed

lemma set_push_order: "set (push_order ds) = set ds"
  by (auto simp: push_order_def Let_def)

definition push_devices_of :: "notification \<Rightarrow> nstate \<Rightarrow> device list" where
  "push_devices_of n s = push_order (filter (push_target n) (n_devices s))"

lemma push_devices_run:
  assumes "push_ok E s" and "inj (ne_uuid E)"
  shows "\<exists>acc' t. push_devices E push n del payload (push_devices_of m s) acc s = (Inr acc', t)
    \<and> turn E (dv_id ` set (n_devices s)) (length (push_devices_of m s)) (acc, s) (acc', t)
    \<and> ((\<forall>d \<in> set (push_devices_of m s). accepts push n payload d) \<longrightarrow> ps_failedCount acc' = ps_failedCount acc)"
  by (rule push_devices_ok) (use assms in \<open>auto simp: push_run_def push_devices_of_def set_push_order\<close>)

lemma push_core: "keeps core_le m \<Longrightarrow> keeps (keep_push E) m"
  by (auto simp: keeps_def core_le_def core_def intro: push_same)

lemma keep_sendPush:
  assumes "inj (ne_uuid E)"
  shows "keeps (keep_push E) (sendPush E c push i)"
proof (rule keepsI)
  fix s
  show "keep_push E s (snd (sendPush E c push i s))"
  proof (cases "push_ok E s")
    case False
    then show ?thesis by (simp add: keep_push_def)
  next
    case True
    have mark: "push_ok E (snd (m t))" if "keeps core_le m" "push_ok E t" for m :: "unit notify" and t
      using keepsD [OF push_core [OF that(1)], of E t] that(2) by (simp add: keep_push_def)
    have all: "push_ok E (snd (push_all E push n del (push_devices_of n s) s))" for n del
    proof -
      obtain acc t where run: "push_devices E push n del (buildNotificationPushPayload n (worker_asRecord (nt_metadata n)))
          (push_devices_of n s) (empty_summary (length (push_devices_of n s))) s = (Inr acc, t)" and t: "push_ok E t"
        using push_devices_run [OF True assms, of push n del "buildNotificationPushPayload n (worker_asRecord (nt_metadata n))" n
            "empty_summary (length (push_devices_of n s))"]
        unfolding turn_def push_run_def snd_conv by blast
      then show ?thesis
        using mark [OF _ t, of "seq_io (updateDeliverySummary (nd_id del) FAILED (Some (failed_text (ps_failedCount acc))) acc False)
            (throw (PlainError (failed_text (ps_failedCount acc))))"] mark [OF co_marks(2) t]
        by (simp add: push_all_def seq_run co.r_seq co_marks co.r_throw)
    qed
    show ?thesis
    proof (cases "find_notification i s")
      case None
      then show ?thesis by (simp add: sendPush_def bind_gets ret_def keep_push_def)
    next
      case (Some n)
      show ?thesis
      proof (cases "find (\<lambda>d. nd_channel d = MOBILE_PUSH) (deliveries_of i s)")
        case None
        with Some show ?thesis by (simp add: sendPush_def bind_gets ret_def keep_push_def)
      next
        case (Some del)
        with \<open>find_notification i s = Some n\<close> True all [of n del] mark [OF co_marks(2) True]
          mark [OF co.r_seq [OF co_marks(1) co.r_throw] True]
        show ?thesis
          by (simp add: sendPush_def bind_gets keep_push_def push_devices_of_def)
      qed
    qed
  qed
qed

section \<open>Every operation\<close>

interpretation pushes: notify_base "keep_push E" for E
  by unfold_locales (auto simp: keep_push_def core_le_def core_def intro: push_same [THEN keep_push_def [THEN iffD1], rule_format])

definition seq_le :: "nstate \<Rightarrow> nstate \<Rightarrow> bool" where
  "seq_le s t \<longleftrightarrow> n_seq s \<le> n_seq t \<and> n_attempts t = n_attempts s \<and> n_pushed t = n_pushed s"

interpretation sq: step_order seq_le
  by unfold_locales (auto simp: seq_le_def)

lemma push_seq: "keeps seq_le m \<Longrightarrow> keeps (keep_push E) m"
  by (auto simp: keeps_def seq_le_def intro: push_same)

lemma sq_presence:
  "keeps seq_le (getEffectiveStatus E u w)" "keeps seq_le (heartbeat E u w m)" "keeps seq_le (updateAvailability E u a)"
  "keeps seq_le (handleConnection_activity E u i)" "keeps seq_le (register E u w dto)"
proof -
  have new: "keeps seq_le (new_id E)" by (simp add: keeps_def seq_le_def new_id_def)
  have upd: "keeps seq_le (activity_update u f)" for u f
    by (simp add: keeps_def seq_le_def activity_update_def update_one_def split: option.split)
  have dev: "keeps seq_le (device_update j f)" for j f
    by (simp add: keeps_def seq_le_def device_update_def update_one_def split: option.split)
  have add: "keeps seq_le (userActivity_create E row)" for row
    by (simp add: keeps_def seq_le_def userActivity_create_def bind_io_def new_id_def Let_def)
  show "keeps seq_le (getEffectiveStatus E u w)"
    by (simp add: keeps_def seq_le_def getEffectiveStatus_cases split: option.split)
  show "keeps seq_le (heartbeat E u w m)"
    unfolding heartbeat_def Let_def by (intro sq.r_intros new upd add)
  show "keeps seq_le (updateAvailability E u a)"
    unfolding updateAvailability_def Let_def by (intro sq.r_intros new upd add)
  show "keeps seq_le (handleConnection_activity E u i)"
    unfolding handleConnection_activity_def join_sockets_def Let_def
    by (intro sq.r_intros upd add sq.r_modify) (simp add: seq_le_def)
  show "keeps seq_le (register E u w dto)"
    unfolding register_def Let_def
    by (auto intro!: sq.r_intros new dev sq.r_modify simp: seq_le_def split: option.split list.split)
qed

lemma push_notify_order:
  assumes "inj (ne_uuid E)"
  shows "notify_order (keep_push E) E (\<lambda>_. True)"
proof unfold_locales
  show "keeps (keep_push E) (ingest E inp)" for inp
    by (rule pushes.r_ingest) (auto intro: push_seq sq_presence push_same)
  show "keeps (keep_push E) (sendPush E c push j)" for c push j
    by (rule keep_sendPush [OF assms])
  show "keeps (keep_push E) (history_upsert E row (\<lambda>h. h\<lparr>eh_sentAt := now\<rparr>))"
    "keeps (keep_push E) (history_upsert E row (\<lambda>h. h\<lparr>eh_notificationId := oi, eh_sentAt := now\<rparr>))" for row now oi
    by (rule keepsI, rule push_same; simp add: history_upsert_def Let_def)+
qed (simp_all add: push_seq sq_presence push_same)

text \<open>
  C12: However often its jobs are retried and whatever the push services answer, the module has at most one
  push of a delivery accepted by an endpoint; and the attempt of every accepted push is on record as sent.
  The identifiers that the database generates are distinct.
\<close>

theorem pushed_once:
  assumes "push_ok E s" and "inj (ne_uuid E)" and "notify_reach E (\<lambda>_. True) s t"
  shows "distinct (n_pushed t) \<and> (\<forall>p \<in> set (n_pushed t). \<exists>a \<in> set (n_attempts t).
    at_deliveryId a = sp_deliveryId p \<and> at_targetIdentifier a = sp_endpoint p \<and> at_status a = SENT)"
proof -
  have "keep_push E s t"
    using assms(3) notify_order.perform_keeps [OF push_notify_order [OF assms(2)]] pushes.step_order_axioms
    by (rule notify_reach_keeps)
  with assms(1) have ok: "push_ok E t" by (simp add: keep_push_def)
  then have "\<exists>a \<in> set (n_attempts t). attempt_key a = p \<and> at_status a = SENT" if "p \<in> set (n_pushed t)" for p
    using that unfolding push_ok_def by blast
  with ok show ?thesis by (fastforce simp: push_ok_def attempt_key_def)
qed

lemma push_ok_sample: "push_ok notify_sample_env away_state"
  by (simp add: push_ok_def attempts_ok_def away_state_def notify_empty_def)

lemma pushed_once_witness:
  "distinct (n_pushed (snd (perform_notify notify_sample_env (Ingest sample_input) away_state)))"
proof -
  have "notify_reach notify_sample_env (\<lambda>_. True) away_state (snd (perform_notify notify_sample_env (Ingest sample_input) away_state))"
    by (rule notify_reach.step [OF notify_reach.here]) simp_all
  then show ?thesis
    using pushed_once [OF push_ok_sample sample_uuid_inj] by blast
qed

lemma summary_written:
  assumes "del \<in> set (n_deliveries t)"
  shows "\<exists>u. updateDeliverySummary (nd_id del) st er acc b t = (Inr (), u)
    \<and> (\<exists>d \<in> set (n_deliveries u). nd_id d = nd_id del \<and> nd_details d = Some acc \<and> nd_status d = st)"
proof -
  obtain x where x: "find (\<lambda>d. nd_id d = nd_id del) (n_deliveries t) = Some x"
    using assms by (cases "find (\<lambda>d. nd_id d = nd_id del) (n_deliveries t)") (auto simp: find_None_iff)
  let ?P = "\<lambda>d. nd_id d = nd_id del"
  have run: "seq_io (delivery_update ?P f) m t = m (t\<lparr>n_deliveries := upd_where ?P f (n_deliveries t)\<rparr>)" for f and m :: "unit notify"
    using x by (simp add: delivery_update_def update_one_found seq_run)
  show ?thesis
    unfolding updateDeliverySummary_def bind_gets run ret_def
    using find_Some_in [OF x] by (auto simp: set_upd_where bex_Un)
qed


definition sample_device :: device where
  "sample_device = (blank_device ''v'' 0)\<lparr>dv_userId := ''u'', dv_token := ''https://push.example/1'', dv_authSecret := Some ''a'',
     dv_p256dhKey := Some ''p''\<rparr>"

definition device_state :: nstate where
  "device_state = away_state\<lparr>n_deliveries := [sample_delivery MOBILE_PUSH], n_devices := [sample_device]\<rparr>"


end
