(* ===== verification/Notify_Email.thy ===== *)
theory Notify_Email
  imports Notify_Push
begin

text \<open>
  One e-mail per absence: once the worker has sent the e-mail for a contact's message, further messages of
  that contact queue no e-mail while the user stays away, because the history has the user's inactivity
  session and the session does not change until the user comes back.
\<close>

section \<open>Staying away\<close>

fun stays_away :: "string \<Rightarrow> notify_op \<Rightarrow> bool" where
  "stays_away u (Heartbeat v w m) = (v \<noteq> u \<or> m = Some ''background'')"
| "stays_away u (Availability v a) = (v \<noteq> u)"
| "stays_away u (Connect v i) = (v \<noteq> u)"
| "stays_away u _ = True"

definition offline_in :: "string \<Rightarrow> string \<Rightarrow> nstate \<Rightarrow> bool" where
  "offline_in u sid s \<longleftrightarrow>
     (\<exists>a. find_activity u s = Some a \<and> ua_activityStatus a = OFFLINE \<and> ua_inactivitySessionId a = sid)"

definition mail_quiet :: "string \<Rightarrow> string \<Rightarrow> string \<Rightarrow> nstate \<Rightarrow> bool" where
  "mail_quiet u c sid s \<longleftrightarrow> offline_in u sid s \<and> already_sent u c NEW_INCOMING_MESSAGE sid s"

definition keep_quiet :: "string \<Rightarrow> string \<Rightarrow> string \<Rightarrow> nstate \<Rightarrow> nstate \<Rightarrow> bool" where
  "keep_quiet u c sid s t \<longleftrightarrow> (mail_quiet u c sid s \<longrightarrow> mail_quiet u c sid t)"

lemma quiet_same: "n_activity t = n_activity s \<Longrightarrow> n_history t = n_history s \<Longrightarrow> keep_quiet u c sid s t"
  by (simp add: keep_quiet_def mail_quiet_def offline_in_def find_activity_def already_sent_def)

lemma mail_quiet_activity:
  "n_history t = n_history s \<Longrightarrow> (offline_in u sid s \<Longrightarrow> offline_in u sid t) \<Longrightarrow> keep_quiet u c sid s t"
  by (simp add: keep_quiet_def mail_quiet_def already_sent_def)

interpretation qu: notify_base "keep_quiet u c sid" for u c sid
proof unfold_locales
  show "keep_quiet u c sid s t" if "core_le s t" for s t
    using that by (intro quiet_same) (simp_all add: core_le_def core_def)
qed (simp_all add: keep_quiet_def)

text \<open>Another user's row, and a new row, leave the one of \<open>u\<close>.\<close>

lemma find_upd_other:
  assumes "v \<noteq> u" and "\<And>r. ua_userId (f r) = ua_userId r"
  shows "find (\<lambda>r. ua_userId r = u) (upd_where (\<lambda>r. ua_userId r = v) f rows) = find (\<lambda>r. ua_userId r = u) rows"
  using assms by (induction rows) auto

lemma find_append_Some: "find P xs = Some x \<Longrightarrow> find P (xs @ ys) = Some x"
  by (induction xs) auto

lemma quiet_update:
  assumes "v \<noteq> u" and "\<And>r. ua_userId (f r) = ua_userId r"
  shows "keeps (keep_quiet u c sid) (activity_update v f)"
  by (rule keepsI, rule mail_quiet_activity)
    (use assms in \<open>auto simp: activity_update_def update_one_def offline_in_def find_activity_def find_upd_other split: option.split\<close>)

lemma quiet_add: "keeps (keep_quiet u c sid) (userActivity_create E row)"
  by (rule keepsI, rule mail_quiet_activity)
    (auto simp: userActivity_create_def bind_io_def new_id_def offline_in_def find_activity_def Let_def intro: find_append_Some)

lemma quiet_status: "keeps (keep_quiet u c sid) (getEffectiveStatus E v w)"
proof (rule keepsI, rule mail_quiet_activity)
  fix s
  show "n_history (snd (getEffectiveStatus E v w s)) = n_history s"
    by (rule fr_snd, rule fr_activity) simp_all
  assume "offline_in u sid s"
  then show "offline_in u sid (snd (getEffectiveStatus E v w s))"
    by (cases "v = u")
      (auto simp: getEffectiveStatus_cases offline_in_def find_activity_def find_upd_other split: option.split)
qed

lemma quiet_heartbeat:
  assumes "v \<noteq> u \<or> m = Some ''background''"
  shows "keeps (keep_quiet u c sid) (heartbeat E v w m)"
proof (cases "v = u")
  case False
  then show ?thesis
    unfolding heartbeat_def Let_def
    by (intro qu.r_intros quiet_update quiet_add qu.r_core [OF co_new_id]) simp_all
next
  case True
  with assms have m: "m = Some ''background''" by simp
  show ?thesis
  proof (rule keepsI, rule mail_quiet_activity)
    fix s
    show "n_history (snd (heartbeat E v w m s)) = n_history s"
      by (rule fr_snd, rule fr_activity) simp_all
    assume "offline_in u sid s"
    then obtain a where a: "find (\<lambda>r. ua_userId r = u) (n_activity s) = Some a" "ua_activityStatus a = OFFLINE"
      "ua_inactivitySessionId a = sid"
      by (auto simp: offline_in_def find_activity_def)
    with True m find_Some_in [OF a(1)] show "offline_in u sid (snd (heartbeat E v w m s))"
      by (auto simp: heartbeat_def bind_gets io_simps activity_update_def update_one_found Let_def find_activity_def
          getPreservedManualState_def offline_in_def find_upd_where)
  qed
qed

lemma quiet_history:
  assumes "\<And>h. eh_userId (f h) = eh_userId h \<and> eh_contactId (f h) = eh_contactId h \<and> eh_type (f h) = eh_type h
    \<and> eh_inactivitySessionId (f h) = eh_inactivitySessionId h"
  shows "keeps (keep_quiet u c sid) (history_upsert E row f)"
proof (rule keepsI)
  fix s
  show "keep_quiet u c sid s (snd (history_upsert E row f s))"
    by (auto simp: history_upsert_def Let_def keep_quiet_def mail_quiet_def already_sent_def offline_in_def find_activity_def
        find_upd_where assms intro: find_append_Some)
qed

interpretation qu: notify_order "keep_quiet u c sid" E "stays_away u" for u c sid E
proof unfold_locales
  have same: "keeps (keep_quiet u c sid) m" if "keeps (preserves (\<lambda>s. (n_activity s, n_history s))) m" for m :: "'x notify"
    using that by (auto simp: keeps_def preserves_def intro: quiet_same)
  show "keeps (keep_quiet u c sid) (getEffectiveStatus E v w)" for v w by (rule quiet_status)
  show "stays_away u (Heartbeat v w m) \<Longrightarrow> keeps (keep_quiet u c sid) (heartbeat E v w m)" for v w m
    by (rule quiet_heartbeat) simp
  show "stays_away u (Availability v a) \<Longrightarrow> keeps (keep_quiet u c sid) (updateAvailability E v a)" for v a
    unfolding updateAvailability_def Let_def
    by (intro qu.r_intros quiet_update quiet_add qu.r_core [OF co_new_id]) simp_all
  show "stays_away u (Connect v i) \<Longrightarrow> keeps (keep_quiet u c sid) (handleConnection_activity E v i)" for v i
    unfolding handleConnection_activity_def join_sockets_def Let_def
    by (intro qu.r_intros quiet_update quiet_add qu.r_modify) (simp_all add: quiet_same)
  show "keeps (keep_quiet u c sid) (ingest E inp)" for inp
    by (rule qu.r_ingest) (simp_all add: quiet_status quiet_same)
  show "keeps (keep_quiet u c sid) (history_upsert E row (\<lambda>h. h\<lparr>eh_sentAt := now\<rparr>))"
    "keeps (keep_quiet u c sid) (history_upsert E row (\<lambda>h. h\<lparr>eh_notificationId := oi, eh_sentAt := now\<rparr>))" for row now oi
    by (rule quiet_history; simp)+
  show "keeps (keep_quiet u c sid) (sendPush E b push j)" for b push j
    by (rule same, rule fr_push_tables) simp_all
  show "keeps (keep_quiet u c sid) (register E v w dto)" for v w dto
    by (rule same, rule fr_register) simp_all
qed (simp_all add: quiet_same)

section \<open>No further e-mail\<close>

fun is_mail_job :: "notify_job \<Rightarrow> bool" where
  "is_mail_job (SendEmail n w e su b) = True"
| "is_mail_job (SendPush n u w t b md) = False"

definition mail_jobs :: "nstate \<Rightarrow> notify_job list" where
  "mail_jobs s = filter is_mail_job (n_jobs s)"

text \<open>The identifiers that the database has yet to generate are on no delivery.\<close>

definition ids_fresh :: "notify_env \<Rightarrow> nstate \<Rightarrow> bool" where
  "ids_fresh E s \<longleftrightarrow> (\<forall>d \<in> set (n_deliveries s). \<forall>k \<ge> n_seq s. nd_notificationId d \<noteq> ne_uuid E k)"

lemma quiet_evaluate:
  assumes q: "mail_quiet u c sid s" and sid: "sid \<noteq> []" and c: "c \<noteq> []" "ne_uuid_ok E c"
    and target: "Option.bind target tg_contactId = Some c"
    and run: "evaluate E u w NEW_INCOMING_MESSAGE target s = (Inr ds, t)"
  shows "\<forall>d \<in> set ds. dc_channel d = EMAIL \<longrightarrow> \<not> dc_shouldSend d"
proof -
  obtain prefs act mail s1 s2 where g: "getEffectiveStatus E u w s1 = (Inr act, s2)" and s1: "n_activity s1 = n_activity s"
    and m: "email_decision E prefs NEW_INCOMING_MESSAGE u target act t = (Inr mail, t)" and hist: "n_history t = n_history s"
    and ds: "ds = (let foreground = has_socket u s \<and> presence_now u w s \<noteq> OFFLINE in
           [in_app_decision NEW_INCOMING_MESSAGE foreground, desktop_decision prefs NEW_INCOMING_MESSAGE u target foreground,
            push_decision prefs NEW_INCOMING_MESSAGE u target (presence_now u w s) foreground, mail] @ sound_decisions prefs u target foreground)"
    using evaluate_parts [OF run] by metis
  have "ef_inactivitySessionId act = Some sid"
    using g q s1 by (auto simp: getEffectiveStatus_cases mail_quiet_def offline_in_def find_activity_def)
  moreover have "already_sent u c NEW_INCOMING_MESSAGE sid t"
    using q hist by (simp add: mail_quiet_def already_sent_def)
  ultimately have "\<not> dc_shouldSend mail"
    using m sid c target by (auto simp: email_decision_def Let_def bind_gets ret_def split: if_splits)
  with ds show ?thesis
    by (auto simp: Let_def in_app_decision_def desktop_decision_def push_decision_def sound_decisions_def)
qed

lemma create_deliveries_run:
  "\<exists>ids t. for_io (create_delivery E n) ds s = (Inr (), t) \<and> n_deliveries t = n_deliveries s @ map2 (new_delivery n) ds ids
     \<and> n_jobs t = n_jobs s \<and> length ids = length ds"
proof (induction ds arbitrary: s)
  case Nil
  then show ?case by (simp add: ret_def)
next
  case (Cons d ds)
  define s1 where "s1 = s\<lparr>n_seq := n_seq s + 1, n_deliveries := n_deliveries s @ [new_delivery n d (ne_uuid E (n_seq s))]\<rparr>"
  have one: "create_delivery E n d s = (Inr (), s1)"
    by (simp add: create_delivery_def bind_io_def new_id_def modify_def s1_def)
  obtain ids t where rest: "for_io (create_delivery E n) ds s1 = (Inr (), t)" "n_deliveries t = n_deliveries s1 @ map2 (new_delivery n) ds ids"
    "n_jobs t = n_jobs s1" "length ids = length ds"
    using Cons.IH [of s1] by blast
  then show ?case
    by (intro exI [of _ "ne_uuid E (n_seq s) # ids"] exI [of _ t]) (simp add: seq_run one s1_def)
qed

lemma create_run:
  "\<exists>t2. notification_create E inp md ds t = (Inr (new_notification inp md (n_now t) (ne_uuid E (n_seq t))), t2)
    \<and> n_notifications t2 = n_notifications t @ [new_notification inp md (n_now t) (ne_uuid E (n_seq t))]"
proof -
  define n where "n = new_notification inp md (n_now t) (ne_uuid E (n_seq t))"
  define t1 where "t1 = t\<lparr>n_seq := n_seq t + 1, n_notifications := n_notifications t @ [n]\<rparr>"
  have "notification_create E inp md ds t = seq_io (for_io (create_delivery E n) ds) (ret n) t1"
    by (simp add: notification_create_def bind_io_def new_id_def gets_def seq_io_def modify_def n_def t1_def Let_def
        split: prod.split sum.split)
  moreover obtain ids t2 where t2: "for_io (create_delivery E n) ds t1 = (Inr (), t2)"
    using create_deliveries_run by blast
  moreover have "n_notifications t2 = n_notifications t1"
    using keeps_result [OF co.r_for [OF co_create_delivery] t2] by (simp add: core_le_def core_def)
  ultimately show ?thesis by (simp add: seq_run ret_def n_def t1_def)
qed

lemma quiet_create:
  assumes fresh: "ids_fresh E t" and silent: "\<forall>d \<in> set ds. dc_channel d = EMAIL \<longrightarrow> \<not> dc_shouldSend d"
  obtains n t2 where "notification_create E inp md ds t = (Inr n, t2)" and "n_jobs t2 = n_jobs t"
    and "\<forall>d \<in> set (deliveries_of (nt_id n) t2). nd_channel d = EMAIL \<longrightarrow> nd_status d \<noteq> PENDING"
proof -
  define n where "n = new_notification inp md (n_now t) (ne_uuid E (n_seq t))"
  define t1 where "t1 = t\<lparr>n_seq := n_seq t + 1, n_notifications := n_notifications t @ [n]\<rparr>"
  have "notification_create E inp md ds t = seq_io (for_io (create_delivery E n) ds) (ret n) t1"
    by (simp add: notification_create_def bind_io_def new_id_def gets_def seq_io_def modify_def n_def t1_def Let_def
        split: prod.split sum.split)
  moreover obtain ids t2 where t2: "for_io (create_delivery E n) ds t1 = (Inr (), t2)"
    "n_deliveries t2 = n_deliveries t1 @ map2 (new_delivery n) ds ids" "n_jobs t2 = n_jobs t1"
    using create_deliveries_run by blast
  ultimately have "notification_create E inp md ds t = (Inr n, t2)" by (simp add: seq_run ret_def)
  moreover have "\<forall>d \<in> set (deliveries_of (nt_id n) t2). nd_channel d = EMAIL \<longrightarrow> nd_status d \<noteq> PENDING"
    using fresh silent t2(2)
    by (auto simp: deliveries_of_def ids_fresh_def t1_def n_def new_notification_def new_delivery_def dest!: set_zip_leftD)
  ultimately show thesis using t2(3) by (intro that) (simp_all add: t1_def)
qed

lemma dispatch_no_mail:
  assumes "\<forall>d \<in> set (deliveries_of i s). nd_channel d = EMAIL \<longrightarrow> nd_status d \<noteq> PENDING"
  shows "mail_jobs (snd (dispatchChannels E i s)) = mail_jobs s"
proof -
  have mark: "keeps (preserves mail_jobs) (mark_sent j ch)" for j ch
    unfolding mark_sent_def delivery_update_def by (intro fr.r_intros fr_update) (simp add: mail_jobs_def)
  have push: "keeps (preserves mail_jobs) (queue_add (SendPush a b c d e f))" for a b c d e f
    unfolding queue_add_def by (rule fr_modify) (simp add: mail_jobs_def)
  have one: "keeps (preserves mail_jobs) (dispatch_one E n d)" if "nd_channel d = EMAIL \<longrightarrow> nd_status d \<noteq> PENDING" for n d
    using that by (cases "nd_channel d") (auto simp: dispatch_one_def intro!: mark push fr.r_ret)
  have "keeps (preserves mail_jobs) (for_io (dispatch_one E n) ds)"
    if "\<forall>d \<in> set ds. nd_channel d = EMAIL \<longrightarrow> nd_status d \<noteq> PENDING" for n ds
    using that by (induction ds) (auto intro: fr.r_intros one)
  with assms show ?thesis
    by (auto simp: dispatchChannels_def bind_gets ret_def split: option.split intro: fr_snd)
qed

lemma sq_evaluate: "keeps seq_le (evaluate E u w ty target)"
proof -
  have core: "keeps seq_le m" if "keeps core_le m" for m :: "'x notify"
    using that by (auto simp: keeps_def core_le_def core_def seq_le_def)
  show ?thesis
    unfolding evaluate_def Let_def
    by (intro sq.r_intros sq_presence core [OF co_preferences(1)] core [OF co_connection] core [OF co_email_decision])
qed

lemma quiet_ingest:
  assumes q: "mail_quiet u c sid t" and sid: "sid \<noteq> []" and c: "c \<noteq> []" "ne_uuid_ok E c" and fresh: "ids_fresh E t"
    and inp: "ei_userId inp = u" "ei_type inp = NEW_INCOMING_MESSAGE" "Option.bind (ei_target inp) tg_contactId = Some c"
  shows "mail_jobs (snd (ingest E inp t)) = mail_jobs t"
proof (cases "dedupe_hit inp t")
  case (Some n)
  then show ?thesis by (simp add: ingest_def bind_gets ret_def)
next
  case None
  obtain r t1 where ev: "evaluate E u (ei_workspaceId inp) NEW_INCOMING_MESSAGE (ei_target inp) t = (r, t1)" by fastforce
  have same: "n_jobs t1 = n_jobs t" "n_deliveries t1 = n_deliveries t" "n_seq t \<le> n_seq t1"
    using fr_D [OF fr_evaluate ev, of n_jobs] fr_D [OF fr_evaluate ev, of n_deliveries]
      keeps_result [OF sq_evaluate ev] by (simp_all add: seq_le_def)
  show ?thesis
  proof (cases r)
    case (Inl e)
    with None ev inp same show ?thesis by (simp add: ingest_def bind_gets ingest_new_def bind_fail mail_jobs_def)
  next
    case (Inr ds)
    have "ids_fresh E t1" using fresh same by (auto simp: ids_fresh_def)
    moreover have "\<forall>d \<in> set ds. dc_channel d = EMAIL \<longrightarrow> \<not> dc_shouldSend d"
      using quiet_evaluate [OF q sid c inp(3)] ev Inr by simp
    ultimately obtain n t2 where cr: "notification_create E inp (decorateNotificationMetadata (ei_metadata inp) (ei_type inp)
                (Some (ei_workspaceId inp)) (ei_sourceEntityType inp)) ds t1 = (Inr n, t2)" "n_jobs t2 = n_jobs t1"
      "\<forall>d \<in> set (deliveries_of (nt_id n) t2). nd_channel d = EMAIL \<longrightarrow> nd_status d \<noteq> PENDING"
      by (rule quiet_create)
    have "mail_jobs (snd (announce E inp n t2)) = mail_jobs t2"
      using dispatch_no_mail [OF cr(3), of E]
      by (auto simp: announce_def bind_gets seq_io_def bind_io_def emitToUser_def ret_def gets_def mail_jobs_def split: prod.split sum.split)
    with None ev inp Inr cr same show ?thesis
      by (simp add: ingest_def bind_gets ingest_new_def seq_run mail_jobs_def)
  qed
qed

text \<open>What the worker leaves when the mail server has taken the e-mail.\<close>

lemma history_recorded:
  assumes "ne_uuid_ok E (eh_contactId row)"
  shows "\<exists>t. history_upsert E row (\<lambda>h. h\<lparr>eh_sentAt := now\<rparr>) s = (Inr (), t) \<and> n_activity t = n_activity s
    \<and> already_sent (eh_userId row) (eh_contactId row) (eh_type row) (eh_inactivitySessionId row) t"
proof -
  let ?P = "\<lambda>h. eh_userId h = eh_userId row \<and> eh_contactId h = eh_contactId row \<and> eh_type h = eh_type row
    \<and> eh_inactivitySessionId h = eh_inactivitySessionId row"
  show ?thesis
  proof (cases "find ?P (n_history s)")
    case None
    have "find ?P (n_history s @ [row]) \<noteq> None" by (simp add: find_None_iff) blast
    with None assms show ?thesis by (simp add: history_upsert_def Let_def already_sent_def)
  next
    case (Some h)
    with assms show ?thesis by (simp add: history_upsert_def Let_def already_sent_def find_upd_where)
  qed
qed

lemma delivery_marked:
  assumes "\<exists>d \<in> set (n_deliveries s). nd_notificationId d = i \<and> nd_channel d = ch"
  shows "\<exists>v. markDelivery i ch st er pid s = (Inr (), v)"
proof -
  let ?P = "\<lambda>d. nd_notificationId d = i \<and> nd_channel d = ch"
  obtain x where x: "find ?P (n_deliveries s) = Some x"
    using assms by (cases "find ?P (n_deliveries s)") (auto simp: find_None_iff)
  have run: "seq_io (delivery_update ?P f) m s = m (s\<lparr>n_deliveries := upd_where ?P f (n_deliveries s)\<rparr>)"
    for f and m :: "unit notify"
    using x by (simp add: delivery_update_def update_one_found seq_run)
  show ?thesis unfolding markDelivery_def bind_gets run ret_def by simp
qed

lemma sent_is_quiet:
  assumes n: "find_notification i s = Some n" "nt_userId n = u" "nt_type n = NEW_INCOMING_MESSAGE"
      "js_truthy (nt_workspaceId n)" "metadata_contact E (nt_metadata n) = Some c"
    and c: "c \<noteq> []" "ne_uuid_ok E c" and off: "offline_in u sid s" and sid: "sid \<noteq> []"
    and del: "\<exists>d \<in> set (n_deliveries s). nd_notificationId d = i \<and> nd_channel d = EMAIL"
  obtains s1 where "sendEmail E (Inr mid) i to su b s = (Inr (), s1)" and "mail_quiet u c sid s1"
proof -
  define s2 where "s2 = s\<lparr>n_mails := n_mails s @ [\<lparr>sm_notificationId = i, sm_to = to, sm_title = su, sm_body = b\<rparr>]\<rparr>"
  obtain s3 where mark: "markDelivery i EMAIL SENT None mid s2 = (Inr (), s3)"
    using delivery_marked [of s2 i EMAIL SENT None mid] del by (auto simp: s2_def)
  have s3: "find_notification i s3 = Some n" "n_now s3 = n_now s3" "find_activity u s3 = find_activity u s"
    using keeps_result [OF co_marks(1) mark] n(1)
    by (simp_all add: core_le_def core_def find_notification_def find_activity_def s2_def)
  obtain a where a: "find_activity u s = Some a" "ua_activityStatus a = OFFLINE" "ua_inactivitySessionId a = sid"
    using off by (auto simp: offline_in_def)
  obtain w where w: "nt_workspaceId n = Some w" using n(4) by (rule js_truthyE)
  obtain t where t: "history_upsert E (history_row n w c sid (n_now s3)) (\<lambda>h. h\<lparr>eh_sentAt := n_now s3\<rparr>) s3 = (Inr (), t)"
    "n_activity t = n_activity s3" "already_sent u c NEW_INCOMING_MESSAGE sid t"
    using history_recorded [of E "history_row n w c sid (n_now s3)" "n_now s3" s3] by (auto simp: history_row_def c(2) n)
  have "remember_email E i s3 = (Inr (), t)"
    using s3 n w c(1) a sid t(1) by (simp add: remember_email_def bind_gets Let_def)
  then have "sendEmail E (Inr mid) i to su b s = (Inr (), t)"
    using mark by (simp add: sendEmail_def catch_io_def seq_io_def bind_io_def modify_def s2_def)
  moreover have "mail_quiet u c sid t"
    using t a s3(3) by (auto simp: mail_quiet_def offline_in_def find_activity_def)
  ultimately show thesis by (rule that)
qed

text \<open>
  C11: Once the worker has sent the e-mail for a contact's message to a user who is offline, no further message
  of that contact queues an e-mail to this user, as long as the user does not come back: whatever else the
  module does in between, and however often the user's client reports from the background.
\<close>

theorem one_email_per_absence:
  assumes "find_notification i s = Some n" and "nt_userId n = u" and "nt_type n = NEW_INCOMING_MESSAGE"
    and "js_truthy (nt_workspaceId n)" and "metadata_contact E (nt_metadata n) = Some c" and "c \<noteq> []" and "ne_uuid_ok E c"
    and "offline_in u sid s" and "sid \<noteq> []"
    and "\<exists>d \<in> set (n_deliveries s). nd_notificationId d = i \<and> nd_channel d = EMAIL"
    and "notify_reach E (stays_away u) (snd (sendEmail E (Inr mid) i to su b s)) t" and "ids_fresh E t"
    and "ei_userId inp = u" and "ei_type inp = NEW_INCOMING_MESSAGE" and "Option.bind (ei_target inp) tg_contactId = Some c"
  shows "mail_jobs (snd (ingest E inp t)) = mail_jobs t \<and> offline_in u sid t"
proof -
  obtain s1 where s1: "sendEmail E (Inr mid) i to su b s = (Inr (), s1)" "mail_quiet u c sid s1"
    by (rule sent_is_quiet [OF assms(1-10)])
  have "keep_quiet u c sid s1 t"
    using assms(11) unfolding s1(1) snd_conv by (rule notify_reach_keeps) (auto intro: qu.perform_keeps qu.step_order_axioms)
  with s1(2) have "mail_quiet u c sid t" by (simp add: keep_quiet_def)
  with quiet_ingest [OF this assms(9,6,7,12-15)] show ?thesis by (simp add: mail_quiet_def)
qed

lemma one_email_per_absence_witness:
  "\<exists>t. t = snd (sendEmail notify_sample_env (Inr None) ''n'' ''a'' ''b'' ''c'' away_state)
    \<and> mail_jobs (snd (ingest notify_sample_env sample_input t)) = mail_jobs t \<and> offline_in ''u'' ''session'' t"
proof -
  let ?t = "snd (sendEmail notify_sample_env (Inr None) ''n'' ''a'' ''b'' ''c'' away_state)"
  have ids: "map nd_notificationId (n_deliveries ?t) = [''n'']" by code_simp
  have fresh: "ids_fresh notify_sample_env ?t"
  proof -
    have "nd_notificationId ` set (n_deliveries ?t) = {''n''}"
      unfolding set_map [symmetric] ids by simp
    then have "nd_notificationId d = ''n''" if "d \<in> set (n_deliveries ?t)" for d
      using imageI [OF that, of nd_notificationId] by simp
    then show ?thesis by (simp add: ids_fresh_def notify_sample_env_def)
  qed
  have n: "find_notification ''n'' away_state = Some sample_notification"
    by (simp add: find_notification_def away_state_def sample_notification_def)
  have off: "offline_in ''u'' ''session'' away_state"
    by (simp add: offline_in_def find_activity_def away_state_def sample_away_def)
  have "mail_jobs (snd (ingest notify_sample_env sample_input ?t)) = mail_jobs ?t \<and> offline_in ''u'' ''session'' ?t"
    by (rule one_email_per_absence [OF n _ _ _ _ _ _ off _ _ notify_reach.here fresh])
      (simp_all add: sample_notification_def metadata_contact_def sample_input_def away_state_def sample_delivery_def notify_sample_env_def)
  then show ?thesis by blast
qed

end
