(* ===== verification/Notify_Pages.thy ===== *)
theory Notify_Pages
  imports Notify_Email "HOL-Library.Multiset"
begin

text \<open>
  The user's list, page by page, and the decisions of the rule engine: what a client that follows the
  cursors sees, and which channels can go together.
\<close>

section \<open>Following the cursors\<close>

text \<open>A client that asks for the next page as long as there is a cursor; \<open>k\<close> bounds the number of requests.\<close>

fun pages :: "notify_env \<Rightarrow> string \<Rightarrow> string \<Rightarrow> tab \<Rightarrow> nat \<Rightarrow> nat \<Rightarrow> string option \<Rightarrow> notification list notify" where
  "pages E u w tab limit 0 cursor = ret []"
| "pages E u w tab limit (Suc k) cursor =
     bind_io (listForUser E u w tab limit cursor) (\<lambda>(items, next).
       case next of
         None \<Rightarrow> ret items
       | Some c \<Rightarrow> bind_io (pages E u w tab limit k (Some c)) (\<lambda>rest. ret (items @ rest)))"

definition iso_dates :: "js_runtime \<Rightarrow> bool" where
  "iso_dates R \<longleftrightarrow> (\<forall>t. js_date_parse R (js_date_iso R t) = Fin (of_int t) \<and> js_date_iso R t \<noteq> [])"

definition visible :: "string \<Rightarrow> string \<Rightarrow> tab \<Rightarrow> nstate \<Rightarrow> notification list" where
  "visible u w tab s = filter (\<lambda>n. nt_userId n = u \<and> nt_workspaceId n = Some w \<and> tab_shows tab n) (n_notifications s)"

lemma page_items_filter:
  "page_items u w tab before s = filter (\<lambda>n. case before of None \<Rightarrow> True | Some q \<Rightarrow> of_int (nt_createdAt n) < q)
     (sort_key (\<lambda>n. - nt_createdAt n) (visible u w tab s))"
proof -
  have "filter (\<lambda>n. nt_userId n = u \<and> nt_workspaceId n = Some w \<and> tab_shows tab n
          \<and> (case before of None \<Rightarrow> True | Some q \<Rightarrow> of_int (nt_createdAt n) < q)) (n_notifications s)
      = filter (\<lambda>n. case before of None \<Rightarrow> True | Some q \<Rightarrow> of_int (nt_createdAt n) < q) (visible u w tab s)"
    by (auto simp: visible_def intro!: filter_cong)
  then show ?thesis by (simp add: page_items_def filter_sort)
qed

definition newest_first :: "notification list \<Rightarrow> bool" where
  "newest_first ns \<longleftrightarrow> sorted_wrt (\<lambda>m n. nt_createdAt m > nt_createdAt n) ns"

lemma newest_first_sort:
  assumes "distinct (map nt_createdAt ns)"
  shows "newest_first (sort_key (\<lambda>n. - nt_createdAt n) ns)"
proof -
  let ?S = "sort_key (\<lambda>n. - nt_createdAt n) ns"
  have "sorted (map (\<lambda>n. - nt_createdAt n) ?S)" by simp
  moreover have "distinct (map (\<lambda>n. - nt_createdAt n) ?S)"
    using assms by (auto simp: distinct_map inj_on_def)
  ultimately have "sorted_wrt (<) (map (\<lambda>n. - nt_createdAt n) ?S)"
    by (simp add: strict_sorted_iff)
  then show ?thesis by (simp add: newest_first_def sorted_wrt_map)
qed

lemma newest_first_filter: "newest_first ns \<Longrightarrow> newest_first (filter P ns)"
  by (simp add: newest_first_def sorted_wrt_filter)

text \<open>What is older than the last row of a page is the rest of the list.\<close>

lemma older_than:
  assumes "newest_first ns" and "k < length ns"
  shows "filter (\<lambda>n. nt_createdAt n < nt_createdAt (ns ! k)) ns = drop (Suc k) ns"
proof -
  have split: "ns = take k ns @ ns ! k # drop (Suc k) ns" using assms(2) by (rule id_take_nth_drop)
  have before: "nt_createdAt n > nt_createdAt (ns ! k)" if "n \<in> set (take k ns)" for n
    using assms(1) that unfolding newest_first_def
    by (subst (asm) split) (auto simp: sorted_wrt_append)
  have after: "nt_createdAt n < nt_createdAt (ns ! k)" if "n \<in> set (drop (Suc k) ns)" for n
    using assms(1) that unfolding newest_first_def
    by (subst (asm) split) (auto simp: sorted_wrt_append)
  have "filter (\<lambda>n. nt_createdAt n < nt_createdAt (ns ! k)) (take k ns) = []"
    using before by (force simp: filter_empty_conv)
  moreover have "filter (\<lambda>n. nt_createdAt n < nt_createdAt (ns ! k)) (drop (Suc k) ns) = drop (Suc k) ns"
    using after by (simp add: filter_id_conv)
  ultimately show ?thesis
    by (subst split) simp
qed

lemma pages_from:
  assumes iso: "iso_dates (ne_runtime E)" and pos: "0 < limit" and dist: "distinct (map nt_createdAt (visible u w tab s))"
    and cursor: "cursor = map_option (js_date_iso (ne_runtime E)) since"
    and "length (page_items u w tab (map_option of_int since) s) < k"
  shows "pages E u w tab limit k cursor s = (Inr (page_items u w tab (map_option of_int since) s), s)"
  using assms(4,5)
proof (induction k arbitrary: cursor since)
  case 0
  then show ?case by simp
next
  case (Suc k)
  let ?L = "sort_key (\<lambda>n. - nt_createdAt n) (visible u w tab s)" and ?P = "page_items u w tab (map_option of_int since) s"
  have desc: "newest_first ?P"
    unfolding page_items_filter by (intro newest_first_filter newest_first_sort dist)
  have cur: "(if js_truthy cursor then case js_date_parse (ne_runtime E) (the cursor) of Fin q \<Rightarrow> ret (Some q) | _ \<Rightarrow> throw PrismaValidation
       else ret None) = (ret (map_option of_int since) :: rat option notify)"
    using iso Suc.prems(1) by (cases since) (simp_all add: iso_dates_def)
  have list: "listForUser E u w tab limit cursor s =
      (let items = take (limit + 1) ?P; page = (if length items > limit then take limit items else items)
       in (Inr (page, if length items > limit \<and> page \<noteq> [] then Some (js_date_iso (ne_runtime E) (nt_createdAt (last page))) else None), s))"
    unfolding listForUser_def cur by (simp add: bind_io_def ret_def gets_def Let_def)
  show ?case
  proof (cases "length ?P \<le> limit")
    case True
    with list show ?thesis by (simp add: seq_run ret_def)
  next
    case False
    let ?c = "nt_createdAt (?P ! (limit - 1))"
    have last: "last (take limit ?P) = ?P ! (limit - 1)"
    proof -
      have "take limit ?P \<noteq> []" using False pos by auto
      then show ?thesis using False pos by (simp add: last_conv_nth)
    qed
    have first: "listForUser E u w tab limit cursor s = (Inr (take limit ?P, Some (js_date_iso (ne_runtime E) ?c)), s)"
      using list False pos last by (auto simp: Let_def min_def)
    have inner: "?P ! (limit - 1) \<in> set ?P" using False by simp
    have "page_items u w tab (Some (of_int ?c)) s = filter (\<lambda>n. nt_createdAt n < ?c) ?P"
      using inner by (cases since) (auto simp: page_items_filter intro!: filter_cong)
    also have "\<dots> = drop limit ?P" using older_than [OF desc, of "limit - 1"] False pos by simp
    finally have rest: "page_items u w tab (map_option of_int (Some ?c)) s = drop limit ?P" by simp
    have "pages E u w tab limit k (Some (js_date_iso (ne_runtime E) ?c)) s = (Inr (drop limit ?P), s)"
      using Suc.IH [of "Some (js_date_iso (ne_runtime E) ?c)" "Some ?c"] Suc.prems(2) rest False pos by simp
    with first show ?thesis by (simp add: seq_run ret_def)
  qed
qed

text \<open>
  C36: A client that follows the cursors of the list gets every notification of the tab once, the newest first,
  whatever the page size, with at most one request more than there are notifications; this needs that no two
  of them were created in the same millisecond, and the runtime's dates that read back what they print.
\<close>

theorem pages_complete:
  assumes "iso_dates (ne_runtime E)" and "0 < limit" and "distinct (map nt_createdAt (visible u w tab s))"
    and "length (visible u w tab s) < k"
  shows "\<exists>ns. pages E u w tab limit k None s = (Inr ns, s) \<and> mset ns = mset (visible u w tab s) \<and> newest_first ns"
proof -
  let ?L = "sort_key (\<lambda>n. - nt_createdAt n) (visible u w tab s)"
  have "page_items u w tab (map_option of_int None) s = ?L" by (simp add: page_items_filter)
  with pages_from [OF assms(1-3), of None None k] assms(4) newest_first_sort [OF assms(3)]
  show ?thesis by (intro exI [of _ ?L]) simp
qed

lemma pages_complete_witness:
  "\<exists>ns. pages notify_sample_env ''u'' ''w'' TabNew 1 2 None away_state = (Inr ns, away_state)
    \<and> mset ns = mset (visible ''u'' ''w'' TabNew away_state) \<and> newest_first ns"
proof -
  have "iso_dates (ne_runtime notify_sample_env)"
    by (simp add: iso_dates_def notify_sample_env_def notify_js_def)
  moreover have "visible ''u'' ''w'' TabNew away_state = [sample_notification]"
    by (simp add: visible_def away_state_def sample_notification_def tab_shows_def unread_def)
  ultimately show ?thesis
    using pages_complete [of notify_sample_env 1 "''u''" "''w''" TabNew away_state 2] by simp
qed

end
