(* ===== verification/Notify_Limits.thy ===== *)
theory Notify_Limits
  imports Notify_Pages
begin

text \<open>
  Where the notification module does less than its code and comments suggest, each shown by a run: e-mails
  queued before the first one is sent, an accepted e-mail that is sent again because the bookkeeping after
  it fails, notifications of one millisecond lost between two pages,
  and two requests that create the same notification.
\<close>

text \<open>
  The decision on an e-mail reads the history that the worker writes and not the queue: messages that come in
  before the worker has run each queue an e-mail for the same absence.
\<close>

lemma email_decision_ignores_queue:
  "fst (email_decision E prefs ty u target act (s\<lparr>n_jobs := js\<rparr>)) = fst (email_decision E prefs ty u target act s)"
  by (simp add: email_decision_def Let_def bind_gets ret_def throw_def already_sent_def)

text \<open>
  The worker writes its history row after the mail server has taken the e-mail. A contact identifier in the
  metadata that the column does not take makes this write fail, the delivery is marked as failed and the job is
  tried again: the recipient gets the e-mail once per attempt.
\<close>

definition stray_state :: nstate where
  "stray_state = away_state\<lparr>n_notifications := [sample_notification\<lparr>nt_metadata := JObj [(''contactId'', JNull)]\<rparr>]\<rparr>"

lemma accepted_email_repeated:
  "(case sendEmail notify_sample_env (Inr None) ''n'' ''a'' ''b'' ''c'' stray_state of (r, s1) \<Rightarrow>
      r = Inl PrismaValidation \<and> length (n_mails s1) = 1 \<and> map nd_status (n_deliveries s1) = [FAILED]
      \<and> length (n_mails (snd (sendEmail notify_sample_env (Inr None) ''n'' ''a'' ''b'' ''c'' s1))) = 2) = True"
  by code_simp

text \<open>Notifications created in the same millisecond as the last one of a page are on no page.\<close>

definition tied_state :: nstate where
  "tied_state = notify_empty\<lparr>n_notifications := [sample_notification, sample_notification\<lparr>nt_id := ''n2''\<rparr>]\<rparr>"

lemma pages_lose_ties:
  "map_option (map nt_id) (case pages notify_sample_env ''u'' ''w'' TabNew 1 5 None tied_state of (Inl _, _) \<Rightarrow> None | (Inr ns, _) \<Rightarrow> Some ns)
     = Some [''n'']"
  by code_simp

text \<open>The search for an existing notification and the insert are two statements, and no constraint guards the key.\<close>

lemma evaluate_succeeds:
  assumes "\<And>c. Option.bind target tg_contactId = Some c \<Longrightarrow> ne_uuid_ok E c"
  shows "\<exists>ds t. evaluate E u w ty target s = (Inr ds, t)"
proof -
  obtain prefs s1 where p: "getUserPreferences u w s = (Inr prefs, s1)"
    using getUserPreferences_returns by blast
  obtain act s2 where g: "getEffectiveStatus E u w s1 = (Inr act, s2)"
    using getEffectiveStatus_status [of E u w s1] by (metis surj_pair)
  obtain s3 where h: "hasUserConnection u s2 = (Inr (has_socket u s2), s3)"
    using hasUserConnection_answer [of u s2] by (cases "hasUserConnection u s2") auto
  have "\<exists>d. email_decision E prefs ty u target act s3 = (Inr d, s3)"
    using assms by (auto simp: email_decision_def Let_def bind_gets ret_def elim!: js_truthyE)
  with p g h show ?thesis by (auto simp: evaluate_def seq_run Let_def ret_def)
qed

lemma ingest_new_adds:
  assumes "\<And>c. Option.bind (ei_target inp) tg_contactId = Some c \<Longrightarrow> ne_uuid_ok E c"
  shows "map dedupe_key (n_notifications (snd (ingest_new E inp s)))
    = map dedupe_key (n_notifications s) @ [if js_truthy (ei_dedupeKey inp) then Some (ei_userId inp, the (ei_dedupeKey inp)) else None]"
proof -
  let ?md = "decorateNotificationMetadata (ei_metadata inp) (ei_type inp) (Some (ei_workspaceId inp)) (ei_sourceEntityType inp)"
  obtain ds t where ev: "evaluate E (ei_userId inp) (ei_workspaceId inp) (ei_type inp) (ei_target inp) s = (Inr ds, t)"
    using evaluate_succeeds [of "ei_target inp" E "ei_userId inp" "ei_workspaceId inp" "ei_type inp" s] assms by blast
  have same: "n_notifications t = n_notifications s"
    using fr_D [OF fr_evaluate ev, of n_notifications] by simp
  obtain t2 where cr: "notification_create E inp ?md ds t = (Inr (new_notification inp ?md (n_now t) (ne_uuid E (n_seq t))), t2)"
    "n_notifications t2 = n_notifications t @ [new_notification inp ?md (n_now t) (ne_uuid E (n_seq t))]"
    using create_run [of E inp ?md ds t] by blast
  have "n_notifications (snd (announce E inp n t2)) = n_notifications t2" for n
    using keepsD [OF co_announce [of E inp n], of t2] by (simp add: core_le_def core_def)
  with ev cr same show ?thesis
    by (simp add: ingest_new_def seq_run dedupe_key_def new_notification_def)
qed

lemma concurrent_ingest_duplicates:
  assumes "js_truthy (ei_dedupeKey inp)" and "\<And>c. Option.bind (ei_target inp) tg_contactId = Some c \<Longrightarrow> ne_uuid_ok E c"
  shows "\<not> keys_unique (snd (ingest_new E inp (snd (ingest_new E inp s))))"
proof -
  have "unique_nonnull dedupe_key ns \<longleftrightarrow> unique_nonnull id (map dedupe_key ns)" for ns
    by (simp add: unique_nonnull_def)
  then show ?thesis
    using assms(1) by (simp add: keys_unique_def ingest_new_adds assms(2) unique_nonnull_def)
qed

text \<open>The sounds are decided alike for every type, also for those that \<open>SOUND_EVENT_TYPES\<close> leaves out.\<close>

lemma sound_for_every_type:
  assumes "evaluate E u w ty target s = (Inr ds, t)"
  shows "\<exists>prefs :: preference. \<forall>d \<in> set ds. dc_channel d = SOUND \<longrightarrow>
    (dc_shouldSend d \<longleftrightarrow> has_socket u s \<and> presence_now u w s \<noteq> OFFLINE \<and> matchesSoundScope (np_soundScope prefs) u target)"
proof -
  obtain prefs act mail where m: "email_decision E prefs ty u target act t = (Inr mail, t)"
    and ds: "ds = (let foreground = has_socket u s \<and> presence_now u w s \<noteq> OFFLINE in
           [in_app_decision ty foreground, desktop_decision prefs ty u target foreground,
            push_decision prefs ty u target (presence_now u w s) foreground, mail] @ sound_decisions prefs u target foreground)"
    using evaluate_parts [OF assms] by metis
  show ?thesis
    using ds email_decision_result [OF m]
    by (intro exI [of _ prefs])
      (auto simp: Let_def in_app_decision_def desktop_decision_def push_decision_def sound_decisions_def)
qed

end
