(* ===== verification/Outbound_Validator.thy ===== *)
theory Outbound_Validator
  imports Js_Values
begin

text \<open>
  \<^verbatim>\<open>src/src/modules/outbound/send-validator.ts\<close>: the check before a message is sent, on the channel, the
  contact and the messaging window, and the translation of a provider's error into the error that the
  API returns. Errors of providers are values of any shape, as in the source; an exception of the
  framework is told apart by its class.
\<close>

section \<open>The error\<close>

datatype send_error_code =
    CONTACT_NO_IDENTIFIER | CONTACT_NOT_ON_CHANNEL | CONTACT_CHANNEL_NOT_REACHABLE | CHANNEL_DISCONNECTED
  | CHANNEL_MISSING_CREDENTIAL | WA_INVALID_TOKEN | WA_PHONE_NOT_FOUND | WA_OUTSIDE_WINDOW | WA_TEMPLATE_REQUIRED
  | WA_TEMPLATE_REJECTED | WA_RATE_LIMITED | WA_MEDIA_UPLOAD_FAILED | WA_PERMISSION_DENIED | WA_RECIPIENT_BLOCKED
  | WA_RECIPIENT_NOT_ALLOWED | META_INVALID_TOKEN | META_NO_PAGE_ACCESS | META_USER_NOT_REACHABLE | META_RATE_LIMITED
  | EMAIL_AUTH_FAILED | EMAIL_RECIPIENT_REJECTED | EMAIL_CONNECTION_FAILED | EMPTY_MESSAGE | PROVIDER_ERROR | UNKNOWN

fun code_name :: "send_error_code \<Rightarrow> string" where
  "code_name CONTACT_NO_IDENTIFIER = ''CONTACT_NO_IDENTIFIER''"
| "code_name CONTACT_NOT_ON_CHANNEL = ''CONTACT_NOT_ON_CHANNEL''"
| "code_name CONTACT_CHANNEL_NOT_REACHABLE = ''CONTACT_CHANNEL_NOT_REACHABLE''"
| "code_name CHANNEL_DISCONNECTED = ''CHANNEL_DISCONNECTED''"
| "code_name CHANNEL_MISSING_CREDENTIAL = ''CHANNEL_MISSING_CREDENTIAL''"
| "code_name WA_INVALID_TOKEN = ''WA_INVALID_TOKEN''"
| "code_name WA_PHONE_NOT_FOUND = ''WA_PHONE_NOT_FOUND''"
| "code_name WA_OUTSIDE_WINDOW = ''WA_OUTSIDE_WINDOW''"
| "code_name WA_TEMPLATE_REQUIRED = ''WA_TEMPLATE_REQUIRED''"
| "code_name WA_TEMPLATE_REJECTED = ''WA_TEMPLATE_REJECTED''"
| "code_name WA_RATE_LIMITED = ''WA_RATE_LIMITED''"
| "code_name WA_MEDIA_UPLOAD_FAILED = ''WA_MEDIA_UPLOAD_FAILED''"
| "code_name WA_PERMISSION_DENIED = ''WA_PERMISSION_DENIED''"
| "code_name WA_RECIPIENT_BLOCKED = ''WA_RECIPIENT_BLOCKED''"
| "code_name WA_RECIPIENT_NOT_ALLOWED = ''WA_RECIPIENT_NOT_ALLOWED''"
| "code_name META_INVALID_TOKEN = ''META_INVALID_TOKEN''"
| "code_name META_NO_PAGE_ACCESS = ''META_NO_PAGE_ACCESS''"
| "code_name META_USER_NOT_REACHABLE = ''META_USER_NOT_REACHABLE''"
| "code_name META_RATE_LIMITED = ''META_RATE_LIMITED''"
| "code_name EMAIL_AUTH_FAILED = ''EMAIL_AUTH_FAILED''"
| "code_name EMAIL_RECIPIENT_REJECTED = ''EMAIL_RECIPIENT_REJECTED''"
| "code_name EMAIL_CONNECTION_FAILED = ''EMAIL_CONNECTION_FAILED''"
| "code_name EMPTY_MESSAGE = ''EMPTY_MESSAGE''"
| "code_name PROVIDER_ERROR = ''PROVIDER_ERROR''"
| "code_name UNKNOWN = ''UNKNOWN''"

text \<open>The code of an error that passes through is whatever string the exception had.\<close>

record send_error =
  sd_code :: string
  sd_message :: string
  sd_detail :: jsv
  sd_retryable :: bool

definition refuse :: "send_error_code \<Rightarrow> string \<Rightarrow> send_error" where
  "refuse c m = \<lparr>sd_code = code_name c, sd_message = m, sd_detail = JUndef, sd_retryable = False\<rparr>"

definition channel_label :: "string \<Rightarrow> string" where
  "channel_label t =
     (if t = ''whatsapp'' then ''WhatsApp'' else if t = ''instagram'' then ''Instagram''
      else if t = ''messenger'' then ''Messenger'' else if t = ''email'' then ''Email''
      else if t = ''sms'' then ''SMS'' else t)"

section \<open>Before sending\<close>

datatype window_expiry = NoExpiry | ExpiryString string | ExpiryNumber jsnum | ExpiryBigint int

definition to_ms :: "jsnum \<Rightarrow> jsnum option" where
  "to_ms n = (if \<not> num_finite n then None
     else Some (if num_lt n (Fin 1000000000000) then num_mul n (Fin 1000) else n))"

definition toEpochMs :: "js_runtime \<Rightarrow> window_expiry \<Rightarrow> jsnum option" where
  "toEpochMs R v =
     (case v of
        NoExpiry \<Rightarrow> None
      | ExpiryBigint k \<Rightarrow> to_ms (Fin (of_int k))
      | ExpiryString s \<Rightarrow>
          if number_of_string s = NaN then
            (let parsed = js_date_parse R s in if num_finite parsed then Some parsed else None)
          else to_ms (number_of_string s)
      | ExpiryNumber n \<Rightarrow> to_ms n)"

record contact_channel =
  cc_identifier :: string
  cc_messageWindowExpiry :: window_expiry

record send_opts =
  so_channelType :: string
  so_channelStatus :: string
  so_contactChannel :: "contact_channel option"
  so_contactPhone :: "string option"
  so_contactEmail :: "string option"
  so_hasTemplate :: bool
  so_messageText :: "string option"

definition window_open :: "js_runtime \<Rightarrow> int \<Rightarrow> window_expiry \<Rightarrow> bool" where
  "window_open R now v =
     (case toEpochMs R v of None \<Rightarrow> False | Some ms \<Rightarrow> ms \<noteq> Fin 0 \<and> ms \<noteq> NaN \<and> num_lt (Fin (of_int now)) ms)"

definition validateMessagingWindow :: "js_runtime \<Rightarrow> int \<Rightarrow> string \<Rightarrow> window_expiry \<Rightarrow> bool \<Rightarrow> send_error + unit" where
  "validateMessagingWindow R now channelType expiry hasTemplate =
     (if window_open R now expiry then Inr ()
      else if channelType = ''whatsapp'' then
        (if hasTemplate then Inr ()
         else Inl (refuse WA_TEMPLATE_REQUIRED ''This WhatsApp contact channel is not open for free-form messaging. Send an approved template to message the contact.''))
      else if channelType = ''messenger'' \<or> channelType = ''instagram'' then
        Inl (refuse CONTACT_CHANNEL_NOT_REACHABLE (''This '' @ (if channelType = ''instagram'' then ''Instagram'' else ''Messenger'')
               @ '' contact channel is not open for outbound replies. Wait for the contact to send a new message.''))
      else Inr ())"

definition identifier_of :: "send_opts \<Rightarrow> string option" where
  "identifier_of opts = map_option cc_identifier (so_contactChannel opts)"

definition expiry_of :: "send_opts \<Rightarrow> window_expiry" where
  "expiry_of opts = js_default (map_option cc_messageWindowExpiry (so_contactChannel opts)) NoExpiry"

definition validateContact :: "js_runtime \<Rightarrow> int \<Rightarrow> send_opts \<Rightarrow> send_error + unit" where
  "validateContact R now opts =
     (let t = so_channelType opts; known = js_truthy (identifier_of opts);
          window = validateMessagingWindow R now t (expiry_of opts) (so_hasTemplate opts)
      in if so_channelStatus opts \<noteq> ''connected'' then
           Inl (refuse CHANNEL_DISCONNECTED (''This '' @ channel_label t @ '' channel is disconnected. Reconnect it in Settings before sending.''))
         else if t = ''whatsapp'' then
           (if \<not> known \<and> \<not> js_truthy (so_contactPhone opts)
            then Inl (refuse CONTACT_NO_IDENTIFIER ''This contact has no WhatsApp phone number. Add a phone number to the contact first.'')
            else window)
         else if t = ''instagram'' then
           (if \<not> known then Inl (refuse CONTACT_NOT_ON_CHANNEL ''This contact has never messaged via Instagram. You can only reply to contacts who have messaged you first.'')
            else window)
         else if t = ''messenger'' then
           (if \<not> known then Inl (refuse CONTACT_NOT_ON_CHANNEL ''This contact has no Messenger ID. You can only reply to contacts who have messaged you first on Messenger.'')
            else window)
         else if t = ''email'' then
           (if \<not> known \<and> \<not> js_truthy (so_contactEmail opts)
            then Inl (refuse CONTACT_NO_IDENTIFIER ''This contact has no email address. Add an email address to the contact first.'')
            else Inr ())
         else if t = ''sms'' then
           (if \<not> known \<and> \<not> js_truthy (so_contactPhone opts)
            then Inl (refuse CONTACT_NO_IDENTIFIER ''This contact has no phone number. Add a phone number to the contact first.'')
            else if \<not> js_truthy (map_option js_trim (so_messageText opts)) then Inl (refuse EMPTY_MESSAGE ''SMS text is required.'')
            else Inr ())
         else Inr ())"

text \<open>The check of the stored credentials; the call to it is commented out in the source.\<close>

definition validateCredentials :: "string \<Rightarrow> jsv \<Rightarrow> send_error + unit" where
  "validateCredentials channelType creds =
     (if \<not> v_truthy creds then
        Inl (refuse CHANNEL_MISSING_CREDENTIAL (channel_label channelType @ '' channel has no credentials configured.''))
      else if channelType = ''whatsapp'' \<and> \<not> v_truthy (v_fld creds ''accessToken'') then
        Inl (refuse CHANNEL_MISSING_CREDENTIAL ''WhatsApp access token is missing. Reconnect the channel in Settings.'')
      else if (channelType = ''instagram'' \<or> channelType = ''messenger'') \<and> \<not> v_truthy (v_fld creds ''accessToken'') then
        Inl (refuse CHANNEL_MISSING_CREDENTIAL (channel_label channelType @ '' page access token is missing. Reconnect the channel in Settings.''))
      else Inr ())"

section \<open>Errors of providers\<close>

text \<open>What is thrown: the framework's \<^verbatim>\<open>BadRequestException\<close> with its response body and text, or anything else.\<close>

datatype thrown = BadRequest jsv string | Thrown jsv

fun thrown_value :: "thrown \<Rightarrow> jsv" where
  "thrown_value (BadRequest body text) = JObj [(''response'', body), (''message'', JStr text)]"
| "thrown_value (Thrown v) = v"

fun first_seen :: "string list \<Rightarrow> string list \<Rightarrow> string list" where
  "first_seen seen [] = []"
| "first_seen seen (x # xs) = (if x \<in> set seen then first_seen seen xs else x # first_seen (x # seen) xs)"

definition providerDetail :: "jsv list \<Rightarrow> string" where
  "providerDetail vs =
     js_join '' | '' (first_seen [] (filter (\<lambda>s. s \<noteq> []) (map (\<lambda>v. js_trim (v_str v)) (filter is_str vs))))"

definition reply :: "send_error_code \<Rightarrow> string \<Rightarrow> jsv \<Rightarrow> bool \<Rightarrow> send_error" where
  "reply c m d r = \<lparr>sd_code = code_name c, sd_message = m, sd_detail = d, sd_retryable = r\<rparr>"

definition generic :: "js_runtime \<Rightarrow> jsv \<Rightarrow> jsv \<Rightarrow> send_error" where
  "generic R err detail =
     reply PROVIDER_ERROR ''Message could not be sent. Please try again or contact support.''
       (v_or detail (v_or (v_fld err ''message'') (JStr (js_String R err)))) True"

definition or_detail :: "string \<Rightarrow> string \<Rightarrow> jsv" where
  "or_detail a b = JStr (if a \<noteq> [] then a else b)"

definition is_code :: "jsv \<Rightarrow> int list \<Rightarrow> bool" where
  "is_code v ks = list_ex (\<lambda>k. v_eq v (JInt k)) ks"

definition parseWhatsApp :: "js_runtime \<Rightarrow> jsv \<Rightarrow> send_error" where
  "parseWhatsApp R err =
     (let res = v_fld err ''response''; status = v_fld res ''status''; waError = v_fld (v_fld res ''data'') ''error'';
          code = v_or (v_fld waError ''code'') (v_or (v_fld waError ''error_code'') (JInt 0));
          detail = or_detail
            (providerDetail [v_fld (v_fld waError ''error_data'') ''details'', v_fld waError ''error_user_msg'', v_fld waError ''message''])
            (providerDetail [v_fld err ''message'', v_fld err ''message''])
      in if is_code status [401] \<or> is_code code [190] then
           reply WA_INVALID_TOKEN ''WhatsApp access token is expired or invalid. Reconnect the channel in Settings.'' detail False
         else if is_code code [10, 200, 294] then
           reply WA_PERMISSION_DENIED ''Your WhatsApp Business account does not have permission to send this message. Check your Meta Business Manager permissions.'' detail False
         else if is_code code [131026] then
           reply WA_PHONE_NOT_FOUND ''The recipient's phone number is not registered on WhatsApp.'' detail False
         else if is_code code [131047, 131021] then
           reply WA_OUTSIDE_WINDOW ''The 24-hour messaging window has closed. You must send a pre-approved template message to re-open the conversation.'' detail False
         else if is_code code [132000, 132001] then
           reply WA_TEMPLATE_REJECTED ''The WhatsApp template was rejected or is not approved. Check the template status in Meta Business Manager.'' detail False
         else if is_code code [130429, 131048] \<or> is_code status [429] then
           reply WA_RATE_LIMITED ''WhatsApp rate limit reached. Please wait a moment before sending again.'' detail True
         else if is_code code [131031] then
           reply WA_RECIPIENT_BLOCKED ''The contact has blocked your WhatsApp Business number.'' detail False
         else if is_code code [131030] then
           reply WA_RECIPIENT_NOT_ALLOWED ''This phone number is not in the allowed recipients list for your WhatsApp test number. Add it in Meta or use a live WhatsApp Business number.'' detail False
         else if is_code code [131053, 131052] then
           reply WA_MEDIA_UPLOAD_FAILED ''The media file could not be uploaded to WhatsApp. Check the file size and format.'' detail True
         else generic R err detail)"

definition parseMeta :: "js_runtime \<Rightarrow> jsv \<Rightarrow> string \<Rightarrow> send_error" where
  "parseMeta R err channelType =
     (let res = v_fld err ''response''; status = v_fld res ''status''; fbError = v_fld (v_fld res ''data'') ''error'';
          code = v_or (v_fld fbError ''code'') (JInt 0);
          detail = or_detail
            (providerDetail [v_fld (v_fld fbError ''error_data'') ''details'', v_fld fbError ''error_user_msg'', v_fld fbError ''message''])
            (providerDetail [v_fld err ''message'']);
          label = (if channelType = ''instagram'' then ''Instagram'' else ''Messenger'')
      in if is_code status [401] \<or> is_code code [190] then
           reply META_INVALID_TOKEN (label @ '' page access token is expired. Reconnect the channel in Settings.'') detail False
         else if is_code code [10, 200, 230] then
           reply META_NO_PAGE_ACCESS (''Your '' @ label @ '' Page has not granted messaging permissions. Check your Meta app permissions.'') detail False
         else if is_code code [551, 10900, 2018109] then
           reply META_USER_NOT_REACHABLE (''This contact cannot be reached. They have not sent a message in the last ''
             @ (if channelType = ''instagram'' then ''7 days'' else ''24 hours'') @ ''.'') detail False
         else if is_code code [32, 613] \<or> is_code status [429] then
           reply META_RATE_LIMITED (label @ '' rate limit reached. Please wait a moment before sending again.'') detail True
         else generic R err detail)"

definition email_error :: "js_runtime \<Rightarrow> jsv \<Rightarrow> jsv \<Rightarrow> jsv \<Rightarrow> send_error" where
  "email_error R err message responseCode =
     (let has = (\<lambda>t. v_includes message (JStr t)) in
      if has ''Invalid login'' \<or> has ''Authentication failed'' \<or> has ''Username and Password not accepted'' \<or> is_code responseCode [535] then
        reply EMAIL_AUTH_FAILED ''SMTP authentication failed. Check the email username and password in channel settings.'' message False
      else if has ''Recipient address rejected'' \<or> has ''User unknown'' \<or> is_code responseCode [550, 551] then
        reply EMAIL_RECIPIENT_REJECTED ''The recipient email address was rejected by the mail server. Check the contact's email address.'' message False
      else if has ''ECONNREFUSED'' \<or> has ''ETIMEDOUT'' \<or> has ''ENOTFOUND'' then
        reply EMAIL_CONNECTION_FAILED ''Could not connect to the SMTP server. Check the server address and port in channel settings.'' message True
      else generic R err message)"

text \<open>A message that is neither a string nor an array has no \<^verbatim>\<open>includes\<close>.\<close>

definition parseEmail :: "js_runtime \<Rightarrow> jsv \<Rightarrow> exn + send_error" where
  "parseEmail R err =
     (let message = v_or (v_fld err ''message'') (JStr []) in
      if \<not> is_str message \<and> \<not> is_arr message then Inl (TypeErrorException ''message.includes is not a function'')
      else Inr (email_error R err message (v_or (v_fld err ''responseCode'') (JInt 0))))"

definition parse_error :: "js_runtime \<Rightarrow> jsv \<Rightarrow> string \<Rightarrow> exn + send_error" where
  "parse_error R err channelType =
     (if channelType = ''whatsapp'' then Inr (parseWhatsApp R err)
      else if channelType = ''instagram'' \<or> channelType = ''messenger'' then Inr (parseMeta R err channelType)
      else if channelType = ''email'' then parseEmail R err
      else Inr (generic R err JUndef))"

definition body_message :: "js_runtime \<Rightarrow> jsv \<Rightarrow> jsv" where
  "body_message R body =
     (case v_fld body ''message'' of
        JArr xs \<Rightarrow> JStr (js_join '', '' (map (\<lambda>x. if v_nullish x then [] else js_String R x) xs))
      | m \<Rightarrow> m)"

definition toSendError :: "js_runtime \<Rightarrow> thrown \<Rightarrow> string \<Rightarrow> exn + send_error" where
  "toSendError R err channelType =
     (case err of
        BadRequest body text \<Rightarrow>
          if isRecord body \<and> nonempty_str (body_message R body) then
            Inr \<lparr>sd_code = (if is_str (v_fld body ''code'') then v_str (v_fld body ''code'') else code_name UNKNOWN),
                 sd_message = v_str (body_message R body),
                 sd_detail = (if is_str (v_fld body ''detail'') then v_fld body ''detail'' else JUndef),
                 sd_retryable = (v_fld body ''retryable'' = JBool True)\<rparr>
          else if nonempty_str body then
            Inr \<lparr>sd_code = code_name UNKNOWN, sd_message = v_str body, sd_detail = JUndef, sd_retryable = False\<rparr>
          else parse_error R (thrown_value err) channelType
      | Thrown v \<Rightarrow> parse_error R v channelType)"

text \<open>The body of the exception that carries an error, as the validator and \<^verbatim>\<open>normalise\<close> throw it.\<close>

definition error_body :: "send_error \<Rightarrow> jsv" where
  "error_body e = JObj ([(''code'', JStr (sd_code e)), (''message'', JStr (sd_message e))]
     @ (if sd_detail e = JUndef then [] else [(''detail'', sd_detail e)]) @ [(''retryable'', JBool (sd_retryable e))])"

definition normalise :: "js_runtime \<Rightarrow> thrown \<Rightarrow> string \<Rightarrow> exn + jsv" where
  "normalise R err channelType = (case toSendError R err channelType of Inl e \<Rightarrow> Inl e | Inr e \<Rightarrow> Inr (error_body e))"

section \<open>What is promised\<close>

text \<open>Who may be written to, as a table over the channel types.\<close>

definition reachable_contact :: "send_opts \<Rightarrow> bool" where
  "reachable_contact opts =
     (let t = so_channelType opts; known = js_truthy (identifier_of opts) in
      if t = ''whatsapp'' \<or> t = ''sms'' then known \<or> js_truthy (so_contactPhone opts)
      else if t = ''email'' then known \<or> js_truthy (so_contactEmail opts)
      else if t = ''instagram'' \<or> t = ''messenger'' then known
      else True)"

definition may_send :: "js_runtime \<Rightarrow> int \<Rightarrow> send_opts \<Rightarrow> bool" where
  "may_send R now opts =
     (let t = so_channelType opts; open_now = window_open R now (expiry_of opts) in
      so_channelStatus opts = ''connected'' \<and> reachable_contact opts
      \<and> (t = ''whatsapp'' \<longrightarrow> open_now \<or> so_hasTemplate opts)
      \<and> (t = ''instagram'' \<or> t = ''messenger'' \<longrightarrow> open_now)
      \<and> (t = ''sms'' \<longrightarrow> (\<exists>text. so_messageText opts = Some text \<and> js_trim text \<noteq> [])))"


lemma js_trim_nonblank:
  assumes "c \<in> set s" and "\<not> js_space c"
  shows "js_trim s \<noteq> []"
proof -
  have drop: "c \<in> set (dropWhile js_space xs)" if "c \<in> set xs" for xs
    using that assms(2) by (induction xs) auto
  have "c \<in> set (dropWhile js_space s)" by (rule drop) (rule assms(1))
  with assms(2) show ?thesis by (auto simp: js_trim_def)
qed

definition plain_error :: "send_error \<Rightarrow> bool" where
  "plain_error e \<longleftrightarrow> js_trim (sd_message e) \<noteq> [] \<and> (sd_detail e = JUndef \<or> is_str (sd_detail e))"

lemma plain_passes:
  assumes "plain_error e"
  shows "toSendError R (BadRequest (error_body e) text) ch = Inr e"
proof -
  have fields: "v_fld (error_body e) ''code'' = JStr (sd_code e)" "v_fld (error_body e) ''message'' = JStr (sd_message e)"
    "v_fld (error_body e) ''detail'' = sd_detail e" "v_fld (error_body e) ''retryable'' = JBool (sd_retryable e)"
    by (simp_all add: error_body_def v_fld_def o_get_def)
  have "isRecord (error_body e)" by (simp add: error_body_def isRecord_def)
  with fields assms show ?thesis
    by (auto simp: toSendError_def body_message_def plain_error_def nonempty_str_def is_str_def v_str_def)
qed

lemma refuse_plain: "\<exists>c \<in> set m. \<not> js_space c \<Longrightarrow> plain_error (refuse k m)"
  by (auto simp: plain_error_def refuse_def dest: js_trim_nonblank)

lemma validator_plain: "validateContact R now opts = Inl e \<Longrightarrow> plain_error e"
  by (auto simp: validateContact_def validateMessagingWindow_def Let_def js_space_def split: if_splits
      intro!: refuse_plain)

definition speaks :: "send_error \<Rightarrow> bool" where
  "speaks e \<longleftrightarrow> js_trim (sd_message e) \<noteq> []"

lemma speaks_if: "speaks x \<Longrightarrow> speaks y \<Longrightarrow> speaks (if b then x else y)"
  by simp

lemma speaks_reply: "\<not> js_space c \<Longrightarrow> speaks (reply k (c # m) d r)"
  using js_trim_nonblank [of c "c # m"] by (simp add: speaks_def reply_def)

lemma speaks_label: "speaks (reply k ((if b then ''Instagram'' else ''Messenger'') @ m) d r)"
  using js_trim_nonblank [of "CHR ''s''" "(if b then ''Instagram'' else ''Messenger'') @ m"]
  by (simp add: speaks_def reply_def js_space_def)

lemma speaks_generic: "speaks (generic R err d)"
  unfolding generic_def by (rule speaks_reply) (simp add: js_space_def)

lemmas speaks_intros = speaks_if speaks_label speaks_reply speaks_generic

lemma speaks_parsed: "speaks (parseWhatsApp R err)" "speaks (parseMeta R err ch)"
  unfolding parseWhatsApp_def parseMeta_def Let_def append.simps
  by (intro speaks_intros; simp add: js_space_def)+

lemma speaks_email: "parseEmail R err = Inr e \<Longrightarrow> speaks e"
proof -
  have "speaks (email_error R err m c)" for m c
    unfolding email_error_def Let_def by (intro speaks_intros; simp add: js_space_def)
  then show "parseEmail R err = Inr e \<Longrightarrow> speaks e"
    by (auto simp: parseEmail_def Let_def split: if_splits)
qed

lemma translated_message:
  assumes "toSendError R err ch = Inr e"
  shows "js_trim (sd_message e) \<noteq> []"
proof -
  have parsed: "speaks e" if "parse_error R v ch = Inr e" for v
    using that speaks_parsed speaks_email [of R v e] speaks_generic by (auto simp: parse_error_def split: if_splits)
  show ?thesis
  proof (cases err)
    case (Thrown v)
    with assms parsed show ?thesis by (simp add: toSendError_def speaks_def)
  next
    case (BadRequest body tx)
    consider "isRecord body \<and> nonempty_str (body_message R body)" | "\<not> (isRecord body \<and> nonempty_str (body_message R body))" "nonempty_str body"
      | "\<not> (isRecord body \<and> nonempty_str (body_message R body))" "\<not> nonempty_str body"
      by blast
    then show ?thesis
    proof cases
      case 1
      with BadRequest assms show ?thesis by (auto simp: toSendError_def nonempty_str_def v_str_def split: jsv.splits)
    next
      case 2
      with BadRequest assms show ?thesis by (auto simp: toSendError_def nonempty_str_def v_str_def split: jsv.splits)
    next
      case 3
      with BadRequest assms parsed show ?thesis by (simp add: toSendError_def speaks_def)
    qed
  qed
qed


definition retry_codes :: "send_error_code list" where
  "retry_codes = [WA_RATE_LIMITED, WA_MEDIA_UPLOAD_FAILED, META_RATE_LIMITED, EMAIL_CONNECTION_FAILED, PROVIDER_ERROR]"

lemma reply_retry: "sd_retryable (reply c m d r) = r" "sd_code (reply c m d r) = code_name c"
  by (simp_all add: reply_def)

lemma parsed_retry:
  "sd_retryable (parseWhatsApp R err) \<longleftrightarrow> sd_code (parseWhatsApp R err) \<in> code_name ` set retry_codes"
  "sd_retryable (parseMeta R err ch) \<longleftrightarrow> sd_code (parseMeta R err ch) \<in> code_name ` set retry_codes"
  "parseEmail R err = Inr e \<Longrightarrow> sd_retryable e \<longleftrightarrow> sd_code e \<in> code_name ` set retry_codes"
  unfolding parseWhatsApp_def parseMeta_def parseEmail_def email_error_def Let_def generic_def
  by (auto split: if_splits simp: reply_retry retry_codes_def)

text \<open>
  C38: What a provider throws is translated, for any shape of it, into an error that has a message, and that
  is marked as worth a retry exactly for rate limits, failed uploads of media, an unreachable mail server and
  errors that are not known. Only an e-mail error whose message is neither a text nor a list makes the
  translation itself fail.
\<close>

theorem provider_errors_translated:
  "case toSendError R (Thrown v) ch of
     Inr e \<Rightarrow> js_trim (sd_message e) \<noteq> [] \<and> (sd_retryable e \<longleftrightarrow> sd_code e \<in> code_name ` set retry_codes)
   | Inl _ \<Rightarrow> ch = ''email'' \<and> \<not> v_nullish (v_fld v ''message'') \<and> \<not> is_str (v_fld v ''message'') \<and> \<not> is_arr (v_fld v ''message'')"
proof (cases "toSendError R (Thrown v) ch")
  case (Inr e)
  then have "sd_retryable e \<longleftrightarrow> sd_code e \<in> code_name ` set retry_codes"
    by (auto simp: toSendError_def parse_error_def parsed_retry split: if_splits)
      (simp_all add: generic_def reply_retry retry_codes_def)
  with Inr translated_message [OF Inr] show ?thesis by simp
next
  case (Inl x)
  then show ?thesis
    by (auto simp: toSendError_def parse_error_def parseEmail_def Let_def v_or_def v_nullish_def is_str_def split: if_splits)
qed

text \<open>
  The details of a thrown string are lost: the empty details of the WhatsApp parser are not null, so the
  fall-back to the text of the error does not apply.
\<close>

lemma thrown_text_lost: "sd_detail (parseWhatsApp R (JStr ''boom'')) = JStr []"
  by (simp add: parseWhatsApp_def Let_def v_fld_def v_or_def v_nullish_def is_code_def v_eq_def providerDetail_def is_str_def
      or_detail_def generic_def reply_def)

end
