(* ===== verification/Activity_Log.thy ===== *)
theory Activity_Log
  imports Js_Values
begin

text \<open>
  \<^verbatim>\<open>src/src/modules/activity/activity.service.ts\<close>: the rows of a conversation's history, their text for
  the reader and the timeline that merges them with the messages. The users and the teams that a row
  refers to come with it, as the queries include them. The metadata of a row is a value of any shape; a
  text or a channel type in it is a string, as the types of the callers say. The ellipsis is an argument:
  it is outside of the range of characters of the model.
\<close>

section \<open>Rows\<close>

record person =
  pn_id :: string
  pn_firstName :: "string option"
  pn_lastName :: "string option"
  pn_avatarUrl :: "string option"

record activity_row =
  ay_id :: string
  ay_workspaceId :: string
  ay_conversationId :: string
  ay_eventType :: string
  ay_actorId :: "string option"
  ay_actorType :: string
  ay_subjectUserId :: "string option"
  ay_subjectTeamId :: "string option"
  ay_metadata :: jsv
  ay_createdAt :: int

record activity_dto =
  ad_workspaceId :: string
  ad_conversationId :: string
  ad_eventType :: string
  ad_actorId :: "string option"
  ad_actorType :: "string option"
  ad_subjectUserId :: "string option"
  ad_subjectTeamId :: "string option"
  ad_metadata :: jsv

text \<open>The row that \<^verbatim>\<open>record\<close> inserts, with the generated identifier and the time of the insert.\<close>

definition activity_of :: "string \<Rightarrow> int \<Rightarrow> activity_dto \<Rightarrow> activity_row" where
  "activity_of i t d =
     \<lparr>ay_id = i, ay_workspaceId = ad_workspaceId d, ay_conversationId = ad_conversationId d,
      ay_eventType = ad_eventType d, ay_actorId = ad_actorId d,
      ay_actorType = js_default (ad_actorType d) (if js_truthy (ad_actorId d) then ''user'' else ''system''),
      ay_subjectUserId = ad_subjectUserId d, ay_subjectTeamId = ad_subjectTeamId d,
      ay_metadata = (if v_truthy (ad_metadata d) then ad_metadata d else JNull), ay_createdAt = t\<rparr>"

section \<open>The text of an event\<close>

definition person_name :: "person \<Rightarrow> string" where
  "person_name p = js_trim (js_default (pn_firstName p) [] @ '' '' @ js_default (pn_lastName p) [])"

text \<open>\<^verbatim>\<open>${v ?? 'literal'}\<close>\<close>

definition v_text_or :: "js_runtime \<Rightarrow> jsv \<Rightarrow> string \<Rightarrow> string" where
  "v_text_or R v d = (if v_nullish v then d else js_String R v)"

definition note_preview :: "js_runtime \<Rightarrow> string \<Rightarrow> jsv \<Rightarrow> string" where
  "note_preview R ellipsis v =
     (case v of JStr s \<Rightarrow> if length s > 60 then take 60 s @ ellipsis else s
      | _ \<Rightarrow> if v_truthy v then js_String R v else [])"

definition capital :: "string \<Rightarrow> string" where
  "capital s = js_upper (take 1 s) @ drop 1 s"

definition channel_name :: "js_runtime \<Rightarrow> jsv \<Rightarrow> string" where
  "channel_name R v = (if v_truthy v then capital (js_String R v) else ''Channel'')"

definition describe :: "js_runtime \<Rightarrow> string \<Rightarrow> string \<Rightarrow> person option \<Rightarrow> jsv \<Rightarrow> string" where
  "describe R ellipsis eventType actorRow meta =
     (let actor = map_option person_name actorRow;
          suffix = (if js_truthy actor then '' by '' @ the actor else []);
          fld = v_fld meta
      in if eventType = ''open'' then (if js_truthy actor then ''Conversation opened'' @ suffix else ''Conversation opened'')
      else if eventType = ''close'' then (if js_truthy actor then ''Conversation closed'' @ suffix else ''Conversation closed'')
      else if eventType = ''reopen'' then (if js_truthy actor then ''Conversation reopened'' @ suffix else ''Conversation reopened'')
      else if eventType = ''pending'' then (if js_truthy actor then ''Conversation set to pending'' @ suffix else ''Conversation set to pending'')
      else if eventType = ''assign_user'' then
        (if \<not> v_truthy (fld ''previousUserId'') then ''Assigned to '' @ v_text_or R (fld ''newUserName'') ''someone'' @ suffix
         else ''Reassigned from '' @ v_text_or R (fld ''previousUserName'') ''previous agent'' @ '' to ''
                @ v_text_or R (fld ''newUserName'') ''new agent'' @ suffix)
      else if eventType = ''unassign_user'' then v_text_or R (fld ''previousUserName'') ''Agent'' @ '' was unassigned'' @ suffix
      else if eventType = ''assign_team'' then
        (if \<not> v_truthy (fld ''previousTeamId'') then ''Assigned to team '' @ v_text_or R (fld ''newTeamName'') ''Unknown'' @ suffix
         else ''Team changed from '' @ js_String R (fld ''previousTeamName'') @ '' to '' @ js_String R (fld ''newTeamName'') @ suffix)
      else if eventType = ''unassign_team'' then ''Team '' @ v_text_or R (fld ''previousTeamName'') ''Unknown'' @ '' was unassigned'' @ suffix
      else if eventType = ''merge_contact'' then
        ''Contact '' @ v_text_or R (fld ''mergedContactName'') ''Unknown''
          @ (if v_truthy (fld ''mergedContactId'') then '' (#'' @ js_String R (fld ''mergedContactId'') @ '')'' else [])
          @ '' merged into '' @ v_text_or R (fld ''survivorContactName'') ''Unknown''
          @ (if v_truthy (fld ''survivorContactId'') then '' (#'' @ js_String R (fld ''survivorContactId'') @ '')'' else []) @ suffix
      else if eventType = ''channel_added'' then
        channel_name R (fld ''channelType'') @ '' ('' @ v_text_or R (fld ''identifier'') [] @ '') added to contact'' @ suffix
      else if eventType = ''note'' then
        (let preview = note_preview R ellipsis (fld ''text'')
         in if js_truthy actor then the actor @ '' left a note'' @ (if preview \<noteq> [] then '': '' @ preview else [])
            else ''Internal note added'')
      else if eventType = ''label_added'' then ''Label \"'' @ v_text_or R (fld ''labelName'') [] @ ''\" added'' @ suffix
      else if eventType = ''label_removed'' then ''Label \"'' @ v_text_or R (fld ''labelName'') [] @ ''\" removed'' @ suffix
      else if eventType = ''priority_changed'' then
        ''Priority changed from '' @ v_text_or R (fld ''previousPriority'') ''normal'' @ '' to '' @ v_text_or R (fld ''newPriority'') ''normal'' @ suffix
      else if eventType = ''sla_breached'' then ''SLA breached: '' @ v_text_or R (fld ''slaPolicy'') ''policy''
      else if eventType = ''workflow_started'' then ''Workflow '' @ v_text_or R (fld ''workflowName'') ''Automation'' @ '' started''
      else if eventType = ''workflow_ended'' then ''Workflow '' @ v_text_or R (fld ''workflowName'') ''Automation'' @ '' ended''
      else if eventType = ''workflow_failed'' then ''Workflow '' @ v_text_or R (fld ''workflowName'') ''Automation'' @ '' failed''
      else map (\<lambda>c. if c = CHR ''_'' then CHR '' '' else c) eventType)"

section \<open>The response\<close>

record activity_actor =
  aa_id :: string
  aa_name :: string
  aa_avatarUrl :: "string option"
  aa_type :: string

record activity_response =
  ar_id :: string
  ar_conversationId :: string
  ar_eventType :: string
  ar_actorType :: string
  ar_actor :: "activity_actor option"
  ar_subjectUser :: "(string \<times> string \<times> string option) option"
  ar_subjectTeam :: "(string \<times> string) option"
  ar_metadata :: jsv
  ar_createdAt :: string
  ar_description :: string

text \<open>The names that the queries join to a row: the users by identifier and the names of the teams.\<close>

record directory =
  dr_user :: "string \<Rightarrow> person option"
  dr_team :: "string \<Rightarrow> string option"

definition joined :: "('k \<Rightarrow> 'v option) \<Rightarrow> 'k option \<Rightarrow> 'v option" where
  "joined f k = (case k of None \<Rightarrow> None | Some i \<Rightarrow> f i)"

definition toResponse :: "js_runtime \<Rightarrow> string \<Rightarrow> directory \<Rightarrow> activity_row \<Rightarrow> activity_response" where
  "toResponse R ellipsis D row =
     (let actor = joined (dr_user D) (ay_actorId row)
      in \<lparr>ar_id = ay_id row, ar_conversationId = ay_conversationId row, ar_eventType = ay_eventType row,
          ar_actorType = ay_actorType row,
          ar_actor = map_option (\<lambda>p. \<lparr>aa_id = pn_id p, aa_name = person_name p, aa_avatarUrl = pn_avatarUrl p, aa_type = ay_actorType row\<rparr>) actor,
          ar_subjectUser = map_option (\<lambda>p. (pn_id p, person_name p, pn_avatarUrl p)) (joined (dr_user D) (ay_subjectUserId row)),
          ar_subjectTeam = (case ay_subjectTeamId row of None \<Rightarrow> None | Some i \<Rightarrow> map_option (\<lambda>n. (i, n)) (dr_team D i)),
          ar_metadata = ay_metadata row, ar_createdAt = js_date_iso R (ay_createdAt row),
          ar_description = describe R ellipsis (ay_eventType row) actor (ay_metadata row)\<rparr>)"

section \<open>The timeline\<close>

definition findByConversation :: "js_runtime \<Rightarrow> string \<Rightarrow> directory \<Rightarrow> activity_row list \<Rightarrow> string \<Rightarrow> activity_response list" where
  "findByConversation R ellipsis D rows conversationId =
     map (toResponse R ellipsis D) (sort_key ay_createdAt (filter (\<lambda>r. ay_conversationId r = conversationId) rows))"

text \<open>
  A message is what the timeline reads of it. An item is sorted by the time that its timestamp stands for:
  the runtime's ISO text of a date denotes this date.
\<close>

record timeline_message =
  tm_id :: string
  tm_conversationId :: string
  tm_sentAt :: "int option"
  tm_createdAt :: int

datatype timeline_item = MessageItem timeline_message | ActivityItem activity_row

fun item_time :: "timeline_item \<Rightarrow> int" where
  "item_time (MessageItem m) = js_default (tm_sentAt m) (tm_createdAt m)"
| "item_time (ActivityItem a) = ay_createdAt a"

definition getTimeline :: "timeline_message list \<Rightarrow> activity_row list \<Rightarrow> string \<Rightarrow> timeline_item list" where
  "getTimeline messages rows conversationId =
     sort_key item_time
       (map MessageItem (sort_key tm_createdAt (filter (\<lambda>m. tm_conversationId m = conversationId) messages))
        @ map ActivityItem (sort_key ay_createdAt (filter (\<lambda>r. ay_conversationId r = conversationId) rows)))"

lemma timeline_sorted: "sorted (map item_time (getTimeline ms rows c))"
  by (simp add: getTimeline_def)

lemma timeline_items:
  "set (getTimeline ms rows c) =
     MessageItem ` {m \<in> set ms. tm_conversationId m = c} \<union> ActivityItem ` {r \<in> set rows. ay_conversationId r = c}"
  by (simp add: getTimeline_def)


text \<open>Items of the same moment stay in the order of the queries: the messages come before the events.\<close>

lemma timeline_ties:
  "filter (\<lambda>i. item_time i = t) (getTimeline ms rows c) =
     filter (\<lambda>i. item_time i = t)
       (map MessageItem (sort_key tm_createdAt (filter (\<lambda>m. tm_conversationId m = c) ms))
        @ map ActivityItem (sort_key ay_createdAt (filter (\<lambda>r. ay_conversationId r = c) rows)))"
  unfolding getTimeline_def by (rule sort_key_stable)

text \<open>An event of a user always names the user; a note shows at most sixty characters of its text.\<close>

lemma note_preview_bound: "length (note_preview R e (JStr s)) \<le> 60 + length e"
  by (simp add: note_preview_def)

lemma describe_note:
  assumes "person_name p \<noteq> []" and "length s \<le> 60" and "s \<noteq> []"
  shows "describe R e ''note'' (Some p) (JObj [(''text'', JStr s)]) = person_name p @ '' left a note: '' @ s"
  using assms by (simp add: describe_def note_preview_def)

end
