(* ===== verification/Contact_Model.thy ===== *)
theory Contact_Model
  imports Activity_Log
begin

text \<open>
  The rows of the contacts module (\<^verbatim>\<open>src/prisma/schema.prisma\<close>), its normalisers
  (\<^verbatim>\<open>contacts.service.ts\<close>, \<^verbatim>\<open>contact-identifier.util.ts\<close>, \<^verbatim>\<open>static-contact-avatar.ts\<close>), its inputs and the
  state. A foreign key is a failing write; a cascade is part of the deletion that causes it. The tables of
  integrations, commerce, broadcasts and unsubscribe tokens, which the module does not touch, are left out.
  Case mapping, white space and digits are those of the prelude's characters; an insensitive comparison of
  the database compares lower-case texts.
\<close>

section \<open>Rows\<close>

record contact =
  kt_id :: string
  kt_workspaceId :: string
  kt_firstName :: string
  kt_lastName :: "string option"
  kt_email :: "string option"
  kt_phone :: "string option"
  kt_company :: "string option"
  kt_avatarUrl :: "string option"
  kt_lifecycleId :: "string option"
  kt_status :: "string option"
  kt_marketingOptOut :: bool
  kt_mergedIntoContactId :: "string option"
  kt_mergedAt :: "int option"
  kt_mergedByUserId :: "string option"
  kt_assigneeId :: "string option"
  kt_teamId :: "string option"
  kt_createdAt :: int
  kt_updatedAt :: int

record contact_tag =
  xt_contactId :: string
  xt_tagId :: string

record contact_address =
  kc_id :: string
  kc_workspaceId :: string
  kc_contactId :: string
  kc_channelId :: string
  kc_channelType :: string
  kc_identifier :: string

record conversation =
  kv_id :: string
  kv_workspaceId :: string
  kv_contactId :: string
  kv_subject :: "string option"
  kv_lastMessageId :: "string option"
  kv_lastMessageAt :: "int option"
  kv_lastIncomingAt :: "int option"
  kv_unreadCount :: int
  kv_slaDueAt :: "int option"
  kv_slaBreached :: bool
  kv_priority :: string
  kv_firstResponseAt :: "int option"
  kv_resolvedAt :: "int option"
  kv_createdAt :: int

record chat_message =
  km_id :: string
  km_conversationId :: string
  km_direction :: string
  km_createdAt :: int

record contact_run =
  kr_id :: string
  kr_workspaceId :: string
  kr_contactId :: string

record mail_history =
  kh_id :: string
  kh_userId :: string
  kh_workspaceId :: string
  kh_contactId :: "string option"
  kh_type :: string
  kh_inactivitySessionId :: string

record tag_row =
  xg_id :: string
  xg_workspaceId :: string
  xg_name :: string

record lifecycle_row =
  lc_id :: string
  lc_workspaceId :: string
  lc_name :: string

record team_row =
  te_id :: string
  te_workspaceId :: string

record team_member =
  tb_teamId :: string
  tb_userId :: string

record agent_row =
  kw_workspaceId :: string
  kw_userId :: string
  kw_role :: string
  kw_status :: string
  kw_availability :: string

section \<open>Inputs\<close>

text \<open>
  A field of a request that may be absent: \<open>None\<close> is \<^verbatim>\<open>undefined\<close>, and the value of a nullable field is
  itself optional.
\<close>

record contact_dto =
  kd_firstName :: "string option"
  kd_lastName :: "string option option"
  kd_email :: "string option option"
  kd_phone :: "string option option"
  kd_company :: "string option option"
  kd_avatarUrl :: "string option option"
  kd_lifecycleId :: "string option option"
  kd_marketingOptOut :: "bool option"

record assign_dto =
  as_assigneeId :: "string option option"
  as_teamId :: "string option option"

record merge_resolution =
  mr_firstName :: "string option"
  mr_lastName :: "string option"
  mr_email :: "string option"
  mr_phone :: "string option"
  mr_company :: "string option"
  mr_lifecycleId :: "string option"
  mr_marketingOptOut :: bool
  mr_tags :: "string list"

text \<open>A resolution of a request: an absent field leaves the suggestion.\<close>

record resolution_dto =
  rd_firstName :: "string option option"
  rd_lastName :: "string option option"
  rd_email :: "string option option"
  rd_phone :: "string option option"
  rd_company :: "string option option"
  rd_lifecycleId :: "string option option"
  rd_marketingOptOut :: "bool option"
  rd_tags :: "string list option"

record merge_dto =
  md_secondaryContactId :: string
  md_source :: "string option"
  md_reasonCodes :: "string list option"
  md_confidenceScore :: "int option"
  md_resolution :: "resolution_dto option"

record merge_impact =
  im_conversationsToMove :: nat
  im_channelsToMove :: nat
  im_workflowRunsToMove :: nat
  im_notificationHistoryToMove :: nat

record merge_run =
  mg_id :: string
  mg_workspaceId :: string
  mg_primaryContactId :: string
  mg_secondaryContactId :: string
  mg_source :: string
  mg_confidenceScore :: int
  mg_reasonCodes :: "string list"
  mg_resolution :: merge_resolution
  mg_impact :: merge_impact
  mg_survivorConversationId :: "string option"
  mg_mergedConversationIds :: "string list"
  mg_executedByUserId :: "string option"

record contact_response =
  cr_contact :: contact
  cr_channels :: "contact_address list"
  cr_tags :: "string list"
  cr_tagIds :: "string list"
  cr_lifecycleStage :: "string option"

datatype contact_event =
    ContactCreated string string contact_response
  | ContactUpdated string contact_response
  | ContactTags string string "string list" "string list"
  | ContactAssigned string string "string option" "string option"
  | KLifecycleUpdated string string "string option"
  | KTagUpdated string string string string "string list"
  | KFieldUpdated string string contact_dto
  | KConversationClosed string string
  | KConversationOpened string string string
  | ContactMerged string string string string "string option" "string list"
  | ConversationUpdated conversation
  | ActivityUpsert string string activity_row

section \<open>State\<close>

record kstate =
  k_now :: int
  k_seq :: nat
  k_contacts :: "contact list"
  k_contactTags :: "contact_tag list"
  k_channels :: "contact_address list"
  k_convs :: "conversation list"
  k_messages :: "chat_message list"
  k_activities :: "activity_row list"
  k_runs :: "contact_run list"
  k_history :: "mail_history list"
  k_mergeRuns :: "merge_run list"
  k_tags :: "tag_row list"
  k_lifecycles :: "lifecycle_row list"
  k_teams :: "team_row list"
  k_teamMembers :: "team_member list"
  k_members :: "agent_row list"
  k_events :: "contact_event list"

type_synonym 'a contacts = "(kstate, 'a) io"

text \<open>
  The environment: the identifiers that the database generates, the setting \<^verbatim>\<open>R2_PUBLIC_URL\<close>, the numbers
  that \<^verbatim>\<open>randomInt\<close> draws, and the order of the database for a list of sort keys.
\<close>

datatype sort_field = ByFirstName | ByLastName | ByEmail | ByPhone | ByLifecycle | ByCreatedAt | ById

record contact_env =
  ke_uuid :: "nat \<Rightarrow> string"
  ke_publicUrl :: "string option"
  ke_random :: "nat \<Rightarrow> nat"
  ke_sort :: "(sort_field \<times> bool) list \<Rightarrow> contact list \<Rightarrow> contact list"

definition contact_id :: "contact_env \<Rightarrow> string contacts" where
  "contact_id E s = (Inr (ke_uuid E (k_seq s)), s\<lparr>k_seq := k_seq s + 1\<rparr>)"

definition kemit :: "contact_event \<Rightarrow> unit contacts" where
  "kemit ev = modify (\<lambda>s. s\<lparr>k_events := k_events s @ [ev]\<rparr>)"

definition kfind :: "string \<Rightarrow> kstate \<Rightarrow> contact option" where
  "kfind i s = find (\<lambda>c. kt_id c = i) (k_contacts s)"

definition kfind_in :: "string \<Rightarrow> string \<Rightarrow> kstate \<Rightarrow> contact option" where
  "kfind_in w i s = find (\<lambda>c. kt_id c = i \<and> kt_workspaceId c = w) (k_contacts s)"

text \<open>\<^verbatim>\<open>prisma.$transaction\<close>: an exception undoes the writes.\<close>

definition in_transaction :: "'a contacts \<Rightarrow> 'a contacts" where
  "in_transaction m s = (case m s of (Inl e, _) \<Rightarrow> (Inl e, s) | (Inr x, t) \<Rightarrow> (Inr x, t))"

section \<open>Normalisers\<close>

definition normalizeOptionalText :: "string option \<Rightarrow> string option" where
  "normalizeOptionalText v = (let t = map_option js_trim v in if js_truthy t then t else None)"

definition normalizeOptionalEmail :: "string option \<Rightarrow> string option" where
  "normalizeOptionalEmail v = (let t = map_option (js_lower \<circ> js_trim) v in if js_truthy t then t else None)"

definition normalizePhoneIdentifier :: "string option \<Rightarrow> string option" where
  "normalizePhoneIdentifier v = (let d = js_default (map_option (filter is_digit) v) [] in if d \<noteq> [] then Some d else None)"

definition isPhoneIdentifierChannel :: "string option \<Rightarrow> bool" where
  "isPhoneIdentifierChannel t = (js_lower (js_default t []) \<in> {''whatsapp'', ''sms'', ''exotel_call''})"

definition normalizeContactIdentifierForChannel :: "string option \<Rightarrow> string option \<Rightarrow> string option" where
  "normalizeContactIdentifierForChannel t v =
     (if isPhoneIdentifierChannel t then normalizePhoneIdentifier v
      else let n = map_option js_trim v in
        if \<not> js_truthy n then None
        else if js_lower (js_default t []) = ''email'' then map_option js_lower n else n)"

text \<open>\<^verbatim>\<open>replace(/\s+/g, ' ')\<close>: a run of white space becomes one space.\<close>

fun squeeze_from :: "bool \<Rightarrow> string \<Rightarrow> string" where
  "squeeze_from inside [] = []"
| "squeeze_from inside (c # cs) =
     (if js_space c then (if inside then squeeze_from True cs else CHR '' '' # squeeze_from True cs)
      else c # squeeze_from False cs)"

definition squeeze :: "string \<Rightarrow> string" where
  "squeeze = squeeze_from False"

definition normalizeName :: "string option \<Rightarrow> string option" where
  "normalizeName v = (let n = map_option (squeeze \<circ> js_lower \<circ> js_trim) v in if js_truthy n then n else None)"

definition is_hex :: "char \<Rightarrow> bool" where
  "is_hex c = (is_digit c \<or> js_lower_char c \<in> set ''abcdef'')"

definition is_uuid :: "string \<Rightarrow> bool" where
  "is_uuid t =
     (case js_split (CHR ''-'') t of
        [a, b, c, d, e] \<Rightarrow>
          map length [a, b, c, d, e] = [8, 4, 4, 4, 12] \<and> list_all is_hex (a @ b @ c @ d @ e)
          \<and> hd c \<in> set ''12345'' \<and> js_lower_char (hd d) \<in> set ''89ab''
      | _ \<Rightarrow> False)"

definition normalizeContactUuid :: "string option \<Rightarrow> string option" where
  "normalizeContactUuid v =
     (let t = map_option js_trim v in if js_truthy t \<and> is_uuid (the t) then t else None)"

definition strip_slashes :: "string \<Rightarrow> string" where
  "strip_slashes s = rev (dropWhile (\<lambda>c. c = CHR ''/'') (rev s))"

definition STATIC_CONTACT_AVATAR_COUNT :: nat where
  "STATIC_CONTACT_AVATAR_COUNT = 65"

definition getPublicR2BaseUrl :: "contact_env \<Rightarrow> string option" where
  "getPublicR2BaseUrl E =
     (let u = map_option (strip_slashes \<circ> js_trim) (ke_publicUrl E) in if js_truthy u then u else None)"

definition getRandomStaticContactAvatarUrl :: "contact_env \<Rightarrow> nat \<Rightarrow> string option" where
  "getRandomStaticContactAvatarUrl E draw =
     map_option (\<lambda>b. b @ ''/static/avatars/'' @ js_nat_str draw @ ''.svg'') (getPublicR2BaseUrl E)"

definition resolveContactAvatarUrl :: "contact_env \<Rightarrow> nat \<Rightarrow> string option \<Rightarrow> string option" where
  "resolveContactAvatarUrl E draw v = js_nullish (normalizeOptionalText v) (getRandomStaticContactAvatarUrl E draw)"

section \<open>Rows of one contact\<close>

definition tags_of :: "string \<Rightarrow> kstate \<Rightarrow> contact_tag list" where
  "tags_of i s = filter (\<lambda>t. xt_contactId t = i) (k_contactTags s)"

definition tag_name :: "kstate \<Rightarrow> string \<Rightarrow> string" where
  "tag_name s i = (case find (\<lambda>t. xg_id t = i) (k_tags s) of None \<Rightarrow> [] | Some t \<Rightarrow> xg_name t)"

definition channels_of :: "string \<Rightarrow> kstate \<Rightarrow> contact_address list" where
  "channels_of i s = filter (\<lambda>c. kc_contactId c = i) (k_channels s)"

definition lifecycle_name :: "kstate \<Rightarrow> string option \<Rightarrow> string option" where
  "lifecycle_name s v =
     (case v of None \<Rightarrow> None | Some i \<Rightarrow> map_option lc_name (find (\<lambda>l. lc_id l = i) (k_lifecycles s)))"

definition toContactResponse :: "kstate \<Rightarrow> contact \<Rightarrow> contact_response" where
  "toContactResponse s c =
     \<lparr>cr_contact = c, cr_channels = channels_of (kt_id c) s,
      cr_tags = map (tag_name s \<circ> xt_tagId) (tags_of (kt_id c) s), cr_tagIds = map xt_tagId (tags_of (kt_id c) s),
      cr_lifecycleStage = lifecycle_name s (kt_lifecycleId c)\<rparr>"

text \<open>
  \<^verbatim>\<open>contact.update\<close>: the row changes with its time of update. A lifecycle stage that does not exist violates
  the foreign key.
\<close>

definition lifecycle_exists :: "kstate \<Rightarrow> string option \<Rightarrow> bool" where
  "lifecycle_exists s v = (case v of None \<Rightarrow> True | Some i \<Rightarrow> i \<in> lc_id ` set (k_lifecycles s))"

definition contact_write :: "string \<Rightarrow> (contact \<Rightarrow> contact) \<Rightarrow> contact contacts" where
  "contact_write i f s =
     (case kfind i s of
        None \<Rightarrow> (Inl PrismaP2025, s)
      | Some c \<Rightarrow>
          let g = (\<lambda>c. (f c)\<lparr>kt_updatedAt := k_now s\<rparr>) in
          if lifecycle_exists s (kt_lifecycleId (g c))
          then (Inr (g c), s\<lparr>k_contacts := upd_where (\<lambda>c. kt_id c = i) g (k_contacts s)\<rparr>)
          else (Inl (PlainError ''Foreign key constraint violated''), s))"

text \<open>A merge link is an identifier, never the empty text: it is truthy exactly if it is not null.\<close>

definition getEditableContact :: "string \<Rightarrow> string \<Rightarrow> bool \<Rightarrow> contact contacts" where
  "getEditableContact w i allowMerged s =
     (case kfind_in w i s of
        None \<Rightarrow> (Inl (NotFoundException ''Contact not found''), s)
      | Some c \<Rightarrow>
          if \<not> allowMerged \<and> kt_mergedIntoContactId c \<noteq> None
          then (Inl (ConflictException ''This contact is already merged into another profile''), s)
          else (Inr c, s))"

definition resolveLifecycleId :: "string \<Rightarrow> string option \<Rightarrow> string option contacts" where
  "resolveLifecycleId w v s =
     (case normalizeContactUuid v of
        None \<Rightarrow> (Inr None, s)
      | Some i \<Rightarrow>
          (case find (\<lambda>l. lc_id l = i \<and> lc_workspaceId l = w) (k_lifecycles s) of
             None \<Rightarrow> (Inl (NotFoundException ''Lifecycle stage not found''), s)
           | Some l \<Rightarrow> (Inr (Some (lc_id l)), s)))"

section \<open>Facts about the normalisers\<close>

lemma normalizeOptionalText_simps [simp]: "normalizeOptionalText None = None"
  by (simp add: normalizeOptionalText_def)

lemma normalizeOptionalEmail_simps [simp]: "normalizeOptionalEmail None = None"
  by (simp add: normalizeOptionalEmail_def)

lemma normalizePhoneIdentifier_idem: "normalizePhoneIdentifier (normalizePhoneIdentifier v) = normalizePhoneIdentifier v"
  by (cases v) (auto simp: normalizePhoneIdentifier_def Let_def)

lemma normalized_phone_digits: "normalizePhoneIdentifier v = Some d \<Longrightarrow> d \<noteq> [] \<and> list_all is_digit d"
  by (cases v) (auto simp: normalizePhoneIdentifier_def Let_def list_all_iff split: if_splits)

lemma squeeze_from_no_runs:
  "squeeze_from b s = xs @ c # d # ys \<Longrightarrow> js_space c \<Longrightarrow> js_space d \<Longrightarrow> False"
proof (induction b s arbitrary: xs rule: squeeze_from.induct)
  case (1 inside)
  then show ?case by simp
next
  case (2 inside x cs)
  have hd_from_true: "squeeze_from True zs = d' # w \<Longrightarrow> \<not> js_space d'" for zs d' w
    by (induction zs) (auto split: if_splits)
  show ?case
  proof (cases xs)
    case Nil
    with 2 show ?thesis by (auto split: if_splits dest: hd_from_true)
  next
    case (Cons y zs)
    with 2 show ?thesis by (auto split: if_splits)
  qed
qed

end
