(* ===== verification/Contact_Service.thy ===== *)
theory Contact_Service
  imports Contact_Model
begin

text \<open>
  The operations of \<^verbatim>\<open>src/src/modules/contacts/contacts.service.ts\<close> on one contact, its lists and the
  search for duplicates. A page number that is no number, which the controller's \<^verbatim>\<open>parseInt\<close> can give, makes
  the query fail.
\<close>

section \<open>Writing one contact\<close>

definition new_contact :: "contact_env \<Rightarrow> kstate \<Rightarrow> string \<Rightarrow> string \<Rightarrow> contact_dto \<Rightarrow> string option \<Rightarrow> contact" where
  "new_contact E s i w d lifecycleId =
     \<lparr>kt_id = i, kt_workspaceId = w, kt_firstName = js_trim (js_default (kd_firstName d) []),
      kt_lastName = normalizeOptionalText (js_default (kd_lastName d) None),
      kt_email = normalizeOptionalEmail (js_default (kd_email d) None),
      kt_phone = normalizePhoneIdentifier (js_default (kd_phone d) None),
      kt_company = normalizeOptionalText (js_default (kd_company d) None),
      kt_avatarUrl = resolveContactAvatarUrl E (ke_random E (k_seq s)) (js_default (kd_avatarUrl d) None),
      kt_lifecycleId = lifecycleId, kt_status = None, kt_marketingOptOut = js_default (kd_marketingOptOut d) False,
      kt_mergedIntoContactId = None, kt_mergedAt = None, kt_mergedByUserId = None,
      kt_assigneeId = None, kt_teamId = None, kt_createdAt = k_now s, kt_updatedAt = k_now s\<rparr>"

definition contact_create :: "contact_env \<Rightarrow> string \<Rightarrow> contact_dto \<Rightarrow> contact_response contacts" where
  "contact_create E w d =
     bind_io (resolveLifecycleId w (js_default (kd_lifecycleId d) None)) (\<lambda>lifecycleId.
     bind_io (contact_id E) (\<lambda>i.
     bind_io (\<lambda>s. if i \<in> kt_id ` set (k_contacts s) then (Inl PrismaP2002, s)
                  else let c = new_contact E s i w d lifecycleId
                    in (Inr (toContactResponse s c), s\<lparr>k_contacts := k_contacts s @ [c]\<rparr>)) (\<lambda>r.
     seq_io (kemit (ContactCreated w i r)) (ret r))))"

text \<open>The response of a written contact, sent to the workspace and returned.\<close>

definition respond :: "contact \<Rightarrow> contact_response contacts" where
  "respond c = gets (\<lambda>s. toContactResponse s c)"

definition announce_contact :: "string \<Rightarrow> contact \<Rightarrow> unit contacts" where
  "announce_contact w c = bind_io (respond c) (\<lambda>r. kemit (ContactUpdated w r))"

definition require_member :: "string \<Rightarrow> string option \<Rightarrow> unit contacts" where
  "require_member w u s =
     (if js_truthy u \<and> find (\<lambda>m. kw_workspaceId m = w \<and> kw_userId m = the u \<and> kw_status m = ''active'') (k_members s) = None
      then (Inl (NotFoundException ''Agent not in workspace''), s) else (Inr (), s))"

definition require_team :: "string \<Rightarrow> string option \<Rightarrow> unit contacts" where
  "require_team w i s =
     (if js_truthy i \<and> find (\<lambda>t. te_id t = the i \<and> te_workspaceId t = w) (k_teams s) = None
      then (Inl (NotFoundException ''Team not found''), s) else (Inr (), s))"

definition contact_assign :: "string \<Rightarrow> string \<Rightarrow> assign_dto \<Rightarrow> contact_response contacts" where
  "contact_assign w i d =
     seq_io (getEditableContact w i False)
    (seq_io (require_member w (js_default (as_assigneeId d) None))
    (seq_io (require_team w (js_default (as_teamId d) None))
    (bind_io (contact_write i (\<lambda>c. c\<lparr>kt_assigneeId := js_default (as_assigneeId d) (kt_assigneeId c),
                                       kt_teamId := js_default (as_teamId d) (kt_teamId c)\<rparr>)) (\<lambda>c.
     seq_io (announce_contact w c)
    (seq_io (kemit (ContactAssigned w i (kt_assigneeId c) (kt_teamId c)))
     (respond c))))))"

definition updateLifecycle :: "string \<Rightarrow> string \<Rightarrow> string option \<Rightarrow> contact_response contacts" where
  "updateLifecycle w i v =
     seq_io (getEditableContact w i False)
    (bind_io (resolveLifecycleId w v) (\<lambda>l.
     bind_io (contact_write i (\<lambda>c. c\<lparr>kt_lifecycleId := l\<rparr>)) (\<lambda>c.
     seq_io (kemit (KLifecycleUpdated w i l))
    (seq_io (announce_contact w c) (respond c)))))"

definition upsert_tag :: "string \<Rightarrow> string \<Rightarrow> contact_tag list \<Rightarrow> contact_tag list" where
  "upsert_tag i t rows =
     (if \<lparr>xt_contactId = i, xt_tagId = t\<rparr> \<in> set rows then rows else rows @ [\<lparr>xt_contactId = i, xt_tagId = t\<rparr>])"

definition announce_tags :: "string \<Rightarrow> string \<Rightarrow> string \<Rightarrow> string \<Rightarrow> (string list \<times> string list) contacts" where
  "announce_tags w i action t =
     bind_io (gets (\<lambda>s. let rows = tags_of i s in (map (tag_name s \<circ> xt_tagId) rows, map xt_tagId rows))) (\<lambda>(names, ids).
     seq_io (kemit (KTagUpdated w i action t ids))
    (seq_io (kemit (ContactTags w i names ids)) (ret (names, ids))))"

definition addTag :: "string \<Rightarrow> string \<Rightarrow> string \<Rightarrow> (string list \<times> string list) contacts" where
  "addTag w i t =
     seq_io (getEditableContact w i False)
    (seq_io (\<lambda>s. if find (\<lambda>r. xg_id r = t \<and> xg_workspaceId r = w) (k_tags s) = None
                 then (Inl (NotFoundException ''Tag not found''), s) else (Inr (), s))
    (seq_io (modify (\<lambda>s. s\<lparr>k_contactTags := upsert_tag i t (k_contactTags s)\<rparr>))
     (announce_tags w i ''added'' t)))"

definition removeTag :: "string \<Rightarrow> string \<Rightarrow> string \<Rightarrow> (string list \<times> string list) contacts" where
  "removeTag w i t =
     seq_io (getEditableContact w i False)
    (seq_io (modify (\<lambda>s. s\<lparr>k_contactTags := filter (\<lambda>r. \<not> (xt_contactId r = i \<and> xt_tagId r = t)) (k_contactTags s)\<rparr>))
     (announce_tags w i ''removed'' t))"

text \<open>Automatic assignment: the agent who has the fewest contacts.\<close>

definition eligible_agents :: "string \<Rightarrow> contact \<Rightarrow> kstate \<Rightarrow> string list" where
  "eligible_agents w c s =
     map kw_userId
       (filter (\<lambda>m. kw_workspaceId m = w \<and> kw_role m = ''agent'' \<and> kw_status m = ''active'' \<and> kw_availability m = ''online''
          \<and> (js_truthy (kt_teamId c) \<longrightarrow>
               kw_userId m \<in> set (map tb_userId (filter (\<lambda>b. tb_teamId b = the (kt_teamId c)) (k_teamMembers s)))))
        (k_members s))"

definition workload :: "string \<Rightarrow> kstate \<Rightarrow> string \<Rightarrow> nat" where
  "workload w s u =
     length (filter (\<lambda>c. kt_workspaceId c = w \<and> kt_assigneeId c = Some u \<and> kt_mergedIntoContactId c = None) (k_contacts s))"

definition autoAssign :: "string \<Rightarrow> string \<Rightarrow> contact_response option contacts" where
  "autoAssign w i =
     bind_io (getEditableContact w i False) (\<lambda>contact.
     bind_io (gets (\<lambda>s. sort_key (workload w s) (eligible_agents w contact s))) (\<lambda>agents.
     case agents of
       [] \<Rightarrow> ret None
     | u # _ \<Rightarrow>
         bind_io (contact_write i (\<lambda>c. c\<lparr>kt_assigneeId := Some u\<rparr>)) (\<lambda>c.
         seq_io (announce_contact w c)
        (seq_io (kemit (ContactAssigned w i (Some u) (kt_teamId contact)))
         (bind_io (respond c) (\<lambda>r. ret (Some r)))))))"

definition apply_update :: "contact_dto \<Rightarrow> string option \<Rightarrow> contact \<Rightarrow> contact" where
  "apply_update d l c =
     c\<lparr>kt_firstName := (case kd_firstName d of None \<Rightarrow> kt_firstName c | Some n \<Rightarrow> js_trim n),
       kt_lastName := (case kd_lastName d of None \<Rightarrow> kt_lastName c | Some v \<Rightarrow> normalizeOptionalText v),
       kt_email := (case kd_email d of None \<Rightarrow> kt_email c | Some v \<Rightarrow> normalizeOptionalEmail v),
       kt_phone := (case kd_phone d of None \<Rightarrow> kt_phone c | Some v \<Rightarrow> normalizePhoneIdentifier v),
       kt_company := (case kd_company d of None \<Rightarrow> kt_company c | Some v \<Rightarrow> normalizeOptionalText v),
       kt_avatarUrl := (case kd_avatarUrl d of None \<Rightarrow> kt_avatarUrl c | Some v \<Rightarrow> normalizeOptionalText v),
       kt_lifecycleId := (if kd_lifecycleId d = None then kt_lifecycleId c else l),
       kt_marketingOptOut := js_default (kd_marketingOptOut d) (kt_marketingOptOut c)\<rparr>"

definition contact_edit :: "string \<Rightarrow> string \<Rightarrow> contact_dto \<Rightarrow> contact_response contacts" where
  "contact_edit w i d =
     seq_io (getEditableContact w i False)
    (bind_io (case kd_lifecycleId d of None \<Rightarrow> ret None | Some v \<Rightarrow> resolveLifecycleId w v) (\<lambda>l.
     bind_io (contact_write i (apply_update d l)) (\<lambda>c.
     seq_io (kemit (KFieldUpdated w i d))
    (seq_io (announce_contact w c) (respond c)))))"

text \<open>
  The deletion of conversations, and of a contact with all that its foreign keys cascade to; a contact that
  was merged into it is set free.
\<close>

definition delete_conversations :: "string list \<Rightarrow> kstate \<Rightarrow> kstate" where
  "delete_conversations ids s =
     s\<lparr>k_convs := filter (\<lambda>c. kv_id c \<notin> set ids) (k_convs s),
       k_messages := filter (\<lambda>m. km_conversationId m \<notin> set ids) (k_messages s),
       k_activities := filter (\<lambda>a. ay_conversationId a \<notin> set ids) (k_activities s)\<rparr>"

definition delete_contact :: "string \<Rightarrow> kstate \<Rightarrow> kstate" where
  "delete_contact i s =
     (let t = delete_conversations (map kv_id (filter (\<lambda>c. kv_contactId c = i) (k_convs s))) s
      in t\<lparr>k_contacts := map (\<lambda>c. if kt_mergedIntoContactId c = Some i then c\<lparr>kt_mergedIntoContactId := None\<rparr> else c)
                          (filter (\<lambda>c. kt_id c \<noteq> i) (k_contacts t)),
           k_contactTags := filter (\<lambda>r. xt_contactId r \<noteq> i) (k_contactTags t),
           k_channels := filter (\<lambda>c. kc_contactId c \<noteq> i) (k_channels t),
           k_mergeRuns := filter (\<lambda>r. mg_primaryContactId r \<noteq> i \<and> mg_secondaryContactId r \<noteq> i) (k_mergeRuns t)\<rparr>)"

definition contact_remove :: "string \<Rightarrow> string \<Rightarrow> contact contacts" where
  "contact_remove w i =
     bind_io (getEditableContact w i False) (\<lambda>c. seq_io (modify (delete_contact i)) (ret c))"

definition statusUpdate :: "string \<Rightarrow> string \<Rightarrow> string \<Rightarrow> contact_response contacts" where
  "statusUpdate w i status =
     seq_io (getEditableContact w i False)
    (bind_io (contact_write i (\<lambda>c. c\<lparr>kt_status := Some status\<rparr>)) (\<lambda>c.
     seq_io (if status = ''closed'' then kemit (KConversationClosed w i) else kemit (KConversationOpened w i ''user''))
    (seq_io (announce_contact w c) (respond c))))"

section \<open>Lists\<close>

text \<open>\<^verbatim>\<open>contains\<close> and \<^verbatim>\<open>equals\<close> without regard to case; null never matches.\<close>

definition has_text :: "string \<Rightarrow> string option \<Rightarrow> bool" where
  "has_text p v = (case v of None \<Rightarrow> False | Some t \<Rightarrow> js_includes (js_lower t) (js_lower p))"

definition same_text :: "string option \<Rightarrow> string \<Rightarrow> bool" where
  "same_text v t = (case v of None \<Rightarrow> False | Some u \<Rightarrow> js_lower u = js_lower t)"

definition search_fields :: "string \<Rightarrow> contact \<Rightarrow> bool" where
  "search_fields p c =
     (has_text p (Some (kt_firstName c)) \<or> has_text p (kt_lastName c) \<or> has_text p (kt_email c)
      \<or> has_text p (kt_phone c) \<or> has_text p (kt_company c))"

definition search_matches :: "string \<Rightarrow> contact \<Rightarrow> bool" where
  "search_matches search c =
     (let norm = squeeze (js_trim search); wds = filter (\<lambda>w. w \<noteq> []) (js_split (CHR '' '') norm)
      in search_fields norm c
         \<or> (length wds > 1 \<and>
             (list_all (\<lambda>w. search_fields w c) wds
              \<or> (has_text (hd wds) (Some (kt_firstName c)) \<and> has_text (js_join '' '' (tl wds)) (kt_lastName c))
              \<or> (has_text (hd wds) (kt_lastName c) \<and> has_text (js_join '' '' (tl wds)) (Some (kt_firstName c))))))"

definition lifecycle_matches :: "kstate \<Rightarrow> string \<Rightarrow> contact \<Rightarrow> bool" where
  "lifecycle_matches s v c =
     (case normalizeContactUuid (Some v) of
        Some i \<Rightarrow> kt_lifecycleId c = Some i
      | None \<Rightarrow> same_text (lifecycle_name s (kt_lifecycleId c)) (js_trim v))"

definition listContactsWhere :: "kstate \<Rightarrow> string \<Rightarrow> string option \<Rightarrow> string option \<Rightarrow> contact \<Rightarrow> bool" where
  "listContactsWhere s w search lifecycle c =
     (kt_workspaceId c = w \<and> kt_mergedIntoContactId c = None
      \<and> (js_truthy (map_option js_trim search) \<longrightarrow> search_matches (the search) c)
      \<and> (js_truthy (map_option js_trim lifecycle) \<longrightarrow> lifecycle_matches s (the lifecycle) c))"

text \<open>The second component of a key says whether it is descending.\<close>

definition listContactsOrderBy :: "string option \<Rightarrow> string option \<Rightarrow> (sort_field \<times> bool) list" where
  "listContactsOrderBy sortField sortDir =
     (let desc = (sortDir = Some ''desc'') in
      if sortField = Some ''name'' then [(ByFirstName, desc), (ByLastName, desc), (ById, desc)]
      else if sortField = Some ''email'' then [(ByEmail, desc), (ById, desc)]
      else if sortField = Some ''phone'' then [(ByPhone, desc), (ById, desc)]
      else if sortField = Some ''lifecycle'' then [(ByLifecycle, desc), (ById, desc)]
      else [(ByCreatedAt, True), (ById, True)])"

record list_opts =
  lo_search :: "string option"
  lo_lifecycle :: "string option"
  lo_sortField :: "string option"
  lo_sortDir :: "string option"
  lo_page :: "jsnum option"
  lo_limit :: "jsnum option"

definition selected_contacts :: "contact_env \<Rightarrow> kstate \<Rightarrow> string \<Rightarrow> list_opts \<Rightarrow> contact list" where
  "selected_contacts E s w opts =
     ke_sort E (listContactsOrderBy (lo_sortField opts) (lo_sortDir opts))
       (filter (listContactsWhere s w (lo_search opts) (lo_lifecycle opts)) (k_contacts s))"

text \<open>\<^verbatim>\<open>Math.max\<close> and \<^verbatim>\<open>Math.min\<close> of two numbers, and the whole number that the query takes.\<close>

definition num_max :: "jsnum \<Rightarrow> jsnum \<Rightarrow> jsnum" where
  "num_max a b = (if a = NaN \<or> b = NaN then NaN else if num_lt a b then b else a)"

definition num_min :: "jsnum \<Rightarrow> jsnum \<Rightarrow> jsnum" where
  "num_min a b = (if a = NaN \<or> b = NaN then NaN else if num_lt a b then a else b)"

definition whole :: "jsnum \<Rightarrow> nat option" where
  "whole n = (case n of Fin q \<Rightarrow> if num_integer n \<and> 0 \<le> q then Some (nat \<lfloor>q\<rfloor>) else None | _ \<Rightarrow> None)"

record contact_page =
  cp_data :: "contact_response list"
  cp_total :: nat
  cp_page :: nat
  cp_limit :: nat

definition findAll :: "contact_env \<Rightarrow> string \<Rightarrow> list_opts \<Rightarrow> contact_page contacts" where
  "findAll E w opts s =
     (case (whole (num_max (Fin 1) (js_default (lo_page opts) (Fin 1))),
            whole (num_min (num_max (Fin 1) (js_default (lo_limit opts) (Fin 10))) (Fin 100))) of
        (Some page, Some limit) \<Rightarrow>
          let rows = selected_contacts E s w opts in
          (Inr \<lparr>cp_data = map (toContactResponse s) (take limit (drop ((page - 1) * limit) rows)),
                cp_total = length (filter (listContactsWhere s w (lo_search opts) (lo_lifecycle opts)) (k_contacts s)),
                cp_page = page, cp_limit = limit\<rparr>, s)
      | _ \<Rightarrow> (Inl PrismaValidation, s))"

definition exportContacts :: "contact_env \<Rightarrow> string \<Rightarrow> list_opts \<Rightarrow> contact_response list contacts" where
  "exportContacts E w opts s = (Inr (map (toContactResponse s) (selected_contacts E s w opts)), s)"

end
