(* ===== verification/Contact_Merge.thy ===== *)
theory Contact_Merge
  imports Contact_Service
begin

text \<open>
  Duplicates and their merge (\<^verbatim>\<open>findDuplicates\<close>, \<^verbatim>\<open>getMergePreview\<close>, \<^verbatim>\<open>mergeContacts\<close> of
  \<^verbatim>\<open>contacts.service.ts\<close>), in the order of the source: one definition per stage of the transaction. A list
  of the database is in the order of the table where the query names none or where its keys are equal; in a
  descending order null comes first, as in PostgreSQL.
\<close>

section \<open>Duplicates\<close>

record suggestion =
  sg_contact :: contact_response
  sg_score :: int
  sg_reasons :: "string list"
  sg_conversationCount :: nat
  sg_openConversationCount :: nat

definition contact_name_key :: "contact \<Rightarrow> string option" where
  "contact_name_key c =
     normalizeName (Some (js_join '' '' (filter (\<lambda>n. n \<noteq> []) [kt_firstName c, js_default (kt_lastName c) []])))"

definition is_candidate :: "contact \<Rightarrow> contact \<Rightarrow> bool" where
  "is_candidate cur c =
     (kt_workspaceId c = kt_workspaceId cur \<and> kt_id c \<noteq> kt_id cur \<and> kt_mergedIntoContactId c = None \<and>
      ((case normalizeOptionalEmail (kt_email cur) of None \<Rightarrow> False | Some e \<Rightarrow> same_text (kt_email c) e)
       \<or> (case normalizePhoneIdentifier (kt_phone cur) of None \<Rightarrow> False | Some p \<Rightarrow> kt_phone c = Some p)
       \<or> (kt_firstName cur \<noteq> [] \<and> js_truthy (kt_lastName cur)
          \<and> same_text (Some (kt_firstName c)) (kt_firstName cur) \<and> same_text (kt_lastName c) (the (kt_lastName cur)))))"

definition both_equal :: "string option \<Rightarrow> string option \<Rightarrow> bool" where
  "both_equal a b = (js_truthy a \<and> js_truthy b \<and> a = b)"

definition shares_channel :: "contact \<Rightarrow> contact \<Rightarrow> kstate \<Rightarrow> bool" where
  "shares_channel cur c s =
     list_ex (\<lambda>ch. list_ex (\<lambda>o1. kc_channelType o1 = kc_channelType ch \<and> kc_identifier o1 = kc_identifier ch) (channels_of (kt_id cur) s))
       (channels_of (kt_id c) s)"

text \<open>The signals of a candidate, each with its reason and its points.\<close>

definition signals :: "contact \<Rightarrow> contact \<Rightarrow> kstate \<Rightarrow> (string \<times> int) list" where
  "signals cur c s =
     (if both_equal (normalizeOptionalEmail (kt_email cur)) (normalizeOptionalEmail (kt_email c)) then [(''exact_email'', 55)] else [])
     @ (if both_equal (normalizePhoneIdentifier (kt_phone cur)) (normalizePhoneIdentifier (kt_phone c)) then [(''exact_phone'', 50)] else [])
     @ (if both_equal (contact_name_key cur) (contact_name_key c) then [(''exact_name'', 18)] else [])
     @ (if both_equal (normalizeName (kt_company cur)) (normalizeName (kt_company c)) then [(''same_company'', 7)] else [])
     @ (if shares_channel cur c s then [(''shared_channel_identity'', 20)] else [])"

definition conversation_count :: "string \<Rightarrow> string \<Rightarrow> kstate \<Rightarrow> nat" where
  "conversation_count w i s = length (filter (\<lambda>c. kv_workspaceId c = w \<and> kv_contactId c = i) (k_convs s))"

definition suggestion_of :: "string \<Rightarrow> contact \<Rightarrow> kstate \<Rightarrow> contact \<Rightarrow> suggestion" where
  "suggestion_of w cur s c =
     \<lparr>sg_contact = toContactResponse s c, sg_score = min (sum_list (map snd (signals cur c s))) 100,
      sg_reasons = map fst (signals cur c s), sg_conversationCount = conversation_count w (kt_id c) s,
      sg_openConversationCount = (if kt_status c = Some ''closed'' then 0 else conversation_count w (kt_id c) s)\<rparr>"

definition candidates :: "contact \<Rightarrow> kstate \<Rightarrow> contact list" where
  "candidates cur s = take 10 (sort_key (\<lambda>c. - kt_updatedAt c) (filter (is_candidate cur) (k_contacts s)))"

definition suggestions :: "string \<Rightarrow> contact \<Rightarrow> kstate \<Rightarrow> suggestion list" where
  "suggestions w cur s =
     (if normalizeOptionalEmail (kt_email cur) = None \<and> normalizePhoneIdentifier (kt_phone cur) = None \<and> contact_name_key cur = None
      then [] else sort_key (\<lambda>g. - sg_score g) (filter (\<lambda>g. sg_score g \<ge> 35) (map (suggestion_of w cur s) (candidates cur s))))"

definition findDuplicates :: "string \<Rightarrow> string \<Rightarrow> suggestion list contacts" where
  "findDuplicates w i s =
     (case find (\<lambda>c. kt_id c = i \<and> kt_workspaceId c = w \<and> kt_mergedIntoContactId c = None) (k_contacts s) of
        None \<Rightarrow> (Inl (NotFoundException ''Contact not found''), s)
      | Some cur \<Rightarrow> (Inr (suggestions w cur s), s))"

text \<open>The page of one contact: its response, the number of suggestions and the first three of them.\<close>

definition findOne :: "string \<Rightarrow> string \<Rightarrow> (contact_response \<times> nat \<times> suggestion list) contacts" where
  "findOne w i =
     bind_io (getEditableContact w i True) (\<lambda>c.
     bind_io (if kt_mergedIntoContactId c \<noteq> None then ret [] else findDuplicates w i) (\<lambda>gs.
     bind_io (respond c) (\<lambda>r. ret (r, length gs, take 3 gs))))"

section \<open>The preview\<close>

definition pickLonger :: "string option \<Rightarrow> string option \<Rightarrow> string option" where
  "pickLonger a b =
     (let l = js_or_str (map_option js_trim a) []; r = js_or_str (map_option js_trim b) [] in
      if l = [] then (if r \<noteq> [] then Some r else None)
      else if r = [] then Some l
      else Some (if length r > length l then r else l))"

text \<open>A \<^verbatim>\<open>Set\<close> made from a list keeps the first of equal values.\<close>

definition uniq :: "'a list \<Rightarrow> 'a list" where
  "uniq xs = rev (remdups (rev xs))"

definition buildSuggestedResolution :: "kstate \<Rightarrow> contact \<Rightarrow> contact \<Rightarrow> merge_resolution" where
  "buildSuggestedResolution s primary secondary =
     \<lparr>mr_firstName = js_nullish (pickLonger (Some (kt_firstName primary)) (Some (kt_firstName secondary))) (Some (kt_firstName primary)),
      mr_lastName = pickLonger (kt_lastName primary) (kt_lastName secondary),
      mr_email = js_nullish (normalizeOptionalEmail (kt_email primary)) (normalizeOptionalEmail (kt_email secondary)),
      mr_phone = js_nullish (normalizePhoneIdentifier (kt_phone primary)) (normalizePhoneIdentifier (kt_phone secondary)),
      mr_company = pickLonger (kt_company primary) (kt_company secondary),
      mr_lifecycleId = js_nullish (kt_lifecycleId primary) (kt_lifecycleId secondary),
      mr_marketingOptOut = (kt_marketingOptOut primary \<or> kt_marketingOptOut secondary),
      mr_tags = uniq (map (tag_name s \<circ> xt_tagId) (tags_of (kt_id primary) s @ tags_of (kt_id secondary) s))\<rparr>"

record merge_preview =
  pv_primary :: contact_response
  pv_secondary :: contact_response
  pv_confidenceScore :: int
  pv_reasonCodes :: "string list"
  pv_suggestedResolution :: merge_resolution
  pv_impact :: merge_impact

definition impact_of :: "string \<Rightarrow> string \<Rightarrow> kstate \<Rightarrow> merge_impact" where
  "impact_of w i s =
     \<lparr>im_conversationsToMove = conversation_count w i s,
      im_channelsToMove = length (filter (\<lambda>c. kc_workspaceId c = w \<and> kc_contactId c = i) (k_channels s)),
      im_workflowRunsToMove = length (filter (\<lambda>r. kr_workspaceId r = w \<and> kr_contactId r = i) (k_runs s)),
      im_notificationHistoryToMove = length (filter (\<lambda>h. kh_workspaceId h = w \<and> kh_contactId h = Some i) (k_history s))\<rparr>"

definition getMergePreview :: "string \<Rightarrow> string \<Rightarrow> string \<Rightarrow> merge_preview contacts" where
  "getMergePreview w p q =
     (if p = q then throw (BadRequestException ''A contact cannot be merged into itself'')
      else bind_io (getEditableContact w p True) (\<lambda>primary.
           bind_io (getEditableContact w q True) (\<lambda>secondary.
           if kt_mergedIntoContactId primary \<noteq> None
           then throw (ConflictException ''The primary contact is already merged into another profile'')
           else bind_io (findDuplicates w p) (\<lambda>gs.
             let insight = find (\<lambda>g. kt_id (cr_contact (sg_contact g)) = q) gs in
             gets (\<lambda>s. \<lparr>pv_primary = toContactResponse s primary, pv_secondary = toContactResponse s secondary,
                        pv_confidenceScore = js_default (map_option sg_score insight) 0,
                        pv_reasonCodes = js_default (map_option sg_reasons insight) [],
                        pv_suggestedResolution = buildSuggestedResolution s primary secondary,
                        pv_impact = impact_of w q s\<rparr>)))))"

definition resolve_merge :: "merge_resolution \<Rightarrow> resolution_dto option \<Rightarrow> merge_resolution" where
  "resolve_merge r d =
     (case d of None \<Rightarrow> r
      | Some d \<Rightarrow>
          \<lparr>mr_firstName = js_default (rd_firstName d) (mr_firstName r), mr_lastName = js_default (rd_lastName d) (mr_lastName r),
           mr_email = js_default (rd_email d) (mr_email r), mr_phone = js_default (rd_phone d) (mr_phone r),
           mr_company = js_default (rd_company d) (mr_company r), mr_lifecycleId = js_default (rd_lifecycleId d) (mr_lifecycleId r),
           mr_marketingOptOut = js_default (rd_marketingOptOut d) (mr_marketingOptOut r),
           mr_tags = js_default (rd_tags d) (mr_tags r)\<rparr>)"

section \<open>The stages of the merge\<close>

definition pickMergedConversationStatus :: "string list \<Rightarrow> string" where
  "pickMergedConversationStatus st =
     (if ''open'' \<in> set st then ''open'' else if ''pending'' \<in> set st then ''pending''
      else if ''resolved'' \<in> set st then ''resolved'' else if ''closed'' \<in> set st then ''closed'' else ''open'')"

definition first_by :: "('a \<Rightarrow> 'k::linorder) \<Rightarrow> 'a list \<Rightarrow> 'a option" where
  "first_by f xs = (case sort_key f xs of [] \<Rightarrow> None | x # _ \<Rightarrow> Some x)"

definition priority_rank :: "string \<Rightarrow> int" where
  "priority_rank p = (if p = ''low'' then 1 else if p = ''normal'' then 2 else if p = ''high'' then 3 else if p = ''urgent'' then 4 else 0)"

definition pickMergedConversationPriority :: "string list \<Rightarrow> string" where
  "pickMergedConversationPriority ps = js_default (first_by (\<lambda>p. - priority_rank p) ps) ''normal''"

definition survivor_fields :: "merge_resolution \<Rightarrow> contact \<Rightarrow> contact \<Rightarrow> contact \<Rightarrow> contact" where
  "survivor_fields r primary secondary c =
     c\<lparr>kt_firstName := js_or_str (mr_firstName r) (kt_firstName primary),
       kt_lastName := js_or (mr_lastName r) None,
       kt_email := normalizeOptionalEmail (mr_email r), kt_phone := normalizePhoneIdentifier (mr_phone r),
       kt_company := mr_company r,
       kt_lifecycleId := js_nullish (mr_lifecycleId r) (js_nullish (kt_lifecycleId primary) (kt_lifecycleId secondary)),
       kt_marketingOptOut := mr_marketingOptOut r,
       kt_status := Some (pickMergedConversationStatus (map the (filter js_truthy [kt_status primary, kt_status secondary])))\<rparr>"

definition merged_tag_ids :: "kstate \<Rightarrow> merge_resolution \<Rightarrow> string \<Rightarrow> string \<Rightarrow> string list" where
  "merged_tag_ids s r p q =
     (let selected = filter (\<lambda>t. t \<noteq> []) (map js_trim (mr_tags r))
      in uniq (map xt_tagId (filter (\<lambda>t. selected = [] \<or> tag_name s (xt_tagId t) \<in> set selected) (tags_of p s @ tags_of q s))))"

definition merge_tags :: "merge_resolution \<Rightarrow> string \<Rightarrow> string \<Rightarrow> kstate \<Rightarrow> kstate" where
  "merge_tags r p q s =
     (let ids = merged_tag_ids s r p q; added = fold (upsert_tag p) ids (k_contactTags s)
      in s\<lparr>k_contactTags :=
           filter (\<lambda>t. xt_contactId t \<noteq> q)
            (filter (\<lambda>t. \<not> (xt_contactId t = p \<and> (ids \<noteq> [] \<longrightarrow> xt_tagId t \<notin> set ids))) added)\<rparr>)"

definition channel_key :: "contact_address \<Rightarrow> string" where
  "channel_key c = kc_channelId c @ '':'' @ kc_identifier c"

definition merge_channel :: "string \<Rightarrow> string list \<Rightarrow> contact_address \<Rightarrow> contact_address list \<Rightarrow> contact_address list" where
  "merge_channel p taken ch rows =
     (if channel_key ch \<in> set taken then filter (\<lambda>c. kc_id c \<noteq> kc_id ch) rows
      else upd_where (\<lambda>c. kc_id c = kc_id ch) (\<lambda>c. c\<lparr>kc_contactId := p\<rparr>) rows)"

definition merge_channels :: "string \<Rightarrow> string \<Rightarrow> string \<Rightarrow> kstate \<Rightarrow> kstate" where
  "merge_channels w p q s =
     s\<lparr>k_channels := fold (merge_channel p (map channel_key (channels_of p s)))
         (filter (\<lambda>c. kc_workspaceId c = w \<and> kc_contactId c = q) (k_channels s)) (k_channels s)\<rparr>"

definition conversation_order :: "conversation list \<Rightarrow> conversation list" where
  "conversation_order rows =
     sort_key (\<lambda>c. if kv_lastMessageAt c = None then 0 else (1 :: nat))
      (sort_key (\<lambda>c. - js_default (kv_lastMessageAt c) 0) (sort_key kv_createdAt rows))"

definition conversations_of :: "string \<Rightarrow> string \<Rightarrow> string \<Rightarrow> kstate \<Rightarrow> conversation list" where
  "conversations_of w p q s =
     conversation_order (filter (\<lambda>c. kv_workspaceId c = w \<and> (kv_contactId c = p \<or> kv_contactId c = q)) (k_convs s))"

definition survivor_of :: "string \<Rightarrow> conversation list \<Rightarrow> conversation option" where
  "survivor_of p rows =
     (case filter (\<lambda>c. kv_contactId c = p) rows of
        c # _ \<Rightarrow> Some c
      | [] \<Rightarrow> (case rows of c # _ \<Rightarrow> Some c | [] \<Rightarrow> None))"

definition merged_ids :: "conversation option \<Rightarrow> conversation list \<Rightarrow> string list" where
  "merged_ids v rows = (case v of None \<Rightarrow> [] | Some c \<Rightarrow> map kv_id (filter (\<lambda>d. kv_id d \<noteq> kv_id c) rows))"

definition conversation_write :: "string \<Rightarrow> (conversation \<Rightarrow> conversation) \<Rightarrow> unit contacts" where
  "conversation_write i f s =
     (case find (\<lambda>c. kv_id c = i) (k_convs s) of
        None \<Rightarrow> (Inl PrismaP2025, s)
      | Some c \<Rightarrow>
          if kv_lastMessageId (f c) \<noteq> None
             \<and> list_ex (\<lambda>d. kv_id d \<noteq> i \<and> kv_lastMessageId d = kv_lastMessageId (f c)) (k_convs s)
          then (Inl PrismaP2002, s)
          else (Inr (), s\<lparr>k_convs := upd_where (\<lambda>c. kv_id c = i) f (k_convs s)\<rparr>))"

text \<open>The messages and the events of the merged conversations move before their rows are deleted.\<close>

definition move_messages :: "string \<Rightarrow> string list \<Rightarrow> kstate \<Rightarrow> kstate" where
  "move_messages v ids s =
     delete_conversations ids
      (s\<lparr>k_convs := upd_where (\<lambda>c. kv_id c \<in> set ids) (\<lambda>c. c\<lparr>kv_lastMessageId := None\<rparr>) (k_convs s),
         k_messages := upd_where (\<lambda>m. km_conversationId m \<in> set ids) (\<lambda>m. m\<lparr>km_conversationId := v\<rparr>) (k_messages s),
         k_activities := upd_where (\<lambda>a. ay_conversationId a \<in> set ids) (\<lambda>a. a\<lparr>ay_conversationId := v\<rparr>) (k_activities s)\<rparr>)"

definition newest_message :: "string \<Rightarrow> (chat_message \<Rightarrow> bool) \<Rightarrow> kstate \<Rightarrow> chat_message option" where
  "newest_message v P s = first_by (\<lambda>m. - km_createdAt m) (filter (\<lambda>m. km_conversationId m = v \<and> P m) (k_messages s))"

definition earliest_time :: "int option list \<Rightarrow> int option" where
  "earliest_time ts = first_by (\<lambda>t. t) (map the (filter (\<lambda>t. t \<noteq> None) ts))"

definition latest_time :: "int option list \<Rightarrow> int option" where
  "latest_time ts = first_by (\<lambda>t. - t) (map the (filter (\<lambda>t. t \<noteq> None) ts))"

definition survivor_conversation :: "string \<Rightarrow> conversation \<Rightarrow> conversation list \<Rightarrow> chat_message option \<Rightarrow> chat_message option \<Rightarrow> conversation \<Rightarrow> conversation" where
  "survivor_conversation p v rows newest incoming c =
     c\<lparr>kv_contactId := p,
       kv_subject := js_nullish (kv_subject v) (case find (\<lambda>d. js_truthy (kv_subject d)) rows of None \<Rightarrow> None | Some d \<Rightarrow> kv_subject d),
       kv_priority := pickMergedConversationPriority (map kv_priority rows),
       kv_unreadCount := sum_list (map kv_unreadCount rows),
       kv_lastMessageId := map_option km_id newest, kv_lastMessageAt := map_option km_createdAt newest,
       kv_lastIncomingAt := map_option km_createdAt incoming,
       kv_firstResponseAt := earliest_time (map kv_firstResponseAt rows), kv_resolvedAt := latest_time (map kv_resolvedAt rows),
       kv_slaDueAt := earliest_time (map kv_slaDueAt rows), kv_slaBreached := list_ex kv_slaBreached rows\<rparr>"

definition merge_conversations :: "string \<Rightarrow> conversation \<Rightarrow> conversation list \<Rightarrow> unit contacts" where
  "merge_conversations p v rows =
     (let ids = merged_ids (Some v) rows in
      seq_io (conversation_write (kv_id v) (\<lambda>c. c\<lparr>kv_contactId := p, kv_lastMessageId := None\<rparr>))
     (seq_io (if ids = [] then ret () else modify (move_messages (kv_id v) ids))
     (bind_io (gets (newest_message (kv_id v) (\<lambda>_. True))) (\<lambda>newest.
      bind_io (gets (newest_message (kv_id v) (\<lambda>m. km_direction m = ''incoming''))) (\<lambda>incoming.
      conversation_write (kv_id v) (survivor_conversation p v rows newest incoming))))))"

definition move_runs :: "string \<Rightarrow> string \<Rightarrow> string \<Rightarrow> kstate \<Rightarrow> kstate" where
  "move_runs w p q s =
     s\<lparr>k_runs := upd_where (\<lambda>r. kr_workspaceId r = w \<and> kr_contactId r = q) (\<lambda>r. r\<lparr>kr_contactId := p\<rparr>) (k_runs s)\<rparr>"

definition same_session :: "mail_history \<Rightarrow> mail_history \<Rightarrow> bool" where
  "same_session h g =
     (kh_userId g = kh_userId h \<and> kh_type g = kh_type h \<and> kh_inactivitySessionId g = kh_inactivitySessionId h)"

definition merge_history_row :: "string \<Rightarrow> string \<Rightarrow> mail_history \<Rightarrow> unit contacts" where
  "merge_history_row w p h s =
     (if list_ex (\<lambda>g. same_session h g \<and> kh_workspaceId g = w \<and> kh_contactId g = Some p) (k_history s)
      then (Inr (), s\<lparr>k_history := filter (\<lambda>g. kh_id g \<noteq> kh_id h) (k_history s)\<rparr>)
      else if list_ex (\<lambda>g. same_session h g \<and> kh_contactId g = Some p) (k_history s) then (Inl PrismaP2002, s)
      else (Inr (), s\<lparr>k_history := upd_where (\<lambda>g. kh_id g = kh_id h) (\<lambda>g. g\<lparr>kh_contactId := Some p\<rparr>) (k_history s)\<rparr>))"

definition merge_history :: "string \<Rightarrow> string \<Rightarrow> string \<Rightarrow> unit contacts" where
  "merge_history w p q =
     bind_io (gets (\<lambda>s. filter (\<lambda>h. kh_workspaceId h = w \<and> kh_contactId h = Some q) (k_history s)))
      (for_io (merge_history_row w p))"

definition retire :: "string \<Rightarrow> string option \<Rightarrow> int \<Rightarrow> contact \<Rightarrow> contact" where
  "retire p actor t c =
     c\<lparr>kt_status := Some ''merged'', kt_mergedIntoContactId := Some p, kt_mergedAt := Some t, kt_mergedByUserId := actor,
       kt_assigneeId := None, kt_teamId := None\<rparr>"

section \<open>The merge\<close>

record merge_result =
  ms_mergeRunId :: string
  ms_contact :: "contact_response option"
  ms_survivorConversationId :: "string option"
  ms_mergedConversationIds :: "string list"
  ms_survivorConversation :: "conversation option"
  ms_mergedContactName :: string
  ms_survivorContactName :: string

definition contact_label :: "contact \<Rightarrow> string" where
  "contact_label c = js_trim (kt_firstName c @ '' '' @ js_default (kt_lastName c) [])"

definition run_of :: "string \<Rightarrow> string \<Rightarrow> string \<Rightarrow> string \<Rightarrow> merge_dto \<Rightarrow> merge_preview \<Rightarrow> merge_resolution \<Rightarrow> string option \<Rightarrow> string list \<Rightarrow> string option \<Rightarrow> merge_run" where
  "run_of i w p q d pv r survivor ids actor =
     \<lparr>mg_id = i, mg_workspaceId = w, mg_primaryContactId = p, mg_secondaryContactId = q,
      mg_source = js_default (md_source d) ''inbox_sidebar'',
      mg_confidenceScore = js_default (md_confidenceScore d) (pv_confidenceScore pv),
      mg_reasonCodes = js_default (md_reasonCodes d) (pv_reasonCodes pv), mg_resolution = r, mg_impact = pv_impact pv,
      mg_survivorConversationId = survivor, mg_mergedConversationIds = ids, mg_executedByUserId = actor\<rparr>"

text \<open>The two contacts of the transaction, read again inside of it.\<close>

definition merge_pair :: "string \<Rightarrow> string \<Rightarrow> string \<Rightarrow> (contact \<times> contact) contacts" where
  "merge_pair w p q =
     bind_io (getEditableContact w p True) (\<lambda>primary.
     bind_io (getEditableContact w q True) (\<lambda>secondary.
     if kt_mergedIntoContactId primary \<noteq> None then throw (ConflictException ''The primary contact is already merged'')
     else if kt_mergedIntoContactId secondary \<noteq> None then throw (ConflictException ''The duplicate contact is already merged'')
     else ret (primary, secondary)))"

definition move_rows :: "string \<Rightarrow> string \<Rightarrow> string \<Rightarrow> merge_resolution \<Rightarrow> unit contacts" where
  "move_rows w p q r =
     seq_io (modify (merge_tags r p q))
    (seq_io (modify (merge_channels w p q))
    (seq_io (bind_io (gets (conversations_of w p q)) (\<lambda>rows.
              case survivor_of p rows of None \<Rightarrow> ret () | Some v \<Rightarrow> merge_conversations p v rows))
    (seq_io (modify (move_runs w p q))
     (merge_history w p q))))"

definition merge_tx :: "contact_env \<Rightarrow> string \<Rightarrow> string \<Rightarrow> merge_dto \<Rightarrow> string option \<Rightarrow> merge_preview \<Rightarrow> merge_resolution \<Rightarrow> merge_result contacts" where
  "merge_tx E w p d actor pv r =
     (let q = md_secondaryContactId d in
      bind_io (merge_pair w p q) (\<lambda>(primary, secondary).
      seq_io (contact_write p (survivor_fields r primary secondary))
     (bind_io (gets (conversations_of w p q)) (\<lambda>rows.
      let survivor = survivor_of p rows; ids = merged_ids survivor rows in
      seq_io (move_rows w p q r)
     (seq_io (bind_io (gets k_now) (\<lambda>now. contact_write q (retire p actor now)))
     (bind_io (contact_id E) (\<lambda>i.
      seq_io (modify (\<lambda>s. s\<lparr>k_mergeRuns := k_mergeRuns s @ [run_of i w p q d pv r (map_option kv_id survivor) ids actor]\<rparr>))
     (gets (\<lambda>s.
        \<lparr>ms_mergeRunId = i, ms_contact = map_option (toContactResponse s) (kfind p s),
         ms_survivorConversationId = map_option kv_id survivor, ms_mergedConversationIds = ids,
         ms_survivorConversation = (case survivor of None \<Rightarrow> None | Some v \<Rightarrow> find (\<lambda>c. kv_id c = kv_id v) (k_convs s)),
         ms_mergedContactName = contact_label secondary, ms_survivorContactName = contact_label primary\<rparr>)))))))))"

definition merge_activity :: "string \<Rightarrow> string \<Rightarrow> string \<Rightarrow> string option \<Rightarrow> string \<Rightarrow> merge_result \<Rightarrow> activity_dto" where
  "merge_activity w p q actor v m =
     \<lparr>ad_workspaceId = w, ad_conversationId = v, ad_eventType = ''merge_contact'', ad_actorId = actor, ad_actorType = None,
      ad_subjectUserId = None, ad_subjectTeamId = None,
      ad_metadata = JObj [(''mergedContactId'', JStr q), (''mergedContactName'', JStr (ms_mergedContactName m)),
        (''survivorContactId'', JStr p), (''survivorContactName'', JStr (ms_survivorContactName m)),
        (''mergedConversationIds'', JArr (map JStr (ms_mergedConversationIds m))), (''survivorConversationId'', JStr v)]\<rparr>"

definition activity_record :: "contact_env \<Rightarrow> activity_dto \<Rightarrow> unit contacts" where
  "activity_record E d =
     bind_io (contact_id E) (\<lambda>i.
     bind_io (\<lambda>s. let a = activity_of i (k_now s) d in (Inr a, s\<lparr>k_activities := k_activities s @ [a]\<rparr>)) (\<lambda>a.
     kemit (ActivityUpsert (ad_workspaceId d) (ad_conversationId d) a)))"

definition announce_merge :: "contact_env \<Rightarrow> string \<Rightarrow> string \<Rightarrow> string \<Rightarrow> string option \<Rightarrow> merge_result \<Rightarrow> unit contacts" where
  "announce_merge E w p q actor m =
     seq_io (if js_truthy (ms_survivorConversationId m)
             then activity_record E (merge_activity w p q actor (the (ms_survivorConversationId m)) m) else ret ())
      (case ms_contact m of
         None \<Rightarrow> ret ()
       | Some c \<Rightarrow>
           seq_io (kemit (ContactUpdated w c))
          (seq_io (kemit (ContactMerged w p q (ms_mergeRunId m) (ms_survivorConversationId m) (ms_mergedConversationIds m)))
           (case ms_survivorConversation m of None \<Rightarrow> ret () | Some v \<Rightarrow> kemit (ConversationUpdated v))))"

definition mergeContacts :: "contact_env \<Rightarrow> string \<Rightarrow> string \<Rightarrow> merge_dto \<Rightarrow> string option \<Rightarrow> merge_result contacts" where
  "mergeContacts E w p d actor =
     bind_io (getMergePreview w p (md_secondaryContactId d)) (\<lambda>pv.
     bind_io (in_transaction (merge_tx E w p d actor pv (resolve_merge (pv_suggestedResolution pv) (md_resolution d)))) (\<lambda>m.
     seq_io (announce_merge E w p (md_secondaryContactId d) actor m) (ret m)))"

text \<open>The older route of the controller: the same merge, marked by its source.\<close>

definition mergeLegacy :: "contact_env \<Rightarrow> string \<Rightarrow> string \<Rightarrow> string \<Rightarrow> resolution_dto option \<Rightarrow> string option \<Rightarrow> merge_result contacts" where
  "mergeLegacy E w keepId removeId merged actor =
     mergeContacts E w keepId
       \<lparr>md_secondaryContactId = removeId, md_source = Some ''legacy_merge_endpoint'', md_reasonCodes = None,
        md_confidenceScore = None, md_resolution = merged\<rparr> actor"

end
