(* ===== verification/Contact_Moves.thy ===== *)
theory Contact_Moves
  imports Contact_Merge
begin

text \<open>
  What a merge does to the rows of the two contacts: a refused merge changes nothing; a merge that succeeds
  moves every message, event and workflow run, leaves one conversation and nothing that belongs to the
  retired contact.
\<close>

named_theorems merge_defs \<open>definitions of the stages of a merge\<close>

lemmas merge_stage_defs [merge_defs] = merge_tags_def merge_channels_def move_runs_def

interpretation unchanged: step_order "(=) :: kstate \<Rightarrow> kstate \<Rightarrow> bool"
  by unfold_locales simp_all

lemma editable_keeps: "keeps (=) (getEditableContact w i a)"
  by (rule keepsI) (simp add: getEditableContact_def split: option.split)

lemma duplicates_keeps: "keeps (=) (findDuplicates w i)"
  by (rule keepsI) (simp add: findDuplicates_def split: option.split)

lemma preview_keeps: "keeps (=) (getMergePreview w p q)"
  unfolding getMergePreview_def Let_def
  by (intro unchanged.r_intros editable_keeps duplicates_keeps)

lemma pair_keeps: "keeps (=) (merge_pair w p q)"
  unfolding merge_pair_def by (intro unchanged.r_intros editable_keeps)

lemma editable_run:
  "getEditableContact w i a s = (Inr c, t) \<Longrightarrow> t = s \<and> kfind_in w i s = Some c"
  by (auto simp: getEditableContact_def split: option.splits if_splits)

lemma pair_run:
  assumes "merge_pair w p q s = (Inr (c, d), t)"
  shows "t = s" and "kfind_in w p s = Some c" and "kfind_in w q s = Some d"
    and "kt_mergedIntoContactId c = None" and "kt_mergedIntoContactId d = None"
  using assms unfolding merge_pair_def
  by (auto simp: ret_def elim!: bind_Inr dest!: editable_run split: if_splits)

lemma preview_run:
  assumes "getMergePreview w p q s = (Inr pv, t)"
  shows "t = s" and "p \<noteq> q"
proof -
  show "t = s" using keeps_result [OF preview_keeps assms] by simp
  show "p \<noteq> q" using assms by (auto simp: getMergePreview_def)
qed

text \<open>What follows the transaction never fails, and adds one event to the history.\<close>

lemma announce_run: "\<exists>t. announce_merge E w p q actor m s = (Inr (), t)"
  by (simp add: announce_merge_def activity_record_def contact_id_def kemit_def io_simps Let_def split: option.split)

lemma announce_tables:
  assumes "announce_merge E w p q actor m s = (r, t)"
  shows "k_contacts t = k_contacts s" and "k_convs t = k_convs s" and "k_messages t = k_messages s"
    and "k_runs t = k_runs s" and "k_contactTags t = k_contactTags s" and "k_channels t = k_channels s"
    and "k_history t = k_history s"
    and "\<exists>new. k_activities t = k_activities s @ new"
  using assms
  by (auto simp: announce_merge_def activity_record_def contact_id_def kemit_def io_simps Let_def split: option.splits if_splits)

section \<open>The transaction that succeeds\<close>

lemma contact_write_run:
  assumes "contact_write i f s = (Inr c, t)"
  shows "t = s\<lparr>k_contacts := upd_where (\<lambda>c. kt_id c = i) (\<lambda>c. (f c)\<lparr>kt_updatedAt := k_now s\<rparr>) (k_contacts s)\<rparr>"
  using assms by (auto simp: contact_write_def Let_def split: option.splits if_splits)

lemma history_row_frame:
  "merge_history_row w p h s = (r, t) \<Longrightarrow> t = s\<lparr>k_history := k_history t\<rparr>"
  by (auto simp: merge_history_row_def split: if_splits)

lemma history_rows_frame:
  "for_io (merge_history_row w p) hs s = (r, t) \<Longrightarrow> t = s\<lparr>k_history := k_history t\<rparr>"
proof (induction hs arbitrary: s)
  case Nil
  then show ?case by (simp add: ret_def)
next
  case (Cons h hs)
  obtain q u where row: "merge_history_row w p h s = (q, u)" by fastforce
  have su: "u = s\<lparr>k_history := k_history u\<rparr>" by (rule history_row_frame [OF row])
  show ?case
  proof (cases q)
    case (Inl e)
    with row Cons.prems su show ?thesis by (simp add: io_simps)
  next
    case (Inr x)
    with row Cons.prems have "for_io (merge_history_row w p) hs u = (r, t)" by (simp add: io_simps)
    from Cons.IH [OF this] su show ?thesis by (metis kstate.update_convs(10) kstate.surjective kstate.select_convs(10))
  qed
qed

text \<open>The conversations of the two contacts by their identifiers.\<close>

definition merged_set :: "string \<Rightarrow> string \<Rightarrow> string \<Rightarrow> kstate \<Rightarrow> string set" where
  "merged_set w p q s = kv_id ` {c \<in> set (k_convs s). kv_workspaceId c = w \<and> (kv_contactId c = p \<or> kv_contactId c = q)}"

lemma set_conversations_of:
  "set (conversations_of w p q s) = {c \<in> set (k_convs s). kv_workspaceId c = w \<and> (kv_contactId c = p \<or> kv_contactId c = q)}"
  by (simp add: conversations_of_def conversation_order_def)

lemma survivor_None: "survivor_of p rows = None \<longleftrightarrow> rows = []"
  by (auto simp: survivor_of_def split: list.split)

lemma survivor_in: "survivor_of p rows = Some v \<Longrightarrow> v \<in> set rows"
  by (auto simp: survivor_of_def filter_eq_Cons_iff split: list.splits)

text \<open>A contact that has conversations of its own keeps one of them.\<close>

lemma survivor_prefers_primary:
  "survivor_of p rows = Some v \<Longrightarrow> c \<in> set rows \<Longrightarrow> kv_contactId c = p \<Longrightarrow> kv_contactId v = p"
  by (auto simp: survivor_of_def filter_empty_conv filter_eq_Cons_iff split: list.splits)

lemma merged_ids_set:
  "set (merged_ids (Some v) rows) = kv_id ` set rows - {kv_id v}"
  by (auto simp: merged_ids_def)

lemma moved_messages:
  assumes "v \<notin> set ids"
  shows "k_messages (move_messages v ids s) =
           upd_where (\<lambda>m. km_conversationId m \<in> set ids) (\<lambda>m. m\<lparr>km_conversationId := v\<rparr>) (k_messages s)"
    and "k_activities (move_messages v ids s) =
           upd_where (\<lambda>a. ay_conversationId a \<in> set ids) (\<lambda>a. a\<lparr>ay_conversationId := v\<rparr>) (k_activities s)"
  using assms by (auto simp: move_messages_def delete_conversations_def upd_where_def intro!: filter_True)

lemma moved_convs:
  "k_convs (move_messages v ids s) = filter (\<lambda>c. kv_id c \<notin> set ids) (k_convs s)"
proof -
  have "filter (\<lambda>c. kv_id c \<notin> set ids) (upd_where (\<lambda>c. kv_id c \<in> set ids) (\<lambda>c. c\<lparr>kv_lastMessageId := None\<rparr>) rows)
          = filter (\<lambda>c. kv_id c \<notin> set ids) rows" for rows
    by (induction rows) auto
  then show ?thesis by (simp add: move_messages_def delete_conversations_def)
qed

lemma conversation_write_run:
  assumes "conversation_write i f s = (Inr u, t)"
  shows "t = s\<lparr>k_convs := upd_where (\<lambda>c. kv_id c = i) f (k_convs s)\<rparr>" and "\<exists>c \<in> set (k_convs s). kv_id c = i"
  using assms by (auto simp: conversation_write_def split: option.splits if_splits dest: find_Some_in)

text \<open>The conversations after the merge: the others are gone and the survivor carries what they held together.\<close>

definition final_survivor :: "string \<Rightarrow> conversation \<Rightarrow> conversation list \<Rightarrow> kstate \<Rightarrow> conversation \<Rightarrow> conversation" where
  "final_survivor p v rows s c =
     survivor_conversation p v rows (newest_message (kv_id v) (\<lambda>_. True) s)
       (newest_message (kv_id v) (\<lambda>m. km_direction m = ''incoming'') s) (c\<lparr>kv_contactId := p, kv_lastMessageId := None\<rparr>)"

lemma merge_conversations_run:
  assumes run: "merge_conversations p v rows s = (Inr u, t)"
  shows "t = s\<lparr>k_convs := k_convs t, k_messages := k_messages t, k_activities := k_activities t\<rparr>"
    and "k_messages t = upd_where (\<lambda>m. km_conversationId m \<in> set (merged_ids (Some v) rows)) (\<lambda>m. m\<lparr>km_conversationId := kv_id v\<rparr>) (k_messages s)"
    and "k_activities t = upd_where (\<lambda>a. ay_conversationId a \<in> set (merged_ids (Some v) rows)) (\<lambda>a. a\<lparr>ay_conversationId := kv_id v\<rparr>) (k_activities s)"
    and "k_convs t = upd_where (\<lambda>c. kv_id c = kv_id v) (final_survivor p v rows t)
           (filter (\<lambda>c. kv_id c \<notin> set (merged_ids (Some v) rows)) (k_convs s))"
    and "\<exists>c \<in> set (k_convs s). kv_id c = kv_id v"
proof -
  let ?ids = "merged_ids (Some v) rows"
  let ?f = "\<lambda>c. c\<lparr>kv_contactId := p, kv_lastMessageId := None\<rparr>"
  have fresh: "kv_id v \<notin> set ?ids" by (simp add: merged_ids_set)
  from run obtain s1 s2 new inc where
      first: "conversation_write (kv_id v) ?f s = (Inr (), s1)"
    and moved: "s2 = (if ?ids = [] then s1 else move_messages (kv_id v) ?ids s1)"
    and new: "new = newest_message (kv_id v) (\<lambda>_. True) s2"
    and inc: "inc = newest_message (kv_id v) (\<lambda>m. km_direction m = ''incoming'') s2"
    and last: "conversation_write (kv_id v) (survivor_conversation p v rows new inc) s2 = (Inr u, t)"
    unfolding merge_conversations_def Let_def
    by (elim seq_Inr bind_Inr) (auto simp: io_simps split: if_splits)
  note s1 = conversation_write_run(1) [OF first]
  note t = conversation_write_run(1) [OF last]
  show "\<exists>c \<in> set (k_convs s). kv_id c = kv_id v" by (rule conversation_write_run(2) [OF first])
  have upd_nil: "upd_where (\<lambda>x. False) g xs = xs" for g :: "'z \<Rightarrow> 'z" and xs
    by (simp add: upd_where_def)
  show "k_messages t = upd_where (\<lambda>m. km_conversationId m \<in> set ?ids) (\<lambda>m. m\<lparr>km_conversationId := kv_id v\<rparr>) (k_messages s)"
    by (simp add: t moved s1 moved_messages [OF fresh] upd_nil)
  show "k_activities t = upd_where (\<lambda>a. ay_conversationId a \<in> set ?ids) (\<lambda>a. a\<lparr>ay_conversationId := kv_id v\<rparr>) (k_activities s)"
    by (simp add: t moved s1 moved_messages [OF fresh] upd_nil)
  show "t = s\<lparr>k_convs := k_convs t, k_messages := k_messages t, k_activities := k_activities t\<rparr>"
    by (simp add: t moved s1 move_messages_def delete_conversations_def)
  have conv2: "k_convs s2 = filter (\<lambda>c. kv_id c \<notin> set ?ids) (upd_where (\<lambda>c. kv_id c = kv_id v) ?f (k_convs s))"
    by (simp add: moved s1 moved_convs)
  have same_new: "newest_message i P t = newest_message i P s2" for i P
    by (simp add: newest_message_def t)
  have written: "upd_where (\<lambda>c. kv_id c = kv_id v) (survivor_conversation p v rows new inc)
      (filter (\<lambda>c. kv_id c \<notin> set ?ids) (upd_where (\<lambda>c. kv_id c = kv_id v) ?f cs))
    = upd_where (\<lambda>c. kv_id c = kv_id v) (final_survivor p v rows t) (filter (\<lambda>c. kv_id c \<notin> set ?ids) cs)" for cs
    using fresh by (induction cs) (simp_all add: final_survivor_def same_new new inc)
  have "k_convs t = upd_where (\<lambda>c. kv_id c = kv_id v) (survivor_conversation p v rows new inc) (k_convs s2)"
    by (simp add: t)
  also have "\<dots> = upd_where (\<lambda>c. kv_id c = kv_id v) (final_survivor p v rows t) (filter (\<lambda>c. kv_id c \<notin> set ?ids) (k_convs s))"
    unfolding conv2 by (rule written)
  finally show "k_convs t = \<dots>" .
qed

lemma merge_conversations_frame:
  assumes "merge_conversations p v rows s = (Inr u, t)"
  shows "k_runs t = k_runs s" and "k_channels t = k_channels s" and "k_contactTags t = k_contactTags s"
    and "k_contacts t = k_contacts s" and "k_now t = k_now s" and "k_lifecycles t = k_lifecycles s"
    and "k_mergeRuns t = k_mergeRuns s"
  by (subst merge_conversations_run(1) [OF assms], simp)+

lemma move_rows_run:
  assumes run: "move_rows w p q r s = (Inr u, t)"
  obtains s1 s2 s3 s4 where "s1 = merge_tags r p q s" and "s2 = merge_channels w p q s1"
    and "(case survivor_of p (conversations_of w p q s) of None \<Rightarrow> s3 = s2 | Some v \<Rightarrow>
           merge_conversations p v (conversations_of w p q s) s2 = (Inr (), s3))"
    and "s4 = move_runs w p q s3" and "merge_history w p q s4 = (Inr u, t)"
proof -
  have same: "conversations_of w p q (merge_channels w p q (merge_tags r p q s)) = conversations_of w p q s"
    by (simp add: conversations_of_def merge_stage_defs Let_def)
  show thesis
    using run unfolding move_rows_def
    by (elim seq_Inr bind_Inr) (auto simp: io_simps same split: option.splits intro: that)
qed

lemma move_rows_contacts:
  assumes "move_rows w p q r s = (Inr u, t)"
  shows "k_contacts t = k_contacts s" and "k_now t = k_now s" and "k_lifecycles t = k_lifecycles s"
    and "k_mergeRuns t = k_mergeRuns s"
proof -
  obtain s1 s2 s3 s4 where s1: "s1 = merge_tags r p q s" and s2: "s2 = merge_channels w p q s1"
    and conv: "case survivor_of p (conversations_of w p q s) of None \<Rightarrow> s3 = s2 | Some v \<Rightarrow>
           merge_conversations p v (conversations_of w p q s) s2 = (Inr (), s3)"
    and s4: "s4 = move_runs w p q s3" and hist: "merge_history w p q s4 = (Inr u, t)"
    using assms by (rule move_rows_run)
  have s3: "s3 = s2\<lparr>k_convs := k_convs s3, k_messages := k_messages s3, k_activities := k_activities s3\<rparr>"
    using conv by (auto split: option.splits dest: merge_conversations_run(1))
  have t: "t = s4\<lparr>k_history := k_history t\<rparr>"
    using hist history_rows_frame by (fastforce simp: merge_history_def bind_gets)
  have "k_contacts t = k_contacts s4" "k_now t = k_now s4" "k_lifecycles t = k_lifecycles s4" "k_mergeRuns t = k_mergeRuns s4"
    by (subst t, simp)+
  moreover have "k_contacts s3 = k_contacts s2" "k_now s3 = k_now s2" "k_lifecycles s3 = k_lifecycles s2" "k_mergeRuns s3 = k_mergeRuns s2"
    by (subst s3, simp)+
  ultimately show "k_contacts t = k_contacts s" and "k_now t = k_now s" and "k_lifecycles t = k_lifecycles s"
    and "k_mergeRuns t = k_mergeRuns s"
    by (simp_all add: s1 s2 s4 merge_stage_defs Let_def)
qed

definition merged_contacts :: "string \<Rightarrow> string \<Rightarrow> merge_resolution \<Rightarrow> contact \<Rightarrow> contact \<Rightarrow> string option \<Rightarrow> int \<Rightarrow> contact list \<Rightarrow> contact list" where
  "merged_contacts p q r primary secondary actor now cs =
     upd_where (\<lambda>c. kt_id c = q) (\<lambda>c. (retire p actor now c)\<lparr>kt_updatedAt := now\<rparr>)
      (upd_where (\<lambda>c. kt_id c = p) (\<lambda>c. (survivor_fields r primary secondary c)\<lparr>kt_updatedAt := now\<rparr>) cs)"

lemma merge_tx_run:
  assumes run: "merge_tx E w p d actor pv r s = (Inr m, t)"
  obtains primary secondary u where
    "kfind_in w p s = Some primary" and "kfind_in w (md_secondaryContactId d) s = Some secondary"
    and "kt_mergedIntoContactId primary = None" and "kt_mergedIntoContactId secondary = None"
    and "move_rows w p (md_secondaryContactId d) r
           (s\<lparr>k_contacts := upd_where (\<lambda>c. kt_id c = p) (\<lambda>c. (survivor_fields r primary secondary c)\<lparr>kt_updatedAt := k_now s\<rparr>) (k_contacts s)\<rparr>)
         = (Inr (), u)"
    and "t = u\<lparr>k_contacts := merged_contacts p (md_secondaryContactId d) r primary secondary actor (k_now s) (k_contacts s),
              k_seq := k_seq t, k_mergeRuns := k_mergeRuns t\<rparr>"
    and "ms_survivorConversationId m = map_option kv_id (survivor_of p (conversations_of w p (md_secondaryContactId d) s))"
proof -
  let ?q = "md_secondaryContactId d"
  let ?rows = "conversations_of w p ?q s"
  obtain primary secondary s0 where
      pair: "merge_pair w p ?q s = (Inr (primary, secondary), s0)"
    and rest: "seq_io (contact_write p (survivor_fields r primary secondary)) (bind_io (gets (conversations_of w p ?q)) (\<lambda>rows.
      seq_io (move_rows w p ?q r)
     (seq_io (bind_io (gets k_now) (\<lambda>now. contact_write ?q (retire p actor now)))
     (bind_io (contact_id E) (\<lambda>i.
      seq_io (modify (\<lambda>s. s\<lparr>k_mergeRuns := k_mergeRuns s @ [run_of i w p ?q d pv r (map_option kv_id (survivor_of p rows)) (merged_ids (survivor_of p rows) rows) actor]\<rparr>))
     (gets (\<lambda>s.
        \<lparr>ms_mergeRunId = i, ms_contact = map_option (toContactResponse s) (kfind p s),
         ms_survivorConversationId = map_option kv_id (survivor_of p rows), ms_mergedConversationIds = merged_ids (survivor_of p rows) rows,
         ms_survivorConversation = (case survivor_of p rows of None \<Rightarrow> None | Some v \<Rightarrow> find (\<lambda>c. kv_id c = kv_id v) (k_convs s)),
         ms_mergedContactName = contact_label secondary, ms_survivorContactName = contact_label primary\<rparr>))))))) s0 = (Inr m, t)"
    using run unfolding merge_tx_def Let_def by (elim bind_Inr) (auto split: prod.splits)
  obtain c1 s1 where wr: "contact_write p (survivor_fields r primary secondary) s0 = (Inr c1, s1)"
    using rest by (rule seq_Inr)
  have after_wr: "seq_io (contact_write p (survivor_fields r primary secondary)) n s0 = n s1" for n :: "'z contacts"
    by (simp add: io_simps wr)
  obtain u where mv: "move_rows w p ?q r s1 = (Inr (), u)"
    using rest by (auto simp: after_wr bind_gets elim!: seq_Inr)
  have after_mv: "seq_io (move_rows w p ?q r) n s1 = n u" for n :: "'z contacts"
    by (simp add: io_simps mv)
  obtain c2 u1 where ret: "contact_write ?q (retire p actor (k_now u)) u = (Inr c2, u1)"
    using rest by (auto simp: after_wr bind_gets after_mv elim!: seq_Inr)
  have t: "t = u1\<lparr>k_seq := k_seq t, k_mergeRuns := k_mergeRuns t\<rparr>"
    and m: "ms_survivorConversationId m = map_option kv_id (survivor_of p (conversations_of w p ?q s1))"
    using rest by (auto simp: wr mv ret io_simps contact_id_def)
  have s0: "s0 = s" by (rule pair_run(1) [OF pair])
  note s1 = contact_write_run [OF wr, unfolded s0]
  have rows: "conversations_of w p ?q s1 = ?rows" by (simp add: s1 conversations_of_def)
  note mc = move_rows_contacts [OF mv]
  have "t = u\<lparr>k_contacts := merged_contacts p ?q r primary secondary actor (k_now s) (k_contacts s),
              k_seq := k_seq t, k_mergeRuns := k_mergeRuns t\<rparr>"
    by (subst t) (simp add: contact_write_run [OF ret] mc merged_contacts_def s1)
  then show thesis
    by (rule that [OF pair_run(2-5) [OF pair, unfolded s0] mv [unfolded s1] _ m [unfolded rows]])
qed

text \<open>No row of the history is left with the retired contact.\<close>

lemma history_row_run:
  assumes "merge_history_row w p h s = (Inr u, t)" and "p \<noteq> q"
  shows "{g \<in> set (k_history t). kh_contactId g = Some q} = {g \<in> set (k_history s). kh_contactId g = Some q \<and> kh_id g \<noteq> kh_id h}"
  using assms by (auto simp: merge_history_row_def set_upd_where split: if_splits)

lemma history_rows_run:
  assumes "for_io (merge_history_row w p) hs s = (Inr u, t)" and "p \<noteq> q"
  shows "{g \<in> set (k_history t). kh_contactId g = Some q} = {g \<in> set (k_history s). kh_contactId g = Some q \<and> kh_id g \<notin> kh_id ` set hs}"
  using assms(1)
proof (induction hs arbitrary: s)
  case Nil
  then show ?case by (simp add: ret_def)
next
  case (Cons h hs)
  from Cons.prems obtain v where row: "merge_history_row w p h s = (Inr (), v)"
    and rest: "for_io (merge_history_row w p) hs v = (Inr u, t)" by (auto elim: seq_Inr)
  show ?case
    using Cons.IH [OF rest] history_row_run [OF row assms(2)] by auto
qed

lemma merge_history_run:
  assumes "merge_history w p q s = (Inr u, t)" and "p \<noteq> q"
  shows "\<forall>g \<in> set (k_history t). kh_workspaceId g = w \<longrightarrow> kh_contactId g \<noteq> Some q"
proof -
  let ?hs = "filter (\<lambda>h. kh_workspaceId h = w \<and> kh_contactId h = Some q) (k_history s)"
  have run: "for_io (merge_history_row w p) ?hs s = (Inr u, t)"
    using assms(1) by (simp add: merge_history_def bind_gets)
  have "{g \<in> set (k_history t). kh_contactId g = Some q}
      = {g \<in> set (k_history s). kh_contactId g = Some q \<and> kh_id g \<notin> kh_id ` set ?hs}"
    by (rule history_rows_run [OF run assms(2)])
  moreover have "kh_workspaceId g \<noteq> w" if "g \<in> set (k_history s)" "kh_contactId g = Some q" "kh_id g \<notin> kh_id ` set ?hs" for g
    using that by auto
  ultimately show ?thesis by blast
qed

lemma merge_channel_left:
  "p \<noteq> q \<Longrightarrow> {c \<in> set (fold (merge_channel p taken) chs rows). kc_contactId c = q}
     \<subseteq> {c \<in> set rows. kc_contactId c = q \<and> kc_id c \<notin> kc_id ` set chs}"
proof (induction chs arbitrary: rows)
  case Nil
  then show ?case by simp
next
  case (Cons ch chs)
  have "{c \<in> set (merge_channel p taken ch rows). kc_contactId c = q} \<subseteq> {c \<in> set rows. kc_contactId c = q \<and> kc_id c \<noteq> kc_id ch}"
    using Cons.prems by (auto simp: merge_channel_def set_upd_where)
  with Cons.IH [OF Cons.prems, of "merge_channel p taken ch rows"] show ?case by auto
qed

lemma merge_channels_left:
  assumes "p \<noteq> q" and c: "c \<in> set (k_channels (merge_channels w p q s))" and q: "kc_contactId c = q"
  shows "kc_workspaceId c \<noteq> w"
proof -
  let ?chs = "filter (\<lambda>c. kc_workspaceId c = w \<and> kc_contactId c = q) (k_channels s)"
  have "c \<in> {c \<in> set (fold (merge_channel p (map channel_key (channels_of p s))) ?chs (k_channels s)). kc_contactId c = q}"
    using c q by (simp add: merge_channels_def)
  then have "c \<in> {c \<in> set (k_channels s). kc_contactId c = q \<and> kc_id c \<notin> kc_id ` set ?chs}"
    by (rule set_mp [OF merge_channel_left [OF assms(1)]])
  then show ?thesis by auto
qed

lemma no_run_left:
  "p \<noteq> q \<Longrightarrow> \<not> list_ex (\<lambda>r. kr_workspaceId r = w \<and> kr_contactId r = q)
     (upd_where (\<lambda>r. kr_workspaceId r = w \<and> kr_contactId r = q) (\<lambda>r. r\<lparr>kr_contactId := p\<rparr>) rows)"
  by (induction rows) simp_all

lemma merge_tags_left: "t \<in> set (k_contactTags (merge_tags r p q s)) \<Longrightarrow> xt_contactId t \<noteq> q"
  by (simp add: merge_tags_def Let_def)

section \<open>The merge as a whole\<close>

lemma mergeContacts_refused:
  assumes "mergeContacts E w p d actor s = (Inl e, t)"
  shows "t = s"
proof (cases "getMergePreview w p (md_secondaryContactId d) s")
  case (Pair r u)
  have u: "u = s" using keeps_result [OF preview_keeps Pair] by simp
  show ?thesis
  proof (cases r)
    case (Inl e1)
    with Pair u assms show ?thesis by (simp add: mergeContacts_def io_simps)
  next
    case (Inr pv)
    obtain r2 u2 where tx: "in_transaction (merge_tx E w p d actor pv (resolve_merge (pv_suggestedResolution pv) (md_resolution d))) s = (r2, u2)"
      by fastforce
    show ?thesis
    proof (cases r2)
      case (Inl e2)
      with tx have "u2 = s" by (auto simp: in_transaction_def split: prod.splits sum.splits)
      with Pair u Inr tx Inl assms show ?thesis by (simp add: mergeContacts_def io_simps)
    next
      case (Inr m)
      obtain u3 where "announce_merge E w p (md_secondaryContactId d) actor m u2 = (Inr (), u3)"
        using announce_run by blast
      with Pair u \<open>r = Inr pv\<close> tx Inr assms show ?thesis by (simp add: mergeContacts_def io_simps)
    qed
  qed
qed

lemma mergeContacts_run:
  assumes "mergeContacts E w p d actor s = (Inr m, t)"
  obtains pv u where "getMergePreview w p (md_secondaryContactId d) s = (Inr pv, s)" and "p \<noteq> md_secondaryContactId d"
    and "merge_tx E w p d actor pv (resolve_merge (pv_suggestedResolution pv) (md_resolution d)) s = (Inr m, u)"
    and "announce_merge E w p (md_secondaryContactId d) actor m u = (Inr (), t)"
proof -
  obtain pv s1 where pv: "getMergePreview w p (md_secondaryContactId d) s = (Inr pv, s1)"
    and rest: "bind_io (in_transaction (merge_tx E w p d actor pv (resolve_merge (pv_suggestedResolution pv) (md_resolution d))))
        (\<lambda>m. seq_io (announce_merge E w p (md_secondaryContactId d) actor m) (ret m)) s1 = (Inr m, t)"
    using assms unfolding mergeContacts_def by (rule bind_Inr)
  note s1 = preview_run [OF pv]
  obtain m1 u where tx: "in_transaction (merge_tx E w p d actor pv (resolve_merge (pv_suggestedResolution pv) (md_resolution d))) s1 = (Inr m1, u)"
    and last: "seq_io (announce_merge E w p (md_secondaryContactId d) actor m1) (ret m1) u = (Inr m, t)"
    using rest by (rule bind_Inr)
  obtain v where said: "announce_merge E w p (md_secondaryContactId d) actor m1 u = (Inr (), v)" and v: "ret m1 v = (Inr m, t)"
    using last by (auto elim: seq_Inr)
  from v have "m1 = m" and "v = t" by (simp_all add: ret_def)
  with tx said s1 pv show thesis
    by (intro that) (auto simp: in_transaction_def split: prod.splits sum.splits)
qed

text \<open>The rows of a contact in a workspace, by table.\<close>

definition has_rows :: "string \<Rightarrow> string \<Rightarrow> kstate \<Rightarrow> bool" where
  "has_rows w q s =
     (list_ex (\<lambda>c. kv_workspaceId c = w \<and> kv_contactId c = q) (k_convs s)
      \<or> list_ex (\<lambda>c. kc_workspaceId c = w \<and> kc_contactId c = q) (k_channels s)
      \<or> list_ex (\<lambda>t. xt_contactId t = q) (k_contactTags s)
      \<or> list_ex (\<lambda>r. kr_workspaceId r = w \<and> kr_contactId r = q) (k_runs s)
      \<or> list_ex (\<lambda>h. kh_workspaceId h = w \<and> kh_contactId h = Some q) (k_history s))"

lemma moved_all:
  "(\<And>x. k x = v \<Longrightarrow> f x = x) \<Longrightarrow> upd_where (\<lambda>x. k x \<in> M - {v}) f xs = map (\<lambda>x. if k x \<in> M then f x else x) xs"
  by (auto simp: upd_where_def)

lemma merged_set_rows: "merged_set w p q s = kv_id ` set (conversations_of w p q s)"
  by (simp add: merged_set_def set_conversations_of)

lemma merged_survivor:
  assumes run: "merge_conversations p v (conversations_of w p q s) s2 = (Inr (), s3)" and same: "k_convs s2 = k_convs s"
    and pq: "p \<noteq> q" and v: "v \<in> set (conversations_of w p q s)"
  shows "c \<in> set (k_convs s3) \<Longrightarrow> kv_workspaceId c = w \<Longrightarrow> kv_contactId c = p \<or> kv_contactId c = q \<Longrightarrow> kv_id c = kv_id v \<and> kv_contactId c = p"
    and "\<exists>c \<in> set (k_convs s3). kv_id c = kv_id v \<and> kv_workspaceId c = w \<and> kv_contactId c = p
           \<and> kv_unreadCount c = sum_list (map kv_unreadCount (conversations_of w p q s))"
proof -
  let ?rows = "conversations_of w p q s"
  let ?kept = "filter (\<lambda>c. kv_id c \<notin> set (merged_ids (Some v) ?rows)) (k_convs s)"
  have convs: "k_convs s3 = upd_where (\<lambda>c. kv_id c = kv_id v) (final_survivor p v ?rows s3) ?kept"
    using merge_conversations_run(4) [OF run] same by simp
  have final: "kv_id (final_survivor p v ?rows s3 c) = kv_id c" "kv_contactId (final_survivor p v ?rows s3 c) = p"
    "kv_unreadCount (final_survivor p v ?rows s3 c) = sum_list (map kv_unreadCount ?rows)" for c
    by (simp_all add: final_survivor_def survivor_conversation_def)
  { assume c: "c \<in> set (k_convs s3)" "kv_workspaceId c = w" "kv_contactId c = p \<or> kv_contactId c = q"
    from c(1) have "c \<in> (\<lambda>c. if kv_id c = kv_id v then final_survivor p v ?rows s3 c else c) ` set ?kept"
      unfolding convs set_upd_where .
    then obtain d where d: "c = (if kv_id d = kv_id v then final_survivor p v ?rows s3 d else d)" "d \<in> set ?kept"
      by (rule imageE)
    show "kv_id c = kv_id v \<and> kv_contactId c = p"
    proof (cases "kv_id d = kv_id v")
      case True
      with d final show ?thesis by simp
    next
      case False
      with c d have "d \<in> set ?rows" by (simp add: set_conversations_of)
      with False d show ?thesis by (auto simp: merged_ids_set)
    qed }
  have "v \<in> set ?kept" and ws: "kv_workspaceId v = w"
    using v by (auto simp: merged_ids_set set_conversations_of)
  then have "final_survivor p v ?rows s3 v \<in> set (k_convs s3)"
    unfolding convs set_upd_where by (auto simp: image_iff intro!: bexI [of _ v])
  moreover have "kv_workspaceId (final_survivor p v ?rows s3 v) = w"
    using ws by (simp add: final_survivor_def survivor_conversation_def)
  ultimately show "\<exists>c \<in> set (k_convs s3). kv_id c = kv_id v \<and> kv_workspaceId c = w \<and> kv_contactId c = p
      \<and> kv_unreadCount c = sum_list (map kv_unreadCount ?rows)"
    using final by metis
qed

lemma moved_conversations:
  assumes conv: "case survivor_of p (conversations_of w p q s) of None \<Rightarrow> s3 = s2 | Some v \<Rightarrow> merge_conversations p v (conversations_of w p q s) s2 = (Inr (), s3)"
    and first: "k_convs s2 = k_convs s" "k_messages s2 = k_messages s" "k_activities s2 = k_activities s"
    and pq: "p \<noteq> q" and survivor: "vo = map_option kv_id (survivor_of p (conversations_of w p q s))"
  shows "k_messages s3 = map (\<lambda>m. if km_conversationId m \<in> merged_set w p q s then m\<lparr>km_conversationId := the vo\<rparr> else m) (k_messages s)
      \<and> k_activities s3 = map (\<lambda>a. if ay_conversationId a \<in> merged_set w p q s then a\<lparr>ay_conversationId := the vo\<rparr> else a) (k_activities s)
      \<and> (\<forall>c \<in> set (k_convs s3). kv_workspaceId c = w \<and> (kv_contactId c = p \<or> kv_contactId c = q) \<longrightarrow> kv_contactId c = p \<and> vo = Some (kv_id c))
      \<and> (\<forall>i. vo = Some i \<longrightarrow> (\<exists>c \<in> set (k_convs s3). kv_id c = i \<and> kv_workspaceId c = w \<and> kv_contactId c = p \<and> kv_unreadCount c = sum_list (map kv_unreadCount (conversations_of w p q s))))"
proof (cases "survivor_of p (conversations_of w p q s)")
  case None
  then have "(conversations_of w p q s) = []" by (simp add: survivor_None)
  then have "merged_set w p q s = {}" and "\<forall>c \<in> set (k_convs s). \<not> (kv_workspaceId c = w \<and> (kv_contactId c = p \<or> kv_contactId c = q))"
    using set_conversations_of [of w p q s] by (auto simp: merged_set_rows)
  with None conv first survivor show ?thesis by simp
next
  case (Some v)
  with conv have mc: "merge_conversations p v (conversations_of w p q s) s2 = (Inr (), s3)" by simp
  have v: "v \<in> set (conversations_of w p q s)" by (rule survivor_in [OF Some])
  have vo: "vo = Some (kv_id v)" using survivor Some by simp
  have ids: "set (merged_ids (Some v) (conversations_of w p q s)) = merged_set w p q s - {kv_id v}" by (simp add: merged_ids_set merged_set_rows)
  note msg = merge_conversations_run(2,3) [OF mc, unfolded ids]
  have m1: "k_messages s3 = map (\<lambda>m. if km_conversationId m \<in> merged_set w p q s then m\<lparr>km_conversationId := the vo\<rparr> else m) (k_messages s)"
    unfolding msg(1) first vo option.sel by (rule moved_all) (rule chat_message.equality, simp_all)
  have m2: "k_activities s3 = map (\<lambda>a. if ay_conversationId a \<in> merged_set w p q s then a\<lparr>ay_conversationId := the vo\<rparr> else a) (k_activities s)"
    unfolding msg(2) first vo option.sel by (rule moved_all) (rule activity_row.equality, simp_all)
  have only: "\<forall>c \<in> set (k_convs s3). kv_workspaceId c = w \<and> (kv_contactId c = p \<or> kv_contactId c = q) \<longrightarrow> kv_contactId c = p \<and> vo = Some (kv_id c)"
    using merged_survivor(1) [OF mc first(1) pq v] vo by simp
  have one: "\<forall>i. vo = Some i \<longrightarrow> (\<exists>c \<in> set (k_convs s3). kv_id c = i \<and> kv_workspaceId c = w \<and> kv_contactId c = p \<and> kv_unreadCount c = sum_list (map kv_unreadCount (conversations_of w p q s)))"
    using merged_survivor(2) [OF mc first(1) pq v] vo by simp
  show ?thesis by (intro conjI m1 m2 only one)
qed

lemma moved_rows:
  assumes run: "move_rows w p q r s = (Inr u, t)" and pq: "p \<noteq> q"
    and survivor: "vo = map_option kv_id (survivor_of p (conversations_of w p q s))"
  shows "k_messages t = map (\<lambda>m. if km_conversationId m \<in> merged_set w p q s then m\<lparr>km_conversationId := the vo\<rparr> else m) (k_messages s)"
    and "k_activities t = map (\<lambda>a. if ay_conversationId a \<in> merged_set w p q s then a\<lparr>ay_conversationId := the vo\<rparr> else a) (k_activities s)"
    and "k_runs t = map (\<lambda>r. if kr_workspaceId r = w \<and> kr_contactId r = q then r\<lparr>kr_contactId := p\<rparr> else r) (k_runs s)"
    and "merged_set w p q t \<subseteq> set_option vo"
    and "\<not> has_rows w q t"
    and "vo = Some i \<Longrightarrow> \<exists>c \<in> set (k_convs t). kv_id c = i \<and> kv_workspaceId c = w \<and> kv_contactId c = p
           \<and> kv_unreadCount c = sum_list (map kv_unreadCount (conversations_of w p q s))"
proof -
  let ?rows = "conversations_of w p q s"
  let ?M = "merged_set w p q s"
  obtain s1 s2 s3 s4 where s1: "s1 = merge_tags r p q s" and s2: "s2 = merge_channels w p q s1"
    and conv: "case survivor_of p ?rows of None \<Rightarrow> s3 = s2 | Some v \<Rightarrow> merge_conversations p v ?rows s2 = (Inr (), s3)"
    and s4: "s4 = move_runs w p q s3" and hist: "merge_history w p q s4 = (Inr u, t)"
    using run by (rule move_rows_run)
  have t: "t = s4\<lparr>k_history := k_history t\<rparr>"
    using hist history_rows_frame by (fastforce simp: merge_history_def bind_gets)
  have last: "k_convs t = k_convs s3" "k_messages t = k_messages s3" "k_activities t = k_activities s3"
    "k_channels t = k_channels s3" "k_contactTags t = k_contactTags s3"
    "k_runs t = upd_where (\<lambda>r. kr_workspaceId r = w \<and> kr_contactId r = q) (\<lambda>r. r\<lparr>kr_contactId := p\<rparr>) (k_runs s3)"
    by (subst t, simp add: s4 move_runs_def)+
  have first: "k_convs s2 = k_convs s" "k_messages s2 = k_messages s" "k_activities s2 = k_activities s" "k_runs s2 = k_runs s"
    "k_contactTags s2 = k_contactTags s1"
    by (simp_all add: s2 s1 merge_channels_def merge_tags_def Let_def)
  have s3: "k_runs s3 = k_runs s" "k_channels s3 = k_channels s2" "k_contactTags s3 = k_contactTags s1"
    using conv by (simp_all add: first merge_conversations_frame split: option.splits)
  show "k_runs t = map (\<lambda>r. if kr_workspaceId r = w \<and> kr_contactId r = q then r\<lparr>kr_contactId := p\<rparr> else r) (k_runs s)"
    by (simp add: last s3 upd_where_def)
  note msgs = moved_conversations [OF conv first(1-3) pq survivor]
  from msgs show "k_messages t = map (\<lambda>m. if km_conversationId m \<in> ?M then m\<lparr>km_conversationId := the vo\<rparr> else m) (k_messages s)"
    and "k_activities t = map (\<lambda>a. if ay_conversationId a \<in> ?M then a\<lparr>ay_conversationId := the vo\<rparr> else a) (k_activities s)"
    and "merged_set w p q t \<subseteq> set_option vo"
    and "vo = Some i \<Longrightarrow> \<exists>c \<in> set (k_convs t). kv_id c = i \<and> kv_workspaceId c = w \<and> kv_contactId c = p
           \<and> kv_unreadCount c = sum_list (map kv_unreadCount ?rows)"
    by (auto simp: last merged_set_def)
  have "kc_workspaceId c \<noteq> w" if "c \<in> set (k_channels t)" and "kc_contactId c = q" for c
    using that by (intro merge_channels_left [OF pq, of c w s1]) (simp_all add: last s3 s2)
  then have chans: "\<not> list_ex (\<lambda>c. kc_workspaceId c = w \<and> kc_contactId c = q) (k_channels t)"
    by (auto simp: list_ex_iff)
  have "\<not> list_ex (\<lambda>h. kh_workspaceId h = w \<and> kh_contactId h = Some q) (k_history t)"
    using merge_history_run [OF hist pq] by (auto simp: list_ex_iff)
  moreover have "\<not> list_ex (\<lambda>t. xt_contactId t = q) (k_contactTags t)"
    unfolding last s3 s1 list_ex_iff using merge_tags_left by blast
  moreover have "\<not> list_ex (\<lambda>c. kv_workspaceId c = w \<and> kv_contactId c = q) (k_convs t)"
    using msgs pq by (auto simp: last list_ex_iff)
  moreover have "\<not> list_ex (\<lambda>r. kr_workspaceId r = w \<and> kr_contactId r = q) (k_runs t)"
    unfolding last s3 by (rule no_run_left [OF pq])
  ultimately show "\<not> has_rows w q t" using chans by (simp add: has_rows_def)
qed

lemma conversations_of_contacts [simp]:
  "conversations_of w p q (s\<lparr>k_contacts := cs\<rparr>) = conversations_of w p q s"
  "merged_set w p q (s\<lparr>k_contacts := cs\<rparr>) = merged_set w p q s"
  by (simp_all add: conversations_of_def merged_set_def)

lemma merge_succeeded:
  assumes run: "mergeContacts E w p d actor s = (Inr m, t)"
  shows "let q = md_secondaryContactId d; old = merged_set w p q s; v = ms_survivorConversationId m in
       k_messages t = map (\<lambda>x. if km_conversationId x \<in> old then x\<lparr>km_conversationId := the v\<rparr> else x) (k_messages s)
       \<and> (\<exists>log. k_activities t = map (\<lambda>x. if ay_conversationId x \<in> old then x\<lparr>ay_conversationId := the v\<rparr> else x) (k_activities s) @ log)
       \<and> k_runs t = map (\<lambda>x. if kr_workspaceId x = w \<and> kr_contactId x = q then x\<lparr>kr_contactId := p\<rparr> else x) (k_runs s)
       \<and> (v = None \<longleftrightarrow> old = {})
       \<and> merged_set w p q t = set_option v
       \<and> (\<exists>c. case v of None \<Rightarrow> True
              | Some i \<Rightarrow> c \<in> set (k_convs t) \<and> kv_id c = i \<and> kv_contactId c = p
                         \<and> kv_unreadCount c = sum_list (map kv_unreadCount (conversations_of w p q s)))
       \<and> \<not> has_rows w q t"
proof -
  let ?q = "md_secondaryContactId d"
  obtain pv u where pq: "p \<noteq> ?q"
    and tx: "merge_tx E w p d actor pv (resolve_merge (pv_suggestedResolution pv) (md_resolution d)) s = (Inr m, u)"
    and said: "announce_merge E w p ?q actor m u = (Inr (), t)"
    using run by (rule mergeContacts_run)
  obtain cs u1 where mv: "move_rows w p ?q (resolve_merge (pv_suggestedResolution pv) (md_resolution d)) (s\<lparr>k_contacts := cs\<rparr>) = (Inr (), u1)"
    and u: "\<exists>cs n rs. u = u1\<lparr>k_contacts := cs, k_seq := n, k_mergeRuns := rs\<rparr>"
    and v: "ms_survivorConversationId m = map_option kv_id (survivor_of p (conversations_of w p ?q s))"
    using tx by (rule merge_tx_run) blast
  have v': "ms_survivorConversationId m = map_option kv_id (survivor_of p (conversations_of w p ?q (s\<lparr>k_contacts := cs\<rparr>)))"
    using v by simp
  note rows = moved_rows [OF mv pq v', simplified]
  have same: "k_messages u = k_messages u1" "k_activities u = k_activities u1" "k_runs u = k_runs u1" "k_convs u = k_convs u1"
    "k_channels u = k_channels u1" "k_contactTags u = k_contactTags u1" "k_history u = k_history u1"
    using u by auto
  note tables = announce_tables [OF said]
  have "merged_set w p ?q t = merged_set w p ?q u1" and "has_rows w ?q t = has_rows w ?q u1"
    by (simp_all add: merged_set_def has_rows_def tables same)
  moreover have none: "ms_survivorConversationId m = None \<longleftrightarrow> merged_set w p ?q s = {}"
    by (simp add: v survivor_None merged_set_rows)
  moreover have "merged_set w p ?q u1 = set_option (ms_survivorConversationId m)"
  proof
    show "merged_set w p ?q u1 \<subseteq> set_option (ms_survivorConversationId m)" by (rule rows(4))
    show "set_option (ms_survivorConversationId m) \<subseteq> merged_set w p ?q u1"
      using rows(6) by (auto simp: merged_set_def)
  qed
  moreover have "\<exists>c. case ms_survivorConversationId m of None \<Rightarrow> True
      | Some i \<Rightarrow> c \<in> set (k_convs t) \<and> kv_id c = i \<and> kv_contactId c = p
                \<and> kv_unreadCount c = sum_list (map kv_unreadCount (conversations_of w p ?q s))"
    using rows(6) by (cases "ms_survivorConversationId m") (auto simp: tables same)
  moreover have "\<exists>log. k_activities t = map (\<lambda>x. if ay_conversationId x \<in> merged_set w p ?q s
      then x\<lparr>ay_conversationId := the (ms_survivorConversationId m)\<rparr> else x) (k_activities s) @ log"
    using tables(8) by (simp add: same rows(2))
  ultimately show ?thesis
    using rows(5) by (simp add: run Let_def tables(2-4) same rows(1,3))
qed


end
