(* ===== verification/Contact_System.thy ===== *)
theory Contact_System
  imports Contact_Moves
begin

text \<open>
  The contacts module as a whole. A request is an operation of the service; between requests other modules
  change everything but the merge links and the identities of the contacts, to which they add
  new ones. The links of merged contacts are a forest: following them from any contact ends
  at one contact that is not merged, and a merge joins two trees.
\<close>

section \<open>Requests\<close>

datatype contact_request =
    CreateContact string contact_dto
  | AssignContact string string assign_dto
  | SetLifecycle string string "string option"
  | AddTag string string string
  | RemoveTag string string string
  | AutoAssign string string
  | EditContact string string contact_dto
  | RemoveContact string string
  | SetStatus string string string
  | MergeContacts string string merge_dto "string option"
  | MergeLegacy string string string "resolution_dto option" "string option"

definition void_io :: "'a contacts \<Rightarrow> unit contacts" where
  "void_io m = bind_io m (\<lambda>_. ret ())"

fun perform_contact :: "contact_env \<Rightarrow> contact_request \<Rightarrow> unit contacts" where
  "perform_contact E (CreateContact w d) = void_io (contact_create E w d)"
| "perform_contact E (AssignContact w i d) = void_io (contact_assign w i d)"
| "perform_contact E (SetLifecycle w i v) = void_io (updateLifecycle w i v)"
| "perform_contact E (AddTag w i t) = void_io (addTag w i t)"
| "perform_contact E (RemoveTag w i t) = void_io (removeTag w i t)"
| "perform_contact E (AutoAssign w i) = void_io (autoAssign w i)"
| "perform_contact E (EditContact w i d) = void_io (contact_edit w i d)"
| "perform_contact E (RemoveContact w i) = void_io (contact_remove w i)"
| "perform_contact E (SetStatus w i st) = void_io (statusUpdate w i st)"
| "perform_contact E (MergeContacts w p d a) = void_io (mergeContacts E w p d a)"
| "perform_contact E (MergeLegacy w k x r a) = void_io (mergeLegacy E w k x r a)"

section \<open>The forest of merged contacts\<close>

type_synonym link = "string \<times> string \<times> string option"

definition link_of :: "contact \<Rightarrow> link" where
  "link_of c = (kt_id c, kt_workspaceId c, kt_mergedIntoContactId c)"

definition links :: "kstate \<Rightarrow> link list" where
  "links s = map link_of (k_contacts s)"

definition up :: "link list \<Rightarrow> string \<Rightarrow> string option" where
  "up ls i = (case map_of ls i of Some (_, Some j) \<Rightarrow> Some j | _ \<Rightarrow> None)"

text \<open>Following the links of merged contacts from one contact to another that has none.\<close>

inductive leads :: "('i \<Rightarrow> 'i option) \<Rightarrow> 'i \<Rightarrow> 'i \<Rightarrow> bool" for f where
  here: "f i = None \<Longrightarrow> leads f i i"
| onward: "f i = Some j \<Longrightarrow> leads f j r \<Longrightarrow> leads f i r"

inductive_cases leadsE: "leads f i r"

lemma leads_root: "leads f i r \<Longrightarrow> f r = None"
  by (induction rule: leads.induct)

lemma leads_unique: "leads f i r \<Longrightarrow> leads f i r' \<Longrightarrow> r = r'"
  by (induction rule: leads.induct) (auto elim: leadsE)

text \<open>Linking one root to another moves all that led to it.\<close>

lemma leads_join:
  assumes "leads f i r" and "f p = None" and "f q = None" and "p \<noteq> q"
  shows "leads (f(q \<mapsto> p)) i (if r = q then p else r)"
  using assms
proof (induction rule: leads.induct)
  case (here i)
  show ?case
  proof (cases "i = q")
    case True
    have "leads (f(q \<mapsto> p)) q p" by (rule leads.onward [OF _ leads.here]) (use here in simp_all)
    with True show ?thesis by (simp del: fun_upd_apply)
  next
    case False
    with here show ?thesis by (auto intro: leads.here)
  qed
next
  case (onward i j r)
  then have "i \<noteq> q" by auto
  with onward show ?case by (auto intro: leads.onward)
qed

text \<open>Removing a node frees those that were link_kept to it.\<close>

lemma leads_remove:
  assumes "leads f i r"
  shows "\<exists>r. leads (\<lambda>i. if i = d \<or> f i = Some d then None else f i) i r"
  using assms
proof (induction rule: leads.induct)
  case (here i)
  then have "leads (\<lambda>i. if i = d \<or> f i = Some d then None else f i) i i" by (intro leads.here) simp
  then show ?case ..
next
  case (onward i j r)
  show ?case
  proof (cases "i = d \<or> j = d")
    case True
    with onward.hyps(1) have "leads (\<lambda>i. if i = d \<or> f i = Some d then None else f i) i i" by (intro leads.here) auto
    then show ?thesis ..
  next
    case False
    then have "(\<lambda>i. if i = d \<or> f i = Some d then None else f i) i = Some j" using onward.hyps(1) by simp
    with onward.IH show ?thesis by (blast intro: leads.onward)
  qed
qed

definition forest_ok :: "link list \<Rightarrow> bool" where
  "forest_ok ls \<longleftrightarrow>
     distinct (map fst ls)
     \<and> (\<forall>i w j. (i, w, Some j) \<in> set ls \<longrightarrow> (\<exists>m. (j, w, m) \<in> set ls))
     \<and> (\<forall>i \<in> fst ` set ls. \<exists>r. leads (up ls) i r)"

lemma up_in: "distinct (map fst ls) \<Longrightarrow> (i, w, m) \<in> set ls \<Longrightarrow> up ls i = m"
  by (simp add: up_def split: option.split)

lemma up_Some: "up ls i = Some j \<Longrightarrow> \<exists>w. (i, w, Some j) \<in> set ls"
  by (auto simp: up_def dest!: map_of_SomeD split: option.splits)

lemma forest_root:
  assumes ok: "forest_ok ls" and "leads (up ls) i r" and "(i, w, m) \<in> set ls"
  shows "(r, w, None) \<in> set ls"
  using assms(2,3)
proof (induction arbitrary: m rule: leads.induct)
  case (here i)
  with up_in ok show ?case by (fastforce simp: forest_ok_def)
next
  case (onward i j r)
  then have "m = Some j" using up_in ok by (fastforce simp: forest_ok_def)
  with onward.prems ok obtain m' where "(j, w, m') \<in> set ls" unfolding forest_ok_def by blast
  then show ?case by (rule onward.IH)
qed

lemma forest_add:
  assumes ok: "forest_ok ls" and new: "i \<notin> fst ` set ls"
  shows "forest_ok (ls @ [(i, w, None)])"
proof -
  have same: "up (ls @ [(i, w, None)]) = up ls"
    by (rule ext) (simp add: up_def map_add_def split: option.split)
  have "leads (up ls) i i"
    using new by (intro leads.here) (auto simp: up_def rev_image_eqI dest: map_of_SomeD split: option.split)
  with ok new show ?thesis unfolding forest_ok_def same by fastforce
qed

lemma forest_add_all:
  "forest_ok ls \<Longrightarrow> distinct (map fst (ls @ map (\<lambda>x. (fst x, snd x, None)) new)) \<Longrightarrow> forest_ok (ls @ map (\<lambda>x. (fst x, snd x, None)) new)"
proof (induction new rule: rev_induct)
  case Nil
  then show ?case by simp
next
  case (snoc x new)
  obtain i w where x: "x = (i, w)" by fastforce
  let ?ls = "ls @ map (\<lambda>x. (fst x, snd x, None)) new"
  from snoc.prems(2) have "distinct (map fst ?ls)" and fresh: "i \<notin> fst ` set ?ls"
    by (auto simp: x image_image rev_image_eqI)
  then have "forest_ok ?ls" by (intro snoc.IH snoc.prems(1))
  from forest_add [OF this fresh, of w] show ?case by (simp add: x)
qed

definition link_under :: "string \<Rightarrow> string \<Rightarrow> link list \<Rightarrow> link list" where
  "link_under q p ls = map (\<lambda>(i, w, m). (i, w, if i = q then Some p else m)) ls"

lemma up_link_under:
  assumes "q \<in> fst ` set ls"
  shows "up (link_under q p ls) = (up ls)(q \<mapsto> p)"
proof
  fix i
  have "map_of (link_under q p ls) i = map_option (\<lambda>(w, m). (w, if i = q then Some p else m)) (map_of ls i)"
    by (induction ls) (auto simp: link_under_def)
  moreover have "map_of ls q \<noteq> None" using assms by (simp add: map_of_eq_None_iff)
  ultimately show "up (link_under q p ls) i = ((up ls)(q \<mapsto> p)) i"
    by (auto simp: up_def split: option.splits)
qed

lemma forest_join:
  assumes ok: "forest_ok ls" and p: "(p, w, None) \<in> set ls" and q: "(q, w, None) \<in> set ls" and "p \<noteq> q"
  shows "forest_ok (link_under q p ls)"
    and "leads (up ls) i r \<Longrightarrow> leads (up (link_under q p ls)) i (if r = q then p else r)"
proof -
  have keys: "map fst (link_under q p ls) = map fst ls" by (auto simp: link_under_def)
  have dist: "distinct (map fst ls)" using ok by (simp add: forest_ok_def)
  have up_eq: "up (link_under q p ls) = (up ls)(q \<mapsto> p)" by (rule up_link_under) (use q in force)
  have roots: "up ls p = None" "up ls q = None" using up_in [OF dist] p q by auto
  show join: "leads (up (link_under q p ls)) i (if r = q then p else r)" if "leads (up ls) i r" for i r
    unfolding up_eq by (rule leads_join [OF that roots \<open>p \<noteq> q\<close>])
  have "\<exists>m. (j, w', m) \<in> set (link_under q p ls)" if "(i, w', Some j) \<in> set (link_under q p ls)" for i w' j
  proof -
    have "\<exists>m. (j, w', m) \<in> set ls"
    proof (cases "i = q")
      case True
      with that obtain m where "j = p" and m: "(q, w', m) \<in> set ls" by (auto simp: link_under_def)
      moreover have "w' = w"
        using map_of_is_SomeI [OF dist m] map_of_is_SomeI [OF dist q] by simp
      ultimately show ?thesis using p by auto
    next
      case False
      with that have "(i, w', Some j) \<in> set ls" by (auto simp: link_under_def)
      with ok show ?thesis unfolding forest_ok_def by blast
    qed
    then show ?thesis by (force simp: link_under_def)
  qed
  moreover have "\<forall>i \<in> fst ` set (link_under q p ls). \<exists>r. leads (up (link_under q p ls)) i r"
    using ok join keys unfolding forest_ok_def by (metis list.set_map)
  ultimately show "forest_ok (link_under q p ls)" using dist keys unfolding forest_ok_def by metis
qed

definition unlink :: "string \<Rightarrow> link list \<Rightarrow> link list" where
  "unlink d ls = map (\<lambda>(i, w, m). (i, w, if m = Some d then None else m)) (filter (\<lambda>l. fst l \<noteq> d) ls)"

lemma up_unlink: "up (unlink d ls) = (\<lambda>i. if i = d \<or> up ls i = Some d then None else up ls i)"
proof
  fix i
  have "map_of (unlink d ls) i = (if i = d then None else map_option (\<lambda>(w, m). (w, if m = Some d then None else m)) (map_of ls i))"
    by (induction ls) (auto simp: unlink_def)
  then show "up (unlink d ls) i = (if i = d \<or> up ls i = Some d then None else up ls i)"
    by (auto simp: up_def split: option.splits)
qed

lemma forest_remove:
  assumes ok: "forest_ok ls"
  shows "forest_ok (unlink d ls)"
proof -
  have "\<exists>m. (j, w, m) \<in> set (unlink d ls)" if "(i, w, Some j) \<in> set (unlink d ls)" for i w j
  proof -
    from that have "j \<noteq> d" and "(i, w, Some j) \<in> set ls" by (auto simp: unlink_def split: if_splits)
    with ok obtain m where "(j, w, m) \<in> set ls" unfolding forest_ok_def by blast
    with \<open>j \<noteq> d\<close> show ?thesis by (force simp: unlink_def)
  qed
  moreover have "\<exists>r. leads (up (unlink d ls)) i r" if i: "i \<in> fst ` set (unlink d ls)" for i
  proof -
    from i have "i \<in> fst ` set ls" by (force simp: unlink_def)
    with ok obtain r where "leads (up ls) i r" unfolding forest_ok_def by blast
    then show ?thesis unfolding up_unlink by (rule leads_remove)
  qed
  moreover have "distinct (map fst (unlink d ls))"
  proof -
    have "map fst (unlink d ls) = filter (\<lambda>i. i \<noteq> d) (map fst ls)" by (induction ls) (auto simp: unlink_def)
    with ok show ?thesis by (simp add: forest_ok_def)
  qed
  ultimately show ?thesis unfolding forest_ok_def by blast
qed

section \<open>Operations and links\<close>

interpretation link_kept: step_order "\<lambda>s t. links t = links s"
  by unfold_locales simp_all

lemma keeps_links: "keeps (=) m \<Longrightarrow> keeps (\<lambda>s t. links t = links s) m"
  by (simp add: keeps_def)

lemma write_links:
  assumes "\<And>c. link_of (f c) = link_of c"
  shows "keeps (\<lambda>s t. links t = links s) (contact_write i f)"
proof (rule keepsI)
  fix s
  have "link_of (f c\<lparr>kt_updatedAt := n\<rparr>) = link_of c" for c n
    using assms [of c] by (simp add: link_of_def)
  then have "map link_of (upd_where (\<lambda>c. kt_id c = i) (\<lambda>c. f c\<lparr>kt_updatedAt := n\<rparr>) cs) = map link_of cs" for n cs
    by (rule map_upd_where)
  then show "links (snd (contact_write i f s)) = links s"
    by (simp add: contact_write_def links_def Let_def split: option.split)
qed

lemma event_links: "keeps (\<lambda>s t. links t = links s) (kemit ev)"
  unfolding kemit_def by (intro link_kept.r_modify) (simp add: links_def)

lemma id_links: "keeps (\<lambda>s t. links t = links s) (contact_id E)"
  by (rule keepsI) (simp add: contact_id_def links_def)

lemma lifecycle_keeps: "keeps (=) (resolveLifecycleId w v)"
  by (rule keepsI) (simp add: resolveLifecycleId_def split: option.split)

lemma require_keeps: "keeps (=) (require_member w u)" "keeps (=) (require_team w i)"
  by (auto intro!: keepsI simp: require_member_def require_team_def)

lemma respond_links: "keeps (\<lambda>s t. links t = links s) (respond c)"
  unfolding respond_def by (rule link_kept.r_gets)

lemma announce_links: "keeps (\<lambda>s t. links t = links s) (announce_contact w c)"
  unfolding announce_contact_def by (intro link_kept.r_intros respond_links event_links)

lemmas link_intros = link_kept.r_intros write_links event_links id_links respond_links announce_links
  keeps_links [OF editable_keeps] keeps_links [OF lifecycle_keeps] keeps_links [OF require_keeps(1)] keeps_links [OF require_keeps(2)]

lemma announce_tags_links: "keeps (\<lambda>s t. links t = links s) (announce_tags w i a t)"
  unfolding announce_tags_def Let_def by (intro link_intros)

lemma assign_links: "keeps (\<lambda>s t. links t = links s) (contact_assign w i d)"
  unfolding contact_assign_def by (intro link_intros) (simp add: link_of_def)

lemma setLifecycle_links: "keeps (\<lambda>s t. links t = links s) (updateLifecycle w i v)"
  unfolding updateLifecycle_def by (intro link_intros) (simp add: link_of_def)

lemma addTag_links: "keeps (\<lambda>s t. links t = links s) (addTag w i t)"
  unfolding addTag_def
  by (intro link_intros announce_tags_links link_kept.r_modify) (auto simp: links_def intro!: keepsI)

lemma removeTag_links: "keeps (\<lambda>s t. links t = links s) (removeTag w i t)"
  unfolding removeTag_def
  by (intro link_intros announce_tags_links link_kept.r_modify) (simp add: links_def)

lemma autoAssign_links: "keeps (\<lambda>s t. links t = links s) (autoAssign w i)"
proof -
  have "keeps (\<lambda>s t. links t = links s)
      (case agents of [] \<Rightarrow> ret None | u # us \<Rightarrow>
         bind_io (contact_write i (\<lambda>c. c\<lparr>kt_assigneeId := Some u\<rparr>)) (\<lambda>c.
         seq_io (announce_contact w c)
        (seq_io (kemit (ContactAssigned w i (Some u) (kt_teamId contact)))
         (bind_io (respond c) (\<lambda>r. ret (Some r))))))" for agents contact
    by (cases agents) (auto intro!: link_intros simp: link_of_def)
  then show ?thesis unfolding autoAssign_def by (intro link_intros)
qed

lemma edit_links: "keeps (\<lambda>s t. links t = links s) (contact_edit w i d)"
  unfolding contact_edit_def by (intro link_intros) (simp add: link_of_def apply_update_def)

lemma status_links: "keeps (\<lambda>s t. links t = links s) (statusUpdate w i st)"
  unfolding statusUpdate_def by (intro link_intros) (simp add: link_of_def)

lemma void_result: "snd (void_io m s) = snd (m s)"
  by (simp add: void_io_def snd_bind_ret)

text \<open>The three operations that change links.\<close>

lemma create_links:
  obtains "links (snd (contact_create E w d s)) = links s"
  | i where "i \<notin> fst ` set (links s)" and "links (snd (contact_create E w d s)) = links s @ [(i, w, None)]"
proof (cases "resolveLifecycleId w (js_default (kd_lifecycleId d) None) s")
  case (Pair r t)
  have t: "t = s" using keeps_result [OF lifecycle_keeps Pair] by simp
  have ids: "kt_id ` set (k_contacts s) = fst ` set (links s)" by (simp add: links_def link_of_def image_image)
  show thesis
  proof (cases r)
    case (Inl e)
    with Pair t show thesis by (intro that(1)) (simp add: contact_create_def io_simps)
  next
    case (Inr l)
    show thesis
    proof (cases "ke_uuid E (k_seq s) \<in> kt_id ` set (k_contacts s)")
      case True
      with Pair t Inr show thesis by (intro that(1)) (simp add: contact_create_def io_simps contact_id_def links_def)
    next
      case False
      with Pair t Inr ids show thesis
        by (intro that(2) [of "ke_uuid E (k_seq s)"])
          (simp_all add: contact_create_def io_simps contact_id_def kemit_def links_def link_of_def new_contact_def Let_def)
    qed
  qed
qed

lemma delete_links: "links (delete_contact i s) = unlink i (links s)"
proof -
  have "map link_of (map (\<lambda>c. if kt_mergedIntoContactId c = Some i then c\<lparr>kt_mergedIntoContactId := None\<rparr> else c)
          (filter (\<lambda>c. kt_id c \<noteq> i) cs)) = unlink i (map link_of cs)" for cs
    by (induction cs) (auto simp: link_of_def unlink_def)
  then show ?thesis by (simp add: delete_contact_def delete_conversations_def links_def Let_def)
qed

lemma remove_links:
  obtains "links (snd (contact_remove w i s)) = links s" | "links (snd (contact_remove w i s)) = unlink i (links s)"
proof (cases "getEditableContact w i False s")
  case (Pair r t)
  have "t = s" using keeps_result [OF editable_keeps Pair] by simp
  with Pair that delete_links show thesis by (cases r) (simp_all add: contact_remove_def io_simps)
qed

lemma merge_links:
  assumes run: "mergeContacts E w p d actor s = (Inr m, t)"
  shows "(p, w, None) \<in> set (links s)" and "(md_secondaryContactId d, w, None) \<in> set (links s)"
    and "p \<noteq> md_secondaryContactId d" and "links t = link_under (md_secondaryContactId d) p (links s)"
proof -
  let ?q = "md_secondaryContactId d"
  obtain pv u where pq: "p \<noteq> ?q"
    and tx: "merge_tx E w p d actor pv (resolve_merge (pv_suggestedResolution pv) (md_resolution d)) s = (Inr m, u)"
    and said: "announce_merge E w p ?q actor m u = (Inr (), t)"
    using run by (rule mergeContacts_run)
  let ?r = "resolve_merge (pv_suggestedResolution pv) (md_resolution d)"
  obtain a b v where a: "kfind_in w p s = Some a" and b: "kfind_in w ?q s = Some b"
    and live: "kt_mergedIntoContactId a = None" "kt_mergedIntoContactId b = None"
    and u_eq: "u = v\<lparr>k_contacts := merged_contacts p ?q ?r a b actor (k_now s) (k_contacts s),
              k_seq := k_seq u, k_mergeRuns := k_mergeRuns u\<rparr>"
    using tx by (rule merge_tx_run)
  have u: "k_contacts u = merged_contacts p ?q ?r a b actor (k_now s) (k_contacts s)"
    by (subst u_eq) simp
  show "(p, w, None) \<in> set (links s)" and "(?q, w, None) \<in> set (links s)"
    using a b live by (force simp: kfind_in_def links_def link_of_def dest: find_Some_in)+
  show "p \<noteq> ?q" by (rule pq)
  have "map link_of (merged_contacts p ?q ?r a b actor now cs) = link_under ?q p (map link_of cs)" for now cs
    using pq by (induction cs) (auto simp: merged_contacts_def link_of_def link_under_def retire_def survivor_fields_def)
  then show "links t = link_under ?q p (links s)"
    by (simp add: links_def announce_tables(1) [OF said] u)
qed

section \<open>Reachable states\<close>

text \<open>What the other modules do: contacts may change and appear, with no link.\<close>

definition elsewhere :: "kstate \<Rightarrow> kstate \<Rightarrow> bool" where
  "elsewhere s t \<longleftrightarrow>
     (\<exists>new. links t = links s @ map (\<lambda>x. (fst x, snd x, None)) new \<and> distinct (map fst (links t)))"

inductive kreach :: "contact_env \<Rightarrow> kstate \<Rightarrow> bool" for E where
  kstart: "k_contacts s = [] \<Longrightarrow> kreach E s"
| krequest: "kreach E s \<Longrightarrow> kreach E (snd (perform_contact E r s))"
| kother: "kreach E s \<Longrightarrow> elsewhere s t \<Longrightarrow> kreach E t"

lemma merged_forest:
  assumes "forest_ok (links s)"
  shows "forest_ok (links (snd (mergeContacts E w p d a s)))"
proof (cases "mergeContacts E w p d a s")
  case (Pair r t)
  show ?thesis
  proof (cases r)
    case (Inl e)
    with Pair have "mergeContacts E w p d a s = (Inl e, t)" by simp
    from mergeContacts_refused [OF this] Pair assms show ?thesis by simp
  next
    case (Inr m)
    with Pair have run: "mergeContacts E w p d a s = (Inr m, t)" by simp
    note m = merge_links [OF run]
    show ?thesis using forest_join(1) [OF assms m(1,2,3)] by (simp add: run m(4))
  qed
qed

lemma request_forest:
  assumes ok: "forest_ok (links s)"
  shows "forest_ok (links (snd (perform_contact E r s)))"
proof -
  have keep: "forest_ok (links (snd (m s)))" if "keeps (\<lambda>s t. links t = links s) m" for m :: "'z contacts"
    using keepsD [OF that, of s] ok by simp
  show ?thesis
  proof (cases r)
    case (CreateContact w d)
    then show ?thesis
      using create_links [of E w d s] forest_add [OF ok] ok by (simp add: void_result) metis
  next
    case (RemoveContact w i)
    then show ?thesis
      using remove_links [of w i s] forest_remove [OF ok] ok by (simp add: void_result) metis
  next
    case (MergeContacts w p d a)
    then show ?thesis using merged_forest [OF ok] by (simp add: void_result)
  next
    case (MergeLegacy w k x res a)
    then show ?thesis using merged_forest [OF ok] by (simp add: void_result mergeLegacy_def)
  qed (simp_all add: void_result keep assign_links setLifecycle_links addTag_links removeTag_links autoAssign_links edit_links status_links)
qed

lemma reach_forest: "kreach E s \<Longrightarrow> forest_ok (links s)"
proof (induction rule: kreach.induct)
  case (kstart s)
  then show ?case by (simp add: links_def forest_ok_def)
next
  case (krequest s r)
  then show ?case by (intro request_forest)
next
  case (kother s t)
  then obtain new where "links t = links s @ map (\<lambda>x. (fst x, snd x, None)) new" and "distinct (map fst (links t))"
    unfolding elsewhere_def by blast
  with forest_add_all [OF kother.IH, of new] show ?case by simp
qed

text \<open>A sample: two contacts of one workspace, made by another module.\<close>

definition sample_contact :: "string \<Rightarrow> string \<Rightarrow> contact" where
  "sample_contact i n =
     \<lparr>kt_id = i, kt_workspaceId = ''w'', kt_firstName = n, kt_lastName = None, kt_email = Some ''e'', kt_phone = None,
      kt_company = None, kt_avatarUrl = None, kt_lifecycleId = None, kt_status = None, kt_marketingOptOut = False,
      kt_mergedIntoContactId = None, kt_mergedAt = None, kt_mergedByUserId = None, kt_assigneeId = None, kt_teamId = None,
      kt_createdAt = 0, kt_updatedAt = 0\<rparr>"

definition empty_kstate :: kstate where
  "empty_kstate =
     \<lparr>k_now = 1, k_seq = 0, k_contacts = [], k_contactTags = [], k_channels = [], k_convs = [], k_messages = [], k_activities = [],
      k_runs = [], k_history = [], k_mergeRuns = [], k_tags = [], k_lifecycles = [], k_teams = [], k_teamMembers = [], k_members = [],
      k_events = []\<rparr>"

definition sample_conversation :: "string \<Rightarrow> string \<Rightarrow> int \<Rightarrow> conversation" where
  "sample_conversation v i n =
     \<lparr>kv_id = v, kv_workspaceId = ''w'', kv_contactId = i, kv_subject = None, kv_lastMessageId = None, kv_lastMessageAt = None,
      kv_lastIncomingAt = None, kv_unreadCount = n, kv_slaDueAt = None, kv_slaBreached = False, kv_priority = ''low'',
      kv_firstResponseAt = None, kv_resolvedAt = None, kv_createdAt = 0\<rparr>"

definition sample_kstate :: kstate where
  "sample_kstate = empty_kstate
     \<lparr>k_contacts := [sample_contact ''a'' ''A'', sample_contact ''b'' ''B''],
      k_convs := [sample_conversation ''x'' ''a'' 1, sample_conversation ''y'' ''b'' 2],
      k_messages := [\<lparr>km_id = ''m'', km_conversationId = ''y'', km_direction = ''incoming'', km_createdAt = 0\<rparr>]\<rparr>"

definition sample_contact_env :: contact_env where
  "sample_contact_env = \<lparr>ke_uuid = (\<lambda>n. replicate (n + 2) (CHR ''u'')), ke_publicUrl = None, ke_random = (\<lambda>n. n), ke_sort = (\<lambda>_ cs. cs)\<rparr>"

definition sample_merge :: merge_dto where
  "sample_merge = \<lparr>md_secondaryContactId = ''b'', md_source = None, md_reasonCodes = None, md_confidenceScore = None, md_resolution = None\<rparr>"

lemma sample_reached: "kreach E sample_kstate"
proof (rule kreach.kother)
  show "kreach E empty_kstate" by (rule kstart) (simp add: empty_kstate_def)
  show "elsewhere empty_kstate sample_kstate"
    unfolding elsewhere_def
    by (rule exI [of _ "[(''a'', ''w''), (''b'', ''w'')]"])
      (simp add: links_def link_of_def empty_kstate_def sample_kstate_def sample_contact_def)
qed

lemma sample_merged:
  "map_sum (\<lambda>_. ()) ms_survivorConversationId (fst (mergeContacts sample_contact_env ''w'' ''a'' sample_merge None sample_kstate)) = Inr (Some ''x'')"
  by code_simp

end
