(* ===== verification/Contact_Properties.thy ===== *)
theory Contact_Properties
  imports Contact_System
begin

text \<open>
  The properties of the contacts module: the survivors of merges, the union that a merge is, the rule of the
  duplicate search, automatic assignment and lists; and the limits of the code that modelling
  showed.
\<close>

section \<open>Survivors\<close>

lemma leads_total: "forest_ok ls \<Longrightarrow> \<exists>r. leads (up ls) i r"
proof (cases "i \<in> fst ` set ls")
  case True
  assume "forest_ok ls"
  with True show ?thesis unfolding forest_ok_def by blast
next
  case False
  then have "map_of ls i = None" by (simp add: map_of_eq_None_iff)
  then have "leads (up ls) i i" by (intro leads.here) (simp add: up_def)
  then show ?thesis ..
qed

lemma link_contact: "(i, w, m) \<in> set (links s) \<longleftrightarrow> (\<exists>c \<in> set (k_contacts s). kt_id c = i \<and> kt_workspaceId c = w \<and> kt_mergedIntoContactId c = m)"
  by (auto simp: links_def link_of_def)

text \<open>
  C17: Whatever requests the module and the other modules have served, the merge links of the contacts end:
  from every contact they lead to exactly one contact, which is not merged itself and belongs to the same
  workspace. There are no cycles, no links to contacts that are gone, and no links across workspaces.
\<close>

theorem contacts_have_survivor:
  assumes "kreach E s" and "c \<in> set (k_contacts s)"
  shows "\<exists>!r. r \<in> set (k_contacts s) \<and> leads (up (links s)) (kt_id c) (kt_id r)
           \<and> kt_mergedIntoContactId r = None \<and> kt_workspaceId r = kt_workspaceId c"
proof -
  have ok: "forest_ok (links s)" by (rule reach_forest [OF assms(1)])
  have c: "(kt_id c, kt_workspaceId c, kt_mergedIntoContactId c) \<in> set (links s)"
    using assms(2) link_contact by blast
  obtain i where i: "leads (up (links s)) (kt_id c) i" using leads_total [OF ok] by blast
  obtain r where r: "r \<in> set (k_contacts s)" "kt_id r = i" "kt_workspaceId r = kt_workspaceId c" "kt_mergedIntoContactId r = None"
    using forest_root [OF ok i c] link_contact by blast
  have dist: "distinct (map kt_id (k_contacts s))"
    using ok by (simp add: forest_ok_def links_def link_of_def comp_def)
  show ?thesis
  proof (rule ex1I [of _ r])
    show "r \<in> set (k_contacts s) \<and> leads (up (links s)) (kt_id c) (kt_id r)
        \<and> kt_mergedIntoContactId r = None \<and> kt_workspaceId r = kt_workspaceId c" using r i by simp
  next
    fix x assume x: "x \<in> set (k_contacts s) \<and> leads (up (links s)) (kt_id c) (kt_id x)
        \<and> kt_mergedIntoContactId x = None \<and> kt_workspaceId x = kt_workspaceId c"
    then have "kt_id x = kt_id r" using leads_unique i r(2) by metis
    with x r(1) dist show "x = r" by (auto simp: distinct_map dest: inj_onD)
  qed
qed

definition sample_after :: kstate where
  "sample_after = snd (perform_contact sample_contact_env (MergeContacts ''w'' ''a'' sample_merge None) sample_kstate)"

lemma sample_links: "links sample_after = [(''a'', ''w'', None), (''b'', ''w'', Some ''a'')]"
  by code_simp

theorem contacts_have_survivor_witness:
  "\<exists>c \<in> set (k_contacts sample_after). kt_id c = ''b'' \<and> kt_mergedIntoContactId c = Some ''a''
     \<and> (\<exists>!r. r \<in> set (k_contacts sample_after) \<and> leads (up (links sample_after)) (kt_id c) (kt_id r)
           \<and> kt_mergedIntoContactId r = None \<and> kt_workspaceId r = kt_workspaceId c)"
proof -
  have reached: "kreach sample_contact_env sample_after"
    unfolding sample_after_def by (rule krequest [OF sample_reached])
  have "(''b'', ''w'', Some ''a'') \<in> set (links sample_after)" by (simp add: sample_links)
  then obtain c where c: "c \<in> set (k_contacts sample_after)" "kt_id c = ''b''" "kt_mergedIntoContactId c = Some ''a''"
    using link_contact by blast
  from contacts_have_survivor [OF reached c(1)] c show ?thesis by blast
qed

section \<open>A merge is a union\<close>

text \<open>
  The abstraction: two contacts are one person if their links lead to the same survivor. The union of two
  classes is what a merge promises.
\<close>

definition persons :: "kstate \<Rightarrow> (string \<times> string) set" where
  "persons s = {(a, b). \<exists>r. leads (up (links s)) a r \<and> leads (up (links s)) b r}"

definition joined_classes :: "'i \<Rightarrow> 'i \<Rightarrow> ('i \<times> 'i) set \<Rightarrow> ('i \<times> 'i) set" where
  "joined_classes p q R = R \<union> {(a, b). (a, p) \<in> R \<and> (q, b) \<in> R} \<union> {(a, b). (a, q) \<in> R \<and> (p, b) \<in> R}"

lemma persons_iff:
  assumes "leads (up (links s)) a r" and "leads (up (links s)) b r'"
  shows "(a, b) \<in> persons s \<longleftrightarrow> r = r'"
proof
  assume "(a, b) \<in> persons s"
  then obtain x where "leads (up (links s)) a x" and "leads (up (links s)) b x" unfolding persons_def by blast
  with leads_unique [OF assms(1), of x] leads_unique [OF assms(2), of x] show "r = r'" by simp
next
  assume "r = r'"
  with assms show "(a, b) \<in> persons s" unfolding persons_def by blast
qed

lemma persons_equiv:
  assumes ok: "forest_ok (links s)"
  shows "equiv UNIV (persons s)"
proof (rule equivI)
  show "refl (persons s)"
    using leads_total [OF ok] unfolding persons_def by (auto simp: refl_on_def)
  show "sym (persons s)" unfolding persons_def by (auto simp: sym_def)
  show "trans (persons s)"
  proof (rule transI)
    fix a b c assume ab: "(a, b) \<in> persons s" and bc: "(b, c) \<in> persons s"
    obtain x y z where "leads (up (links s)) a x" "leads (up (links s)) b y" "leads (up (links s)) c z"
      using leads_total [OF ok] by metis
    with ab bc show "(a, c) \<in> persons s" by (simp add: persons_iff)
  qed
qed simp

text \<open>
  C18: A merge is the union of two classes. In every reachable state a merge that succeeds makes one person of
  the two contacts and of all that were merged into either before, with the primary contact as the survivor
  of the duplicate, and leaves every other pair of contacts as it was; a merge that fails changes nothing.
\<close>

theorem merge_joins_persons:
  assumes "kreach E s"
  shows "case mergeContacts E w p d actor s of
           (Inl e, t) \<Rightarrow> persons t = persons s
         | (Inr m, t) \<Rightarrow> persons t = joined_classes p (md_secondaryContactId d) (persons s)
                         \<and> leads (up (links t)) (md_secondaryContactId d) p"
proof (cases "mergeContacts E w p d actor s")
  case (Pair r t)
  let ?q = "md_secondaryContactId d"
  have ok: "forest_ok (links s)" by (rule reach_forest [OF assms])
  show ?thesis
  proof (cases r)
    case (Inl e)
    with Pair have "t = s" using mergeContacts_refused by blast
    with Pair Inl show ?thesis by simp
  next
    case (Inr m)
    with Pair have run: "mergeContacts E w p d actor s = (Inr m, t)" by simp
    note m = merge_links [OF run]
    have roots: "leads (up (links s)) p p" "leads (up (links s)) ?q ?q"
      using up_in ok m(1,2) by (auto simp: forest_ok_def intro!: leads.here)
    have moved: "leads (up (links t)) i (if r = ?q then p else r)" if "leads (up (links s)) i r" for i r
      unfolding m(4) by (rule forest_join(2) [OF ok m(1-3) that])
    have pair: "(a, b) \<in> persons t \<longleftrightarrow> (a, b) \<in> joined_classes p ?q (persons s)" for a b
    proof -
      obtain ra rb where a: "leads (up (links s)) a ra" and b: "leads (up (links s)) b rb"
        using leads_total [OF ok] by blast
      have "(a, b) \<in> persons t \<longleftrightarrow> (if ra = ?q then p else ra) = (if rb = ?q then p else rb)"
        by (rule persons_iff [OF moved [OF a] moved [OF b]])
      moreover note persons_iff [OF a b] persons_iff [OF a roots(1)] persons_iff [OF a roots(2)]
        persons_iff [OF roots(1) b] persons_iff [OF roots(2) b]
      ultimately show ?thesis using m(3) by (auto simp: joined_classes_def)
    qed
    have "leads (up (links t)) ?q p" using moved [OF roots(2)] by simp
    with run pair show ?thesis by auto
  qed
qed

theorem merge_joins_persons_witness:
  "(''a'', ''b'') \<notin> persons sample_kstate \<and> (''a'', ''b'') \<in> persons sample_after"
proof
  have "up (links sample_kstate) ''a'' = None" "up (links sample_kstate) ''b'' = None" by code_simp+
  then have "leads (up (links sample_kstate)) ''a'' ''a''" "leads (up (links sample_kstate)) ''b'' ''b''"
    by (auto intro: leads.here)
  from persons_iff [OF this] show "(''a'', ''b'') \<notin> persons sample_kstate" by simp
  obtain x t where pair: "mergeContacts sample_contact_env ''w'' ''a'' sample_merge None sample_kstate = (x, t)"
    by fastforce
  with sample_merged obtain m where "x = Inr m" by (cases x) auto
  with pair have run: "mergeContacts sample_contact_env ''w'' ''a'' sample_merge None sample_kstate = (Inr m, t)" by simp
  then have t: "t = sample_after" by (simp add: sample_after_def void_result)
  have "persons t = joined_classes ''a'' ''b'' (persons sample_kstate)"
    using merge_joins_persons [OF sample_reached, where w = "''w''" and p = "''a''" and d = sample_merge and actor = None and E = sample_contact_env]
    by (simp add: run) (simp add: sample_merge_def)
  moreover have "(i, i) \<in> persons sample_kstate" for i
    using leads_total [OF reach_forest [OF sample_reached]] unfolding persons_def by blast
  ultimately show "(''a'', ''b'') \<in> persons sample_after" by (simp add: t joined_classes_def)
qed

section \<open>Duplicates\<close>

lemma signal_score:
  "sum_list (map snd (signals cur c s)) \<ge> 35 \<longleftrightarrow>
     both_equal (normalizeOptionalEmail (kt_email cur)) (normalizeOptionalEmail (kt_email c))
     \<or> both_equal (normalizePhoneIdentifier (kt_phone cur)) (normalizePhoneIdentifier (kt_phone c))
     \<or> both_equal (contact_name_key cur) (contact_name_key c) \<and> shares_channel cur c s"
  by (simp add: signals_def)

lemma candidates_in: "c \<in> set (candidates cur s) \<Longrightarrow> c \<in> set (k_contacts s) \<and> is_candidate cur c"
  by (auto simp: candidates_def dest!: in_set_takeD)

lemma response_contact [simp]: "cr_contact (toContactResponse s c) = c"
  by (simp add: toContactResponse_def)

lemma nothing_to_compare:
  assumes "normalizeOptionalEmail (kt_email cur) = None" and "normalizePhoneIdentifier (kt_phone cur) = None"
    and "contact_name_key cur = None"
  shows "\<not> (sum_list (map snd (signals cur c s)) \<ge> 35)"
  unfolding signal_score using assms by (simp add: both_equal_def)

lemma suggestion_set:
  "sg_contact ` set (suggestions w cur s) = toContactResponse s ` {c \<in> set (candidates cur s). sum_list (map snd (signals cur c s)) \<ge> 35}"
proof -
  have "{g \<in> suggestion_of w cur s ` set (candidates cur s). sg_score g \<ge> 35}
      = suggestion_of w cur s ` {c \<in> set (candidates cur s). sum_list (map snd (signals cur c s)) \<ge> 35}"
    by (auto simp: suggestion_of_def)
  then show ?thesis
    using nothing_to_compare [of cur] by (auto simp: suggestions_def image_image suggestion_of_def)
qed


lemma sample_duplicates:
  "map_sum (\<lambda>_. ()) (map (\<lambda>g. (kt_id (cr_contact (sg_contact g)), sg_score g))) (fst (findDuplicates ''w'' ''a'' sample_kstate)) = Inr [(''b'', 55)]"
  by code_simp

section \<open>Assignment and lists\<close>

text \<open>The agent chosen is eligible, and none of the eligible agents has fewer contacts.\<close>

lemma auto_assign_least:
  assumes "sort_key (workload w s) (eligible_agents w c s) = u # us"
  shows "u \<in> set (eligible_agents w c s)" and "v \<in> set (eligible_agents w c s) \<Longrightarrow> workload w s u \<le> workload w s v"
proof -
  have set_eq: "set (eligible_agents w c s) = set (u # us)" using assms by (metis set_sort)
  then show "u \<in> set (eligible_agents w c s)" by simp
  have "sorted (map (workload w s) (u # us))" using sorted_sort_key [of "workload w s" "eligible_agents w c s"] by (simp add: assms)
  then show "workload w s u \<le> workload w s v" if "v \<in> set (eligible_agents w c s)"
    using that set_eq by auto
qed

text \<open>
  A page is the part of the export at its place; with an order of the database that only permutes, the pages
  of a limit hold every selected contact.
\<close>

lemma page_of_export:
  assumes "findAll E w opts s = (Inr pg, t)"
  shows "t = s" and "cp_data pg = take (cp_limit pg) (drop ((cp_page pg - 1) * cp_limit pg) (map (toContactResponse s) (selected_contacts E s w opts)))"
  using assms by (auto simp: findAll_def Let_def take_map drop_map split: option.splits)

lemma page_limit:
  assumes "findAll E w opts s = (Inr pg, t)"
  shows "length (cp_data pg) \<le> cp_limit pg"
  using page_of_export(2) [OF assms] by simp

lemma lists_hide_merged:
  assumes "\<And>ks cs. set (ke_sort E ks cs) = set cs" and "exportContacts E w opts s = (Inr rs, t)" and "r \<in> set rs"
  shows "kt_mergedIntoContactId (cr_contact r) = None \<and> kt_workspaceId (cr_contact r) = w"
  using assms by (auto simp: exportContacts_def selected_contacts_def listContactsWhere_def)

section \<open>Limits of the code\<close>

text \<open>The roles of the workspace members are those of the permission table, none of which is the role looked for.\<close>

lemma auto_assign_never:
  assumes "\<forall>m \<in> set (k_members s). kw_role m \<in> {''WS_OWNER'', ''WS_MANAGER'', ''WS_AGENT''}"
  shows "eligible_agents w c s = []"
  using assms by (auto simp: eligible_agents_def filter_empty_conv)

text \<open>A resolution that selects no tag keeps all of them.\<close>

lemma empty_tags_keep_all:
  "mr_tags r = [] \<Longrightarrow> set (merged_tag_ids s r p q) = xt_tagId ` (set (tags_of p s) \<union> set (tags_of q s))"
  by (auto simp: merged_tag_ids_def uniq_def)

text \<open>The removal of the contact that others were merged into makes these live again.\<close>

lemma removal_frees_merged:
  assumes "getEditableContact w i False s = (Inr c0, s)" and "c \<in> set (k_contacts s)" and "kt_id c \<noteq> i"
    and "kt_mergedIntoContactId c = Some i"
  shows "\<exists>d \<in> set (k_contacts (snd (contact_remove w i s))). kt_id d = kt_id c \<and> kt_mergedIntoContactId d = None \<and> kt_status d = kt_status c"
proof -
  have "snd (contact_remove w i s) = delete_contact i s"
    using assms(1) by (simp add: contact_remove_def io_simps)
  moreover have "c\<lparr>kt_mergedIntoContactId := None\<rparr> \<in> set (k_contacts (delete_contact i s))"
    using assms(2-4) by (auto simp: delete_contact_def delete_conversations_def Let_def image_iff intro!: bexI [of _ c])
  ultimately show ?thesis by (intro bexI [of _ "c\<lparr>kt_mergedIntoContactId := None\<rparr>"]) simp_all
qed

text \<open>A merge takes the lifecycle stage of the request if it exists in any workspace.\<close>

lemma merge_lifecycle_unchecked:
  assumes "mr_lifecycleId r = Some l"
  shows "kt_lifecycleId (survivor_fields r a b c) = Some l"
  using assms by (simp add: survivor_fields_def)

text \<open>A lifecycle identifier that is no UUID clears the stage instead of being refused.\<close>

lemma malformed_lifecycle_clears:
  "normalizeContactUuid v = None \<Longrightarrow> resolveLifecycleId w v s = (Inr None, s)"
  by (simp add: resolveLifecycleId_def)

text \<open>A status is any text, also the one that marks a merged contact.\<close>

lemma status_unchecked:
  assumes "getEditableContact w i False s = (Inr c, s)" and "kfind i s = Some c" and "lifecycle_exists s (kt_lifecycleId c)"
  shows "map_sum (\<lambda>_. ()) (kt_status \<circ> cr_contact) (fst (statusUpdate w i st s)) = Inr (Some st)"
  using assms
  by (simp add: statusUpdate_def io_simps contact_write_def kemit_def announce_contact_def respond_def Let_def)

text \<open>A page number that is no number makes the list fail.\<close>

lemma page_not_a_number: "lo_page opts = Some NaN \<Longrightarrow> findAll E w opts s = (Inl PrismaValidation, s)"
  by (simp add: findAll_def num_max_def whole_def)

text \<open>A conversation without messages comes before all others, and is the one that a merge keeps.\<close>

lemma empty_conversation_first:
  assumes "c \<in> set rows" and "kv_lastMessageAt c = None"
  shows "kv_lastMessageAt (hd (conversation_order rows)) = None"
proof -
  let ?k = "\<lambda>c. if kv_lastMessageAt c = None then 0 else (1 :: nat)"
  have sorted: "sorted (map ?k (conversation_order rows))" by (simp add: conversation_order_def)
  have in_order: "c \<in> set (conversation_order rows)" using assms(1) by (simp add: conversation_order_def)
  then obtain d ds where order: "conversation_order rows = d # ds" by (cases "conversation_order rows") auto
  have "\<forall>x \<in> set ds. ?k d \<le> ?k x"
    using sorted unfolding order list.map sorted_simps(2) set_map by blast
  then have "?k d \<le> ?k c" using in_order unfolding order by (cases "c = d") auto
  with assms(2) show ?thesis unfolding order by (simp split: if_splits)
qed

end
