(* ===== verification/Spec2Isabelle.thy ===== *)
theory Spec2Isabelle
  imports Billing_Routes Auth_Properties Auth_Accounts Auth_Guard Workflow_System Workflow_Answers Notify_Limits Outbound_Validator Contact_Properties
begin

text \<open>
  A verification library for the back end of a customer-messaging desk (a NestJS application over
  PostgreSQL, Redis and third-party services).

  \<^bold>\<open>Parts of the program and the theories that model them.\<close>
  \<^item> \<^verbatim>\<open>Prelude\<close>: null and string conventions of TypeScript, exceptions, the effect of an
    asynchronous method as a function from the state to a result and the next state, tables as lists
    of rows, and the locale \<open>step_order\<close> with one lemma per effect combinator. Every invariant and
    every frame property of a handler is an instance of this locale.
  \<^item> \<^verbatim>\<open>Billing_Model\<close>, \<^verbatim>\<open>Razorpay_Service\<close>, \<^verbatim>\<open>Stripe_Service\<close>: the five billing tables of
    \<^verbatim>\<open>prisma/schema.prisma\<close> with their unique constraints, and the two wrappers of the payment
    providers (\<^verbatim>\<open>billing/providers\<close>). The provider SDKs and the clock are parameters of the
    environment; provider calls are recorded in the state, so that a property can count them.
  \<^item> \<^verbatim>\<open>Billing_Ops\<close>, \<^verbatim>\<open>Billing_Reconcile\<close>, \<^verbatim>\<open>Billing_Payments\<close>, \<^verbatim>\<open>Billing_Webhooks\<close>,
    \<^verbatim>\<open>Billing_Checkout\<close>, \<^verbatim>\<open>Billing_Plans\<close>: \<^verbatim>\<open>billing/billing.service.ts\<close> in the order of its
    concerns: the state machine of subscription operations with its keys, locks and retries; the
    reconciler; payments and invoices; both webhooks; checkout, plan change and trials; plans, usage
    and limits (\<^verbatim>\<open>plans.config.ts\<close>, \<^verbatim>\<open>usage\<close>, \<^verbatim>\<open>billing-access.service.ts\<close>).
  \<^item> \<^verbatim>\<open>Billing_System\<close>, \<^verbatim>\<open>Billing_Routes\<close>: the step relation of the billing module and its
    controller behind the guards.
  \<^item> \<^verbatim>\<open>Access_Control\<close>: the permission tables, the route guard, the membership guards and the guard
    of the platform administration (\<^verbatim>\<open>common/auth\<close>, \<^verbatim>\<open>common/guards\<close>, \<^verbatim>\<open>platform-admin\<close>).
  \<^item> \<^verbatim>\<open>Auth_Totp\<close>, \<^verbatim>\<open>Auth_Model\<close>, \<^verbatim>\<open>Auth_Sessions\<close>, \<^verbatim>\<open>Auth_TwoFactor\<close>, \<^verbatim>\<open>Auth_Login\<close>,
    \<^verbatim>\<open>Auth_Guard\<close>: the authentication module (\<^verbatim>\<open>modules/auth\<close>): authenticator codes on bytes and
    32-bit words; the tables and Redis keys; sessions, cached contexts and rotating refresh tokens;
    the second factor; the ways in; the token guard and its composition with the route guard.
    \<^verbatim>\<open>Auth_Rotation\<close>, \<^verbatim>\<open>Auth_System\<close>, \<^verbatim>\<open>Auth_Codes\<close>, \<^verbatim>\<open>Auth_Accounts\<close> and
    \<^verbatim>\<open>Auth_Properties\<close> hold their properties.
  \<^item> \<^verbatim>\<open>Js_Values\<close>: the dynamic values of TypeScript, their conversions to numbers and strings, and
    the template renderer of \<^verbatim>\<open>common/variables/variable-metadata.ts\<close>.
  \<^item> \<^verbatim>\<open>Workflow_Config\<close>, \<^verbatim>\<open>Workflow_Rulebook\<close>, \<^verbatim>\<open>Workflow_Service\<close>, \<^verbatim>\<open>Workflow_Pages\<close>: stored
    workflows (\<^verbatim>\<open>modules/workflows/workflows.service.ts\<close>, \<^verbatim>\<open>workflow-delivery-rulebook.ts\<close>): the validation
    of a configuration, the rules of delivery that are checked at publication, the requests of users,
    the lists and the pages of runs.
  \<^item> \<^verbatim>\<open>Workflow_Model\<close>, \<^verbatim>\<open>Workflow_Conditions\<close>, \<^verbatim>\<open>Workflow_Steps\<close>, \<^verbatim>\<open>Workflow_Actions\<close>,
    \<^verbatim>\<open>Workflow_Engine\<close>, \<^verbatim>\<open>Workflow_Triggers\<close>: the engine (\<^verbatim>\<open>workflow-engine.service.ts\<close>,
    \<^verbatim>\<open>branch-routing.util.ts\<close>, \<^verbatim>\<open>workers/workflow.worker.ts\<close>): tables, Redis keys and queue; conditions,
    branches and answers; one definition per kind of step; the life of a run; the events that start
    and resume one. \<^verbatim>\<open>Workflow_Frames\<close>, \<^verbatim>\<open>Workflow_Runs\<close>, \<^verbatim>\<open>Workflow_Delivery\<close>,
    \<^verbatim>\<open>Workflow_Termination\<close>, \<^verbatim>\<open>Workflow_Answers\<close> and \<^verbatim>\<open>Workflow_System\<close> hold its properties.
  \<^item> \<^verbatim>\<open>Notify_Model\<close>, \<^verbatim>\<open>Notify_Presence\<close>, \<^verbatim>\<open>Notify_Rules\<close>, \<^verbatim>\<open>Notify_Service\<close>, \<^verbatim>\<open>Notify_Worker\<close>:
    notifications (\<^verbatim>\<open>modules/notifications\<close>, \<^verbatim>\<open>realtime\<close>, \<^verbatim>\<open>workers/notification.worker.ts\<close>): rows,
    links and queue; presence, sockets and preferences; the rule engine; creation, dispatch, lists and
    devices; the jobs that send e-mails and pushes. \<^verbatim>\<open>Notify_System\<close> has the operations as steps and the
    locale of the relations they keep; \<^verbatim>\<open>Notify_Once\<close>, \<^verbatim>\<open>Notify_Push\<close>, \<^verbatim>\<open>Notify_Email\<close> and
    \<^verbatim>\<open>Notify_Pages\<close> hold the properties, \<^verbatim>\<open>Notify_Limits\<close> the runs where the module does less than
    it means to.
  \<^item> \<^verbatim>\<open>Outbound_Validator\<close>: the check before a message is sent and the translation of provider errors
    (\<^verbatim>\<open>modules/outbound/send-validator.ts\<close>).
  \<^item> \<^verbatim>\<open>Activity_Log\<close>: the history of conversations and the timeline (\<^verbatim>\<open>modules/activity\<close>).
    \<^verbatim>\<open>Contact_Model\<close>, \<^verbatim>\<open>Contact_Service\<close>, \<^verbatim>\<open>Contact_Merge\<close>: contacts (\<^verbatim>\<open>modules/contacts\<close>): rows and
    normalisers; the operations on one contact and the lists; the search for duplicates and the merge,
    one definition per stage of its transaction. \<^verbatim>\<open>Contact_Moves\<close> shows what becomes of the rows,
    \<^verbatim>\<open>Contact_System\<close> has the requests as steps and the forest of merge links, \<^verbatim>\<open>Contact_Properties\<close> the
    properties and the limits.

  \<^bold>\<open>How state and operations correspond to the code.\<close> A handler of the service is one definition of
  the same name, with the state of its module as an explicit record (\<open>world\<close> for billing, \<open>auth\<close> for
  authentication, \<open>request\<close> for the guards, \<open>wf\<close> for workflows, \<open>nstate\<close> for
  notifications, \<open>kstate\<close> for contacts). Rows are records with a prefix per table; a unique
  constraint is a failing insert; an update of a missing row is the error \<open>PrismaP2025\<close>. An exception
  keeps the writes made before it, except inside \<open>transaction\<close> and \<open>in_transaction\<close>. The clock, fresh ids and random values
  are functions of the state, so they may change with every write. Where a handler reads a row and
  writes it later, the writing half is a definition of its own that takes the row as it was read
  (\<open>replacement_write\<close>, \<open>refresh_with\<close>), so that overlapping requests can be stated. The worker of
  workflows handles one job at a time, so the context object of the job is a component of \<open>wf\<close>; jobs
  are taken from the queue in any order and may be tried again (\<open>engine_step\<close>).

  \<^bold>\<open>What is shown.\<close>
  \<^item> Billing: in every reachable state the tables are consistent; an operation is never lost, never
    claimed twice and always released; a refund is issued at most once; a cancellation is not
    requested twice and never hits the new subscription; payments and invoices are recorded once;
    webhooks activate, fail and ignore as they should; checkout is exclusive per workspace.
  \<^item> Access: the route guard is exactly the access rule of the route; a billing request acts only
    for an admitted user.
  \<^item> Authentication: in every reachable state a session has at most one live refresh token and only
    active sessions are served; a refresh replaces its token and a second use ends the session; an
    ended session stays refused for ever; a request passes both guards only with a token of an active
    session; a password sign-in, a code and a link work only under their conditions, and failures
    lock and exhaust them; authenticator codes are those of the published algorithm.
  \<^item> Workflows: a configuration is accepted exactly if its steps form a forest below the trigger, and
    every stored one was accepted; a published message has a channel that can send it and, where the
    channel needs it, a reply on its path that is recent enough; a run executes a bounded number of
    steps per event; a run that ended is never written again; the end of a sub-workflow frees the run
    that waits for it; an event starts a run exactly under the conditions of the trigger; a message
    answers a question once; requests stay inside their workspace, and run pages mask secrets.
  \<^item> Notifications: each of the six channels is decided once, by the type, the preferences, the presence
    and the open sockets; a user has one notification per deduplication key; an endpoint accepts a push of
    a delivery once however often the job is retried, and the summary of a run accounts for every device;
    after the e-mail for a contact's message no further one is queued while the user is away; the pages of
    the list have every notification once.
  \<^item> Outbound: the check before sending passes exactly for a connected channel that reaches the contact,
    inside the messaging window where there is one; every provider error becomes an error with a message,
    and a refusal comes out of the translation unchanged.
  \<^item> Contacts: a merge that fails changes nothing; one that succeeds moves every message, event and
    workflow run into one conversation of the contact that stays and leaves the duplicate without rows; the
    merge links form a forest inside each workspace, and a merge is the union of two of its trees; the
    search for duplicates is one rule with scores from 35 to 100.
  \<^item> Where the code does less than it means to, the theorem states what it does: an account without
    password can be claimed by sign-up, the setup of the second factor disarms the one in use, two
    overlapping refreshes fork a token family, the invoices of all workspaces are listed for a
    request without workspace, a workflow of any workspace can be stopped, a step with the id of the
    trigger loops, and an update of a published workflow skips the delivery rules.

  \<^bold>\<open>Interfaces.\<close> \<open>step_order\<close> is interpreted for the consistency and the frames of each module;
  \<open>session_relation\<close> extends it with what sign-in relies on of the session component, and is
  interpreted for the consistency of sessions and for their permanence. For workflows \<open>step_order\<close> is
  interpreted for what a handler leaves alone (\<open>quiet\<close>, \<open>calm\<close>, \<open>silent\<close>), for the permanence of ended
  runs and for the validity of stored configurations; its lemma \<open>along_steps\<close> carries a relation of
  single steps to every sequence of steps. For notifications \<open>notify_order\<close> lists what has to be shown of
  a relation so that every operation keeps it; it holds of the uniqueness of keys, of the record of pushes
  and of the state in which a user has had the e-mail of a contact. For contacts \<open>step_order\<close> is
  interpreted for the operations that only read and for those that keep every merge link.

  \<^bold>\<open>Bounds.\<close> \<open>customer_pages\<close> reads at most ten pages, as the loop of the source does;
  \<open>cancel_rounds\<close> makes at most two rounds, because a second conflict on the unique key cannot
  follow a read that found the row. The fuel of \<open>drive\<close>, which
  follows the steps of a run, is one more than the number of steps plus the allowed jumps times the
  size of the workflow, and \<open>run_chain_terminates\<close> shows that it is enough. The recursion of
  \<open>completeRun\<close> through parents ends because each run it ends was waiting before. All other loops
  are over lists of the state.

  \<^bold>\<open>Not modelled.\<close> Mail texts, redirects and cookies; analytics; the conversation, broadcast,
  inbound and outbound modules, the channel and shop integrations, the reporting
  queries of the platform administration, imports and exports and boot code. Most of
  them translate to and from third-party wire formats or are queries; the
  module that sends messages has logic of its own and is the next to model. In the
  workflow module: the assistant that builds workflows (prompts and a call to a language model);
  rounding of binary fractions, which are exact rationals here; keys that every object
  inherits. In the notification module: the encryption of pushes and the SMTP connection, whose answers are
  arguments of a job. In the contacts module: the tables of integrations, commerce, broadcasts and
  unsubscribe tokens, which a merge leaves alone; the order of the database for a list is a parameter. Dates, time zones, URLs and the code point of the star are parameters (\<open>js_runtime\<close>), as
  are the outbound worker, the HTTP endpoint of a request step and the clock (\<open>wf_env\<close>).
\<close>

section \<open>Consistency of the billing tables\<close>

text \<open>
  C1: In every state that the billing module can reach, through requests of the controller, webhooks of either
  provider, the reconciliation job, queued clean-ups, the expiry of trials, usage counts and
  upserts that act on a stale read, the tables are consistent: row ids, the subscription of a
  workspace, provider subscription ids, operation keys, provider payment ids and provider
  invoice ids are unique, and every operation has the key that belongs to its two
  subscriptions, which differ. Every further step and every guarded request keep it so, and no operation is ever deleted
  or given another identity.
\<close>

theorem billing_tables_consistent:
  assumes "reachable E s" and "fresh_ids E"
  shows "tables_ok s
     \<and> (\<forall>t. billing_step E s t \<longrightarrow> tables_ok t \<and> ops_grow s t)
     \<and> (\<forall>rq req. rq_workspaceId rq = None \<longrightarrow> tables_ok (snd (billing_route E rq req s)))"
  using assms reachable_ok [of E] step_consistent [of E s] route_reachable [OF assms(1)]
  by (auto simp: consistent_def intro: reachable.step)

theorem billing_tables_witness:
  "tables_ok (snd (billing_route sample_env sample_request Me
     (snd (createCheckout sample_env ''w'' \<lparr>dto_plan = ''pro'', dto_provider = ''stripe'',
        dto_successUrl = None, dto_cancelUrl = None\<rparr> (account sample_user) empty_world))))"
proof -
  have "reachable sample_env (snd (createCheckout sample_env ''w'' \<lparr>dto_plan = ''pro'',
      dto_provider = ''stripe'', dto_successUrl = None, dto_cancelUrl = None\<rparr> (account sample_user) empty_world))"
    by (rule reachable.step [OF reachable.initial billing_step.checkout])
  moreover have "fresh_ids sample_env" by (rule fresh_sample) (rule refl)
  moreover have "rq_workspaceId sample_request = None" by (simp add: sample_request_def)
  ultimately show ?thesis using billing_tables_consistent by blast
qed

end
